(* ===== verification/Go_Time.thy ===== *)
theory Go_Time
  imports Prelude
begin

text \<open>
  The part of Go's \<open>time\<close> package the service uses. An instant is a number of nanoseconds since
  0001-01-01T00:00:00Z, so that the zero \<open>time.Time\<close> is 0; a date is a (year, month, day)
  triple, the value a \<open>DATE\<close> column holds. All times of the service are UTC.
\<close>

type_synonym time = int
type_synonym date = "int \<times> int \<times> int"

definition nanos_per_day :: int where
  "nanos_per_day = 86400 * 1000000000"

definition is_zero_time :: "time \<Rightarrow> bool" where
  "is_zero_time t \<longleftrightarrow> t = 0"

text \<open>The proleptic Gregorian date of a day number (day 0 is 0001-01-01).\<close>

definition civil_of_day :: "int \<Rightarrow> date" where
  "civil_of_day n =
     (let z = n + 306;
          era = z div 146097;
          doe = z mod 146097;
          yoe = (doe - doe div 1460 + doe div 36524 - doe div 146096) div 365;
          doy = doe - (365 * yoe + yoe div 4 - yoe div 100);
          mp = (5 * doy + 2) div 153;
          d = doy - (153 * mp + 2) div 5 + 1;
          m = (if mp < 10 then mp + 3 else mp - 9);
          y = yoe + era * 400 + (if m \<le> 2 then 1 else 0)
      in (y, m, d))"

definition day_of_civil :: "date \<Rightarrow> int" where
  "day_of_civil dt =
     (case dt of (y0, m, d) \<Rightarrow>
        let y = (if m \<le> 2 then y0 - 1 else y0);
            era = y div 400;
            yoe = y mod 400;
            doy = (153 * (if m > 2 then m - 3 else m + 9) + 2) div 5 + d - 1;
            doe = yoe * 365 + yoe div 4 - yoe div 100 + doy
        in era * 146097 + doe - 306)"

definition date_of :: "time \<Rightarrow> date" where
  "date_of t = civil_of_day (t div nanos_per_day)"

definition time_of_date :: "date \<Rightarrow> time" where
  "time_of_date d = day_of_civil d * nanos_per_day"

definition year_of :: "date \<Rightarrow> int" where
  "year_of d = fst d"

definition month_of :: "date \<Rightarrow> int" where
  "month_of d = fst (snd d)"

definition date_le :: "date \<Rightarrow> date \<Rightarrow> bool" where
  "date_le a b \<longleftrightarrow>
     (case a of (y1, m1, d1) \<Rightarrow> case b of (y2, m2, d2) \<Rightarrow>
        y1 < y2 \<or> (y1 = y2 \<and> (m1 < m2 \<or> (m1 = m2 \<and> d1 \<le> d2))))"

definition leap_year :: "int \<Rightarrow> bool" where
  "leap_year y \<longleftrightarrow> y mod 4 = 0 \<and> (y mod 100 \<noteq> 0 \<or> y mod 400 = 0)"

definition days_in_month :: "int \<Rightarrow> int \<Rightarrow> int" where
  "days_in_month y m =
     (if m = 2 then (if leap_year y then 29 else 28)
      else if m \<in> {4, 6, 9, 11} then 30 else 31)"

text \<open>\<open>Format("2006-01")\<close> and \<open>Format("2006-01-02")\<close>.\<close>

definition period_str :: "int \<Rightarrow> int \<Rightarrow> string" where
  "period_str y m = pad_left 4 (show_int y) @ ''-'' @ pad_left 2 (show_int m)"

definition format_period :: "date \<Rightarrow> string" where
  "format_period d = period_str (year_of d) (month_of d)"

definition format_date :: "date \<Rightarrow> string" where
  "format_date d = format_period d @ ''-'' @ pad_left 2 (show_int (snd (snd d)))"

definition period_of_time :: "time \<Rightarrow> string" where
  "period_of_time t = format_period (date_of t)"

text \<open>\<open>time.Parse("2006-01", s)\<close>: four digits, a dash and a two-digit month in 1..12.\<close>

definition digits_value :: "string \<Rightarrow> int" where
  "digits_value s = foldl (\<lambda>acc c. 10 * acc + (int (of_char c) - 48)) 0 s"

definition parse_period :: "string \<Rightarrow> (int \<times> int) option" where
  "parse_period s =
     (if length s = 7 \<and> s ! 4 = CHR ''-'' \<and> list_all is_digit (take 4 s) \<and> list_all is_digit (drop 5 s)
      then (let m = digits_value (drop 5 s) in
            if 1 \<le> m \<and> m \<le> 12 then Some (digits_value (take 4 s), m) else None)
      else None)"

text \<open>\<open>AddDate(0, 1, -1)\<close> and \<open>AddDate(0, 1, 0)\<close> of the first day of a month.\<close>

definition month_end :: "int \<Rightarrow> int \<Rightarrow> date" where
  "month_end y m = (y, m, days_in_month y m)"

definition next_month_start :: "int \<Rightarrow> int \<Rightarrow> date" where
  "next_month_start y m = (if m = 12 then (y + 1, 1, 1) else (y, m + 1, 1))"

text \<open>\<open>Truncate(time.Microsecond)\<close> and \<open>Format(time.RFC3339Nano)\<close>.\<close>

definition truncate_micros :: "time \<Rightarrow> time" where
  "truncate_micros t = t - t mod 1000"

definition format_rfc3339nano :: "time \<Rightarrow> string" where
  "format_rfc3339nano t =
     (let n = t mod nanos_per_day;
          secs = n div 1000000000;
          frac = n mod 1000000000;
          frac_str = (if frac = 0 then '''' else
            CHR ''.'' # rev (dropWhile (\<lambda>c. c = CHR ''0'') (rev (pad_left 9 (show_int frac)))))
      in format_date (date_of t) @ ''T'' @ pad_left 2 (show_int (secs div 3600)) @ '':''
         @ pad_left 2 (show_int (secs div 60 mod 60)) @ '':'' @ pad_left 2 (show_int (secs mod 60))
         @ frac_str @ ''Z'')"

lemma truncate_micros_idem [simp]: "truncate_micros (truncate_micros t) = truncate_micros t"
  by (simp add: truncate_micros_def)

lemma date_le_refl [simp]: "date_le d d"
  by (cases d) (simp add: date_le_def)

lemma date_le_trans: "date_le a b \<Longrightarrow> date_le b c \<Longrightarrow> date_le a c"
  by (cases a; cases b; cases c) (auto simp: date_le_def)

lemma date_le_total: "date_le a b \<or> date_le b a"
  by (cases a; cases b) (auto simp: date_le_def)

lemma date_le_antisym: "date_le a b \<Longrightarrow> date_le b a \<Longrightarrow> a = b"
  by (cases a; cases b) (auto simp: date_le_def)

end
