(* ===== verification/Actions.thy ===== *)
theory Actions
  imports Go_Time
begin

text \<open>
  Actions: a Go method that reads and writes the database and returns \<open>(value, error)\<close> is a
  function from the state to a result and the state it leaves. An error leaves a state too: what
  an earlier, already committed transaction of the same method wrote is not undone by a later
  failure.

  Invariants are carried by \<open>keeps\<close> (whatever the outcome) and by the triple \<open>valid\<close>, with
  one rule per way of composing actions; the rules are in the collection \<open>keeps_intros\<close>.
\<close>

type_synonym ('s, 'e, 'a) act = "'s \<Rightarrow> ('e + 'a) \<times> 's"

section \<open>Composition\<close>

definition ok :: "'a \<Rightarrow> ('s, 'e, 'a) act" where
  "ok a = (\<lambda>s. (Inr a, s))"

definition fail :: "'e \<Rightarrow> ('s, 'e, 'a) act" where
  "fail e = (\<lambda>s. (Inl e, s))"

definition gets :: "('s \<Rightarrow> 'a) \<Rightarrow> ('s, 'e, 'a) act" where
  "gets f = (\<lambda>s. (Inr (f s), s))"

definition modify :: "('s \<Rightarrow> 's) \<Rightarrow> ('s, 'e, unit) act" where
  "modify f = (\<lambda>s. (Inr (), f s))"

definition bind :: "('s, 'e, 'a) act \<Rightarrow> ('a \<Rightarrow> ('s, 'e, 'b) act) \<Rightarrow> ('s, 'e, 'b) act" where
  "bind m f = (\<lambda>s. case m s of (Inl e, s') \<Rightarrow> (Inl e, s') | (Inr a, s') \<Rightarrow> f a s')"

definition andthen :: "('s, 'e, 'a) act \<Rightarrow> ('s, 'e, 'b) act \<Rightarrow> ('s, 'e, 'b) act" where
  "andthen m k = bind m (\<lambda>_. k)"

definition require :: "bool \<Rightarrow> 'e \<Rightarrow> ('s, 'e, unit) act" where
  "require b e = (if b then ok () else fail e)"

definition when_ok :: "bool \<Rightarrow> ('s, 'e, unit) act \<Rightarrow> ('s, 'e, unit) act" where
  "when_ok b m = (if b then m else ok ())"

text \<open>\<open>errors.Is\<close> on the error of a call, and a fallback.\<close>

definition catch :: "('s, 'e, 'a) act \<Rightarrow> ('e \<Rightarrow> ('s, 'e, 'a) act) \<Rightarrow> ('s, 'e, 'a) act" where
  "catch m h = (\<lambda>s. case m s of (Inl e, s') \<Rightarrow> h e s' | (Inr a, s') \<Rightarrow> (Inr a, s'))"

fun for_each :: "'x list \<Rightarrow> ('x \<Rightarrow> ('s, 'e, unit) act) \<Rightarrow> ('s, 'e, unit) act" where
  "for_each [] f = ok ()"
| "for_each (x # xs) f = bind (f x) (\<lambda>_. for_each xs f)"

fun map_each :: "'x list \<Rightarrow> ('x \<Rightarrow> ('s, 'e, 'a) act) \<Rightarrow> ('s, 'e, 'a list) act" where
  "map_each [] f = ok []"
| "map_each (x # xs) f = bind (f x) (\<lambda>y. bind (map_each xs f) (\<lambda>ys. ok (y # ys)))"

definition result :: "('s, 'e, 'a) act \<Rightarrow> 's \<Rightarrow> 'e + 'a" where
  "result m s = fst (m s)"

definition final :: "('s, 'e, 'a) act \<Rightarrow> 's \<Rightarrow> 's" where
  "final m s = snd (m s)"

section \<open>Evaluation\<close>

lemma ok_apply [simp, act_simps]: "ok a s = (Inr a, s)"
  by (simp add: ok_def)

lemma fail_apply [simp, act_simps]: "fail e s = (Inl e, s)"
  by (simp add: fail_def)

lemma gets_apply [simp, act_simps]: "gets f s = (Inr (f s), s)"
  by (simp add: gets_def)

lemma modify_apply [simp, act_simps]: "modify f s = (Inr (), f s)"
  by (simp add: modify_def)

lemma bind_apply [act_simps]:
  "bind m f s = (case m s of (Inl e, s') \<Rightarrow> (Inl e, s') | (Inr a, s') \<Rightarrow> f a s')"
  by (simp add: bind_def)

lemma bind_ok [simp, act_simps]: "bind (ok a) f = f a"
  by (rule ext) (simp add: bind_def)

lemma bind_fail [simp, act_simps]: "bind (fail e) f = fail e"
  by (rule ext) (simp add: bind_def)

lemma bind_gets [simp, act_simps]: "bind (gets g) f s = f (g s) s"
  by (simp add: bind_def)

lemma bind_modify [simp, act_simps]: "bind (modify g) f s = f () (g s)"
  by (simp add: bind_def)

lemma bind_assoc: "bind (bind m f) g = bind m (\<lambda>a. bind (f a) g)"
  by (rule ext) (simp add: bind_def split: prod.split sum.split)

lemma andthen_apply [act_simps]:
  "andthen m k s = (case m s of (Inl e, s') \<Rightarrow> (Inl e, s') | (Inr a, s') \<Rightarrow> k s')"
  by (simp add: andthen_def bind_def)

lemma require_True [simp, act_simps]: "require True e = ok ()"
  by (simp add: require_def)

lemma require_False [simp, act_simps]: "require False e = fail e"
  by (simp add: require_def)

lemma when_ok_True [simp, act_simps]: "when_ok True m = m"
  by (simp add: when_ok_def)

lemma when_ok_False [simp, act_simps]: "when_ok False m = ok ()"
  by (simp add: when_ok_def)

lemma catch_ok [simp, act_simps]: "catch (ok a) h = ok a"
  by (rule ext) (simp add: catch_def)

lemma catch_apply [act_simps]:
  "catch m h s = (case m s of (Inl e, s') \<Rightarrow> h e s' | (Inr a, s') \<Rightarrow> (Inr a, s'))"
  by (simp add: catch_def)

lemma bind_Inr_iff:
  "bind m f s = (Inr b, s'') \<longleftrightarrow> (\<exists>a s'. m s = (Inr a, s') \<and> f a s' = (Inr b, s''))"
  by (auto simp: bind_def split: prod.splits sum.splits)

lemma bind_InrE:
  assumes "bind m f s = (Inr b, s'')"
  obtains a s' where "m s = (Inr a, s')" and "f a s' = (Inr b, s'')"
  using assms by (auto simp: bind_Inr_iff)

lemma require_Inr_iff: "require b e s = (Inr u, s') \<longleftrightarrow> b \<and> s' = s"
  by (cases b) (auto simp: require_def)

section \<open>Invariants\<close>

definition keeps :: "('s \<Rightarrow> bool) \<Rightarrow> ('s, 'e, 'a) act \<Rightarrow> bool" where
  "keeps I m \<longleftrightarrow> (\<forall>s. I s \<longrightarrow> I (snd (m s)))"

definition valid :: "('s \<Rightarrow> bool) \<Rightarrow> ('s, 'e, 'a) act \<Rightarrow> ('a \<Rightarrow> 's \<Rightarrow> bool) \<Rightarrow> bool" where
  "valid P m Q \<longleftrightarrow> (\<forall>s a s'. P s \<longrightarrow> m s = (Inr a, s') \<longrightarrow> Q a s')"

lemma keepsI: "(\<And>s. I s \<Longrightarrow> I (snd (m s))) \<Longrightarrow> keeps I m"
  by (simp add: keeps_def)

lemma keepsD: "keeps I m \<Longrightarrow> I s \<Longrightarrow> I (snd (m s))"
  by (simp add: keeps_def)

lemma keeps_run: "keeps I m \<Longrightarrow> I s \<Longrightarrow> m s = (r, s') \<Longrightarrow> I s'"
  by (metis keeps_def snd_conv)

lemma keeps_ok [keeps_intros]: "keeps I (ok a)"
  by (simp add: keeps_def)

lemma keeps_fail [keeps_intros]: "keeps I (fail e)"
  by (simp add: keeps_def)

lemma keeps_gets [keeps_intros]: "keeps I (gets f)"
  by (simp add: keeps_def)

lemma keeps_modify: "(\<And>s. I s \<Longrightarrow> I (f s)) \<Longrightarrow> keeps I (modify f)"
  by (simp add: keeps_def)

lemma keeps_bind [keeps_intros]: "keeps I m \<Longrightarrow> (\<And>a. keeps I (f a)) \<Longrightarrow> keeps I (bind m f)"
  by (auto simp: keeps_def bind_def split: prod.split sum.split)

lemma keeps_andthen [keeps_intros]: "keeps I m \<Longrightarrow> keeps I k \<Longrightarrow> keeps I (andthen m k)"
  by (simp add: andthen_def keeps_bind)

lemma keeps_require [keeps_intros]: "keeps I (require b e)"
  by (simp add: require_def keeps_ok keeps_fail)

lemma keeps_when [keeps_intros]: "(b \<Longrightarrow> keeps I m) \<Longrightarrow> keeps I (when_ok b m)"
  by (simp add: when_ok_def keeps_ok)

lemma keeps_catch [keeps_intros]: "keeps I m \<Longrightarrow> (\<And>e. keeps I (h e)) \<Longrightarrow> keeps I (catch m h)"
  by (auto simp: keeps_def catch_def split: prod.split sum.split)

lemma keeps_if [keeps_intros]:
  "(b \<Longrightarrow> keeps I m) \<Longrightarrow> (\<not> b \<Longrightarrow> keeps I k) \<Longrightarrow> keeps I (if b then m else k)"
  by simp

lemma keeps_case_option [keeps_intros]:
  "(x = None \<Longrightarrow> keeps I m) \<Longrightarrow> (\<And>a. x = Some a \<Longrightarrow> keeps I (f a)) \<Longrightarrow>
   keeps I (case x of None \<Rightarrow> m | Some a \<Rightarrow> f a)"
  by (cases x) simp_all

lemma keeps_case_sum [keeps_intros]:
  "(\<And>a. x = Inl a \<Longrightarrow> keeps I (f a)) \<Longrightarrow> (\<And>b. x = Inr b \<Longrightarrow> keeps I (g b)) \<Longrightarrow>
   keeps I (case x of Inl a \<Rightarrow> f a | Inr b \<Rightarrow> g b)"
  by (cases x) simp_all

lemma keeps_case_prod [keeps_intros]:
  "(\<And>a b. x = (a, b) \<Longrightarrow> keeps I (f a b)) \<Longrightarrow> keeps I (case x of (a, b) \<Rightarrow> f a b)"
  by (cases x) simp

lemma keeps_Let [keeps_intros]: "(\<And>x. x = t \<Longrightarrow> keeps I (f x)) \<Longrightarrow> keeps I (let x = t in f x)"
  by simp

lemma keeps_for_each [keeps_intros]: "(\<And>x. keeps I (f x)) \<Longrightarrow> keeps I (for_each xs f)"
  by (induction xs) (auto intro: keeps_intros)

lemma keeps_map_each [keeps_intros]: "(\<And>x. keeps I (f x)) \<Longrightarrow> keeps I (map_each xs f)"
  by (induction xs) (auto intro: keeps_intros)

lemma keeps_conj: "keeps I m \<Longrightarrow> keeps J m \<Longrightarrow> keeps (\<lambda>s. I s \<and> J s) m"
  by (simp add: keeps_def)

text \<open>An action that only reads.\<close>

definition reads :: "('s, 'e, 'a) act \<Rightarrow> bool" where
  "reads m \<longleftrightarrow> (\<forall>s. snd (m s) = s)"

named_theorems reads_intros "an action that does not write"

lemma reads_keeps: "reads m \<Longrightarrow> keeps I m"
  by (simp add: reads_def keeps_def)

lemma reads_final: "reads m \<Longrightarrow> m s = (r, s') \<Longrightarrow> s' = s"
  by (metis reads_def snd_conv)

lemma reads_ok [reads_intros]: "reads (ok a)"
  by (simp add: reads_def)

lemma reads_fail [reads_intros]: "reads (fail e)"
  by (simp add: reads_def)

lemma reads_gets [reads_intros]: "reads (gets f)"
  by (simp add: reads_def)

lemma reads_require [reads_intros]: "reads (require b e)"
  by (simp add: require_def reads_def)

lemma reads_bind [reads_intros]: "reads m \<Longrightarrow> (\<And>a. reads (f a)) \<Longrightarrow> reads (bind m f)"
  by (auto simp: reads_def bind_def split: prod.split sum.split) (metis snd_conv)+

lemma reads_if [reads_intros]: "reads m \<Longrightarrow> reads k \<Longrightarrow> reads (if b then m else k)"
  by simp

lemma reads_case_option [reads_intros]:
  "reads m \<Longrightarrow> (\<And>a. reads (f a)) \<Longrightarrow> reads (case x of None \<Rightarrow> m | Some a \<Rightarrow> f a)"
  by (cases x) simp_all

lemma reads_Let [reads_intros]: "(\<And>x. reads (f x)) \<Longrightarrow> reads (let x = t in f x)"
  by simp

lemma reads_map_each [reads_intros]: "(\<And>x. reads (f x)) \<Longrightarrow> reads (map_each xs f)"
  by (induction xs) (auto intro: reads_intros)

text \<open>The errors an action can raise.\<close>

definition raises :: "('e \<Rightarrow> bool) \<Rightarrow> ('s, 'e, 'a) act \<Rightarrow> bool" where
  "raises E m \<longleftrightarrow> (\<forall>s e t. m s = (Inl e, t) \<longrightarrow> E e)"

named_theorems raises_intros "the errors of an action"

lemma raises_ok [raises_intros]: "raises E (ok a)"
  by (simp add: raises_def)

lemma raises_fail [raises_intros]: "E e \<Longrightarrow> raises E (fail e)"
  by (simp add: raises_def)

lemma raises_gets [raises_intros]: "raises E (gets f)"
  by (simp add: raises_def)

lemma raises_modify [raises_intros]: "raises E (modify f)"
  by (simp add: raises_def)

lemma raises_require [raises_intros]: "E e \<Longrightarrow> raises E (require b e)"
  by (simp add: require_def raises_def)

lemma raises_bind [raises_intros]: "raises E m \<Longrightarrow> (\<And>a. raises E (f a)) \<Longrightarrow> raises E (bind m f)"
  by (auto simp: raises_def bind_def split: prod.splits sum.splits)

lemma raises_if [raises_intros]: "(b \<Longrightarrow> raises E m) \<Longrightarrow> (\<not> b \<Longrightarrow> raises E k) \<Longrightarrow> raises E (if b then m else k)"
  by simp

lemma raises_case_option [raises_intros]:
  "raises E m \<Longrightarrow> (\<And>a. raises E (f a)) \<Longrightarrow> raises E (case x of None \<Rightarrow> m | Some a \<Rightarrow> f a)"
  by (cases x) simp_all

lemma raises_for_each [raises_intros]: "(\<And>x. raises E (f x)) \<Longrightarrow> raises E (for_each xs f)"
  by (induction xs) (auto intro: raises_intros)

lemma raisesD: "raises E m \<Longrightarrow> m s = (Inl e, t) \<Longrightarrow> E e"
  unfolding raises_def by blast

section \<open>Triples\<close>

lemma validI: "(\<And>s a s'. P s \<Longrightarrow> m s = (Inr a, s') \<Longrightarrow> Q a s') \<Longrightarrow> valid P m Q"
  by (simp add: valid_def)

lemma validD: "valid P m Q \<Longrightarrow> P s \<Longrightarrow> m s = (Inr a, s') \<Longrightarrow> Q a s'"
  by (simp add: valid_def)

lemma valid_bind: "valid P m R \<Longrightarrow> (\<And>a. valid (R a) (f a) Q) \<Longrightarrow> valid P (bind m f) Q"
  by (auto simp: valid_def bind_Inr_iff)

lemma valid_pre: "valid P' m Q \<Longrightarrow> (\<And>s. P s \<Longrightarrow> P' s) \<Longrightarrow> valid P m Q"
  unfolding valid_def by blast

lemma valid_post: "valid P m Q' \<Longrightarrow> (\<And>a s. Q' a s \<Longrightarrow> Q a s) \<Longrightarrow> valid P m Q"
  by (simp add: valid_def)

lemma valid_for_each: "(\<And>x. valid I (f x) (\<lambda>_. I)) \<Longrightarrow> valid I (for_each xs f) (\<lambda>_. I)"
proof (induction xs)
  case Nil
  then show ?case by (simp add: valid_def)
next
  case (Cons x xs)
  then show ?case by (auto intro!: valid_bind [where R = "\<lambda>_. I"])
qed

end
