(* ===== verification/Document_Rows.thy ===== *)
theory Document_Rows
  imports Actions
begin

text \<open>
  The rows of the estimates (credit losses, provisions, income taxes, intangibles, conversions) and of
  the documents around the ledger (sales invoices, parties, bank statements, payment intents, budgets,
  entities), and the decoded JSON values of events (\<open>map[string]any\<close>). A number of a JSON text is the
  decimal its \<open>float64\<close> prints as.
\<close>

type_synonym id = nat

datatype json =
    JNull | JBool bool | JNumber rat | JString string | JArray "json list" | JObject "(string \<times> json) list"

type_synonym json_object = "(string \<times> json) list"

section \<open>Estimates\<close>

record ar_provision =
  av_period :: string
  av_target :: rat
  av_movement :: rat
  av_entry :: "id option"

record ar_writeoff =
  wo_document :: string
  wo_customer :: string
  wo_amount :: rat
  wo_covered :: rat
  wo_currency :: string
  wo_reason :: string
  wo_recovered :: rat
  wo_entry :: "id option"

datatype provision_status = ProvActive | ProvSettled | ProvReversed

record liab_provision =
  gp_id :: id
  gp_kind :: string
  gp_desc :: string
  gp_estimate :: rat
  gp_rate :: rat
  gp_settlement :: "date option"
  gp_carrying :: rat
  gp_currency :: string
  gp_asset :: "string option"
  gp_entity :: id
  gp_status :: provision_status

record provision_movement =
  pm_provision :: id
  pm_date :: date
  pm_kind :: string
  pm_amount :: rat
  pm_entry :: "id option"

record income_tax_run =
  it_id :: id
  it_entity :: id
  it_period :: string
  it_profit :: rat
  it_rate :: rat
  it_tax :: rat
  it_entry :: "id option"

record deferred_tax_item =
  dt_id :: id
  dt_entity :: id
  dt_reference :: string
  dt_desc :: string
  dt_difference :: rat
  dt_type :: string
  dt_rate :: rat
  dt_tax :: rat
  dt_entry :: "id option"

record intangible_asset =
  ia_ref :: string
  ia_desc :: string
  ia_category :: string
  ia_cost :: rat
  ia_in_service :: date
  ia_life :: int
  ia_accumulated :: rat
  ia_currency :: string
  ia_active :: bool

record fx_conversion =
  cv_ref :: string
  cv_from :: string
  cv_from_currency :: string
  cv_from_amount :: rat
  cv_to :: string
  cv_to_currency :: string
  cv_rate :: rat
  cv_converted :: rat
  cv_fees :: rat
  cv_gain_loss :: string
  cv_date :: date
  cv_notes :: string

record estimates =
  ecl_rates :: "(string \<times> rat) list"
  ar_provisions :: "ar_provision list"
  ar_writeoffs :: "ar_writeoff list"
  liab_provisions :: "liab_provision list"
  provision_movements :: "provision_movement list"
  income_tax_runs :: "income_tax_run list"
  deferred_tax_items :: "deferred_tax_item list"
  ia_assets :: "intangible_asset list"
  fx_conversions :: "fx_conversion list"

definition empty_estimates :: estimates where
  "empty_estimates =
     \<lparr>ecl_rates = [], ar_provisions = [], ar_writeoffs = [], liab_provisions = [],
      provision_movements = [], income_tax_runs = [], deferred_tax_items = [], ia_assets = [],
      fx_conversions = []\<rparr>"

section \<open>Documents\<close>

datatype invoice_status = InvDraft | InvIssued | InvPaid | InvVoid

record invoice_line =
  il_desc :: string
  il_quantity :: rat
  il_price :: rat
  il_tax_code :: "string option"
  il_total :: rat
  il_tax :: rat
  il_order :: int

record invoice =
  in_id :: id
  in_entity :: id
  in_number :: string
  in_customer :: string
  in_currency :: string
  in_issue :: "date option"
  in_due :: "date option"
  in_status :: invoice_status
  in_subtotal :: rat
  in_tax :: rat
  in_total :: rat
  in_notes :: string
  in_document :: "string option"
  in_method :: string
  in_periods :: int
  in_start :: string
  in_lines :: "invoice_line list"

record recurring_invoice =
  ri_id :: id
  ri_entity :: id
  ri_customer :: string
  ri_currency :: string
  ri_cadence :: string
  ri_next :: date
  ri_template :: json
  ri_notes :: string
  ri_active :: bool
  ri_method :: string
  ri_periods :: int

record time_entry =
  te_ref :: string
  te_customer :: string
  te_employee :: string
  te_project :: string
  te_hours :: rat
  te_rate :: rat
  te_amount :: rat
  te_date :: date
  te_currency :: string
  te_notes :: string

record party =
  py_id :: id
  py_entity :: id
  py_code :: string
  py_name :: string
  py_email :: "string option"
  py_phone :: "string option"
  py_currency :: string
  py_active :: bool
  py_party :: "id option"

record portal_link =
  pl_user :: id
  pl_party :: id
  pl_business :: string
  pl_type :: string

record bank_statement =
  bs_id :: id
  bs_account :: string
  bs_date :: date
  bs_status :: string
  bs_count :: int

datatype match_status = Unmatched | Proposed | Matched

record statement_line =
  sn_id :: id
  sn_statement :: id
  sn_date :: date
  sn_desc :: string
  sn_payee :: string
  sn_amount :: rat
  sn_direction :: string
  sn_external :: "string option"
  sn_status :: match_status
  sn_matched :: "string option"

record bank_transaction =
  bt_account :: string
  bt_date :: date
  bt_desc :: string
  bt_payee :: string
  bt_spent :: "rat option"
  bt_received :: "rat option"
  bt_action :: string
  bt_matched :: "string option"
  bt_line :: "id option"

datatype intent_status = IntentPending | IntentSucceeded | IntentFailed

record payment_intent =
  tt_id :: id
  tt_entity :: id
  tt_item :: id
  tt_amount :: rat
  tt_currency :: string
  tt_provider :: string
  tt_status :: intent_status
  tt_external :: "string option"
  tt_checkout :: "string option"

record budget =
  bu_entity :: id
  bu_period :: string
  bu_account :: string
  bu_amount :: rat

record entity_row =
  en_id :: id
  en_code :: string
  en_name :: string
  en_base :: string
  en_parent :: "id option"
  en_active :: bool
  en_owned :: rat

record documents =
  invoices :: "invoice list"
  invoice_seq :: nat                       \<comment> \<open>\<open>invoice_number_seq\<close>\<close>
  recurring_invoices :: "recurring_invoice list"
  time_entries :: "time_entry list"
  customers :: "party list"
  vendors :: "party list"
  portal_links :: "portal_link list"
  bank_statements :: "bank_statement list"
  statement_lines :: "statement_line list"
  bank_transactions :: "bank_transaction list"
  payment_intents :: "payment_intent list"
  budgets :: "budget list"
  entity_rows :: "entity_row list"

definition empty_documents :: documents where
  "empty_documents =
     \<lparr>invoices = [], invoice_seq = 1000, recurring_invoices = [], time_entries = [], customers = [],
      vendors = [], portal_links = [], bank_statements = [], statement_lines = [],
      bank_transactions = [], payment_intents = [], budgets = [], entity_rows = []\<rparr>"

end
