(* ===== verification/Schema.thy ===== *)
theory Schema
  imports Document_Rows
begin

text \<open>
  The data model: the rows of the database (package \<open>domain\<close>, the structs of package
  \<open>repository\<close> and the tables of \<open>internal/db/migrations\<close>), the errors of the service, the
  environment of a call and the database state with its transactions.

  Row identifiers (UUIDs) are natural numbers drawn from a supply of fresh ones. A table is the
  list of its rows in the order of their creation, so \<open>ORDER BY created_at DESC\<close> is \<open>rev\<close>.
  Decimal values are rational numbers: \<open>Add\<close>, \<open>Sub\<close>, \<open>Mul\<close>, \<open>Neg\<close>, \<open>Abs\<close> and the
  comparisons of \<open>decimal.Decimal\<close> are exact. What the decimal library and the column types
  round, parse and print is a parameter (\<open>env_round\<close>, \<open>env_parse\<close>, \<open>env_show\<close>).
\<close>

section \<open>Environment of a call\<close>

record env =
  env_base :: string                      \<comment> \<open>\<open>Repository.baseCurrency\<close>\<close>
  env_entity :: id                        \<comment> \<open>\<open>EntityFromContext(ctx)\<close>\<close>
  env_now :: time                         \<comment> \<open>\<open>time.Now().UTC()\<close> and \<open>NOW()\<close>\<close>
  env_round :: "rat \<Rightarrow> nat \<Rightarrow> rat"         \<comment> \<open>\<open>Decimal.Round\<close>, \<open>NUMERIC(p, s)\<close>\<close>
  env_parse :: "string \<Rightarrow> rat option"     \<comment> \<open>\<open>decimal.NewFromString\<close>\<close>
  env_show :: "rat \<Rightarrow> string"             \<comment> \<open>\<open>Decimal.String\<close>\<close>
  env_hash :: "string \<Rightarrow> string"          \<comment> \<open>hexadecimal SHA-256\<close>

text \<open>
  What the code relies on of rounding to \<open>k\<close> decimal places: the result is a multiple of
  \<open>10\<^sup>-\<^sup>k\<close>, a value that already has at most \<open>k\<close> places is unchanged, rounding is monotone and
  symmetric in the sign, and an exact non-negative amount can be taken out of a sum before rounding.
\<close>

definition has_places :: "nat \<Rightarrow> rat \<Rightarrow> bool" where
  "has_places k x \<longleftrightarrow> (\<exists>z::int. x * 10 ^ k = of_int z)"

definition rounding_laws :: "(rat \<Rightarrow> nat \<Rightarrow> rat) \<Rightarrow> bool" where
  "rounding_laws rnd \<longleftrightarrow>
     (\<forall>x k. has_places k (rnd x k)) \<and>
     (\<forall>x k. has_places k x \<longrightarrow> rnd x k = x) \<and>
     (\<forall>x y k. x \<le> y \<longrightarrow> rnd x k \<le> rnd y k) \<and>
     (\<forall>x k. rnd (- x) k = - rnd x k) \<and>
     (\<forall>x y k. has_places k x \<longrightarrow> 0 \<le> x \<longrightarrow> 0 \<le> y \<longrightarrow> rnd (x + y) k = x + rnd y k)"

text \<open>A rounding with these laws: half away from zero. It instantiates the parameter in witnesses.\<close>

definition round_half_away :: "rat \<Rightarrow> nat \<Rightarrow> rat" where
  "round_half_away x k =
     (if 0 \<le> x then of_int \<lfloor>x * 10 ^ k + 1 / 2\<rfloor> / 10 ^ k
      else - (of_int \<lfloor>(- x) * 10 ^ k + 1 / 2\<rfloor> / 10 ^ k))"

section \<open>Errors\<close>

datatype err =
    ErrUnbalancedEntry | ErrEmptyEntry | ErrInvalidStatus | ErrDuplicateEvent
  | ErrAccountNotFound string | ErrPeriodClosed | ErrUnnaturalSide string
  | ErrNotReversible | ErrEntryNotFound | ErrNotDraft
  | ErrOpenItemNotFound | ErrPaymentExceeds | ErrCurrencyMismatch
  | ErrInvalidAdjustment | ErrOriginalNotFound | ErrAdjustmentTooLarge
  | ErrInvoiceNotFound | ErrNoRate | ErrPeriodHasDrafts
  | ErrYearHasDrafts | ErrNothingToClose
  | ErrPayrollUnbalanced | ErrLeaveProvisionZero
  | ErrApprovalNotFound | ErrApprovalForbidden | ErrApprovalConflict
  | ErrText string                \<comment> \<open>\<open>errors.New\<close>, \<open>fmt.Errorf\<close>\<close>
  | UniqueViolation string        \<comment> \<open>SQLSTATE 23505\<close>
  | CheckViolation string         \<comment> \<open>SQLSTATE 23514\<close>
  | ForeignKeyViolation string    \<comment> \<open>SQLSTATE 23503\<close>
  | NotNullViolation string       \<comment> \<open>SQLSTATE 23502\<close>
  | RaceLost                      \<comment> \<open>roll back and read what the winner committed\<close>

fun is_unique_violation :: "err \<Rightarrow> bool" where
  "is_unique_violation (UniqueViolation c) = True"
| "is_unique_violation _ = False"

section \<open>Rows\<close>

record account =
  a_id :: id
  a_code :: string
  a_name :: string
  a_type :: string
  a_parent :: "id option"
  a_currency :: string
  a_active :: bool
  a_restrict :: bool
  a_cash :: bool

datatype entry_status = Draft | Posted | Reversed

record entry =
  e_id :: id
  e_number :: string
  e_desc :: string
  e_status :: entry_status
  e_source_event :: "string option"
  e_source_service :: "string option"
  e_correlation :: "string option"
  e_acc_date :: date
  e_reverses :: "id option"
  e_posted_at :: "time option"
  e_created_by :: "id option"
  e_entity :: id
  e_counterparty :: "id option"

record jline =
  l_id :: id
  l_entry :: id
  l_account :: id
  l_debit :: rat
  l_credit :: rat
  l_memo :: string
  l_order :: int
  l_currency :: string
  l_debit_base :: rat
  l_credit_base :: rat
  l_cost_center :: "id option"
  l_project :: "id option"

datatype item_status = Open | Partial | Closed

datatype direction = AR | AP

record open_item =
  oi_id :: id
  oi_party_ref :: string                  \<comment> \<open>\<open>customer_ref\<close> / \<open>vendor_ref\<close>\<close>
  oi_document_ref :: string
  oi_desc :: string
  oi_amount :: rat
  oi_paid :: rat
  oi_currency :: string
  oi_due :: "date option"
  oi_status :: item_status
  oi_entry :: "id option"
  oi_source_event :: "string option"
  oi_fx_rate :: rat
  oi_entity :: id
  oi_party_id :: "id option"
  oi_notified :: "time option"

record payment =
  p_id :: id
  p_direction :: direction
  p_item :: id
  p_amount :: rat
  p_currency :: string
  p_ref :: string
  p_entry :: "id option"

record adjustment =
  adj_id :: id
  adj_kind :: string
  adj_direction :: string
  adj_original :: string
  adj_document :: string
  adj_party :: string
  adj_amount :: rat
  adj_currency :: string
  adj_reason :: string
  adj_entry :: "id option"

record rate_row =
  r_currency :: string
  r_base :: string
  r_rate :: rat
  r_as_of :: date

datatype period_status = PeriodOpen | PeriodClosed

record period_row =
  fp_period :: string
  fp_status :: period_status
  fp_closed_at :: "time option"
  fp_closed_by :: "id option"

record audit_row =
  au_id :: nat
  au_ts :: time
  au_actor :: string
  au_type :: string
  au_message :: string
  au_prev :: string
  au_hash :: string

record outbox_row =
  ob_id :: id
  ob_topic :: string
  ob_key :: string
  ob_event_id :: string
  ob_event_type :: string
  ob_payload :: json_object
  ob_published :: "time option"
  ob_attempts :: nat
  ob_last_error :: string

record grni_row =
  g_po :: string
  g_currency :: string
  g_accrued :: rat
  g_cleared :: rat
  g_qty_received :: rat
  g_qty_invoiced :: rat
  g_match :: string

record match_exception =
  mx_id :: id
  mx_po :: string
  mx_type :: string
  mx_detail :: string
  mx_open :: bool
  mx_resolved_by :: string

record tax_code =
  tc_code :: string
  tc_name :: string
  tc_rate :: rat
  tc_active :: bool
  tc_reverse :: bool

record tier_row =
  t_tier :: nat
  t_min :: rat
  t_max :: "rat option"
  t_perm :: string

datatype approval_status = Pending | Approved | Rejected | Executed

record approval =
  ap_id :: id
  ap_target :: string
  ap_amount :: rat
  ap_currency :: string
  ap_payload :: "(string \<times> string) list"
  ap_status :: approval_status
  ap_requested_by :: string
  ap_desc :: string
  ap_result :: string

record decision =
  d_approval :: id
  d_tier :: nat
  d_actor :: string
  d_approved :: bool
  d_note :: string

record payroll_run =
  pr_ref :: string
  pr_period :: string
  pr_gross :: rat
  pr_paye :: rat
  pr_nssf :: rat
  pr_other :: rat
  pr_net :: rat
  pr_currency :: string
  pr_employer :: "rat option"
  pr_entry :: "id option"

record leave_provision =
  lp_ref :: string
  lp_period :: string
  lp_amount :: rat
  lp_currency :: string
  lp_note :: string
  lp_entry :: "id option"

record leave_balance =
  lb_employee :: string
  lb_type :: string
  lb_year :: int
  lb_days :: rat
  lb_event :: string

record employee_rate =
  er_employee :: string
  er_rate :: rat
  er_currency :: string
  er_from :: date

record leave_valuation =
  lv_at :: date
  lv_total :: rat
  lv_movement :: rat
  lv_currency :: string
  lv_valued :: nat
  lv_unrated :: nat
  lv_entry :: "id option"

record clearing_item =
  ci_id :: id
  ci_entity :: id
  ci_reference :: string
  ci_origin :: string
  ci_category :: string
  ci_party :: string
  ci_provider :: string
  ci_instruction :: string
  ci_amount :: rat
  ci_currency :: string
  ci_settled_at :: time
  ci_cleared :: bool
  ci_document :: "string option"

section \<open>The registers beside the ledger\<close>

record fixed_asset =
  fa_id :: id
  fa_ref :: string
  fa_desc :: string
  fa_category :: string
  fa_cost :: rat
  fa_salvage :: rat
  fa_in_service :: date
  fa_life :: int
  fa_method :: string
  fa_accumulated :: rat
  fa_currency :: string
  fa_active :: bool                        \<comment> \<open>else disposed\<close>
  fa_rate :: "rat option"

record depreciation_row =
  dp_asset :: id
  dp_period :: string
  dp_amount :: rat

record impairment_row =
  im_asset :: id
  im_date :: date
  im_recoverable :: rat
  im_loss :: rat
  im_reversal :: bool

record revaluation_row =
  rw_asset :: id
  rw_date :: date
  rw_carrying :: rat
  rw_delta :: rat

record revenue_schedule =
  rs_id :: id
  rs_source :: string
  rs_entity :: id
  rs_total :: rat
  rs_currency :: string
  rs_method :: string
  rs_start :: string
  rs_periods :: int
  rs_active :: bool                        \<comment> \<open>else completed\<close>
  rs_entry :: "id option"

record sched_line =
  sl_id :: id
  sl_schedule :: id
  sl_period :: string
  sl_amount :: rat
  sl_entry :: "id option"

record obligation =
  po_id :: id
  po_schedule :: id
  po_desc :: string
  po_amount :: rat
  po_satisfied :: bool
  po_entry :: "id option"

record prepaid_schedule =
  ps_id :: id
  ps_source :: string
  ps_entity :: id
  ps_total :: rat
  ps_currency :: string
  ps_expense :: string
  ps_funding :: string
  ps_start :: string
  ps_periods :: int
  ps_active :: bool
  ps_entry :: "id option"

record lease =
  le_id :: id
  le_ref :: string
  le_entity :: id
  le_desc :: string
  le_currency :: string
  le_payment :: rat
  le_rate :: rat
  le_term :: int
  le_start :: string
  le_rou :: rat
  le_liability :: rat
  le_active :: bool
  le_entry :: "id option"

record lease_line =
  ll_id :: id
  ll_lease :: id
  ll_period :: string
  ll_opening :: rat
  ll_interest :: rat
  ll_payment :: rat
  ll_principal :: rat
  ll_closing :: rat
  ll_depreciation :: rat
  ll_entry :: "id option"

record employee_ref =
  ee_no :: string
  ee_user :: "id option"
  ee_first :: string
  ee_last :: string
  ee_department :: "string option"
  ee_title :: string
  ee_type :: string
  ee_status :: string
  ee_operator :: "string option"
  ee_event :: string
  ee_event_type :: string
  ee_at :: time

record leave_accrual =
  la_request :: string
  la_employee :: string
  la_type :: string
  la_starts :: date
  la_ends :: date
  la_days :: rat
  la_status :: string
  la_event :: string
  la_event_type :: string

record wht_receipt =
  wh_ref :: string
  wh_customer :: string
  wh_invoice :: string
  wh_authority :: string
  wh_amount :: rat
  wh_date :: date
  wh_currency :: string
  wh_notes :: string

record late_fee =
  lf_ref :: string
  lf_customer :: string
  lf_invoice :: string
  lf_rate :: rat
  lf_amount :: rat
  lf_date :: date
  lf_currency :: string
  lf_notes :: string

record registers =
  fa_assets :: "fixed_asset list"
  fa_depreciation :: "depreciation_row list"
  fa_impairments :: "impairment_row list"
  fa_revaluations :: "revaluation_row list"
  rev_schedules :: "revenue_schedule list"
  rev_lines :: "sched_line list"
  obligations :: "obligation list"
  prepaid_schedules :: "prepaid_schedule list"
  prepaid_lines :: "sched_line list"
  leases :: "lease list"
  lease_lines :: "lease_line list"
  employee_refs :: "employee_ref list"
  leave_accruals :: "leave_accrual list"
  wht_receipts :: "wht_receipt list"
  late_fees :: "late_fee list"

definition empty_registers :: registers where
  "empty_registers =
     \<lparr>fa_assets = [], fa_depreciation = [], fa_impairments = [], fa_revaluations = [],
      rev_schedules = [], rev_lines = [], obligations = [], prepaid_schedules = [],
      prepaid_lines = [], leases = [], lease_lines = [], employee_refs = [], leave_accruals = [],
      wht_receipts = [], late_fees = []\<rparr>"

section \<open>The database\<close>

record db =
  accounts :: "account list"
  cost_centers :: "(id \<times> id) list"        \<comment> \<open>id, entity\<close>
  projects :: "(id \<times> id) list"
  entries :: "entry list"
  jlines :: "jline list"
  processed :: "(string \<times> string) list"   \<comment> \<open>event id, event type\<close>
  periods :: "period_row list"
  rates :: "rate_row list"
  ar_items :: "open_item list"
  ap_items :: "open_item list"
  payments :: "payment list"
  adjustments :: "adjustment list"
  grni :: "grni_row list"
  tax_codes :: "tax_code list"
  match_exceptions :: "match_exception list"
  match_tolerance :: "rat option"          \<comment> \<open>\<open>match_tolerance\<close>, scope default\<close>
  audit :: "audit_row list"
  outbox :: "outbox_row list"
  tiers :: "tier_row list"
  approvals :: "approval list"
  decisions :: "decision list"
  payroll_runs :: "payroll_run list"
  leave_provisions :: "leave_provision list"
  leave_balances :: "leave_balance list"
  employee_rates :: "employee_rate list"
  leave_valuations :: "leave_valuation list"
  clearing_items :: "clearing_item list"
  registers_of :: registers
  estimates_of :: estimates
  docs_of :: documents
  entry_seq :: nat                         \<comment> \<open>\<open>journal_entry_number_seq\<close>\<close>
  next_id :: id                            \<comment> \<open>supply of fresh UUIDs\<close>
  touched :: "id list"                     \<comment> \<open>entries with a deferred balance check\<close>

type_synonym 'a action = "(db, err, 'a) act"

definition empty_db :: db where
  "empty_db =
     \<lparr>accounts = [], cost_centers = [], projects = [], entries = [], jlines = [], processed = [],
      periods = [], rates = [], ar_items = [], ap_items = [], payments = [], adjustments = [],
      grni = [], tax_codes = [], match_exceptions = [], match_tolerance = None, audit = [], outbox = [], tiers = [], approvals = [], decisions = [],
      payroll_runs = [], leave_provisions = [], leave_balances = [], employee_rates = [],
      leave_valuations = [], clearing_items = [], registers_of = empty_registers,
      estimates_of = empty_estimates, docs_of = empty_documents, entry_seq = 1, next_id = 2, touched = []\<rparr>"

definition default_entity :: id where
  "default_entity = 1"

definition fresh_id :: "id action" where
  "fresh_id = (\<lambda>s. (Inr (next_id s), s\<lparr>next_id := Suc (next_id s)\<rparr>))"

section \<open>Transactions\<close>

text \<open>
  The constraint trigger \<open>assert_journal_balanced\<close> (migration 077) at commit: an entry that is
  posted has equal base-currency debits and credits.
\<close>

definition lines_of :: "db \<Rightarrow> id \<Rightarrow> jline list" where
  "lines_of s e = filter (\<lambda>l. l_entry l = e) (jlines s)"

definition base_debits :: "jline list \<Rightarrow> rat" where
  "base_debits ls = sum_list (map l_debit_base ls)"

definition base_credits :: "jline list \<Rightarrow> rat" where
  "base_credits ls = sum_list (map l_credit_base ls)"

definition entry_by_id :: "db \<Rightarrow> id \<Rightarrow> entry option" where
  "entry_by_id s i = row_by e_id i (entries s)"

definition assert_journal_balanced :: "db \<Rightarrow> id \<Rightarrow> bool" where
  "assert_journal_balanced s i =
     (case entry_by_id s i of
        None \<Rightarrow> True
      | Some e \<Rightarrow> (if e_status e \<noteq> Posted then True
                  else base_debits (lines_of s i) = base_credits (lines_of s i)))"

text \<open>
  \<open>Begin\<close>, the statements, the deferred checks and \<open>Commit\<close>, with \<open>defer tx.Rollback\<close>: on an
  error every table is as it was, but a sequence that was advanced stays advanced.
\<close>

definition rollback :: "db \<Rightarrow> db \<Rightarrow> db" where
  "rollback s s' = s\<lparr>entry_seq := entry_seq s'\<rparr>"

definition tx :: "'a action \<Rightarrow> 'a action" where
  "tx m = (\<lambda>s. case m (s\<lparr>touched := []\<rparr>) of
      (Inl e, s') \<Rightarrow> (Inl e, rollback s s')
    | (Inr a, s') \<Rightarrow>
        (if list_all (assert_journal_balanced s') (touched s')
         then (Inr a, s'\<lparr>touched := []\<rparr>)
         else (Inl (CheckViolation ''journal entry is not balanced (base)''), rollback s s')))"

lemma tx_InrD:
  assumes "tx m s = (Inr a, t)"
  obtains s' where "m (s\<lparr>touched := []\<rparr>) = (Inr a, s')" "t = s'\<lparr>touched := []\<rparr>"
    "list_all (assert_journal_balanced s') (touched s')"
  using assms by (auto simp: tx_def split: prod.splits sum.splits if_splits)

lemma tx_InlD:
  assumes "tx m s = (Inl e, t)"
  obtains s' where "t = rollback s s'"
  using assms by (auto simp: tx_def split: prod.splits sum.splits if_splits)

text \<open>
  An invariant \<open>I\<close> of committed states and the invariant \<open>J\<close> the statements of a transaction
  keep: what the deferred checks add at commit turns \<open>J\<close> into \<open>I\<close>.
\<close>

lemma keeps_tx:
  assumes start: "\<And>s. I s \<Longrightarrow> J (s\<lparr>touched := []\<rparr>)"
    and body: "keeps J m"
    and commit: "\<And>s. J s \<Longrightarrow> list_all (assert_journal_balanced s) (touched s) \<Longrightarrow> I (s\<lparr>touched := []\<rparr>)"
    and undo: "\<And>s s'. I s \<Longrightarrow> J s' \<Longrightarrow> I (rollback s s')"
  shows "keeps I (tx m)"
proof (rule keepsI)
  fix s assume "I s"
  moreover have "J (snd (m (s\<lparr>touched := []\<rparr>)))"
    using body start [OF \<open>I s\<close>] by (rule keepsD)
  ultimately show "I (snd (tx m s))"
    using commit undo by (auto simp: tx_def split: prod.splits sum.splits)
qed

section \<open>Rounding\<close>

lemma has_places_of_int_div: "has_places k (of_int z / 10 ^ k)"
  by (auto simp: has_places_def)

lemma has_places_minus [simp]: "has_places k (- x) \<longleftrightarrow> has_places k x"
proof -
  have "has_places k (- y)" if y: "has_places k y" for y :: rat
  proof -
    from y obtain z :: int where "y * 10 ^ k = of_int z" by (auto simp: has_places_def)
    then have "(- y) * 10 ^ k = of_int (- z)" by simp
    then show ?thesis unfolding has_places_def by blast
  qed
  from this [of x] this [of "- x"] show ?thesis by auto
qed

lemma has_places_add: "has_places k x \<Longrightarrow> has_places k y \<Longrightarrow> has_places k (x + y)"
proof -
  assume "has_places k x" "has_places k y"
  then obtain a b :: int where "x * 10 ^ k = of_int a" "y * 10 ^ k = of_int b"
    by (auto simp: has_places_def)
  then have "(x + y) * 10 ^ k = of_int (a + b)" by (simp add: algebra_simps)
  then show ?thesis unfolding has_places_def by blast
qed

lemma has_places_diff: "has_places k x \<Longrightarrow> has_places k y \<Longrightarrow> has_places k (x - y)"
  using has_places_add [of k x "- y"] by simp

lemma has_places_0 [simp]: "has_places k 0"
  by (auto simp: has_places_def intro: exI [of _ 0])

lemma round_half_away_nonneg_mono:
  "0 \<le> x \<Longrightarrow> x \<le> y \<Longrightarrow> round_half_away x k \<le> round_half_away y k"
  by (auto simp: round_half_away_def intro!: divide_right_mono floor_mono mult_right_mono)

lemma round_half_away_nonneg: "0 \<le> x \<Longrightarrow> 0 \<le> round_half_away x k"
  by (simp add: round_half_away_def)

lemma round_half_away_minus: "round_half_away (- x) k = - round_half_away x k"
proof (cases "x = 0")
  case True
  have "\<lfloor>1 / 2 :: rat\<rfloor> = 0" by (simp add: floor_eq_iff)
  with True show ?thesis by (simp add: round_half_away_def)
qed (auto simp: round_half_away_def not_le less_imp_le)

lemma round_half_away_exact: "has_places k x \<Longrightarrow> round_half_away x k = x"
proof -
  have pos: "round_half_away y k = y" if "has_places k y" "0 \<le> y" for y
  proof -
    from that obtain z :: int where z: "y * 10 ^ k = of_int z" by (auto simp: has_places_def)
    then have "\<lfloor>y * 10 ^ k + 1 / 2\<rfloor> = z" by (simp add: floor_eq_iff)
    moreover have "y = of_int z / 10 ^ k" using z by (simp add: field_simps)
    ultimately show ?thesis using that by (simp add: round_half_away_def)
  qed
  assume "has_places k x"
  then show ?thesis using pos [of x] pos [of "- x"] round_half_away_minus [of x k]
    by (cases "0 \<le> x") auto
qed

lemma round_half_away_mono: "x \<le> y \<Longrightarrow> round_half_away x k \<le> round_half_away y k"
proof -
  assume le: "x \<le> y"
  consider "0 \<le> x" | "y \<le> 0" | "x < 0" "0 < y" using le by linarith
  then show ?thesis
  proof cases
    case 1
    then show ?thesis using le by (rule round_half_away_nonneg_mono)
  next
    case 2
    then show ?thesis
      using round_half_away_nonneg_mono [of "- y" "- x" k] le by (simp add: round_half_away_minus)
  next
    case 3
    then show ?thesis
      using round_half_away_nonneg [of y k] round_half_away_nonneg [of "- x" k]
      by (simp add: round_half_away_minus)
  qed
qed

lemma round_half_away_shift:
  "has_places k x \<Longrightarrow> 0 \<le> x \<Longrightarrow> 0 \<le> y \<Longrightarrow> round_half_away (x + y) k = x + round_half_away y k"
proof -
  assume x: "has_places k x" "0 \<le> x" and y: "0 \<le> y"
  then obtain z :: int where z: "x * 10 ^ k = of_int z" by (auto simp: has_places_def)
  have "\<lfloor>(x + y) * 10 ^ k + 1 / 2\<rfloor> = \<lfloor>(y * 10 ^ k + 1 / 2) + of_int z\<rfloor>"
    by (simp add: z [symmetric] algebra_simps)
  also have "\<dots> = \<lfloor>y * 10 ^ k + 1 / 2\<rfloor> + z" by (rule floor_add_int [symmetric])
  finally show ?thesis using x y z by (simp add: round_half_away_def field_simps)
qed

lemma rounding_laws_half_away: "rounding_laws round_half_away"
proof -
  have "has_places k (round_half_away x k)" for x k
    by (simp add: round_half_away_def has_places_of_int_div)
  then show ?thesis
    by (simp add: rounding_laws_def round_half_away_exact round_half_away_mono round_half_away_minus
        round_half_away_shift)
qed

lemma round_places: "rounding_laws rnd \<Longrightarrow> has_places k (rnd x k)"
  by (simp add: rounding_laws_def)

lemma round_exact: "rounding_laws rnd \<Longrightarrow> has_places k x \<Longrightarrow> rnd x k = x"
  by (simp add: rounding_laws_def)

lemma round_mono: "rounding_laws rnd \<Longrightarrow> x \<le> y \<Longrightarrow> rnd x k \<le> rnd y k"
  by (simp add: rounding_laws_def)

lemma round_minus: "rounding_laws rnd \<Longrightarrow> rnd (- x) k = - rnd x k"
  by (simp add: rounding_laws_def)

lemma round_shift:
  "rounding_laws rnd \<Longrightarrow> has_places k x \<Longrightarrow> 0 \<le> x \<Longrightarrow> 0 \<le> y \<Longrightarrow> rnd (x + y) k = x + rnd y k"
  by (simp add: rounding_laws_def)

lemma round_0: "rounding_laws rnd \<Longrightarrow> rnd 0 k = 0"
  by (simp add: round_exact)

lemma round_nonneg: "rounding_laws rnd \<Longrightarrow> 0 \<le> x \<Longrightarrow> 0 \<le> rnd x k"
  using round_mono [of rnd 0 x k] by (simp add: round_0)

lemma has_places_mono: "has_places k x \<Longrightarrow> k \<le> n \<Longrightarrow> has_places n x"
proof -
  assume "has_places k x" and kn: "k \<le> n"
  then obtain z :: int where z: "x * 10 ^ k = of_int z" by (auto simp: has_places_def)
  have "x * 10 ^ n = x * 10 ^ k * 10 ^ (n - k)" using kn by (simp add: power_add [symmetric])
  also have "\<dots> = of_int (z * 10 ^ (n - k))" by (simp add: z)
  finally show ?thesis unfolding has_places_def by blast
qed

section \<open>A concrete environment\<close>

text \<open>
  The environment witnesses run in: base currency UGX, the default entity, 15 August 2026, amounts
  rounded half away from zero.
\<close>

definition demo_env :: env where
  "demo_env =
     \<lparr>env_base = ''UGX'', env_entity = default_entity, env_now = time_of_date (2026, 8, 15),
      env_round = round_half_away, env_parse = (\<lambda>_. None), env_show = (\<lambda>_. ''0''),
      env_hash = (\<lambda>x. x)\<rparr>"

lemma demo_env_round [simp]: "rounding_laws (env_round demo_env)"
  by (simp add: demo_env_def rounding_laws_half_away)

end
