(* ===== verification/Audit_Chain.thy ===== *)
theory Audit_Chain
  imports Schema
begin

text \<open>
  The tamper-evident audit log: \<open>internal/hashchain\<close>, \<open>internal/chainaudit\<close> and the
  \<open>appendAudit\<close> step every booking transaction ends with. SHA-256 is the parameter \<open>env_hash\<close>.
\<close>

definition SimpleHash :: "env \<Rightarrow> string \<Rightarrow> string" where
  "SimpleHash env input = env_hash env input"

definition EventHash :: "env \<Rightarrow> string \<Rightarrow> string \<Rightarrow> string \<Rightarrow> string \<Rightarrow> string \<Rightarrow> string" where
  "EventHash env ts actor eventType message prevHash =
     SimpleHash env (ts @ ''|'' @ actor @ ''|'' @ eventType @ ''|'' @ message @ ''|'' @ prevHash)"

definition genesis :: string where
  "genesis = ''GENESIS''"

text \<open>\<open>SELECT event_hash FROM audit_events ORDER BY id DESC LIMIT 1\<close>, else \<open>GENESIS\<close>.\<close>

definition chain_head :: "audit_row list \<Rightarrow> string" where
  "chain_head rs = (if rs = [] then genesis else au_hash (last rs))"

definition AppendChainTx :: "env \<Rightarrow> string \<Rightarrow> string \<Rightarrow> string \<Rightarrow> audit_row action" where
  "AppendChainTx env actor eventType message =
     bind (gets (\<lambda>s. chain_head (audit s))) (\<lambda>prevHash.
     let ts = truncate_micros (env_now env);
         h = EventHash env (format_rfc3339nano ts) actor eventType message prevHash
     in bind fresh_id (\<lambda>i.
        let row = \<lparr>au_id = i, au_ts = ts, au_actor = actor, au_type = eventType,
                   au_message = message, au_prev = prevHash, au_hash = h\<rparr>
        in bind (modify (\<lambda>s. s\<lparr>audit := audit s @ [row]\<rparr>)) (\<lambda>_. ok row)))"

definition Append :: "env \<Rightarrow> string \<Rightarrow> string \<Rightarrow> string \<Rightarrow> audit_row action" where
  "Append env eventType message actor = tx (AppendChainTx env actor eventType message)"

record audit_info =
  ai_actor :: string
  ai_type :: string
  ai_message :: string

definition appendAudit :: "env \<Rightarrow> audit_info option \<Rightarrow> unit action" where
  "appendAudit env a =
     (case a of None \<Rightarrow> ok ()
      | Some i \<Rightarrow>
          if ai_actor i = '''' then ok ()
          else bind (AppendChainTx env (ai_actor i) (ai_type i) (ai_message i)) (\<lambda>_. ok ()))"

definition actorOrSystem :: "string \<Rightarrow> string" where
  "actorOrSystem actor = (if actor = '''' then ''system'' else actor)"

section \<open>Verification of the chain\<close>

datatype verify_result =
    ChainValid nat
  | PrevMismatch nat nat      \<comment> \<open>count, id: \<open>prev_hash\<close> does not match the previous event\<close>
  | HashMismatch nat nat      \<comment> \<open>count, id: \<open>event_hash\<close> does not match the recomputed hash\<close>

definition row_hash :: "env \<Rightarrow> audit_row \<Rightarrow> string" where
  "row_hash env e =
     EventHash env (format_rfc3339nano (au_ts e)) (au_actor e) (au_type e) (au_message e) (au_prev e)"

fun verify_from :: "env \<Rightarrow> string \<Rightarrow> nat \<Rightarrow> audit_row list \<Rightarrow> verify_result" where
  "verify_from env prevHash count [] = ChainValid count"
| "verify_from env prevHash count (e # rest) =
     (if au_prev e \<noteq> prevHash then PrevMismatch (Suc count) (au_id e)
      else if row_hash env e \<noteq> au_hash e then HashMismatch (Suc count) (au_id e)
      else verify_from env (au_hash e) (Suc count) rest)"

definition Verify :: "env \<Rightarrow> verify_result action" where
  "Verify env = gets (\<lambda>s. verify_from env genesis 0 (audit s))"

text \<open>\<open>Store.List\<close> without the Redis cache: the last \<open>limit\<close> events, oldest first.\<close>

definition ListEvents :: "int \<Rightarrow> audit_row list action" where
  "ListEvents limit =
     (let n = (if limit \<le> 0 \<or> limit > 500 then 250 else limit)
      in gets (\<lambda>s. drop (length (audit s) - nat n) (audit s)))"

section \<open>Chains that verify\<close>

fun chained :: "env \<Rightarrow> string \<Rightarrow> audit_row list \<Rightarrow> bool" where
  "chained env prevHash [] = True"
| "chained env prevHash (e # rest) =
     (au_prev e = prevHash \<and> row_hash env e = au_hash e \<and> chained env (au_hash e) rest)"

definition audit_ok :: "env \<Rightarrow> db \<Rightarrow> bool" where
  "audit_ok env s \<longleftrightarrow> chained env genesis (audit s)"

lemma verify_from_valid_iff:
  "verify_from env p c rs = ChainValid n \<longleftrightarrow> chained env p rs \<and> n = c + length rs"
  by (induction rs arbitrary: p c) auto

lemma chained_append:
  "chained env p (xs @ ys) \<longleftrightarrow> chained env p xs \<and> chained env (if xs = [] then p else au_hash (last xs)) ys"
  by (induction xs arbitrary: p) auto

lemma chained_snoc_head:
  "chained env genesis (xs @ [e]) \<longleftrightarrow>
     chained env genesis xs \<and> au_prev e = chain_head xs \<and> row_hash env e = au_hash e"
  by (simp add: chained_append chain_head_def)

lemma chained_take: "chained env p rs \<Longrightarrow> chained env p (take n rs)"
  by (metis append_take_drop_id chained_append)

lemma AppendChainTx_eq:
  "AppendChainTx env actor ty msg s =
     (let ts = truncate_micros (env_now env);
          row = \<lparr>au_id = next_id s, au_ts = ts, au_actor = actor, au_type = ty, au_message = msg,
                 au_prev = chain_head (audit s),
                 au_hash = EventHash env (format_rfc3339nano ts) actor ty msg (chain_head (audit s))\<rparr>
      in (Inr row, s\<lparr>next_id := Suc (next_id s), audit := audit s @ [row]\<rparr>))"
  by (simp add: AppendChainTx_def bind_apply fresh_id_def Let_def)

lemma keeps_audit_AppendChainTx [keeps_intros]:
  "keeps (audit_ok env) (AppendChainTx env a t m)"
  by (auto simp: keeps_def audit_ok_def AppendChainTx_eq Let_def chained_snoc_head row_hash_def)

lemma keeps_audit_appendAudit [keeps_intros]: "keeps (audit_ok env) (appendAudit env i)"
  unfolding appendAudit_def by (intro keeps_intros)

text \<open>
  An action that leaves the audit log and the identifier supply's order alone keeps the chain.
\<close>

lemma keeps_audit_modify [keeps_intros]:
  "(\<And>s. audit (f s) = audit s) \<Longrightarrow> keeps (audit_ok env) (modify f)"
  by (simp add: keeps_def audit_ok_def)

lemma keeps_audit_fresh_id [keeps_intros]: "keeps (audit_ok env) fresh_id"
  by (simp add: keeps_def audit_ok_def fresh_id_def)

lemma keeps_audit_tx [keeps_intros]: "keeps (audit_ok env) m \<Longrightarrow> keeps (audit_ok env) (tx m)"
  by (rule keeps_tx [where J = "audit_ok env"]) (simp_all add: audit_ok_def rollback_def)

end
