(* ===== verification/Journal.thy ===== *)
theory Journal
  imports Audit_Chain "HOL-Library.List_Lexorder"
begin

text \<open>
  The journal of \<open>internal/repository\<close>: the statements on \<open>journal_entries\<close> and
  \<open>journal_lines\<close> with the constraints of the migrations (002, 018, 044, 069, 077), the entry
  lifecycle draft, posted, reversed (\<open>repository.go\<close>, \<open>booking.go\<close>), the shared booking
  primitive \<open>BookPostedEntry\<close>, and the fiscal periods (\<open>periods.go\<close>).
\<close>

section \<open>Statements\<close>

text \<open>\<open>INSERT INTO journal_entries \<dots> RETURNING id\<close>.\<close>

definition insert_entry :: "entry \<Rightarrow> id action" where
  "insert_entry e = (\<lambda>s.
     if e_number e \<in> e_number ` set (entries s)
     then (Inl (UniqueViolation ''journal_entries_entry_number_key''), s)
     else if e_source_event e \<noteq> None \<and> e_source_event e \<in> e_source_event ` set (entries s)
     then (Inl (UniqueViolation ''uq_journal_source_event''), s)
     else (Inr (next_id s),
           s\<lparr>entries := entries s @ [e\<lparr>e_id := next_id s\<rparr>], next_id := Suc (next_id s),
             touched := next_id s # touched s\<rparr>))"

text \<open>
  The checks on a line as its columns store it: \<open>CHECK (debit >= 0)\<close>, \<open>CHECK (credit >= 0)\<close>
  and \<open>journal_line_one_side\<close>.
\<close>

definition line_check :: "jline \<Rightarrow> bool" where
  "line_check l \<longleftrightarrow> 0 \<le> l_debit l \<and> 0 \<le> l_credit l \<and>
     ((l_debit l > 0 \<and> l_credit l = 0) \<or> (l_credit l > 0 \<and> l_debit l = 0))"

definition store_line :: "env \<Rightarrow> jline \<Rightarrow> jline" where
  "store_line env l =
     l\<lparr>l_debit := env_round env (l_debit l) 4, l_credit := env_round env (l_credit l) 4,
       l_debit_base := env_round env (l_debit_base l) 4,
       l_credit_base := env_round env (l_credit_base l) 4\<rparr>"

text \<open>The trigger \<open>assert_dimension_entity\<close> (migration 044).\<close>

definition dimension_ok :: "(id \<times> id) list \<Rightarrow> id option \<Rightarrow> id option \<Rightarrow> bool" where
  "dimension_ok dims dm entity =
     (case dm of None \<Rightarrow> True | Some d \<Rightarrow> map_of dims d = entity)"

definition insert_line :: "env \<Rightarrow> jline \<Rightarrow> jline action" where
  "insert_line env l0 = (\<lambda>s.
     let l = store_line env (l0\<lparr>l_id := next_id s\<rparr>);
         entity = map_option e_entity (entry_by_id s (l_entry l))
     in if \<not> (dimension_ok (cost_centers s) (l_cost_center l) entity
              \<and> dimension_ok (projects s) (l_project l) entity)
        then (Inl (CheckViolation ''dimension does not belong to the entry entity''), s)
        else if \<not> line_check l then (Inl (CheckViolation ''journal_line_one_side''), s)
        else if entry_by_id s (l_entry l) = None
        then (Inl (ForeignKeyViolation ''journal_lines_journal_entry_id_fkey''), s)
        else if l_account l \<notin> a_id ` set (accounts s)
        then (Inl (ForeignKeyViolation ''journal_lines_account_id_fkey''), s)
        else (Inr l, s\<lparr>jlines := jlines s @ [l], next_id := Suc (next_id s),
                       touched := l_entry l # touched s\<rparr>))"

text \<open>\<open>UPDATE journal_entries SET \<dots> WHERE id = $1 AND P\<close>, and its number of rows.\<close>

definition update_entry :: "id \<Rightarrow> (entry \<Rightarrow> bool) \<Rightarrow> (entry \<Rightarrow> entry) \<Rightarrow> nat action" where
  "update_entry i P f = (\<lambda>s.
     (Inr (length (filter (\<lambda>e. e_id e = i \<and> P e) (entries s))),
      s\<lparr>entries := update_where (\<lambda>e. e_id e = i \<and> P e) f (entries s), touched := i # touched s\<rparr>))"

definition delete_lines :: "id \<Rightarrow> unit action" where
  "delete_lines i = modify (\<lambda>s. s\<lparr>jlines := filter (\<lambda>l. l_entry l \<noteq> i) (jlines s),
                                 touched := i # touched s\<rparr>)"

text \<open>
  \<open>DELETE FROM journal_entries\<close>: the lines follow by \<open>ON DELETE CASCADE\<close>, the documents that
  point to the entry lose the reference by \<open>ON DELETE SET NULL\<close>, and an entry another one reverses
  cannot go.
\<close>

definition drop_ref :: "id \<Rightarrow> id option \<Rightarrow> id option" where
  "drop_ref i r = (if r = Some i then None else r)"

definition drop_register_refs :: "id \<Rightarrow> registers \<Rightarrow> registers" where
  "drop_register_refs i r = r\<lparr>
     rev_schedules := map (\<lambda>x. x\<lparr>rs_entry := drop_ref i (rs_entry x)\<rparr>) (rev_schedules r),
     rev_lines := map (\<lambda>x. x\<lparr>sl_entry := drop_ref i (sl_entry x)\<rparr>) (rev_lines r),
     obligations := map (\<lambda>x. x\<lparr>po_entry := drop_ref i (po_entry x)\<rparr>) (obligations r),
     prepaid_schedules := map (\<lambda>x. x\<lparr>ps_entry := drop_ref i (ps_entry x)\<rparr>) (prepaid_schedules r),
     prepaid_lines := map (\<lambda>x. x\<lparr>sl_entry := drop_ref i (sl_entry x)\<rparr>) (prepaid_lines r),
     leases := map (\<lambda>x. x\<lparr>le_entry := drop_ref i (le_entry x)\<rparr>) (leases r),
     lease_lines := map (\<lambda>x. x\<lparr>ll_entry := drop_ref i (ll_entry x)\<rparr>) (lease_lines r)\<rparr>"

definition drop_estimate_refs :: "id \<Rightarrow> estimates \<Rightarrow> estimates" where
  "drop_estimate_refs i r = r\<lparr>
     ar_provisions := map (\<lambda>x. x\<lparr>av_entry := drop_ref i (av_entry x)\<rparr>) (ar_provisions r),
     ar_writeoffs := map (\<lambda>x. x\<lparr>wo_entry := drop_ref i (wo_entry x)\<rparr>) (ar_writeoffs r),
     provision_movements := map (\<lambda>x. x\<lparr>pm_entry := drop_ref i (pm_entry x)\<rparr>) (provision_movements r),
     income_tax_runs := map (\<lambda>x. x\<lparr>it_entry := drop_ref i (it_entry x)\<rparr>) (income_tax_runs r),
     deferred_tax_items := map (\<lambda>x. x\<lparr>dt_entry := drop_ref i (dt_entry x)\<rparr>) (deferred_tax_items r)\<rparr>"

definition drop_refs :: "id \<Rightarrow> db \<Rightarrow> db" where
  "drop_refs i s = s\<lparr>
     ar_items := map (\<lambda>x. x\<lparr>oi_entry := drop_ref i (oi_entry x)\<rparr>) (ar_items s),
     ap_items := map (\<lambda>x. x\<lparr>oi_entry := drop_ref i (oi_entry x)\<rparr>) (ap_items s),
     payments := map (\<lambda>x. x\<lparr>p_entry := drop_ref i (p_entry x)\<rparr>) (payments s),
     adjustments := map (\<lambda>x. x\<lparr>adj_entry := drop_ref i (adj_entry x)\<rparr>) (adjustments s),
     payroll_runs := map (\<lambda>x. x\<lparr>pr_entry := drop_ref i (pr_entry x)\<rparr>) (payroll_runs s),
     leave_provisions := map (\<lambda>x. x\<lparr>lp_entry := drop_ref i (lp_entry x)\<rparr>) (leave_provisions s),
     leave_valuations := map (\<lambda>x. x\<lparr>lv_entry := drop_ref i (lv_entry x)\<rparr>) (leave_valuations s),
     registers_of := drop_register_refs i (registers_of s),
     estimates_of := drop_estimate_refs i (estimates_of s)\<rparr>"

definition delete_entry :: "id \<Rightarrow> unit action" where
  "delete_entry i = (\<lambda>s.
     if Some i \<in> e_reverses ` set (entries s)
     then (Inl (ForeignKeyViolation ''journal_entries_reverses_entry_id_fkey''), s)
     else (Inr (), drop_refs i (s\<lparr>entries := filter (\<lambda>e. e_id e \<noteq> i) (entries s),
                                 jlines := filter (\<lambda>l. l_entry l \<noteq> i) (jlines s)\<rparr>)))"

section \<open>Lines and parameters\<close>

record resolved_line =
  rl_account :: id
  rl_debit :: rat
  rl_credit :: rat
  rl_memo :: string
  rl_order :: int
  rl_currency :: string
  rl_debit_base :: "rat option"
  rl_credit_base :: "rat option"
  rl_cost_center :: "id option"
  rl_project :: "id option"

definition mk_line :: "id \<Rightarrow> rat \<Rightarrow> rat \<Rightarrow> string \<Rightarrow> int \<Rightarrow> resolved_line" where
  "mk_line acct dr cr memo ord =
     \<lparr>rl_account = acct, rl_debit = dr, rl_credit = cr, rl_memo = memo, rl_order = ord,
      rl_currency = '''', rl_debit_base = None, rl_credit_base = None,
      rl_cost_center = None, rl_project = None\<rparr>"

definition baseAmounts :: "env \<Rightarrow> resolved_line \<Rightarrow> rat \<Rightarrow> rat \<times> rat" where
  "baseAmounts env l rate =
     ((case rl_debit_base l of None \<Rightarrow> env_round env (rl_debit l * rate) 2
       | Some d \<Rightarrow> env_round env d 2),
      (case rl_credit_base l of None \<Rightarrow> env_round env (rl_credit l * rate) 2
       | Some c \<Rightarrow> env_round env c 2))"

definition currencyOr :: "resolved_line \<Rightarrow> string \<Rightarrow> string" where
  "currencyOr l entryCurrency = (if rl_currency l \<noteq> '''' then rl_currency l else entryCurrency)"

record journal_params =
  jp_number :: string
  jp_desc :: string
  jp_status :: entry_status
  jp_source_event :: "string option"
  jp_source_service :: "string option"
  jp_correlation :: "string option"
  jp_created_by :: "id option"
  jp_acc_date :: "date option"            \<comment> \<open>\<open>None\<close>: the zero time\<close>
  jp_currency :: string
  jp_fx_rate :: rat
  jp_lines :: "resolved_line list"
  jp_counterparty :: "id option"

definition default_params :: journal_params where
  "default_params =
     \<lparr>jp_number = '''', jp_desc = '''', jp_status = Draft, jp_source_event = None,
      jp_source_service = None, jp_correlation = None, jp_created_by = None, jp_acc_date = None,
      jp_currency = '''', jp_fx_rate = 0, jp_lines = [], jp_counterparty = None\<rparr>"

definition lineCurrency :: "journal_params \<Rightarrow> string \<Rightarrow> string" where
  "lineCurrency p base = (if jp_currency p = '''' then base else jp_currency p)"

definition rate_of :: "journal_params \<Rightarrow> rat" where
  "rate_of p = (if jp_fx_rate p = 0 then 1 else jp_fx_rate p)"

definition resolveAccountingDate :: "date option \<Rightarrow> time \<Rightarrow> date" where
  "resolveAccountingDate d fallback = (case d of None \<Rightarrow> date_of fallback | Some x \<Rightarrow> x)"

definition line_row :: "env \<Rightarrow> journal_params \<Rightarrow> id \<Rightarrow> resolved_line \<Rightarrow> jline" where
  "line_row env p entryID l =
     \<lparr>l_id = 0, l_entry = entryID, l_account = rl_account l, l_debit = rl_debit l,
      l_credit = rl_credit l, l_memo = rl_memo l, l_order = rl_order l,
      l_currency = currencyOr l (lineCurrency p (env_base env)),
      l_debit_base = fst (baseAmounts env l (rate_of p)),
      l_credit_base = snd (baseAmounts env l (rate_of p)),
      l_cost_center = rl_cost_center l, l_project = rl_project l\<rparr>"

section \<open>Reading entries\<close>

record journal_line =
  jl_line :: jline
  jl_code :: string
  jl_name :: string

record journal =
  j_entry :: entry
  j_lines :: "journal_line list"

text \<open>The join of \<open>journal_lines\<close> with \<open>chart_of_accounts\<close>, \<open>ORDER BY line_order\<close>.\<close>

definition loadJournalLines :: "db \<Rightarrow> id \<Rightarrow> journal_line list" where
  "loadJournalLines s i =
     List.map_filter
       (\<lambda>l. map_option (\<lambda>a. \<lparr>jl_line = l, jl_code = a_code a, jl_name = a_name a\<rparr>)
              (row_by a_id (l_account l) (accounts s)))
       (sort_key l_order (lines_of s i))"

definition GetJournalEntry :: "id \<Rightarrow> journal option action" where
  "GetJournalEntry i = gets (\<lambda>s. map_option
     (\<lambda>e. \<lparr>j_entry = e, j_lines = loadJournalLines s i\<rparr>) (entry_by_id s i))"

definition entry_by_source :: "db \<Rightarrow> string \<Rightarrow> entry option" where
  "entry_by_source s ev = row_by e_source_event (Some ev) (entries s)"

definition GetJournalEntryBySourceEvent :: "string \<Rightarrow> journal option action" where
  "GetJournalEntryBySourceEvent ev = gets (\<lambda>s. map_option
     (\<lambda>e. \<lparr>j_entry = e, j_lines = loadJournalLines s (e_id e)\<rparr>) (entry_by_source s ev))"

definition journalPageMax :: int where
  "journalPageMax = 1000"

definition page :: "int \<Rightarrow> int \<Rightarrow> 'a list \<Rightarrow> 'a list" where
  "page n offs xs = take (nat n) (drop (nat offs) xs)"

definition ListJournalEntries :: "int \<Rightarrow> int \<Rightarrow> journal list action" where
  "ListJournalEntries limit offset =
     (let n = (if limit \<le> 0 \<or> limit > journalPageMax then 50 else limit)
      in gets (\<lambda>s. map (\<lambda>e. \<lparr>j_entry = e, j_lines = loadJournalLines s (e_id e)\<rparr>)
                (page n offset (rev (entries s)))))"

section \<open>Creating entries\<close>

text \<open>\<open>'JE-' || LPAD(nextval('journal_entry_number_seq')::text, 6, '0')\<close>.\<close>

definition entry_number :: "nat \<Rightarrow> string" where
  "entry_number n = ''JE-'' @ lpad 6 (show_nat n)"

definition nextEntryNumberTx :: "string action" where
  "nextEntryNumberTx = (\<lambda>s. (Inr (entry_number (entry_seq s)), s\<lparr>entry_seq := Suc (entry_seq s)\<rparr>))"

definition NextEntryNumber :: "string action" where
  "NextEntryNumber = nextEntryNumberTx"

definition repo_CreateJournalEntry :: "env \<Rightarrow> journal_params \<Rightarrow> journal action" where
  "repo_CreateJournalEntry env p = tx
     (let e = \<lparr>e_id = 0, e_number = jp_number p, e_desc = jp_desc p, e_status = jp_status p,
               e_source_event = jp_source_event p, e_source_service = jp_source_service p,
               e_correlation = jp_correlation p,
               e_acc_date = resolveAccountingDate (jp_acc_date p) (env_now env),
               e_reverses = None, e_posted_at = None, e_created_by = jp_created_by p,
               e_entity = env_entity env, e_counterparty = jp_counterparty p\<rparr>
      in bind (insert_entry e) (\<lambda>i.
         bind (map_each (jp_lines p) (\<lambda>l. insert_line env (line_row env p i l))) (\<lambda>ls.
         ok \<lparr>j_entry = e\<lparr>e_id := i\<rparr>,
             j_lines = map (\<lambda>l. \<lparr>jl_line = l, jl_code = '''', jl_name = ''''\<rparr>) ls\<rparr>)))"

definition UpdateJournalStatus :: "id \<Rightarrow> entry_status \<Rightarrow> time \<Rightarrow> journal option action" where
  "UpdateJournalStatus i status postedAt =
     bind (tx (update_entry i (\<lambda>_. True) (\<lambda>e. e\<lparr>e_status := status, e_posted_at := Some postedAt\<rparr>)))
       (\<lambda>_. GetJournalEntry i)"

definition period_status_of :: "db \<Rightarrow> string \<Rightarrow> period_status option" where
  "period_status_of s p = map_option fp_status (row_by fp_period p (periods s))"

definition MarkEntryPosted :: "env \<Rightarrow> id \<Rightarrow> time \<Rightarrow> audit_info option \<Rightarrow> bool action" where
  "MarkEntryPosted env i postedAt audit_i = tx
     (bind (gets (\<lambda>s. entry_by_id s i)) (\<lambda>row.
      case row of
        None \<Rightarrow> ok False
      | Some e \<Rightarrow>
          if e_status e \<noteq> Draft then ok False
          else bind (gets (\<lambda>s. period_status_of s (format_period (e_acc_date e)))) (\<lambda>ps.
            if ps = Some PeriodClosed then fail ErrPeriodClosed
            else bind (update_entry i (\<lambda>e. e_status e = Draft)
                         (\<lambda>e. e\<lparr>e_status := Posted, e_posted_at := Some postedAt\<rparr>)) (\<lambda>n.
              if n \<noteq> 1 then ok False
              else bind (appendAudit env audit_i) (\<lambda>_. ok True)))))"

section \<open>Source events\<close>

definition event_processed :: "db \<Rightarrow> string \<Rightarrow> bool" where
  "event_processed s ev \<longleftrightarrow> ev \<in> fst ` set (processed s)"

definition IsEventProcessed :: "string \<Rightarrow> bool action" where
  "IsEventProcessed ev = gets (\<lambda>s. event_processed s ev)"

definition markProcessedTx :: "string \<Rightarrow> string \<Rightarrow> bool action" where
  "markProcessedTx ev ty = (\<lambda>s.
     if event_processed s ev then (Inr False, s)
     else (Inr True, s\<lparr>processed := processed s @ [(ev, ty)]\<rparr>))"

definition MarkEventProcessed :: "string \<Rightarrow> string \<Rightarrow> unit action" where
  "MarkEventProcessed ev ty = bind (markProcessedTx ev ty) (\<lambda>_. ok ())"

section \<open>Posted entries\<close>

definition insertPostedEntryTx :: "env \<Rightarrow> journal_params \<Rightarrow> time \<Rightarrow> id action" where
  "insertPostedEntryTx env p postedAt =
     bind (insert_entry
       \<lparr>e_id = 0, e_number = jp_number p, e_desc = jp_desc p, e_status = Posted,
        e_source_event = jp_source_event p, e_source_service = jp_source_service p,
        e_correlation = jp_correlation p, e_acc_date = resolveAccountingDate (jp_acc_date p) postedAt,
        e_reverses = None, e_posted_at = Some postedAt, e_created_by = jp_created_by p,
        e_entity = env_entity env, e_counterparty = None\<rparr>) (\<lambda>entryID.
     bind (for_each (jp_lines p) (\<lambda>l. bind (insert_line env (line_row env p entryID l)) (\<lambda>_. ok ())))
       (\<lambda>_. ok entryID))"

definition ListEntriesBySource :: "string \<Rightarrow> string \<Rightarrow> (id \<times> entry_status) list action" where
  "ListEntriesBySource sourceService correlationID = gets (\<lambda>s.
     map (\<lambda>e. (e_id e, e_status e))
       (filter (\<lambda>e. e_source_service e = Some sourceService \<and> e_correlation e = Some correlationID
                  \<and> e_status e \<noteq> Reversed) (rev (entries s))))"

definition DeleteDraftEntry :: "id \<Rightarrow> unit action" where
  "DeleteDraftEntry i = tx
     (bind (gets (\<lambda>s. entry_by_id s i)) (\<lambda>row.
      case row of
        None \<Rightarrow> fail ErrEntryNotFound
      | Some e \<Rightarrow>
          if e_status e \<noteq> Draft then fail ErrNotDraft
          else bind (delete_lines i) (\<lambda>_. delete_entry i)))"

text \<open>
  The mirror lines of a reversal leave \<open>currency\<close>, \<open>debit_base\<close>, \<open>credit_base\<close> and the
  dimensions to the column defaults, the mirror entry its accounting date and entity.
\<close>

definition mirror_row :: "id \<Rightarrow> jline \<Rightarrow> jline" where
  "mirror_row revID l =
     \<lparr>l_id = 0, l_entry = revID, l_account = l_account l, l_debit = l_credit l,
      l_credit = l_debit l, l_memo = ''Reversal: '' @ l_memo l, l_order = l_order l,
      l_currency = ''UGX'', l_debit_base = 0, l_credit_base = 0, l_cost_center = None,
      l_project = None\<rparr>"

definition reversal_entry :: "env \<Rightarrow> string \<Rightarrow> entry \<Rightarrow> string \<Rightarrow> entry" where
  "reversal_entry env reason e revNumber =
     \<lparr>e_id = 0, e_number = revNumber,
      e_desc = ''Reversal of '' @ e_number e @
        (if reason \<noteq> '''' then '' '' @ em_dash @ '' '' @ reason else ''''),
      e_status = Posted, e_source_event = None, e_source_service = None,
      e_correlation = None, e_acc_date = date_of (env_now env),
      e_reverses = Some (e_id e), e_posted_at = Some (env_now env),
      e_created_by = None, e_entity = default_entity, e_counterparty = None\<rparr>"

definition reverse_posted :: "env \<Rightarrow> string \<Rightarrow> audit_info option \<Rightarrow> entry \<Rightarrow> id action" where
  "reverse_posted env reason audit_i e =
     bind (gets (\<lambda>s. sort_key l_order (lines_of s (e_id e)))) (\<lambda>ls.
     bind nextEntryNumberTx (\<lambda>revNumber.
     bind (insert_entry (reversal_entry env reason e revNumber)) (\<lambda>revID.
     bind (for_each ls (\<lambda>l. bind (insert_line env (mirror_row revID l)) (\<lambda>_. ok ()))) (\<lambda>_.
     bind (update_entry (e_id e) (\<lambda>_. True) (\<lambda>e. e\<lparr>e_status := Reversed\<rparr>)) (\<lambda>_.
     bind (appendAudit env audit_i) (\<lambda>_. ok revID))))))"

definition ReverseEntry :: "env \<Rightarrow> id \<Rightarrow> string \<Rightarrow> audit_info option \<Rightarrow> journal option action" where
  "ReverseEntry env originalID reason audit_i =
     bind (tx
       (bind (gets (\<lambda>s. entry_by_id s originalID)) (\<lambda>row.
        case row of
          None \<Rightarrow> fail ErrEntryNotFound
        | Some e \<Rightarrow>
            if e_status e \<noteq> Posted then fail ErrNotReversible
            else reverse_posted env reason audit_i e)))
       GetJournalEntry"

section \<open>The booking primitive\<close>

definition booking_tx :: "env \<Rightarrow> journal_params \<Rightarrow> string \<Rightarrow> string \<Rightarrow> time \<Rightarrow>
    (id \<Rightarrow> 'x action) option \<Rightarrow> audit_info option \<Rightarrow> (id \<times> 'x option) action" where
  "booking_tx env p eventID eventType postedAt side audit_i = tx
     (bind nextEntryNumberTx (\<lambda>entryNumber.
      bind (catch (insertPostedEntryTx env (p\<lparr>jp_number := entryNumber\<rparr>) postedAt)
             (\<lambda>e. if eventID \<noteq> '''' \<and> is_unique_violation e then fail RaceLost else fail e)) (\<lambda>entryID.
      bind (if eventID \<noteq> '''' then
              bind (markProcessedTx eventID eventType) (\<lambda>won. require won RaceLost)
            else ok ()) (\<lambda>_.
      bind (case side of None \<Rightarrow> ok None | Some f \<Rightarrow> bind (f entryID) (\<lambda>x. ok (Some x))) (\<lambda>x.
      bind (appendAudit env audit_i) (\<lambda>_. ok (entryID, x)))))))"

definition BookPostedEntry :: "env \<Rightarrow> journal_params \<Rightarrow> string \<Rightarrow> string \<Rightarrow> time \<Rightarrow>
    (id \<Rightarrow> 'x action) option \<Rightarrow> audit_info option \<Rightarrow> (journal option \<times> 'x option) action" where
  "BookPostedEntry env p0 eventID eventType postedAt side audit_i =
     (let p = (if eventID \<noteq> '''' \<and> jp_source_event p0 = None
               then p0\<lparr>jp_source_event := Some eventID\<rparr> else p0);
          replay = bind (GetJournalEntryBySourceEvent eventID) (\<lambda>j. ok (j, None))
      in bind (if eventID \<noteq> '''' then IsEventProcessed eventID else ok False) (\<lambda>done.
         if done then replay
         else catch (bind (booking_tx env p eventID eventType postedAt side audit_i) (\<lambda>(entryID, x).
                bind (GetJournalEntry entryID) (\<lambda>j. ok (j, x))))
              (\<lambda>e. if e = RaceLost then replay else fail e)))"

section \<open>Fiscal periods\<close>

definition IsPeriodClosed :: "string \<Rightarrow> bool action" where
  "IsPeriodClosed p = gets (\<lambda>s. period_status_of s p = Some PeriodClosed)"

definition drafts_in_period :: "db \<Rightarrow> string \<Rightarrow> nat" where
  "drafts_in_period s p =
     length (filter (\<lambda>e. e_status e = Draft \<and> format_period (e_acc_date e) = p) (entries s))"

definition upsert_period :: "period_row \<Rightarrow> unit action" where
  "upsert_period r = modify (\<lambda>s. s\<lparr>periods :=
     (if fp_period r \<in> fp_period ` set (periods s)
      then update_where (\<lambda>q. fp_period q = fp_period r) (\<lambda>_. r) (periods s)
      else periods s @ [r])\<rparr>)"

definition SetPeriodStatus :: "env \<Rightarrow> string \<Rightarrow> period_status \<Rightarrow> id option \<Rightarrow> unit action" where
  "SetPeriodStatus env p status by_user =
     (if status = PeriodClosed then
        bind (gets (\<lambda>s. drafts_in_period s p)) (\<lambda>drafts.
          if drafts > 0 then fail ErrPeriodHasDrafts
          else upsert_period \<lparr>fp_period = p, fp_status = PeriodClosed,
                              fp_closed_at = Some (env_now env), fp_closed_by = by_user\<rparr>)
      else upsert_period \<lparr>fp_period = p, fp_status = PeriodOpen, fp_closed_at = None,
                          fp_closed_by = None\<rparr>)"

definition ListPeriods :: "period_row list action" where
  "ListPeriods = gets (\<lambda>s. rev (sort_key (\<lambda>r. map (of_char :: char \<Rightarrow> nat) (fp_period r)) (periods s)))"

definition guardOpen :: "time \<Rightarrow> unit action" where
  "guardOpen t = bind (IsPeriodClosed (period_of_time t)) (\<lambda>closed. require (\<not> closed) ErrPeriodClosed)"

end
