(* ===== verification/Journal_Invariants.thy ===== *)
theory Journal_Invariants
  imports Journal
begin

text \<open>
  The invariant of the general ledger in every committed state: identifiers, entry numbers and
  source events are unique, every stored line passes the column checks and belongs to an existing
  entry and account, and every posted entry balances in base currency. Inside a transaction the
  balance of the entries still marked for the deferred check is open; the commit closes it.
\<close>

section \<open>The invariant\<close>

definition balanced :: "db \<Rightarrow> id \<Rightarrow> bool" where
  "balanced s i \<longleftrightarrow> base_debits (lines_of s i) = base_credits (lines_of s i)"

definition entries_wf :: "db \<Rightarrow> bool" where
  "entries_wf s \<longleftrightarrow>
     distinct (map e_id (entries s)) \<and> (\<forall>e \<in> set (entries s). e_id e < next_id s) \<and>
     distinct (map e_number (entries s)) \<and>
     distinct (filter (\<lambda>x. x \<noteq> None) (map e_source_event (entries s)))"

definition lines_wf :: "db \<Rightarrow> bool" where
  "lines_wf s \<longleftrightarrow> (\<forall>l \<in> set (jlines s).
     line_check l \<and> l_account l \<in> a_id ` set (accounts s) \<and> l_entry l \<in> e_id ` set (entries s))"

definition journal_tx_inv :: "db \<Rightarrow> bool" where
  "journal_tx_inv s \<longleftrightarrow> entries_wf s \<and> lines_wf s \<and>
     (\<forall>e \<in> set (entries s). e_status e = Posted \<and> e_id e \<notin> set (touched s) \<longrightarrow> balanced s (e_id e))"

definition journal_inv :: "db \<Rightarrow> bool" where
  "journal_inv s \<longleftrightarrow> entries_wf s \<and> lines_wf s \<and>
     (\<forall>e \<in> set (entries s). e_status e = Posted \<longrightarrow> balanced s (e_id e))"

text \<open>What the invariant depends on.\<close>

definition journal_view :: "db \<Rightarrow> entry list \<times> jline list \<times> id list \<times> id \<times> id list" where
  "journal_view s = (entries s, jlines s, touched s, next_id s, map a_id (accounts s))"

lemma journal_view_cong:
  assumes "journal_view s = journal_view t"
  shows "journal_tx_inv s = journal_tx_inv t" "journal_inv s = journal_inv t"
proof -
  from assms have view: "entries s = entries t" "jlines s = jlines t" "touched s = touched t"
    "next_id s = next_id t" "map a_id (accounts s) = map a_id (accounts t)"
    by (simp_all add: journal_view_def)
  from view(5) have "a_id ` set (accounts s) = a_id ` set (accounts t)"
    by (metis list.set_map)
  note eqs = view(1-4) this
  from view have "balanced s = balanced t" by (simp add: balanced_def lines_of_def fun_eq_iff)
  with eqs show "journal_tx_inv s = journal_tx_inv t" "journal_inv s = journal_inv t"
    by (simp_all add: journal_tx_inv_def journal_inv_def entries_wf_def lines_wf_def)
qed

lemma touched_update [simp]:
  "balanced (s\<lparr>touched := t\<rparr>) = balanced s" "entries_wf (s\<lparr>touched := t\<rparr>) = entries_wf s"
  "lines_wf (s\<lparr>touched := t\<rparr>) = lines_wf s"
  by (simp_all add: fun_eq_iff balanced_def lines_of_def entries_wf_def lines_wf_def)

lemma filter_other_entry:
  "j \<noteq> i \<Longrightarrow> filter (\<lambda>x. l_entry x \<noteq> i \<and> l_entry x = j) ls = filter (\<lambda>x. l_entry x = j) ls"
  by (rule filter_cong) auto

lemma keeps_view_modify [keeps_intros]:
  assumes "\<And>s. journal_view (f s) = journal_view s"
  shows "keeps journal_tx_inv (modify f)" "keeps journal_inv (modify f)"
  using journal_view_cong [OF assms] by (simp_all add: keeps_def)

lemma journal_inv_rollback [simp]: "journal_inv (rollback s s') = journal_inv s"
  by (rule journal_view_cong) (simp add: journal_view_def rollback_def)

lemma entry_by_id_wf: "entries_wf s \<Longrightarrow> e \<in> set (entries s) \<Longrightarrow> entry_by_id s (e_id e) = Some e"
  by (auto simp: entry_by_id_def entries_wf_def intro: row_by_distinct)

lemma entry_by_id_SomeD: "entry_by_id s i = Some e \<Longrightarrow> e \<in> set (entries s) \<and> e_id e = i"
  by (auto simp: entry_by_id_def dest: row_by_Some_in)

lemma journal_inv_touched [simp]: "journal_inv (s\<lparr>touched := t\<rparr>) = journal_inv s"
  by (simp add: journal_inv_def)

section \<open>Statements keep it\<close>

lemma keeps_tx_journal [keeps_intros]:
  assumes "keeps journal_tx_inv m"
  shows "keeps journal_inv (tx m)"
proof (rule keeps_tx [OF _ assms])
  fix s assume "journal_inv s"
  then show "journal_tx_inv (s\<lparr>touched := []\<rparr>)"
    by (simp add: journal_inv_def journal_tx_inv_def)
next
  fix s assume J: "journal_tx_inv s" and checks: "list_all (assert_journal_balanced s) (touched s)"
  have "balanced s (e_id e)" if e: "e \<in> set (entries s)" "e_status e = Posted" for e
  proof (cases "e_id e \<in> set (touched s)")
    case True
    with checks have "assert_journal_balanced s (e_id e)" by (auto simp: list_all_iff)
    moreover have "entry_by_id s (e_id e) = Some e"
      using J e by (intro entry_by_id_wf) (simp_all add: journal_tx_inv_def)
    ultimately show ?thesis using e by (simp add: assert_journal_balanced_def balanced_def)
  next
    case False
    with J e show ?thesis by (simp add: journal_tx_inv_def)
  qed
  with J show "journal_inv (s\<lparr>touched := []\<rparr>)"
    by (simp add: journal_inv_def journal_tx_inv_def)
qed simp

lemma keeps_insert_entry [keeps_intros]: "keeps journal_tx_inv (insert_entry e)"
proof (rule keepsI)
  fix s assume J: "journal_tx_inv s"
  have fresh: "next_id s \<notin> e_id ` set (entries s)"
    using J by (auto simp: journal_tx_inv_def entries_wf_def)
  show "journal_tx_inv (snd (insert_entry e s))"
    using J fresh
    by (auto simp: insert_entry_def journal_tx_inv_def entries_wf_def lines_wf_def balanced_def
        lines_of_def less_Suc_eq image_iff)
qed

lemma store_line_entry [simp]: "l_entry (store_line env l) = l_entry l"
  by (simp add: store_line_def)

lemma keeps_insert_line [keeps_intros]: "keeps journal_tx_inv (insert_line env l)"
proof (rule keepsI)
  fix s assume J: "journal_tx_inv s"
  let ?l = "store_line env (l\<lparr>l_id := next_id s\<rparr>)"
  show "journal_tx_inv (snd (insert_line env l s))"
  proof (cases "snd (insert_line env l s) = s")
    case True
    with J show ?thesis by simp
  next
    case False
    then have ok: "line_check ?l" "entry_by_id s (l_entry ?l) \<noteq> None"
        "l_account ?l \<in> a_id ` set (accounts s)"
      and t: "snd (insert_line env l s) = s\<lparr>jlines := jlines s @ [?l],
        next_id := Suc (next_id s), touched := l_entry ?l # touched s\<rparr>"
      by (auto simp: insert_line_def Let_def split: if_splits)
    from ok(2) have "l_entry ?l \<in> e_id ` set (entries s)"
      by (auto dest!: entry_by_id_SomeD) (metis imageI)
    with J ok(1,3) show ?thesis
      unfolding t journal_tx_inv_def entries_wf_def lines_wf_def balanced_def lines_of_def
      by (auto simp: less_Suc_eq)
  qed
qed

lemma keeps_update_entry [keeps_intros]:
  assumes "\<And>e. e_id (f e) = e_id e" "\<And>e. e_number (f e) = e_number e"
    "\<And>e. e_source_event (f e) = e_source_event e"
  shows "keeps journal_tx_inv (update_entry i P f)"
proof (rule keepsI)
  fix s assume J: "journal_tx_inv s"
  let ?es = "update_where (\<lambda>e. e_id e = i \<and> P e) f (entries s)"
  have ids: "map e_id ?es = map e_id (entries s)" "map e_number ?es = map e_number (entries s)"
    "map e_source_event ?es = map e_source_event (entries s)"
    by (simp_all add: map_update_where assms)
  then have ids': "e_id ` set ?es = e_id ` set (entries s)" by (metis list.set_map)
  have "\<forall>e \<in> set (entries s). e_id e < next_id s"
    using J by (simp add: journal_tx_inv_def entries_wf_def)
  then have "\<forall>e \<in> set ?es. e_id e < next_id s"
    by (auto simp: set_update_where assms)
  then show "journal_tx_inv (snd (update_entry i P f s))"
    using J ids ids'
    by (simp add: update_entry_def journal_tx_inv_def entries_wf_def lines_wf_def balanced_def
        lines_of_def) (auto simp: set_update_where assms)
qed

lemma keeps_delete_lines [keeps_intros]: "keeps journal_tx_inv (delete_lines i)"
  by (rule keepsI)
    (auto simp: delete_lines_def journal_tx_inv_def entries_wf_def lines_wf_def balanced_def
      lines_of_def filter_other_entry)

lemma distinct_map_filter: "distinct (map f xs) \<Longrightarrow> distinct (map f (filter P xs))"
  by (induction xs) auto

lemma distinct_filter_map_filter:
  "distinct (filter Q (map f xs)) \<Longrightarrow> distinct (filter Q (map f (filter P xs)))"
  by (induction xs) auto

lemma keeps_delete_entry [keeps_intros]: "keeps journal_tx_inv (delete_entry i)"
proof (rule keepsI)
  fix s assume J: "journal_tx_inv s"
  then show "journal_tx_inv (snd (delete_entry i s))"
    by (auto simp: delete_entry_def drop_refs_def journal_tx_inv_def entries_wf_def lines_wf_def balanced_def
        lines_of_def distinct_map_filter distinct_filter_map_filter filter_other_entry image_iff)
qed

lemma keeps_fresh_id [keeps_intros]: "keeps journal_tx_inv fresh_id" "keeps journal_inv fresh_id"
  by (auto simp: keeps_def fresh_id_def journal_tx_inv_def journal_inv_def entries_wf_def
      lines_wf_def balanced_def lines_of_def)

lemma keeps_nextEntryNumberTx [keeps_intros]:
  "keeps journal_tx_inv nextEntryNumberTx" "keeps journal_inv nextEntryNumberTx"
  by (auto simp: keeps_def nextEntryNumberTx_def journal_tx_inv_def journal_inv_def entries_wf_def
      lines_wf_def balanced_def lines_of_def)

lemma keeps_markProcessedTx [keeps_intros]:
  "keeps journal_tx_inv (markProcessedTx ev ty)" "keeps journal_inv (markProcessedTx ev ty)"
  by (auto simp: keeps_def markProcessedTx_def journal_tx_inv_def journal_inv_def entries_wf_def
      lines_wf_def balanced_def lines_of_def)

lemma keeps_AppendChainTx [keeps_intros]:
  "keeps journal_tx_inv (AppendChainTx env a t m)" "keeps journal_inv (AppendChainTx env a t m)"
  by (auto simp: keeps_def AppendChainTx_eq Let_def journal_tx_inv_def journal_inv_def
      entries_wf_def lines_wf_def balanced_def lines_of_def)

lemma keeps_appendAudit [keeps_intros]:
  "keeps journal_tx_inv (appendAudit env a)" "keeps journal_inv (appendAudit env a)"
  unfolding appendAudit_def by (intro keeps_intros)+

section \<open>Operations keep it\<close>

lemma keeps_insertPostedEntryTx [keeps_intros]:
  "keeps journal_tx_inv (insertPostedEntryTx env p t)"
  unfolding insertPostedEntryTx_def by (intro keeps_intros)

lemma keeps_repo_CreateJournalEntry [keeps_intros]:
  "keeps journal_inv (repo_CreateJournalEntry env p)"
  unfolding repo_CreateJournalEntry_def by (intro keeps_intros)

lemma keeps_GetJournalEntry [keeps_intros]: "keeps I (GetJournalEntry i)"
  unfolding GetJournalEntry_def by (intro keeps_intros)

lemma keeps_GetJournalEntryBySourceEvent [keeps_intros]: "keeps I (GetJournalEntryBySourceEvent ev)"
  unfolding GetJournalEntryBySourceEvent_def by (intro keeps_intros)

lemma keeps_UpdateJournalStatus [keeps_intros]: "keeps journal_inv (UpdateJournalStatus i st t)"
  unfolding UpdateJournalStatus_def by (intro keeps_intros) simp_all

lemma keeps_MarkEntryPosted [keeps_intros]: "keeps journal_inv (MarkEntryPosted env i t a)"
  unfolding MarkEntryPosted_def by (intro keeps_intros) simp_all

lemma keeps_DeleteDraftEntry [keeps_intros]: "keeps journal_inv (DeleteDraftEntry i)"
  unfolding DeleteDraftEntry_def by (intro keeps_intros)

lemma keeps_ReverseEntry [keeps_intros]: "keeps journal_inv (ReverseEntry env i r a)"
  unfolding ReverseEntry_def reverse_posted_def by (intro keeps_intros) simp_all

lemma keeps_booking_tx [keeps_intros]:
  assumes "\<And>f i. side = Some f \<Longrightarrow> keeps journal_tx_inv (f i)"
  shows "keeps journal_inv (booking_tx env p ev ty t side a)"
  unfolding booking_tx_def using assms by (intro keeps_intros) auto

lemma keeps_BookPostedEntry [keeps_intros]:
  assumes "\<And>f i. side = Some f \<Longrightarrow> keeps journal_tx_inv (f i)"
  shows "keeps journal_inv (BookPostedEntry env p ev ty t side a)"
  unfolding BookPostedEntry_def IsEventProcessed_def Let_def using assms
  by (intro keeps_intros) auto

lemma keeps_upsert_period [keeps_intros]: "keeps journal_inv (upsert_period r)"
  unfolding upsert_period_def by (intro keeps_intros) (simp add: journal_view_def)

lemma keeps_SetPeriodStatus [keeps_intros]: "keeps journal_inv (SetPeriodStatus env p st u)"
  unfolding SetPeriodStatus_def by (intro keeps_intros)

end
