(* ===== verification/Entry_Numbers.thy ===== *)
theory Entry_Numbers
  imports Journal_Invariants
begin

text \<open>
  Entry numbers: the rendering of the sequence value is injective while it fits its six digits, so
  the numbers the ledger allocates never collide before the sequence passes 999999.
\<close>

section \<open>Decimal rendering is injective\<close>

lemma digit_char_value [simp]:
  "0 \<le> d \<Longrightarrow> d < 10 \<Longrightarrow> int (of_char (digit_char d)) - 48 = d"
proof -
  assume d: "0 \<le> d" "d < 10"
  have "(of_char (char_of (48 + d) :: char) :: int) = (48 + d) mod 256"
    by (simp only: of_char_of)
  moreover have "int (of_char (char_of (48 + d) :: char)) = of_char (char_of (48 + d) :: char)"
    by (rule of_nat_of_char)
  ultimately show ?thesis using d by (simp only: digit_char_def) simp
qed

lemma digits_value_append_one: "digits_value (s @ [c]) = 10 * digits_value s + (int (of_char c) - 48)"
  by (simp add: digits_value_def)

lemma digits_value_show_digits: "0 \<le> n \<Longrightarrow> digits_value (show_digits n) = n"
proof (induction n rule: show_digits.induct)
  case (1 n)
  show ?case
  proof (cases "n < 10")
    case True
    with 1 show ?thesis
      by (simp add: show_digits.simps [of n] digits_value_def)
  next
    case False
    with 1 have "digits_value (show_digits (n div 10)) = n div 10" by simp
    moreover have "0 \<le> n mod 10" "n mod 10 < 10" by simp_all
    ultimately show ?thesis
      using False by (simp add: show_digits.simps [of n] digits_value_append_one)
  qed
qed

lemma digits_value_zeros: "digits_value (replicate k (CHR ''0'') @ s) = digits_value s"
proof (induction k)
  case (Suc k)
  then show ?case by (simp add: digits_value_def)
qed simp

lemma length_show_digits: "0 \<le> n \<Longrightarrow> n < 10 ^ Suc k \<Longrightarrow> length (show_digits n) \<le> Suc k"
proof (induction k arbitrary: n)
  case 0
  then show ?case by (simp add: show_digits.simps [of n])
next
  case (Suc k)
  show ?case
  proof (cases "n < 10")
    case True
    then show ?thesis by (simp add: show_digits.simps [of n])
  next
    case False
    have "n div 10 < 10 ^ Suc k" using Suc.prems(2) by (simp add: div_less_iff_less_mult mult.commute)
    then have "length (show_digits (n div 10)) \<le> Suc k"
      using Suc.IH [of "n div 10"] False by simp
    with False show ?thesis by (simp add: show_digits.simps [of n])
  qed
qed

lemma entry_number_value:
  assumes "n < 1000000"
  shows "digits_value (drop 3 (entry_number n)) = int n"
proof -
  have "length (show_nat n) \<le> 6"
    using length_show_digits [of "int n" 5] assms by (simp add: show_nat_def show_int_def)
  then have "lpad 6 (show_nat n) = replicate (6 - length (show_nat n)) (CHR ''0'') @ show_nat n"
    by (simp add: lpad_def pad_left_def)
  moreover have "drop 3 (''JE-'' @ xs) = xs" for xs :: string by simp
  ultimately have "drop 3 (entry_number n) = replicate (6 - length (show_nat n)) (CHR ''0'') @ show_nat n"
    by (simp only: entry_number_def)
  then have "digits_value (drop 3 (entry_number n)) = digits_value (show_nat n)"
    by (simp only: digits_value_zeros)
  also have "\<dots> = int n"
    using digits_value_show_digits [of "int n"] by (simp add: show_nat_def show_int_def)
  finally show ?thesis .
qed

lemma entry_number_inj: "m < 1000000 \<Longrightarrow> n < 1000000 \<Longrightarrow> entry_number m = entry_number n \<Longrightarrow> m = n"
  by (metis entry_number_value of_nat_eq_iff)

section \<open>Every number was allocated from the sequence\<close>

definition numbers_wf :: "nat \<Rightarrow> db \<Rightarrow> bool" where
  "numbers_wf n s \<longleftrightarrow> n \<le> entry_seq s \<and>
     (\<forall>e \<in> set (entries s). \<exists>k < entry_seq s. e_number e = entry_number k)"

lemma numbers_wf_fresh:
  assumes "numbers_wf n s" "entry_seq s < 1000000"
  shows "entry_number (entry_seq s) \<notin> e_number ` set (entries s)"
proof
  assume "entry_number (entry_seq s) \<in> e_number ` set (entries s)"
  then obtain k where "k < entry_seq s" "entry_number (entry_seq s) = entry_number k"
    using assms(1) by (auto simp: numbers_wf_def)
  then show False using entry_number_inj [of "entry_seq s" k] assms(2) by simp
qed

lemma keeps_numbers_modify [keeps_intros]:
  "(\<And>s. entries (f s) = entries s) \<Longrightarrow> (\<And>s. entry_seq (f s) = entry_seq s) \<Longrightarrow>
     keeps (numbers_wf n) (modify f)"
  by (simp add: keeps_def numbers_wf_def)

lemma keeps_numbers_tx [keeps_intros]:
  assumes "\<And>m. keeps (numbers_wf m) act"
  shows "keeps (numbers_wf n) (tx act)"
proof (rule keepsI)
  fix s assume s: "numbers_wf n s"
  let ?r = "act (s\<lparr>touched := []\<rparr>)"
  have "numbers_wf (entry_seq s) (s\<lparr>touched := []\<rparr>)" using s by (simp add: numbers_wf_def)
  then have t: "numbers_wf (entry_seq s) (snd ?r)" by (rule keepsD [OF assms])
  then have "entry_seq s \<le> entry_seq (snd ?r)" by (simp add: numbers_wf_def)
  with s have "numbers_wf n (rollback s (snd ?r))"
    by (auto simp: numbers_wf_def rollback_def) (meson less_le_trans)
  moreover have "numbers_wf n ((snd ?r)\<lparr>touched := []\<rparr>)" using s t by (auto simp: numbers_wf_def)
  ultimately show "numbers_wf n (snd (tx act s))"
    by (auto simp: tx_def split: prod.splits sum.splits)
qed

text \<open>A number drawn from the sequence is below its next value from then on.\<close>

lemma keeps_numbers_next [keeps_intros]:
  assumes "\<And>k. keeps (numbers_wf (Suc k)) (f (entry_number k))"
  shows "keeps (numbers_wf n) (bind nextEntryNumberTx f)"
proof (rule keepsI)
  fix s assume s: "numbers_wf n s"
  let ?t = "s\<lparr>entry_seq := Suc (entry_seq s)\<rparr>"
  have "numbers_wf (Suc (entry_seq s)) ?t" using s by (auto simp: numbers_wf_def less_Suc_eq)
  then have "numbers_wf (Suc (entry_seq s)) (snd (f (entry_number (entry_seq s)) ?t))"
    by (rule keepsD [OF assms])
  then show "numbers_wf n (snd (bind nextEntryNumberTx f s))"
    using s by (auto simp: bind_apply nextEntryNumberTx_def numbers_wf_def)
qed

lemma keeps_numbers_insert_entry:
  "e_number e = entry_number k \<Longrightarrow> k < n \<Longrightarrow> keeps (numbers_wf n) (insert_entry e)"
  by (auto simp: keeps_def insert_entry_def numbers_wf_def intro!: exI [where x = k])

lemma keeps_numbers_insert_line [keeps_intros]: "keeps (numbers_wf n) (insert_line env l)"
  by (auto simp: keeps_def insert_line_def numbers_wf_def Let_def)

lemma keeps_numbers_update_entry [keeps_intros]:
  "(\<And>e. e_number (f e) = e_number e) \<Longrightarrow> keeps (numbers_wf n) (update_entry i P f)"
  by (auto simp: keeps_def update_entry_def numbers_wf_def set_update_where)

lemma keeps_numbers_delete [keeps_intros]:
  "keeps (numbers_wf n) (delete_lines i)" "keeps (numbers_wf n) (delete_entry i)"
  by (auto simp: keeps_def delete_lines_def delete_entry_def drop_refs_def numbers_wf_def)

lemma keeps_numbers_misc [keeps_intros]:
  "keeps (numbers_wf n) fresh_id" "keeps (numbers_wf n) (markProcessedTx ev ty)"
  "keeps (numbers_wf n) (AppendChainTx env a t m)"
  by (auto simp: keeps_def fresh_id_def markProcessedTx_def AppendChainTx_eq numbers_wf_def Let_def)

lemma keeps_numbers_appendAudit [keeps_intros]: "keeps (numbers_wf n) (appendAudit env a)"
  unfolding appendAudit_def by (intro keeps_intros)

lemma keeps_numbers_insertPostedEntryTx:
  "jp_number p = entry_number k \<Longrightarrow> k < n \<Longrightarrow> keeps (numbers_wf n) (insertPostedEntryTx env p t)"
  unfolding insertPostedEntryTx_def
  by (intro keeps_intros keeps_numbers_insert_entry) auto

lemma keeps_numbers_booking_tx [keeps_intros]:
  assumes "\<And>f i m. side = Some f \<Longrightarrow> keeps (numbers_wf m) (f i)"
  shows "keeps (numbers_wf n) (booking_tx env p ev ty t side a)"
proof -
  have ins: "keeps (numbers_wf (Suc k)) (insertPostedEntryTx env (p\<lparr>jp_number := entry_number k\<rparr>) t)" for k
    by (rule keeps_numbers_insertPostedEntryTx) auto
  show ?thesis
    unfolding booking_tx_def using assms by (intro keeps_intros ins) auto
qed

lemma keeps_numbers_BookPostedEntry [keeps_intros]:
  assumes "\<And>f i m. side = Some f \<Longrightarrow> keeps (numbers_wf m) (f i)"
  shows "keeps (numbers_wf n) (BookPostedEntry env p ev ty t side a)"
  unfolding BookPostedEntry_def IsEventProcessed_def Let_def using assms
  by (intro keeps_intros) auto

lemma keeps_numbers_ReverseEntry [keeps_intros]: "keeps (numbers_wf n) (ReverseEntry env i r a)"
  unfolding ReverseEntry_def reverse_posted_def reversal_entry_def by (intro keeps_intros keeps_numbers_insert_entry) auto

lemma keeps_numbers_MarkEntryPosted [keeps_intros]: "keeps (numbers_wf n) (MarkEntryPosted env i t a)"
  unfolding MarkEntryPosted_def by (intro keeps_intros) auto

lemma keeps_numbers_DeleteDraftEntry [keeps_intros]: "keeps (numbers_wf n) (DeleteDraftEntry i)"
  unfolding DeleteDraftEntry_def by (intro keeps_intros)

lemma keeps_numbers_repo_Create:
  assumes "jp_number p = entry_number k" "k < n"
  shows "keeps (numbers_wf n) (repo_CreateJournalEntry env p)"
proof (rule keepsI)
  fix s assume s: "numbers_wf n s"
  define body where "body = (let e = \<lparr>e_id = 0, e_number = jp_number p, e_desc = jp_desc p, e_status = jp_status p,
               e_source_event = jp_source_event p, e_source_service = jp_source_service p,
               e_correlation = jp_correlation p,
               e_acc_date = resolveAccountingDate (jp_acc_date p) (env_now env),
               e_reverses = None, e_posted_at = None, e_created_by = jp_created_by p,
               e_entity = env_entity env, e_counterparty = jp_counterparty p\<rparr>
      in bind (insert_entry e) (\<lambda>i.
         bind (map_each (jp_lines p) (\<lambda>l. insert_line env (line_row env p i l))) (\<lambda>ls.
         ok \<lparr>j_entry = e\<lparr>e_id := i\<rparr>,
             j_lines = map (\<lambda>l. \<lparr>jl_line = l, jl_code = '''', jl_name = ''''\<rparr>) ls\<rparr>)))"
  have "keeps (numbers_wf (max n (entry_seq s))) body"
    unfolding body_def Let_def using assms
    by (intro keeps_intros keeps_numbers_insert_entry [where k = k]) auto
  moreover have "numbers_wf (max n (entry_seq s)) (s\<lparr>touched := []\<rparr>)" using s by (simp add: numbers_wf_def)
  ultimately have t: "numbers_wf (max n (entry_seq s)) (snd (body (s\<lparr>touched := []\<rparr>)))" by (rule keepsD)
  then have "entry_seq s \<le> entry_seq (snd (body (s\<lparr>touched := []\<rparr>)))" by (simp add: numbers_wf_def)
  with s have "numbers_wf n (rollback s (snd (body (s\<lparr>touched := []\<rparr>))))"
    by (auto simp: numbers_wf_def rollback_def) (meson less_le_trans)
  moreover have "numbers_wf n ((snd (body (s\<lparr>touched := []\<rparr>)))\<lparr>touched := []\<rparr>)"
    using s t by (auto simp: numbers_wf_def)
  moreover have "repo_CreateJournalEntry env p = tx body"
    by (simp add: repo_CreateJournalEntry_def body_def)
  ultimately show "numbers_wf n (snd (repo_CreateJournalEntry env p s))"
    by (auto simp: tx_def split: prod.splits sum.splits)
qed

end
