(* ===== verification/Chart.thy ===== *)
theory Chart
  imports Journal_Invariants
begin

text \<open>
  The chart of accounts (\<open>repository.go\<close>): seeding, partial update, soft deletion and the lookup
  every posting resolves its lines with.
\<close>

definition defaultAccounts :: "(string \<times> string \<times> string \<times> bool) list" where
  "defaultAccounts =
     [(''1000'', ''Cash'', ''asset'', True),
      (''1050'', ''Payments Clearing'', ''asset'', False),
      (''1100'', ''Accounts Receivable'', ''asset'', False),
      (''2000'', ''Accounts Payable'', ''liability'', False),
      (''3000'', ''Retained Earnings'', ''equity'', False),
      (''4000'', ''Sales Revenue'', ''revenue'', False),
      (''5000'', ''Cost of Goods Sold'', ''expense'', False),
      (''5100'', ''Operating Expenses'', ''expense'', False),
      (''2100'', ''VAT Payable'', ''liability'', False),
      (''1190'', ''Allowance for Doubtful Debts'', ''asset'', False),
      (''5400'', ''Bad Debt Expense'', ''expense'', False),
      (''4300'', ''Bad Debt Recovery'', ''revenue'', False),
      (''2300'', ''Deferred Revenue'', ''liability'', False),
      (''1200'', ''Accrued Revenue'', ''asset'', False),
      (''1250'', ''Prepaid Expenses'', ''asset'', False),
      (''1600'', ''Right-of-Use Assets'', ''asset'', False),
      (''1610'', ''Accumulated Depreciation - ROU'', ''asset'', False),
      (''2500'', ''Lease Liability'', ''liability'', False),
      (''5320'', ''Depreciation - Right-of-Use Assets'', ''expense'', False),
      (''5600'', ''Interest Expense - Leases'', ''expense'', False),
      (''1700'', ''Deferred Tax Asset'', ''asset'', False),
      (''2600'', ''Income Tax Payable'', ''liability'', False),
      (''2610'', ''Deferred Tax Liability'', ''liability'', False),
      (''5700'', ''Income Tax Expense'', ''expense'', False),
      (''1800'', ''Investment in Subsidiary'', ''asset'', False),
      (''1900'', ''Goodwill'', ''asset'', False),
      (''3200'', ''Non-Controlling Interest'', ''equity'', False),
      (''5310'', ''Impairment Loss'', ''expense'', False),
      (''3100'', ''Revaluation Surplus'', ''equity'', False),
      (''2400'', ''Provisions'', ''liability'', False),
      (''2410'', ''Decommissioning Provision'', ''liability'', False),
      (''5500'', ''Provision Expense'', ''expense'', False),
      (''5510'', ''Finance Cost - Unwinding of Discount'', ''expense'', False),
      (''5150'', ''Purchase Price Variance'', ''expense'', False)]"

definition new_account :: "string \<Rightarrow> string \<Rightarrow> string \<Rightarrow> string \<Rightarrow> id option \<Rightarrow> bool \<Rightarrow> account" where
  "new_account code name ty currency parent cash =
     \<lparr>a_id = 0, a_code = code, a_name = name, a_type = ty, a_parent = parent, a_currency = currency,
      a_active = True, a_restrict = False, a_cash = cash\<rparr>"

definition valid_account_type :: "string \<Rightarrow> bool" where
  "valid_account_type ty \<longleftrightarrow> ty \<in> {''asset'', ''liability'', ''equity'', ''revenue'', ''expense''}"

definition parent_missing :: "id option \<Rightarrow> db \<Rightarrow> bool" where
  "parent_missing parent s \<longleftrightarrow> (case parent of None \<Rightarrow> False | Some p \<Rightarrow> p \<notin> a_id ` set (accounts s))"

definition insert_account :: "account \<Rightarrow> account action" where
  "insert_account a = (\<lambda>s.
     if \<not> valid_account_type (a_type a) then (Inl (CheckViolation ''account_type''), s)
     else if a_code a \<in> a_code ` set (accounts s)
     then (Inl (UniqueViolation ''chart_of_accounts_code_key''), s)
     else if parent_missing (a_parent a) s
     then (Inl (ForeignKeyViolation ''chart_of_accounts_parent_id_fkey''), s)
     else (Inr (a\<lparr>a_id := next_id s\<rparr>),
           s\<lparr>accounts := accounts s @ [a\<lparr>a_id := next_id s\<rparr>], next_id := Suc (next_id s)\<rparr>))"

text \<open>\<open>INSERT \<dots> ON CONFLICT (code) DO UPDATE SET is_cash_equivalent = EXCLUDED.is_cash_equivalent\<close>.\<close>

definition seed_account :: "string \<times> string \<times> string \<times> bool \<Rightarrow> unit action" where
  "seed_account = (\<lambda>(code, name, ty, cash). bind (gets (\<lambda>s. code \<in> a_code ` set (accounts s))) (\<lambda>present.
     if present then
       modify (\<lambda>s. s\<lparr>accounts := update_where (\<lambda>a. a_code a = code) (\<lambda>a. a\<lparr>a_cash := cash\<rparr>) (accounts s)\<rparr>)
     else bind (insert_account (new_account code name ty ''UGX'' None cash)) (\<lambda>_. ok ())))"

definition SeedChartOfAccounts :: "unit action" where
  "SeedChartOfAccounts = for_each defaultAccounts seed_account"

definition ListChartOfAccounts :: "account list action" where
  "ListChartOfAccounts = gets (\<lambda>s.
     sort_key (\<lambda>a. map (of_char :: char \<Rightarrow> nat) (a_code a)) (filter a_active (accounts s)))"

definition CreateChartAccount ::
  "string \<Rightarrow> string \<Rightarrow> string \<Rightarrow> string \<Rightarrow> id option \<Rightarrow> account action" where
  "CreateChartAccount code name accountType currency parentID =
     insert_account (new_account code name accountType currency parentID False)"

definition coalesce :: "'a option \<Rightarrow> 'a \<Rightarrow> 'a" where
  "coalesce x d = (case x of None \<Rightarrow> d | Some v \<Rightarrow> v)"

definition UpdateChartAccount ::
  "id \<Rightarrow> string option \<Rightarrow> string option \<Rightarrow> string option \<Rightarrow> id option \<Rightarrow> bool option \<Rightarrow> bool option \<Rightarrow>
   account option action" where
  "UpdateChartAccount i name accountType currency parentID active restrict_side = (\<lambda>s.
     if row_by a_id i (accounts s) = None then (Inr None, s)
     else if (case accountType of None \<Rightarrow> False | Some t \<Rightarrow> \<not> valid_account_type t)
     then (Inl (CheckViolation ''account_type''), s)
     else if parent_missing parentID s
     then (Inl (ForeignKeyViolation ''chart_of_accounts_parent_id_fkey''), s)
     else let t = s\<lparr>accounts := update_where (\<lambda>a. a_id a = i)
            (\<lambda>a. a\<lparr>a_name := coalesce name (a_name a), a_type := coalesce accountType (a_type a),
                  a_currency := coalesce currency (a_currency a),
                  a_parent := (case parentID of None \<Rightarrow> a_parent a | Some p \<Rightarrow> Some p),
                  a_active := coalesce active (a_active a),
                  a_restrict := coalesce restrict_side (a_restrict a)\<rparr>) (accounts s)\<rparr>
          in (Inr (row_by a_id i (accounts t)), t))"

definition DeactivateChartAccount :: "id \<Rightarrow> bool action" where
  "DeactivateChartAccount i = (\<lambda>s.
     (Inr (\<exists>a \<in> set (accounts s). a_id a = i \<and> a_active a),
      s\<lparr>accounts := update_where (\<lambda>a. a_id a = i \<and> a_active a) (\<lambda>a. a\<lparr>a_active := False\<rparr>) (accounts s)\<rparr>))"

definition account_by_code :: "db \<Rightarrow> string \<Rightarrow> account option" where
  "account_by_code s code = find (\<lambda>a. a_code a = code \<and> a_active a) (accounts s)"

definition GetAccountByCode :: "string \<Rightarrow> account option action" where
  "GetAccountByCode code = gets (\<lambda>s. account_by_code s code)"

text \<open>Service: \<open>resolveAccount\<close> of \<open>ledger/payments.go\<close>.\<close>

definition resolveAccount :: "string \<Rightarrow> account action" where
  "resolveAccount code = bind (GetAccountByCode code) (\<lambda>a.
     case a of None \<Rightarrow> fail (ErrAccountNotFound code) | Some x \<Rightarrow> ok x)"

section \<open>The chart is well formed\<close>

definition accounts_wf :: "db \<Rightarrow> bool" where
  "accounts_wf s \<longleftrightarrow> distinct (map a_id (accounts s)) \<and> distinct (map a_code (accounts s)) \<and>
     (\<forall>a \<in> set (accounts s). a_id a < next_id s \<and> valid_account_type (a_type a))"

lemma account_by_code_SomeD:
  "account_by_code s code = Some a \<Longrightarrow> a \<in> set (accounts s) \<and> a_code a = code \<and> a_active a"
  by (auto simp: account_by_code_def find_Some_iff)

lemma keeps_chart_insert [keeps_intros]:
  "keeps accounts_wf (insert_account a)" "keeps journal_inv (insert_account a)"
  by (auto simp: keeps_def insert_account_def accounts_wf_def journal_inv_def entries_wf_def
      lines_wf_def balanced_def lines_of_def less_Suc_eq)

lemma keeps_chart_update_where [keeps_intros]:
  assumes "\<And>a. a_id (f a) = a_id a" "\<And>a. a_code (f a) = a_code a" "\<And>a. a_type (f a) = a_type a"
  shows "keeps accounts_wf (modify (\<lambda>s. s\<lparr>accounts := update_where P f (accounts s)\<rparr>))"
  using assms by (auto simp: keeps_def accounts_wf_def map_update_where set_update_where)

lemma keeps_seed_account [keeps_intros]:
  "keeps accounts_wf (seed_account a)" "keeps journal_inv (seed_account a)"
  unfolding seed_account_def
  by (intro keeps_intros; simp add: journal_view_def map_update_where)+

lemma keeps_SeedChartOfAccounts [keeps_intros]:
  "keeps accounts_wf SeedChartOfAccounts" "keeps journal_inv SeedChartOfAccounts"
  unfolding SeedChartOfAccounts_def by (intro keeps_intros)+

lemma keeps_CreateChartAccount [keeps_intros]:
  "keeps accounts_wf (CreateChartAccount code name ty c p)" "keeps journal_inv (CreateChartAccount code name ty c p)"
  unfolding CreateChartAccount_def by (rule keeps_chart_insert)+

lemma keeps_UpdateChartAccount [keeps_intros]:
  "keeps accounts_wf (UpdateChartAccount i n t c p a r)"
  "keeps journal_inv (UpdateChartAccount i n t c p a r)"
proof -
  have "accounts_wf s \<Longrightarrow> accounts_wf (snd (UpdateChartAccount i n t c p a r s))" for s
    by (auto simp: UpdateChartAccount_def Let_def accounts_wf_def map_update_where set_update_where
        coalesce_def split: option.splits)
  then show "keeps accounts_wf (UpdateChartAccount i n t c p a r)" by (rule keepsI)
  have "journal_view (snd (UpdateChartAccount i n t c p a r s)) = journal_view s" for s
    by (simp add: UpdateChartAccount_def Let_def journal_view_def map_update_where)
  then show "keeps journal_inv (UpdateChartAccount i n t c p a r)"
    using journal_view_cong(2) by (metis keepsI)
qed

lemma keeps_DeactivateChartAccount [keeps_intros]:
  "keeps accounts_wf (DeactivateChartAccount i)" "keeps journal_inv (DeactivateChartAccount i)"
proof -
  show "keeps accounts_wf (DeactivateChartAccount i)"
    by (auto simp: keeps_def DeactivateChartAccount_def accounts_wf_def map_update_where set_update_where)
  have "journal_view (snd (DeactivateChartAccount i s)) = journal_view s" for s
    by (simp add: DeactivateChartAccount_def journal_view_def map_update_where)
  then show "keeps journal_inv (DeactivateChartAccount i)"
    using journal_view_cong(2) by (metis keepsI)
qed

lemma reads_GetAccountByCode [reads_intros]: "reads (GetAccountByCode c)"
  unfolding GetAccountByCode_def by (intro reads_intros)

lemma reads_resolveAccount [reads_intros]: "reads (resolveAccount c)"
  unfolding resolveAccount_def by (intro reads_intros)

lemma keeps_resolveAccount [keeps_intros]: "keeps I (resolveAccount c)"
  by (rule reads_keeps) (rule reads_resolveAccount)

lemma resolveAccount_Inr:
  "resolveAccount c s = (Inr a, t) \<longleftrightarrow> t = s \<and> account_by_code s c = Some a"
  by (auto simp: resolveAccount_def GetAccountByCode_def split: option.splits)

lemma resolveAccount_apply:
  "resolveAccount c s = (case account_by_code s c of None \<Rightarrow> Inl (ErrAccountNotFound c) | Some a \<Rightarrow> Inr a, s)"
  by (simp add: resolveAccount_def GetAccountByCode_def split: option.splits)

end
