(* ===== verification/Fx_Rates.thy ===== *)
theory Fx_Rates
  imports Chart
begin

text \<open>
  Exchange rates (\<open>repository/fx.go\<close>): the rate in force on a date, its fallbacks, and the rate a
  document was booked at.
\<close>

text \<open>\<open>ORDER BY as_of_date DESC LIMIT 1\<close>.\<close>

fun latest_rate :: "rate_row list \<Rightarrow> rate_row option" where
  "latest_rate [] = None"
| "latest_rate (r # rs) =
     (case latest_rate rs of None \<Rightarrow> Some r
      | Some b \<Rightarrow> if date_le (r_as_of b) (r_as_of r) then Some r else Some b)"

definition effective_rates :: "db \<Rightarrow> string \<Rightarrow> string \<Rightarrow> date \<Rightarrow> rate_row list" where
  "effective_rates s currency base asOf =
     filter (\<lambda>r. r_currency r = currency \<and> r_base r = base \<and> date_le (r_as_of r) asOf) (rates s)"

definition GetRate :: "env \<Rightarrow> string \<Rightarrow> date \<Rightarrow> rat action" where
  "GetRate env currency asOf =
     (if currency = '''' \<or> currency = env_base env then ok 1
      else bind (gets (\<lambda>s. latest_rate (effective_rates s currency (env_base env) asOf))) (\<lambda>row.
        case row of None \<Rightarrow> fail ErrNoRate | Some r \<Rightarrow> ok (r_rate r)))"

definition UpsertRate :: "env \<Rightarrow> string \<Rightarrow> rat \<Rightarrow> date \<Rightarrow> unit action" where
  "UpsertRate env currency rate asOf =
     (let x = env_round env rate 8;
          same = (\<lambda>r. r_currency r = currency \<and> r_base r = env_base env \<and> r_as_of r = asOf)
      in if \<not> x > 0 then fail (CheckViolation ''exchange_rates_rate_check'')
         else modify (\<lambda>s. s\<lparr>rates :=
           (if \<exists>r \<in> set (rates s). same r
            then update_where same (\<lambda>r. r\<lparr>r_rate := x\<rparr>) (rates s)
            else rates s @ [\<lparr>r_currency = currency, r_base = env_base env, r_rate = x, r_as_of = asOf\<rparr>])\<rparr>))"

definition ListRates :: "int \<Rightarrow> rate_row list action" where
  "ListRates limit =
     (let n = (if limit \<le> 0 \<or> limit > 500 then 200 else limit)
      in gets (\<lambda>s. take (nat n)
           (sort_key (\<lambda>r. - day_of_civil (r_as_of r))
             (sort_key (\<lambda>r. map (of_char :: char \<Rightarrow> nat) (r_currency r)) (rates s)))))"

record foreign_balance =
  fb_direction :: direction
  fb_currency :: string
  fb_remaining :: rat
  fb_doc_rate :: rat

definition foreign_of :: "env \<Rightarrow> direction \<Rightarrow> open_item list \<Rightarrow> foreign_balance list" where
  "foreign_of env d items =
     map (\<lambda>i. \<lparr>fb_direction = d, fb_currency = oi_currency i,
                fb_remaining = oi_amount i - oi_paid i, fb_doc_rate = oi_fx_rate i\<rparr>)
       (filter (\<lambda>i. oi_status i \<in> {Open, Partial} \<and> oi_currency i \<noteq> env_base env) items)"

definition OpenForeignBalances :: "env \<Rightarrow> foreign_balance list action" where
  "OpenForeignBalances env =
     gets (\<lambda>s. foreign_of env AR (ar_items s) @ foreign_of env AP (ap_items s))"

definition RateOrOne :: "env \<Rightarrow> string \<Rightarrow> date \<Rightarrow> rat action" where
  "RateOrOne env currency asOf = catch (GetRate env currency asOf) (\<lambda>_. ok 1)"

definition items_of :: "direction \<Rightarrow> db \<Rightarrow> open_item list" where
  "items_of d s = (case d of AR \<Rightarrow> ar_items s | AP \<Rightarrow> ap_items s)"

definition set_items :: "direction \<Rightarrow> open_item list \<Rightarrow> db \<Rightarrow> db" where
  "set_items d is s = (case d of AR \<Rightarrow> s\<lparr>ar_items := is\<rparr> | AP \<Rightarrow> s\<lparr>ap_items := is\<rparr>)"

definition OpenItemFXRate :: "direction \<Rightarrow> id \<Rightarrow> rat action" where
  "OpenItemFXRate d i = gets (\<lambda>s.
     case row_by oi_id i (items_of d s) of None \<Rightarrow> 1 | Some r \<Rightarrow> oi_fx_rate r)"

definition OpenItemFXRateByDocRef :: "direction \<Rightarrow> string \<Rightarrow> rat action" where
  "OpenItemFXRateByDocRef d ref = gets (\<lambda>s.
     case row_by oi_document_ref ref (items_of d s) of None \<Rightarrow> 1 | Some r \<Rightarrow> oi_fx_rate r)"

section \<open>The rate in force\<close>

definition rates_wf :: "db \<Rightarrow> bool" where
  "rates_wf s \<longleftrightarrow> distinct (map (\<lambda>r. (r_currency r, r_base r, r_as_of r)) (rates s)) \<and>
     (\<forall>r \<in> set (rates s). r_rate r > 0)"

lemma latest_rate_in: "latest_rate rs = Some r \<Longrightarrow> r \<in> set rs"
  by (induction rs arbitrary: r) (auto split: option.splits if_splits)

lemma latest_rate_None: "latest_rate rs = None \<longleftrightarrow> rs = []"
  by (cases rs) (auto split: option.splits)

lemma latest_rate_max:
  "latest_rate rs = Some r \<Longrightarrow> x \<in> set rs \<Longrightarrow> date_le (r_as_of x) (r_as_of r)"
proof (induction rs arbitrary: r)
  case (Cons y ys)
  show ?case
  proof (cases "latest_rate ys")
    case None
    with Cons.prems show ?thesis by (simp add: latest_rate_None)
  next
    case (Some b)
    with Cons show ?thesis
      using date_le_total [of "r_as_of b" "r_as_of y"] date_le_trans [of "r_as_of x" "r_as_of b" "r_as_of y"]
      by (auto split: if_splits)
  qed
qed simp

lemma keeps_rates_modify: "(\<And>s. rates (f s) = rates s) \<Longrightarrow> keeps rates_wf (modify f)"
  by (simp add: keeps_def rates_wf_def)

lemma keeps_UpsertRate [keeps_intros]:
  "keeps rates_wf (UpsertRate env c x d)" "keeps journal_inv (UpsertRate env c x d)"
proof -
  have "distinct (map (\<lambda>r. (r_currency r, r_base r, r_as_of r)) (rates s @ [new]))"
    if "rates_wf s" "\<forall>r \<in> set (rates s). \<not> (r_currency r = r_currency new \<and> r_base r = r_base new \<and> r_as_of r = r_as_of new)"
    for s new
    using that by (auto simp: rates_wf_def)
  then show "keeps rates_wf (UpsertRate env c x d)"
    by (auto simp: keeps_def UpsertRate_def Let_def rates_wf_def map_update_where set_update_where)
  show "keeps journal_inv (UpsertRate env c x d)"
    unfolding UpsertRate_def Let_def by (intro keeps_intros) (simp add: journal_view_def)
qed

lemma reads_GetRate [reads_intros]: "reads (GetRate env c d)"
  unfolding GetRate_def by (intro reads_intros)

lemma RateOrOne_apply:
  "RateOrOne env c d s =
     (Inr (if c = '''' \<or> c = env_base env then 1
           else case latest_rate (effective_rates s c (env_base env) d) of
             None \<Rightarrow> 1 | Some r \<Rightarrow> r_rate r), s)"
  by (simp add: RateOrOne_def GetRate_def catch_apply split: option.split)

lemma reads_RateOrOne [reads_intros]: "reads (RateOrOne env c d)"
  by (simp add: reads_def RateOrOne_apply)

lemma keeps_RateOrOne [keeps_intros]: "keeps I (RateOrOne env c d)"
  by (rule reads_keeps) (rule reads_RateOrOne)

lemma keeps_OpenItemFXRate [keeps_intros]:
  "keeps I (OpenItemFXRate dn i)" "keeps I (OpenItemFXRateByDocRef dn r)" "keeps I (GetRate env c d)"
  by (simp_all add: OpenItemFXRate_def OpenItemFXRateByDocRef_def keeps_gets reads_keeps reads_GetRate)

end
