(* ===== verification/Event_Date.thy ===== *)
theory Event_Date
  imports Fx_Rates
begin

text \<open>
  When an event-driven posting is dated (\<open>ledger/eventdate.go\<close>): by the time the fact occurred,
  clamped when it lies implausibly far ahead, and filed into the current period when the
  transaction's own period is closed.
\<close>

record event_ref =
  er_id :: string
  er_type :: string
  er_source :: string
  er_correlation :: string
  er_occurred :: time                     \<comment> \<open>0: the zero time\<close>

definition futureDateTolerance :: time where
  "futureDateTolerance = 24 * 3600 * 1000000000"

record posting_window =
  pw_transaction :: time
  pw_accounting :: time
  pw_deferred :: bool

definition transactionDate :: "time \<Rightarrow> time \<Rightarrow> time \<times> bool" where
  "transactionDate occurredAt now =
     (if is_zero_time occurredAt then (now, False)
      else if occurredAt > now + futureDateTolerance then (now, True)
      else (occurredAt, False))"

definition chooseWindow :: "time \<Rightarrow> time \<Rightarrow> bool \<Rightarrow> bool \<Rightarrow> err + posting_window" where
  "chooseWindow txn now txnPeriodClosed nowPeriodClosed =
     (if \<not> txnPeriodClosed
      then Inr \<lparr>pw_transaction = txn, pw_accounting = txn, pw_deferred = False\<rparr>
      else if nowPeriodClosed then Inl ErrPeriodClosed
      else Inr \<lparr>pw_transaction = txn, pw_accounting = now, pw_deferred = True\<rparr>)"

definition resolvePostingWindow :: "env \<Rightarrow> event_ref \<Rightarrow> posting_window action" where
  "resolvePostingWindow env ref =
     (let now = env_now env;
          txn = fst (transactionDate (er_occurred ref) now);
          txnPeriod = period_of_time txn;
          nowPeriod = period_of_time now
      in bind (IsPeriodClosed txnPeriod) (\<lambda>txnClosed.
         bind (if txnClosed \<and> txnPeriod \<noteq> nowPeriod then IsPeriodClosed nowPeriod
               else ok txnClosed) (\<lambda>nowClosed.
         case chooseWindow txn now txnClosed nowClosed of
           Inl e \<Rightarrow> fail e
         | Inr w \<Rightarrow> ok w)))"

definition describeDeferral :: "string \<Rightarrow> posting_window \<Rightarrow> string" where
  "describeDeferral description w =
     (if \<not> pw_deferred w then description
      else description @ '' [dated '' @ format_date (date_of (pw_transaction w))
           @ ''; period closed, filed '' @ format_date (date_of (pw_accounting w)) @ '']'')"

section \<open>Facts\<close>

lemma transactionDate_bound:
  "0 < futureDateTolerance \<Longrightarrow> fst (transactionDate occ now) \<le> now + futureDateTolerance"
  by (simp add: transactionDate_def)

lemma tolerance_pos [simp]: "0 < futureDateTolerance"
  by (simp add: futureDateTolerance_def)

lemma resolvePostingWindow_apply:
  "resolvePostingWindow env ref s =
     (let now = env_now env; txn = fst (transactionDate (er_occurred ref) now);
          closed = (\<lambda>t. period_status_of s (period_of_time t) = Some PeriodClosed)
      in (if \<not> closed txn
          then Inr \<lparr>pw_transaction = txn, pw_accounting = txn, pw_deferred = False\<rparr>
          else if closed now then Inl ErrPeriodClosed
          else Inr \<lparr>pw_transaction = txn, pw_accounting = now, pw_deferred = True\<rparr>, s))"
  by (auto simp: resolvePostingWindow_def IsPeriodClosed_def chooseWindow_def bind_apply Let_def)

lemma reads_resolvePostingWindow [reads_intros]: "reads (resolvePostingWindow env ref)"
  by (simp add: reads_def resolvePostingWindow_apply Let_def)

lemma keeps_resolvePostingWindow [keeps_intros]: "keeps I (resolvePostingWindow env ref)"
  by (rule reads_keeps) (rule reads_resolvePostingWindow)

text \<open>A posting is never filed into a closed period.\<close>

lemma resolvePostingWindow_open:
  assumes "resolvePostingWindow env ref s = (Inr w, t)"
  shows "period_status_of s (period_of_time (pw_accounting w)) \<noteq> Some PeriodClosed"
  using assms by (auto simp: resolvePostingWindow_apply Let_def split: if_splits)

end
