(* ===== verification/Ledger.thy ===== *)
theory Ledger
  imports Event_Date
begin

text \<open>
  The ledger service (\<open>ledger/service.go\<close>, \<open>ledger/validate.go\<close>): validation and resolution of
  the lines of an entry, the manual lifecycle draft, posted, reversed, the supersession of a
  foreign document's postings, and event-driven booking.
\<close>

section \<open>Lines\<close>

record line_input =
  li_code :: string
  li_debit :: rat
  li_credit :: rat
  li_memo :: string
  li_cost_center :: "id option"
  li_project :: "id option"

definition dr :: "string \<Rightarrow> rat \<Rightarrow> string \<Rightarrow> line_input" where
  "dr code amt memo = \<lparr>li_code = code, li_debit = amt, li_credit = 0, li_memo = memo,
                      li_cost_center = None, li_project = None\<rparr>"

definition cr :: "string \<Rightarrow> rat \<Rightarrow> string \<Rightarrow> line_input" where
  "cr code amt memo = \<lparr>li_code = code, li_debit = 0, li_credit = amt, li_memo = memo,
                      li_cost_center = None, li_project = None\<rparr>"

definition total_debit :: "line_input list \<Rightarrow> rat" where
  "total_debit ls = sum_list (map li_debit ls)"

definition total_credit :: "line_input list \<Rightarrow> rat" where
  "total_credit ls = sum_list (map li_credit ls)"

definition check_totals :: "rat \<Rightarrow> rat \<Rightarrow> err option" where
  "check_totals debit credit =
     (if debit = 0 \<and> credit = 0 then Some ErrEmptyEntry
      else if debit \<noteq> credit then Some ErrUnbalancedEntry else None)"

definition validateBalance :: "line_input list \<Rightarrow> err option" where
  "validateBalance ls = check_totals (total_debit ls) (total_credit ls)"

definition validateEntryLines :: "journal_line list \<Rightarrow> err option" where
  "validateEntryLines ls =
     check_totals (sum_list (map (\<lambda>l. l_debit (jl_line l)) ls))
       (sum_list (map (\<lambda>l. l_credit (jl_line l)) ls))"

definition check :: "err option \<Rightarrow> unit action" where
  "check e = (case e of None \<Rightarrow> ok () | Some x \<Rightarrow> fail x)"

definition violatesNaturalSide :: "string \<Rightarrow> rat \<Rightarrow> rat \<Rightarrow> bool" where
  "violatesNaturalSide accountType debit credit =
     (if accountType = ''asset'' \<or> accountType = ''expense'' then credit > 0
      else if accountType = ''liability'' \<or> accountType = ''equity'' \<or> accountType = ''revenue''
      then debit > 0
      else False)"

definition resolved_of :: "account \<Rightarrow> line_input \<Rightarrow> int \<Rightarrow> resolved_line" where
  "resolved_of a l i =
     \<lparr>rl_account = a_id a, rl_debit = li_debit l, rl_credit = li_credit l, rl_memo = li_memo l,
      rl_order = i, rl_currency = '''', rl_debit_base = None, rl_credit_base = None,
      rl_cost_center = li_cost_center l, rl_project = li_project l\<rparr>"

fun resolve_from :: "int \<Rightarrow> line_input list \<Rightarrow> resolved_line list action" where
  "resolve_from i [] = ok []"
| "resolve_from i (l # ls) =
     bind (GetAccountByCode (li_code l)) (\<lambda>acct.
     case acct of
       None \<Rightarrow> fail (ErrAccountNotFound (li_code l))
     | Some a \<Rightarrow>
         if a_restrict a \<and> violatesNaturalSide (a_type a) (li_debit l) (li_credit l)
         then fail (ErrUnnaturalSide (li_code l))
         else bind (resolve_from (i + 1) ls) (\<lambda>rs. ok (resolved_of a l i # rs)))"

definition resolveLines :: "line_input list \<Rightarrow> resolved_line list action" where
  "resolveLines ls = resolve_from 0 ls"

section \<open>The manual lifecycle\<close>

record create_entry_input =
  ce_desc :: string
  ce_lines :: "line_input list"
  ce_source_event :: "string option"
  ce_source_service :: "string option"
  ce_correlation :: "string option"
  ce_created_by :: "id option"
  ce_acc_date :: "date option"
  ce_counterparty :: "id option"

definition CreateJournalEntry :: "env \<Rightarrow> create_entry_input \<Rightarrow> journal action" where
  "CreateJournalEntry env inp =
     (if ce_lines inp = [] then fail ErrEmptyEntry
      else bind (check (validateBalance (ce_lines inp))) (\<lambda>_.
      bind (case ce_source_event inp of None \<Rightarrow> ok False | Some ev \<Rightarrow> IsEventProcessed ev) (\<lambda>done.
      if done then fail ErrDuplicateEvent
      else bind (resolveLines (ce_lines inp)) (\<lambda>resolved.
      bind NextEntryNumber (\<lambda>entryNumber.
      repo_CreateJournalEntry env
        \<lparr>jp_number = entryNumber, jp_desc = ce_desc inp, jp_status = Draft,
         jp_source_event = ce_source_event inp, jp_source_service = ce_source_service inp,
         jp_correlation = ce_correlation inp, jp_created_by = ce_created_by inp,
         jp_acc_date = ce_acc_date inp, jp_currency = '''', jp_fx_rate = 0, jp_lines = resolved,
         jp_counterparty = ce_counterparty inp\<rparr>)))))"

definition PostJournalEntry :: "env \<Rightarrow> id \<Rightarrow> string \<Rightarrow> journal option action" where
  "PostJournalEntry env i actor =
     bind (GetJournalEntry i) (\<lambda>entry.
     case entry of
       None \<Rightarrow> fail (ErrText ''journal entry not found'')
     | Some j \<Rightarrow>
         if e_status (j_entry j) \<noteq> Draft then fail ErrInvalidStatus
         else bind (check (validateEntryLines (j_lines j))) (\<lambda>_.
         bind (MarkEntryPosted env i (env_now env)
                 (Some \<lparr>ai_actor = actorOrSystem actor, ai_type = ''ledger.posted'',
                        ai_message = ''posted '' @ e_number (j_entry j) @ '' ('' @ e_desc (j_entry j) @ '')''\<rparr>))
           (\<lambda>posted. if \<not> posted then fail ErrInvalidStatus else GetJournalEntry i)))"

definition ReverseJournalEntry :: "env \<Rightarrow> id \<Rightarrow> string \<Rightarrow> string \<Rightarrow> journal option action" where
  "ReverseJournalEntry env i reason actor =
     ReverseEntry env i reason
       (Some \<lparr>ai_actor = actorOrSystem actor, ai_type = ''ledger.reversed'',
              ai_message = ''reversed entry '' @ show_nat i @ '': '' @ reason\<rparr>)"

record supersede_result =
  sr_reversed :: "id list"
  sr_deleted :: "id list"

text \<open>
  One iteration: a draft is deleted (a draft posted in between falls through), anything else is
  reversed, and an entry somebody else has reversed is skipped.
\<close>

definition supersede_one ::
  "env \<Rightarrow> string \<Rightarrow> string \<Rightarrow> id \<times> entry_status \<Rightarrow> supersede_result \<Rightarrow> supersede_result action" where
  "supersede_one env reason actor = (\<lambda>(i, st) out.
     let reverse_it =
       catch (bind (ReverseJournalEntry env i reason actor) (\<lambda>_.
                ok (out\<lparr>sr_reversed := sr_reversed out @ [i]\<rparr>)))
         (\<lambda>e. if e = ErrNotReversible then ok out else fail e)
     in if st = Draft then
          bind (catch (bind (DeleteDraftEntry i) (\<lambda>_. ok True))
                  (\<lambda>e. if e = ErrNotDraft then ok False else fail e)) (\<lambda>deleted.
            if deleted then ok (out\<lparr>sr_deleted := sr_deleted out @ [i]\<rparr>) else reverse_it)
        else reverse_it)"

fun supersede_loop ::
  "env \<Rightarrow> string \<Rightarrow> string \<Rightarrow> (id \<times> entry_status) list \<Rightarrow> supersede_result \<Rightarrow> supersede_result action" where
  "supersede_loop env reason actor [] out = ok out"
| "supersede_loop env reason actor (x # xs) out =
     bind (supersede_one env reason actor x out) (supersede_loop env reason actor xs)"

definition SupersedeEntriesBySource ::
  "env \<Rightarrow> string \<Rightarrow> string \<Rightarrow> string \<Rightarrow> string \<Rightarrow> supersede_result action" where
  "SupersedeEntriesBySource env sourceService documentRef reason actor =
     bind (ListEntriesBySource sourceService documentRef) (\<lambda>existing.
       supersede_loop env reason actor existing \<lparr>sr_reversed = [], sr_deleted = []\<rparr>)"

definition ClosePeriod :: "env \<Rightarrow> string \<Rightarrow> id option \<Rightarrow> unit action" where
  "ClosePeriod env p u = SetPeriodStatus env p PeriodClosed u"

definition ReopenPeriod :: "env \<Rightarrow> string \<Rightarrow> id option \<Rightarrow> unit action" where
  "ReopenPeriod env p u = SetPeriodStatus env p PeriodOpen u"

section \<open>Event-driven booking\<close>

definition event_params ::
  "event_ref \<Rightarrow> posting_window \<Rightarrow> string \<Rightarrow> string \<Rightarrow> rat \<Rightarrow> resolved_line list \<Rightarrow> journal_params" where
  "event_params ref w description currency fxRate resolved =
     default_params\<lparr>jp_desc := description, jp_source_event := Some (er_id ref),
       jp_source_service := optional_string (er_source ref),
       jp_correlation := optional_string (er_correlation ref), jp_currency := currency,
       jp_fx_rate := fxRate, jp_acc_date := Some (date_of (pw_accounting w)), jp_lines := resolved\<rparr>"

definition BookFromEvent ::
  "env \<Rightarrow> event_ref \<Rightarrow> string \<Rightarrow> string \<Rightarrow> line_input list \<Rightarrow> journal option action" where
  "BookFromEvent env ref description currency ls =
     (if ls = [] then fail ErrEmptyEntry
      else bind (check (validateBalance ls)) (\<lambda>_.
      bind (resolveLines ls) (\<lambda>resolved.
      bind (resolvePostingWindow env ref) (\<lambda>window.
      let desc = describeDeferral description window in
      bind (RateOrOne env currency (date_of (pw_transaction window))) (\<lambda>fxRate.
      bind (BookPostedEntry env (event_params ref window desc currency fxRate resolved)
              (er_id ref) (er_type ref) (env_now env) (None :: (id \<Rightarrow> unit action) option)
              (Some \<lparr>ai_actor = ''system:'' @ er_source ref, ai_type = ''ledger.booked'',
                     ai_message = er_type ref @ '' booked from '' @ er_source ref @ '' ('' @ desc @ '')''\<rparr>))
        (\<lambda>(j, _). ok j))))))"

section \<open>The pre-flight check\<close>

record validate_body =
  vb_debit :: string
  vb_credit :: string
  vb_period :: string
  vb_role :: string

definition period_matches :: "string \<Rightarrow> bool" where
  "period_matches s \<longleftrightarrow> length s = 7 \<and> list_all is_digit (take 4 s) \<and> s ! 4 = CHR ''-'' \<and>
     (s ! 5 = CHR ''0'' \<and> is_digit (s ! 6) \<and> s ! 6 \<noteq> CHR ''0''
      \<or> s ! 5 = CHR ''1'' \<and> s ! 6 \<in> {CHR ''0'', CHR ''1'', CHR ''2''})"

definition ValidatePosting :: "env \<Rightarrow> validate_body \<Rightarrow> string list" where
  "ValidatePosting env b =
     (case (env_parse env (vb_debit b), env_parse env (vb_credit b)) of
        (Some d, Some c) \<Rightarrow>
          if d \<noteq> c \<or> d \<le> 0 then [''Debit and credit totals do not balance''] else []
      | _ \<Rightarrow> [''Debit and credit must be valid amounts''])
     @ (if period_matches (vb_period b) then [] else [''Posting period must be a valid '' @ [CHR 0x27] @ ''YYYY-MM'' @ [CHR 0x27]])
     @ (if vb_role b \<noteq> ''CFO'' \<and> vb_role b \<noteq> ''Controller''
        then [vb_role b @ '' can draft but cannot post''] else [])"

section \<open>Facts on lines\<close>

lemma dr_simps [simp]: "li_debit (dr c a m) = a" "li_credit (dr c a m) = 0" "li_code (dr c a m) = c"
  by (simp_all add: dr_def)

lemma cr_simps [simp]: "li_debit (cr c a m) = 0" "li_credit (cr c a m) = a" "li_code (cr c a m) = c"
  by (simp_all add: cr_def)

lemma totals_simps [simp]:
  "total_debit [] = 0" "total_debit (l # ls) = li_debit l + total_debit ls"
  "total_credit [] = 0" "total_credit (l # ls) = li_credit l + total_credit ls"
  "total_debit (ls @ ks) = total_debit ls + total_debit ks"
  "total_credit (ls @ ks) = total_credit ls + total_credit ks"
  by (simp_all add: total_debit_def total_credit_def)

lemma check_apply [simp, act_simps]: "check None = ok ()" "check (Some e) = fail e"
  by (simp_all add: check_def)

lemma check_Inr_iff: "check e s = (Inr u, t) \<longleftrightarrow> e = None \<and> t = s"
  by (cases e) auto

lemma validateBalance_None_iff:
  "validateBalance ls = None \<longleftrightarrow> total_debit ls = total_credit ls \<and> total_debit ls \<noteq> 0"
  by (auto simp: validateBalance_def check_totals_def)

lemma reads_resolve_from [reads_intros]: "reads (resolve_from i ls)"
  by (induction ls arbitrary: i) (auto intro!: reads_intros)

lemma reads_resolveLines [reads_intros]: "reads (resolveLines ls)"
  by (simp add: resolveLines_def reads_resolve_from)

lemma keeps_resolveLines [keeps_intros]: "keeps I (resolveLines ls)"
  by (rule reads_keeps) (rule reads_resolveLines)

lemma keeps_check [keeps_intros]: "keeps I (check e)"
  by (cases e) (auto intro: keeps_intros)

lemma resolve_from_amounts:
  "resolve_from i ls s = (Inr rs, t) \<Longrightarrow>
     map rl_debit rs = map li_debit ls \<and> map rl_credit rs = map li_credit ls \<and>
     (\<forall>r \<in> set rs. rl_debit_base r = None \<and> rl_credit_base r = None \<and> rl_currency r = '''' \<and>
        rl_account r \<in> a_id ` set (accounts s))"
proof (induction ls arbitrary: i rs t)
  case Nil
  then show ?case by simp
next
  case (Cons l ls)
  from Cons.prems obtain a rs' t' where a: "account_by_code s (li_code l) = Some a"
    and rest: "resolve_from (i + 1) ls s = (Inr rs', t')" and rs: "rs = resolved_of a l i # rs'"
    by (auto simp: GetAccountByCode_def bind_apply split: option.splits if_splits prod.splits sum.splits)
  from account_by_code_SomeD [OF a] have "a_id a \<in> a_id ` set (accounts s)" by blast
  with Cons.IH [OF rest] show ?case by (simp add: rs resolved_of_def)
qed

lemma resolveLines_amounts:
  assumes "resolveLines ls s = (Inr rs, t)"
  shows "map rl_debit rs = map li_debit ls" "map rl_credit rs = map li_credit ls"
    "\<forall>r \<in> set rs. rl_debit_base r = None \<and> rl_credit_base r = None \<and> rl_currency r = ''''"
    "\<forall>r \<in> set rs. rl_account r \<in> a_id ` set (accounts s)"
  using resolve_from_amounts [of 0 ls s rs t] assms by (auto simp: resolveLines_def)

section \<open>The service keeps the ledger invariant\<close>

lemma keeps_IsEventProcessed [keeps_intros]: "keeps I (IsEventProcessed ev)"
  unfolding IsEventProcessed_def by (intro keeps_intros)

lemma keeps_CreateJournalEntry [keeps_intros]: "keeps journal_inv (CreateJournalEntry env inp)"
  unfolding CreateJournalEntry_def NextEntryNumber_def by (intro keeps_intros)

lemma keeps_PostJournalEntry [keeps_intros]: "keeps journal_inv (PostJournalEntry env i a)"
  unfolding PostJournalEntry_def by (intro keeps_intros)

lemma keeps_ReverseJournalEntry [keeps_intros]: "keeps journal_inv (ReverseJournalEntry env i r a)"
  unfolding ReverseJournalEntry_def by (intro keeps_intros)

lemma keeps_supersede_one [keeps_intros]: "keeps journal_inv (supersede_one env r a x out)"
proof (cases x)
  case (Pair i st)
  show ?thesis unfolding Pair supersede_one_def Let_def prod.case by (intro keeps_intros)
qed

lemma keeps_supersede_loop [keeps_intros]: "keeps journal_inv (supersede_loop env r a xs out)"
  by (induction xs arbitrary: out) (auto intro!: keeps_intros)

lemma keeps_SupersedeEntriesBySource [keeps_intros]:
  "keeps journal_inv (SupersedeEntriesBySource env sv d r a)"
  unfolding SupersedeEntriesBySource_def ListEntriesBySource_def by (intro keeps_intros)

lemma keeps_BookFromEvent [keeps_intros]: "keeps journal_inv (BookFromEvent env ref d c ls)"
  unfolding BookFromEvent_def Let_def by (intro keeps_intros) auto

end
