(* ===== verification/Booking.thy ===== *)
theory Booking
  imports Entry_Numbers Ledger
begin

text \<open>
  What the booking primitive guarantees: the exact state a successful booking leaves, that a source
  event is booked once however often and however concurrently it is delivered, and the contract of
  an idempotent booking that its clients rely on.
\<close>

section \<open>The contract of an idempotent booking\<close>

locale event_booking =
  fixes book :: "'p \<Rightarrow> string \<Rightarrow> 's \<Rightarrow> ('e + 'j) \<times> 's"
    and booked :: "'s \<Rightarrow> string \<Rightarrow> 'j option"
    and key :: "string \<Rightarrow> bool"
    and inv :: "'s \<Rightarrow> bool"
    and ready :: "'s \<Rightarrow> bool"
  assumes book_inv: "key ev \<Longrightarrow> inv s \<Longrightarrow> inv (snd (book p ev s))"
    and book_replay: "key ev \<Longrightarrow> booked s ev = Some j \<Longrightarrow> book p ev s = (Inr j, s)"
    and book_success: "key ev \<Longrightarrow> inv s \<Longrightarrow> ready s \<Longrightarrow> book p ev s = (Inr j, t) \<Longrightarrow> booked t ev = Some j"
    and book_stable: "key ev \<Longrightarrow> inv s \<Longrightarrow> booked s ev' = Some j \<Longrightarrow>
      booked (snd (book p ev s)) ev' = Some j"
begin

fun deliver :: "('p \<times> string) list \<Rightarrow> 's \<Rightarrow> 's" where
  "deliver [] s = s"
| "deliver ((p, ev) # ds) s = deliver ds (snd (book p ev s))"

lemma deliver_inv: "list_all key (map snd ds) \<Longrightarrow> inv s \<Longrightarrow> inv (deliver ds s)"
  by (induction ds s rule: deliver.induct) (auto intro: book_inv)

lemma deliver_stable:
  "list_all key (map snd ds) \<Longrightarrow> inv s \<Longrightarrow> booked s ev = Some j \<Longrightarrow> booked (deliver ds s) ev = Some j"
  by (induction ds s rule: deliver.induct) (auto intro: book_inv book_stable)

text \<open>
  Redelivery of an event that was booked, after whatever else was delivered in between, returns the
  same booking and changes nothing.
\<close>

lemma redelivery:
  assumes "inv s" "ready s" "book p ev s = (Inr j, t)" "key ev" "list_all key (map snd ds)"
  shows "book p' ev (deliver ds t) = (Inr j, deliver ds t)"
proof (rule book_replay [OF \<open>key ev\<close>])
  have "inv t" using book_inv [OF assms(4,1), of p] assms(3) by simp
  with assms show "booked (deliver ds t) ev = Some j"
    by (intro deliver_stable book_success [of ev s p j])
qed

end

section \<open>What a successful statement leaves\<close>

lemma insert_entry_Inr:
  "insert_entry e s = (Inr i, t) \<longleftrightarrow>
     e_number e \<notin> e_number ` set (entries s) \<and>
     (e_source_event e = None \<or> e_source_event e \<notin> e_source_event ` set (entries s)) \<and>
     i = next_id s \<and>
     t = s\<lparr>entries := entries s @ [e\<lparr>e_id := next_id s\<rparr>], next_id := Suc (next_id s),
           touched := next_id s # touched s\<rparr>"
  by (auto simp: insert_entry_def)

lemma insert_line_Inr:
  assumes "insert_line env l s = (Inr k, t)"
  shows "k = store_line env (l\<lparr>l_id := next_id s\<rparr>)" "line_check k"
    "t = s\<lparr>jlines := jlines s @ [k], next_id := Suc (next_id s), touched := l_entry l # touched s\<rparr>"
  using assms by (auto simp: insert_line_def Let_def split: if_splits)

definition line_key :: "jline \<Rightarrow> jline" where
  "line_key l = l\<lparr>l_id := 0\<rparr>"

lemma for_each_insert_lines:
  assumes "for_each ls (\<lambda>l. bind (insert_line env (row l)) (\<lambda>_. ok ())) s = (Inr u, t)"
  shows "\<exists>ks. t = s\<lparr>jlines := jlines s @ ks, next_id := next_id t, touched := touched t\<rparr> \<and>
     map line_key ks = map (\<lambda>l. line_key (store_line env (row l))) ls \<and> list_all line_check ks"
  using assms
proof (induction ls arbitrary: s)
  case Nil
  then show ?case by (auto intro!: exI [of _ "[]"])
next
  case (Cons l ls)
  from Cons.prems obtain k s' where k: "insert_line env (row l) s = (Inr k, s')"
    and rest: "for_each ls (\<lambda>l. bind (insert_line env (row l)) (\<lambda>_. ok ())) s' = (Inr u, t)"
    unfolding for_each.simps by (elim bind_InrE) (simp only: ok_apply prod.inject sum.inject)
  note kl = insert_line_Inr [OF k]
  from Cons.IH [OF rest] obtain ks where
    ks: "t = s'\<lparr>jlines := jlines s' @ ks, next_id := next_id t, touched := touched t\<rparr>"
    "map line_key ks = map (\<lambda>l. line_key (store_line env (row l))) ls" "list_all line_check ks"
    by blast
  have "line_key k = line_key (store_line env (row l))"
    by (simp add: kl(1) line_key_def store_line_def)
  moreover have "t = s\<lparr>jlines := jlines s @ (k # ks), next_id := next_id t, touched := touched t\<rparr>"
    using ks(1) by (subst ks(1)) (simp add: kl(3))
  ultimately show ?case using ks(2,3) kl(2) by (intro exI [of _ "k # ks"]) simp
qed

lemma appendAudit_frame:
  assumes "appendAudit env a s = (r, t)"
  shows "r = Inr ()" "\<exists>au n. t = s\<lparr>audit := au, next_id := n\<rparr>"
proof -
  show "r = Inr ()"
    using assms by (auto simp: appendAudit_def AppendChainTx_eq bind_apply Let_def split: option.splits if_splits)
  have upd: "s\<lparr>next_id := n, audit := au\<rparr> = s\<lparr>audit := au, next_id := n\<rparr>" for n au
    by simp
  have "t = s\<lparr>audit := audit s, next_id := next_id s\<rparr> \<or> (\<exists>au n. t = s\<lparr>next_id := n, audit := au\<rparr>)"
    using assms by (auto simp: appendAudit_def AppendChainTx_eq bind_apply Let_def split: option.splits if_splits)
  then show "\<exists>au n. t = s\<lparr>audit := au, next_id := n\<rparr>" unfolding upd by blast
qed

definition posted_row :: "env \<Rightarrow> journal_params \<Rightarrow> time \<Rightarrow> string \<Rightarrow> id \<Rightarrow> entry" where
  "posted_row env p postedAt number i =
     \<lparr>e_id = i, e_number = number, e_desc = jp_desc p, e_status = Posted,
      e_source_event = jp_source_event p, e_source_service = jp_source_service p,
      e_correlation = jp_correlation p, e_acc_date = resolveAccountingDate (jp_acc_date p) postedAt,
      e_reverses = None, e_posted_at = Some postedAt, e_created_by = jp_created_by p,
      e_entity = env_entity env, e_counterparty = None\<rparr>"

lemma line_row_number [simp]: "line_row env (p\<lparr>jp_number := n\<rparr>) i l = line_row env p i l"
  by (simp add: line_row_def rate_of_def lineCurrency_def)

lemma insertPostedEntryTx_Inr:
  assumes "insertPostedEntryTx env p postedAt s = (Inr i, t)"
  shows "\<exists>ks. t = s\<lparr>entries := entries s @ [posted_row env p postedAt (jp_number p) i],
              jlines := jlines s @ ks, next_id := next_id t, touched := touched t\<rparr> \<and>
     i = next_id s \<and> jp_number p \<notin> e_number ` set (entries s) \<and>
     (jp_source_event p = None \<or> jp_source_event p \<notin> e_source_event ` set (entries s)) \<and>
     map line_key ks = map (\<lambda>l. line_key (store_line env (line_row env p i l))) (jp_lines p) \<and>
     list_all line_check ks"
proof -
  from assms obtain s' where
    ins: "insert_entry (posted_row env p postedAt (jp_number p) 0) s = (Inr i, s')"
    and lns: "for_each (jp_lines p) (\<lambda>l. bind (insert_line env (line_row env p i l)) (\<lambda>_. ok ())) s'
      = (Inr (), t)"
    by (auto simp: insertPostedEntryTx_def posted_row_def bind_Inr_iff)
  from ins have e: "jp_number p \<notin> e_number ` set (entries s)"
    "jp_source_event p = None \<or> jp_source_event p \<notin> e_source_event ` set (entries s)"
    "i = next_id s"
    "s' = s\<lparr>entries := entries s @ [posted_row env p postedAt (jp_number p) i],
            next_id := Suc (next_id s), touched := next_id s # touched s\<rparr>"
    by (simp_all add: insert_entry_Inr) (simp_all add: posted_row_def)
  from for_each_insert_lines [OF lns] obtain ks where
    ks: "t = s'\<lparr>jlines := jlines s' @ ks, next_id := next_id t, touched := touched t\<rparr>"
    "map line_key ks = map (\<lambda>l. line_key (store_line env (line_row env p i l))) (jp_lines p)"
    "list_all line_check ks"
    by blast
  have "t = s\<lparr>entries := entries s @ [posted_row env p postedAt (jp_number p) i],
              jlines := jlines s @ ks, next_id := next_id t, touched := touched t\<rparr>"
    by (subst ks(1)) (simp add: e(4))
  with e(1-3) ks(2,3) show ?thesis by blast
qed

text \<open>A side effect that leaves the journal and the processed events alone.\<close>

definition journal_frame :: "db \<Rightarrow> entry list \<times> jline list \<times> (string \<times> string) list \<times> account list \<times> nat" where
  "journal_frame s = (entries s, jlines s, processed s, accounts s, entry_seq s)"

definition framed :: "'a action \<Rightarrow> bool" where
  "framed m \<longleftrightarrow> (\<forall>s. journal_frame (snd (m s)) = journal_frame s)"

lemma booking_tx_Inr:
  assumes "booking_tx env p ev ty postedAt side a s = (Inr (i, x), t)"
    and side: "\<And>f j. side = Some f \<Longrightarrow> framed (f j)"
  shows "\<exists>ks. entries t = entries s @ [posted_row env p postedAt (entry_number (entry_seq s)) i] \<and>
     jlines t = jlines s @ ks \<and> i = next_id s \<and> accounts t = accounts s \<and>
     entry_seq t = Suc (entry_seq s) \<and>
     processed t = (if ev = '''' then processed s else processed s @ [(ev, ty)]) \<and>
     (ev \<noteq> '''' \<longrightarrow> \<not> event_processed s ev) \<and>
     entry_number (entry_seq s) \<notin> e_number ` set (entries s) \<and>
     (jp_source_event p = None \<or> jp_source_event p \<notin> e_source_event ` set (entries s)) \<and>
     map line_key ks = map (\<lambda>l. line_key (store_line env (line_row env p i l))) (jp_lines p) \<and>
     list_all line_check ks"
proof -
  let ?n = "entry_number (entry_seq s)"
  let ?s0 = "s\<lparr>touched := [], entry_seq := Suc (entry_seq s)\<rparr>"
  from assms(1) obtain s1 s2 s3 s4 where
    ins: "insertPostedEntryTx env (p\<lparr>jp_number := ?n\<rparr>) postedAt ?s0 = (Inr i, s1)"
    and mark: "(if ev \<noteq> '''' then bind (markProcessedTx ev ty) (\<lambda>won. require won RaceLost) else ok ()) s1
      = (Inr (), s2)"
    and sd: "(case side of None \<Rightarrow> ok None | Some f \<Rightarrow> bind (f i) (\<lambda>x. ok (Some x))) s2 = (Inr x, s3)"
    and au: "appendAudit env a s3 = (Inr (), s4)" and t: "t = s4\<lparr>touched := []\<rparr>"
    unfolding booking_tx_def
    by (elim tx_InrD)
      (auto simp: bind_Inr_iff nextEntryNumberTx_def catch_apply split: sum.splits prod.splits if_splits)
  from insertPostedEntryTx_Inr [OF ins] obtain ks where
    s1: "s1 = ?s0\<lparr>entries := entries ?s0 @ [posted_row env (p\<lparr>jp_number := ?n\<rparr>) postedAt ?n i],
              jlines := jlines ?s0 @ ks, next_id := next_id s1, touched := touched s1\<rparr>"
    and i: "i = next_id s" and fr: "?n \<notin> e_number ` set (entries s)"
      "jp_source_event p = None \<or> jp_source_event p \<notin> e_source_event ` set (entries s)"
    and ks: "map line_key ks = map (\<lambda>l. line_key (store_line env (line_row env p i l))) (jp_lines p)"
      "list_all line_check ks"
    by auto
  have s1f: "entries s1 = entries s @ [posted_row env p postedAt ?n i]" "jlines s1 = jlines s @ ks"
    "accounts s1 = accounts s" "processed s1 = processed s" "entry_seq s1 = Suc (entry_seq s)"
    by (subst s1; simp add: posted_row_def)+
  have s2: "s2 = s1\<lparr>processed := (if ev = '''' then processed s else processed s @ [(ev, ty)])\<rparr>"
    "ev \<noteq> '''' \<longrightarrow> \<not> event_processed s ev"
    using mark s1f(4)
    by (auto simp: bind_Inr_iff markProcessedTx_def require_Inr_iff event_processed_def split: if_splits)
  have "journal_frame s3 = journal_frame s2"
    using sd side by (auto simp: framed_def bind_Inr_iff split: option.splits) (metis snd_conv)
  moreover have "journal_frame s4 = journal_frame s3"
    using appendAudit_frame(2) [OF au] by (auto simp: journal_frame_def)
  moreover have "journal_frame t = journal_frame s4" by (simp add: t journal_frame_def)
  ultimately have "journal_frame t = journal_frame s2" by simp
  then show ?thesis
    using s1f s2 i fr ks by (auto simp: journal_frame_def)
qed

text \<open>A booking that fails leaves every table as it was; only the number is spent.\<close>

lemma booking_tx_Inl:
  assumes "booking_tx env p ev ty postedAt side a s = (Inl e, t)"
  shows "t = s\<lparr>entry_seq := entry_seq t\<rparr>"
  using assms unfolding booking_tx_def by (elim tx_InlD) (simp add: rollback_def)

lemma booking_tx_never_twice:
  assumes ev: "ev \<noteq> ''''" "jp_source_event p = Some ev"
    and side: "\<And>f j. side = Some f \<Longrightarrow> framed (f j)"
    and dup: "event_processed s ev \<or> entry_by_source s ev \<noteq> None"
  shows "\<exists>e. fst (booking_tx env p ev ty postedAt side a s) = Inl e"
proof (cases "booking_tx env p ev ty postedAt side a s")
  case (Pair r t)
  show ?thesis
  proof (cases r)
    case (Inr ix)
    obtain i x where ix: "ix = (i, x)" by (cases ix)
    have "booking_tx env p ev ty postedAt side a s = (Inr (i, x), t)" using Pair Inr ix by simp
    from booking_tx_Inr [OF this] side ev
    have "\<not> event_processed s ev" "Some ev \<notin> e_source_event ` set (entries s)" by auto
    with dup show ?thesis
      by (auto simp: entry_by_source_def row_by_None_iff)
  qed (use Pair in simp)
qed

section \<open>The booking primitive honours the contract\<close>

text \<open>
  Every entry that carries a source event belongs to a processed event: true as long as the only
  writer of source events is the booking primitive.
\<close>

definition sources_processed :: "db \<Rightarrow> bool" where
  "sources_processed s \<longleftrightarrow>
     (\<forall>e \<in> set (entries s). \<forall>ev. e_source_event e = Some ev \<longrightarrow> event_processed s ev)"

definition booking_inv :: "db \<Rightarrow> bool" where
  "booking_inv s \<longleftrightarrow> journal_inv s \<and> numbers_wf 0 s \<and> sources_processed s"

definition booking_ready :: "db \<Rightarrow> bool" where
  "booking_ready s \<longleftrightarrow> entry_seq s < 1000000"

definition booked_entry :: "db \<Rightarrow> string \<Rightarrow> journal option option" where
  "booked_entry s ev =
     (if event_processed s ev
      then Some (map_option (\<lambda>e. \<lparr>j_entry = e, j_lines = loadJournalLines s (e_id e)\<rparr>) (entry_by_source s ev))
      else None)"

text \<open>The parameters of one delivery; the source event of the entry is the event delivered.\<close>

record booking =
  bk_env :: env
  bk_params :: journal_params
  bk_type :: string
  bk_posted_at :: time
  bk_audit :: "audit_info option"

definition book_event :: "booking \<Rightarrow> string \<Rightarrow> journal option action" where
  "book_event b ev =
     bind (BookPostedEntry (bk_env b) ((bk_params b)\<lparr>jp_source_event := Some ev\<rparr>) ev (bk_type b)
             (bk_posted_at b) (None :: (id \<Rightarrow> unit action) option) (bk_audit b)) (\<lambda>(j, _). ok j)"

lemma event_processed_append:
  "processed t = processed s @ xs \<Longrightarrow> event_processed t ev \<longleftrightarrow> event_processed s ev \<or> ev \<in> fst ` set xs"
  by (auto simp: event_processed_def)

lemma lines_of_append:
  assumes "jlines t = jlines s @ ks" "\<forall>k \<in> set ks. l_entry k \<noteq> i"
  shows "lines_of t i = lines_of s i"
  using assms by (simp add: lines_of_def filter_empty_conv)

lemma loadJournalLines_cong:
  "lines_of t i = lines_of s i \<Longrightarrow> accounts t = accounts s \<Longrightarrow> loadJournalLines t i = loadJournalLines s i"
  by (simp add: loadJournalLines_def)

lemma line_keys_entry:
  assumes "map line_key ks = map (\<lambda>l. line_key (store_line env (line_row env p i l))) ls"
  shows "\<forall>k \<in> set ks. l_entry k = i"
proof
  fix k assume "k \<in> set ks"
  then have "line_key k \<in> set (map line_key ks)" by simp
  then obtain l where "line_key k = line_key (store_line env (line_row env p i l))"
    unfolding assms by auto
  then have "l_entry (line_key k) = l_entry (line_key (store_line env (line_row env p i l)))" by simp
  then show "l_entry k = i" by (simp add: line_key_def line_row_def)
qed

lemma book_event_apply:
  assumes "ev \<noteq> ''''"
  shows "book_event b ev s =
    (case booked_entry s ev of
       Some j \<Rightarrow> (Inr j, s)
     | None \<Rightarrow>
        (case booking_tx (bk_env b) ((bk_params b)\<lparr>jp_source_event := Some ev\<rparr>) ev (bk_type b)
                (bk_posted_at b) (None :: (id \<Rightarrow> unit action) option) (bk_audit b) s of
           (Inr (i, x), t) \<Rightarrow> GetJournalEntry i t
         | (Inl e, t) \<Rightarrow> if e = RaceLost then GetJournalEntryBySourceEvent ev t else (Inl e, t)))"
  using assms
  by (auto simp: book_event_def BookPostedEntry_def booked_entry_def IsEventProcessed_def bind_apply
      catch_apply GetJournalEntry_def GetJournalEntryBySourceEvent_def Let_def
      split: prod.split sum.split)

text \<open>In a well-formed ledger whose numbers have not run out a booking never loses a race.\<close>

lemma insert_line_Inl: "insert_line env l s = (Inl e, t) \<Longrightarrow> \<not> is_unique_violation e \<and> e \<noteq> RaceLost"
  by (auto simp: insert_line_def Let_def split: if_splits)

lemma for_each_insert_Inl:
  "for_each ls (\<lambda>l. bind (insert_line env (row l)) (\<lambda>_. ok ())) s = (Inl e, t) \<Longrightarrow>
     \<not> is_unique_violation e \<and> e \<noteq> RaceLost"
  by (induction ls arbitrary: s)
    (auto simp: bind_apply split: prod.splits sum.splits dest: insert_line_Inl)

lemma booking_tx_not_race:
  assumes inv: "booking_inv s" "booking_ready s" and ev: "ev \<noteq> ''''" "jp_source_event p = Some ev"
    and new: "\<not> event_processed s ev"
  shows "booking_tx env p ev ty postedAt (None :: (id \<Rightarrow> unit action) option) a s \<noteq> (Inl RaceLost, t)"
proof
  assume lost: "booking_tx env p ev ty postedAt (None :: (id \<Rightarrow> unit action) option) a s = (Inl RaceLost, t)"
  let ?n = "entry_number (entry_seq s)"
  let ?s0 = "s\<lparr>touched := [], entry_seq := Suc (entry_seq s)\<rparr>"
  let ?e = "posted_row env (p\<lparr>jp_number := ?n\<rparr>) postedAt ?n 0"
  have fresh: "?n \<notin> e_number ` set (entries s)" "Some ev \<notin> e_source_event ` set (entries s)"
    using inv numbers_wf_fresh [of 0 s] new
    by (auto simp: booking_inv_def booking_ready_def sources_processed_def)
  let ?ins = "insertPostedEntryTx env (p\<lparr>jp_number := ?n\<rparr>) postedAt ?s0"
  show False
  proof (cases ?ins)
    case (Pair r u)
    show False
    proof (cases r)
      case (Inl e)
      have "insert_entry ?e ?s0 = (Inr (next_id s), snd (insert_entry ?e ?s0))"
        using fresh ev by (simp add: insert_entry_def posted_row_def)
      then have "\<not> is_unique_violation e \<and> e \<noteq> RaceLost"
        using Pair Inl
        by (auto simp: insertPostedEntryTx_def posted_row_def bind_apply split: prod.splits sum.splits
            dest: for_each_insert_Inl)
      then show False
        using lost Pair Inl
        by (auto simp: booking_tx_def tx_def bind_apply nextEntryNumberTx_def catch_apply)
    next
      case (Inr i)
      obtain ks n tc where "u = ?s0\<lparr>entries := entries s @ [posted_row env (p\<lparr>jp_number := ?n\<rparr>) postedAt ?n i],
          jlines := jlines s @ ks, next_id := n, touched := tc\<rparr>"
        using insertPostedEntryTx_Inr [of env "p\<lparr>jp_number := ?n\<rparr>" postedAt ?s0 i u] Pair Inr by auto
      then have "\<not> event_processed u ev" using new by (simp add: event_processed_def)
      moreover have "fst (appendAudit env a v) = Inr ()" for v
        using appendAudit_frame(1) [of env a v] by (cases "appendAudit env a v") simp
      then obtain w where "appendAudit env a (u\<lparr>processed := processed u @ [(ev, ty)]\<rparr>) = (Inr (), w)"
        by (metis prod.collapse)
      ultimately show False
        using lost Pair Inr ev
        by (auto simp: booking_tx_def tx_def bind_apply nextEntryNumberTx_def catch_apply
            markProcessedTx_def split: if_splits)
    qed
  qed
qed

section \<open>Bookings keep the contract\<close>

lemma booking_tx_sources:
  assumes "sources_processed s" "jp_source_event p = Some ev" "ev \<noteq> ''''"
    and "booking_tx env p ev ty postedAt (None :: (id \<Rightarrow> unit action) option) a s = (r, t)"
  shows "sources_processed t"
proof (cases r)
  case (Inl e)
  with booking_tx_Inl assms(4) obtain n where "t = s\<lparr>entry_seq := n\<rparr>" by blast
  with assms(1) show ?thesis by (simp add: sources_processed_def event_processed_def)
next
  case (Inr ix)
  obtain i x where "ix = (i, x)" by (cases ix)
  with Inr assms(4) have "booking_tx env p ev ty postedAt None a s = (Inr (i, x), t)" by simp
  from booking_tx_Inr [OF this] assms show ?thesis
    by (auto simp: sources_processed_def event_processed_def posted_row_def)
qed

lemma book_event_cases:
  assumes "ev \<noteq> ''''" "book_event b ev s = (r, t)"
  obtains (replay) j where "booked_entry s ev = Some j" "r = Inr j" "t = s"
  | (booked) i x where "\<not> event_processed s ev"
      "booking_tx (bk_env b) ((bk_params b)\<lparr>jp_source_event := Some ev\<rparr>) ev (bk_type b)
         (bk_posted_at b) (None :: (id \<Rightarrow> unit action) option) (bk_audit b) s = (Inr (i, x), t)"
      "r = fst (GetJournalEntry i t)"
  | (failed) e where "\<not> event_processed s ev"
      "booking_tx (bk_env b) ((bk_params b)\<lparr>jp_source_event := Some ev\<rparr>) ev (bk_type b)
         (bk_posted_at b) (None :: (id \<Rightarrow> unit action) option) (bk_audit b) s = (Inl e, t)"
      "e \<noteq> RaceLost \<longrightarrow> r = Inl e"
  using assms
  by (auto simp: book_event_apply GetJournalEntry_def GetJournalEntryBySourceEvent_def booked_entry_def
      split: option.splits prod.splits sum.splits if_splits)

lemma booked_entry_append:
  assumes "booked_entry s ev' = Some j" "entries_wf s" "lines_wf s"
    and t: "entries t = entries s @ [e]" "jlines t = jlines s @ ks" "accounts t = accounts s"
      "processed t = processed s @ ps"
    and new: "e_source_event e \<noteq> Some ev'" "\<forall>k \<in> set ks. l_entry k = next_id s"
  shows "booked_entry t ev' = Some j"
proof -
  have p: "event_processed s ev'" "event_processed t ev'"
    using assms(1) t by (auto simp: booked_entry_def event_processed_def split: if_splits)
  have src: "entry_by_source t ev' = entry_by_source s ev'"
    using t(1) new(1) by (simp add: entry_by_source_def row_by_append split: option.split)
  have "loadJournalLines t (e_id e') = loadJournalLines s (e_id e')"
    if "entry_by_source s ev' = Some e'" for e'
  proof (rule loadJournalLines_cong [OF _ t(3)], rule lines_of_append [OF t(2)])
    have "e_id e' < next_id s"
      using that assms(2) by (auto simp: entry_by_source_def entries_wf_def dest: row_by_Some_in)
    with new(2) show "\<forall>k \<in> set ks. l_entry k \<noteq> e_id e'" by auto
  qed
  then show ?thesis
    using assms(1) p src by (cases "entry_by_source s ev'") (auto simp: booked_entry_def)
qed

lemma book_event_inv:
  assumes "ev \<noteq> ''''" "booking_inv s"
  shows "booking_inv (snd (book_event b ev s))"
proof -
  obtain r t where rt: "book_event b ev s = (r, t)" by (cases "book_event b ev s")
  let ?act = "booking_tx (bk_env b) ((bk_params b)\<lparr>jp_source_event := Some ev\<rparr>) ev (bk_type b)
         (bk_posted_at b) (None :: (id \<Rightarrow> unit action) option) (bk_audit b)"
  have "booking_inv t" if run: "?act s = (r', t)" for r'
  proof -
    have "keeps journal_inv ?act" "keeps (numbers_wf 0) ?act" by (intro keeps_intros; simp)+
    note kept = this
    have "journal_inv t"
      by (rule keeps_run [OF kept(1) _ run]) (use assms(2) in \<open>simp add: booking_inv_def\<close>)
    moreover have "numbers_wf 0 t"
      by (rule keeps_run [OF kept(2) _ run]) (use assms(2) in \<open>simp add: booking_inv_def\<close>)
    moreover have "sources_processed t"
      by (rule booking_tx_sources [OF _ _ assms(1) run]) (use assms(2) in \<open>simp_all add: booking_inv_def\<close>)
    ultimately show ?thesis by (simp add: booking_inv_def)
  qed
  note run = this
  from assms(1) rt have "booking_inv t"
  proof (cases rule: book_event_cases)
    case replay
    with assms show ?thesis by simp
  next
    case (booked i x)
    from run [OF booked(2)] show ?thesis .
  next
    case (failed e)
    from run [OF failed(2)] show ?thesis .
  qed
  with rt show ?thesis by simp
qed

lemma book_event_success:
  assumes "ev \<noteq> ''''" "booking_inv s" "booking_ready s" "book_event b ev s = (Inr j, t)"
  shows "booked_entry t ev = Some j"
  using assms(1,4)
proof (cases rule: book_event_cases)
  case replay
  then show ?thesis by simp
next
  case (booked i x)
  from booking_tx_Inr [OF booked(2)] obtain ks where
    t: "entries t = entries s @ [posted_row (bk_env b) ((bk_params b)\<lparr>jp_source_event := Some ev\<rparr>)
          (bk_posted_at b) (entry_number (entry_seq s)) i]"
    and i: "i = next_id s" and p: "processed t = processed s @ [(ev, bk_type b)]"
    and src: "Some ev \<notin> e_source_event ` set (entries s)"
    using assms(1) by auto
  have "i \<notin> e_id ` set (entries s)"
    using assms(2) i by (auto simp: booking_inv_def journal_inv_def entries_wf_def)
  then have "entry_by_source t ev = entry_by_id t i" "entry_by_id t i \<noteq> None"
    using src unfolding entry_by_source_def entry_by_id_def t
    by (auto simp: row_by_append row_by_None_iff [symmetric] posted_row_def)
  with booked(3) p show ?thesis
    by (auto simp: GetJournalEntry_def booked_entry_def event_processed_def entry_by_id_def
        dest: row_by_Some_in)
next
  case (failed e)
  with booking_tx_not_race [OF assms(2,3,1), of "(bk_params b)\<lparr>jp_source_event := Some ev\<rparr>"]
  show ?thesis by auto
qed

lemma book_event_stable:
  assumes "ev \<noteq> ''''" "booking_inv s" "booked_entry s ev' = Some j"
  shows "booked_entry (snd (book_event b ev s)) ev' = Some j"
proof -
  obtain r t where rt: "book_event b ev s = (r, t)" by (cases "book_event b ev s")
  from assms(1) rt show ?thesis
  proof (cases rule: book_event_cases)
    case replay
    with assms rt show ?thesis by simp
  next
    case (booked i x)
    from booking_tx_Inr [OF booked(2)] obtain ks where
      t: "entries t = entries s @ [posted_row (bk_env b) ((bk_params b)\<lparr>jp_source_event := Some ev\<rparr>)
            (bk_posted_at b) (entry_number (entry_seq s)) i]"
        "jlines t = jlines s @ ks" "accounts t = accounts s" "processed t = processed s @ [(ev, bk_type b)]"
      and i: "i = next_id s" and ks: "\<forall>k \<in> set ks. l_entry k = i"
      using assms(1) line_keys_entry by auto
    have "ev' \<noteq> ev" using booked(1) assms(3) by (auto simp: booked_entry_def split: if_splits)
    then have "booked_entry t ev' = Some j"
      using assms(2,3) t ks i
      by (intro booked_entry_append [OF assms(3) _ _ t]) (auto simp: booking_inv_def journal_inv_def posted_row_def)
    with rt show ?thesis by simp
  next
    case (failed e)
    from booking_tx_Inl [OF failed(2)] have "t = s\<lparr>entry_seq := entry_seq t\<rparr>" .
    then have "booked_entry t ev' = booked_entry (s\<lparr>entry_seq := entry_seq t\<rparr>) ev'" by simp
    also have "\<dots> = booked_entry s ev'"
      by (simp add: booked_entry_def event_processed_def entry_by_source_def loadJournalLines_def
          lines_of_def cong: map_option_cong)
    finally show ?thesis using rt assms(3) by simp
  qed
qed

interpretation booking: event_booking book_event booked_entry "\<lambda>ev. ev \<noteq> ''''" booking_inv booking_ready
proof unfold_locales
  show "book_event p ev s = (Inr j, s)" if "ev \<noteq> ''''" "booked_entry s ev = Some j" for p ev s j
    using that by (simp add: book_event_apply)
qed (rule book_event_inv book_event_success book_event_stable; assumption)+

end
