(* ===== verification/Outbox.thy ===== *)
theory Outbox
  imports Journal_Invariants
begin

text \<open>
  The transactional outbox (\<open>repository/outbox.go\<close>) and its relay (\<open>worker/outbox.go\<close>): events
  written with the state change they announce, fetched oldest first, published at least once and
  parked after \<open>maxPublishAttempts\<close> failures. What the broker and the decoder answer for a row is
  a parameter of a drain pass.
\<close>

record outbox_event =
  oe_topic :: string
  oe_key :: string
  oe_event_id :: string
  oe_event_type :: string
  oe_payload :: json_object

text \<open>\<open>INSERT \<dots> ON CONFLICT (event_id) DO NOTHING\<close>.\<close>

definition enqueueOutboxTx :: "outbox_event \<Rightarrow> unit action" where
  "enqueueOutboxTx ev = (\<lambda>s.
     if oe_event_id ev \<in> ob_event_id ` set (outbox s) then (Inr (), s)
     else (Inr (), s\<lparr>outbox := outbox s @
            [\<lparr>ob_id = next_id s, ob_topic = oe_topic ev, ob_key = oe_key ev,
              ob_event_id = oe_event_id ev, ob_event_type = oe_event_type ev,
              ob_payload = oe_payload ev, ob_published = None, ob_attempts = 0,
              ob_last_error = ''''\<rparr>],
            next_id := Suc (next_id s)\<rparr>))"

definition EnqueueOutbox :: "outbox_event \<Rightarrow> unit action" where
  "EnqueueOutbox ev = enqueueOutboxTx ev"

definition enqueue_opt :: "outbox_event option \<Rightarrow> unit action" where
  "enqueue_opt ev = (case ev of None \<Rightarrow> ok () | Some e \<Rightarrow> enqueueOutboxTx e)"

definition defaultMaxPublishAttempts :: int where
  "defaultMaxPublishAttempts = 6000"

definition max_attempts :: "int \<Rightarrow> int" where
  "max_attempts n = (if n \<le> 0 then defaultMaxPublishAttempts else n)"

definition CountParkedOutbox :: "int \<Rightarrow> nat action" where
  "CountParkedOutbox n = gets (\<lambda>s. length (filter
     (\<lambda>r. ob_published r = None \<and> int (ob_attempts r) \<ge> max_attempts n) (outbox s)))"

definition FetchUnpublishedOutbox :: "int \<Rightarrow> int \<Rightarrow> outbox_row list action" where
  "FetchUnpublishedOutbox limit n =
     (let k = (if limit \<le> 0 \<or> limit > 500 then 100 else limit)
      in gets (\<lambda>s. take (nat k) (filter
           (\<lambda>r. ob_published r = None \<and> int (ob_attempts r) < max_attempts n) (outbox s))))"

definition MarkOutboxPublished :: "env \<Rightarrow> id \<Rightarrow> unit action" where
  "MarkOutboxPublished env i = modify (\<lambda>s. s\<lparr>outbox :=
     update_where (\<lambda>r. ob_id r = i) (\<lambda>r. r\<lparr>ob_published := Some (env_now env)\<rparr>) (outbox s)\<rparr>)"

definition MarkOutboxFailed :: "id \<Rightarrow> string \<Rightarrow> unit action" where
  "MarkOutboxFailed i msg = modify (\<lambda>s. s\<lparr>outbox :=
     update_where (\<lambda>r. ob_id r = i)
       (\<lambda>r. r\<lparr>ob_attempts := Suc (ob_attempts r), ob_last_error := msg\<rparr>) (outbox s)\<rparr>)"

section \<open>The relay\<close>

definition outboxBatchSize :: int where
  "outboxBatchSize = 100"

definition maxPublishAttempts :: int where
  "maxPublishAttempts = 6000"

text \<open>
  What happens to one row: its payload does not decode, the broker refuses it, it is published and
  marked, or it is published and marking it fails.
\<close>

datatype delivery = Poison string | Refused string | Delivered | DeliveredUnmarked

definition relay_row :: "env \<Rightarrow> (outbox_row \<Rightarrow> delivery) \<Rightarrow> outbox_row \<Rightarrow> outbox_row list action" where
  "relay_row env answer row =
     (case answer row of
        Poison m \<Rightarrow> bind (MarkOutboxFailed (ob_id row) (''payload decode: '' @ m)) (\<lambda>_. ok [])
      | Refused m \<Rightarrow> bind (MarkOutboxFailed (ob_id row) m) (\<lambda>_. ok [])
      | Delivered \<Rightarrow> bind (MarkOutboxPublished env (ob_id row)) (\<lambda>_. ok [row])
      | DeliveredUnmarked \<Rightarrow> ok [row])"

text \<open>A pass returns what it published, in order.\<close>

definition drain :: "env \<Rightarrow> (outbox_row \<Rightarrow> delivery) \<Rightarrow> outbox_row list action" where
  "drain env answer =
     bind (FetchUnpublishedOutbox outboxBatchSize maxPublishAttempts) (\<lambda>rows.
     bind (map_each rows (relay_row env answer)) (\<lambda>sent. ok (concat sent)))"

section \<open>The queue is well formed\<close>

definition outbox_wf :: "db \<Rightarrow> bool" where
  "outbox_wf s \<longleftrightarrow> distinct (map ob_event_id (outbox s)) \<and> distinct (map ob_id (outbox s)) \<and>
     (\<forall>r \<in> set (outbox s). ob_id r < next_id s)"

lemma keeps_enqueueOutboxTx [keeps_intros]:
  "keeps outbox_wf (enqueueOutboxTx ev)" "keeps journal_tx_inv (enqueueOutboxTx ev)"
  "keeps journal_inv (enqueueOutboxTx ev)" "keeps (audit_ok env) (enqueueOutboxTx ev)"
  by (auto simp: keeps_def enqueueOutboxTx_def outbox_wf_def journal_tx_inv_def journal_inv_def
      entries_wf_def lines_wf_def balanced_def lines_of_def audit_ok_def less_Suc_eq)

lemma keeps_enqueue_opt [keeps_intros]:
  "keeps outbox_wf (enqueue_opt ev)" "keeps journal_tx_inv (enqueue_opt ev)"
  "keeps journal_inv (enqueue_opt ev)" "keeps (audit_ok env) (enqueue_opt ev)"
  unfolding enqueue_opt_def by (intro keeps_intros)+

lemma enqueue_opt_Inr: "fst (enqueue_opt ev s) = Inr ()"
  by (auto simp: enqueue_opt_def enqueueOutboxTx_def split: option.split)

lemma keeps_mark [keeps_intros]:
  "keeps outbox_wf (MarkOutboxPublished env i)" "keeps outbox_wf (MarkOutboxFailed i m)"
  "keeps journal_inv (MarkOutboxPublished env i)" "keeps journal_inv (MarkOutboxFailed i m)"
  "keeps (audit_ok env') (MarkOutboxPublished env i)" "keeps (audit_ok env') (MarkOutboxFailed i m)"
  unfolding MarkOutboxPublished_def MarkOutboxFailed_def
  by (auto intro!: keeps_intros simp: journal_view_def)
    (auto simp: keeps_def outbox_wf_def map_update_where set_update_where)

lemma keeps_relay_row [keeps_intros]:
  assumes "keeps I (MarkOutboxPublished env (ob_id r))" "\<And>m. keeps I (MarkOutboxFailed (ob_id r) m)"
  shows "keeps I (relay_row env answer r)"
  unfolding relay_row_def using assms by (cases "answer r") (auto intro!: keeps_intros)

lemma keeps_drain [keeps_intros]:
  "keeps outbox_wf (drain env answer)" "keeps journal_inv (drain env answer)"
  "keeps (audit_ok env') (drain env answer)"
  unfolding drain_def FetchUnpublishedOutbox_def Let_def by (intro keeps_intros)+

section \<open>What a pass does\<close>

text \<open>The row a pass leaves in place of a row it handled.\<close>

definition relayed :: "env \<Rightarrow> (outbox_row \<Rightarrow> delivery) \<Rightarrow> outbox_row \<Rightarrow> outbox_row" where
  "relayed env answer r =
     (case answer r of
        Poison m \<Rightarrow> r\<lparr>ob_attempts := Suc (ob_attempts r), ob_last_error := ''payload decode: '' @ m\<rparr>
      | Refused m \<Rightarrow> r\<lparr>ob_attempts := Suc (ob_attempts r), ob_last_error := m\<rparr>
      | Delivered \<Rightarrow> r\<lparr>ob_published := Some (env_now env)\<rparr>
      | DeliveredUnmarked \<Rightarrow> r)"

definition sent_of :: "(outbox_row \<Rightarrow> delivery) \<Rightarrow> outbox_row \<Rightarrow> bool" where
  "sent_of answer r \<longleftrightarrow> answer r = Delivered \<or> answer r = DeliveredUnmarked"

lemma relayed_id [simp]: "ob_id (relayed env answer r) = ob_id r"
  by (simp add: relayed_def split: delivery.split)

lemma update_by_id:
  assumes "distinct (map ob_id rs)" "r \<in> set rs"
  shows "update_where (\<lambda>x. ob_id x = ob_id r) f rs = map (\<lambda>x. if x = r then f r else x) rs"
  using assms by (auto simp: update_where_def distinct_map inj_on_def)

lemma map_replace_self: "map (\<lambda>x. if x = r then r else x) xs = xs"
  by (induction xs) auto

lemma relay_row_apply:
  assumes "distinct (map ob_id (outbox s))" "r \<in> set (outbox s)"
  shows "relay_row env answer r s =
    (Inr (if sent_of answer r then [r] else []),
     s\<lparr>outbox := map (\<lambda>x. if x = r then relayed env answer r else x) (outbox s)\<rparr>)"
proof -
  note upd = update_by_id [OF assms]
  show ?thesis
    by (cases "answer r")
      (simp_all only: relay_row_def MarkOutboxFailed_def MarkOutboxPublished_def upd sent_of_def
        relayed_def delivery.case bind_modify ok_apply delivery.simps simp_thms if_True if_False
        map_replace_self db.surjective db.update_convs, simp_all)
qed

lemma relay_rows_apply:
  assumes "distinct (map ob_id (outbox s))" "set rows \<subseteq> set (outbox s)" "distinct rows"
  shows "\<exists>sent. map_each rows (relay_row env answer) s =
    (Inr sent, s\<lparr>outbox := map (\<lambda>x. if x \<in> set rows then relayed env answer x else x) (outbox s)\<rparr>) \<and>
    concat sent = filter (sent_of answer) rows"
  using assms
proof (induction rows arbitrary: s)
  case Nil
  then show ?case by simp
next
  case (Cons r rows)
  let ?g = "\<lambda>x. if x = r then relayed env answer r else x"
  let ?t = "s\<lparr>outbox := map ?g (outbox s)\<rparr>"
  have ids: "map ob_id (outbox ?t) = map ob_id (outbox s)" by simp
  have sub: "set rows \<subseteq> set (outbox ?t)" using Cons.prems by force
  have "distinct (map ob_id (outbox ?t))" using ids Cons.prems(1) by argo
  from Cons.IH [OF this sub] Cons.prems(3) obtain sent where
    IH: "map_each rows (relay_row env answer) ?t =
      (Inr sent, ?t\<lparr>outbox := map (\<lambda>x. if x \<in> set rows then relayed env answer x else x) (outbox ?t)\<rparr>)"
    "concat sent = filter (sent_of answer) rows" by auto
  have "relayed env answer r \<notin> set rows"
  proof
    assume "relayed env answer r \<in> set rows"
    then have "relayed env answer r \<in> set (outbox s)" using Cons.prems by auto
    then have "relayed env answer r = r"
      using Cons.prems(1,2) by (auto simp: distinct_map inj_on_def)
    with \<open>relayed env answer r \<in> set rows\<close> Cons.prems(3) show False by simp
  qed
  then have "map (\<lambda>x. if x \<in> set rows then relayed env answer x else x) (map ?g (outbox s)) =
      map (\<lambda>x. if x \<in> set (r # rows) then relayed env answer x else x) (outbox s)"
    using Cons.prems(3) by auto
  with IH show ?case
    using Cons.prems relay_row_apply [of s r env answer]
    by (auto simp: bind_apply intro!: exI [of _ "(if sent_of answer r then [r] else []) # sent"])
qed

lemma drain_apply:
  assumes "outbox_wf s"
  shows "drain env answer s =
    (let rows = take 100 (filter (\<lambda>r. ob_published r = None \<and> ob_attempts r < 6000) (outbox s))
     in (Inr (filter (sent_of answer) rows),
         s\<lparr>outbox := map (\<lambda>x. if x \<in> set rows then relayed env answer x else x) (outbox s)\<rparr>))"
proof -
  let ?rows = "take 100 (filter (\<lambda>r. ob_published r = None \<and> ob_attempts r < 6000) (outbox s))"
  have "distinct (outbox s)" using assms by (simp add: outbox_wf_def distinct_map)
  then have "distinct ?rows" by simp
  moreover have "set ?rows \<subseteq> set (outbox s)" by (auto dest: in_set_takeD)
  ultimately obtain sent where
    "map_each ?rows (relay_row env answer) s =
      (Inr sent, s\<lparr>outbox := map (\<lambda>x. if x \<in> set ?rows then relayed env answer x else x) (outbox s)\<rparr>)"
    "concat sent = filter (sent_of answer) ?rows"
    using relay_rows_apply [of s ?rows env answer] assms by (auto simp: outbox_wf_def)
  moreover have "(int n < 6000) = (n < 6000)" for n by simp
  ultimately show ?thesis
    by (simp add: drain_def FetchUnpublishedOutbox_def Let_def outboxBatchSize_def maxPublishAttempts_def
        max_attempts_def bind_apply)
qed

end
