(* ===== verification/Open_Items.thy ===== *)
theory Open_Items
  imports Outbox Fx_Rates
begin

text \<open>
  The open items of receivables and payables (\<open>ar_open_items\<close>, \<open>ap_open_items\<close>): creation, the
  queries and the legacy amendments of \<open>repository/repository.go\<close>, \<open>repository/invoices.go\<close>,
  \<open>repository/payments.go\<close> and \<open>ledger/invoices.go\<close>. The two tables differ only in the name of
  the party column, so the statements are shared over \<open>direction\<close>.
\<close>

section \<open>Statements\<close>

text \<open>
  \<open>INSERT INTO ar_open_items\<close> / \<open>ap_open_items\<close>: \<open>amount NUMERIC(18, 2) CHECK (amount > 0)\<close>,
  \<open>fx_rate NUMERIC(18, 8)\<close>, \<open>UNIQUE (document_ref)\<close>.
\<close>

definition insert_item :: "env \<Rightarrow> direction \<Rightarrow> open_item \<Rightarrow> open_item action" where
  "insert_item env d row = (\<lambda>s.
     let r = row\<lparr>oi_id := next_id s, oi_amount := env_round env (oi_amount row) 2,
                 oi_fx_rate := env_round env (oi_fx_rate row) 8\<rparr>
     in if \<not> oi_amount r > 0 then (Inl (CheckViolation ''open_items_amount_check''), s)
        else if oi_document_ref r \<in> oi_document_ref ` set (items_of d s)
        then (Inl (UniqueViolation ''open_items_document_ref_key''), s)
        else if oi_entry r \<noteq> None \<and> oi_entry r \<notin> Some ` e_id ` set (entries s)
        then (Inl (ForeignKeyViolation ''open_items_journal_entry_id_fkey''), s)
        else (Inr r, set_items d (items_of d s @ [r]) (s\<lparr>next_id := Suc (next_id s)\<rparr>)))"

definition create_open_item ::
  "env \<Rightarrow> direction \<Rightarrow> string \<Rightarrow> string \<Rightarrow> string \<Rightarrow> rat \<Rightarrow> string \<Rightarrow> date option \<Rightarrow> id option \<Rightarrow>
   string option \<Rightarrow> outbox_event option \<Rightarrow> open_item action" where
  "create_open_item env d party documentRef desc amount currency due entryID sourceEvent ob = tx
     (bind (RateOrOne env currency (date_of (env_now env))) (\<lambda>fxRate.
      bind (insert_item env d
        \<lparr>oi_id = 0, oi_party_ref = party, oi_document_ref = documentRef, oi_desc = desc,
         oi_amount = amount, oi_paid = 0, oi_currency = currency, oi_due = due, oi_status = Open,
         oi_entry = entryID, oi_source_event = sourceEvent, oi_fx_rate = fxRate,
         oi_entity = env_entity env, oi_party_id = None, oi_notified = None\<rparr>) (\<lambda>i.
      bind (enqueue_opt ob) (\<lambda>_. ok i))))"

definition CreateAROpenItem ::
  "env \<Rightarrow> string \<Rightarrow> string \<Rightarrow> string \<Rightarrow> rat \<Rightarrow> string \<Rightarrow> date option \<Rightarrow> id option \<Rightarrow>
   string option \<Rightarrow> outbox_event option \<Rightarrow> open_item action" where
  "CreateAROpenItem env = create_open_item env AR"

definition CreateAPOpenItem ::
  "env \<Rightarrow> string \<Rightarrow> string \<Rightarrow> string \<Rightarrow> rat \<Rightarrow> string \<Rightarrow> date option \<Rightarrow> id option \<Rightarrow>
   string option \<Rightarrow> outbox_event option \<Rightarrow> open_item action" where
  "CreateAPOpenItem env = create_open_item env AP"

section \<open>Queries\<close>

definition item_by_id :: "direction \<Rightarrow> db \<Rightarrow> id \<Rightarrow> open_item option" where
  "item_by_id d s i = row_by oi_id i (items_of d s)"

definition item_by_ref :: "direction \<Rightarrow> db \<Rightarrow> string \<Rightarrow> open_item option" where
  "item_by_ref d s ref = row_by oi_document_ref ref (items_of d s)"

definition GetAROpenItem :: "id \<Rightarrow> open_item option action" where
  "GetAROpenItem i = gets (\<lambda>s. item_by_id AR s i)"

definition GetAPOpenItem :: "id \<Rightarrow> open_item option action" where
  "GetAPOpenItem i = gets (\<lambda>s. item_by_id AP s i)"

definition GetARByDocumentRef :: "string \<Rightarrow> open_item option action" where
  "GetARByDocumentRef ref = gets (\<lambda>s. item_by_ref AR s ref)"

definition GetAPByDocumentRef :: "string \<Rightarrow> open_item option action" where
  "GetAPByDocumentRef ref = gets (\<lambda>s. item_by_ref AP s ref)"

definition item_limit :: "int \<Rightarrow> int" where
  "item_limit limit = (if limit \<le> 0 \<or> limit > 100 then 50 else limit)"

definition ListAROpenItems :: "int \<Rightarrow> int \<Rightarrow> open_item list action" where
  "ListAROpenItems limit offset =
     gets (\<lambda>s. page (item_limit limit) offset (rev (ar_items s)))"

definition ListAPOpenItems :: "int \<Rightarrow> int \<Rightarrow> open_item list action" where
  "ListAPOpenItems limit offset =
     gets (\<lambda>s. page (item_limit limit) offset (rev (ap_items s)))"

text \<open>\<open>ORDER BY due_date DESC NULLS LAST\<close>.\<close>

definition due_key :: "date option \<Rightarrow> int \<times> int" where
  "due_key d = (case d of None \<Rightarrow> (1, 0) | Some x \<Rightarrow> (0, - day_of_civil x))"

definition ListAPByPartyID :: "id \<Rightarrow> int \<Rightarrow> int \<Rightarrow> open_item list action" where
  "ListAPByPartyID party limit offset =
     gets (\<lambda>s. page (item_limit limit) offset
       (sort_key (snd \<circ> due_key \<circ> oi_due) (filter (\<lambda>i. oi_due i \<noteq> None) (filter (\<lambda>i. oi_party_id i = Some party) (ap_items s)))
        @ filter (\<lambda>i. oi_due i = None) (filter (\<lambda>i. oi_party_id i = Some party) (ap_items s))))"

text \<open>\<open>ILIKE\<close>: \<open>%\<close> any string, \<open>_\<close> any character, a backslash the next character itself.\<close>

fun like :: "string \<Rightarrow> string \<Rightarrow> bool" where
  "like [] ys = (ys = [])"
| "like (p # ps) [] = (p = CHR ''%'' \<and> like ps [])"
| "like (p # ps) (y # ys) =
     (if p = CHR ''%'' then like ps (y # ys) \<or> like (p # ps) ys
      else if p = CHR ''_'' then like ps ys
      else if p = CHR 0x5C then
        (case ps of [] \<Rightarrow> False | q # qs \<Rightarrow> q = y \<and> like qs ys)
      else p = y \<and> like ps ys)"

definition ilike_contains :: "string \<Rightarrow> string \<Rightarrow> bool" where
  "ilike_contains q x = like (''%'' @ to_lower q @ ''%'') (to_lower x)"

definition overdue :: "env \<Rightarrow> open_item \<Rightarrow> bool" where
  "overdue env i \<longleftrightarrow> oi_status i \<in> {Open, Partial} \<and>
     (case oi_due i of None \<Rightarrow> False | Some d \<Rightarrow> \<not> date_le (date_of (env_now env)) d)"

definition status_filter :: "env \<Rightarrow> string \<Rightarrow> open_item \<Rightarrow> bool" where
  "status_filter env status i =
     (if status = ''Overdue'' then overdue env i
      else if status = ''Open'' then oi_status i = Open
      else if status = ''Partial'' then oi_status i = Partial
      else if status = ''Paid'' \<or> status = ''Closed'' then oi_status i = Closed
      else True)"

definition list_filtered ::
  "env \<Rightarrow> direction \<Rightarrow> string \<Rightarrow> string \<Rightarrow> int \<Rightarrow> int \<Rightarrow> open_item list action" where
  "list_filtered env d status q limit offset =
     gets (\<lambda>s. page (item_limit limit) offset
       (filter (\<lambda>i. status_filter env status i \<and>
          (q = '''' \<or> ilike_contains q (oi_document_ref i) \<or> ilike_contains q (oi_party_ref i)))
         (rev (items_of d s))))"

definition ListAROpenItemsFiltered ::
  "env \<Rightarrow> string \<Rightarrow> string \<Rightarrow> int \<Rightarrow> int \<Rightarrow> open_item list action" where
  "ListAROpenItemsFiltered env = list_filtered env AR"

definition ListAPOpenItemsFiltered ::
  "env \<Rightarrow> string \<Rightarrow> string \<Rightarrow> int \<Rightarrow> int \<Rightarrow> open_item list action" where
  "ListAPOpenItemsFiltered env = list_filtered env AP"

section \<open>Legacy amendments\<close>

definition parse_item_status :: "string \<Rightarrow> item_status option" where
  "parse_item_status x =
     (if x = ''open'' then Some Open else if x = ''partial'' then Some Partial
      else if x = ''closed'' then Some Closed else None)"

text \<open>
  \<open>UPDATE \<dots> SET \<dots> = COALESCE(\<dots>) WHERE document_ref = $1 AND status != 'closed'\<close>: a status outside
  the three of the column's \<open>CHECK\<close> fails when there is a row to write.
\<close>

definition update_open_item ::
  "direction \<Rightarrow> string \<Rightarrow> string option \<Rightarrow> string option \<Rightarrow> date option \<Rightarrow> string option \<Rightarrow>
   open_item option action" where
  "update_open_item d ref party desc due status = (\<lambda>s.
     let hit = (\<lambda>i. oi_document_ref i = ref \<and> oi_status i \<noteq> Closed) in
     if \<not> (\<exists>i \<in> set (items_of d s). hit i) then (Inl ErrInvoiceNotFound, s)
     else if (case status of None \<Rightarrow> False | Some x \<Rightarrow> parse_item_status x = None)
     then (Inl (CheckViolation ''open_items_status_check''), s)
     else let t = set_items d (update_where hit (\<lambda>i. i\<lparr>
              oi_party_ref := coalesce party (oi_party_ref i),
              oi_desc := coalesce desc (oi_desc i),
              oi_due := (case due of None \<Rightarrow> oi_due i | Some x \<Rightarrow> Some x),
              oi_status := (case status of None \<Rightarrow> oi_status i
                            | Some x \<Rightarrow> (case parse_item_status x of None \<Rightarrow> oi_status i | Some st \<Rightarrow> st))\<rparr>)
            (items_of d s)) s
          in (Inr (item_by_ref d t ref), t))"

definition UpdateAROpenItem ::
  "string \<Rightarrow> string option \<Rightarrow> string option \<Rightarrow> date option \<Rightarrow> string option \<Rightarrow> open_item option action" where
  "UpdateAROpenItem = update_open_item AR"

definition UpdateAPOpenItem ::
  "string \<Rightarrow> string option \<Rightarrow> string option \<Rightarrow> date option \<Rightarrow> string option \<Rightarrow> open_item option action" where
  "UpdateAPOpenItem = update_open_item AP"

text \<open>A receivable with a payment intent cannot go (\<open>payment_intents.open_item_id\<close>, migration 035).\<close>

definition delete_open_item :: "direction \<Rightarrow> string \<Rightarrow> unit action" where
  "delete_open_item d ref = (\<lambda>s.
     let hit = (\<lambda>i. oi_document_ref i = ref \<and> oi_status i = Open \<and> oi_paid i = 0) in
     if \<not> (\<exists>i \<in> set (items_of d s). hit i) then (Inl ErrInvoiceNotFound, s)
     else if d = AR \<and> (\<exists>i \<in> set (items_of d s). hit i \<and> oi_id i \<in> tt_item ` set (payment_intents (docs_of s)))
     then (Inl (ForeignKeyViolation ''payment_intents_open_item_id_fkey''), s)
     else (Inr (), set_items d (filter (\<lambda>i. \<not> hit i) (items_of d s)) s))"

definition DeleteAROpenItem :: "string \<Rightarrow> unit action" where
  "DeleteAROpenItem = delete_open_item AR"

definition DeleteAPOpenItem :: "string \<Rightarrow> unit action" where
  "DeleteAPOpenItem = delete_open_item AP"

definition UpdateARByDocumentRef ::
  "string \<Rightarrow> string option \<Rightarrow> string option \<Rightarrow> date option \<Rightarrow> string option \<Rightarrow> open_item action" where
  "UpdateARByDocumentRef ref party desc due status =
     bind (UpdateAROpenItem ref party desc due status) (\<lambda>i.
       case i of None \<Rightarrow> fail ErrInvoiceNotFound | Some x \<Rightarrow> ok x)"

definition UpdateAPByDocumentRef ::
  "string \<Rightarrow> string option \<Rightarrow> string option \<Rightarrow> date option \<Rightarrow> string option \<Rightarrow> open_item action" where
  "UpdateAPByDocumentRef ref party desc due status =
     bind (UpdateAPOpenItem ref party desc due status) (\<lambda>i.
       case i of None \<Rightarrow> fail ErrInvoiceNotFound | Some x \<Rightarrow> ok x)"

section \<open>Views\<close>

definition item_status_name :: "item_status \<Rightarrow> string" where
  "item_status_name st = (case st of Open \<Rightarrow> ''Open'' | Partial \<Rightarrow> ''Partial'' | Closed \<Rightarrow> ''closed'')"

definition MapInvoiceStatus :: "env \<Rightarrow> open_item \<Rightarrow> string" where
  "MapInvoiceStatus env i =
     (if oi_status i = Closed then ''Paid''
      else if (case oi_due i of None \<Rightarrow> False | Some d \<Rightarrow> time_of_date d < env_now env)
      then ''Overdue''
      else item_status_name (oi_status i))"

definition MapBillStatus :: "env \<Rightarrow> open_item \<Rightarrow> string" where
  "MapBillStatus env i =
     (if oi_status i = Closed then ''Paid''
      else if (case oi_due i of None \<Rightarrow> False | Some d \<Rightarrow> time_of_date d < env_now env)
      then ''Overdue''
      else item_status_name (oi_status i))"

record funnel_bucket =
  fu_value :: rat
  fu_count :: nat

record sales_funnel =
  sf_overdue :: funnel_bucket
  sf_open :: funnel_bucket
  sf_paid :: funnel_bucket

definition balance_bucket :: "open_item list \<Rightarrow> funnel_bucket" where
  "balance_bucket is = \<lparr>fu_value = sum_list (map (\<lambda>i. oi_amount i - oi_paid i) is), fu_count = length is\<rparr>"

text \<open>The \<open>float8\<close> casts of the query are not modelled: the values are the exact sums.\<close>

definition SalesFunnel :: "env \<Rightarrow> sales_funnel action" where
  "SalesFunnel env = gets (\<lambda>s.
     \<lparr>sf_overdue = balance_bucket (filter (overdue env) (ar_items s)),
      sf_open = balance_bucket (filter (\<lambda>i. oi_status i \<in> {Open, Partial} \<and> \<not> overdue env i) (ar_items s)),
      sf_paid = (let is = filter (\<lambda>i. oi_status i = Closed) (ar_items s)
                 in \<lparr>fu_value = sum_list (map oi_amount is), fu_count = length is\<rparr>)\<rparr>)"

record overdue_item =
  od_document :: string
  od_customer :: string
  od_amount :: rat
  od_currency :: string
  od_due :: "date option"

definition notify_due :: "env \<Rightarrow> int \<Rightarrow> open_item \<Rightarrow> bool" where
  "notify_due env cooldownHours i =
     (case oi_notified i of None \<Rightarrow> True
      | Some t \<Rightarrow> t < env_now env - cooldownHours * 3600 * 1000000000)"

definition ListOverdueAR :: "env \<Rightarrow> int \<Rightarrow> overdue_item list action" where
  "ListOverdueAR env cooldownHours = gets (\<lambda>s.
     map (\<lambda>i. \<lparr>od_document = oi_document_ref i, od_customer = oi_party_ref i,
               od_amount = oi_amount i - oi_paid i, od_currency = oi_currency i, od_due = oi_due i\<rparr>)
       (sort_key (\<lambda>i. - snd (due_key (oi_due i)))
         (filter (\<lambda>i. overdue env i \<and> notify_due env cooldownHours i) (ar_items s))))"

definition MarkOverdueNotified :: "env \<Rightarrow> string list \<Rightarrow> unit action" where
  "MarkOverdueNotified env refs =
     (if refs = [] then ok ()
      else modify (\<lambda>s. s\<lparr>ar_items := update_where (\<lambda>i. oi_document_ref i \<in> set refs)
             (\<lambda>i. i\<lparr>oi_notified := Some (env_now env)\<rparr>) (ar_items s)\<rparr>))"

end
