(* ===== verification/Subledgers.thy ===== *)
theory Subledgers
  imports Booking Open_Items
begin

text \<open>
  The interface between the general ledger and the subledgers. A subledger invariant speaks of the
  documents (open items, payments, adjustments, accruals, payroll, approvals) and not of the
  journal: every operation of the journal then keeps it, which is proved here once, for all of them.
\<close>

definition documents_of :: "db \<Rightarrow> _" where
  "documents_of s =
     ((ar_items s, ap_items s, payments s, adjustments s),
      (grni s, tax_codes s, match_exceptions s, match_tolerance s),
      (tiers s, approvals s, decisions s),
      (payroll_runs s, leave_provisions s, leave_balances s, employee_rates s, leave_valuations s),
      clearing_items s, registers_of s, estimates_of s, docs_of s)"

locale subledger =
  fixes I :: "db \<Rightarrow> bool"
  assumes blind: "I s \<Longrightarrow> documents_of t = documents_of s \<Longrightarrow> next_id s \<le> next_id t \<Longrightarrow> I t"
    and unlinked: "I s \<Longrightarrow> I (drop_refs i s)"
begin

lemma keeps_blind:
  assumes "\<And>s. documents_of (snd (m s)) = documents_of s" "\<And>s. next_id s \<le> next_id (snd (m s))"
  shows "keeps I m"
  using assms blind by (auto simp: keeps_def)

lemma sub_fresh_id [keeps_intros]: "keeps I fresh_id"
  by (rule keeps_blind) (simp_all add: fresh_id_def documents_of_def)

lemma sub_insert_entry [keeps_intros]: "keeps I (insert_entry e)"
  by (rule keeps_blind) (simp_all add: insert_entry_def documents_of_def)

lemma sub_insert_line [keeps_intros]: "keeps I (insert_line env l)"
  by (rule keeps_blind) (simp_all add: insert_line_def documents_of_def Let_def)

lemma sub_update_entry [keeps_intros]: "keeps I (update_entry i P f)"
  by (rule keeps_blind) (simp_all add: update_entry_def documents_of_def)

lemma sub_delete_lines [keeps_intros]: "keeps I (delete_lines i)"
  by (rule keeps_blind) (simp_all add: delete_lines_def documents_of_def)

lemma sub_delete_entry [keeps_intros]: "keeps I (delete_entry i)"
proof (rule keepsI)
  fix s assume "I s"
  then have "I (s\<lparr>entries := filter (\<lambda>e. e_id e \<noteq> i) (entries s), jlines := filter (\<lambda>l. l_entry l \<noteq> i) (jlines s)\<rparr>)"
    by (rule blind) (simp_all add: documents_of_def)
  from unlinked [OF this] \<open>I s\<close> show "I (snd (delete_entry i s))"
    by (simp add: delete_entry_def)
qed

lemma sub_numbers [keeps_intros]: "keeps I nextEntryNumberTx"
  by (rule keeps_blind) (simp_all add: nextEntryNumberTx_def documents_of_def)

lemma sub_markProcessedTx [keeps_intros]: "keeps I (markProcessedTx ev ty)"
  by (rule keeps_blind) (simp_all add: markProcessedTx_def documents_of_def)

lemma sub_AppendChainTx [keeps_intros]: "keeps I (AppendChainTx env a t m)"
  by (rule keeps_blind) (simp_all add: AppendChainTx_eq documents_of_def Let_def)

lemma sub_appendAudit [keeps_intros]: "keeps I (appendAudit env a)"
  unfolding appendAudit_def by (intro keeps_intros)

lemma sub_enqueue [keeps_intros]: "keeps I (enqueueOutboxTx ev)"
  by (rule keeps_blind) (simp_all add: enqueueOutboxTx_def documents_of_def)

lemma sub_enqueue_opt [keeps_intros]: "keeps I (enqueue_opt ev)"
  unfolding enqueue_opt_def by (intro keeps_intros)

lemma sub_tx [keeps_intros]: "keeps I m \<Longrightarrow> keeps I (tx m)"
  by (rule keeps_tx [where J = I]) (auto simp: documents_of_def rollback_def intro: blind)

lemma sub_upsert_period [keeps_intros]: "keeps I (upsert_period r)"
  by (rule keeps_blind) (simp_all add: upsert_period_def documents_of_def)

text \<open>The operations of the journal.\<close>

lemma sub_insertPostedEntryTx [keeps_intros]: "keeps I (insertPostedEntryTx env p t)"
  unfolding insertPostedEntryTx_def by (intro keeps_intros)

lemma sub_repo_CreateJournalEntry [keeps_intros]: "keeps I (repo_CreateJournalEntry env p)"
  unfolding repo_CreateJournalEntry_def by (intro keeps_intros)

lemma sub_MarkEntryPosted [keeps_intros]: "keeps I (MarkEntryPosted env i t a)"
  unfolding MarkEntryPosted_def by (intro keeps_intros)

lemma sub_DeleteDraftEntry [keeps_intros]: "keeps I (DeleteDraftEntry i)"
  unfolding DeleteDraftEntry_def by (intro keeps_intros)

lemma sub_ReverseEntry [keeps_intros]: "keeps I (ReverseEntry env i r a)"
  unfolding ReverseEntry_def reverse_posted_def by (intro keeps_intros)

lemma sub_booking_tx [keeps_intros]:
  assumes "\<And>f i. side = Some f \<Longrightarrow> keeps I (f i)"
  shows "keeps I (booking_tx env p ev ty t side a)"
  unfolding booking_tx_def using assms by (intro keeps_intros) auto

lemma sub_BookPostedEntry [keeps_intros]:
  assumes "\<And>f i. side = Some f \<Longrightarrow> keeps I (f i)"
  shows "keeps I (BookPostedEntry env p ev ty t side a)"
  unfolding BookPostedEntry_def Let_def using assms by (intro keeps_intros) auto

lemma sub_SetPeriodStatus [keeps_intros]: "keeps I (SetPeriodStatus env p st u)"
  unfolding SetPeriodStatus_def by (intro keeps_intros)

text \<open>The operations of the ledger service.\<close>

lemma sub_CreateJournalEntry [keeps_intros]: "keeps I (CreateJournalEntry env inp)"
  unfolding CreateJournalEntry_def NextEntryNumber_def by (intro keeps_intros)

lemma sub_PostJournalEntry [keeps_intros]: "keeps I (PostJournalEntry env i a)"
  unfolding PostJournalEntry_def by (intro keeps_intros)

lemma sub_ReverseJournalEntry [keeps_intros]: "keeps I (ReverseJournalEntry env i r a)"
  unfolding ReverseJournalEntry_def by (intro keeps_intros)

lemma sub_supersede_one [keeps_intros]: "keeps I (supersede_one env r a x out)"
proof (cases x)
  case (Pair j st)
  show ?thesis unfolding Pair supersede_one_def Let_def prod.case by (intro keeps_intros)
qed

lemma sub_supersede_loop [keeps_intros]: "keeps I (supersede_loop env r a xs out)"
  by (induction xs arbitrary: out) (auto intro!: keeps_intros)

lemma sub_SupersedeEntriesBySource [keeps_intros]: "keeps I (SupersedeEntriesBySource env sv d r a)"
  unfolding SupersedeEntriesBySource_def ListEntriesBySource_def by (intro keeps_intros)

lemma sub_BookFromEvent [keeps_intros]: "keeps I (BookFromEvent env ref d c ls)"
  unfolding BookFromEvent_def Let_def by (intro keeps_intros) auto

text \<open>The chart, the rates and the outbox.\<close>

lemma sub_SeedChartOfAccounts [keeps_intros]: "keeps I SeedChartOfAccounts"
proof -
  have "keeps I (seed_account x)" for x
    unfolding seed_account_def
    by (intro keeps_intros keeps_blind) (simp_all add: insert_account_def documents_of_def)
  then show ?thesis unfolding SeedChartOfAccounts_def by (intro keeps_intros)
qed

lemma sub_CreateChartAccount [keeps_intros]: "keeps I (CreateChartAccount code name ty c p)"
  unfolding CreateChartAccount_def by (rule keeps_blind) (simp_all add: insert_account_def documents_of_def)

lemma sub_UpdateChartAccount [keeps_intros]: "keeps I (UpdateChartAccount i n t c p a r)"
  by (rule keeps_blind) (simp_all add: UpdateChartAccount_def documents_of_def Let_def)

lemma sub_DeactivateChartAccount [keeps_intros]: "keeps I (DeactivateChartAccount i)"
  by (rule keeps_blind) (simp_all add: DeactivateChartAccount_def documents_of_def)

lemma sub_UpsertRate [keeps_intros]: "keeps I (UpsertRate env c x d)"
  by (rule keeps_blind) (simp_all add: UpsertRate_def documents_of_def Let_def)

lemma sub_MarkOutbox [keeps_intros]:
  "keeps I (MarkOutboxPublished env i)" "keeps I (MarkOutboxFailed i m)"
  by (rule keeps_blind; simp add: MarkOutboxPublished_def MarkOutboxFailed_def documents_of_def)+

lemma sub_drain [keeps_intros]: "keeps I (drain env answer)"
  unfolding drain_def FetchUnpublishedOutbox_def Let_def by (intro keeps_intros)

end

section \<open>The open items are a subledger\<close>

text \<open>
  An open item is never paid beyond its amount; its amounts have the two places of their columns,
  and a document has one item per side.
\<close>

definition item_ok :: "open_item \<Rightarrow> bool" where
  "item_ok i \<longleftrightarrow> 0 < oi_amount i \<and> 0 \<le> oi_paid i \<and> oi_paid i \<le> oi_amount i \<and>
     has_places 2 (oi_amount i) \<and> has_places 2 (oi_paid i)"

definition side_wf :: "id \<Rightarrow> open_item list \<Rightarrow> bool" where
  "side_wf n is \<longleftrightarrow> distinct (map oi_id is) \<and> distinct (map oi_document_ref is) \<and>
     (\<forall>i \<in> set is. oi_id i < n \<and> item_ok i)"

definition items_wf :: "db \<Rightarrow> bool" where
  "items_wf s \<longleftrightarrow> side_wf (next_id s) (ar_items s) \<and> side_wf (next_id s) (ap_items s)"

lemma items_of_simps [simp]:
  "items_of d (set_items d is s) = is" "next_id (set_items d is s) = next_id s"
  "items_of AR s = ar_items s" "items_of AP s = ap_items s"
  by (cases d; simp add: items_of_def set_items_def)+

lemma items_wf_alt: "items_wf s \<longleftrightarrow> (\<forall>d. side_wf (next_id s) (items_of d s))"
  by (metis items_wf_def items_of_simps(3,4) direction.exhaust)

lemma side_wf_mono: "side_wf n is \<Longrightarrow> n \<le> m \<Longrightarrow> side_wf m is"
  by (auto simp: side_wf_def)

lemma side_wf_map:
  assumes "side_wf n is" "\<And>i. oi_id (f i) = oi_id i" "\<And>i. oi_document_ref (f i) = oi_document_ref i"
    "\<And>i. i \<in> set is \<Longrightarrow> item_ok i \<Longrightarrow> item_ok (f i)"
  shows "side_wf n (map f is)"
  using assms by (auto simp: side_wf_def comp_def)

lemma side_wf_update:
  assumes "side_wf n is" "\<And>i. oi_id (f i) = oi_id i" "\<And>i. oi_document_ref (f i) = oi_document_ref i"
    "\<And>i. i \<in> set is \<Longrightarrow> P i \<Longrightarrow> item_ok i \<Longrightarrow> item_ok (f i)"
  shows "side_wf n (update_where P f is)"
  unfolding update_where_def using assms by (intro side_wf_map) auto

lemma items_wf_set_items:
  "items_wf s \<Longrightarrow> side_wf (next_id s) is \<Longrightarrow> items_wf (set_items d is s)"
  by (cases d) (simp_all add: items_wf_def set_items_def)

text \<open>The supply of identifiers only grows.\<close>

lemma id_supply: "subledger (\<lambda>s. n \<le> next_id s)"
  by standard (auto simp: drop_refs_def)

interpretation items: subledger items_wf
proof
  show "items_wf t" if "items_wf s" "documents_of t = documents_of s" "next_id s \<le> next_id t" for s t
    using that side_wf_mono by (auto simp: items_wf_def documents_of_def)
  show "items_wf (drop_refs i s)" if "items_wf s" for i s
    using that by (auto simp: items_wf_def drop_refs_def item_ok_def intro!: side_wf_map)
qed

lemma item_by_ref_in:
  "item_by_ref d s r = Some i \<Longrightarrow> i \<in> set (items_of d s) \<and> oi_document_ref i = r"
  by (auto simp: item_by_ref_def dest: row_by_Some_in)

lemma item_by_id_in: "item_by_id d s r = Some i \<Longrightarrow> i \<in> set (items_of d s) \<and> oi_id i = r"
  by (auto simp: item_by_id_def dest: row_by_Some_in)

lemma items_wf_ok: "items_wf s \<Longrightarrow> i \<in> set (items_of d s) \<Longrightarrow> item_ok i"
  by (auto simp: items_wf_alt side_wf_def)

end
