(* ===== verification/Payments.thy ===== *)
theory Payments
  imports Subledgers
begin

text \<open>
  Settlement of open items (\<open>repository/payments.go\<close>, \<open>ledger/payments.go\<close>) and the period-end
  revaluation (\<open>ledger/revaluation.go\<close>): a payment, its posted entry with the realized exchange
  difference, the open item, the audit row and the outbox row commit together or not at all.
\<close>

section \<open>Statements\<close>

text \<open>
  The row lock and the over-application check: the new paid amount and status of an open item.
\<close>

definition settle :: "rat \<Rightarrow> open_item \<Rightarrow> (rat \<times> item_status) option" where
  "settle amount i =
     (let newPaid = oi_paid i + amount
      in if newPaid > oi_amount i then None
         else Some (newPaid, if newPaid \<ge> oi_amount i then Closed else Partial))"

definition lock_and_settle :: "direction \<Rightarrow> id \<Rightarrow> rat \<Rightarrow> (rat \<times> item_status) action" where
  "lock_and_settle d i amount =
     bind (gets (\<lambda>s. item_by_id d s i)) (\<lambda>row.
     case row of
       None \<Rightarrow> fail ErrOpenItemNotFound
     | Some item \<Rightarrow> (case settle amount item of None \<Rightarrow> fail ErrPaymentExceeds | Some x \<Rightarrow> ok x))"

text \<open>\<open>UPDATE \<dots> SET amount_paid = $2, status = $3\<close>, \<open>CHECK (amount_paid >= 0)\<close>.\<close>

definition write_paid :: "env \<Rightarrow> direction \<Rightarrow> id \<Rightarrow> rat \<times> item_status \<Rightarrow> unit action" where
  "write_paid env d i = (\<lambda>(newPaid, st) s.
     if env_round env newPaid 2 < 0 \<and> item_by_id d s i \<noteq> None
     then (Inl (CheckViolation ''open_items_amount_paid_check''), s)
     else (Inr (), set_items d (update_where (\<lambda>x. oi_id x = i)
            (\<lambda>x. x\<lparr>oi_paid := env_round env newPaid 2, oi_status := st\<rparr>) (items_of d s)) s))"

definition insert_payment :: "env \<Rightarrow> payment \<Rightarrow> payment action" where
  "insert_payment env row = (\<lambda>s.
     let p = row\<lparr>p_id := next_id s, p_amount := env_round env (p_amount row) 2\<rparr>
     in if \<not> p_amount p > 0 then (Inl (CheckViolation ''finance_payments_amount_check''), s)
        else if (p_item p, p_ref p) \<in> (\<lambda>q. (p_item q, p_ref q)) ` set (payments s)
        then (Inl (UniqueViolation ''uq_finance_payments_item_ref''), s)
        else if p_entry p \<noteq> None \<and> p_entry p \<notin> Some ` e_id ` set (entries s)
        then (Inl (ForeignKeyViolation ''finance_payments_journal_entry_id_fkey''), s)
        else (Inr p, s\<lparr>payments := payments s @ [p], next_id := Suc (next_id s)\<rparr>))"

definition direction_name :: "direction \<Rightarrow> string" where
  "direction_name d = (case d of AR \<Rightarrow> ''ar'' | AP \<Rightarrow> ''ap'')"

section \<open>Repository\<close>

record payment_params =
  pp_event :: string
  pp_type :: string
  pp_source :: string
  pp_correlation :: string
  pp_desc :: string
  pp_direction :: direction
  pp_item :: id
  pp_amount :: rat
  pp_currency :: string
  pp_ref :: string
  pp_fx_rate :: rat
  pp_lines :: "resolved_line list"
  pp_outbox :: "outbox_event option"

definition payment_row :: "payment_params \<Rightarrow> id \<Rightarrow> payment" where
  "payment_row p entryID =
     \<lparr>p_id = 0, p_direction = pp_direction p, p_item = pp_item p, p_amount = pp_amount p,
      p_currency = pp_currency p, p_ref = pp_ref p, p_entry = Some entryID\<rparr>"

definition ApplyPayment ::
  "env \<Rightarrow> direction \<Rightarrow> id \<Rightarrow> rat \<Rightarrow> string \<Rightarrow> string \<Rightarrow> id \<Rightarrow> payment action" where
  "ApplyPayment env d i amount currency ref entryID = tx
     (bind (lock_and_settle d i amount) (\<lambda>x.
      bind (write_paid env d i x) (\<lambda>_.
      insert_payment env
        \<lparr>p_id = 0, p_direction = d, p_item = i, p_amount = amount, p_currency = currency,
         p_ref = ref, p_entry = Some entryID\<rparr>)))"

definition getPaymentByJournalEntryID :: "id \<Rightarrow> payment action" where
  "getPaymentByJournalEntryID entryID = bind (gets (\<lambda>s. row_by p_entry (Some entryID) (payments s)))
     (\<lambda>p. case p of None \<Rightarrow> fail (ErrText ''payment for journal not found'') | Some x \<Rightarrow> ok x)"

definition paymentBySourceEvent :: "string \<Rightarrow> payment action" where
  "paymentBySourceEvent ev = bind (GetJournalEntryBySourceEvent ev) (\<lambda>j.
     case j of None \<Rightarrow> fail (ErrText ''processed event missing journal entry'')
     | Some x \<Rightarrow> getPaymentByJournalEntryID (e_id (j_entry x)))"

definition payment_journal :: "payment_params \<Rightarrow> string \<Rightarrow> journal_params" where
  "payment_journal p number =
     default_params\<lparr>jp_number := number, jp_desc := pp_desc p,
       jp_source_event := optional_string (pp_event p), jp_source_service := Some (pp_source p),
       jp_correlation := optional_string (pp_correlation p), jp_currency := pp_currency p,
       jp_fx_rate := pp_fx_rate p, jp_lines := pp_lines p\<rparr>"

definition payment_tx :: "env \<Rightarrow> payment_params \<Rightarrow> audit_info option \<Rightarrow> payment action" where
  "payment_tx env p audit_i = tx
     (bind (gets (\<lambda>s. event_processed s (pp_event p))) (\<lambda>dup.
      if dup then fail RaceLost
      else bind (lock_and_settle (pp_direction p) (pp_item p) (pp_amount p)) (\<lambda>x.
      bind nextEntryNumberTx (\<lambda>entryNumber.
      bind (insertPostedEntryTx env (payment_journal p entryNumber) (env_now env)) (\<lambda>entryID.
      bind (markProcessedTx (pp_event p) (pp_type p)) (\<lambda>_.
      bind (write_paid env (pp_direction p) (pp_item p) x) (\<lambda>_.
      bind (insert_payment env (payment_row p entryID)) (\<lambda>pay.
      bind (appendAudit env audit_i) (\<lambda>_.
      bind (enqueue_opt (pp_outbox p)) (\<lambda>_. ok pay))))))))))"

definition ApplyPaymentWithJournal :: "env \<Rightarrow> payment_params \<Rightarrow> audit_info option \<Rightarrow> payment action" where
  "ApplyPaymentWithJournal env p audit_i =
     bind (IsEventProcessed (pp_event p)) (\<lambda>done.
     if done then paymentBySourceEvent (pp_event p)
     else catch (payment_tx env p audit_i)
       (\<lambda>e. if e = RaceLost then paymentBySourceEvent (pp_event p) else fail e))"

definition ListPaymentsForItem :: "id \<Rightarrow> payment list action" where
  "ListPaymentsForItem i = gets (\<lambda>s. filter (\<lambda>p. p_item p = i) (rev (payments s)))"

section \<open>Service\<close>

definition settle_line ::
  "id \<Rightarrow> rat \<Rightarrow> rat \<Rightarrow> string \<Rightarrow> rat option \<Rightarrow> rat option \<Rightarrow> string \<Rightarrow> int \<Rightarrow> resolved_line" where
  "settle_line acct debit credit currency debitBase creditBase memo ord =
     (mk_line acct debit credit memo ord)\<lparr>rl_currency := currency, rl_debit_base := debitBase,
        rl_credit_base := creditBase\<rparr>"

definition fx_line :: "env \<Rightarrow> rat \<Rightarrow> resolved_line list action" where
  "fx_line env residual =
     (if residual = 0 then ok []
      else if residual > 0 then
        bind (resolveAccount ''7200'') (\<lambda>gain.
          ok [settle_line (a_id gain) 0 residual (env_base env) None (Some residual) ''Realized FX gain'' 2])
      else bind (resolveAccount ''7210'') (\<lambda>loss.
          ok [settle_line (a_id loss) (abs residual) 0 (env_base env) (Some (abs residual)) None
                ''Realized FX loss'' 2]))"

definition settlementLines ::
  "env \<Rightarrow> direction \<Rightarrow> rat \<Rightarrow> string \<Rightarrow> rat \<Rightarrow> rat \<Rightarrow> resolved_line list action" where
  "settlementLines env d amount currency docRate payRate =
     (let cashBase = env_round env (amount * payRate) 2;
          clearBase = env_round env (amount * docRate) 2
      in bind (resolveAccount ''1000'') (\<lambda>cash.
         case d of
           AR \<Rightarrow> bind (resolveAccount ''1100'') (\<lambda>ar.
             bind (fx_line env (cashBase - clearBase)) (\<lambda>fx. ok
               ([settle_line (a_id cash) amount 0 currency (Some cashBase) None ''Cash receipt'' 0,
                 settle_line (a_id ar) 0 amount currency None (Some clearBase) ''AR clearance'' 1] @ fx)))
         | AP \<Rightarrow> bind (resolveAccount ''2000'') (\<lambda>ap.
             bind (fx_line env (clearBase - cashBase)) (\<lambda>fx. ok
               ([settle_line (a_id ap) amount 0 currency (Some clearBase) None ''AP clearance'' 0,
                 settle_line (a_id cash) 0 amount currency None (Some cashBase) ''Cash disbursement'' 1]
                @ fx)))))"

definition settlementRates :: "env \<Rightarrow> direction \<Rightarrow> id \<Rightarrow> string \<Rightarrow> (rat \<times> rat) action" where
  "settlementRates env d i currency =
     bind (OpenItemFXRate d i) (\<lambda>docRate.
     bind (catch (GetRate env currency (date_of (env_now env))) (\<lambda>_. ok docRate)) (\<lambda>payRate.
     ok (docRate, payRate)))"

text \<open>\<open>outbox.Payload["documentRef"] = item.DocumentRef\<close> on a map.\<close>

definition with_document_ref :: "string \<Rightarrow> outbox_event \<Rightarrow> outbox_event" where
  "with_document_ref ref ob =
     ob\<lparr>oe_payload := (''documentRef'', JString ref) # filter (\<lambda>(k, _). k \<noteq> ''documentRef'') (oe_payload ob)\<rparr>"

definition payment_event_id :: "direction \<Rightarrow> id \<Rightarrow> string \<Rightarrow> string" where
  "payment_event_id d i ref = ''payment.'' @ direction_name d @ '':'' @ show_nat i @ '':'' @ ref"

definition apply_payment ::
  "direction \<Rightarrow> env \<Rightarrow> id \<Rightarrow> rat \<Rightarrow> string \<Rightarrow> string \<Rightarrow> string \<Rightarrow> outbox_event option \<Rightarrow>
   (payment \<times> open_item option) action" where
  "apply_payment d env i amount currency0 ref actor ob =
     bind (gets (\<lambda>s. item_by_id d s i)) (\<lambda>row.
     case row of
       None \<Rightarrow> fail ErrOpenItemNotFound
     | Some item \<Rightarrow>
         if currency0 \<noteq> '''' \<and> currency0 \<noteq> oi_currency item then fail ErrCurrencyMismatch
         else let currency = oi_currency item in
           bind (settlementRates env d i currency) (\<lambda>(docRate, payRate).
           bind (settlementLines env d amount currency docRate payRate) (\<lambda>ls.
           bind (ApplyPaymentWithJournal env
             \<lparr>pp_event = payment_event_id d i ref,
              pp_type = (case d of AR \<Rightarrow> ''payment.received'' | AP \<Rightarrow> ''payment.disbursed''),
              pp_source = ''iag.finance'', pp_correlation = ref,
              pp_desc = (case d of AR \<Rightarrow> ''AR'' | AP \<Rightarrow> ''AP'') @ '' payment '' @ em_dash @ '' '' @ oi_document_ref item,
              pp_direction = d, pp_item = i, pp_amount = amount, pp_currency = currency,
              pp_ref = ref, pp_fx_rate = docRate, pp_lines = ls,
              pp_outbox = map_option (with_document_ref (oi_document_ref item)) ob\<rparr>
             (Some \<lparr>ai_actor = actorOrSystem actor, ai_type = direction_name d @ ''.payment'',
                    ai_message = (case d of AR \<Rightarrow> ''AR'' | AP \<Rightarrow> ''AP'') @ '' payment '' @ ref @ '' on ''
                      @ oi_document_ref item @ '' for '' @ currency @ '' '' @ env_show env amount\<rparr>)) (\<lambda>pay.
           bind (gets (\<lambda>s. item_by_id d s i)) (\<lambda>updated. ok (pay, updated))))))"

definition ApplyARPayment ::
  "env \<Rightarrow> id \<Rightarrow> rat \<Rightarrow> string \<Rightarrow> string \<Rightarrow> string \<Rightarrow> outbox_event option \<Rightarrow>
   (payment \<times> open_item option) action" where
  "ApplyARPayment = apply_payment AR"

definition ApplyAPPayment ::
  "env \<Rightarrow> id \<Rightarrow> rat \<Rightarrow> string \<Rightarrow> string \<Rightarrow> string \<Rightarrow> outbox_event option \<Rightarrow>
   (payment \<times> open_item option) action" where
  "ApplyAPPayment = apply_payment AP"

definition ParsePaymentAmount :: "env \<Rightarrow> string \<Rightarrow> err + rat" where
  "ParsePaymentAmount env raw =
     (case env_parse env raw of
        None \<Rightarrow> Inl (ErrText ''not a decimal'')
      | Some x \<Rightarrow> (let d = env_round env x 2
                  in if d \<le> 0 then Inl (ErrText ''amount must be positive'') else Inr d))"

text \<open>The \<open>float64\<close> conversion of the result is not modelled.\<close>

definition ParseBalance :: "env \<Rightarrow> string \<Rightarrow> string \<Rightarrow> err + rat" where
  "ParseBalance env amount paid =
     (case ParsePaymentAmount env amount of
        Inl e \<Rightarrow> Inl e
      | Inr a \<Rightarrow> Inr (a - (case ParsePaymentAmount env paid of Inl _ \<Rightarrow> 0 | Inr p \<Rightarrow> p)))"

section \<open>Period-end revaluation\<close>

record revaluation_result =
  rv_period :: string
  rv_net :: rat
  rv_items :: nat
  rv_posted :: bool

definition reval_delta :: "env \<Rightarrow> rat \<Rightarrow> foreign_balance \<Rightarrow> rat" where
  "reval_delta env rate b =
     (let delta = env_round env (fb_remaining b * (rate - fb_doc_rate b)) 2
      in case fb_direction b of AR \<Rightarrow> delta | AP \<Rightarrow> - delta)"

text \<open>
  The loop over the balances: a currency with no rate at period end is skipped. The rate cache of
  the source only avoids asking for the same rate twice.
\<close>

fun reval_loop :: "env \<Rightarrow> (string \<Rightarrow> rat option) \<Rightarrow> foreign_balance list \<Rightarrow> rat \<Rightarrow> nat \<Rightarrow> rat \<times> nat" where
  "reval_loop env rate [] net counted = (net, counted)"
| "reval_loop env rate (b # bs) net counted =
     (case rate (fb_currency b) of
        None \<Rightarrow> reval_loop env rate bs net counted
      | Some r \<Rightarrow> reval_loop env rate bs (net + reval_delta env r b) (Suc counted))"

definition rate_at :: "env \<Rightarrow> db \<Rightarrow> date \<Rightarrow> string \<Rightarrow> rat option" where
  "rate_at env s d c = (case fst (GetRate env c d s) of Inl _ \<Rightarrow> None | Inr r \<Rightarrow> Some r)"

definition reval_lines :: "env \<Rightarrow> id \<Rightarrow> id \<Rightarrow> rat \<Rightarrow> resolved_line list" where
  "reval_lines env reval unreal net =
     (let amt = abs net; base = env_base env in
      if net > 0 then
        [settle_line reval amt 0 base None None ''FX revaluation'' 0,
         settle_line unreal 0 amt base None None ''Unrealized FX gain'' 1]
      else
        [settle_line unreal amt 0 base None None ''Unrealized FX loss'' 0,
         settle_line reval 0 amt base None None ''FX revaluation'' 1])"

definition mirror_line :: "env \<Rightarrow> resolved_line \<Rightarrow> resolved_line" where
  "mirror_line env l =
     settle_line (rl_account l) (rl_credit l) (rl_debit l) (env_base env) None None
       (''Reversal: '' @ rl_memo l) (rl_order l)"

definition reval_booking ::
  "env \<Rightarrow> string \<Rightarrow> string \<Rightarrow> string \<Rightarrow> date \<Rightarrow> resolved_line list \<Rightarrow> string \<Rightarrow>
   (journal option \<times> unit option) action" where
  "reval_booking env what ev period d ls actor =
     BookPostedEntry env
       (default_params\<lparr>jp_desc := what @ period, jp_source_service := Some ''iag.finance'',
          jp_acc_date := Some d, jp_currency := env_base env, jp_lines := ls\<rparr>)
       (ev @ period) ''finance.fx.revalued'' (time_of_date d) None
       (Some \<lparr>ai_actor = actorOrSystem actor, ai_type = ''fx.revalued'', ai_message = what @ period\<rparr>)"

definition RevalueFX :: "env \<Rightarrow> string \<Rightarrow> string \<Rightarrow> revaluation_result action" where
  "RevalueFX env period actor =
     (case parse_period period of
        None \<Rightarrow> fail (ErrText ''period must be YYYY-MM'')
      | Some (y, m) \<Rightarrow>
        let periodEnd = month_end y m; nextStart = next_month_start y m in
        bind (OpenForeignBalances env) (\<lambda>balances.
        bind (gets (\<lambda>s. rate_at env s periodEnd)) (\<lambda>rate.
        let (netReval, counted) = reval_loop env rate balances 0 0;
            res = \<lparr>rv_period = period, rv_net = netReval, rv_items = counted, rv_posted = False\<rparr>
        in if netReval = 0 then ok res
           else bind (resolveAccount ''2900'') (\<lambda>reval.
             bind (resolveAccount ''7220'') (\<lambda>unreal.
             let fwd = reval_lines env (a_id reval) (a_id unreal) netReval;
                 rev = map (mirror_line env) fwd
             in bind (reval_booking env ''FX revaluation '' ''fx.revalue:'' period periodEnd fwd actor) (\<lambda>_.
                bind (reval_booking env ''FX revaluation reversal '' ''fx.revalue.reversal:'' period nextStart rev actor)
                  (\<lambda>_. ok (res\<lparr>rv_posted := True\<rparr>))))))))"

section \<open>The effect of a payment\<close>

lemma settle_Some:
  "settle a it = Some x \<longleftrightarrow>
     oi_paid it + a \<le> oi_amount it \<and>
     x = (oi_paid it + a, if oi_paid it + a = oi_amount it then Closed else Partial)"
proof (cases "oi_paid it + a \<le> oi_amount it")
  case True
  then have "oi_amount it \<le> oi_paid it + a \<longleftrightarrow> oi_paid it + a = oi_amount it" by linarith
  moreover from True have "\<not> oi_amount it < oi_paid it + a" by simp
  ultimately show ?thesis
    using True unfolding settle_def Let_def
    by (simp only: if_False simp_thms option.inject) (rule eq_commute)
next
  case False
  then show ?thesis by (simp add: settle_def Let_def)
qed

lemma lock_and_settle_Inr:
  "lock_and_settle d i a s = (Inr x, t) \<longleftrightarrow>
     t = s \<and> (\<exists>it. item_by_id d s i = Some it \<and> oi_paid it + a \<le> oi_amount it \<and>
       x = (oi_paid it + a, if oi_paid it + a = oi_amount it then Closed else Partial))"
proof -
  have "lock_and_settle d i a s = (Inr x, t) \<longleftrightarrow>
     t = s \<and> (\<exists>it. item_by_id d s i = Some it \<and> settle a it = Some x)"
    unfolding lock_and_settle_def by (cases "item_by_id d s i") (auto split: option.splits)
  then show ?thesis unfolding settle_Some .
qed

lemma write_paid_Inr:
  "write_paid env d i x s = (Inr u, t) \<longleftrightarrow>
     (item_by_id d s i \<noteq> None \<longrightarrow> 0 \<le> env_round env (fst x) 2) \<and>
     t = set_items d (update_where (\<lambda>x. oi_id x = i)
            (\<lambda>y. y\<lparr>oi_paid := env_round env (fst x) 2, oi_status := snd x\<rparr>) (items_of d s)) s"
  by (cases x) (auto simp: write_paid_def)

lemma insert_payment_Inr:
  "insert_payment env row s = (Inr p, t) \<longleftrightarrow>
     p = row\<lparr>p_id := next_id s, p_amount := env_round env (p_amount row) 2\<rparr> \<and> 0 < p_amount p \<and>
     (p_item p, p_ref p) \<notin> (\<lambda>q. (p_item q, p_ref q)) ` set (payments s) \<and>
     (p_entry p = None \<or> p_entry p \<in> Some ` e_id ` set (entries s)) \<and>
     t = s\<lparr>payments := payments s @ [p], next_id := Suc (next_id s)\<rparr>"
  by (auto simp: insert_payment_def Let_def)

definition paid_items :: "env \<Rightarrow> payment_params \<Rightarrow> open_item \<Rightarrow> open_item list \<Rightarrow> open_item list" where
  "paid_items env p it is = update_where (\<lambda>x. oi_id x = pp_item p)
     (\<lambda>y. y\<lparr>oi_paid := env_round env (oi_paid it + pp_amount p) 2,
            oi_status := (if oi_paid it + pp_amount p = oi_amount it then Closed else Partial)\<rparr>) is"


lemma set_items_frame [simp]:
  "entries (set_items d is s) = entries s" "jlines (set_items d is s) = jlines s"
  "processed (set_items d is s) = processed s" "accounts (set_items d is s) = accounts s"
  "entry_seq (set_items d is s) = entry_seq s" "payments (set_items d is s) = payments s"
  "audit (set_items d is s) = audit s" "outbox (set_items d is s) = outbox s"
  "periods (set_items d is s) = periods s" "touched (set_items d is s) = touched s"
  by (cases d; simp add: set_items_def)+

lemma items_of_set_other: "d' \<noteq> d \<Longrightarrow> items_of d' (set_items d is s) = items_of d' s"
  by (cases d; cases d') (simp_all add: set_items_def)

lemma enqueue_opt_frame:
  assumes "enqueue_opt ob s = (r, t)"
  shows "r = Inr ()" "\<exists>q n. t = s\<lparr>outbox := q, next_id := n\<rparr> \<and> next_id s \<le> n"
proof -
  have "t = s \<or> (\<exists>q. t = s\<lparr>outbox := q, next_id := Suc (next_id s)\<rparr>)"
  proof (cases "t = s")
    case False
    then obtain e where "ob = Some e" "oe_event_id e \<notin> ob_event_id ` set (outbox s)"
      using assms by (auto simp: enqueue_opt_def enqueueOutboxTx_def split: option.splits if_splits)
    with assms show ?thesis by (simp add: enqueue_opt_def enqueueOutboxTx_def) blast
  qed simp
  moreover have "s = s\<lparr>outbox := outbox s, next_id := next_id s\<rparr>" by simp
  ultimately show "\<exists>q n. t = s\<lparr>outbox := q, next_id := n\<rparr> \<and> next_id s \<le> n"
    by (metis order_refl le_SucI)
  show "r = Inr ()"
    using assms by (auto simp: enqueue_opt_def enqueueOutboxTx_def split: option.splits if_splits)
qed

lemma markProcessedTx_new:
  "markProcessedTx ev ty s = (Inr w, t) \<Longrightarrow> \<not> event_processed s ev \<Longrightarrow>
     t = s\<lparr>processed := processed s @ [(ev, ty)]\<rparr>"
  by (auto simp: markProcessedTx_def)

lemma payment_journal_fields [simp]:
  "jp_number (payment_journal p n) = n" "jp_lines (payment_journal p n) = pp_lines p"
  "jp_source_event (payment_journal p n) = optional_string (pp_event p)"
  by (simp_all add: payment_journal_def)

lemma payment_tx_steps:
  assumes "payment_tx env p a s = (Inr pay, t)"
  obtains it eid s1 s2 s3 s4 s5 s6 where
    "\<not> event_processed s (pp_event p)" "item_by_id (pp_direction p) s (pp_item p) = Some it"
    "oi_paid it + pp_amount p \<le> oi_amount it"
    "insertPostedEntryTx env (payment_journal p (entry_number (entry_seq s))) (env_now env)
       (s\<lparr>touched := [], entry_seq := Suc (entry_seq s)\<rparr>) = (Inr eid, s1)"
    "markProcessedTx (pp_event p) (pp_type p) s1 = (Inr True, s2) \<or>
     markProcessedTx (pp_event p) (pp_type p) s1 = (Inr False, s2)"
    "write_paid env (pp_direction p) (pp_item p)
       (oi_paid it + pp_amount p, if oi_paid it + pp_amount p = oi_amount it then Closed else Partial) s2
       = (Inr (), s3)"
    "insert_payment env (payment_row p eid) s3 = (Inr pay, s4)"
    "appendAudit env a s4 = (Inr (), s5)" "enqueue_opt (pp_outbox p) s5 = (Inr (), s6)"
    "t = s6\<lparr>touched := []\<rparr>"
proof -
  from assms obtain s6 where body:
    "bind (gets (\<lambda>s. event_processed s (pp_event p))) (\<lambda>dup.
      if dup then fail RaceLost
      else bind (lock_and_settle (pp_direction p) (pp_item p) (pp_amount p)) (\<lambda>x.
      bind nextEntryNumberTx (\<lambda>entryNumber.
      bind (insertPostedEntryTx env (payment_journal p entryNumber) (env_now env)) (\<lambda>entryID.
      bind (markProcessedTx (pp_event p) (pp_type p)) (\<lambda>_.
      bind (write_paid env (pp_direction p) (pp_item p) x) (\<lambda>_.
      bind (insert_payment env (payment_row p entryID)) (\<lambda>pay.
      bind (appendAudit env a) (\<lambda>_.
      bind (enqueue_opt (pp_outbox p)) (\<lambda>_. ok pay))))))))) (s\<lparr>touched := []\<rparr>) = (Inr pay, s6)"
    and t: "t = s6\<lparr>touched := []\<rparr>"
    unfolding payment_tx_def by (elim tx_InrD) blast
  have ev: "\<not> event_processed s (pp_event p)"
    using body by (auto simp: event_processed_def split: if_splits)
  have item: "item_by_id (pp_direction p) (s\<lparr>touched := []\<rparr>) i = item_by_id (pp_direction p) s i" for i
    by (cases "pp_direction p") (simp_all add: item_by_id_def)
  from body ev show ?thesis
    by (auto simp: event_processed_def bind_Inr_iff lock_and_settle_Inr nextEntryNumberTx_def item
        intro!: that [OF ev _ _ _ _ _ _ _ _ t])
qed

lemma payment_tx_Inr:
  assumes "payment_tx env p a s = (Inr pay, t)"
  shows "\<exists>it ks i. item_by_id (pp_direction p) s (pp_item p) = Some it \<and>
     oi_paid it + pp_amount p \<le> oi_amount it \<and> \<not> event_processed s (pp_event p) \<and>
     entries t = entries s @ [posted_row env (payment_journal p '''') (env_now env) (entry_number (entry_seq s)) i] \<and>
     i = next_id s \<and> jlines t = jlines s @ ks \<and> accounts t = accounts s \<and>
     (pp_event p \<noteq> '''' \<longrightarrow> Some (pp_event p) \<notin> e_source_event ` set (entries s)) \<and>
     map line_key ks = map (\<lambda>l. line_key (store_line env (line_row env (payment_journal p '''') i l))) (pp_lines p) \<and>
     processed t = processed s @ [(pp_event p, pp_type p)] \<and>
     items_of (pp_direction p) t = paid_items env p it (items_of (pp_direction p) s) \<and>
     (\<forall>d. d \<noteq> pp_direction p \<longrightarrow> items_of d t = items_of d s) \<and>
     0 \<le> env_round env (oi_paid it + pp_amount p) 2 \<and>
     payments t = payments s @ [pay] \<and>
     pay = (payment_row p i)\<lparr>p_id := p_id pay, p_amount := env_round env (pp_amount p) 2\<rparr> \<and>
     0 < p_amount pay \<and> next_id s < next_id t \<and> periods t = periods s"
  using assms
proof (rule payment_tx_steps)
  fix it :: open_item and eid s1 s2 s3 s4 s5 s6
  let ?d = "pp_direction p"
  let ?n = "entry_number (entry_seq s)"
  let ?s0 = "s\<lparr>touched := [], entry_seq := Suc (entry_seq s)\<rparr>"
  let ?x = "(oi_paid it + pp_amount p, if oi_paid it + pp_amount p = oi_amount it then Closed else Partial)"
  assume ev: "\<not> event_processed s (pp_event p)" and it: "item_by_id ?d s (pp_item p) = Some it"
    and le: "oi_paid it + pp_amount p \<le> oi_amount it"
    and ins: "insertPostedEntryTx env (payment_journal p ?n) (env_now env) ?s0 = (Inr eid, s1)"
    and mark: "markProcessedTx (pp_event p) (pp_type p) s1 = (Inr True, s2) \<or>
      markProcessedTx (pp_event p) (pp_type p) s1 = (Inr False, s2)"
    and wr: "write_paid env ?d (pp_item p) ?x s2 = (Inr (), s3)"
    and pays: "insert_payment env (payment_row p eid) s3 = (Inr pay, s4)"
    and au: "appendAudit env a s4 = (Inr (), s5)" and ob: "enqueue_opt (pp_outbox p) s5 = (Inr (), s6)"
    and t: "t = s6\<lparr>touched := []\<rparr>"
  from insertPostedEntryTx_Inr [OF ins] obtain ks n1 tc where
    s1: "s1 = ?s0\<lparr>entries := entries s @ [posted_row env (payment_journal p ?n) (env_now env) ?n eid],
        jlines := jlines s @ ks, next_id := n1, touched := tc\<rparr>" and eid: "eid = next_id s"
    and ks: "map line_key ks = map (\<lambda>l. line_key (store_line env (line_row env (payment_journal p ?n) eid l))) (pp_lines p)"
    and src0: "optional_string (pp_event p) = None \<or>
      optional_string (pp_event p) \<notin> e_source_event ` set (entries s)"
    by auto
  then have src: "pp_event p \<noteq> '''' \<longrightarrow> Some (pp_event p) \<notin> e_source_event ` set (entries s)"
    by (auto simp: optional_string_def)
  have n1: "next_id s \<le> n1"
    using keeps_run [OF subledger.sub_insertPostedEntryTx [OF id_supply] _ ins, of "next_id s"] by (simp add: s1)
  have s2: "s2 = s1\<lparr>processed := processed s @ [(pp_event p, pp_type p)]\<rparr>"
    using mark markProcessedTx_new [of "pp_event p" "pp_type p" s1] ev s1 by (auto simp: event_processed_def)
  have s3: "s3 = set_items ?d (paid_items env p it (items_of ?d s2)) s2"
    and nn: "item_by_id ?d s2 (pp_item p) \<noteq> None \<longrightarrow> 0 \<le> env_round env (oi_paid it + pp_amount p) 2"
    using wr by (auto simp: write_paid_Inr paid_items_def)
  have items2: "items_of d s2 = items_of d s" for d
    by (cases d) (simp_all add: s2 s1)
  have it2: "item_by_id ?d s2 (pp_item p) = Some it" using it items2 by (simp add: item_by_id_def)
  note row = iffD1 [OF insert_payment_Inr pays]
  have pay: "pay = (payment_row p eid)\<lparr>p_id := next_id s3, p_amount := env_round env (pp_amount p) 2\<rparr>"
    using conjunct1 [OF row] by (simp add: payment_row_def)
  have pay_pos: "0 < p_amount pay" and s4: "s4 = s3\<lparr>payments := payments s3 @ [pay], next_id := Suc (next_id s3)\<rparr>"
    using row by blast+
  from appendAudit_frame(2) [OF au] obtain l n5 where s5: "s5 = s4\<lparr>audit := l, next_id := n5\<rparr>" by blast
  have n5: "next_id s4 \<le> n5"
    using keeps_run [OF subledger.sub_appendAudit [OF id_supply] _ au, of "next_id s4"] by (simp add: s5)
  from enqueue_opt_frame(2) [OF ob] obtain q n6 where
    s6: "s6 = s5\<lparr>outbox := q, next_id := n6\<rparr>" "next_id s5 \<le> n6" by blast
  have items6: "items_of d t = items_of d s3" for d
    by (cases d) (simp_all add: t s6 s5 s4)
  have "items_of ?d t = paid_items env p it (items_of ?d s)"
    "\<forall>d. d \<noteq> ?d \<longrightarrow> items_of d t = items_of d s"
    using items6 items2 s3 by (simp_all add: items_of_set_other)
  moreover have "entries t = entries s1" "jlines t = jlines s1" "accounts t = accounts s1"
    "processed t = processed s2" "payments t = payments s1 @ [pay]" "periods t = periods s1"
    by (simp_all add: t s6 s5 s4 s3 s2)
  moreover have "next_id s < next_id t"
    using n1 n5 s6(2) by (simp add: t s6 s5 s4 s3 s2 s1)
  moreover have "posted_row env (payment_journal p ?n) = posted_row env (payment_journal p '''')"
    "line_row env (payment_journal p ?n) = line_row env (payment_journal p '''')"
    by (simp_all add: fun_eq_iff posted_row_def payment_journal_def line_row_def rate_of_def lineCurrency_def)
  moreover have "pay = (payment_row p (next_id s))\<lparr>p_id := p_id pay, p_amount := env_round env (pp_amount p) 2\<rparr>"
    using pay eid by simp
  ultimately show ?thesis
    using it le ev eid ks nn it2 pay_pos src
    by (intro exI [of _ it] exI [of _ ks] exI [of _ eid]) (simp add: s1 s2)
qed

text \<open>A payment that fails leaves every table as it was.\<close>

lemma payment_tx_Inl:
  assumes "payment_tx env p a s = (Inl e, t)"
  shows "t = s\<lparr>entry_seq := entry_seq t\<rparr>"
  using assms unfolding payment_tx_def by (elim tx_InlD) (simp add: rollback_def)

text \<open>No statement reports a lost race: only the check of the source event does.\<close>

lemma raises_statements [raises_intros]:
  "raises (\<lambda>e. e \<noteq> RaceLost) (insert_entry e)" "raises (\<lambda>e. e \<noteq> RaceLost) (insert_line env l)"
  "raises (\<lambda>e. e \<noteq> RaceLost) nextEntryNumberTx" "raises (\<lambda>e. e \<noteq> RaceLost) (markProcessedTx ev ty)"
  "raises (\<lambda>e. e \<noteq> RaceLost) (appendAudit env a)" "raises (\<lambda>e. e \<noteq> RaceLost) (enqueue_opt ob)"
  "raises (\<lambda>e. e \<noteq> RaceLost) (lock_and_settle d i x)" "raises (\<lambda>e. e \<noteq> RaceLost) (write_paid env d i y)"
  "raises (\<lambda>e. e \<noteq> RaceLost) (insert_payment env row)"
  by (auto simp: raises_def insert_entry_def insert_line_def nextEntryNumberTx_def markProcessedTx_def
      lock_and_settle_def write_paid_def insert_payment_def Let_def
      dest: appendAudit_frame(1) enqueue_opt_frame(1) split: if_splits option.splits prod.splits)

lemma payment_tx_not_race:
  assumes "\<not> event_processed s (pp_event p)"
  shows "payment_tx env p a s \<noteq> (Inl RaceLost, t)"
proof
  assume lost: "payment_tx env p a s = (Inl RaceLost, t)"
  define body where "body =
    bind (lock_and_settle (pp_direction p) (pp_item p) (pp_amount p)) (\<lambda>x.
      bind nextEntryNumberTx (\<lambda>entryNumber.
      bind (insertPostedEntryTx env (payment_journal p entryNumber) (env_now env)) (\<lambda>entryID.
      bind (markProcessedTx (pp_event p) (pp_type p)) (\<lambda>_.
      bind (write_paid env (pp_direction p) (pp_item p) x) (\<lambda>_.
      bind (insert_payment env (payment_row p entryID)) (\<lambda>pay.
      bind (appendAudit env a) (\<lambda>_.
      bind (enqueue_opt (pp_outbox p)) (\<lambda>_. ok pay))))))))"
  have "raises (\<lambda>e. e \<noteq> RaceLost) body"
    unfolding body_def insertPostedEntryTx_def by (intro raises_intros)
  moreover have "\<exists>u. body (s\<lparr>touched := []\<rparr>) = (Inl RaceLost, u)"
    using lost assms unfolding payment_tx_def body_def [symmetric]
    by (auto simp: tx_def event_processed_def split: prod.splits sum.splits if_splits)
  ultimately show False by (auto dest: raisesD)
qed

section \<open>Payments keep the subledger\<close>

text \<open>
  The subledger of payments: what was paid on an item is the sum of its payments.
\<close>

definition paid_total :: "direction \<Rightarrow> id \<Rightarrow> payment list \<Rightarrow> rat" where
  "paid_total d i ps = sum_list (map p_amount (filter (\<lambda>p. p_direction p = d \<and> p_item p = i) ps))"

definition payments_wf :: "db \<Rightarrow> bool" where
  "payments_wf s \<longleftrightarrow> (\<forall>p \<in> set (payments s).
     0 < p_amount p \<and> p_item p < next_id s \<and> (\<forall>e. p_entry p = Some e \<longrightarrow> e < next_id s))"

definition reconciled :: "db \<Rightarrow> bool" where
  "reconciled s \<longleftrightarrow> items_wf s \<and> payments_wf s \<and>
     (\<forall>d. \<forall>i \<in> set (items_of d s). oi_paid i = paid_total d (oi_id i) (payments s))"

lemma paid_total_map:
  "(\<And>p. p_direction (f p) = p_direction p \<and> p_item (f p) = p_item p \<and> p_amount (f p) = p_amount p) \<Longrightarrow>
     paid_total d i (map f ps) = paid_total d i ps"
  by (induction ps) (simp_all add: paid_total_def)

lemma paid_total_append: "paid_total d i (ps @ qs) = paid_total d i ps + paid_total d i qs"
  by (simp add: paid_total_def)

lemma paid_total_none: "\<forall>p \<in> set ps. p_item p \<noteq> i \<Longrightarrow> paid_total d i ps = 0"
  by (induction ps) (auto simp: paid_total_def)

interpretation pay: subledger reconciled
proof
  show "reconciled t" if "reconciled s" "documents_of t = documents_of s" "next_id s \<le> next_id t" for s t
  proof -
    have "items_of d t = items_of d s" for d
      using that(2) by (cases d) (simp_all add: documents_of_def)
    moreover have "payments t = payments s" using that(2) by (simp add: documents_of_def)
    ultimately show ?thesis
      using that items.blind [of s t] by (fastforce simp: reconciled_def payments_wf_def)
  qed
  show "reconciled (drop_refs i s)" if "reconciled s" for i s
  proof -
    have "payments_wf (drop_refs i s)"
      using that by (auto simp: reconciled_def payments_wf_def drop_refs_def drop_ref_def)
    moreover have "oi_paid x = paid_total d (oi_id x) (payments (drop_refs i s))"
      if "x \<in> set (items_of d (drop_refs i s))" for d x
      using \<open>reconciled s\<close> that paid_total_map [of "\<lambda>x. x\<lparr>p_entry := drop_ref i (p_entry x)\<rparr>"]
      by (cases d) (auto simp: reconciled_def drop_refs_def items_of_def split: direction.splits)
    ultimately show ?thesis
      using that items.unlinked [of s i] by (simp add: reconciled_def)
  qed
qed

lemma reads_paymentBySourceEvent [reads_intros]: "reads (paymentBySourceEvent ev)"
  unfolding paymentBySourceEvent_def GetJournalEntryBySourceEvent_def getPaymentByJournalEntryID_def
  by (intro reads_intros)

text \<open>An invariant that both outcomes of the transaction keep is kept by the operation.\<close>

lemma keeps_ApplyPaymentWithJournal:
  assumes "keeps I (payment_tx env p a)"
  shows "keeps I (ApplyPaymentWithJournal env p a)"
  unfolding ApplyPaymentWithJournal_def IsEventProcessed_def
  by (intro keeps_intros assms reads_keeps reads_paymentBySourceEvent)

lemma payment_tx_keepsI:
  assumes "\<And>s n. I s \<Longrightarrow> I (s\<lparr>entry_seq := n\<rparr>)"
    and "\<And>s pay t. I s \<Longrightarrow> payment_tx env p a s = (Inr pay, t) \<Longrightarrow> I t"
  shows "keeps I (payment_tx env p a)"
proof (rule keepsI)
  fix s assume I: "I s"
  obtain r t where rt: "payment_tx env p a s = (r, t)" by (cases "payment_tx env p a s")
  show "I (snd (payment_tx env p a s))"
  proof (cases r)
    case (Inl e)
    from payment_tx_Inl [OF rt [unfolded Inl]] assms(1) [OF I] rt show ?thesis by (metis snd_conv)
  next
    case (Inr pay)
    from assms(2) [OF I rt [unfolded Inr]] rt show ?thesis by simp
  qed
qed

lemma items_wf_paid:
  assumes wf: "items_wf s" and rnd: "rounding_laws (env_round env)"
    and it: "item_by_id d s (pp_item p) = Some it" "oi_paid it + pp_amount p \<le> oi_amount it"
    "0 \<le> env_round env (oi_paid it + pp_amount p) 2"
    and t: "items_of d t = paid_items env p it (items_of d s)"
      "\<forall>d'. d' \<noteq> d \<longrightarrow> items_of d' t = items_of d' s" "next_id s \<le> next_id t"
  shows "items_wf t"
proof -
  have "side_wf (next_id s) (items_of d s)" using wf by (simp add: items_wf_alt)
  note it' = item_by_id_in [OF it(1)]
  have "i = it" if "i \<in> set (items_of d s)" "oi_id i = pp_item p" for i
    using that it' \<open>side_wf _ _\<close> by (auto simp: side_wf_def distinct_map inj_on_def)
  moreover have "env_round env (oi_paid it + pp_amount p) 2 \<le> oi_amount it"
    using round_mono [OF rnd it(2), of 2] round_exact [OF rnd, of 2 "oi_amount it"]
      items_wf_ok [OF wf, of it d] it' by (simp add: item_ok_def)
  ultimately have "side_wf (next_id s) (paid_items env p it (items_of d s))"
    unfolding paid_items_def using it(3) round_places [OF rnd]
    by (intro side_wf_update [OF \<open>side_wf _ _\<close>]) (auto simp: item_ok_def)
  then show ?thesis using wf t by (metis items_wf_alt side_wf_mono)
qed

lemma keeps_items_payment_tx [keeps_intros]:
  assumes "rounding_laws (env_round env)"
  shows "keeps items_wf (payment_tx env p a)"
proof (rule payment_tx_keepsI)
  show "items_wf (s\<lparr>entry_seq := n\<rparr>)" if "items_wf s" for s n
    using that by (simp add: items_wf_def)
  show "items_wf t" if "items_wf s" "payment_tx env p a s = (Inr pay, t)" for s pay t
    using payment_tx_Inr [OF that(2)] items_wf_paid [OF that(1) assms] by (blast intro: less_imp_le)
qed

lemma keeps_reconciled_payment_tx [keeps_intros]:
  assumes rnd: "rounding_laws (env_round env)"
  shows "keeps reconciled (payment_tx env p a)"
proof (rule payment_tx_keepsI)
  show "reconciled (s\<lparr>entry_seq := n\<rparr>)" if "reconciled s" for s n
    using that by (rule pay.blind) (simp_all add: documents_of_def)
  fix s pay t assume s: "reconciled s" and run: "payment_tx env p a s = (Inr pay, t)"
  let ?d = "pp_direction p"
  from payment_tx_Inr [OF run] obtain it where
    it: "item_by_id ?d s (pp_item p) = Some it" "oi_paid it + pp_amount p \<le> oi_amount it"
      "0 \<le> env_round env (oi_paid it + pp_amount p) 2"
    and t: "items_of ?d t = paid_items env p it (items_of ?d s)"
      "\<forall>d'. d' \<noteq> ?d \<longrightarrow> items_of d' t = items_of d' s" "next_id s < next_id t"
    and pays: "payments t = payments s @ [pay]" "0 < p_amount pay"
      "pay = (payment_row p (next_id s))\<lparr>p_id := p_id pay, p_amount := env_round env (pp_amount p) 2\<rparr>"
    and eid: "\<exists>e \<in> set (entries t). e_id e = next_id s"
    by (auto simp: posted_row_def)
  have wf: "items_wf s" "payments_wf s" using s by (simp_all add: reconciled_def)
  have side: "side_wf (next_id s) (items_of ?d s)" using wf by (simp add: items_wf_alt)
  have pay: "p_direction pay = ?d" "p_item pay = pp_item p" "p_amount pay = env_round env (pp_amount p) 2"
    "p_entry pay = Some (next_id s)"
    by (subst pays(3); simp add: payment_row_def)+
  have nonneg: "0 \<le> pp_amount p"
    using round_mono [OF rnd, of "pp_amount p" 0 2] round_0 [OF rnd, of 2] pays(2) pay(3) by fastforce
  note it' = item_by_id_in [OF it(1)]
  have same: "i = it" if "i \<in> set (items_of ?d s)" "oi_id i = pp_item p" for i
    using that it' side by (auto simp: side_wf_def distinct_map inj_on_def)
  have lt: "pp_item p < next_id s" using it' side by (auto simp: side_wf_def)
  have exact: "env_round env (oi_paid it + pp_amount p) 2 = oi_paid it + env_round env (pp_amount p) 2"
    using items_wf_ok [OF wf(1), of it ?d] it' nonneg by (intro round_shift [OF rnd]) (simp_all add: item_ok_def)
  have "oi_paid i = paid_total d (oi_id i) (payments t)" if i: "i \<in> set (items_of d t)" for d i
  proof (cases "d = ?d")
    case True
    with i t(1) obtain j where j: "j \<in> set (items_of ?d s)"
      "i = (if oi_id j = pp_item p then j\<lparr>oi_paid := env_round env (oi_paid it + pp_amount p) 2,
         oi_status := (if oi_paid it + pp_amount p = oi_amount it then Closed else Partial)\<rparr> else j)"
      by (auto simp: paid_items_def set_update_where)
    then show ?thesis
      using s True same [OF j(1)] exact pay
      by (auto simp: reconciled_def pays(1) paid_total_append) (auto simp: paid_total_def)
  next
    case False
    with i t(2) s pay show ?thesis
      by (auto simp: reconciled_def pays(1) paid_total_append) (auto simp: paid_total_def)
  qed
  moreover have "payments_wf t"
    using wf(2) pays pay lt t(3) by (auto simp: payments_wf_def)
  ultimately show "reconciled t"
    using items_wf_paid [OF wf(1) rnd it t(1,2) less_imp_le [OF t(3)]] by (simp add: reconciled_def)
qed

lemma set_items_view: "journal_view (set_items d is s) = journal_view s"
  by (cases d) (simp_all add: journal_view_def set_items_def)

lemma keeps_payment_statements [keeps_intros]:
  "keeps journal_tx_inv (lock_and_settle d i x)" "keeps journal_tx_inv (write_paid env d i y)"
  "keeps journal_tx_inv (insert_payment env row)"
proof -
  show "keeps journal_tx_inv (lock_and_settle d i x)"
    unfolding lock_and_settle_def by (intro keeps_intros)
  show "keeps journal_tx_inv (write_paid env d i y)"
    using journal_view_cong(1) [OF set_items_view]
    by (cases y) (simp add: keeps_def write_paid_def)
  show "keeps journal_tx_inv (insert_payment env row)"
    by (auto simp: keeps_def insert_payment_def Let_def journal_tx_inv_def entries_wf_def lines_wf_def
        balanced_def lines_of_def less_SucI)
qed

lemma keeps_journal_payment_tx [keeps_intros]: "keeps journal_inv (payment_tx env p a)"
  unfolding payment_tx_def by (intro keeps_intros)

lemma keeps_audit_statements [keeps_intros]:
  "keeps (audit_ok env) (insert_entry e)" "keeps (audit_ok env) (insert_line env' l)"
  "keeps (audit_ok env) nextEntryNumberTx" "keeps (audit_ok env) (markProcessedTx ev ty)"
  "keeps (audit_ok env) (update_entry i P f)" "keeps (audit_ok env) (delete_lines i)"
  "keeps (audit_ok env) (delete_entry i)" "keeps (audit_ok env) (upsert_period r)"
  "keeps (audit_ok env) (write_paid env' d i y)" "keeps (audit_ok env) (insert_payment env' row)"
  "keeps (audit_ok env) (lock_and_settle d i x)"
  by (auto simp: keeps_def audit_ok_def insert_entry_def insert_line_def nextEntryNumberTx_def
      markProcessedTx_def update_entry_def delete_lines_def delete_entry_def drop_refs_def
      upsert_period_def write_paid_def insert_payment_def lock_and_settle_def Let_def
      split: option.split prod.split)

lemma keeps_audit_payment_tx [keeps_intros]: "keeps (audit_ok env) (payment_tx env p a)"
  unfolding payment_tx_def insertPostedEntryTx_def by (intro keeps_intros)

text \<open>What the invariants of a service call come down to.\<close>

lemma reads_settlementLines [reads_intros]: "reads (settlementLines env d a c x y)"
  unfolding settlementLines_def fx_line_def Let_def
  by (cases d) (simp_all only: direction.case, (intro reads_intros)+)

lemma reads_settlementRates [reads_intros]: "reads (settlementRates env d i c)"
  unfolding settlementRates_def OpenItemFXRate_def
  by (auto simp: reads_def bind_apply catch_apply GetRate_def split: option.split)

lemma keeps_apply_payment:
  assumes "\<And>p a. pp_amount p = amount \<Longrightarrow> keeps I (payment_tx env p a)"
  shows "keeps I (apply_payment d env i amount c ref actor ob)"
  unfolding apply_payment_def Let_def
  by (intro keeps_intros keeps_ApplyPaymentWithJournal assms reads_keeps reads_settlementLines
      reads_settlementRates) simp

lemma keeps_ApplyARPayment [keeps_intros]:
  "keeps journal_inv (ApplyARPayment env i amount c ref actor ob)"
  "keeps (audit_ok env) (ApplyARPayment env i amount c ref actor ob)"
  unfolding ApplyARPayment_def by (intro keeps_apply_payment keeps_intros)+

lemma keeps_ApplyAPPayment [keeps_intros]:
  "keeps journal_inv (ApplyAPPayment env i amount c ref actor ob)"
  "keeps (audit_ok env) (ApplyAPPayment env i amount c ref actor ob)"
  unfolding ApplyAPPayment_def by (intro keeps_apply_payment keeps_intros)+

lemma keeps_reconciled_payments [keeps_intros]:
  assumes "rounding_laws (env_round env)"
  shows "keeps reconciled (ApplyARPayment env i amount c ref actor ob)"
    "keeps reconciled (ApplyAPPayment env i amount c ref actor ob)"
  unfolding ApplyARPayment_def ApplyAPPayment_def
  by (intro keeps_apply_payment keeps_reconciled_payment_tx assms)+

lemma keeps_items_payments [keeps_intros]:
  assumes "rounding_laws (env_round env)"
  shows "keeps items_wf (ApplyARPayment env i amount c ref actor ob)"
    "keeps items_wf (ApplyAPPayment env i amount c ref actor ob)"
  unfolding ApplyARPayment_def ApplyAPPayment_def
  by (intro keeps_apply_payment keeps_items_payment_tx assms)+

section \<open>A payment is booked once\<close>

definition payment_booked :: "db \<Rightarrow> string \<Rightarrow> payment option" where
  "payment_booked s ev =
     (if event_processed s ev
      then (case fst (paymentBySourceEvent ev s) of Inl _ \<Rightarrow> None | Inr p \<Rightarrow> Some p) else None)"

definition pay_event :: "env \<times> payment_params \<times> audit_info option \<Rightarrow> string \<Rightarrow> payment action" where
  "pay_event = (\<lambda>(env, p, a) ev. ApplyPaymentWithJournal env (p\<lparr>pp_event := ev\<rparr>) a)"

lemma paymentBySourceEvent_apply:
  "paymentBySourceEvent ev s =
     ((case entry_by_source s ev of None \<Rightarrow> Inl (ErrText ''processed event missing journal entry'')
       | Some e \<Rightarrow> (case row_by p_entry (Some (e_id e)) (payments s) of
           None \<Rightarrow> Inl (ErrText ''payment for journal not found'') | Some p \<Rightarrow> Inr p)), s)"
  by (simp add: paymentBySourceEvent_def GetJournalEntryBySourceEvent_def getPaymentByJournalEntryID_def
      bind_apply split: option.split)

lemma pay_event_apply:
  "ApplyPaymentWithJournal env p a s =
     (if event_processed s (pp_event p) then paymentBySourceEvent (pp_event p) s
      else payment_tx env p a s)"
  using payment_tx_not_race [of s p env a]
  by (auto simp: ApplyPaymentWithJournal_def IsEventProcessed_def catch_apply
      split: prod.split sum.split)

definition payments_linked :: "db \<Rightarrow> bool" where
  "payments_linked s \<longleftrightarrow> (\<forall>p \<in> set (payments s). \<forall>e. p_entry p = Some e \<longrightarrow> e < next_id s)"

lemma payment_booked_stable:
  assumes run: "payment_tx env p a s = (Inr pay, t)" and booked: "payment_booked s ev = Some q"
  shows "payment_booked t ev = Some q"
proof -
  from payment_tx_Inr [OF run] obtain e where
    t: "entries t = entries s @ [e]" "payments t = payments s @ [pay]"
      "processed t = processed s @ [(pp_event p, pp_type p)]" by blast
  from booked show ?thesis
    by (auto simp: payment_booked_def paymentBySourceEvent_apply entry_by_source_def t row_by_append
        event_processed_append [OF t(3)] split: if_splits option.splits)
qed

lemma payment_booked_new:
  assumes run: "payment_tx env p a s = (Inr pay, t)" and ev: "pp_event p \<noteq> ''''"
    and linked: "payments_linked s"
  shows "payment_booked t (pp_event p) = Some pay" "payments_linked t"
proof -
  from payment_tx_Inr [OF run] obtain e where
    t: "entries t = entries s @ [e]" "payments t = payments s @ [pay]"
      "processed t = processed s @ [(pp_event p, pp_type p)]"
    and new: "Some (pp_event p) \<notin> e_source_event ` set (entries s)"
    and e: "e_id e = next_id s" "e_source_event e = Some (pp_event p)"
    and pay: "pay = (payment_row p (next_id s))\<lparr>p_id := p_id pay, p_amount := env_round env (pp_amount p) 2\<rparr>"
    and lt: "next_id s < next_id t"
    using ev by (auto simp: posted_row_def payment_journal_def optional_string_def)
  have pe: "p_entry pay = Some (next_id s)" by (subst pay) (simp add: payment_row_def)
  have "row_by e_source_event (Some (pp_event p)) (entries s) = None"
    using new by (simp add: row_by_None_iff)
  moreover have "row_by p_entry (Some (next_id s)) (payments s) = None"
    using linked unfolding row_by_None_iff payments_linked_def
    by (metis imageE order_less_irrefl)
  ultimately show "payment_booked t (pp_event p) = Some pay"
    using e pe by (simp add: payment_booked_def event_processed_append [OF t(3)] paymentBySourceEvent_apply
        entry_by_source_def t row_by_append)
  show "payments_linked t"
    using linked lt pe by (auto simp: payments_linked_def t)
qed

lemma pay_event_cases:
  assumes "pay_event p ev s = (r, t)"
  obtains (replay) "event_processed s ev" "t = s" "payment_booked s ev = (case r of Inl _ \<Rightarrow> None | Inr q \<Rightarrow> Some q)"
  | (run) env q a where "\<not> event_processed s ev" "pp_event q = ev" "payment_tx env q a s = (r, t)"
proof -
  obtain env q a where p: "p = (env, q, a)" by (cases p)
  show ?thesis
  proof (cases "event_processed s ev")
    case True
    with assms show ?thesis
      by (intro that(1))
        (auto simp: p pay_event_def pay_event_apply payment_booked_def paymentBySourceEvent_apply)
  next
    case False
    with assms that(2) [of "q\<lparr>pp_event := ev\<rparr>" env a] show ?thesis
      by (simp add: p pay_event_def pay_event_apply)
  qed
qed

interpretation payment_booking: event_booking pay_event payment_booked "\<lambda>ev. ev \<noteq> ''''"
  payments_linked "\<lambda>_. True"
proof
  fix p s and ev :: string
  assume key: "ev \<noteq> ''''"
  obtain r t where rt: "pay_event p ev s = (r, t)" by (cases "pay_event p ev s")
  have frame: "payments (u\<lparr>entry_seq := n\<rparr>) = payments u" "next_id (u\<lparr>entry_seq := n\<rparr>) = next_id u"
    "\<And>ev. payment_booked (u\<lparr>entry_seq := n\<rparr>) ev = payment_booked u ev" for u n
    by (simp_all add: payment_booked_def event_processed_def paymentBySourceEvent_apply
        entry_by_source_def cong: option.case_cong)
  show "payments_linked (snd (pay_event p ev s))" if inv: "payments_linked s"
    using rt
  proof (cases rule: pay_event_cases)
    case replay
    with inv rt show ?thesis by simp
  next
    case (run env q a)
    show ?thesis
    proof (cases r)
      case (Inl e)
      from payment_tx_Inl [OF run(3) [unfolded Inl]] obtain n where "t = s\<lparr>entry_seq := n\<rparr>" by blast
      with inv rt frame show ?thesis by (simp add: payments_linked_def)
    next
      case (Inr pay)
      with payment_booked_new(2) [OF _ _ inv] run key rt show ?thesis by fastforce
    qed
  qed
  show "pay_event p ev s = (Inr j, s)" if "payment_booked s ev = Some j" for j
    using rt that
  proof (cases rule: pay_event_cases)
    case replay
    with rt that show ?thesis by (cases r) auto
  next
    case (run env q a)
    with that show ?thesis by (simp add: payment_booked_def)
  qed
  show "payment_booked t' ev = Some j"
    if "payments_linked s" "True" "pay_event p ev s = (Inr j, t')" for j t'
    using that(3)
  proof (cases rule: pay_event_cases)
    case replay
    then show ?thesis by simp
  next
    case (run env q a)
    then show ?thesis using payment_booked_new(1) [OF run(3) _ that(1)] key by simp
  qed
  show "payment_booked (snd (pay_event p ev s)) ev' = Some j"
    if "payments_linked s" "payment_booked s ev' = Some j" for ev' j
    using rt
  proof (cases rule: pay_event_cases)
    case replay
    with rt that show ?thesis by simp
  next
    case (run env q a)
    show ?thesis
    proof (cases r)
      case (Inl e)
      from payment_tx_Inl [OF run(3) [unfolded Inl]] obtain n where "t = s\<lparr>entry_seq := n\<rparr>" by blast
      with that(2) rt frame show ?thesis by simp
    next
      case (Inr pay)
      with payment_booked_stable [OF _ that(2)] run rt show ?thesis by fastforce
    qed
  qed
qed

end
