(* ===== verification/Adjustments.thy ===== *)
theory Adjustments
  imports Payments
begin

text \<open>
  Credit and debit notes (\<open>repository/adjustments.go\<close>, \<open>ledger/adjustments.go\<close>): the offsetting
  entry, the floored change of the open item and the adjustment row in one booking, idempotent on
  the note's event. The payment link token of the same file is not modelled.
\<close>

section \<open>Repository\<close>

record adjustment_params =
  ap_kind :: string
  ap_direction :: string
  ap_original :: string
  ap_document :: string
  ap_party :: string
  ap_amt :: rat
  ap_cur :: string
  ap_reason :: string

definition side_of :: "string \<Rightarrow> direction" where
  "side_of dn = (if dn = ''ap'' then AP else AR)"

text \<open>\<open>INSERT INTO finance_adjustments\<close> with the checks of migration 014.\<close>

definition insertAdjustmentTx :: "env \<Rightarrow> adjustment_params \<Rightarrow> id \<Rightarrow> adjustment action" where
  "insertAdjustmentTx env p entryID = (\<lambda>s.
     let row = \<lparr>adj_id = next_id s, adj_kind = ap_kind p, adj_direction = ap_direction p,
                adj_original = ap_original p, adj_document = ap_document p, adj_party = ap_party p,
                adj_amount = env_round env (ap_amt p) 2, adj_currency = ap_cur p,
                adj_reason = ap_reason p, adj_entry = Some entryID\<rparr>
     in if adj_kind row \<notin> {''credit_note'', ''debit_note''} \<or> adj_direction row \<notin> {''ar'', ''ap''}
           \<or> \<not> adj_amount row > 0
        then (Inl (CheckViolation ''finance_adjustments_check''), s)
        else if adj_document row \<in> adj_document ` set (adjustments s)
        then (Inl (UniqueViolation ''finance_adjustments_document_ref_key''), s)
        else if entryID \<notin> e_id ` set (entries s)
        then (Inl (ForeignKeyViolation ''finance_adjustments_journal_entry_id_fkey''), s)
        else (Inr row, s\<lparr>adjustments := adjustments s @ [row], next_id := Suc (next_id s)\<rparr>))"

definition repo_CreateAdjustment :: "env \<Rightarrow> adjustment_params \<Rightarrow> id \<Rightarrow> adjustment action" where
  "repo_CreateAdjustment env p entryID = tx (insertAdjustmentTx env p entryID)"

definition ListAdjustments :: "string \<Rightarrow> string \<Rightarrow> int \<Rightarrow> adjustment list action" where
  "ListAdjustments originalRef dn limit = gets (\<lambda>s.
     take (nat (item_limit limit))
       (filter (\<lambda>a. (originalRef = '''' \<or> adj_original a = originalRef) \<and>
                    (dn = '''' \<or> adj_direction a = dn)) (rev (adjustments s))))"

text \<open>The floor: an amount never falls below what was paid, nor below zero.\<close>

definition adjusted :: "rat \<Rightarrow> open_item \<Rightarrow> (rat \<times> item_status) option" where
  "adjusted delta i =
     (let newAmount = oi_amount i + delta
      in if newAmount < 0 \<or> newAmount < oi_paid i then None
         else Some (newAmount, if newAmount = oi_paid i then Closed
                               else if oi_paid i > 0 then Partial else Open))"

definition write_amount :: "env \<Rightarrow> direction \<Rightarrow> string \<Rightarrow> rat \<times> item_status \<Rightarrow> unit action" where
  "write_amount env d ref = (\<lambda>(newAmount, st) s.
     if \<not> env_round env newAmount 2 > 0 \<and> item_by_ref d s ref \<noteq> None
     then (Inl (CheckViolation ''open_items_amount_check''), s)
     else (Inr (), set_items d (update_where (\<lambda>x. oi_document_ref x = ref)
            (\<lambda>x. x\<lparr>oi_amount := env_round env newAmount 2, oi_status := st\<rparr>) (items_of d s)) s))"

definition adjustOpenItemAmountTx :: "env \<Rightarrow> string \<Rightarrow> string \<Rightarrow> rat \<Rightarrow> unit action" where
  "adjustOpenItemAmountTx env dn ref delta =
     bind (gets (\<lambda>s. find (\<lambda>i. oi_document_ref i = ref \<and> oi_status i \<noteq> Closed) (items_of (side_of dn) s)))
       (\<lambda>row. case row of
          None \<Rightarrow> fail ErrOriginalNotFound
        | Some i \<Rightarrow> (case adjusted delta i of
              None \<Rightarrow> fail ErrAdjustmentTooLarge
            | Some x \<Rightarrow> write_amount env (side_of dn) ref x))"

record book_adjustment_params =
  ba_event :: string
  ba_type :: string
  ba_desc :: string
  ba_source :: string
  ba_direction :: string
  ba_delta :: rat
  ba_fx_rate :: rat
  ba_lines :: "resolved_line list"
  ba_adjustment :: adjustment_params

definition adjustment_side :: "env \<Rightarrow> book_adjustment_params \<Rightarrow> id \<Rightarrow> adjustment action" where
  "adjustment_side env p entryID =
     bind (adjustOpenItemAmountTx env (ba_direction p) (ap_original (ba_adjustment p)) (ba_delta p))
       (\<lambda>_. insertAdjustmentTx env (ba_adjustment p) entryID)"

definition getAdjustmentByJournalEntryID :: "id \<Rightarrow> adjustment action" where
  "getAdjustmentByJournalEntryID entryID =
     bind (gets (\<lambda>s. row_by adj_entry (Some entryID) (adjustments s))) (\<lambda>a.
       case a of None \<Rightarrow> fail (ErrText ''no rows in result set'') | Some x \<Rightarrow> ok x)"

definition adjustment_journal :: "book_adjustment_params \<Rightarrow> journal_params" where
  "adjustment_journal p =
     default_params\<lparr>jp_desc := ba_desc p, jp_source_event := Some (ba_event p),
       jp_source_service := Some (ba_source p), jp_currency := ap_cur (ba_adjustment p),
       jp_fx_rate := ba_fx_rate p, jp_lines := ba_lines p\<rparr>"

text \<open>
  A booking that comes back without an entry dereferences a nil pointer in the replay branch: the
  error \<open>nil entry\<close> stands for the panic.
\<close>

definition BookAdjustment ::
  "env \<Rightarrow> book_adjustment_params \<Rightarrow> time \<Rightarrow> audit_info option \<Rightarrow> adjustment action" where
  "BookAdjustment env p postedAt audit_i =
     bind (BookPostedEntry env (adjustment_journal p) (ba_event p) (ba_type p) postedAt
             (Some (adjustment_side env p)) audit_i) (\<lambda>(j, out).
     case out of
       Some a \<Rightarrow> ok a
     | None \<Rightarrow> (case j of None \<Rightarrow> fail (ErrText ''nil entry'')
                | Some x \<Rightarrow> getAdjustmentByJournalEntryID (e_id (j_entry x))))"

text \<open>
  \<open>UPDATE \<dots> SET amount = amount + $2, status = CASE \<dots>\<close>: the older, unfloored amendment, which no
  caller is left for.
\<close>

definition adjust_amount :: "env \<Rightarrow> direction \<Rightarrow> string \<Rightarrow> rat \<Rightarrow> unit action" where
  "adjust_amount env d ref delta = (\<lambda>s.
     let hit = (\<lambda>i. oi_document_ref i = ref \<and> oi_status i \<noteq> Closed) in
     if \<not> (\<exists>i \<in> set (items_of d s). hit i) then (Inl ErrOriginalNotFound, s)
     else if \<exists>i \<in> set (items_of d s). hit i \<and> \<not> env_round env (oi_amount i + delta) 2 > 0
     then (Inl (CheckViolation ''open_items_amount_check''), s)
     else (Inr (), set_items d (update_where hit (\<lambda>i. i\<lparr>
              oi_amount := env_round env (oi_amount i + delta) 2,
              oi_status := (if oi_amount i + delta \<le> oi_paid i then Closed
                            else if oi_paid i > 0 then Partial else oi_status i)\<rparr>) (items_of d s)) s))"

definition AdjustARAmount :: "env \<Rightarrow> string \<Rightarrow> rat \<Rightarrow> unit action" where
  "AdjustARAmount env = adjust_amount env AR"

definition AdjustAPAmount :: "env \<Rightarrow> string \<Rightarrow> rat \<Rightarrow> unit action" where
  "AdjustAPAmount env = adjust_amount env AP"

text \<open>The billing columns are not modelled.\<close>

definition CreateAROpenItemWithBilling ::
  "env \<Rightarrow> string \<Rightarrow> string \<Rightarrow> string \<Rightarrow> rat \<Rightarrow> string \<Rightarrow> date option \<Rightarrow> outbox_event option \<Rightarrow> open_item action" where
  "CreateAROpenItemWithBilling env party ref desc amount currency due ob =
     create_open_item env AR party ref desc amount currency due None None ob"

definition ListARByCustomerRef :: "string \<Rightarrow> int \<Rightarrow> int \<Rightarrow> open_item list action" where
  "ListARByCustomerRef customerRef limit offset = gets (\<lambda>s.
     page (if limit \<le> 0 \<or> limit > 200 then 100 else limit) offset
       (filter (\<lambda>i. oi_party_ref i = customerRef) (rev (ar_items s))))"

section \<open>Service\<close>

record adjustment_input =
  ai_kind :: string
  ai_direction :: string
  ai_original :: string
  ai_document :: string
  ai_reason :: string
  ai_amount :: rat
  ai_currency :: string

definition note_reference :: "string \<Rightarrow> adjustment_input \<Rightarrow> string" where
  "note_reference kind inp =
     (let docRef = trim_space (ai_document inp)
      in if docRef = '''' then (if kind = ''debit_note'' then ''DN'' else ''CN'') @ ''-'' @ ai_original inp
         else docRef)"

text \<open>The four kinds of notes: the signed change of the item and the offsetting lines.\<close>

definition note_plan :: "direction \<Rightarrow> bool \<Rightarrow> rat \<Rightarrow> rat \<times> line_input list" where
  "note_plan d credit amount =
     (case (d, credit) of
        (AR, True) \<Rightarrow> (- amount, [dr ''4000'' amount ''Credit note'', cr ''1100'' amount ''AR credit''])
      | (AR, False) \<Rightarrow> (amount, [dr ''1100'' amount ''AR debit'', cr ''4000'' amount ''Debit note''])
      | (AP, True) \<Rightarrow> (- amount, [dr ''2000'' amount ''AP credit'', cr ''5100'' amount ''Vendor credit note''])
      | (AP, False) \<Rightarrow> (amount, [dr ''5100'' amount ''Vendor debit note'', cr ''2000'' amount ''AP debit'']))"

definition CreateAdjustment :: "env \<Rightarrow> adjustment_input \<Rightarrow> string \<Rightarrow> adjustment action" where
  "CreateAdjustment env inp actor =
     (let kind = to_lower (trim_space (ai_kind inp));
          dn = to_lower (trim_space (ai_direction inp));
          d = side_of dn;
          docRef = note_reference kind inp;
          currency = (if ai_currency inp = '''' then ''UGX'' else ai_currency inp);
          (delta, ls) = note_plan d (kind = ''credit_note'') (ai_amount inp);
          postedAt = env_now env
      in if kind \<noteq> ''credit_note'' \<and> kind \<noteq> ''debit_note'' then fail ErrInvalidAdjustment
         else if dn \<noteq> ''ar'' \<and> dn \<noteq> ''ap'' then fail ErrInvalidAdjustment
         else if ai_original inp = '''' \<or> ai_amount inp \<le> 0 then fail ErrInvalidAdjustment
         else bind (gets (\<lambda>s. item_by_ref d s (ai_original inp))) (\<lambda>row.
         case row of
           None \<Rightarrow> fail ErrOriginalNotFound
         | Some item \<Rightarrow>
           bind (OpenItemFXRateByDocRef d (ai_original inp)) (\<lambda>fxRate.
           bind (resolveLines ls) (\<lambda>resolved.
           bind (IsPeriodClosed (period_of_time postedAt)) (\<lambda>closed.
           if closed then fail ErrPeriodClosed
           else BookAdjustment env
             \<lparr>ba_event = ''adjustment.'' @ dn @ '':'' @ kind @ '':'' @ docRef,
              ba_type = ''finance.adjustment'',
              ba_desc = kind @ '' '' @ em_dash @ '' '' @ ai_original inp, ba_source = ''iag.finance'',
              ba_direction = dn, ba_delta = delta, ba_fx_rate = fxRate, ba_lines = resolved,
              ba_adjustment = \<lparr>ap_kind = kind, ap_direction = dn, ap_original = ai_original inp,
                ap_document = docRef, ap_party = oi_party_ref item, ap_amt = ai_amount inp,
                ap_cur = currency, ap_reason = ai_reason inp\<rparr>\<rparr>
             postedAt
             (Some \<lparr>ai_actor = actorOrSystem actor, ai_type = ''adjustment.'' @ kind,
                    ai_message = kind @ '' '' @ docRef @ '' on '' @ ai_original inp @ '' for ''
                      @ currency @ '' '' @ env_show env (ai_amount inp)\<rparr>))))))"

section \<open>Notes keep the subledger\<close>

lemma adjusted_Some:
  "adjusted delta i = Some x \<longleftrightarrow>
     0 \<le> oi_amount i + delta \<and> oi_paid i \<le> oi_amount i + delta \<and>
     x = (oi_amount i + delta, if oi_amount i + delta = oi_paid i then Closed
            else if oi_paid i > 0 then Partial else Open)"
  unfolding adjusted_def Let_def by (cases x) (auto simp: not_less)

definition adjusted_items :: "env \<Rightarrow> string \<Rightarrow> rat \<times> item_status \<Rightarrow> open_item list \<Rightarrow> open_item list" where
  "adjusted_items env ref x is = update_where (\<lambda>i. oi_document_ref i = ref)
     (\<lambda>i. i\<lparr>oi_amount := env_round env (fst x) 2, oi_status := snd x\<rparr>) is"

lemma adjust_cases:
  obtains (refused) e where "adjustOpenItemAmountTx env dn ref delta s = (Inl e, s)"
  | (applied) it x where "it \<in> set (items_of (side_of dn) s)" "oi_document_ref it = ref" "oi_status it \<noteq> Closed"
      "adjusted delta it = Some x" "0 < env_round env (fst x) 2"
      "adjustOpenItemAmountTx env dn ref delta s =
         (Inr (), set_items (side_of dn) (adjusted_items env ref x (items_of (side_of dn) s)) s)"
proof (cases "find (\<lambda>i. oi_document_ref i = ref \<and> oi_status i \<noteq> Closed) (items_of (side_of dn) s)")
  case None
  then show ?thesis by (intro that(1)) (simp add: adjustOpenItemAmountTx_def)
next
  case (Some it)
  then have it: "it \<in> set (items_of (side_of dn) s)" "oi_document_ref it = ref" "oi_status it \<noteq> Closed"
    by (auto simp: find_Some_iff)
  then have hit: "item_by_ref (side_of dn) s ref \<noteq> None"
    by (auto simp: item_by_ref_def row_by_None_iff)
  show ?thesis
  proof (cases "adjusted delta it")
    case None
    with Some show ?thesis by (intro that(1)) (simp add: adjustOpenItemAmountTx_def)
  next
    case (Some x)
    note run = \<open>find _ _ = Some it\<close> Some hit
    show ?thesis
    proof (cases "0 < env_round env (fst x) 2")
      case True
      with run it show ?thesis
        by (intro that(2)) (auto simp: adjustOpenItemAmountTx_def write_amount_def adjusted_items_def split: prod.split)
    next
      case False
      with run show ?thesis
        by (intro that(1)) (auto simp: adjustOpenItemAmountTx_def write_amount_def split: prod.split)
    qed
  qed
qed

lemma reconciled_set_items:
  assumes s: "reconciled s" and wf: "side_wf (next_id s) is"
    and paid: "\<forall>i \<in> set is. \<exists>j \<in> set (items_of d s). oi_id i = oi_id j \<and> oi_paid i = oi_paid j"
  shows "reconciled (set_items d is s)"
proof -
  have "oi_paid i = paid_total d' (oi_id i) (payments s)" if "i \<in> set (items_of d' (set_items d is s))" for d' i
    using that s paid by (cases "d' = d") (auto simp: reconciled_def items_of_set_other)
  then show ?thesis
    using s wf items_wf_set_items by (auto simp: reconciled_def payments_wf_def)
qed

lemma keeps_reconciled_adjust [keeps_intros]:
  assumes rnd: "rounding_laws (env_round env)"
  shows "keeps reconciled (adjustOpenItemAmountTx env dn ref delta)"
proof (rule keepsI)
  fix s assume s: "reconciled s"
  show "reconciled (snd (adjustOpenItemAmountTx env dn ref delta s))"
  proof (cases rule: adjust_cases [of env dn ref delta s])
    case (refused e)
    with s show ?thesis by simp
  next
    case (applied it x)
    have wf: "side_wf (next_id s) (items_of (side_of dn) s)"
      using s by (simp add: reconciled_def items_wf_alt)
    have same: "i = it" if "i \<in> set (items_of (side_of dn) s)" "oi_document_ref i = ref" for i
      using that applied(1,2) wf by (auto simp: side_wf_def distinct_map inj_on_def)
    have it: "item_ok it" using wf applied(1) by (simp add: side_wf_def)
    have "oi_paid it \<le> env_round env (fst x) 2"
      using round_mono [OF rnd, of "oi_paid it" "fst x" 2] round_exact [OF rnd, of 2 "oi_paid it"]
        it applied(4) by (auto simp: adjusted_Some item_ok_def)
    then have "side_wf (next_id s) (adjusted_items env ref x (items_of (side_of dn) s))"
      unfolding adjusted_items_def using it applied(5) round_places [OF rnd]
      by (intro side_wf_update [OF wf]) (auto simp: item_ok_def dest: same)
    then have "reconciled (set_items (side_of dn) (adjusted_items env ref x (items_of (side_of dn) s)) s)"
      by (rule reconciled_set_items [OF s]) (auto simp: adjusted_items_def set_update_where)
    with applied(6) show ?thesis by simp
  qed
qed

lemma keeps_insertAdjustmentTx [keeps_intros]:
  "keeps reconciled (insertAdjustmentTx env p i)" "keeps journal_tx_inv (insertAdjustmentTx env p i)"
  "keeps (audit_ok env') (insertAdjustmentTx env p i)" "keeps (numbers_wf n) (insertAdjustmentTx env p i)"
proof -
  show "keeps reconciled (insertAdjustmentTx env p i)"
  proof (rule keepsI)
    fix s assume s: "reconciled s"
    then have "reconciled (s\<lparr>adjustments := l, next_id := Suc (next_id s)\<rparr>)" for l
      by (auto simp: reconciled_def items_wf_def payments_wf_def items_of_def intro: side_wf_mono less_SucI
          split: direction.splits)
    with s show "reconciled (snd (insertAdjustmentTx env p i s))"
      by (simp add: insertAdjustmentTx_def Let_def)
  qed
  show "keeps journal_tx_inv (insertAdjustmentTx env p i)" "keeps (audit_ok env') (insertAdjustmentTx env p i)"
    "keeps (numbers_wf n) (insertAdjustmentTx env p i)"
    by (auto simp: keeps_def insertAdjustmentTx_def Let_def journal_tx_inv_def entries_wf_def lines_wf_def
        balanced_def lines_of_def less_SucI audit_ok_def numbers_wf_def)
qed

lemma adjust_frame:
  "journal_view (snd (adjustOpenItemAmountTx env dn ref delta s)) = journal_view s"
  "audit (snd (adjustOpenItemAmountTx env dn ref delta s)) = audit s"
  "entry_seq (snd (adjustOpenItemAmountTx env dn ref delta s)) = entry_seq s"
  "journal_frame (snd (adjustOpenItemAmountTx env dn ref delta s)) = journal_frame s"
  by (cases rule: adjust_cases [of env dn ref delta s]; simp add: set_items_view journal_frame_def)+

lemma keeps_adjust_others [keeps_intros]:
  "keeps journal_tx_inv (adjustOpenItemAmountTx env dn ref delta)"
  "keeps (audit_ok env') (adjustOpenItemAmountTx env dn ref delta)"
  "keeps (numbers_wf n) (adjustOpenItemAmountTx env dn ref delta)"
  using journal_view_cong(1) [OF adjust_frame(1)] adjust_frame
  by (simp_all add: keeps_def audit_ok_def numbers_wf_def journal_view_def)

lemma keeps_adjustment_side [keeps_intros]:
  "rounding_laws (env_round env) \<Longrightarrow> keeps reconciled (adjustment_side env p i)"
  "keeps journal_tx_inv (adjustment_side env p i)" "keeps (audit_ok env') (adjustment_side env p i)"
  "keeps (numbers_wf n) (adjustment_side env p i)"
  unfolding adjustment_side_def by (intro keeps_intros; assumption?)+

lemma keeps_getAdjustmentByJournalEntryID [keeps_intros]: "keeps I (getAdjustmentByJournalEntryID i)"
  unfolding getAdjustmentByJournalEntryID_def by (intro keeps_intros)

lemma keeps_BookAdjustment:
  assumes "keeps I (BookPostedEntry env (adjustment_journal p) (ba_event p) (ba_type p) t
    (Some (adjustment_side env p)) a)"
  shows "keeps I (BookAdjustment env p t a)"
  unfolding BookAdjustment_def by (intro keeps_intros assms)

lemma keeps_CreateAdjustment:
  assumes "\<And>p t a. keeps I (BookAdjustment env p t a)"
  shows "keeps I (CreateAdjustment env inp actor)"
  unfolding CreateAdjustment_def Let_def IsPeriodClosed_def
  by (intro keeps_intros assms)

lemma keeps_adjustments [keeps_intros]:
  "keeps journal_inv (CreateAdjustment env inp actor)"
  "rounding_laws (env_round env) \<Longrightarrow> keeps reconciled (CreateAdjustment env inp actor)"
  by (intro keeps_CreateAdjustment keeps_BookAdjustment keeps_BookPostedEntry pay.sub_BookPostedEntry;
      auto intro: keeps_intros)+

end
