(* ===== verification/History.thy ===== *)
theory History
  imports Adjustments
begin

text \<open>
  What was posted stays: a record \<open>h\<close> of entries past the draft stage and of their lines, and the
  invariant \<open>kept h\<close> that each of them is still in the journal with the same lines and unchanged but
  for a later reversal of its status.
\<close>

definition recorded :: "entry \<Rightarrow> db \<Rightarrow> bool" where
  "recorded e s \<longleftrightarrow> e_status e \<noteq> Draft \<and> (e \<in> set (entries s) \<or> e\<lparr>e_status := Reversed\<rparr> \<in> set (entries s))"

definition kept :: "(entry \<times> jline list) list \<Rightarrow> db \<Rightarrow> bool" where
  "kept h s \<longleftrightarrow> distinct (map e_id (entries s)) \<and> (\<forall>e \<in> set (entries s). e_id e < next_id s) \<and>
     (\<forall>x \<in> set h. recorded (fst x) s \<and> lines_of s (e_id (fst x)) = snd x)"

abbreviation recorded_ids :: "(entry \<times> jline list) list \<Rightarrow> id set" where
  "recorded_ids h \<equiv> e_id ` fst ` set h"

lemma kept_ids: "kept h s \<Longrightarrow> i \<in> recorded_ids h \<Longrightarrow> i < next_id s"
  by (force simp: kept_def recorded_def)

lemma kept_no_draft:
  assumes "kept h s" "entry_by_id s i = Some e" "e_status e = Draft"
  shows "i \<notin> recorded_ids h"
proof
  assume "i \<in> recorded_ids h"
  then obtain x where x: "x \<in> set h" "e_id (fst x) = i" by auto
  with assms(1) obtain e' where e': "e' \<in> set (entries s)" "e_id e' = i" "e_status e' \<noteq> Draft"
    by (force simp: kept_def recorded_def)
  from entry_by_id_SomeD [OF assms(2)] have "e \<in> set (entries s)" "e_id e = i" by auto
  with e' assms(1) have "e = e'" by (auto simp: kept_def distinct_map dest: inj_onD)
  with e' assms(3) show False by simp
qed

lemma kept_frame:
  assumes "kept h s" "entries t = entries s" "jlines t = jlines s" "next_id s \<le> next_id t"
  shows "kept h t"
  using assms by (auto simp: kept_def recorded_def lines_of_def intro: less_le_trans)

lemma keeps_kept_frame:
  assumes "\<And>s. entries (snd (m s)) = entries s \<and> jlines (snd (m s)) = jlines s \<and> next_id s \<le> next_id (snd (m s))"
  shows "keeps (kept h) m"
  using assms by (intro keepsI) (rule kept_frame, auto)

lemma keeps_kept_misc [keeps_intros]:
  "keeps (kept h) fresh_id" "keeps (kept h) nextEntryNumberTx" "keeps (kept h) (markProcessedTx ev ty)"
  "keeps (kept h) (AppendChainTx env a t m)" "keeps (kept h) (upsert_period r)"
  by (rule keeps_kept_frame;
      simp add: fresh_id_def nextEntryNumberTx_def markProcessedTx_def AppendChainTx_eq upsert_period_def Let_def)+

lemma keeps_kept_appendAudit [keeps_intros]: "keeps (kept h) (appendAudit env a)"
  unfolding appendAudit_def by (intro keeps_intros)

lemma keeps_kept_tx [keeps_intros]: "keeps (kept h) m \<Longrightarrow> keeps (kept h) (tx m)"
  by (rule keeps_tx [where J = "kept h"]) (auto intro: kept_frame simp: rollback_def)

lemma keeps_kept_insert_entry [keeps_intros]: "keeps (kept h) (insert_entry e)"
  by (rule keepsI) (fastforce simp: insert_entry_def kept_def recorded_def lines_of_def less_Suc_eq image_iff)

lemma keeps_kept_insert_line:
  "l_entry l \<notin> recorded_ids h \<Longrightarrow> keeps (kept h) (insert_line env l)"
  by (rule keepsI) (force simp: insert_line_def kept_def recorded_def lines_of_def Let_def less_Suc_eq)

text \<open>A new entry is not one of those on record, so lines may be added to it.\<close>

lemma keeps_kept_new_entry:
  assumes "\<And>i. i \<notin> recorded_ids h \<Longrightarrow> keeps (kept h) (f i)"
  shows "keeps (kept h) (bind (insert_entry e) f)"
proof (rule keepsI)
  fix s assume s: "kept h s"
  show "kept h (snd (bind (insert_entry e) f s))"
  proof (cases "insert_entry e s")
    case (Pair r t)
    from keepsD [OF keeps_kept_insert_entry s] Pair have t: "kept h t" by (metis snd_conv)
    show ?thesis
    proof (cases r)
      case (Inl x)
      with Pair t show ?thesis by (simp add: bind_def)
    next
      case (Inr i)
      with Pair have "i = next_id s" by (simp add: insert_entry_Inr)
      with kept_ids [OF s, of i] have "i \<notin> recorded_ids h" by (meson less_irrefl)
      from keepsD [OF assms [OF this] t] Pair Inr show ?thesis by (simp add: bind_def)
    qed
  qed
qed

lemma keeps_kept_insertPostedEntryTx [keeps_intros]: "keeps (kept h) (insertPostedEntryTx env p t)"
  unfolding insertPostedEntryTx_def
  by (intro keeps_kept_new_entry keeps_intros keeps_kept_insert_line) (simp add: line_row_def)

lemma keeps_kept_repo_Create [keeps_intros]: "keeps (kept h) (repo_CreateJournalEntry env p)"
  unfolding repo_CreateJournalEntry_def Let_def
  by (intro keeps_kept_tx keeps_kept_new_entry keeps_intros keeps_kept_insert_line) (simp add: line_row_def)

text \<open>An entry leaves the draft stage, or a posted entry is marked reversed.\<close>

lemma update_entry_kept:
  assumes s: "kept h s" and f: "\<And>e. e_id (f e) = e_id e"
    and r: "\<And>e. P e \<Longrightarrow> e_id e = i \<Longrightarrow> i \<in> recorded_ids h \<Longrightarrow> f e = e\<lparr>e_status := Reversed\<rparr>"
  shows "kept h (snd (update_entry i P f s))"
proof -
  let ?es = "update_where (\<lambda>e. e_id e = i \<and> P e) f (entries s)"
  have ids: "map e_id ?es = map e_id (entries s)" by (simp add: update_where_def f)
  have "recorded e (s\<lparr>entries := ?es\<rparr>)" if e: "recorded e s" "e_id e \<in> recorded_ids h" for e
  proof -
    from e(1) obtain e' where e': "e' \<in> set (entries s)" "e' = e \<or> e' = e\<lparr>e_status := Reversed\<rparr>"
      by (auto simp: recorded_def)
    then have same: "e'\<lparr>e_status := Reversed\<rparr> = e\<lparr>e_status := Reversed\<rparr>" "e_id e' = e_id e" by auto
    show ?thesis
    proof (cases "e_id e' = i \<and> P e'")
      case True
      with e(2) same(2) have "i \<in> recorded_ids h" by simp
      with r [of e'] True have "f e' = e\<lparr>e_status := Reversed\<rparr>" by (simp only: same(1))
      moreover have "f e' \<in> set ?es" using e'(1) True by (simp add: set_update_where rev_image_eqI)
      ultimately have "e\<lparr>e_status := Reversed\<rparr> \<in> set ?es" by simp
      with e(1) show ?thesis by (simp add: recorded_def)
    next
      case False
      then have "e' \<in> set ?es" using e'(1) by (auto simp: set_update_where)
      with e(1) e'(2) show ?thesis by (auto simp: recorded_def)
    qed
  qed
  moreover have "\<forall>e \<in> set ?es. e_id e < next_id s"
    using s by (auto simp: kept_def set_update_where f)
  ultimately show ?thesis
    using s ids by (auto simp: kept_def update_entry_def recorded_def lines_of_def)
qed

lemma kept_delete:
  assumes s: "kept h s" and i: "i \<notin> recorded_ids h"
  shows "kept h (snd (delete_lines i s))" "kept h (snd (delete_entry i s))"
proof -
  have lines: "filter (\<lambda>x. l_entry x \<noteq> i \<and> l_entry x = e_id (fst y)) ls = filter (\<lambda>x. l_entry x = e_id (fst y)) ls"
    if "y \<in> set h" for y ls
    using i that by (intro filter_other_entry) auto
  show "kept h (snd (delete_lines i s))"
    using s lines [of _ "jlines s"] by (auto simp: delete_lines_def kept_def recorded_def lines_of_def)
  have same: "recorded e (s\<lparr>entries := filter (\<lambda>e. e_id e \<noteq> i) (entries s)\<rparr>)" if "recorded e s" "e_id e \<noteq> i" for e
    using that by (auto simp: recorded_def)
  have "kept h (s\<lparr>entries := filter (\<lambda>e. e_id e \<noteq> i) (entries s), jlines := filter (\<lambda>l. l_entry l \<noteq> i) (jlines s)\<rparr>)"
    unfolding kept_def
  proof (intro conjI ballI)
    fix x assume x: "x \<in> set h"
    with i have "e_id (fst x) \<noteq> i" by auto
    with s x same [of "fst x"] show "recorded (fst x) (s\<lparr>entries := filter (\<lambda>e. e_id e \<noteq> i) (entries s),
        jlines := filter (\<lambda>l. l_entry l \<noteq> i) (jlines s)\<rparr>)"
      by (simp add: kept_def recorded_def)
    from s x lines [OF x, of "jlines s"] show "lines_of (s\<lparr>entries := filter (\<lambda>e. e_id e \<noteq> i) (entries s),
        jlines := filter (\<lambda>l. l_entry l \<noteq> i) (jlines s)\<rparr>) (e_id (fst x)) = snd x"
      by (simp add: kept_def lines_of_def)
  qed (use s in \<open>auto simp: kept_def distinct_map_filter\<close>)
  then have "kept h (drop_refs i (s\<lparr>entries := filter (\<lambda>e. e_id e \<noteq> i) (entries s), jlines := filter (\<lambda>l. l_entry l \<noteq> i) (jlines s)\<rparr>))"
    by (rule kept_frame) (simp_all add: drop_refs_def)
  with s show "kept h (snd (delete_entry i s))" by (simp add: delete_entry_def)
qed

lemma keeps_kept_DeleteDraftEntry [keeps_intros]: "keeps (kept h) (DeleteDraftEntry i)"
  unfolding DeleteDraftEntry_def
proof (rule keeps_kept_tx, rule keepsI)
  fix s assume s: "kept h s"
  show "kept h (snd (bind (gets (\<lambda>s. entry_by_id s i)) (\<lambda>row. case row of None \<Rightarrow> fail ErrEntryNotFound
      | Some e \<Rightarrow> if e_status e \<noteq> Draft then fail ErrNotDraft else bind (delete_lines i) (\<lambda>_. delete_entry i)) s))"
  proof (cases "entry_by_id s i")
    case (Some e)
    show ?thesis
    proof (cases "e_status e = Draft")
      case True
      note i = kept_no_draft [OF s Some True]
      from kept_delete [OF kept_delete(1) [OF s i] i] Some True show ?thesis
        by (simp add: bind_def delete_lines_def)
    qed (use s Some in simp)
  qed (use s in simp)
qed

lemma bind_keeps: "I (snd (m s)) \<Longrightarrow> (\<And>a. keeps I (f a)) \<Longrightarrow> I (snd (bind m f s))"
  by (cases "m s") (auto simp: bind_def keeps_def split: sum.split)

lemma keeps_kept_UpdatePosted:
  "keeps (kept h) (update_entry i (\<lambda>_. True) (\<lambda>e. e\<lparr>e_status := Reversed\<rparr>))"
  by (rule keepsI, rule update_entry_kept) simp_all

lemma keeps_kept_ReverseEntry [keeps_intros]: "keeps (kept h) (ReverseEntry env i r a)"
  unfolding ReverseEntry_def reverse_posted_def GetJournalEntry_def
  by (intro keeps_bind [OF keeps_kept_tx] keeps_gets keeps_bind [OF keeps_gets] keeps_case_option keeps_if
      keeps_fail keeps_bind [OF keeps_kept_misc(2)] keeps_kept_new_entry keeps_bind [OF keeps_for_each]
      keeps_bind [OF keeps_kept_insert_line] keeps_ok keeps_bind [OF keeps_kept_UpdatePosted]
      keeps_bind [OF keeps_kept_appendAudit]) (simp add: mirror_row_def)

lemma keeps_kept_MarkEntryPosted [keeps_intros]: "keeps (kept h) (MarkEntryPosted env i t a)"
  unfolding MarkEntryPosted_def
proof (rule keeps_kept_tx, rule keepsI)
  fix s assume s: "kept h s"
  let ?post = "update_entry i (\<lambda>e. e_status e = Draft) (\<lambda>e. e\<lparr>e_status := Posted, e_posted_at := Some t\<rparr>)"
  show "kept h (snd (bind (gets (\<lambda>s. entry_by_id s i)) (\<lambda>row. case row of None \<Rightarrow> ok False
      | Some e \<Rightarrow> if e_status e \<noteq> Draft then ok False
          else bind (gets (\<lambda>s. period_status_of s (format_period (e_acc_date e)))) (\<lambda>ps.
            if ps = Some PeriodClosed then fail ErrPeriodClosed
            else bind ?post (\<lambda>n. if n \<noteq> 1 then ok False else bind (appendAudit env a) (\<lambda>_. ok True)))) s))"
  proof (cases "entry_by_id s i")
    case (Some e)
    show ?thesis
    proof (cases "e_status e = Draft")
      case True
      from kept_no_draft [OF s Some True] have "kept h (snd (?post s))"
        by (intro update_entry_kept s) simp_all
      moreover have "keeps (kept h) (if n \<noteq> 1 then ok False else bind (appendAudit env a) (\<lambda>_. ok True))" for n :: nat
        by (intro keeps_intros)
      ultimately have "kept h (snd (bind ?post (\<lambda>n. if n \<noteq> 1 then ok False else bind (appendAudit env a) (\<lambda>_. ok True)) s))"
        by (rule bind_keeps)
      with s Some True show ?thesis by simp
    qed (use s Some in simp)
  qed (use s in simp)
qed

section \<open>Bookings and documents\<close>

lemma keeps_kept_booking_tx [keeps_intros]:
  assumes "\<And>f i. side = Some f \<Longrightarrow> keeps (kept h) (f i)"
  shows "keeps (kept h) (booking_tx env p ev ty t side a)"
  unfolding booking_tx_def using assms by (intro keeps_intros) auto

lemma keeps_kept_BookPostedEntry [keeps_intros]:
  assumes "\<And>f i. side = Some f \<Longrightarrow> keeps (kept h) (f i)"
  shows "keeps (kept h) (BookPostedEntry env p ev ty t side a)"
  unfolding BookPostedEntry_def IsEventProcessed_def Let_def using assms
  by (intro keeps_intros) auto

lemma keeps_kept_payment_tx: "keeps (kept h) (payment_tx env p a)"
proof -
  have frame: "keeps (kept h) (lock_and_settle d i x)" "keeps (kept h) (write_paid env d i y)"
    "keeps (kept h) (insert_payment env row)" "keeps (kept h) (enqueue_opt ob)" for d i x y row ob
    by (rule keeps_kept_frame;
        simp add: lock_and_settle_def write_paid_def insert_payment_def enqueue_opt_def enqueueOutboxTx_def Let_def
          split: option.split prod.split)+
  show ?thesis unfolding payment_tx_def by (intro keeps_intros frame)
qed

lemma keeps_kept_adjustment_side [keeps_intros]: "keeps (kept h) (adjustment_side env p i)"
proof -
  have "keeps (kept h) (adjustOpenItemAmountTx env dn ref delta)" for dn ref delta
    using adjust_frame(1) by (intro keeps_kept_frame) (simp add: journal_view_def)
  moreover have "keeps (kept h) (insertAdjustmentTx env q i)" for q
    by (rule keeps_kept_frame) (simp add: insertAdjustmentTx_def Let_def)
  ultimately show ?thesis unfolding adjustment_side_def by (intro keeps_intros)
qed

end
