(* ===== verification/Side_Tables.thy ===== *)
theory Side_Tables
  imports History
begin

text \<open>
  The tables beside the ledger: accruals, tax codes, match exceptions, clearing items, approvals and
  payroll. A statement on them leaves the core of the database alone (the journal, the open items
  and their payments, the audit chain, the processed events and the number sequence), so it keeps
  every invariant of the core: the interface \<open>core_invariant\<close> says so once for all of them.
\<close>

definition core_of :: "db \<Rightarrow> _" where
  "core_of s =
     ((entries s, jlines s, touched s, accounts s), (audit s, entry_seq s, processed s),
      (ar_items s, ap_items s, payments s))"

definition lateral :: "'a action \<Rightarrow> bool" where
  "lateral m \<longleftrightarrow> (\<forall>s. core_of (snd (m s)) = core_of s \<and> next_id s \<le> next_id (snd (m s)))"

locale core_invariant =
  fixes I :: "db \<Rightarrow> bool"
  assumes core_cong: "I s \<Longrightarrow> core_of t = core_of s \<Longrightarrow> next_id s \<le> next_id t \<Longrightarrow> I t"
begin

lemma keeps_lateral: "lateral m \<Longrightarrow> keeps I m"
  unfolding keeps_def lateral_def using core_cong by blast

end

named_theorems lateral_intros "statements on the side tables"

lemma lateral_modify:
  "(\<And>s. core_of (f s) = core_of s) \<Longrightarrow> (\<And>s. next_id s \<le> next_id (f s)) \<Longrightarrow> lateral (modify f)"
  by (simp add: lateral_def)

lemma lateral_ok [lateral_intros]: "lateral (ok a)" and lateral_fail [lateral_intros]: "lateral (fail e)"
  and lateral_gets [lateral_intros]: "lateral (gets f)" and lateral_require [lateral_intros]: "lateral (require b e)"
  by (simp_all add: lateral_def require_def)

lemma lateral_bind [lateral_intros]:
  assumes "lateral m" "\<And>a. lateral (f a)"
  shows "lateral (bind m f)"
  unfolding lateral_def
proof
  fix s
  obtain r t where mt: "m s = (r, t)" by (cases "m s")
  from assms(1) have t: "core_of t = core_of s" "next_id s \<le> next_id t"
    by (auto simp: lateral_def mt dest: spec [of _ s])
  show "core_of (snd (bind m f s)) = core_of s \<and> next_id s \<le> next_id (snd (bind m f s))"
  proof (cases r)
    case (Inl e)
    with t mt show ?thesis by (simp add: bind_def)
  next
    case (Inr a)
    from assms(2) have "core_of (snd (f a t)) = core_of t" "next_id t \<le> next_id (snd (f a t))"
      by (simp_all add: lateral_def)
    with t mt Inr show ?thesis by (simp add: bind_def)
  qed
qed

lemma lateral_if [lateral_intros]:
  "(b \<Longrightarrow> lateral m) \<Longrightarrow> (\<not> b \<Longrightarrow> lateral k) \<Longrightarrow> lateral (if b then m else k)"
  by simp

lemma lateral_Let [lateral_intros]: "(\<And>x. x = t \<Longrightarrow> lateral (f x)) \<Longrightarrow> lateral (let x = t in f x)"
  by simp

lemma lateral_when [lateral_intros]: "(b \<Longrightarrow> lateral m) \<Longrightarrow> lateral (when_ok b m)"
  by (simp add: when_ok_def lateral_ok)

lemma lateral_case_option [lateral_intros]:
  "(x = None \<Longrightarrow> lateral m) \<Longrightarrow> (\<And>a. x = Some a \<Longrightarrow> lateral (f a)) \<Longrightarrow>
   lateral (case x of None \<Rightarrow> m | Some a \<Rightarrow> f a)"
  by (cases x) simp_all

lemma lateral_case_prod [lateral_intros]:
  "(\<And>a b. x = (a, b) \<Longrightarrow> lateral (f a b)) \<Longrightarrow> lateral (case x of (a, b) \<Rightarrow> f a b)"
  by (cases x) simp

lemma lateral_for_each [lateral_intros]: "(\<And>x. lateral (f x)) \<Longrightarrow> lateral (for_each xs f)"
  by (induction xs) (auto intro!: lateral_intros)

lemma reads_lateral: "reads m \<Longrightarrow> lateral m"
  by (simp add: reads_def lateral_def)

lemma lateral_framed: "lateral m \<Longrightarrow> framed m"
  by (auto simp: lateral_def framed_def core_of_def journal_frame_def)

lemma core_of_eqD:
  assumes "core_of t = core_of s"
  shows "entries t = entries s" "jlines t = jlines s" "touched t = touched s" "accounts t = accounts s"
    "audit t = audit s" "entry_seq t = entry_seq s" "processed t = processed s"
    "ar_items t = ar_items s" "ap_items t = ap_items s" "payments t = payments s"
  using assms by (simp_all add: core_of_def)

section \<open>The invariants of the core\<close>

lemma lines_balanced_core:
  "core_of t = core_of s \<Longrightarrow> balanced t = balanced s" "core_of t = core_of s \<Longrightarrow> lines_wf t = lines_wf s"
  by (auto simp: core_of_def balanced_def lines_of_def lines_wf_def fun_eq_iff)

lemma entries_wf_core:
  assumes "entries_wf s" "core_of t = core_of s" "next_id s \<le> next_id t"
  shows "entries_wf t"
  using assms(1,3) by (auto simp: entries_wf_def core_of_eqD [OF assms(2)] intro: less_le_trans)

interpretation core_journal: core_invariant journal_inv
proof
  fix s t assume s: "journal_inv s" and core: "core_of t = core_of s" and ids: "next_id s \<le> next_id t"
  then show "journal_inv t"
    using entries_wf_core [OF _ core ids] lines_balanced_core [OF core]
    by (simp add: journal_inv_def core_of_eqD [OF core])
qed

interpretation core_journal_tx: core_invariant journal_tx_inv
proof
  fix s t assume s: "journal_tx_inv s" and core: "core_of t = core_of s" and ids: "next_id s \<le> next_id t"
  then show "journal_tx_inv t"
    using entries_wf_core [OF _ core ids] lines_balanced_core [OF core]
    by (simp add: journal_tx_inv_def core_of_eqD [OF core])
qed

interpretation core_audit: core_invariant "audit_ok env"
proof
  fix s t assume "audit_ok env s" and core: "core_of t = core_of s"
  then show "audit_ok env t" by (simp add: audit_ok_def core_of_eqD [OF core])
qed

interpretation core_numbers: core_invariant "numbers_wf n"
proof
  fix s t assume "numbers_wf n s" and core: "core_of t = core_of s"
  then show "numbers_wf n t" by (simp add: numbers_wf_def core_of_eqD [OF core])
qed

interpretation core_items: core_invariant items_wf
proof
  fix s t assume "items_wf s" and core: "core_of t = core_of s" and ids: "next_id s \<le> next_id t"
  then show "items_wf t"
    using side_wf_mono [OF _ ids] by (simp add: items_wf_def core_of_eqD [OF core])
qed

interpretation core_payments: core_invariant reconciled
proof
  fix s t assume s: "reconciled s" and core: "core_of t = core_of s" and ids: "next_id s \<le> next_id t"
  then have "items_wf t" by (intro core_items.core_cong [OF _ core]) (simp_all add: reconciled_def)
  moreover have "items_of d t = items_of d s" for d
    by (cases d) (simp_all add: core_of_eqD [OF core])
  ultimately show "reconciled t"
    using s ids by (auto simp: reconciled_def payments_wf_def core_of_eqD [OF core] intro: less_le_trans)
qed

interpretation core_kept: core_invariant "kept h"
  by unfold_locales (rule kept_frame, simp_all add: core_of_def)

lemmas keeps_lateral =
  core_journal.keeps_lateral core_journal_tx.keeps_lateral core_audit.keeps_lateral
  core_numbers.keeps_lateral core_payments.keeps_lateral core_items.keeps_lateral
  core_kept.keeps_lateral

section \<open>The books\<close>

text \<open>What every operation of the service keeps, for any record \<open>h\<close> of posted entries.\<close>

definition books :: "env \<Rightarrow> (entry \<times> jline list) list \<Rightarrow> db \<Rightarrow> bool" where
  "books env h s \<longleftrightarrow> journal_inv s \<and> reconciled s \<and> audit_ok env s \<and> numbers_wf 0 s \<and> kept h s"

lemma keeps_booksI:
  assumes "keeps journal_inv m" "keeps reconciled m" "keeps (audit_ok env) m" "\<And>n. keeps (numbers_wf n) m"
    "keeps (kept h) m"
  shows "keeps (books env h) m"
  using assms by (simp add: keeps_def books_def)

lemma books_hash: "env_hash env' = env_hash env \<Longrightarrow> books env' h = books env h"
proof -
  assume h: "env_hash env' = env_hash env"
  then have "row_hash env' = row_hash env"
    by (simp add: row_hash_def EventHash_def SimpleHash_def fun_eq_iff)
  then have "chained env' p rs = chained env p rs" for p rs
    by (induction rs arbitrary: p) simp_all
  then show ?thesis by (simp add: books_def audit_ok_def fun_eq_iff)
qed

interpretation core_books: core_invariant "books env h"
proof
  fix s t assume s: "books env h s" and core: "core_of t = core_of s" and ids: "next_id s \<le> next_id t"
  then show "books env h t"
    using core_journal.core_cong [OF _ core ids] core_payments.core_cong [OF _ core ids]
      core_audit.core_cong [OF _ core ids] core_numbers.core_cong [OF _ core ids]
      core_kept.core_cong [OF _ core ids]
    by (simp add: books_def)
qed

lemmas keeps_books_lateral = core_books.keeps_lateral

lemma keeps_audit_booking:
  assumes "\<And>f i. side = Some f \<Longrightarrow> keeps (audit_ok env) (f i)"
  shows "keeps (audit_ok env) (BookPostedEntry env p ev ty t side a)"
  unfolding BookPostedEntry_def booking_tx_def insertPostedEntryTx_def Let_def
  using assms by (intro keeps_intros) auto

text \<open>The journal operations, bookings with a side effect on a side table, and their service calls.\<close>

lemma keeps_books_BookPostedEntry [keeps_intros]:
  assumes "\<And>f i. side = Some f \<Longrightarrow> lateral (f i)"
  shows "keeps (books env h) (BookPostedEntry env p ev ty t side a)"
  by (intro keeps_booksI keeps_BookPostedEntry pay.sub_BookPostedEntry keeps_audit_booking
      keeps_numbers_BookPostedEntry keeps_kept_BookPostedEntry keeps_lateral assms)

lemma keeps_numbers_next_Create:
  "keeps (numbers_wf n) (bind NextEntryNumber (\<lambda>entryNumber.
     repo_CreateJournalEntry env (p\<lparr>jp_number := entryNumber\<rparr>)))"
  unfolding NextEntryNumber_def by (rule keeps_numbers_next) (rule keeps_numbers_repo_Create, auto)

lemma keeps_audit_journal:
  "keeps (audit_ok env) (repo_CreateJournalEntry env' p)" "keeps (audit_ok env) (ReverseEntry env i r a)"
  "keeps (audit_ok env) (MarkEntryPosted env i t a)" "keeps (audit_ok env) (DeleteDraftEntry i)"
  "keeps (audit_ok env) (SetPeriodStatus env' q st u)"
  unfolding repo_CreateJournalEntry_def ReverseEntry_def reverse_posted_def MarkEntryPosted_def DeleteDraftEntry_def
    SetPeriodStatus_def Let_def
  by (intro keeps_intros)+

lemma keeps_kept_SetPeriodStatus [keeps_intros]: "keeps (kept h) (SetPeriodStatus env q st u)"
  unfolding SetPeriodStatus_def by (intro keeps_intros)

lemma keeps_numbers_SetPeriodStatus: "keeps (numbers_wf n) (SetPeriodStatus env q st u)"
  unfolding SetPeriodStatus_def upsert_period_def by (intro keeps_intros) auto

lemma keeps_books_journal [keeps_intros]:
  "keeps (books env h) (ReverseEntry env i r a)" "keeps (books env h) (MarkEntryPosted env i t a)"
  "keeps (books env h) (DeleteDraftEntry i)" "keeps (books env h) (SetPeriodStatus env q st u)"
  by (intro keeps_booksI keeps_audit_journal keeps_numbers_SetPeriodStatus; (intro keeps_intros)?)+

lemma keeps_books_next_Create [keeps_intros]:
  "keeps (books env h) (bind NextEntryNumber (\<lambda>entryNumber.
     repo_CreateJournalEntry env (p\<lparr>jp_number := entryNumber\<rparr>)))"
  by (intro keeps_booksI keeps_numbers_next_Create keeps_bind keeps_audit_journal)
    (auto simp: NextEntryNumber_def intro: keeps_intros)

lemma keeps_books_CreateJournalEntry [keeps_intros]: "keeps (books env h) (CreateJournalEntry env inp)"
proof -
  define p where "p rs = \<lparr>jp_number = '''', jp_desc = ce_desc inp, jp_status = Draft,
         jp_source_event = ce_source_event inp, jp_source_service = ce_source_service inp,
         jp_correlation = ce_correlation inp, jp_created_by = ce_created_by inp,
         jp_acc_date = ce_acc_date inp, jp_currency = '''', jp_fx_rate = 0, jp_lines = rs,
         jp_counterparty = ce_counterparty inp\<rparr>" for rs
  have "keeps (books env h) (bind NextEntryNumber (\<lambda>n. repo_CreateJournalEntry env ((p rs)\<lparr>jp_number := n\<rparr>)))" for rs
    by (rule keeps_books_next_Create)
  note create = this [unfolded p_def, simplified]
  show ?thesis
    unfolding CreateJournalEntry_def
    by (intro keeps_if keeps_fail keeps_bind [OF keeps_check] keeps_bind [OF keeps_case_option]
        keeps_ok keeps_IsEventProcessed keeps_bind [OF keeps_resolveLines] create)
qed

lemma keeps_books_service [keeps_intros]:
  "keeps (books env h) (PostJournalEntry env i actor)" "keeps (books env h) (ReverseJournalEntry env i r actor)"
  "keeps (books env h) (BookFromEvent env ref d c ls)"
  unfolding PostJournalEntry_def ReverseJournalEntry_def BookFromEvent_def Let_def
  by (intro keeps_intros; simp)+

lemma keeps_books_supersede [keeps_intros]: "keeps (books env h) (SupersedeEntriesBySource env sv d r a)"
proof -
  have one: "keeps (books env h) (supersede_one env r a x out)" for x out
  proof (cases x)
    case (Pair i st)
    show ?thesis unfolding Pair supersede_one_def Let_def prod.case by (intro keeps_intros)
  qed
  have "keeps (books env h) (supersede_loop env r a xs out)" for xs out
    by (induction xs arbitrary: out) (auto intro!: keeps_intros one)
  then show ?thesis unfolding SupersedeEntriesBySource_def ListEntriesBySource_def by (intro keeps_intros)
qed

end
