(* ===== verification/Books.thy ===== *)
theory Books
  imports Side_Tables
begin

text \<open>
  The books are kept by the operations of the earlier components: open items, payments, credit and
  debit notes, revaluation, the chart, the exchange rates and the outbox.
\<close>

section \<open>The chart, the rates and the outbox\<close>

lemma keeps_numbers_frame:
  "(\<And>s. entries (snd (m s)) = entries s \<and> entry_seq (snd (m s)) = entry_seq s) \<Longrightarrow> keeps (numbers_wf n) m"
  by (simp add: keeps_def numbers_wf_def)

lemma keeps_audit_frame: "(\<And>s. audit (snd (m s)) = audit s) \<Longrightarrow> keeps (audit_ok env) m"
  by (simp add: keeps_def audit_ok_def)

lemma chart_frame:
  "entries (snd (insert_account a s)) = entries s" "entry_seq (snd (insert_account a s)) = entry_seq s"
  "audit (snd (insert_account a s)) = audit s"
  "entries (snd (UpdateChartAccount i n t c p x r s)) = entries s"
  "entry_seq (snd (UpdateChartAccount i n t c p x r s)) = entry_seq s"
  "audit (snd (UpdateChartAccount i n t c p x r s)) = audit s"
  by (auto simp: insert_account_def UpdateChartAccount_def Let_def)

lemma chart_frame_journal:
  "jlines (snd (insert_account a s)) = jlines s" "next_id s \<le> next_id (snd (insert_account a s))"
  "jlines (snd (UpdateChartAccount i n t c p x r s)) = jlines s"
  "next_id s \<le> next_id (snd (UpdateChartAccount i n t c p x r s))"
  by (auto simp: insert_account_def UpdateChartAccount_def Let_def)

lemma keeps_seed_account_others:
  "keeps (numbers_wf n) (seed_account x)" "keeps (audit_ok env) (seed_account x)" "keeps (kept h) (seed_account x)"
  unfolding seed_account_def
  by (intro keeps_intros keeps_numbers_frame keeps_audit_frame keeps_kept_frame;
      simp add: chart_frame chart_frame_journal)+

lemma keeps_books_chart [keeps_intros]:
  "keeps (books env h) SeedChartOfAccounts" "keeps (books env h) (UpdateChartAccount i n t c p a r)"
  "keeps (books env h) (DeactivateChartAccount i)" "keeps (books env h) (CreateChartAccount code nm ty cur par)"
proof -
  show "keeps (books env h) SeedChartOfAccounts"
    by (intro keeps_booksI keeps_intros)
      (auto simp: SeedChartOfAccounts_def intro!: keeps_for_each keeps_seed_account_others)
  show "keeps (books env h) (UpdateChartAccount i n t c p a r)" "keeps (books env h) (DeactivateChartAccount i)"
    "keeps (books env h) (CreateChartAccount code nm ty cur par)"
    by (intro keeps_booksI keeps_intros keeps_numbers_frame keeps_audit_frame keeps_kept_frame;
        simp add: chart_frame chart_frame_journal DeactivateChartAccount_def CreateChartAccount_def)+
qed

lemma lateral_UpsertRate [lateral_intros]: "lateral (UpsertRate env c x d)"
  by (simp add: UpsertRate_def Let_def lateral_def core_of_def)

lemma lateral_enqueue [lateral_intros]: "lateral (enqueueOutboxTx ev)" "lateral (enqueue_opt ob)"
  by (cases ob; simp add: enqueueOutboxTx_def enqueue_opt_def lateral_def core_of_def)+

lemma lateral_mark [lateral_intros]: "lateral (MarkOutboxPublished env i)" "lateral (MarkOutboxFailed i m)"
  by (simp_all add: MarkOutboxPublished_def MarkOutboxFailed_def lateral_def core_of_def)

lemma lateral_map_each [lateral_intros]: "(\<And>x. lateral (f x)) \<Longrightarrow> lateral (map_each xs f)"
  by (induction xs) (auto intro!: lateral_intros)

lemma lateral_drain [lateral_intros]: "lateral (drain env answer)"
proof -
  have "lateral (relay_row env answer row)" for row
    by (cases "answer row") (auto simp: relay_row_def intro!: lateral_intros)
  then show ?thesis unfolding drain_def FetchUnpublishedOutbox_def Let_def by (intro lateral_intros)
qed

lemmas keeps_books_side [keeps_intros] =
  lateral_UpsertRate [THEN keeps_books_lateral] lateral_enqueue [THEN keeps_books_lateral]
  lateral_mark [THEN keeps_books_lateral] lateral_drain [THEN keeps_books_lateral]

section \<open>Open items\<close>

text \<open>A change of the open items that leaves what was paid alone.\<close>

lemma keeps_books_items:
  assumes "keeps reconciled m"
    and "\<And>s. journal_view (snd (m s)) = (entries s, jlines s, touched s, next_id (snd (m s)), map a_id (accounts s))"
    and "\<And>s. next_id s \<le> next_id (snd (m s))" "\<And>s. audit (snd (m s)) = audit s"
    and "\<And>s. entry_seq (snd (m s)) = entry_seq s"
  shows "keeps (books env h) m"
proof (intro keeps_booksI assms(1) keeps_numbers_frame keeps_audit_frame keeps_kept_frame)
  show "keeps journal_inv m"
  proof (rule keepsI)
    fix s assume s: "journal_inv s"
    let ?t = "s\<lparr>next_id := next_id (snd (m s))\<rparr>"
    have "journal_inv ?t"
      by (rule core_journal.core_cong [OF s]) (simp_all add: core_of_def assms(3))
    moreover have "journal_view (snd (m s)) = journal_view ?t"
      using assms(2) [of s] by (simp add: journal_view_def)
    ultimately show "journal_inv (snd (m s))" using journal_view_cong(2) by metis
  qed
  show "entries (snd (m s)) = entries s \<and> entry_seq (snd (m s)) = entry_seq s" for s
    using assms(2) [of s] assms(5) [of s] by (simp add: journal_view_def)
  show "entries (snd (m s)) = entries s \<and> jlines (snd (m s)) = jlines s \<and> next_id s \<le> next_id (snd (m s))" for s
    using assms(2) [of s] assms(3) [of s] by (simp add: journal_view_def)
qed (rule assms(4))

lemma paid_total_fresh: "payments_wf s \<Longrightarrow> paid_total d (next_id s) (payments s) = 0"
  by (rule paid_total_none) (auto simp: payments_wf_def)

lemma keeps_reconciled_insert_item [keeps_intros]:
  assumes rnd: "rounding_laws (env_round env)" and new: "oi_paid row = 0"
  shows "keeps reconciled (insert_item env d row)"
proof (rule keepsI)
  fix s assume s: "reconciled s"
  let ?r = "row\<lparr>oi_id := next_id s, oi_amount := env_round env (oi_amount row) 2,
                oi_fx_rate := env_round env (oi_fx_rate row) 8\<rparr>"
  let ?s = "s\<lparr>next_id := Suc (next_id s)\<rparr>"
  show "reconciled (snd (insert_item env d row s))"
  proof (cases "snd (insert_item env d row s) = s")
    case True
    with s show ?thesis by simp
  next
    case False
    then have t: "snd (insert_item env d row s) = set_items d (items_of d s @ [?r]) ?s"
      and ok: "0 < oi_amount ?r" "oi_document_ref ?r \<notin> oi_document_ref ` set (items_of d s)"
      by (auto simp: insert_item_def Let_def split: if_splits)
    have s': "reconciled ?s"
      by (rule core_payments.core_cong [OF s]) (simp_all add: core_of_def)
    have old: "side_wf (next_id s) (items_of d s)" using s by (simp add: reconciled_def items_wf_alt)
    then have wf: "side_wf (next_id ?s) (items_of d s @ [?r])"
      using ok new round_places [OF rnd] by (auto simp: side_wf_def item_ok_def less_Suc_eq)
    have "oi_paid i = paid_total d' (oi_id i) (payments s)"
      if "i \<in> set (items_of d' (set_items d (items_of d s @ [?r]) ?s))" for d' i
    proof (cases "d' = d \<and> i = ?r")
      case True
      then show ?thesis using new s paid_total_fresh by (simp add: reconciled_def)
    next
      case False
      with that have "i \<in> set (items_of d' s)"
        by (cases d; cases d') (auto simp: set_items_def)
      with s show ?thesis by (simp add: reconciled_def)
    qed
    with wf s' show ?thesis
      unfolding t using items_wf_set_items [OF _ wf] by (auto simp: reconciled_def payments_wf_def)
  qed
qed

lemma insert_item_frame:
  "journal_view (snd (insert_item env d row s)) =
     (entries s, jlines s, touched s, next_id (snd (insert_item env d row s)), map a_id (accounts s))"
  "next_id s \<le> next_id (snd (insert_item env d row s))"
  "audit (snd (insert_item env d row s)) = audit s" "entry_seq (snd (insert_item env d row s)) = entry_seq s"
  by (simp_all add: insert_item_def Let_def journal_view_def)

lemma keeps_create_open_item:
  assumes "\<And>row. oi_paid row = 0 \<Longrightarrow> keeps I (insert_item env d row)" "keeps I (enqueue_opt ob)"
  shows "keeps I (bind (RateOrOne env c t) (\<lambda>fxRate. bind (insert_item env d
        \<lparr>oi_id = 0, oi_party_ref = party, oi_document_ref = ref, oi_desc = desc,
         oi_amount = amount, oi_paid = 0, oi_currency = c, oi_due = due, oi_status = Open,
         oi_entry = i, oi_source_event = sev, oi_fx_rate = fxRate,
         oi_entity = ent, oi_party_id = None, oi_notified = None\<rparr>) (\<lambda>i. bind (enqueue_opt ob) (\<lambda>_. ok i))))"
  using assms by (intro keeps_intros) simp_all

lemma keeps_insert_item_others:
  "keeps journal_tx_inv (insert_item env d row)" "keeps (audit_ok env') (insert_item env d row)"
  "keeps (numbers_wf n) (insert_item env d row)" "keeps (kept h) (insert_item env d row)"
proof -
  show "keeps journal_tx_inv (insert_item env d row)"
  proof (rule keepsI)
    fix s assume s: "journal_tx_inv s"
    let ?t = "s\<lparr>next_id := next_id (snd (insert_item env d row s))\<rparr>"
    have "journal_tx_inv ?t"
      by (rule core_journal_tx.core_cong [OF s]) (simp_all add: core_of_def insert_item_frame)
    moreover have "journal_view (snd (insert_item env d row s)) = journal_view ?t"
      unfolding insert_item_frame by (simp add: journal_view_def)
    ultimately show "journal_tx_inv (snd (insert_item env d row s))" using journal_view_cong(1) by metis
  qed
  show "keeps (audit_ok env') (insert_item env d row)"
    by (rule keeps_audit_frame) (simp add: insert_item_frame)
  show "keeps (numbers_wf n) (insert_item env d row)"
    using insert_item_frame(1) by (intro keeps_numbers_frame) (simp add: journal_view_def insert_item_frame)
  show "keeps (kept h) (insert_item env d row)"
    using insert_item_frame(1) by (intro keeps_kept_frame) (simp add: journal_view_def insert_item_frame)
qed

lemma keeps_books_create_open_item [keeps_intros]:
  assumes "rounding_laws (env_round env)"
  shows "keeps (books env' h) (create_open_item env d party ref desc amount c due i sev ob)"
  unfolding create_open_item_def
  by (intro keeps_booksI keeps_tx_journal pay.sub_tx keeps_audit_tx keeps_numbers_tx keeps_kept_tx keeps_create_open_item
      keeps_insert_item_others keeps_reconciled_insert_item lateral_enqueue [THEN keeps_lateral(1)]
      lateral_enqueue [THEN keeps_lateral(2)] lateral_enqueue [THEN keeps_lateral(3)]
      lateral_enqueue [THEN keeps_lateral(4)] lateral_enqueue [THEN keeps_lateral(5)]
      lateral_enqueue [THEN keeps_lateral(7)] assms)

text \<open>Amendments and deletions rewrite one side and keep what was paid on each of its items.\<close>

lemma keeps_books_rewrite:
  assumes "\<And>s. snd (m s) = s \<or> (\<exists>is. snd (m s) = set_items d is s \<and>
      (reconciled s \<longrightarrow> side_wf (next_id s) is \<and>
        (\<forall>i \<in> set is. \<exists>j \<in> set (items_of d s). oi_id i = oi_id j \<and> oi_paid i = oi_paid j)))"
  shows "keeps (books env h) m"
proof (rule keepsI)
  fix s assume s: "books env h s"
  from assms [of s] show "books env h (snd (m s))"
  proof (elim disjE exE conjE)
    assume "snd (m s) = s"
    with s show ?thesis by simp
  next
    fix "is" assume t: "snd (m s) = set_items d is s"
      and r: "reconciled s \<longrightarrow> side_wf (next_id s) is \<and>
        (\<forall>i \<in> set is. \<exists>j \<in> set (items_of d s). oi_id i = oi_id j \<and> oi_paid i = oi_paid j)"
    from s r have "reconciled (set_items d is s)"
      by (intro reconciled_set_items) (auto simp: books_def)
    with s show ?thesis
      unfolding t books_def using journal_view_cong(2) [OF set_items_view]
      by (auto simp: audit_ok_def numbers_wf_def elim: kept_frame)
  qed
qed

lemma keeps_books_update_open_item [keeps_intros]:
  "keeps (books env h) (update_open_item d ref party desc due status)"
proof (rule keeps_books_rewrite [where d = d])
  fix s :: db
  let ?m = "update_open_item d ref party desc due status"
  let ?f = "\<lambda>i. i\<lparr>oi_party_ref := coalesce party (oi_party_ref i),
              oi_desc := coalesce desc (oi_desc i),
              oi_due := (case due of None \<Rightarrow> oi_due i | Some x \<Rightarrow> Some x),
              oi_status := (case status of None \<Rightarrow> oi_status i
                            | Some x \<Rightarrow> (case parse_item_status x of None \<Rightarrow> oi_status i | Some st \<Rightarrow> st))\<rparr>"
  let ?is = "update_where (\<lambda>i. oi_document_ref i = ref \<and> oi_status i \<noteq> Closed) ?f (items_of d s)"
  have "snd (?m s) = s \<or> snd (?m s) = set_items d ?is s"
    by (auto simp: update_open_item_def Let_def)
  moreover have "side_wf (next_id s) ?is" if "reconciled s"
    using that by (intro side_wf_update) (auto simp: reconciled_def items_wf_alt item_ok_def)
  moreover have "\<forall>i \<in> set ?is. \<exists>j \<in> set (items_of d s). oi_id i = oi_id j \<and> oi_paid i = oi_paid j"
    by (auto simp: set_update_where)
  ultimately show "snd (?m s) = s \<or> (\<exists>is. snd (?m s) = set_items d is s \<and>
      (reconciled s \<longrightarrow> side_wf (next_id s) is \<and>
        (\<forall>i \<in> set is. \<exists>j \<in> set (items_of d s). oi_id i = oi_id j \<and> oi_paid i = oi_paid j)))"
    by blast
qed

lemma side_wf_filter: "side_wf n is \<Longrightarrow> side_wf n (filter P is)"
  by (auto simp: side_wf_def distinct_map_filter)

lemma keeps_books_delete_open_item [keeps_intros]: "keeps (books env h) (delete_open_item d ref)"
proof (rule keeps_books_rewrite [where d = d])
  fix s :: db
  let ?m = "delete_open_item d ref"
  let ?is = "filter (\<lambda>i. \<not> (oi_document_ref i = ref \<and> oi_status i = Open \<and> oi_paid i = 0)) (items_of d s)"
  have "snd (?m s) = s \<or> snd (?m s) = set_items d ?is s"
    by (auto simp: delete_open_item_def Let_def)
  moreover have "side_wf (next_id s) ?is" if "reconciled s"
    using that by (intro side_wf_filter) (auto simp: reconciled_def items_wf_alt)
  moreover have "\<forall>i \<in> set ?is. \<exists>j \<in> set (items_of d s). oi_id i = oi_id j \<and> oi_paid i = oi_paid j" by auto
  ultimately show "snd (?m s) = s \<or> (\<exists>is. snd (?m s) = set_items d is s \<and>
      (reconciled s \<longrightarrow> side_wf (next_id s) is \<and>
        (\<forall>i \<in> set is. \<exists>j \<in> set (items_of d s). oi_id i = oi_id j \<and> oi_paid i = oi_paid j)))"
    by blast
qed

section \<open>Payments, notes and revaluation\<close>

lemma keeps_numbers_payment_tx: "keeps (numbers_wf n) (payment_tx env p a)"
proof -
  have ins: "keeps (numbers_wf (Suc k)) (insertPostedEntryTx env (payment_journal p (entry_number k)) t)" for k t
    by (rule keeps_numbers_insertPostedEntryTx) auto
  have frame: "keeps (numbers_wf m) (lock_and_settle d i x)" "keeps (numbers_wf m) (write_paid env d i y)"
    "keeps (numbers_wf m) (insert_payment env row)" for m d i x y row
    by (rule keeps_numbers_frame;
        simp add: lock_and_settle_def write_paid_def insert_payment_def Let_def split: option.split prod.split)+
  show ?thesis
    unfolding payment_tx_def
    by (intro keeps_intros ins frame lateral_enqueue [THEN keeps_lateral(4)])
qed

lemma keeps_books_payments [keeps_intros]:
  assumes "rounding_laws (env_round env)"
  shows "keeps (books env h) (ApplyARPayment env i amount c ref actor ob)"
    "keeps (books env h) (ApplyAPPayment env i amount c ref actor ob)"
proof -
  have n: "keeps (numbers_wf n) (apply_payment d env i amount c ref actor ob)" for n d
    by (rule keeps_apply_payment) (rule keeps_numbers_payment_tx)
  have k: "keeps (kept h) (apply_payment d env i amount c ref actor ob)" for d
    by (rule keeps_apply_payment) (rule keeps_kept_payment_tx)
  show "keeps (books env h) (ApplyARPayment env i amount c ref actor ob)"
    "keeps (books env h) (ApplyAPPayment env i amount c ref actor ob)"
    by (intro keeps_booksI keeps_ApplyARPayment keeps_ApplyAPPayment keeps_reconciled_payments assms;
        simp add: ApplyARPayment_def ApplyAPPayment_def n k)+
qed

lemma keeps_books_CreateAdjustment [keeps_intros]:
  assumes "rounding_laws (env_round env)"
  shows "keeps (books env h) (CreateAdjustment env inp actor)"
  by (intro keeps_booksI keeps_adjustments keeps_CreateAdjustment keeps_BookAdjustment keeps_audit_booking
      keeps_numbers_BookPostedEntry keeps_kept_BookPostedEntry assms; auto intro: keeps_adjustment_side keeps_kept_adjustment_side)

lemma keeps_books_RevalueFX [keeps_intros]: "keeps (books env h) (RevalueFX env period actor)"
proof -
  have "keeps (books env h) (reval_booking env w ev q d ls a)" for w ev q d ls a
    unfolding reval_booking_def by (intro keeps_intros) simp
  note booking = this
  have "reads (resolveAccount code)" for code
    by (auto simp: resolveAccount_def reads_def GetAccountByCode_def bind_apply split: option.split)
  note account = this [THEN reads_keeps]
  show ?thesis
    unfolding RevalueFX_def Let_def OpenForeignBalances_def by (intro keeps_intros booking account)
qed

end
