(* ===== verification/Procurement.thy ===== *)
theory Procurement
  imports Books
begin

text \<open>
  The procure-to-pay postings: valued stock movements (\<open>ledger/inventory.go\<close>), goods-receipt
  accruals and vendor invoices against GR/IR (\<open>ledger/grir.go\<close>, \<open>repository/grni.go\<close>), tax
  codes, the VAT return and reverse charge (\<open>repository/tax.go\<close>).
\<close>

section \<open>Stock movements\<close>

definition inventoryAccount :: string where "inventoryAccount = ''1400''"
definition wipAccount :: string where "wipAccount = ''1450''"
definition grirAccount :: string where "grirAccount = ''2150''"
definition cogsAccount :: string where "cogsAccount = ''5000''"
definition SourceDocProcurementGRN :: string where "SourceDocProcurementGRN = ''procurement_grn''"

definition linesForMovement :: "string \<Rightarrow> string \<Rightarrow> rat \<Rightarrow> rat \<Rightarrow> string \<Rightarrow> line_input list" where
  "linesForMovement movementType sourceDocType amt totalCost memo =
     (if movementType = ''receipt'' then
        (if sourceDocType = SourceDocProcurementGRN then []
         else [dr inventoryAccount amt memo, cr grirAccount amt memo])
      else if movementType = ''issue'' then [dr cogsAccount amt memo, cr inventoryAccount amt memo]
      else if movementType = ''return'' then [dr inventoryAccount amt memo, cr cogsAccount amt memo]
      else if movementType = ''production_consume'' then
        [dr wipAccount amt memo, cr inventoryAccount amt memo]
      else if movementType = ''production_output'' then
        [dr inventoryAccount amt memo, cr wipAccount amt memo]
      else if movementType = ''adjustment'' then
        (if totalCost < 0 then [dr cogsAccount amt memo, cr inventoryAccount amt memo]
         else [dr inventoryAccount amt memo, cr cogsAccount amt memo])
      else [])"

definition BookInventoryMovement ::
  "env \<Rightarrow> event_ref \<Rightarrow> string \<Rightarrow> string \<Rightarrow> string \<Rightarrow> string \<Rightarrow> rat \<Rightarrow> journal option action" where
  "BookInventoryMovement env ref movementType sourceDocType docRef currency0 totalCost =
     (let currency = (if currency0 = '''' then env_base env else currency0);
          amt = abs totalCost;
          suffix = (if docRef \<noteq> '''' then '' '' @ docRef else '''');
          ls = linesForMovement movementType sourceDocType amt totalCost (''Inventory '' @ movementType @ suffix)
      in if amt = 0 then ok None
         else if ls = [] then ok None
         else BookFromEvent env ref (''Inventory movement '' @ movementType @ suffix) currency ls)"

section \<open>GR/IR accruals\<close>

definition GRNIAccrualOpen :: "string \<Rightarrow> (rat \<times> string) action" where
  "GRNIAccrualOpen po = gets (\<lambda>s. case row_by g_po po (grni s) of
     None \<Rightarrow> (0, '''') | Some g \<Rightarrow> (g_accrued g - g_cleared g, g_currency g))"

text \<open>\<open>INSERT \<dots> ON CONFLICT (po_ref) DO UPDATE SET x = grni_accruals.x + EXCLUDED.x\<close>.\<close>

definition upsert_grni :: "grni_row \<Rightarrow> (grni_row \<Rightarrow> grni_row) \<Rightarrow> unit action" where
  "upsert_grni new f = modify (\<lambda>s. s\<lparr>grni :=
     (if g_po new \<in> g_po ` set (grni s) then update_where (\<lambda>g. g_po g = g_po new) f (grni s)
      else grni s @ [new])\<rparr>)"

definition AddGRNIAccrualTx :: "env \<Rightarrow> string \<Rightarrow> string \<Rightarrow> rat \<Rightarrow> rat \<Rightarrow> unit action" where
  "AddGRNIAccrualTx env po currency amount qty =
     (let a = env_round env amount 2; q = env_round env qty 4
      in upsert_grni
        \<lparr>g_po = po, g_currency = currency, g_accrued = a, g_cleared = 0, g_qty_received = q,
         g_qty_invoiced = 0, g_match = ''open''\<rparr>
        (\<lambda>g. g\<lparr>g_accrued := g_accrued g + a, g_qty_received := g_qty_received g + q\<rparr>))"

definition ClearGRNIAccrualTx :: "env \<Rightarrow> string \<Rightarrow> string \<Rightarrow> rat \<Rightarrow> rat \<Rightarrow> unit action" where
  "ClearGRNIAccrualTx env po currency amount qty =
     (let a = env_round env amount 2; q = env_round env qty 4
      in upsert_grni
        \<lparr>g_po = po, g_currency = currency, g_accrued = 0, g_cleared = a, g_qty_received = 0,
         g_qty_invoiced = q, g_match = ''open''\<rparr>
        (\<lambda>g. g\<lparr>g_cleared := g_cleared g + a, g_qty_invoiced := g_qty_invoiced g + q\<rparr>))"

text \<open>The split of a value between stock and expense, the stock clamped into \<open>[0, value]\<close>.\<close>

definition clamp_stock :: "rat \<Rightarrow> rat \<Rightarrow> rat" where
  "clamp_stock value inventoryValue =
     (let stock = (if inventoryValue < 0 then 0 else inventoryValue)
      in if stock > value then value else stock)"

definition grnAccrualLines :: "rat \<Rightarrow> rat \<Rightarrow> line_input list" where
  "grnAccrualLines value inventoryValue =
     (let stock = clamp_stock value inventoryValue; expense = value - stock
      in (if stock > 0 then [dr inventoryAccount stock ''Goods received into stock''] else [])
         @ (if expense > 0 then [dr cogsAccount expense ''Goods received (GRNI)''] else [])
         @ [cr grirAccount value ''GR/IR accrual''])"

definition system_audit :: "event_ref \<Rightarrow> string \<Rightarrow> string \<Rightarrow> audit_info option" where
  "system_audit ref ty msg =
     Some \<lparr>ai_actor = ''system:'' @ er_source ref, ai_type = ty, ai_message = msg\<rparr>"

definition BookGRNAccrual ::
  "env \<Rightarrow> event_ref \<Rightarrow> string \<Rightarrow> string \<Rightarrow> rat \<Rightarrow> rat \<Rightarrow> rat \<Rightarrow> journal option action" where
  "BookGRNAccrual env ref currency0 po value inventoryValue qty =
     (if po = '''' \<or> value \<le> 0 then ok None
      else let currency = (if currency0 = '''' then env_base env else currency0) in
        bind (resolveLines (grnAccrualLines value inventoryValue)) (\<lambda>resolved.
        bind (resolvePostingWindow env ref) (\<lambda>window.
        bind (RateOrOne env currency (date_of (pw_transaction window))) (\<lambda>fxRate.
        bind (BookPostedEntry env
                (event_params ref window (describeDeferral (''Goods received accrual '' @ em_dash @ '' PO '' @ po) window)
                   currency fxRate resolved)
                (er_id ref) (er_type ref) (env_now env)
                (Some (\<lambda>_. AddGRNIAccrualTx env po currency value qty))
                (system_audit ref ''ledger.grni.accrued'' (''GR/IR accrual for PO '' @ po)))
          (\<lambda>(j, _). ok j)))))"

section \<open>Tax codes\<close>

definition ListTaxCodes :: "tax_code list action" where
  "ListTaxCodes = gets (\<lambda>s. sort_key (\<lambda>t. map (of_char :: char \<Rightarrow> nat) (tc_code t)) (tax_codes s))"

definition active_code :: "db \<Rightarrow> string \<Rightarrow> tax_code option" where
  "active_code s code = find (\<lambda>t. tc_code t = code \<and> tc_active t) (tax_codes s)"

definition GetTaxCode :: "string \<Rightarrow> (rat \<times> bool \<times> bool) action" where
  "GetTaxCode code = gets (\<lambda>s. case active_code s code of
     None \<Rightarrow> (0, False, False) | Some t \<Rightarrow> (tc_rate t, tc_reverse t, True))"

definition GetTaxRate :: "string \<Rightarrow> (rat \<times> bool) action" where
  "GetTaxRate code = gets (\<lambda>s. case active_code s code of
     None \<Rightarrow> (0, False) | Some t \<Rightarrow> (tc_rate t, True))"

definition UpsertTaxCode :: "env \<Rightarrow> string \<Rightarrow> string \<Rightarrow> rat \<Rightarrow> bool \<Rightarrow> bool \<Rightarrow> unit action" where
  "UpsertTaxCode env code name rate active reverse = (\<lambda>s.
     let t = \<lparr>tc_code = code, tc_name = name, tc_rate = env_round env rate 4, tc_active = active, tc_reverse = reverse\<rparr>
     in if tc_rate t < 0 then (Inl (CheckViolation ''tax_codes_rate_check''), s)
        else (Inr (), s\<lparr>tax_codes :=
          (if code \<in> tc_code ` set (tax_codes s) then update_where (\<lambda>x. tc_code x = code) (\<lambda>_. t) (tax_codes s)
           else tax_codes s @ [t])\<rparr>))"

definition accountIDByCode :: "string \<Rightarrow> id action" where
  "accountIDByCode code = bind (GetAccountByCode code) (\<lambda>a.
     case a of None \<Rightarrow> fail (ErrText (''account not found: '' @ code)) | Some x \<Rightarrow> ok (a_id x))"

definition ErrNotReverseCharge :: err where
  "ErrNotReverseCharge = ErrText ''tax code is not a reverse-charge code''"

definition SelfAssessReverseCharge ::
  "env \<Rightarrow> string \<Rightarrow> string \<Rightarrow> rat \<Rightarrow> time \<Rightarrow> audit_info option \<Rightarrow> journal option action" where
  "SelfAssessReverseCharge env code reference net postedAt audit_i =
     bind (GetTaxCode code) (\<lambda>(rate, reverse, found).
     if \<not> found \<or> \<not> reverse then fail ErrNotReverseCharge
     else let vat = env_round env (net * rate) 2 in
       if vat \<le> 0 then fail ErrNotReverseCharge
       else bind (accountIDByCode ''1300'') (\<lambda>inputID.
       bind (accountIDByCode ''2100'') (\<lambda>outputID.
       bind (BookPostedEntry env
         (default_params\<lparr>jp_desc := ''Reverse-charge VAT self-assessment '' @ reference,
            jp_source_event := Some (''reverse-charge:'' @ reference),
            jp_source_service := Some ''iag.finance'', jp_acc_date := Some (date_of postedAt),
            jp_lines := [mk_line inputID vat 0 ''Reverse-charge input VAT'' 0,
                         mk_line outputID 0 vat ''Reverse-charge output VAT'' 1]\<rparr>)
         (''reverse-charge:'' @ reference) ''finance.vat.reverse_charge'' postedAt
         (None :: (id \<Rightarrow> unit action) option) audit_i) (\<lambda>(j, _). ok j))))"

text \<open>Output and recoverable input VAT of the posted entries of \<open>[from, to]\<close>, in base currency.\<close>

definition in_range :: "date option \<Rightarrow> date option \<Rightarrow> date \<Rightarrow> bool" where
  "in_range lo hi d \<longleftrightarrow>
     (case lo of None \<Rightarrow> True | Some f \<Rightarrow> date_le f d) \<and> (case hi of None \<Rightarrow> True | Some t \<Rightarrow> date_le d t)"

definition posted_lines :: "db \<Rightarrow> (entry \<Rightarrow> bool) \<Rightarrow> string \<Rightarrow> jline list" where
  "posted_lines s P code =
     filter (\<lambda>l. (case entry_by_id s (l_entry l) of None \<Rightarrow> False | Some e \<Rightarrow> e_status e = Posted \<and> P e)
               \<and> map_option a_code (row_by a_id (l_account l) (accounts s)) = Some code) (jlines s)"

record vat_return =
  vr_output :: rat
  vr_input :: rat
  vr_net :: rat

definition VATReturn :: "env \<Rightarrow> date option \<Rightarrow> date option \<Rightarrow> vat_return action" where
  "VATReturn env lo hi = gets (\<lambda>s.
     let P = (\<lambda>e. in_range lo hi (e_acc_date e));
         out_vat = base_credits (posted_lines s P ''2100'') - base_debits (posted_lines s P ''2100'');
         in_vat = base_debits (posted_lines s P ''1300'') - base_credits (posted_lines s P ''1300'')
     in \<lparr>vr_output = env_round env out_vat 2, vr_input = env_round env in_vat 2,
         vr_net = env_round env (out_vat - in_vat) 2\<rparr>)"

section \<open>Vendor invoices\<close>

definition sane_vat :: "rat \<Rightarrow> rat \<Rightarrow> rat" where
  "sane_vat gross vat = (if vat < 0 \<or> vat > gross then 0 else vat)"

definition invoice_lines :: "string \<Rightarrow> rat \<Rightarrow> rat \<Rightarrow> rat \<Rightarrow> rat \<Rightarrow> line_input list" where
  "invoice_lines po gross vat inventoryValue rcVAT =
     (let net = gross - vat; stock = clamp_stock net inventoryValue
      in (if po \<noteq> '''' \<and> net > 0 then [dr grirAccount net ''GR/IR clearing'']
          else if net > 0 then
            (if stock > 0 then [dr inventoryAccount stock ''Purchased into stock''] else [])
            @ (if net - stock > 0 then [dr cogsAccount (net - stock) ''Expense / COGS''] else [])
          else [])
         @ (if vat > 0 then [dr ''1300'' vat ''Input VAT''] else [])
         @ [cr ''2000'' gross ''AP liability'']
         @ (if rcVAT > 0 then [dr ''1300'' rcVAT ''Reverse-charge input VAT'',
                               cr ''2100'' rcVAT ''Reverse-charge output VAT''] else []))"

definition reverse_charge_vat :: "env \<Rightarrow> bool \<Rightarrow> string \<Rightarrow> rat \<Rightarrow> rat action" where
  "reverse_charge_vat env reverseCharge taxCode net =
     (if reverseCharge \<and> taxCode \<noteq> '''' then
        bind (GetTaxCode taxCode) (\<lambda>(rate, _, found). ok (if found then env_round env (net * rate) 2 else 0))
      else ok 0)"

definition BookAPInvoice ::
  "env \<Rightarrow> event_ref \<Rightarrow> string \<Rightarrow> string \<Rightarrow> string \<Rightarrow> rat \<Rightarrow> rat \<Rightarrow> rat \<Rightarrow> bool \<Rightarrow> string \<Rightarrow> rat \<Rightarrow> journal option action" where
  "BookAPInvoice env ref description currency0 po gross vat0 inventoryValue reverseCharge taxCode qty =
     (if gross \<le> 0 then fail ErrEmptyEntry
      else let vat = sane_vat gross vat0; net = gross - vat in
        bind (reverse_charge_vat env reverseCharge taxCode net) (\<lambda>rcVAT.
        let ls = invoice_lines po gross vat inventoryValue rcVAT in
        bind (check (validateBalance ls)) (\<lambda>_.
        bind (resolveLines ls) (\<lambda>resolved.
        bind (resolvePostingWindow env ref) (\<lambda>window.
        let currency = (if currency0 = '''' then env_base env else currency0);
            desc = describeDeferral description window in
        bind (RateOrOne env currency (date_of (pw_transaction window))) (\<lambda>fxRate.
        bind (BookPostedEntry env (event_params ref window desc currency fxRate resolved)
                (er_id ref) (er_type ref) (env_now env)
                (if po \<noteq> '''' \<and> net > 0 then Some (\<lambda>_. ClearGRNIAccrualTx env po currency net qty) else None)
                (system_audit ref ''ledger.booked'' desc)) (\<lambda>(j, _). ok j)))))))"

section \<open>The postings keep the books\<close>

lemma lateral_grni [lateral_intros]:
  "lateral (upsert_grni g f)" "lateral (AddGRNIAccrualTx env po c a q)" "lateral (ClearGRNIAccrualTx env po c a q)"
  by (simp_all add: lateral_def core_of_def upsert_grni_def AddGRNIAccrualTx_def ClearGRNIAccrualTx_def Let_def)

lemma lateral_UpsertTaxCode [lateral_intros]: "lateral (UpsertTaxCode env c n r a rv)"
  by (simp add: UpsertTaxCode_def lateral_def core_of_def Let_def)

lemma reads_procurement [reads_intros]:
  "reads (GetTaxCode c)" "reads (accountIDByCode c)" "reads (GRNIAccrualOpen po)"
  unfolding GetTaxCode_def accountIDByCode_def GetAccountByCode_def GRNIAccrualOpen_def by (intro reads_intros)+

lemmas keeps_reads_procurement [keeps_intros] = reads_procurement [THEN reads_keeps]

lemma keeps_books_procurement [keeps_intros]:
  "keeps (books env h) (BookInventoryMovement env ref mt sd dref c cost)"
  "keeps (books env h) (BookGRNAccrual env ref c po v iv q)"
  "keeps (books env h) (SelfAssessReverseCharge env code rf net t a)"
  "keeps (books env h) (BookAPInvoice env ref d c po g vat iv rc tc q)"
  unfolding BookInventoryMovement_def BookGRNAccrual_def SelfAssessReverseCharge_def BookAPInvoice_def
    reverse_charge_vat_def Let_def
  by (intro keeps_intros; auto intro!: lateral_intros split: if_splits)+

lemmas keeps_books_tax [keeps_intros] = lateral_UpsertTaxCode [THEN keeps_books_lateral]

end
