(* ===== verification/Matching.thy ===== *)
theory Matching
  imports Procurement
begin

text \<open>
  The review of what the procure-to-pay postings leave open: the three-way match over the GR/IR
  accruals with its exceptions and the write-off of a residual (\<open>repository/threewaymatch.go\<close>,
  \<open>ledger/threewaymatch.go\<close>), and the subledger of the payments clearing account
  (\<open>ledger/paymentsclearing.go\<close>, \<open>repository/payments_clearing.go\<close>). The listing of the exceptions
  is not modelled.
\<close>

section \<open>Three-way match\<close>

definition ErrNoVariance :: err where
  "ErrNoVariance = ErrText ''no GR/IR variance to write off''"

definition ErrMatchExceptionNotFound :: err where
  "ErrMatchExceptionNotFound = ErrText ''match exception not found''"

definition MatchTolerance :: "rat action" where
  "MatchTolerance = gets (\<lambda>s. case match_tolerance s of None \<Rightarrow> 2 / 100 | Some d \<Rightarrow> d)"

definition value_variance :: "rat \<Rightarrow> grni_row \<Rightarrow> bool" where
  "value_variance tolerance a \<longleftrightarrow> abs (g_accrued a - g_cleared a) > abs (g_accrued a * tolerance)"

definition quantity_variance :: "rat \<Rightarrow> grni_row \<Rightarrow> bool" where
  "quantity_variance tolerance a \<longleftrightarrow> g_qty_received a > 0 \<and> g_qty_invoiced a > 0 \<and>
     abs (g_qty_received a - g_qty_invoiced a) > abs (g_qty_received a * tolerance)"

definition upsertMatchException :: "string \<Rightarrow> string \<Rightarrow> string \<Rightarrow> unit action" where
  "upsertMatchException po typ detail = modify (\<lambda>s.
     if \<exists>x \<in> set (match_exceptions s). mx_po x = po \<and> mx_type x = typ
     then s\<lparr>match_exceptions := update_where (\<lambda>x. mx_po x = po \<and> mx_type x = typ \<and> mx_open x)
                                 (\<lambda>x. x\<lparr>mx_detail := detail\<rparr>) (match_exceptions s)\<rparr>
     else s\<lparr>match_exceptions := match_exceptions s @
              [\<lparr>mx_id = next_id s, mx_po = po, mx_type = typ, mx_detail = detail, mx_open = True,
                mx_resolved_by = ''''\<rparr>], next_id := Suc (next_id s)\<rparr>)"

definition resolve_exceptions :: "(match_exception \<Rightarrow> bool) \<Rightarrow> string \<Rightarrow> unit action" where
  "resolve_exceptions P actor = modify (\<lambda>s. s\<lparr>match_exceptions :=
     update_where (\<lambda>x. P x \<and> mx_open x) (\<lambda>x. x\<lparr>mx_open := False, mx_resolved_by := actor\<rparr>)
       (match_exceptions s)\<rparr>)"

definition set_match_status :: "string \<Rightarrow> string \<Rightarrow> unit action" where
  "set_match_status po st = modify (\<lambda>s. s\<lparr>grni :=
     update_where (\<lambda>g. g_po g = po) (\<lambda>g. g\<lparr>g_match := st\<rparr>) (grni s)\<rparr>)"

definition value_detail :: "env \<Rightarrow> rat \<Rightarrow> grni_row \<Rightarrow> string" where
  "value_detail env tolerance a =
     ''accrued '' @ env_show env (g_accrued a) @ '' vs cleared '' @ env_show env (g_cleared a)
     @ '' (residual '' @ env_show env (g_accrued a - g_cleared a) @ '', tolerance ''
     @ env_show env (abs (g_accrued a * tolerance)) @ '')''"

definition quantity_detail :: "env \<Rightarrow> rat \<Rightarrow> grni_row \<Rightarrow> string" where
  "quantity_detail env tolerance a =
     ''received '' @ env_show env (g_qty_received a) @ '' vs invoiced '' @ env_show env (g_qty_invoiced a)
     @ '' (delta '' @ env_show env (g_qty_received a - g_qty_invoiced a) @ '', tolerance ''
     @ env_show env (abs (g_qty_received a * tolerance)) @ '')''"

definition match_types :: "string list" where
  "match_types = [''price_variance'', ''over_invoice'', ''orphan_invoice'', ''qty_variance'']"

text \<open>One row of the pass, over the values read before it.\<close>

definition match_row :: "env \<Rightarrow> rat \<Rightarrow> grni_row \<Rightarrow> unit action" where
  "match_row env tolerance a =
     (let open_amount = g_accrued a - g_cleared a in
      if g_cleared a > 0 \<and> g_accrued a = 0 then
        bind (upsertMatchException (g_po a) ''orphan_invoice'' ''invoice cleared with no goods-receipt accrual'')
          (\<lambda>_. set_match_status (g_po a) ''pending'')
      else if g_accrued a > 0 \<and> g_cleared a > 0 then
        let valV = value_variance tolerance a; qtyV = quantity_variance tolerance a in
        bind (when_ok valV (upsertMatchException (g_po a)
                (if open_amount < 0 then ''over_invoice'' else ''price_variance'') (value_detail env tolerance a))) (\<lambda>_.
        bind (when_ok qtyV (upsertMatchException (g_po a) ''qty_variance'' (quantity_detail env tolerance a))) (\<lambda>_.
        bind (when_ok (\<not> valV \<and> \<not> qtyV)
                (resolve_exceptions (\<lambda>x. mx_po x = g_po a \<and> mx_type x \<in> set match_types) ''system:match'')) (\<lambda>_.
        set_match_status (g_po a) (if valV \<or> qtyV then ''variance'' else ''matched''))))
      else set_match_status (g_po a) ''open'')"

definition open_exceptions :: "db \<Rightarrow> nat" where
  "open_exceptions s = length (filter mx_open (match_exceptions s))"

definition DetectMatchExceptions :: "env \<Rightarrow> nat action" where
  "DetectMatchExceptions env =
     bind MatchTolerance (\<lambda>tolerance.
     bind (gets grni) (\<lambda>accs.
     bind (for_each accs (match_row env tolerance)) (\<lambda>_.
     gets open_exceptions)))"

definition ResolveMatchException :: "id \<Rightarrow> string \<Rightarrow> unit action" where
  "ResolveMatchException i actor = bind (gets match_exceptions) (\<lambda>xs.
     if \<not> (\<exists>x \<in> set xs. mx_id x = i \<and> mx_open x) then fail ErrMatchExceptionNotFound
     else resolve_exceptions (\<lambda>x. mx_id x = i) actor)"

definition variance_lines :: "id \<Rightarrow> id \<Rightarrow> string \<Rightarrow> rat \<Rightarrow> resolved_line list" where
  "variance_lines clearingID ppvID po residual =
     (if residual > 0
      then [mk_line clearingID residual 0 (''Clear GR/IR variance '' @ po) 0,
            mk_line ppvID 0 residual ''Purchase price variance'' 1]
      else [mk_line ppvID (- residual) 0 ''Purchase price variance'' 0,
            mk_line clearingID 0 (- residual) (''Clear GR/IR variance '' @ po) 1])"

definition equalise_accrual :: "string \<Rightarrow> id \<Rightarrow> unit action" where
  "equalise_accrual po = (\<lambda>_.
     bind (modify (\<lambda>s. s\<lparr>grni := update_where (\<lambda>g. g_po g = po)
             (\<lambda>g. g\<lparr>g_cleared := g_accrued g, g_match := ''matched''\<rparr>) (grni s)\<rparr>)) (\<lambda>_.
     resolve_exceptions (\<lambda>x. mx_po x = po) ''system:ppv''))"

definition WriteOffGRNIVariance ::
  "env \<Rightarrow> string \<Rightarrow> time \<Rightarrow> audit_info option \<Rightarrow> journal option action" where
  "WriteOffGRNIVariance env po postedAt audit_i =
     bind (gets (\<lambda>s. row_by g_po po (grni s))) (\<lambda>row.
     case row of
       None \<Rightarrow> fail ErrNoVariance
     | Some g \<Rightarrow>
         let residual = g_accrued g - g_cleared g;
             eventID = ''grir.variance:'' @ po @ '':'' @ format_date (date_of postedAt) in
         if residual = 0 then fail ErrNoVariance
         else bind (accountIDByCode ''2150'') (\<lambda>clearingID.
         bind (accountIDByCode ''5150'') (\<lambda>ppvID.
         bind (BookPostedEntry env
           (default_params\<lparr>jp_desc := ''GR/IR variance write-off '' @ em_dash @ '' PO '' @ po,
              jp_source_event := Some eventID, jp_source_service := Some ''iag.finance'',
              jp_currency := (if g_currency g = '''' then env_base env else g_currency g),
              jp_acc_date := Some (date_of postedAt),
              jp_lines := variance_lines clearingID ppvID po residual\<rparr>)
           eventID ''finance.grir.variance'' postedAt (Some (equalise_accrual po)) audit_i) (\<lambda>(j, _). ok j))))"

definition WriteOffMatchVariance :: "env \<Rightarrow> string \<Rightarrow> string \<Rightarrow> journal option action" where
  "WriteOffMatchVariance env po actor =
     bind (guardOpen (env_now env)) (\<lambda>_.
     WriteOffGRNIVariance env po (env_now env)
       (Some \<lparr>ai_actor = actorOrSystem actor, ai_type = ''finance.grir.variance'',
              ai_message = ''write off GR/IR variance PO '' @ po\<rparr>))"

section \<open>Payments clearing\<close>

definition PaymentsClearingAccount :: string where
  "PaymentsClearingAccount = ''1050''"

definition cashAccount :: string where
  "cashAccount = ''1000''"

record settlement_input =
  si_instruction :: string
  si_reference :: string
  si_origin :: string
  si_category :: string
  si_party :: string
  si_provider :: string
  si_amount :: rat
  si_currency :: string
  si_debit_account :: string
  si_debit_memo :: string
  si_desc :: string

text \<open>
  \<open>INSERT \<dots> ON CONFLICT (instruction_id) DO UPDATE \<dots> WHERE status = 'open'\<close>: a redelivery refreshes
  the description of an open row and leaves a cleared one alone.
\<close>

definition AddPaymentsClearingItemTx :: "env \<Rightarrow> settlement_input \<Rightarrow> time \<Rightarrow> unit action" where
  "AddPaymentsClearingItemTx env inp settledAt = (\<lambda>s.
     let amount = env_round env (si_amount inp) 2;
         settled = (if is_zero_time settledAt then env_now env else settledAt)
     in if \<not> amount > 0 then (Inl (CheckViolation ''payments_clearing_items_amount_check''), s)
        else if si_instruction inp \<in> ci_instruction ` set (clearing_items s)
        then (Inr (), s\<lparr>clearing_items :=
               update_where (\<lambda>c. ci_instruction c = si_instruction inp \<and> \<not> ci_cleared c)
                 (\<lambda>c. c\<lparr>ci_reference := si_reference inp, ci_origin := si_origin inp,
                        ci_category := si_category inp, ci_party := si_party inp,
                        ci_provider := si_provider inp\<rparr>) (clearing_items s)\<rparr>)
        else (Inr (), s\<lparr>clearing_items := clearing_items s @
               [\<lparr>ci_id = next_id s, ci_entity = default_entity, ci_reference = si_reference inp,
                 ci_origin = si_origin inp, ci_category = si_category inp, ci_party = si_party inp,
                 ci_provider = si_provider inp, ci_instruction = si_instruction inp,
                 ci_amount = amount, ci_currency = si_currency inp, ci_settled_at = settled,
                 ci_cleared = False, ci_document = None\<rparr>], next_id := Suc (next_id s)\<rparr>))"

definition ListPaymentsClearing :: "id list \<Rightarrow> bool option \<Rightarrow> int \<Rightarrow> clearing_item list action" where
  "ListPaymentsClearing entities cleared limit = gets (\<lambda>s.
     take (nat (if limit \<le> 0 \<or> limit > 500 then 200 else limit))
       (sort_key (\<lambda>c. - ci_settled_at c)
         (filter (\<lambda>c. ci_entity c \<in> set entities \<and> (case cleared of None \<Rightarrow> True | Some b \<Rightarrow> ci_cleared c = b))
           (clearing_items s))))"

definition ErrClearingItemNotFound :: err where
  "ErrClearingItemNotFound = ErrText ''payments clearing item not found or already cleared''"

definition ClearPaymentsClearingItem :: "id \<Rightarrow> string \<Rightarrow> clearing_item action" where
  "ClearPaymentsClearingItem i documentRef = (\<lambda>s.
     case find (\<lambda>c. ci_id c = i \<and> \<not> ci_cleared c) (clearing_items s) of
       None \<Rightarrow> (Inl ErrClearingItemNotFound, s)
     | Some c \<Rightarrow>
         if documentRef = '''' then (Inl (CheckViolation ''payments_clearing_cleared_has_document''), s)
         else (Inr (c\<lparr>ci_cleared := True, ci_document := Some documentRef\<rparr>),
               s\<lparr>clearing_items := update_where (\<lambda>c. ci_id c = i \<and> \<not> ci_cleared c)
                    (\<lambda>c. c\<lparr>ci_cleared := True, ci_document := Some documentRef\<rparr>) (clearing_items s)\<rparr>))"

definition openPaymentsClearingTotal :: "id list \<Rightarrow> rat action" where
  "openPaymentsClearingTotal entities = gets (\<lambda>s. sum_list (map ci_amount
     (filter (\<lambda>c. \<not> ci_cleared c \<and> ci_entity c \<in> set entities) (clearing_items s))))"

definition openGRNIAccrualTotal :: "rat action" where
  "openGRNIAccrualTotal = gets (\<lambda>s. sum_list (map (\<lambda>g. g_accrued g - g_cleared g) (grni s)))"

definition settlement_lines :: "settlement_input \<Rightarrow> line_input list" where
  "settlement_lines inp =
     [dr (si_debit_account inp) (si_amount inp) (si_debit_memo inp),
      cr cashAccount (si_amount inp) ''Cash disbursed'']"

definition clearing_side ::
  "env \<Rightarrow> settlement_input \<Rightarrow> string \<Rightarrow> time \<Rightarrow> (id \<Rightarrow> unit action) option" where
  "clearing_side env inp currency settledAt =
     (if si_debit_account inp = PaymentsClearingAccount
      then Some (\<lambda>_. AddPaymentsClearingItemTx env (inp\<lparr>si_currency := currency\<rparr>) settledAt) else None)"

definition BookPaymentSettlement ::
  "env \<Rightarrow> event_ref \<Rightarrow> settlement_input \<Rightarrow> journal option action" where
  "BookPaymentSettlement env ref inp =
     (if si_amount inp \<le> 0 then ok None
      else let currency = (if si_currency inp = '''' then env_base env else si_currency inp) in
        bind (resolveLines (settlement_lines inp)) (\<lambda>resolved.
        bind (resolvePostingWindow env ref) (\<lambda>window.
        bind (RateOrOne env currency (date_of (pw_transaction window))) (\<lambda>fxRate.
        bind (BookPostedEntry env
                (event_params ref window (describeDeferral (si_desc inp) window) currency fxRate resolved)
                (er_id ref) (er_type ref) (env_now env)
                (clearing_side env inp currency (pw_transaction window))
                (system_audit ref ''ledger.payment.settled'' (si_desc inp))) (\<lambda>(j, _). ok j)))))"

section \<open>The review keeps the books\<close>

lemma lateral_matching [lateral_intros]:
  "lateral (upsertMatchException po ty d)" "lateral (resolve_exceptions P a)" "lateral (set_match_status po st)"
  "lateral (equalise_accrual po i)" "lateral (AddPaymentsClearingItemTx env inp t)"
  "lateral (ClearPaymentsClearingItem i rf)"
  by (auto simp: lateral_def core_of_def upsertMatchException_def resolve_exceptions_def set_match_status_def
      equalise_accrual_def AddPaymentsClearingItemTx_def ClearPaymentsClearingItem_def Let_def split: option.split)

lemma lateral_match_row [lateral_intros]: "lateral (match_row env t a)"
  unfolding match_row_def Let_def by (intro lateral_intros)

lemma lateral_match [lateral_intros]: "lateral (DetectMatchExceptions env)" "lateral (ResolveMatchException i a)"
  unfolding DetectMatchExceptions_def MatchTolerance_def ResolveMatchException_def by (intro lateral_intros)+

lemma keeps_books_matching [keeps_intros]:
  "keeps (books env h) (DetectMatchExceptions env')" "keeps (books env h) (ResolveMatchException i actor)"
  "keeps (books env h) (ClearPaymentsClearingItem i rf)" "keeps (books env h) (WriteOffMatchVariance env po actor)"
  "keeps (books env h) (BookPaymentSettlement env ref inp)"
proof -
  show "keeps (books env h) (DetectMatchExceptions env')" "keeps (books env h) (ResolveMatchException i actor)"
    "keeps (books env h) (ClearPaymentsClearingItem i rf)"
    by (intro keeps_books_lateral lateral_intros)+
  show "keeps (books env h) (WriteOffMatchVariance env po actor)" "keeps (books env h) (BookPaymentSettlement env ref inp)"
    unfolding WriteOffMatchVariance_def WriteOffGRNIVariance_def guardOpen_def IsPeriodClosed_def
      BookPaymentSettlement_def Let_def
    by (intro keeps_intros; auto simp: clearing_side_def intro!: lateral_intros split: if_splits)+
qed

end
