(* ===== verification/Payroll.thy ===== *)
theory Payroll
  imports Matching
begin

text \<open>
  Payroll (\<open>ledger/payroll.go\<close>, \<open>repository/payroll_runs.go\<close>,
  \<open>repository/payroll_leave_provisions.go\<close>, \<open>repository/payroll_leave_valuation.go\<close>) and the mirror of
  the personnel records (\<open>repository/payroll_erp.go\<close>): payroll runs and stated leave provisions go
  through the manual lifecycle of an entry, the valuation of the leave liability through the booking
  primitive with its record as the side effect.
\<close>

section \<open>Runs\<close>

definition acctSalaryExpense :: string where "acctSalaryExpense = ''5200''"
definition acctPAYEPayable :: string where "acctPAYEPayable = ''2200''"
definition acctNSSFPayable :: string where "acctNSSFPayable = ''2210''"
definition acctNetSalaryPayable :: string where "acctNetSalaryPayable = ''2220''"
definition acctOtherDeductions :: string where "acctOtherDeductions = ''2230''"
definition acctEmployerNSSFExpense :: string where "acctEmployerNSSFExpense = ''5210''"
definition acctAccruedLeave :: string where "acctAccruedLeave = ''2240''"

record payroll_input =
  pi_ref :: string
  pi_period :: string
  pi_gross :: rat
  pi_paye :: rat
  pi_nssf :: rat
  pi_other :: rat
  pi_net :: rat
  pi_currency :: string
  pi_employer :: rat

definition payroll_check :: "payroll_input \<Rightarrow> err option" where
  "payroll_check inp =
     (if pi_ref inp = '''' \<or> pi_period inp = '''' then Some (ErrText ''payroll run requires runRef and period'')
      else if pi_gross inp \<le> 0 \<or> pi_gross inp \<noteq> pi_paye inp + pi_nssf inp + pi_other inp + pi_net inp
      then Some ErrPayrollUnbalanced
      else if pi_employer inp < 0 then Some ErrPayrollUnbalanced
      else None)"

definition payroll_lines :: "payroll_input \<Rightarrow> line_input list" where
  "payroll_lines inp =
     [dr acctSalaryExpense (pi_gross inp) ''Gross salary'',
      cr acctNetSalaryPayable (pi_net inp) ''Net pay'']
     @ (if pi_paye inp > 0 then [cr acctPAYEPayable (pi_paye inp) ''PAYE withheld''] else [])
     @ (if pi_nssf inp > 0 then [cr acctNSSFPayable (pi_nssf inp) ''NSSF contribution''] else [])
     @ (if pi_other inp > 0 then [cr acctOtherDeductions (pi_other inp) ''Other deductions''] else [])
     @ (if pi_employer inp > 0
        then [dr acctEmployerNSSFExpense (pi_employer inp) ''Employer NSSF contribution'',
              cr acctNSSFPayable (pi_employer inp) ''Employer NSSF payable''] else [])"

definition GetPayrollRunByRef :: "string \<Rightarrow> payroll_run option action" where
  "GetPayrollRunByRef ref = gets (\<lambda>s. row_by pr_ref ref (payroll_runs s))"

definition RecordPayrollRun :: "payroll_run \<Rightarrow> payroll_run action" where
  "RecordPayrollRun row = (\<lambda>s.
     if pr_ref row \<in> pr_ref ` set (payroll_runs s)
     then (Inl (UniqueViolation ''payroll_runs_run_ref_key''), s)
     else if pr_entry row \<noteq> None \<and> pr_entry row \<notin> Some ` e_id ` set (entries s)
     then (Inl (ForeignKeyViolation ''payroll_runs_journal_entry_id_fkey''), s)
     else (Inr row, s\<lparr>payroll_runs := payroll_runs s @ [row]\<rparr>))"

definition ListPayrollRuns :: "int \<Rightarrow> payroll_run list action" where
  "ListPayrollRuns limit = gets (\<lambda>s.
     take (nat (if limit \<le> 0 \<or> limit > 500 then 100 else limit)) (rev (payroll_runs s)))"

text \<open>The draft and its posting; a posting that comes back without an entry would panic.\<close>

definition sourced_entry :: "string \<Rightarrow> string \<Rightarrow> line_input list \<Rightarrow> create_entry_input" where
  "sourced_entry desc ev ls =
     \<lparr>ce_desc = desc, ce_lines = ls, ce_source_event = Some ev, ce_source_service = Some ''payroll'',
      ce_correlation = None, ce_created_by = None, ce_acc_date = None, ce_counterparty = None\<rparr>"

definition create_and_post :: "env \<Rightarrow> string \<Rightarrow> string \<Rightarrow> line_input list \<Rightarrow> id action" where
  "create_and_post env desc ev ls =
     bind (CreateJournalEntry env (sourced_entry desc ev ls)) (\<lambda>entry.
     bind (PostJournalEntry env (e_id (j_entry entry)) ''system:payroll'') (\<lambda>posted.
     case posted of None \<Rightarrow> fail (ErrText ''nil entry'') | Some j \<Rightarrow> ok (e_id (j_entry j))))"

definition payroll_row :: "env \<Rightarrow> payroll_input \<Rightarrow> id \<Rightarrow> payroll_run" where
  "payroll_row env inp i =
     \<lparr>pr_ref = pi_ref inp, pr_period = pi_period inp, pr_gross = env_round env (pi_gross inp) 2,
      pr_paye = env_round env (pi_paye inp) 2, pr_nssf = env_round env (pi_nssf inp) 2,
      pr_other = env_round env (pi_other inp) 2, pr_net = env_round env (pi_net inp) 2,
      pr_currency = (if pi_currency inp = '''' then ''UGX'' else pi_currency inp),
      pr_employer = (if pi_employer inp = 0 then None else Some (env_round env (pi_employer inp) 2)),
      pr_entry = Some i\<rparr>"

definition PostPayrollRun :: "env \<Rightarrow> payroll_input \<Rightarrow> payroll_run action" where
  "PostPayrollRun env inp =
     bind (check (payroll_check inp)) (\<lambda>_.
     bind (GetPayrollRunByRef (pi_ref inp)) (\<lambda>existing.
     case existing of
       Some r \<Rightarrow> ok r
     | None \<Rightarrow>
         bind (create_and_post env
                 (''Payroll run '' @ pi_ref inp @ '' ('' @ pi_period inp @ '')'')
                 (''payroll:'' @ pi_ref inp) (payroll_lines inp)) (\<lambda>i.
         RecordPayrollRun (payroll_row env inp i))))"

section \<open>Stated leave provisions\<close>

record provision_input =
  pv_ref :: string
  pv_period :: string
  pv_amount :: rat
  pv_currency :: string
  pv_note :: string

definition leave_lines :: "rat \<Rightarrow> string \<Rightarrow> line_input list" where
  "leave_lines amount memo =
     (if amount > 0 then [dr acctSalaryExpense (abs amount) memo, cr acctAccruedLeave (abs amount) memo]
      else [dr acctAccruedLeave (abs amount) memo, cr acctSalaryExpense (abs amount) memo])"

definition GetLeaveProvisionByRef :: "string \<Rightarrow> leave_provision option action" where
  "GetLeaveProvisionByRef ref = gets (\<lambda>s. row_by lp_ref ref (leave_provisions s))"

definition RecordLeaveProvision :: "leave_provision \<Rightarrow> leave_provision action" where
  "RecordLeaveProvision row = (\<lambda>s.
     if lp_ref row \<in> lp_ref ` set (leave_provisions s)
     then (Inl (UniqueViolation ''payroll_leave_provisions_provision_ref_key''), s)
     else if lp_entry row \<noteq> None \<and> lp_entry row \<notin> Some ` e_id ` set (entries s)
     then (Inl (ForeignKeyViolation ''payroll_leave_provisions_journal_entry_id_fkey''), s)
     else (Inr row, s\<lparr>leave_provisions := leave_provisions s @ [row]\<rparr>))"

definition ListLeaveProvisions :: "string \<Rightarrow> int \<Rightarrow> leave_provision list action" where
  "ListLeaveProvisions period limit = gets (\<lambda>s.
     take (nat (if limit \<le> 0 \<or> limit > 500 then 100 else limit))
       (filter (\<lambda>r. period = '''' \<or> lp_period r = period) (rev (leave_provisions s))))"

definition PostLeaveProvision :: "env \<Rightarrow> provision_input \<Rightarrow> leave_provision action" where
  "PostLeaveProvision env inp =
     (if pv_ref inp = '''' \<or> pv_period inp = ''''
      then fail (ErrText ''leave provision requires provisionRef and period'')
      else if pv_amount inp = 0 then fail ErrLeaveProvisionZero
      else bind (GetLeaveProvisionByRef (pv_ref inp)) (\<lambda>existing.
      case existing of
        Some r \<Rightarrow> ok r
      | None \<Rightarrow>
          bind (create_and_post env
                  (''Leave provision '' @ pv_ref inp @ '' ('' @ pv_period inp @ '')'')
                  (''leave-provision:'' @ pv_ref inp)
                  (leave_lines (pv_amount inp) (''Accrued leave '' @ pv_period inp))) (\<lambda>i.
          RecordLeaveProvision
            \<lparr>lp_ref = pv_ref inp, lp_period = pv_period inp, lp_amount = env_round env (pv_amount inp) 2,
             lp_currency = (if pv_currency inp = '''' then ''UGX'' else pv_currency inp),
             lp_note = pv_note inp, lp_entry = Some i\<rparr>)))"

section \<open>The measured leave liability\<close>

definition numeric_text :: "env \<Rightarrow> string \<Rightarrow> rat action" where
  "numeric_text env x = (case env_parse env x of
     None \<Rightarrow> fail (ErrText ''invalid input syntax for type numeric'') | Some r \<Rightarrow> ok (env_round env r 2))"

definition UpsertLeaveBalance :: "env \<Rightarrow> string \<Rightarrow> string \<Rightarrow> int \<Rightarrow> string \<Rightarrow> string \<Rightarrow> unit action" where
  "UpsertLeaveBalance env employee ty year days event =
     bind (numeric_text env days) (\<lambda>d. modify (\<lambda>s.
       let same = (\<lambda>b. lb_employee b = employee \<and> lb_type b = ty \<and> lb_year b = year) in
       s\<lparr>leave_balances :=
         (if \<exists>b \<in> set (leave_balances s). same b
          then update_where same (\<lambda>b. b\<lparr>lb_days := d, lb_event := event\<rparr>) (leave_balances s)
          else leave_balances s @
            [\<lparr>lb_employee = employee, lb_type = ty, lb_year = year, lb_days = d, lb_event = event\<rparr>])\<rparr>))"

definition UpsertEmployeeRate :: "env \<Rightarrow> string \<Rightarrow> string \<Rightarrow> string \<Rightarrow> date \<Rightarrow> unit action" where
  "UpsertEmployeeRate env employee rate currency effective =
     bind (numeric_text env rate) (\<lambda>d. modify (\<lambda>s.
       let row = \<lparr>er_employee = employee, er_rate = d, er_currency = currency, er_from = effective\<rparr> in
       s\<lparr>employee_rates :=
         (if employee \<in> er_employee ` set (employee_rates s)
          then update_where (\<lambda>r. er_employee r = employee) (\<lambda>_. row) (employee_rates s)
          else employee_rates s @ [row])\<rparr>))"

record leave_liability =
  ll_total :: rat
  ll_valued :: nat
  ll_unrated :: nat

definition rate_of_employee :: "db \<Rightarrow> string \<Rightarrow> rat option" where
  "rate_of_employee s employee = map_option er_rate (row_by er_employee employee (employee_rates s))"

definition owed_balances :: "db \<Rightarrow> int \<Rightarrow> leave_balance list" where
  "owed_balances s year = filter (\<lambda>b. lb_year b = year \<and> lb_days b > 0) (leave_balances s)"

definition MeasureLeaveLiability :: "int \<Rightarrow> leave_liability action" where
  "MeasureLeaveLiability year = gets (\<lambda>s.
     let bs = owed_balances s year; rated = filter (\<lambda>b. rate_of_employee s (lb_employee b) \<noteq> None) bs
     in \<lparr>ll_total = sum_list (map (\<lambda>b. lb_days b * the (rate_of_employee s (lb_employee b))) rated),
         ll_valued = length rated, ll_unrated = length bs - length rated\<rparr>)"

fun latest_valuation :: "leave_valuation list \<Rightarrow> leave_valuation option" where
  "latest_valuation [] = None"
| "latest_valuation (r # rs) =
     (case latest_valuation rs of None \<Rightarrow> Some r
      | Some b \<Rightarrow> if date_le (lv_at b) (lv_at r) then Some r else Some b)"

definition LastLeaveValuationTotal :: "rat action" where
  "LastLeaveValuationTotal = gets (\<lambda>s.
     case latest_valuation (leave_valuations s) of None \<Rightarrow> 0 | Some v \<Rightarrow> lv_total v)"

definition GetLeaveValuation :: "date \<Rightarrow> leave_valuation option action" where
  "GetLeaveValuation d = gets (\<lambda>s. row_by lv_at d (leave_valuations s))"

text \<open>\<open>StringFixed(2)\<close> of the amounts, \<open>ON CONFLICT (valued_at) DO UPDATE\<close> of all but the currency.\<close>

definition RecordLeaveValuationTx :: "env \<Rightarrow> leave_valuation \<Rightarrow> unit action" where
  "RecordLeaveValuationTx env v = modify (\<lambda>s.
     let row = v\<lparr>lv_total := env_round env (lv_total v) 2, lv_movement := env_round env (lv_movement v) 2\<rparr> in
     s\<lparr>leave_valuations :=
       (if lv_at v \<in> lv_at ` set (leave_valuations s)
        then update_where (\<lambda>r. lv_at r = lv_at v) (\<lambda>r. row\<lparr>lv_currency := lv_currency r\<rparr>) (leave_valuations s)
        else leave_valuations s @ [row])\<rparr>)"

definition RecordLeaveValuation :: "env \<Rightarrow> leave_valuation \<Rightarrow> unit action" where
  "RecordLeaveValuation env v = RecordLeaveValuationTx env v"

definition valuation_booking ::
  "env \<Rightarrow> leave_valuation \<Rightarrow> resolved_line list \<Rightarrow> (journal option \<times> unit option) action" where
  "valuation_booking env v resolved =
     (let day = format_date (lv_at v); ev = ''leave-valuation:'' @ day;
          memo = ''Accrued leave valuation '' @ day
      in BookPostedEntry env
        (default_params\<lparr>jp_desc := memo, jp_source_event := Some ev, jp_source_service := Some ''payroll'',
           jp_currency := lv_currency v, jp_lines := resolved\<rparr>)
        ev ''payroll.leave.valued'' (time_of_date (lv_at v))
        (Some (\<lambda>entryID. RecordLeaveValuationTx env (v\<lparr>lv_entry := Some entryID\<rparr>)))
        (Some \<lparr>ai_actor = ''system:payroll'', ai_type = ''ledger.leave.valued'', ai_message = memo\<rparr>))"

definition ValueLeaveLiability :: "env \<Rightarrow> int \<Rightarrow> time \<Rightarrow> leave_valuation action" where
  "ValueLeaveLiability env year0 valuedAt =
     (let day = date_of valuedAt; year = (if year0 \<le> 0 then year_of day else year0) in
      bind (GetLeaveValuation day) (\<lambda>booked.
      case booked of
        Some v \<Rightarrow> ok v
      | None \<Rightarrow>
          bind (MeasureLeaveLiability year) (\<lambda>measured.
          bind LastLeaveValuationTotal (\<lambda>previous.
          let out = \<lparr>lv_at = day, lv_total = ll_total measured, lv_movement = ll_total measured - previous,
                     lv_currency = env_base env, lv_valued = ll_valued measured,
                     lv_unrated = ll_unrated measured, lv_entry = None\<rparr> in
          if lv_movement out = 0 then bind (RecordLeaveValuation env out) (\<lambda>_. ok out)
          else bind (resolveLines (leave_lines (lv_movement out)
                       (''Accrued leave valuation '' @ format_date day))) (\<lambda>resolved.
               bind (IsPeriodClosed (format_period day)) (\<lambda>closed.
               if closed then fail ErrPeriodClosed
               else bind (valuation_booking env out resolved) (\<lambda>(j, _).
                 case j of None \<Rightarrow> fail (ErrText ''nil entry'')
                 | Some x \<Rightarrow> ok (out\<lparr>lv_entry := Some (e_id (j_entry x))\<rparr>))))))))"

definition ListLeaveValuations :: "int \<Rightarrow> leave_valuation list action" where
  "ListLeaveValuations limit = gets (\<lambda>s.
     take (nat (if limit \<le> 0 \<or> limit > 500 then 100 else limit))
       (rev (sort_key (\<lambda>v. day_of_civil (lv_at v)) (leave_valuations s))))"

record balance_view =
  bv_balance :: leave_balance
  bv_rate :: "rat option"
  bv_value :: "rat option"
  bv_currency :: string

definition ListLeaveBalances :: "int \<Rightarrow> int \<Rightarrow> balance_view list action" where
  "ListLeaveBalances year limit = gets (\<lambda>s.
     take (nat (if limit \<le> 0 \<or> limit > 1000 then 200 else limit))
       (map (\<lambda>b. let rt = row_by er_employee (lb_employee b) (employee_rates s) in
               \<lparr>bv_balance = b, bv_rate = map_option er_rate rt,
                bv_value = map_option (\<lambda>r. lb_days b * er_rate r) rt,
                bv_currency = (case rt of None \<Rightarrow> '''' | Some r \<Rightarrow> er_currency r)\<rparr>)
          (sort_key (\<lambda>b. map (of_char :: char \<Rightarrow> nat) (lb_employee b))
            (sort_key (\<lambda>b. map (of_char :: char \<Rightarrow> nat) (lb_type b))
              (filter (\<lambda>b. year = 0 \<or> lb_year b = year) (leave_balances s))))))"

section \<open>The personnel mirror\<close>

definition errPayrollBadInput :: err where
  "errPayrollBadInput = ErrText ''no rows in result set''"

definition upd_registers :: "(registers \<Rightarrow> registers) \<Rightarrow> unit action" where
  "upd_registers f = modify (\<lambda>s. s\<lparr>registers_of := f (registers_of s)\<rparr>)"

text \<open>
  \<open>ON CONFLICT (employee_no) DO UPDATE \<dots> WHERE EXCLUDED.last_event_at >= last_event_at\<close>: an event
  older than the one mirrored changes nothing.
\<close>

definition mirror_employee :: "employee_ref \<Rightarrow> employee_ref \<Rightarrow> employee_ref" where
  "mirror_employee new old =
     new\<lparr>ee_user := (case ee_user new of None \<Rightarrow> ee_user old | Some u \<Rightarrow> Some u),
         ee_department := (case ee_department new of None \<Rightarrow> ee_department old | Some u \<Rightarrow> Some u),
         ee_operator := (case ee_operator new of None \<Rightarrow> ee_operator old | Some u \<Rightarrow> Some u)\<rparr>"

definition UpsertPayrollEmployeeRef :: "env \<Rightarrow> employee_ref \<Rightarrow> unit action" where
  "UpsertPayrollEmployeeRef env inp =
     (let no = trim_space (ee_no inp);
          moment = truncate_micros (if is_zero_time (ee_at inp) then env_now env else ee_at inp);
          nullif = (\<lambda>x. if x = Some '''' then None else x);
          new = inp\<lparr>ee_no := no, ee_at := moment, ee_department := nullif (ee_department inp),
                    ee_operator := nullif (ee_operator inp)\<rparr>
      in if no = '''' \<or> trim_space (ee_event inp) = '''' then fail errPayrollBadInput
         else upd_registers (\<lambda>r. r\<lparr>employee_refs :=
           (if no \<in> ee_no ` set (employee_refs r)
            then update_where (\<lambda>e. ee_no e = no \<and> ee_at e \<le> moment) (mirror_employee new) (employee_refs r)
            else employee_refs r @ [new])\<rparr>))"

definition RecordPayrollLeaveAccrual :: "env \<Rightarrow> leave_accrual \<Rightarrow> string \<Rightarrow> unit action" where
  "RecordPayrollLeaveAccrual env a days =
     (if trim_space (la_request a) = '''' \<or> trim_space (la_employee a) = '''' \<or> trim_space (la_event a) = ''''
      then fail errPayrollBadInput
      else bind (numeric_text env days) (\<lambda>d. upd_registers (\<lambda>r.
        if la_event a \<in> la_event ` set (leave_accruals r) then r
        else r\<lparr>leave_accruals := leave_accruals r @ [a\<lparr>la_days := d\<rparr>]\<rparr>)))"

definition ListPayrollLeaveAccruals :: "string \<Rightarrow> string \<Rightarrow> int \<Rightarrow> leave_accrual list action" where
  "ListPayrollLeaveAccruals employee status limit = gets (\<lambda>s.
     take (nat (if limit \<le> 0 \<or> limit > 500 then 100 else limit))
       (filter (\<lambda>a. (employee = '''' \<or> la_employee a = employee) \<and> (status = '''' \<or> la_status a = status))
         (rev (leave_accruals (registers_of s)))))"

section \<open>Payroll keeps the books\<close>

lemma lateral_upd_registers [lateral_intros]: "lateral (upd_registers f)"
  by (simp add: upd_registers_def lateral_def core_of_def)

lemma lateral_numeric_text [lateral_intros]: "lateral (numeric_text env x)"
  by (simp add: numeric_text_def lateral_def split: option.split)

lemma lateral_payroll [lateral_intros]:
  "lateral (RecordPayrollRun r)" "lateral (RecordLeaveProvision p)" "lateral (RecordLeaveValuationTx env v)"
  by (simp_all add: RecordPayrollRun_def RecordLeaveProvision_def RecordLeaveValuationTx_def lateral_def
      core_of_def Let_def)

lemma lateral_personnel [lateral_intros]:
  "lateral (UpsertLeaveBalance env e t y d v)" "lateral (UpsertEmployeeRate env e r c f)"
  "lateral (UpsertPayrollEmployeeRef env x)" "lateral (RecordPayrollLeaveAccrual env a q)"
  "lateral (RecordLeaveValuation env w)"
  unfolding UpsertLeaveBalance_def UpsertEmployeeRate_def UpsertPayrollEmployeeRef_def
    RecordPayrollLeaveAccrual_def RecordLeaveValuation_def Let_def
  by (intro lateral_intros lateral_modify; simp add: core_of_def)+

lemma keeps_create_and_post:
  assumes "keeps I (CreateJournalEntry env (sourced_entry d ev ls))"
    and "\<And>i. keeps I (PostJournalEntry env i ''system:payroll'')"
  shows "keeps I (create_and_post env d ev ls)"
  unfolding create_and_post_def by (intro keeps_intros assms)

lemma keeps_books_payroll [keeps_intros]:
  "keeps (books env h) (PostPayrollRun env inp)" "keeps (books env h) (PostLeaveProvision env inp')"
  "keeps (books env h) (ValueLeaveLiability env y t)"
  unfolding PostPayrollRun_def PostLeaveProvision_def ValueLeaveLiability_def valuation_booking_def Let_def
    GetPayrollRunByRef_def GetLeaveProvisionByRef_def GetLeaveValuation_def MeasureLeaveLiability_def
    LastLeaveValuationTotal_def IsPeriodClosed_def
  by (intro keeps_intros keeps_create_and_post keeps_books_lateral lateral_payroll lateral_personnel;
      auto intro: lateral_intros)+

end
