(* ===== verification/Year_End.thy ===== *)
theory Year_End
  imports Payroll
begin

text \<open>
  The trial balance (\<open>repository/repository.go\<close>) and the year-end close (\<open>ledger/yearend.go\<close>,
  \<open>repository/yearend.go\<close>): the balances of the revenue and expense accounts of a calendar year are
  zeroed into retained earnings and the twelve periods are closed.
\<close>

section \<open>Balances of posted lines\<close>

definition entry_posted_in :: "db \<Rightarrow> (entry \<Rightarrow> bool) \<Rightarrow> id \<Rightarrow> bool" where
  "entry_posted_in s P i \<longleftrightarrow>
     (case entry_by_id s i of None \<Rightarrow> False | Some e \<Rightarrow> e_status e = Posted \<and> P e)"

definition account_lines :: "db \<Rightarrow> (entry \<Rightarrow> bool) \<Rightarrow> id \<Rightarrow> jline list" where
  "account_lines s P a = filter (\<lambda>l. l_account l = a \<and> entry_posted_in s P (l_entry l)) (jlines s)"

definition by_code :: "account list \<Rightarrow> account list" where
  "by_code as = sort_key (\<lambda>a. map (of_char :: char \<Rightarrow> nat) (a_code a)) as"

record trial_row =
  tb_code :: string
  tb_name :: string
  tb_debit :: rat
  tb_credit :: rat

definition in_scope :: "date option \<Rightarrow> date option \<Rightarrow> id list \<Rightarrow> entry \<Rightarrow> bool" where
  "in_scope lo hi entities e \<longleftrightarrow> in_range lo hi (e_acc_date e) \<and> e_entity e \<in> set entities"

definition TrialBalance :: "date option \<Rightarrow> date option \<Rightarrow> id list \<Rightarrow> trial_row list action" where
  "TrialBalance lo hi entities = gets (\<lambda>s.
     map (\<lambda>a. let ls = account_lines s (in_scope lo hi entities) (a_id a)
              in \<lparr>tb_code = a_code a, tb_name = a_name a, tb_debit = base_debits ls, tb_credit = base_credits ls\<rparr>)
       (by_code (filter a_active (accounts s))))"

section \<open>The close\<close>

record account_balance =
  ab_code :: string
  ab_type :: string
  ab_balance :: rat

definition in_year :: "int \<Rightarrow> entry \<Rightarrow> bool" where
  "in_year year e \<longleftrightarrow> date_le (year, 1, 1) (e_acc_date e) \<and> date_le (e_acc_date e) (year, 12, 31)"

definition natural_balance :: "db \<Rightarrow> int \<Rightarrow> account \<Rightarrow> rat" where
  "natural_balance s year a =
     (let ls = account_lines s (in_year year) (a_id a) in
      if a_type a = ''revenue'' then base_credits ls - base_debits ls else base_debits ls - base_credits ls)"

text \<open>
  The inner joins drop an account without lines, \<open>HAVING\<close> one whose sums are both zero.
\<close>

definition profit_and_loss_account :: "db \<Rightarrow> int \<Rightarrow> account \<Rightarrow> bool" where
  "profit_and_loss_account s year a \<longleftrightarrow>
     (let ls = account_lines s (in_year year) (a_id a) in
      a_active a \<and> (a_type a = ''revenue'' \<or> a_type a = ''expense'') \<and> ls \<noteq> [] \<and>
      (base_debits ls \<noteq> 0 \<or> base_credits ls \<noteq> 0))"

definition RevenueExpenseBalancesForYear :: "int \<Rightarrow> account_balance list action" where
  "RevenueExpenseBalancesForYear year = gets (\<lambda>s.
     map (\<lambda>a. \<lparr>ab_code = a_code a, ab_type = a_type a, ab_balance = natural_balance s year a\<rparr>)
       (by_code (filter (profit_and_loss_account s year) (accounts s))))"

definition CountDraftEntriesInYear :: "int \<Rightarrow> nat action" where
  "CountDraftEntriesInYear year = gets (\<lambda>s.
     length (filter (\<lambda>e. e_status e = Draft \<and> year_of (e_acc_date e) = year) (entries s)))"

definition retainedEarningsCode :: string where "retainedEarningsCode = ''3000''"

definition zeroingLine :: "string \<Rightarrow> rat \<Rightarrow> bool \<Rightarrow> line_input" where
  "zeroingLine code balance debitToClear =
     (if (if balance < 0 then \<not> debitToClear else debitToClear)
      then dr code (abs balance) ''Year-end close'' else cr code (abs balance) ''Year-end close'')"

definition closing_line :: "account_balance \<Rightarrow> line_input list" where
  "closing_line b =
     (if ab_balance b = 0 then []
      else if ab_type b = ''revenue'' then [zeroingLine (ab_code b) (ab_balance b) True]
      else if ab_type b = ''expense'' then [zeroingLine (ab_code b) (ab_balance b) False]
      else [])"

definition net_income :: "account_balance list \<Rightarrow> rat" where
  "net_income bs = sum_list (map (\<lambda>b.
     if ab_type b = ''revenue'' then ab_balance b
     else if ab_type b = ''expense'' then - ab_balance b else 0) bs)"

definition retained_line :: "rat \<Rightarrow> line_input list" where
  "retained_line net =
     (if net > 0 then [cr retainedEarningsCode net ''Net income to retained earnings'']
      else if net < 0 then [dr retainedEarningsCode (- net) ''Net loss to retained earnings'']
      else [])"

definition closing_lines :: "account_balance list \<Rightarrow> line_input list" where
  "closing_lines bs = concat (map closing_line bs) @ retained_line (net_income bs)"

definition close_months :: "env \<Rightarrow> int \<Rightarrow> id option \<Rightarrow> unit action" where
  "close_months env year who =
     for_each [1..12] (\<lambda>m. SetPeriodStatus env (period_str year m) PeriodClosed who)"

definition year_close_booking ::
  "env \<Rightarrow> int \<Rightarrow> string \<Rightarrow> rat \<Rightarrow> resolved_line list \<Rightarrow> (journal option \<times> unit option) action" where
  "year_close_booking env year actor net resolved =
     (let ev = ''yearend-close:'' @ show_int year in
      BookPostedEntry env
        (default_params\<lparr>jp_desc := ''Year-end close '' @ show_int year, jp_source_event := Some ev,
           jp_source_service := optional_string ''iag.finance'', jp_acc_date := Some (year, 12, 31),
           jp_lines := resolved\<rparr>)
        ev ''finance.yearend.close'' (env_now env) None
        (Some \<lparr>ai_actor = actorOrSystem actor, ai_type = ''ledger.yearend.close'',
               ai_message = ''year-end close '' @ show_int year @ '': net income '' @ env_show env net\<rparr>))"

definition CloseFiscalYear :: "env \<Rightarrow> int \<Rightarrow> string \<Rightarrow> id option \<Rightarrow> journal option action" where
  "CloseFiscalYear env year actor who =
     bind (CountDraftEntriesInYear year) (\<lambda>drafts.
     if drafts > 0 then fail ErrYearHasDrafts
     else bind (RevenueExpenseBalancesForYear year) (\<lambda>balances.
     if concat (map closing_line balances) = [] then fail ErrNothingToClose
     else bind (check (validateBalance (closing_lines balances))) (\<lambda>_.
     bind (resolveLines (closing_lines balances)) (\<lambda>resolved.
     bind (year_close_booking env year actor (net_income balances) resolved) (\<lambda>(j, _).
     bind (close_months env year who) (\<lambda>_. ok j))))))"

section \<open>The close keeps the books\<close>

lemma keeps_books_CloseFiscalYear [keeps_intros]: "keeps (books env h) (CloseFiscalYear env year actor who)"
  unfolding CloseFiscalYear_def CountDraftEntriesInYear_def RevenueExpenseBalancesForYear_def
    year_close_booking_def close_months_def Let_def
  by (intro keeps_intros) simp

section \<open>The closing entry\<close>

lemma totals_concat:
  "total_debit (concat lss) = sum_list (map total_debit lss)"
  "total_credit (concat lss) = sum_list (map total_credit lss)"
  by (induction lss) simp_all

lemma zeroingLine_net:
  "li_debit (zeroingLine c b d) - li_credit (zeroingLine c b d) = (if d then b else - b)"
  by (simp add: zeroingLine_def)

lemma closing_line_net:
  "total_debit (closing_line b) - total_credit (closing_line b) =
     (if ab_type b = ''revenue'' then ab_balance b else if ab_type b = ''expense'' then - ab_balance b else 0)"
  using zeroingLine_net [of "ab_code b" "ab_balance b"] by (simp add: closing_line_def)

lemma closing_lines_balanced: "total_debit (closing_lines bs) = total_credit (closing_lines bs)"
proof -
  have "sum_list (map total_debit (map closing_line bs)) - sum_list (map total_credit (map closing_line bs))
      = net_income bs"
    unfolding net_income_def
    by (induction bs) (simp_all add: closing_line_net [symmetric] algebra_simps)
  moreover have "total_credit (retained_line net) - total_debit (retained_line net) = net" for net
    by (simp add: retained_line_def)
  note this [of "net_income bs"]
  ultimately show ?thesis by (simp add: closing_lines_def totals_concat algebra_simps)
qed

end
