(* ===== verification/Approvals.thy ===== *)
theory Approvals
  imports Year_End
begin

text \<open>
  Tiered approvals of high-value postings and payments (\<open>repository/approvals.go\<close>,
  \<open>ledger/approvals.go\<close>): the bands an amount reaches, the signatures with separation of duties, and
  the execution of what was approved. Parsing a UUID out of the payload is a parameter.
\<close>

section \<open>Tiers\<close>

definition ListApprovalTiers :: "tier_row list action" where
  "ListApprovalTiers = gets (\<lambda>s. sort_key t_tier (tiers s))"

definition RequiredApprovalTiers :: "tier_row list \<Rightarrow> rat \<Rightarrow> tier_row list" where
  "RequiredApprovalTiers ts amount = filter (\<lambda>t. amount > t_min t) ts"

definition ApprovalRequired :: "rat \<Rightarrow> bool action" where
  "ApprovalRequired amount = bind ListApprovalTiers (\<lambda>ts. ok (RequiredApprovalTiers ts amount \<noteq> []))"

definition CreateApproval ::
  "env \<Rightarrow> string \<Rightarrow> rat \<Rightarrow> string \<Rightarrow> (string \<times> string) list \<Rightarrow> string \<Rightarrow> string \<Rightarrow> approval action" where
  "CreateApproval env target amount currency payload who desc = (\<lambda>s.
     if target \<noteq> ''journal'' \<and> target \<noteq> ''payment''
     then (Inl (CheckViolation ''finance_approvals_target_type_check''), s)
     else let a = \<lparr>ap_id = next_id s, ap_target = target, ap_amount = env_round env amount 2,
                   ap_currency = (if currency = '''' then env_base env else currency),
                   ap_payload = payload, ap_status = Pending, ap_requested_by = who, ap_desc = desc,
                   ap_result = ''''\<rparr>
          in (Inr a, s\<lparr>approvals := approvals s @ [a], next_id := Suc (next_id s)\<rparr>))"

definition approval_by_id :: "db \<Rightarrow> id \<Rightarrow> approval option" where
  "approval_by_id s i = row_by ap_id i (approvals s)"

definition GetApproval :: "id \<Rightarrow> approval action" where
  "GetApproval i = bind (gets (\<lambda>s. approval_by_id s i)) (\<lambda>a.
     case a of None \<Rightarrow> fail ErrApprovalNotFound | Some x \<Rightarrow> ok x)"

definition ListApprovals :: "approval_status option \<Rightarrow> int \<Rightarrow> int \<Rightarrow> approval list action" where
  "ListApprovals status limit offset = gets (\<lambda>s.
     page (if limit \<le> 0 \<or> limit > 200 then 100 else limit) offset
       (filter (\<lambda>a. status = None \<or> status = Some (ap_status a)) (rev (approvals s))))"

definition set_approval :: "id \<Rightarrow> (approval \<Rightarrow> approval) \<Rightarrow> unit action" where
  "set_approval i f = modify (\<lambda>s. s\<lparr>approvals := update_where (\<lambda>a. ap_id a = i) f (approvals s)\<rparr>)"

definition MarkApprovalExecuted :: "id \<Rightarrow> string \<Rightarrow> unit action" where
  "MarkApprovalExecuted i ref = set_approval i (\<lambda>a. a\<lparr>ap_status := Executed, ap_result := ref\<rparr>)"

definition SubmitForApproval ::
  "env \<Rightarrow> string \<Rightarrow> rat \<Rightarrow> string \<Rightarrow> (string \<times> string) list \<Rightarrow> string \<Rightarrow> string \<Rightarrow> (approval option \<times> bool) action" where
  "SubmitForApproval env target amount currency payload who desc =
     bind (ApprovalRequired amount) (\<lambda>required.
     if \<not> required then ok (None, False)
     else bind (CreateApproval env target amount currency payload who desc) (\<lambda>a. ok (Some a, True)))"

section \<open>Signatures\<close>

definition sameApprovalActor :: "string \<Rightarrow> string \<Rightarrow> bool" where
  "sameApprovalActor a b =
     (let x = trim_space a; y = trim_space b in
      if x = '''' \<or> y = '''' \<or> equal_fold x ''unknown'' then False else equal_fold x y)"

definition approved_tiers :: "db \<Rightarrow> id \<Rightarrow> nat list" where
  "approved_tiers s i = sort (map d_tier (filter (\<lambda>d. d_approval d = i \<and> d_approved d) (decisions s)))"

text \<open>\<open>lower(actor) = lower($2)\<close>: neither side is trimmed.\<close>

definition actor_approved :: "db \<Rightarrow> id \<Rightarrow> string \<Rightarrow> bool" where
  "actor_approved s i actor \<longleftrightarrow> trim_space actor \<noteq> '''' \<and>
     (\<exists>d \<in> set (decisions s). d_approval d = i \<and> d_approved d \<and> to_lower (d_actor d) = to_lower actor)"

definition next_tier :: "tier_row list \<Rightarrow> nat list \<Rightarrow> tier_row option" where
  "next_tier required approved = find (\<lambda>t. t_tier t \<notin> set approved) required"

definition allApprovalTiers :: "tier_row list \<Rightarrow> nat list \<Rightarrow> bool" where
  "allApprovalTiers required approved \<longleftrightarrow> list_all (\<lambda>t. t_tier t \<in> set approved) required"

record approval_progress =
  pg_required :: "nat list"
  pg_approved :: "nat list"
  pg_next :: "nat option"
  pg_perm :: string
  pg_complete :: bool

definition buildApprovalProgress :: "tier_row list \<Rightarrow> nat list \<Rightarrow> bool \<Rightarrow> approval_progress" where
  "buildApprovalProgress required approved fin =
     \<lparr>pg_required = map t_tier required, pg_approved = approved,
      pg_next = (if fin then None else map_option t_tier (next_tier required approved)),
      pg_perm = (if fin then '''' else
                 (case next_tier required approved of None \<Rightarrow> '''' | Some t \<Rightarrow> t_perm t)),
      pg_complete = fin\<rparr>"

text \<open>\<open>INSERT INTO finance_approval_decisions\<close>, unique per tier among the approvals.\<close>

definition insert_decision :: "decision \<Rightarrow> unit action" where
  "insert_decision d = (\<lambda>s.
     if d_approved d \<and> (\<exists>x \<in> set (decisions s). d_approved x \<and> d_approval x = d_approval d \<and> d_tier x = d_tier d)
     then (Inl (UniqueViolation ''uq_finance_approval_decisions_tier''), s)
     else (Inr (), s\<lparr>decisions := decisions s @ [d]\<rparr>))"

definition pending_approval :: "id \<Rightarrow> approval action" where
  "pending_approval i =
     bind (GetApproval i) (\<lambda>a. bind (require (ap_status a = Pending) ErrApprovalConflict) (\<lambda>_. ok a))"

definition RecordApprovalTier ::
  "id \<Rightarrow> string \<Rightarrow> (string \<Rightarrow> bool) \<Rightarrow> string \<Rightarrow> (bool \<times> approval_progress) action" where
  "RecordApprovalTier i actor hasPerm note = tx
     (bind (pending_approval i) (\<lambda>a.
      bind (require (\<not> sameApprovalActor actor (ap_requested_by a)) ErrApprovalForbidden) (\<lambda>_.
      bind ListApprovalTiers (\<lambda>ts.
      bind (gets (\<lambda>s. approved_tiers s i)) (\<lambda>approved.
      bind (gets (\<lambda>s. actor_approved s i actor)) (\<lambda>dup.
      bind (require (\<not> dup) ErrApprovalForbidden) (\<lambda>_.
      let required = RequiredApprovalTiers ts (ap_amount a) in
      bind (case next_tier required approved of
              None \<Rightarrow> ok (approved, True)
            | Some t \<Rightarrow>
                bind (require (hasPerm (t_perm t)) ErrApprovalForbidden) (\<lambda>_.
                bind (insert_decision \<lparr>d_approval = i, d_tier = t_tier t, d_actor = actor, d_approved = True, d_note = note\<rparr>) (\<lambda>_.
                ok (approved @ [t_tier t], allApprovalTiers required (approved @ [t_tier t]))))) (\<lambda>(signed, finalize).
      bind (when_ok finalize (set_approval i (\<lambda>x. x\<lparr>ap_status := Approved\<rparr>))) (\<lambda>_.
      ok (finalize, buildApprovalProgress required signed finalize))))))))))"

definition may_reject :: "tier_row list \<Rightarrow> (string \<Rightarrow> bool) \<Rightarrow> string \<Rightarrow> string \<Rightarrow> bool" where
  "may_reject required hasPerm actor requestedBy \<longleftrightarrow>
     sameApprovalActor actor requestedBy \<or> required = [] \<or> list_ex (\<lambda>t. hasPerm (t_perm t)) required"

definition reject_tier :: "tier_row list \<Rightarrow> (string \<Rightarrow> bool) \<Rightarrow> nat" where
  "reject_tier required hasPerm =
     (case find (\<lambda>t. hasPerm (t_perm t) \<and> t_tier t \<noteq> 0) required of None \<Rightarrow> 0 | Some t \<Rightarrow> t_tier t)"

definition repo_RejectApproval ::
  "id \<Rightarrow> string \<Rightarrow> (string \<Rightarrow> bool) \<Rightarrow> string \<Rightarrow> approval_progress action" where
  "repo_RejectApproval i actor hasPerm note = tx
     (bind (pending_approval i) (\<lambda>a.
      bind ListApprovalTiers (\<lambda>ts.
      let required = RequiredApprovalTiers ts (ap_amount a) in
      bind (require (may_reject required hasPerm actor (ap_requested_by a)) ErrApprovalForbidden) (\<lambda>_.
      bind (insert_decision \<lparr>d_approval = i, d_tier = reject_tier required hasPerm, d_actor = actor,
                             d_approved = False, d_note = note\<rparr>) (\<lambda>_.
      bind (set_approval i (\<lambda>x. x\<lparr>ap_status := Rejected\<rparr>)) (\<lambda>_.
      bind (gets (\<lambda>s. approved_tiers s i)) (\<lambda>approved.
      ok (buildApprovalProgress required approved False))))))))"

definition RejectApproval ::
  "id \<Rightarrow> string \<Rightarrow> (string \<Rightarrow> bool) \<Rightarrow> string \<Rightarrow> (approval \<times> approval_progress) action" where
  "RejectApproval i actor hasPerm note =
     bind (repo_RejectApproval i actor hasPerm note) (\<lambda>prog. bind (GetApproval i) (\<lambda>a. ok (a, prog)))"

section \<open>Execution\<close>

definition approvalString :: "(string \<times> string) list \<Rightarrow> string \<Rightarrow> string" where
  "approvalString payload key = (case map_of payload key of None \<Rightarrow> '''' | Some v \<Rightarrow> v)"

definition execute_journal :: "env \<Rightarrow> (string \<Rightarrow> id option) \<Rightarrow> approval \<Rightarrow> string \<Rightarrow> unit action" where
  "execute_journal env parse_uuid a actor =
     (case parse_uuid (approvalString (ap_payload a) ''entryId'') of
        None \<Rightarrow> fail (ErrText ''invalid entryId'')
      | Some entryID \<Rightarrow>
          bind (PostJournalEntry env entryID actor) (\<lambda>entry.
          MarkApprovalExecuted (ap_id a) (case entry of None \<Rightarrow> '''' | Some j \<Rightarrow> e_number (j_entry j))))"

definition execute_payment :: "env \<Rightarrow> (string \<Rightarrow> id option) \<Rightarrow> approval \<Rightarrow> string \<Rightarrow> unit action" where
  "execute_payment env parse_uuid a actor =
     (case parse_uuid (approvalString (ap_payload a) ''openItemId'') of
        None \<Rightarrow> fail (ErrText ''invalid openItemId'')
      | Some itemID \<Rightarrow>
          let ref = approvalString (ap_payload a) ''paymentRef'' in
          bind (if approvalString (ap_payload a) ''direction'' = ''ar''
                then ApplyARPayment env itemID (ap_amount a) (ap_currency a) ref actor None
                else ApplyAPPayment env itemID (ap_amount a) (ap_currency a) ref actor None)
            (\<lambda>_. MarkApprovalExecuted (ap_id a) ref))"

definition executeApproval :: "env \<Rightarrow> (string \<Rightarrow> id option) \<Rightarrow> id \<Rightarrow> string \<Rightarrow> unit action" where
  "executeApproval env parse_uuid i actor =
     bind (GetApproval i) (\<lambda>a.
     if ap_status a = Executed then ok ()
     else if ap_target a = ''journal'' then execute_journal env parse_uuid a actor
     else if ap_target a = ''payment'' then execute_payment env parse_uuid a actor
     else fail (ErrText ''unknown target type''))"

definition ApproveApproval ::
  "env \<Rightarrow> (string \<Rightarrow> id option) \<Rightarrow> id \<Rightarrow> string \<Rightarrow> (string \<Rightarrow> bool) \<Rightarrow> string \<Rightarrow> (approval \<times> approval_progress) action" where
  "ApproveApproval env parse_uuid i actor hasPerm note =
     bind (RecordApprovalTier i actor hasPerm note) (\<lambda>(finalize, prog).
     bind (when_ok finalize (executeApproval env parse_uuid i actor)) (\<lambda>_.
     bind (GetApproval i) (\<lambda>a. ok (a, prog))))"

section \<open>Approvals keep the books\<close>

text \<open>A transaction that touches no entry has no deferred check and leaves the core alone.\<close>

lemma lateral_tx:
  assumes "lateral m"
  shows "keeps (books env h) (tx m)"
  by (intro keeps_booksI keeps_tx_journal pay.sub_tx keeps_audit_tx keeps_numbers_tx keeps_kept_tx
      keeps_lateral(1-5,7) assms)

lemma lateral_approvals [lateral_intros]:
  "lateral (CreateApproval env t a c p w d)" "lateral (set_approval i f)" "lateral (insert_decision q)"
  "lateral (GetApproval i)" "lateral ListApprovalTiers"
  by (auto simp: CreateApproval_def set_approval_def insert_decision_def GetApproval_def
      ListApprovalTiers_def lateral_def core_of_def Let_def bind_apply split: option.split)

lemma keeps_books_decisions [keeps_intros]:
  "keeps (books env h) (RecordApprovalTier i actor hp note)" "keeps (books env h) (repo_RejectApproval i actor hp note)"
  "keeps (books env h) (SubmitForApproval env' tg am c pl w d)" "keeps (books env h) (GetApproval i)"
  "keeps (books env h) (MarkApprovalExecuted i ref)"
  unfolding RecordApprovalTier_def repo_RejectApproval_def SubmitForApproval_def ApprovalRequired_def
    pending_approval_def MarkApprovalExecuted_def Let_def
  by (intro lateral_tx keeps_books_lateral lateral_intros)+

lemma keeps_books_ApproveApproval [keeps_intros]:
  assumes "rounding_laws (env_round env)"
  shows "keeps (books env h) (ApproveApproval env parse_uuid i actor hp note)"
  unfolding ApproveApproval_def executeApproval_def execute_journal_def execute_payment_def Let_def
  by (intro keeps_intros assms)

end
