(* ===== verification/Transactions.thy ===== *)
theory Transactions
  imports Books
begin

text \<open>
  Transactions that post: a repository method that draws a number, inserts a posted entry and writes
  rows of a register, all in one transaction. \<open>posting env m\<close> says that the statements \<open>m\<close> keep what
  a transaction of the books keeps while it runs; the rules for it are in the collection
  \<open>posting_intros\<close>.
\<close>

definition posting :: "env \<Rightarrow> 'a action \<Rightarrow> bool" where
  "posting env m \<longleftrightarrow> keeps journal_tx_inv m \<and> keeps reconciled m \<and> keeps (audit_ok env) m \<and>
     (\<forall>n. keeps (numbers_wf n) m) \<and> (\<forall>h. keeps (kept h) m)"

named_theorems posting_intros "statements of a transaction that posts"

lemma keeps_books_tx: "posting env m \<Longrightarrow> keeps (books env h) (tx m)"
  unfolding posting_def
  by (elim conjE) (intro keeps_booksI keeps_tx_journal pay.sub_tx keeps_audit_tx keeps_numbers_tx keeps_kept_tx; simp)

lemma posting_lateral: "lateral m \<Longrightarrow> posting env m"
  unfolding posting_def by (intro conjI allI keeps_lateral(2-5,7))

lemma posting_bind [posting_intros]:
  "posting env m \<Longrightarrow> (\<And>a. posting env (f a)) \<Longrightarrow> posting env (bind m f)"
  by (simp add: posting_def keeps_bind)

lemma posting_if [posting_intros]:
  "(b \<Longrightarrow> posting env m) \<Longrightarrow> (\<not> b \<Longrightarrow> posting env k) \<Longrightarrow> posting env (if b then m else k)"
  by simp

lemma posting_Let [posting_intros]: "(\<And>x. x = t \<Longrightarrow> posting env (f x)) \<Longrightarrow> posting env (let x = t in f x)"
  by simp

lemma posting_case_option [posting_intros]:
  "(x = None \<Longrightarrow> posting env m) \<Longrightarrow> (\<And>a. x = Some a \<Longrightarrow> posting env (f a)) \<Longrightarrow>
   posting env (case x of None \<Rightarrow> m | Some a \<Rightarrow> f a)"
  by (cases x) simp_all

lemma posting_case_prod [posting_intros]:
  "(\<And>a b. x = (a, b) \<Longrightarrow> posting env (f a b)) \<Longrightarrow> posting env (case x of (a, b) \<Rightarrow> f a b)"
  by (cases x) simp

lemma posting_catch [posting_intros]:
  "posting env m \<Longrightarrow> (\<And>e. posting env (h e)) \<Longrightarrow> posting env (catch m h)"
  by (simp add: posting_def keeps_catch)

lemma posting_for_each [posting_intros]: "(\<And>x. posting env (f x)) \<Longrightarrow> posting env (for_each xs f)"
  by (simp add: posting_def keeps_for_each)

lemma posting_ok [posting_intros]: "posting env (ok a)"
  and posting_fail [posting_intros]: "posting env (fail e)"
  and posting_gets [posting_intros]: "posting env (gets g)"
  and posting_require [posting_intros]: "posting env (require b e)"
  by (rule posting_lateral, rule lateral_intros)+

lemma posting_GetAccountByCode [posting_intros]: "posting env (GetAccountByCode c)"
  unfolding GetAccountByCode_def by (rule posting_gets)

lemma posting_marks [posting_intros]:
  "posting env (appendAudit env a)" "posting env (markProcessedTx ev ty)"
  unfolding posting_def by (intro conjI allI keeps_intros)+

section \<open>Numbered postings\<close>

definition post_in_tx :: "env \<Rightarrow> journal_params \<Rightarrow> time \<Rightarrow> id action" where
  "post_in_tx env p postedAt =
     bind nextEntryNumberTx (\<lambda>n. insertPostedEntryTx env (p\<lparr>jp_number := n\<rparr>) postedAt)"

text \<open>The insertion may map its errors before the transaction goes on.\<close>

lemma posting_next [posting_intros]:
  assumes "\<And>e. posting env (h e)" "\<And>i. posting env (f i)"
  shows "posting env (bind nextEntryNumberTx (\<lambda>n.
           bind (catch (insertPostedEntryTx env' (p\<lparr>jp_number := n\<rparr>) t) h) f))"
proof -
  have n: "keeps (numbers_wf k) (bind nextEntryNumberTx (\<lambda>n.
      bind (catch (insertPostedEntryTx env' (p\<lparr>jp_number := n\<rparr>) t) h) f))" for k
  proof (rule keeps_numbers_next)
    fix j
    have "keeps (numbers_wf (Suc j)) (insertPostedEntryTx env' (p\<lparr>jp_number := entry_number j\<rparr>) t)"
      by (rule keeps_numbers_insertPostedEntryTx) auto
    then show "keeps (numbers_wf (Suc j))
        (bind (catch (insertPostedEntryTx env' (p\<lparr>jp_number := entry_number j\<rparr>) t) h) f)"
      using assms by (intro keeps_bind keeps_catch) (auto simp: posting_def)
  qed
  have "keeps (audit_ok env) (insertPostedEntryTx env' q t)" for q
    unfolding insertPostedEntryTx_def Let_def by (intro keeps_intros)
  with assms n show ?thesis
    unfolding posting_def
    by (auto intro!: keeps_intros intro: pay.sub_insertPostedEntryTx)
qed

lemma posting_post_in_tx [posting_intros]: "posting env (post_in_tx env' p t)"
proof -
  have "post_in_tx env' p t = bind nextEntryNumberTx (\<lambda>n.
      bind (catch (insertPostedEntryTx env' (p\<lparr>jp_number := n\<rparr>) t) fail) ok)"
    by (auto simp: post_in_tx_def bind_def catch_def fun_eq_iff split: prod.split sum.split)
  then show ?thesis by (auto intro!: posting_intros)
qed

end
