(* ===== verification/Fixed_Assets.thy ===== *)
theory Fixed_Assets
  imports Approvals Transactions
begin

text \<open>
  The fixed-asset register (\<open>repository/fixed_assets.go\<close>, \<open>repository/fixed_assets_ias16.go\<close>,
  \<open>ledger/fixed_assets.go\<close>, \<open>ledger/assetdisposal.go\<close>): capitalisation, the depreciation run of a
  period, disposal at the carrying amount of the register, impairment and its reversal, revaluation.
\<close>

section \<open>Statements\<close>

definition accountIDByCodeTx :: "string \<Rightarrow> id action" where
  "accountIDByCodeTx code = bind (GetAccountByCode code) (\<lambda>a.
     case a of None \<Rightarrow> fail (ErrText (''account '' @ code @ '' not found'')) | Some x \<Rightarrow> ok (a_id x))"

fun resolve_tx_from :: "int \<Rightarrow> line_input list \<Rightarrow> resolved_line list action" where
  "resolve_tx_from i [] = ok []"
| "resolve_tx_from i (l # ls) =
     bind (accountIDByCodeTx (li_code l)) (\<lambda>a.
     bind (resolve_tx_from (i + 1) ls) (\<lambda>rs.
     ok (mk_line a (li_debit l) (li_credit l) (li_memo l) i # rs)))"

definition resolveTxLines :: "line_input list \<Rightarrow> resolved_line list action" where
  "resolveTxLines ls = resolve_tx_from 0 ls"

definition upd_assets :: "(fixed_asset \<Rightarrow> bool) \<Rightarrow> (fixed_asset \<Rightarrow> fixed_asset) \<Rightarrow> unit action" where
  "upd_assets P f = upd_registers (\<lambda>r. r\<lparr>fa_assets := update_where P f (fa_assets r)\<rparr>)"

definition asset_by_ref :: "db \<Rightarrow> string \<Rightarrow> fixed_asset option" where
  "asset_by_ref s ref = row_by fa_ref ref (fa_assets (registers_of s))"

definition GetFixedAssetByRef :: "string \<Rightarrow> fixed_asset option action" where
  "GetFixedAssetByRef ref = gets (\<lambda>s. asset_by_ref s ref)"

definition ListFixedAssets :: "int \<Rightarrow> int \<Rightarrow> fixed_asset list action" where
  "ListFixedAssets limit offset = gets (\<lambda>s.
     page (if limit \<le> 0 \<or> limit > 200 then 100 else limit) offset (rev (fa_assets (registers_of s))))"

text \<open>Net book value, computed when a row is read.\<close>

definition asset_nbv :: "fixed_asset \<Rightarrow> rat" where
  "asset_nbv a = fa_cost a - fa_accumulated a"

definition MarkFixedAssetDisposedTx :: "string \<Rightarrow> unit action" where
  "MarkFixedAssetDisposedTx ref =
     upd_assets (\<lambda>a. fa_ref a = ref \<and> fa_active a) (\<lambda>a. a\<lparr>fa_active := False\<rparr>)"

definition insert_asset :: "env \<Rightarrow> fixed_asset \<Rightarrow> fixed_asset action" where
  "insert_asset env row = (\<lambda>s.
     let a = row\<lparr>fa_id := next_id s, fa_cost := env_round env (fa_cost row) 2,
                 fa_salvage := env_round env (fa_salvage row) 2,
                 fa_rate := map_option (\<lambda>r. env_round env r 4) (fa_rate row)\<rparr>
     in if \<not> fa_life a > 0 then (Inl (CheckViolation ''fa_assets_useful_life_months_check''), s)
        else if fa_ref a \<in> fa_ref ` set (fa_assets (registers_of s))
        then (Inl (UniqueViolation ''fa_assets_asset_ref_key''), s)
        else (Inr a, s\<lparr>registers_of := (registers_of s)\<lparr>fa_assets := fa_assets (registers_of s) @ [a]\<rparr>,
                       next_id := Suc (next_id s)\<rparr>))"

section \<open>Capitalisation\<close>

record asset_input =
  fi_ref :: string
  fi_desc :: string
  fi_category :: string
  fi_cost :: rat
  fi_salvage :: rat
  fi_in_service :: time
  fi_life :: int
  fi_currency :: string
  fi_method :: string
  fi_rate :: "rat option"
  fi_from :: string

definition asset_row :: "env \<Rightarrow> asset_input \<Rightarrow> fixed_asset" where
  "asset_row env inp =
     \<lparr>fa_id = 0, fa_ref = fi_ref inp, fa_desc = fi_desc inp, fa_category = fi_category inp,
      fa_cost = fi_cost inp, fa_salvage = fi_salvage inp, fa_in_service = date_of (fi_in_service inp),
      fa_life = fi_life inp, fa_method = (if fi_method inp = '''' then ''straight_line'' else fi_method inp),
      fa_accumulated = 0, fa_currency = (if fi_currency inp = '''' then env_base env else fi_currency inp),
      fa_active = True, fa_rate = fi_rate inp\<rparr>"

definition capitalize :: "env \<Rightarrow> asset_input \<Rightarrow> unit action" where
  "capitalize env inp =
     (if fi_from inp \<noteq> '''' \<and> fi_cost inp > 0 then
        bind (accountIDByCodeTx ''1500'') (\<lambda>fixedID.
        bind (accountIDByCodeTx (fi_from inp)) (\<lambda>expenseID.
        bind (post_in_tx env
          (default_params\<lparr>jp_desc := ''Capitalize '' @ fi_ref inp, jp_source_service := Some ''fa-capitalization'',
             jp_acc_date := Some (date_of (fi_in_service inp)),
             jp_currency := (if fi_currency inp = '''' then env_base env else fi_currency inp),
             jp_lines := [mk_line fixedID (fi_cost inp) 0 (''Capitalize '' @ fi_ref inp) 0,
                          mk_line expenseID 0 (fi_cost inp) (''Reclass from '' @ fi_from inp) 1]\<rparr>)
          (fi_in_service inp)) (\<lambda>_. ok ())))
      else ok ())"

definition CreateFixedAsset :: "env \<Rightarrow> asset_input \<Rightarrow> fixed_asset action" where
  "CreateFixedAsset env inp = tx
     (bind (insert_asset env (asset_row env inp)) (\<lambda>a. bind (capitalize env inp) (\<lambda>_. ok a)))"

definition RegisterFixedAsset :: "env \<Rightarrow> asset_input \<Rightarrow> fixed_asset action" where
  "RegisterFixedAsset env inp =
     bind (if fi_from inp \<noteq> '''' then IsPeriodClosed (period_of_time (fi_in_service inp)) else ok False)
       (\<lambda>closed. if closed then fail ErrPeriodClosed else CreateFixedAsset env inp)"

section \<open>Depreciation\<close>

text \<open>\<open>Decimal.Div\<close> rounds to 16 places.\<close>

definition decimal_div :: "env \<Rightarrow> rat \<Rightarrow> rat \<Rightarrow> rat" where
  "decimal_div env x y = env_round env (x / y) 16"

definition monthly_charge :: "env \<Rightarrow> fixed_asset \<Rightarrow> rat" where
  "monthly_charge env a =
     (if fa_method a = ''declining_balance'' \<and> (case fa_rate a of None \<Rightarrow> 0 | Some r \<Rightarrow> r) > 0
      then env_round env (decimal_div env ((fa_cost a - fa_accumulated a) * the (fa_rate a)) 12) 2
      else env_round env (decimal_div env (fa_cost a - fa_salvage a) (of_int (fa_life a))) 2)"

definition depreciation_charge :: "env \<Rightarrow> fixed_asset \<Rightarrow> rat option" where
  "depreciation_charge env a =
     (let remaining = fa_cost a - fa_salvage a - fa_accumulated a;
          monthly = monthly_charge env a;
          amount = (if monthly > remaining then remaining else monthly)
      in if remaining \<le> 0 then None else if amount \<le> 0 then None else Some amount)"

definition depreciated_in :: "registers \<Rightarrow> string \<Rightarrow> fixed_asset \<Rightarrow> bool" where
  "depreciated_in r period a \<longleftrightarrow> (\<exists>d \<in> set (fa_depreciation r). dp_asset d = fa_id a \<and> dp_period d = period)"

definition due_assets :: "registers \<Rightarrow> string \<Rightarrow> date \<Rightarrow> fixed_asset list" where
  "due_assets r period periodEnd =
     filter (\<lambda>a. fa_active a \<and> date_le (fa_in_service a) periodEnd \<and> \<not> depreciated_in r period a) (fa_assets r)"

definition charges :: "env \<Rightarrow> fixed_asset list \<Rightarrow> (id \<times> rat) list" where
  "charges env as = List.map_filter (\<lambda>a. map_option (\<lambda>c. (fa_id a, c)) (depreciation_charge env a)) as"

definition charge_asset :: "env \<Rightarrow> string \<Rightarrow> id \<times> rat \<Rightarrow> unit action" where
  "charge_asset env period = (\<lambda>(i, amount).
     bind (upd_registers (\<lambda>r.
       if \<exists>d \<in> set (fa_depreciation r). dp_asset d = i \<and> dp_period d = period then r
       else r\<lparr>fa_depreciation := fa_depreciation r @
              [\<lparr>dp_asset = i, dp_period = period, dp_amount = env_round env amount 2\<rparr>]\<rparr>)) (\<lambda>_.
     upd_assets (\<lambda>a. fa_id a = i) (\<lambda>a. a\<lparr>fa_accumulated := env_round env (fa_accumulated a + amount) 2\<rparr>)))"

record depreciation_run =
  dr_period :: string
  dr_count :: nat
  dr_total :: rat
  dr_entry :: "id option"

definition depreciation_entry :: "env \<Rightarrow> string \<Rightarrow> date \<Rightarrow> rat \<Rightarrow> time \<Rightarrow> id action" where
  "depreciation_entry env period periodEnd amount postedAt =
     bind (accountIDByCodeTx ''5300'') (\<lambda>expenseID.
     bind (accountIDByCodeTx ''1510'') (\<lambda>accumID.
     post_in_tx env
       (default_params\<lparr>jp_desc := ''Depreciation '' @ period, jp_source_service := Some ''fa-depreciation'',
          jp_acc_date := Some periodEnd,
          jp_lines := [mk_line expenseID amount 0 (''Depreciation '' @ period) 0,
                       mk_line accumID 0 amount (''Accumulated depreciation '' @ period) 1]\<rparr>) postedAt))"

definition repo_RunDepreciation :: "env \<Rightarrow> string \<Rightarrow> time \<Rightarrow> depreciation_run action" where
  "repo_RunDepreciation env period postedAt =
     (case parse_period period of
        None \<Rightarrow> fail (ErrText ''period must be YYYY-MM'')
      | Some (y, m) \<Rightarrow>
        let periodEnd = month_end y m in tx
        (bind (gets (\<lambda>s. charges env (due_assets (registers_of s) period periodEnd))) (\<lambda>cs.
         let amount = sum_list (map snd cs) in
         bind (for_each cs (charge_asset env period)) (\<lambda>_.
         bind (if amount > 0
               then bind (depreciation_entry env period periodEnd amount postedAt) (\<lambda>i. ok (Some i))
               else ok None) (\<lambda>entry.
         ok \<lparr>dr_period = period, dr_count = length cs, dr_total = amount, dr_entry = entry\<rparr>)))))"

definition RunDepreciation :: "env \<Rightarrow> string \<Rightarrow> depreciation_run action" where
  "RunDepreciation env period =
     bind (IsPeriodClosed period) (\<lambda>closed.
     if closed then fail ErrPeriodClosed else repo_RunDepreciation env period (env_now env))"

section \<open>Disposal\<close>

definition disposal_lines :: "rat \<Rightarrow> rat \<Rightarrow> rat \<Rightarrow> string \<Rightarrow> line_input list" where
  "disposal_lines proceeds cost accumulated ref =
     (let net = proceeds - (cost - accumulated)
      in (if proceeds > 0 then [dr ''1000'' proceeds (''Disposal proceeds '' @ ref)] else [])
         @ (if accumulated > 0 then [dr ''1510'' accumulated (''Reverse accumulated depreciation '' @ ref)] else [])
         @ (if cost > 0 then [cr ''1500'' cost (''De-recognise asset cost '' @ ref)] else [])
         @ (if net > 0 then [cr ''4200'' net ''Gain on disposal'']
            else if net < 0 then [dr ''5200'' (- net) ''Loss on disposal''] else []))"

text \<open>What came of a disposal: booked under an identifier, nothing to do, or not in the register.\<close>

datatype disposal = Disposed id | AlreadyDisposed | NotCapitalised

record disposal_params =
  dq_event :: string
  dq_type :: string
  dq_source :: string
  dq_correlation :: string
  dq_currency :: string
  dq_ref :: string
  dq_desc :: string
  dq_proceeds :: rat
  dq_acc_date :: date
  dq_fx_rate :: rat

definition disposal_journal :: "disposal_params \<Rightarrow> resolved_line list \<Rightarrow> journal_params" where
  "disposal_journal p ls =
     default_params\<lparr>jp_desc := dq_desc p, jp_source_event := optional_string (dq_event p),
       jp_source_service := optional_string (dq_source p), jp_correlation := optional_string (dq_correlation p),
       jp_currency := dq_currency p, jp_fx_rate := dq_fx_rate p, jp_acc_date := Some (dq_acc_date p),
       jp_lines := ls\<rparr>"

definition disposal_tx :: "env \<Rightarrow> disposal_params \<Rightarrow> audit_info option \<Rightarrow> disposal action" where
  "disposal_tx env p audit_i = tx
     (bind (gets (\<lambda>s. asset_by_ref s (dq_ref p))) (\<lambda>row.
      case row of
        None \<Rightarrow> ok NotCapitalised
      | Some a \<Rightarrow>
        if \<not> fa_active a then ok AlreadyDisposed
        else bind (resolveTxLines (disposal_lines (dq_proceeds p) (fa_cost a) (fa_accumulated a) (dq_ref p))) (\<lambda>ls.
        bind nextEntryNumberTx (\<lambda>n.
        bind (catch (insertPostedEntryTx env ((disposal_journal p ls)\<lparr>jp_number := n\<rparr>) (env_now env))
              (\<lambda>e. if dq_event p \<noteq> '''' \<and> is_unique_violation e then fail RaceLost else fail e)) (\<lambda>i.
        bind (if dq_event p \<noteq> '''' then bind (markProcessedTx (dq_event p) (dq_type p)) (\<lambda>won. require won RaceLost)
              else ok ()) (\<lambda>_.
        bind (upd_assets (\<lambda>x. fa_ref x = dq_ref p) (\<lambda>x. x\<lparr>fa_active := False\<rparr>)) (\<lambda>_.
        bind (appendAudit env audit_i) (\<lambda>_. ok (Disposed i)))))))))"

definition BookAssetDisposalSubledger ::
  "env \<Rightarrow> disposal_params \<Rightarrow> audit_info option \<Rightarrow> (journal option \<times> bool) action" where
  "BookAssetDisposalSubledger env p audit_i =
     (let replay = bind (GetJournalEntryBySourceEvent (dq_event p)) (\<lambda>j. ok (j, True)) in
      bind (if dq_event p \<noteq> '''' then IsEventProcessed (dq_event p) else ok False) (\<lambda>done.
      if done then replay
      else catch (bind (disposal_tx env p audit_i) (\<lambda>d.
             case d of
               Disposed i \<Rightarrow> bind (GetJournalEntry i) (\<lambda>j. ok (j, True))
             | AlreadyDisposed \<Rightarrow> ok (None, True)
             | NotCapitalised \<Rightarrow> ok (None, False)))
           (\<lambda>e. if e = RaceLost then replay else fail e)))"

definition fallback_lines :: "rat \<Rightarrow> rat \<Rightarrow> string \<Rightarrow> line_input list" where
  "fallback_lines proceeds bookValue tag =
     (let net = proceeds - bookValue
      in (if proceeds > 0 then [dr cashAccount proceeds (''Disposal proceeds '' @ tag)] else [])
         @ (if bookValue > 0 then [cr ''1500'' bookValue (''Asset de-recognition '' @ tag)] else [])
         @ (if net > 0 then [cr ''4200'' net ''Gain on disposal'']
            else if net < 0 then [dr ''5200'' (- net) ''Loss on disposal''] else []))"

definition BookAssetDisposal ::
  "env \<Rightarrow> event_ref \<Rightarrow> string \<Rightarrow> string \<Rightarrow> string \<Rightarrow> rat \<Rightarrow> rat \<Rightarrow> journal option action" where
  "BookAssetDisposal env ref currency0 tag meth proceeds0 bookValue0 =
     (let proceeds = max 0 proceeds0; bookValue = max 0 bookValue0;
          currency = (if currency0 = '''' then env_base env else currency0) in
      bind (resolvePostingWindow env ref) (\<lambda>window.
      let desc = describeDeferral (''Asset disposal '' @ tag @ '' ('' @ meth @ '')'') window in
      bind (RateOrOne env currency (date_of (pw_transaction window))) (\<lambda>fxRate.
      bind (BookAssetDisposalSubledger env
              \<lparr>dq_event = er_id ref, dq_type = er_type ref, dq_source = er_source ref,
               dq_correlation = er_correlation ref, dq_currency = currency, dq_ref = tag, dq_desc = desc,
               dq_proceeds = proceeds, dq_acc_date = date_of (pw_accounting window), dq_fx_rate = fxRate\<rparr>
              (Some \<lparr>ai_actor = ''system:'' @ er_source ref, ai_type = ''ledger.asset.disposed'', ai_message = desc\<rparr>))
        (\<lambda>(entry, handled).
      if handled then ok entry
      else let ls = fallback_lines proceeds bookValue tag in
        if ls = [] then ok None else BookFromEvent env ref desc currency ls))))"

section \<open>Impairment and revaluation\<close>

definition ErrAssetNotFound :: err where
  "ErrAssetNotFound = ErrText ''fixed asset not found in subledger''"

definition ErrAssetInactive :: err where
  "ErrAssetInactive = ErrText ''fixed asset is not active''"

definition ErrNoImpairment :: err where
  "ErrNoImpairment = ErrText ''recoverable amount is not below carrying amount''"

definition ErrDuplicateEventRepo :: err where
  "ErrDuplicateEventRepo = ErrText ''source event already processed''"

definition lockAsset :: "string \<Rightarrow> fixed_asset action" where
  "lockAsset ref = bind (gets (\<lambda>s. asset_by_ref s ref)) (\<lambda>a.
     case a of None \<Rightarrow> fail ErrAssetNotFound | Some x \<Rightarrow> ok x)"

definition lock_active :: "string \<Rightarrow> fixed_asset action" where
  "lock_active ref = bind (lockAsset ref) (\<lambda>a. if fa_active a then ok a else fail ErrAssetInactive)"

definition postAssetAdjustment ::
  "env \<Rightarrow> string \<Rightarrow> string \<Rightarrow> string \<Rightarrow> time \<Rightarrow> resolved_line list \<Rightarrow> unit action" where
  "postAssetAdjustment env eventID eventType desc effective ls =
     bind (post_in_tx env
       (default_params\<lparr>jp_desc := desc, jp_source_event := Some eventID,
          jp_source_service := Some ''iag.finance'', jp_acc_date := Some (date_of effective), jp_lines := ls\<rparr>)
       effective) (\<lambda>_.
     bind (markProcessedTx eventID eventType) (\<lambda>won. require won ErrDuplicateEventRepo))"

text \<open>An adjustment of an asset is booked once per asset, kind and date; its replay only reads.\<close>

definition once_per_event :: "string \<Rightarrow> string \<Rightarrow> unit action \<Rightarrow> fixed_asset option action" where
  "once_per_event eventID ref body =
     bind (IsEventProcessed eventID) (\<lambda>done.
     if done then GetFixedAssetByRef ref
     else bind (tx body) (\<lambda>_. GetFixedAssetByRef ref))"

definition impairment_lines :: "rat \<Rightarrow> string \<Rightarrow> line_input list" where
  "impairment_lines loss ref =
     [dr ''5310'' loss (''Impairment loss '' @ ref), cr ''1510'' loss (''Impairment write-down '' @ ref)]"

definition add_accumulated :: "env \<Rightarrow> id \<Rightarrow> rat \<Rightarrow> unit action" where
  "add_accumulated env i x =
     upd_assets (\<lambda>a. fa_id a = i) (\<lambda>a. a\<lparr>fa_accumulated := env_round env (fa_accumulated a + x) 2\<rparr>)"

definition insert_impairment :: "env \<Rightarrow> id \<Rightarrow> time \<Rightarrow> rat \<Rightarrow> rat \<Rightarrow> bool \<Rightarrow> unit action" where
  "insert_impairment env i effective recoverable loss reversal =
     upd_registers (\<lambda>r. r\<lparr>fa_impairments := fa_impairments r @
       [\<lparr>im_asset = i, im_date = date_of effective, im_recoverable = env_round env recoverable 2,
         im_loss = env_round env loss 2, im_reversal = reversal\<rparr>]\<rparr>)"

definition BookImpairment ::
  "env \<Rightarrow> string \<Rightarrow> rat \<Rightarrow> time \<Rightarrow> audit_info option \<Rightarrow> fixed_asset option action" where
  "BookImpairment env ref recoverable effective audit_i =
     (let eventID = ''fa.impair:'' @ ref @ '':'' @ format_date (date_of effective) in
      once_per_event eventID ref
        (bind (lock_active ref) (\<lambda>a.
         let loss = asset_nbv a - recoverable in
         if loss \<le> 0 then fail ErrNoImpairment
         else bind (resolveTxLines (impairment_lines loss ref)) (\<lambda>ls.
         bind (postAssetAdjustment env eventID ''finance.asset.impair'' (''Impairment '' @ ref) effective ls) (\<lambda>_.
         bind (add_accumulated env (fa_id a) loss) (\<lambda>_.
         bind (insert_impairment env (fa_id a) effective recoverable loss False) (\<lambda>_.
         appendAudit env audit_i)))))))"

definition impairment_reversal_lines :: "rat \<Rightarrow> string \<Rightarrow> line_input list" where
  "impairment_reversal_lines amount ref =
     [dr ''1510'' amount (''Impairment reversal '' @ ref),
      cr ''5310'' amount (''Impairment reversal income '' @ ref)]"

definition repo_ReverseImpairment ::
  "env \<Rightarrow> string \<Rightarrow> rat \<Rightarrow> time \<Rightarrow> audit_info option \<Rightarrow> fixed_asset option action" where
  "repo_ReverseImpairment env ref amount0 effective audit_i =
     (let eventID = ''fa.impair.rev:'' @ ref @ '':'' @ format_date (date_of effective) in
      once_per_event eventID ref
        (bind (lock_active ref) (\<lambda>a.
         let amount = (if amount0 > fa_accumulated a then fa_accumulated a else amount0) in
         if amount \<le> 0 then fail ErrNoImpairment
         else bind (resolveTxLines (impairment_reversal_lines amount ref)) (\<lambda>ls.
         bind (postAssetAdjustment env eventID ''finance.asset.impair.reverse''
                 (''Impairment reversal '' @ ref) effective ls) (\<lambda>_.
         bind (add_accumulated env (fa_id a) (- amount)) (\<lambda>_.
         bind (insert_impairment env (fa_id a) effective 0 (- amount) True) (\<lambda>_.
         appendAudit env audit_i)))))))"

definition asset_surplus :: "registers \<Rightarrow> id \<Rightarrow> rat" where
  "asset_surplus r i =
     max 0 (sum_list (map rw_delta (filter (\<lambda>w. rw_asset w = i) (fa_revaluations r))))"

definition revaluation_lines :: "rat \<Rightarrow> rat \<Rightarrow> string \<Rightarrow> line_input list" where
  "revaluation_lines delta surplus ref =
     (if delta > 0
      then [dr ''1500'' delta (''Revaluation increase '' @ ref), cr ''3100'' delta (''Revaluation surplus '' @ ref)]
      else let down = - delta; fromSurplus = min down surplus; toExpense = down - fromSurplus in
        (if fromSurplus > 0 then [dr ''3100'' fromSurplus (''Revaluation surplus release '' @ ref)] else [])
        @ (if toExpense > 0 then [dr ''5310'' toExpense (''Revaluation decrease '' @ ref)] else [])
        @ [cr ''1500'' down (''Revaluation decrease '' @ ref)])"

definition BookRevaluation ::
  "env \<Rightarrow> string \<Rightarrow> rat \<Rightarrow> time \<Rightarrow> audit_info option \<Rightarrow> fixed_asset option action" where
  "BookRevaluation env ref newCarrying effective audit_i =
     (let eventID = ''fa.revalue:'' @ ref @ '':'' @ format_date (date_of effective) in
      once_per_event eventID ref
        (bind (lock_active ref) (\<lambda>a.
         let delta = newCarrying - asset_nbv a in
         if delta = 0 then fail ErrNoImpairment
         else bind (gets (\<lambda>s. asset_surplus (registers_of s) (fa_id a))) (\<lambda>surplus.
         bind (resolveTxLines (revaluation_lines delta surplus ref)) (\<lambda>ls.
         bind (postAssetAdjustment env eventID ''finance.asset.revalue'' (''Revaluation '' @ ref) effective ls) (\<lambda>_.
         bind (upd_assets (\<lambda>x. fa_id x = fa_id a)
                 (\<lambda>x. x\<lparr>fa_cost := env_round env (fa_cost x + delta) 2\<rparr>)) (\<lambda>_.
         bind (upd_registers (\<lambda>r. r\<lparr>fa_revaluations := fa_revaluations r @
                 [\<lparr>rw_asset = fa_id a, rw_date = date_of effective, rw_carrying = env_round env newCarrying 2,
                   rw_delta = env_round env delta 2\<rparr>]\<rparr>)) (\<lambda>_.
         appendAudit env audit_i))))))))"

definition ImpairAsset :: "env \<Rightarrow> string \<Rightarrow> rat \<Rightarrow> time \<Rightarrow> string \<Rightarrow> fixed_asset option action" where
  "ImpairAsset env ref recoverable effective actor =
     bind (guardOpen effective) (\<lambda>_. BookImpairment env ref recoverable effective
       (Some \<lparr>ai_actor = actorOrSystem actor, ai_type = ''finance.asset.impair'',
              ai_message = ''impair '' @ ref\<rparr>))"

definition ReverseImpairment :: "env \<Rightarrow> string \<Rightarrow> rat \<Rightarrow> time \<Rightarrow> string \<Rightarrow> fixed_asset option action" where
  "ReverseImpairment env ref amount effective actor =
     bind (guardOpen effective) (\<lambda>_. repo_ReverseImpairment env ref amount effective
       (Some \<lparr>ai_actor = actorOrSystem actor, ai_type = ''finance.asset.impair.reverse'',
              ai_message = ''reverse impairment '' @ ref\<rparr>))"

definition RevalueAsset :: "env \<Rightarrow> string \<Rightarrow> rat \<Rightarrow> time \<Rightarrow> string \<Rightarrow> fixed_asset option action" where
  "RevalueAsset env ref newCarrying effective actor =
     bind (guardOpen effective) (\<lambda>_. BookRevaluation env ref newCarrying effective
       (Some \<lparr>ai_actor = actorOrSystem actor, ai_type = ''finance.asset.revalue'',
              ai_message = ''revalue '' @ ref\<rparr>))"

section \<open>The register keeps the books\<close>

lemma posting_resolveTxLines [posting_intros]: "posting env (resolveTxLines ls)"
proof -
  have "posting env (resolve_tx_from i ls)" for i
    by (induction ls arbitrary: i) (auto simp: accountIDByCodeTx_def intro!: posting_intros)
  then show ?thesis by (simp add: resolveTxLines_def)
qed

lemma lateral_assets [lateral_intros]:
  "lateral (upd_assets P f)" "lateral (insert_asset env a)" "lateral (GetFixedAssetByRef ref)"
  "lateral (charge_asset env period c)" "lateral (lock_active ref)" "lateral (add_accumulated env i x)"
  "lateral (insert_impairment env i e r l b)"
  by (auto simp: upd_assets_def GetFixedAssetByRef_def charge_asset_def lock_active_def lockAsset_def
      add_accumulated_def insert_impairment_def insert_asset_def lateral_def core_of_def upd_registers_def
      bind_apply Let_def split: option.split prod.split)

lemmas posting_registers =
  lateral_assets [THEN posting_lateral] lateral_upd_registers [THEN posting_lateral]

lemma posting_postAssetAdjustment [posting_intros]: "posting env (postAssetAdjustment env' ev ty d t ls)"
  unfolding postAssetAdjustment_def by (intro posting_intros)

lemma keeps_once_per_event:
  "posting env body \<Longrightarrow> keeps (books env h) (once_per_event ev ref body)"
  unfolding once_per_event_def GetFixedAssetByRef_def
  by (intro keeps_intros keeps_books_tx)

lemma keeps_books_assets [keeps_intros]:
  "keeps (books env h) (RegisterFixedAsset env inp)" "keeps (books env h) (RunDepreciation env period)"
  "keeps (books env h) (ImpairAsset env ref x t actor)" "keeps (books env h) (ReverseImpairment env ref x t actor)"
  "keeps (books env h) (RevalueAsset env ref x t actor)"
  unfolding RegisterFixedAsset_def CreateFixedAsset_def capitalize_def RunDepreciation_def
    repo_RunDepreciation_def depreciation_entry_def ImpairAsset_def ReverseImpairment_def RevalueAsset_def
    BookImpairment_def repo_ReverseImpairment_def BookRevaluation_def accountIDByCodeTx_def guardOpen_def IsPeriodClosed_def Let_def
  by (intro keeps_intros keeps_once_per_event keeps_books_tx posting_intros posting_registers)+

lemma keeps_books_disposal [keeps_intros]:
  "keeps (books env h) (BookAssetDisposal env ref currency tag meth proceeds bookValue)"
proof -
  have "keeps (books env h) (disposal_tx env p a)" for p a
    unfolding disposal_tx_def
    by (intro keeps_books_tx posting_intros posting_registers)
  then have "keeps (books env h) (BookAssetDisposalSubledger env p a)" for p a
    unfolding BookAssetDisposalSubledger_def Let_def
    by (intro keeps_intros) (auto split: disposal.split intro!: keeps_intros)
  then show ?thesis unfolding BookAssetDisposal_def Let_def by (intro keeps_intros)
qed

section \<open>Balance of what is posted\<close>

lemma disposal_lines_balanced:
  "0 \<le> proceeds \<Longrightarrow> 0 \<le> cost \<Longrightarrow> 0 \<le> accumulated \<Longrightarrow>
     total_debit (disposal_lines proceeds cost accumulated ref)
       = total_credit (disposal_lines proceeds cost accumulated ref)"
  by (simp add: disposal_lines_def Let_def)

lemma revaluation_lines_balanced:
  "total_debit (revaluation_lines delta surplus ref) = total_credit (revaluation_lines delta surplus ref)"
  if "0 \<le> surplus"
  using that by (simp add: revaluation_lines_def Let_def min_def)

end
