(* ===== verification/Revenue_Schedules.thy ===== *)
theory Revenue_Schedules
  imports Fixed_Assets
begin

text \<open>
  Deferred and accrued revenue (\<open>repository/revrec.go\<close>, \<open>ledger/revrec.go\<close>): a schedule defers
  revenue into equal monthly slices or milestone obligations, a run of a period releases the slices
  that are due. The slices, their rows and the release are shared with prepaid expenses.
\<close>

section \<open>Slices\<close>

definition ratableSlices :: "env \<Rightarrow> rat \<Rightarrow> nat \<Rightarrow> rat list" where
  "ratableSlices env amount n =
     (let per = env_round env (amount / of_nat n) 2
      in replicate (n - 1) per @ [amount - of_nat (n - 1) * per])"

definition addMonths :: "string \<Rightarrow> nat \<Rightarrow> string" where
  "addMonths start n =
     (case parse_period start of
        None \<Rightarrow> start
      | Some (y, m) \<Rightarrow> let k = y * 12 + (m - 1) + int n in period_str (k div 12) (k mod 12 + 1))"

definition str_le :: "string \<Rightarrow> string \<Rightarrow> bool" where
  "str_le a b \<longleftrightarrow> (map of_char a :: nat list) \<le> map of_char b"

text \<open>The lines of the two kinds of plan are rows of two tables of one shape.\<close>

datatype plan = RevenuePlan | PrepaidPlan

definition plan_lines :: "plan \<Rightarrow> registers \<Rightarrow> sched_line list" where
  "plan_lines p r = (case p of RevenuePlan \<Rightarrow> rev_lines r | PrepaidPlan \<Rightarrow> prepaid_lines r)"

definition set_plan_lines :: "plan \<Rightarrow> sched_line list \<Rightarrow> registers \<Rightarrow> registers" where
  "set_plan_lines p ls r =
     (case p of RevenuePlan \<Rightarrow> r\<lparr>rev_lines := ls\<rparr> | PrepaidPlan \<Rightarrow> r\<lparr>prepaid_lines := ls\<rparr>)"

definition insert_sched_line :: "env \<Rightarrow> plan \<Rightarrow> id \<Rightarrow> string \<Rightarrow> rat \<Rightarrow> unit action" where
  "insert_sched_line env p sched period amount = (\<lambda>s.
     let r = registers_of s;
         row = \<lparr>sl_id = next_id s, sl_schedule = sched, sl_period = period,
                sl_amount = env_round env amount 2, sl_entry = None\<rparr>
     in if sl_amount row < 0 then (Inl (CheckViolation ''schedule_lines_amount_check''), s)
        else if \<exists>l \<in> set (plan_lines p r). sl_schedule l = sched \<and> sl_period l = period
        then (Inl (UniqueViolation ''schedule_lines_schedule_id_period_key''), s)
        else (Inr (), s\<lparr>registers_of := set_plan_lines p (plan_lines p r @ [row]) r,
                        next_id := Suc (next_id s)\<rparr>))"

definition lay_slices :: "env \<Rightarrow> plan \<Rightarrow> id \<Rightarrow> string \<Rightarrow> rat list \<Rightarrow> unit action" where
  "lay_slices env p sched start slices =
     for_each (enumerate 0 slices) (\<lambda>(i, slice). insert_sched_line env p sched (addMonths start i) slice)"

definition due_line :: "string \<Rightarrow> sched_line \<Rightarrow> bool" where
  "due_line period l \<longleftrightarrow> str_le (sl_period l) period \<and> sl_entry l = None \<and> sl_amount l > 0"

definition due_lines :: "plan \<Rightarrow> string \<Rightarrow> sched_line list action" where
  "due_lines p period = gets (\<lambda>s. filter (due_line period) (plan_lines p (registers_of s)))"

definition stamp_line :: "plan \<Rightarrow> id \<Rightarrow> id \<Rightarrow> unit action" where
  "stamp_line p entry i = upd_registers (\<lambda>r.
     set_plan_lines p (update_where (\<lambda>l. sl_id l = i \<and> sl_entry l = None) (\<lambda>l. l\<lparr>sl_entry := Some entry\<rparr>)
       (plan_lines p r)) r)"

definition unstamped :: "plan \<Rightarrow> registers \<Rightarrow> id \<Rightarrow> bool" where
  "unstamped p r sched \<longleftrightarrow> (\<exists>l \<in> set (plan_lines p r). sl_schedule l = sched \<and> sl_entry l = None)"

section \<open>Schedules\<close>

definition ErrScheduleExists :: err where
  "ErrScheduleExists = ErrText ''revenue schedule already exists for source''"

definition ErrScheduleNotFound :: err where
  "ErrScheduleNotFound = ErrText ''revenue schedule not found''"

definition ErrObligationSatisfied :: err where
  "ErrObligationSatisfied = ErrText ''performance obligation already satisfied''"

record schedule_input =
  sc_source :: string
  sc_total :: rat
  sc_currency :: string
  sc_method :: string
  sc_start :: string
  sc_periods :: int
  sc_obligations :: "(string \<times> rat) list"

definition insert_schedule :: "env \<Rightarrow> schedule_input \<Rightarrow> id \<Rightarrow> revenue_schedule action" where
  "insert_schedule env inp entryID = (\<lambda>s.
     let r = registers_of s;
         row = \<lparr>rs_id = next_id s, rs_source = sc_source inp, rs_entity = env_entity env,
                rs_total = env_round env (sc_total inp) 2, rs_currency = sc_currency inp,
                rs_method = sc_method inp, rs_start = sc_start inp, rs_periods = sc_periods inp,
                rs_active = True, rs_entry = Some entryID\<rparr>
     in if \<not> rs_total row > 0 then (Inl (CheckViolation ''revenue_schedules_total_check''), s)
        else if sc_method inp \<noteq> ''ratable'' \<and> sc_method inp \<noteq> ''milestone''
        then (Inl (CheckViolation ''revenue_schedules_method_check''), s)
        else if sc_source inp \<in> rs_source ` set (rev_schedules r) then (Inl ErrScheduleExists, s)
        else (Inr row, s\<lparr>registers_of := r\<lparr>rev_schedules := rev_schedules r @ [row]\<rparr>,
                         next_id := Suc (next_id s)\<rparr>))"

definition insert_obligation :: "env \<Rightarrow> id \<Rightarrow> string \<times> rat \<Rightarrow> unit action" where
  "insert_obligation env sched = (\<lambda>(desc, amount). \<lambda>s.
     let r = registers_of s;
         row = \<lparr>po_id = next_id s, po_schedule = sched, po_desc = desc, po_amount = env_round env amount 2,
                po_satisfied = False, po_entry = None\<rparr>
     in if \<not> po_amount row > 0 then (Inl (CheckViolation ''performance_obligations_amount_check''), s)
        else (Inr (), s\<lparr>registers_of := r\<lparr>obligations := obligations r @ [row]\<rparr>, next_id := Suc (next_id s)\<rparr>))"

definition schedule_defaults :: "env \<Rightarrow> schedule_input \<Rightarrow> schedule_input" where
  "schedule_defaults env inp =
     inp\<lparr>sc_method := (if sc_method inp = '''' then ''ratable'' else sc_method inp),
         sc_currency := (if sc_currency inp = '''' then env_base env else sc_currency inp),
         sc_periods := (if sc_periods inp < 1 then 1 else sc_periods inp)\<rparr>"

definition lay_out_schedule :: "env \<Rightarrow> schedule_input \<Rightarrow> id \<Rightarrow> revenue_schedule action" where
  "lay_out_schedule env inp entryID =
     bind (insert_schedule env inp entryID) (\<lambda>row.
     bind (if sc_method inp = ''milestone''
           then for_each (sc_obligations inp) (insert_obligation env (rs_id row))
           else lay_slices env RevenuePlan (rs_id row) (sc_start inp)
                  (ratableSlices env (sc_total inp) (nat (sc_periods inp)))) (\<lambda>_.
     ok (row\<lparr>rs_total := sc_total inp\<rparr>)))"

definition GetScheduleBySourceRef :: "string \<Rightarrow> revenue_schedule action" where
  "GetScheduleBySourceRef ref = bind (gets (\<lambda>s. row_by rs_source ref (rev_schedules (registers_of s)))) (\<lambda>x.
     case x of None \<Rightarrow> fail ErrScheduleNotFound | Some r \<Rightarrow> ok r)"

definition ListSchedules :: "int \<Rightarrow> revenue_schedule list action" where
  "ListSchedules limit = gets (\<lambda>s.
     take (nat (if limit \<le> 0 \<or> limit > 200 then 60 else limit)) (rev (rev_schedules (registers_of s))))"

text \<open>The two lines of an entry, and an entry of the finance service with its event.\<close>

definition two_lines :: "id \<Rightarrow> id \<Rightarrow> rat \<Rightarrow> string \<Rightarrow> string \<Rightarrow> resolved_line list" where
  "two_lines debit credit amount memo_dr memo_cr =
     [mk_line debit amount 0 memo_dr 0, mk_line credit 0 amount memo_cr 1]"

definition finance_params :: "string \<Rightarrow> string \<Rightarrow> date \<Rightarrow> resolved_line list \<Rightarrow> journal_params" where
  "finance_params desc eventID accDate ls =
     default_params\<lparr>jp_desc := desc, jp_source_event := Some eventID,
       jp_source_service := Some ''iag.finance'', jp_acc_date := Some accDate, jp_lines := ls\<rparr>"

definition CreateSchedule ::
  "env \<Rightarrow> schedule_input \<Rightarrow> time \<Rightarrow> audit_info option \<Rightarrow> revenue_schedule action" where
  "CreateSchedule env inp0 postedAt audit_i =
     (if sc_total inp0 \<le> 0 then fail (ErrText ''schedule total must be positive'')
      else let inp = schedule_defaults env inp0; eventID = ''revsched:'' @ sc_source inp in
      if parse_period (sc_start inp) = None then fail (ErrText ''startPeriod must be YYYY-MM'')
      else bind (accountIDByCode ''4000'') (\<lambda>revenueID.
      bind (accountIDByCode ''2300'') (\<lambda>deferredID.
      bind (RateOrOne env (sc_currency inp) (date_of postedAt)) (\<lambda>rate.
      bind (BookPostedEntry env
              ((finance_params (''Defer revenue '' @ sc_source inp) eventID (date_of postedAt)
                  (two_lines revenueID deferredID (sc_total inp) (''Defer revenue '' @ sc_source inp)
                     (''Deferred revenue '' @ sc_source inp)))\<lparr>jp_currency := sc_currency inp, jp_fx_rate := rate\<rparr>)
              eventID ''finance.revenue.defer'' postedAt (Some (lay_out_schedule env inp)) audit_i) (\<lambda>(_, out).
      case out of None \<Rightarrow> GetScheduleBySourceRef (sc_source inp) | Some row \<Rightarrow> ok row)))))"

section \<open>Recognition\<close>

definition complete_schedules :: "unit action" where
  "complete_schedules = upd_registers (\<lambda>r. r\<lparr>rev_schedules :=
     update_where (\<lambda>x. rs_active x \<and> rs_method x = ''ratable'' \<and> \<not> unstamped RevenuePlan r (rs_id x))
       (\<lambda>x. x\<lparr>rs_active := False\<rparr>) (rev_schedules r)\<rparr>)"

definition RunRecognition ::
  "env \<Rightarrow> string \<Rightarrow> time \<Rightarrow> audit_info option \<Rightarrow> (journal option \<times> rat \<times> nat) action" where
  "RunRecognition env period postedAt audit_i =
     (if parse_period period = None then fail (ErrText ''period must be YYYY-MM'')
      else bind (due_lines RevenuePlan period) (\<lambda>dues.
      let amount = sum_list (map sl_amount dues); eventID = ''revrec:'' @ period in
      if dues = [] \<or> amount \<le> 0 then ok (None, 0, 0)
      else bind (accountIDByCode ''2300'') (\<lambda>deferredID.
      bind (accountIDByCode ''4000'') (\<lambda>revenueID.
      bind (BookPostedEntry env
              (finance_params (''Revenue recognition '' @ period) eventID (date_of postedAt)
                (two_lines deferredID revenueID amount (''Recognise revenue '' @ period)
                   (''Revenue recognised '' @ period)))
              eventID ''finance.revenue.recognize'' postedAt
              (Some (\<lambda>entryID. bind (for_each (map sl_id dues) (stamp_line RevenuePlan entryID)) (\<lambda>_.
                 complete_schedules))) audit_i) (\<lambda>(entry, _).
      ok (entry, amount, length dues))))))"

definition satisfy_row :: "id \<Rightarrow> id \<Rightarrow> unit action" where
  "satisfy_row i entryID = upd_registers (\<lambda>r. r\<lparr>obligations :=
     update_where (\<lambda>o'. po_id o' = i \<and> \<not> po_satisfied o') (\<lambda>o'. o'\<lparr>po_satisfied := True, po_entry := Some entryID\<rparr>)
       (obligations r)\<rparr>)"

definition obligation_of :: "registers \<Rightarrow> id \<Rightarrow> obligation option" where
  "obligation_of r i =
     (case row_by po_id i (obligations r) of
        None \<Rightarrow> None
      | Some x \<Rightarrow> (if po_schedule x \<in> rs_id ` set (rev_schedules r) then Some x else None))"

definition repo_SatisfyObligation :: "env \<Rightarrow> id \<Rightarrow> time \<Rightarrow> audit_info option \<Rightarrow> journal option action" where
  "repo_SatisfyObligation env i postedAt audit_i =
     bind (gets (\<lambda>s. obligation_of (registers_of s) i)) (\<lambda>x.
     case x of
       None \<Rightarrow> fail ErrScheduleNotFound
     | Some ob \<Rightarrow>
         if po_satisfied ob then fail ErrObligationSatisfied
         else bind (accountIDByCode ''2300'') (\<lambda>deferredID.
         bind (accountIDByCode ''4000'') (\<lambda>revenueID.
         let eventID = ''revrec.obligation:'' @ show_nat i in
         bind (BookPostedEntry env
                 (finance_params ''Milestone recognition'' eventID (date_of postedAt)
                   (two_lines deferredID revenueID (po_amount ob) ''Recognise obligation''
                      ''Revenue recognised (milestone)''))
                 eventID ''finance.revenue.milestone'' postedAt (Some (satisfy_row i)) audit_i) (\<lambda>(entry, _).
         ok entry))))"

definition repo_AccrueRevenue ::
  "env \<Rightarrow> string \<Rightarrow> rat \<Rightarrow> time \<Rightarrow> audit_info option \<Rightarrow> journal option action" where
  "repo_AccrueRevenue env ref amount postedAt audit_i =
     bind (accountIDByCode ''1200'') (\<lambda>accruedID.
     bind (accountIDByCode ''4000'') (\<lambda>revenueID.
     let eventID = ''accrue:'' @ ref in
     bind (BookPostedEntry env
             (finance_params (''Accrue revenue '' @ ref) eventID (date_of postedAt)
               (two_lines accruedID revenueID amount (''Accrued revenue '' @ ref) (''Revenue earned '' @ ref)))
             eventID ''finance.revenue.accrue'' postedAt (None :: (id \<Rightarrow> unit action) option) audit_i) (\<lambda>(entry, _).
     ok entry)))"

section \<open>Service\<close>

definition periodEnd :: "string \<Rightarrow> time action" where
  "periodEnd period =
     (case parse_period period of
        None \<Rightarrow> fail (ErrText ''period must be YYYY-MM'')
      | Some (y, m) \<Rightarrow> ok (time_of_date (month_end y m)))"

definition actor_audit :: "string \<Rightarrow> string \<Rightarrow> string \<Rightarrow> audit_info option" where
  "actor_audit actor ty msg = Some \<lparr>ai_actor = actorOrSystem actor, ai_type = ty, ai_message = msg\<rparr>"

definition CreateRevenueSchedule :: "env \<Rightarrow> schedule_input \<Rightarrow> string \<Rightarrow> revenue_schedule action" where
  "CreateRevenueSchedule env inp actor =
     bind (guardOpen (env_now env)) (\<lambda>_.
     CreateSchedule env inp (env_now env)
       (actor_audit actor ''finance.revenue.defer'' (''defer revenue '' @ sc_source inp)))"

text \<open>The summary of a run of a period: its amount, how many lines it released and the entry.\<close>

record run_result =
  ru_period :: string
  ru_amount :: rat
  ru_lines :: nat
  ru_entry :: "journal option"

definition run_period ::
  "string \<Rightarrow> (time \<Rightarrow> (journal option \<times> rat \<times> nat) action) \<Rightarrow> run_result action" where
  "run_period period body =
     bind (periodEnd period) (\<lambda>end_of.
     bind (IsPeriodClosed period) (\<lambda>closed.
     if closed then fail ErrPeriodClosed
     else bind (body end_of) (\<lambda>(entry, amount, n).
       ok \<lparr>ru_period = period, ru_amount = amount, ru_lines = n, ru_entry = entry\<rparr>)))"

definition RunRevenueRecognition :: "env \<Rightarrow> string \<Rightarrow> string \<Rightarrow> run_result action" where
  "RunRevenueRecognition env period actor = run_period period (\<lambda>end_of.
     RunRecognition env period end_of
       (actor_audit actor ''finance.revenue.recognize'' (''recognise revenue '' @ period)))"

definition SatisfyObligation :: "env \<Rightarrow> id \<Rightarrow> string \<Rightarrow> journal option action" where
  "SatisfyObligation env i actor =
     bind (guardOpen (env_now env)) (\<lambda>_.
     repo_SatisfyObligation env i (env_now env)
       (actor_audit actor ''finance.revenue.milestone'' (''satisfy obligation '' @ show_nat i)))"

definition AccrueRevenue :: "env \<Rightarrow> string \<Rightarrow> rat \<Rightarrow> string \<Rightarrow> journal option action" where
  "AccrueRevenue env ref amount actor =
     bind (guardOpen (env_now env)) (\<lambda>_.
     repo_AccrueRevenue env ref amount (env_now env)
       (actor_audit actor ''finance.revenue.accrue'' (''accrue revenue '' @ ref)))"

section \<open>Schedules keep the books\<close>

lemma keeps_periodEnd [keeps_intros]: "keeps I (periodEnd p)"
  unfolding periodEnd_def by (intro keeps_intros)

lemma keeps_guardOpen [keeps_intros]: "keeps I (guardOpen t)"
  unfolding guardOpen_def IsPeriodClosed_def by (intro keeps_intros)

lemma keeps_run_period [keeps_intros]: "(\<And>t. keeps I (body t)) \<Longrightarrow> keeps I (run_period p body)"
  unfolding run_period_def IsPeriodClosed_def by (intro keeps_intros)

lemma lateral_schedule_rows [lateral_intros]:
  "lateral (insert_sched_line env p i q x)" "lateral (insert_schedule env inp e)"
  "lateral (insert_obligation env i ob)"
  by (auto simp: insert_sched_line_def insert_schedule_def insert_obligation_def lateral_def core_of_def Let_def
      split: prod.split)

lemma lateral_schedules [lateral_intros]:
  "lateral (lay_slices env p i q xs)" "lateral (stamp_line p e i)" "lateral complete_schedules"
  "lateral (satisfy_row i e)"
  unfolding lay_slices_def stamp_line_def complete_schedules_def satisfy_row_def by (intro lateral_intros)+

lemma lateral_lay_out_schedule [lateral_intros]: "lateral (lay_out_schedule env inp e)"
  unfolding lay_out_schedule_def by (intro lateral_intros)

lemma keeps_books_revenue [keeps_intros]:
  "keeps (books env h) (CreateRevenueSchedule env inp actor)" "keeps (books env h) (RunRevenueRecognition env q actor)"
  "keeps (books env h) (SatisfyObligation env i actor)" "keeps (books env h) (AccrueRevenue env ref x actor)"
  unfolding CreateRevenueSchedule_def CreateSchedule_def GetScheduleBySourceRef_def RunRevenueRecognition_def
    RunRecognition_def due_lines_def SatisfyObligation_def repo_SatisfyObligation_def AccrueRevenue_def
    repo_AccrueRevenue_def Let_def
  by (intro keeps_intros; auto intro!: lateral_intros)+

section \<open>What the slices add up to\<close>

lemma ratableSlices_sum: "sum_list (ratableSlices env amount n) = amount"
  by (simp add: ratableSlices_def Let_def sum_list_replicate)

lemma length_ratableSlices: "1 \<le> n \<Longrightarrow> length (ratableSlices env amount n) = n"
  by (simp add: ratableSlices_def Let_def)

end
