(* ===== verification/Prepayments.thy ===== *)
theory Prepayments
  imports Revenue_Schedules
begin

text \<open>
  Prepaid expenses (\<open>repository/prepayments.go\<close>, \<open>ledger/prepayments.go\<close>): an outlay is capitalised
  and its slices are expensed by the run of a period, one debit per expense account.
\<close>

definition ErrPrepaymentExists :: err where
  "ErrPrepaymentExists = ErrText ''prepayment schedule already exists for source''"

definition ErrPrepaymentNotFound :: err where
  "ErrPrepaymentNotFound = ErrText ''prepayment schedule not found''"

record prepayment_input =
  pp_source :: string
  pp_total :: rat
  pp_currency :: string
  pp_expense :: string
  pp_funding :: string
  pp_start :: string
  pp_periods :: int

definition prepayment_defaults :: "env \<Rightarrow> prepayment_input \<Rightarrow> prepayment_input" where
  "prepayment_defaults env inp =
     inp\<lparr>pp_currency := (if pp_currency inp = '''' then env_base env else pp_currency inp),
         pp_expense := (if pp_expense inp = '''' then ''5100'' else pp_expense inp),
         pp_funding := (if pp_funding inp = '''' then ''1000'' else pp_funding inp),
         pp_periods := (if pp_periods inp < 1 then 1 else pp_periods inp)\<rparr>"

definition insert_prepayment :: "env \<Rightarrow> prepayment_input \<Rightarrow> id \<Rightarrow> prepaid_schedule action" where
  "insert_prepayment env inp entryID = (\<lambda>s.
     let r = registers_of s;
         row = \<lparr>ps_id = next_id s, ps_source = pp_source inp, ps_entity = env_entity env,
                ps_total = env_round env (pp_total inp) 2, ps_currency = pp_currency inp,
                ps_expense = pp_expense inp, ps_funding = pp_funding inp, ps_start = pp_start inp,
                ps_periods = pp_periods inp, ps_active = True, ps_entry = Some entryID\<rparr>
     in if \<not> ps_total row > 0 then (Inl (CheckViolation ''prepaid_schedules_total_check''), s)
        else if pp_source inp \<in> ps_source ` set (prepaid_schedules r) then (Inl ErrPrepaymentExists, s)
        else (Inr row, s\<lparr>registers_of := r\<lparr>prepaid_schedules := prepaid_schedules r @ [row]\<rparr>,
                         next_id := Suc (next_id s)\<rparr>))"

definition lay_out_prepayment :: "env \<Rightarrow> prepayment_input \<Rightarrow> id \<Rightarrow> prepaid_schedule action" where
  "lay_out_prepayment env inp entryID =
     bind (insert_prepayment env inp entryID) (\<lambda>row.
     bind (lay_slices env PrepaidPlan (ps_id row) (pp_start inp)
             (ratableSlices env (pp_total inp) (nat (pp_periods inp)))) (\<lambda>_.
     ok (row\<lparr>ps_total := pp_total inp\<rparr>)))"

definition GetPrepaymentBySourceRef :: "string \<Rightarrow> prepaid_schedule action" where
  "GetPrepaymentBySourceRef ref = bind (gets (\<lambda>s. row_by ps_source ref (prepaid_schedules (registers_of s)))) (\<lambda>x.
     case x of None \<Rightarrow> fail ErrPrepaymentNotFound | Some r \<Rightarrow> ok r)"

definition ListPrepayments :: "int \<Rightarrow> prepaid_schedule list action" where
  "ListPrepayments limit = gets (\<lambda>s.
     take (nat (if limit \<le> 0 \<or> limit > 200 then 60 else limit)) (rev (prepaid_schedules (registers_of s))))"

definition repo_CreatePrepayment ::
  "env \<Rightarrow> prepayment_input \<Rightarrow> time \<Rightarrow> audit_info option \<Rightarrow> prepaid_schedule action" where
  "repo_CreatePrepayment env inp0 postedAt audit_i =
     (if pp_total inp0 \<le> 0 then fail (ErrText ''prepayment total must be positive'')
      else let inp = prepayment_defaults env inp0; eventID = ''prepaid:'' @ pp_source inp in
      if parse_period (pp_start inp) = None then fail (ErrText ''startPeriod must be YYYY-MM'')
      else bind (accountIDByCode ''1250'') (\<lambda>prepaidID.
      bind (accountIDByCode (pp_funding inp)) (\<lambda>fundingID.
      bind (accountIDByCode (pp_expense inp)) (\<lambda>_.
      bind (RateOrOne env (pp_currency inp) (date_of postedAt)) (\<lambda>rate.
      bind (BookPostedEntry env
              ((finance_params (''Capitalize prepayment '' @ pp_source inp) eventID (date_of postedAt)
                  (two_lines prepaidID fundingID (pp_total inp) (''Prepayment '' @ pp_source inp)
                     (''Fund prepayment '' @ pp_source inp)))\<lparr>jp_currency := pp_currency inp, jp_fx_rate := rate\<rparr>)
              eventID ''finance.prepayment.capitalize'' postedAt (Some (lay_out_prepayment env inp)) audit_i)
        (\<lambda>(_, out).
      case out of None \<Rightarrow> GetPrepaymentBySourceRef (pp_source inp) | Some row \<Rightarrow> ok row))))))"

section \<open>Amortization\<close>

text \<open>The lines that are due, joined with the schedule each belongs to.\<close>

definition expense_of :: "registers \<Rightarrow> sched_line \<Rightarrow> string option" where
  "expense_of r l = map_option ps_expense (row_by ps_id (sl_schedule l) (prepaid_schedules r))"

definition due_amortization :: "string \<Rightarrow> (sched_line \<times> string) list action" where
  "due_amortization period = gets (\<lambda>s. let r = registers_of s in
     List.map_filter (\<lambda>l. map_option (\<lambda>c. (l, c)) (expense_of r l)) (filter (due_line period) (prepaid_lines r)))"

definition sortedKeys :: "string list \<Rightarrow> string list" where
  "sortedKeys ks = sort_key (\<lambda>k. map (of_char :: char \<Rightarrow> nat) k) ks"

definition byExpense :: "(sched_line \<times> string) list \<Rightarrow> string \<Rightarrow> rat" where
  "byExpense dues code = sum_list (map (\<lambda>(l, c). if c = code then sl_amount l else 0) dues)"

definition amortization_lines ::
  "string \<Rightarrow> (sched_line \<times> string) list \<Rightarrow> (string \<times> id) list \<Rightarrow> id \<Rightarrow> resolved_line list" where
  "amortization_lines period dues ids prepaidID =
     map (\<lambda>(i, code, acct). mk_line acct (byExpense dues code) 0 (''Amortize prepayment '' @ period) (int i))
       (enumerate 0 ids)
     @ [mk_line prepaidID 0 (sum_list (map (sl_amount \<circ> fst) dues)) (''Prepayment amortized '' @ period)
          (int (length ids))]"

definition complete_prepayments :: "unit action" where
  "complete_prepayments = upd_registers (\<lambda>r. r\<lparr>prepaid_schedules :=
     update_where (\<lambda>x. ps_active x \<and> \<not> unstamped PrepaidPlan r (ps_id x))
       (\<lambda>x. x\<lparr>ps_active := False\<rparr>) (prepaid_schedules r)\<rparr>)"

definition repo_RunAmortization ::
  "env \<Rightarrow> string \<Rightarrow> time \<Rightarrow> audit_info option \<Rightarrow> (journal option \<times> rat \<times> nat) action" where
  "repo_RunAmortization env period postedAt audit_i =
     (if parse_period period = None then fail (ErrText ''period must be YYYY-MM'')
      else bind (due_amortization period) (\<lambda>dues.
      let amount = sum_list (map (sl_amount \<circ> fst) dues); eventID = ''prepaidamort:'' @ period in
      if dues = [] \<or> amount \<le> 0 then ok (None, 0, 0)
      else bind (accountIDByCode ''1250'') (\<lambda>prepaidID.
      bind (map_each (sortedKeys (remdups (map snd dues))) (\<lambda>code.
              bind (accountIDByCode code) (\<lambda>i. ok (code, i)))) (\<lambda>ids.
      bind (BookPostedEntry env
              (finance_params (''Prepayment amortization '' @ period) eventID (date_of postedAt)
                (amortization_lines period dues ids prepaidID))
              eventID ''finance.prepayment.amortize'' postedAt
              (Some (\<lambda>entryID. bind (for_each (map (sl_id \<circ> fst) dues) (stamp_line PrepaidPlan entryID)) (\<lambda>_.
                 complete_prepayments))) audit_i) (\<lambda>(entry, _).
      ok (entry, amount, length dues))))))"

section \<open>Service\<close>

definition CreatePrepayment :: "env \<Rightarrow> prepayment_input \<Rightarrow> string \<Rightarrow> prepaid_schedule action" where
  "CreatePrepayment env inp actor =
     bind (guardOpen (env_now env)) (\<lambda>_.
     repo_CreatePrepayment env inp (env_now env)
       (actor_audit actor ''finance.prepayment.capitalize'' (''capitalize prepayment '' @ pp_source inp)))"

definition RunAmortization :: "env \<Rightarrow> string \<Rightarrow> string \<Rightarrow> run_result action" where
  "RunAmortization env period actor = run_period period (\<lambda>end_of.
     repo_RunAmortization env period end_of
       (actor_audit actor ''finance.prepayment.amortize'' (''amortize prepayments '' @ period)))"

section \<open>Prepayments keep the books\<close>

lemma lateral_prepayments [lateral_intros]:
  "lateral (insert_prepayment env inp e)" "lateral (lay_out_prepayment env inp e)" "lateral complete_prepayments"
proof -
  show p: "lateral (insert_prepayment env inp e)" for inp e
    by (simp add: insert_prepayment_def lateral_def core_of_def Let_def)
  show "lateral (lay_out_prepayment env inp e)" "lateral complete_prepayments"
    unfolding lay_out_prepayment_def complete_prepayments_def by (intro lateral_intros p)+
qed

lemma keeps_books_prepayments [keeps_intros]:
  "keeps (books env h) (CreatePrepayment env inp actor)" "keeps (books env h) (RunAmortization env q actor)"
  unfolding CreatePrepayment_def repo_CreatePrepayment_def GetPrepaymentBySourceRef_def RunAmortization_def
    repo_RunAmortization_def due_amortization_def Let_def
  by (intro keeps_intros; auto intro!: lateral_intros)+

section \<open>The amortization entry balances\<close>

lemma sum_list_if_eq:
  "distinct ks \<Longrightarrow> sum_list (map (\<lambda>k. if c = k then x else (0::rat)) ks) = (if c \<in> set ks then x else 0)"
  by (induction ks) auto

lemma sum_list_codes:
  assumes "distinct ks" "set (map snd dues) \<subseteq> set ks"
  shows "sum_list (map (byExpense dues) ks) = sum_list (map (sl_amount \<circ> fst) dues)"
  using assms(2)
proof (induction dues)
  case Nil
  then show ?case by (simp add: byExpense_def sum_list_0)
next
  case (Cons d dues)
  have "sum_list (map (\<lambda>k. if snd d = k then sl_amount (fst d) else 0) ks) = sl_amount (fst d)"
    using assms(1) Cons.prems by (simp add: sum_list_if_eq)
  then show ?case
    using Cons by (simp add: byExpense_def split_def sum_list_addf)
qed

text \<open>Debits by account against the one credit of the total.\<close>

lemma sum_list_enumerate: "sum_list (map (\<lambda>(i, x). f x) (enumerate n xs)) = sum_list (map f xs)"
  by (induction xs arbitrary: n) simp_all

lemma amortization_lines_balanced:
  assumes "map fst ids = sortedKeys (remdups (map snd dues))"
  shows "sum_list (map rl_debit (amortization_lines period dues ids prepaidID))
       = sum_list (map rl_credit (amortization_lines period dues ids prepaidID))"
proof -
  have "sum_list (map rl_debit (amortization_lines period dues ids prepaidID))
      = sum_list (map (\<lambda>(i, x). byExpense dues (fst x)) (enumerate 0 ids))"
    by (simp add: amortization_lines_def comp_def split_def mk_line_def)
  also have "\<dots> = sum_list (map (byExpense dues) (map fst ids))"
    by (simp add: sum_list_enumerate comp_def)
  also have "\<dots> = sum_list (map (sl_amount \<circ> fst) dues)"
    unfolding assms by (rule sum_list_codes) (simp_all add: sortedKeys_def)
  also have "\<dots> = sum_list (map rl_credit (amortization_lines period dues ids prepaidID))"
    by (simp add: amortization_lines_def comp_def split_def mk_line_def sum_list_0)
  finally show ?thesis .
qed

end
