(* ===== verification/Leases.thy ===== *)
theory Leases
  imports Prepayments
begin

text \<open>
  Leases (\<open>repository/leases.go\<close>, \<open>ledger/leases.go\<close>): the present value of the payments, the
  schedule that unwinds the liability and depreciates the right of use, and the run of a period.
\<close>

section \<open>The schedule\<close>

definition ErrLeaseExists :: err where
  "ErrLeaseExists = ErrText ''lease already exists for reference''"

definition ErrLeaseNotFound :: err where
  "ErrLeaseNotFound = ErrText ''lease not found''"

record lease_input =
  lz_ref :: string
  lz_desc :: string
  lz_currency :: string
  lz_payment :: rat
  lz_rate :: rat
  lz_term :: int
  lz_start :: string

record schedule_row =
  sr_period :: string
  sr_opening :: rat
  sr_interest :: rat
  sr_payment :: rat
  sr_principal :: rat
  sr_closing :: rat
  sr_depreciation :: rat

text \<open>The discount loop: \<open>pv\<close> so far and the discount factor.\<close>

fun discount :: "env \<Rightarrow> rat \<Rightarrow> rat \<Rightarrow> nat \<Rightarrow> rat \<Rightarrow> rat \<Rightarrow> rat" where
  "discount env payment monthly 0 df pv = pv"
| "discount env payment monthly (Suc k) df pv =
     (if monthly = 0 then discount env payment monthly k df (pv + payment)
      else let df' = env_round env (df / (1 + monthly)) 12
           in discount env payment monthly k df' (pv + payment * df'))"

definition present_value :: "env \<Rightarrow> rat \<Rightarrow> rat \<Rightarrow> nat \<Rightarrow> rat" where
  "present_value env payment monthly term = env_round env (discount env payment monthly term 1 0) 2"

text \<open>The rows from the \<open>i\<close>-th on: \<open>k\<close> rows left, the last one clears what is left.\<close>

fun lease_rows ::
  "env \<Rightarrow> rat \<Rightarrow> rat \<Rightarrow> string \<Rightarrow> rat \<Rightarrow> rat \<Rightarrow> nat \<Rightarrow> nat \<Rightarrow> rat \<Rightarrow> rat \<Rightarrow> schedule_row list" where
  "lease_rows env payment monthly start rou deprPer i 0 opening accum = []"
| "lease_rows env payment monthly start rou deprPer i (Suc k) opening accum =
     (let interest = env_round env (opening * monthly) 2;
          principal = (if k = 0 then opening else payment - interest);
          depr = (if k = 0 then rou - accum else deprPer);
          closing = opening - principal
      in \<lparr>sr_period = addMonths start i, sr_opening = opening, sr_interest = interest,
          sr_payment = interest + principal, sr_principal = principal, sr_closing = closing,
          sr_depreciation = depr\<rparr>
         # lease_rows env payment monthly start rou deprPer (Suc i) k closing (accum + depr))"

definition buildLeaseSchedule :: "env \<Rightarrow> rat \<Rightarrow> rat \<Rightarrow> nat \<Rightarrow> string \<Rightarrow> rat \<times> schedule_row list" where
  "buildLeaseSchedule env payment annualRate term start =
     (let monthly = decimal_div env annualRate 12;
          pv = present_value env payment monthly term;
          deprPer = env_round env (pv / of_nat term) 2
      in (pv, lease_rows env payment monthly start pv deprPer 0 term pv 0))"

section \<open>Recognition\<close>

definition insert_lease :: "env \<Rightarrow> lease_input \<Rightarrow> rat \<Rightarrow> id \<Rightarrow> lease action" where
  "insert_lease env inp pv entryID = (\<lambda>s.
     let r = registers_of s;
         row = \<lparr>le_id = next_id s, le_ref = lz_ref inp, le_entity = env_entity env, le_desc = lz_desc inp,
                le_currency = lz_currency inp, le_payment = env_round env (lz_payment inp) 2,
                le_rate = env_round env (lz_rate inp) 6, le_term = lz_term inp, le_start = lz_start inp,
                le_rou = env_round env pv 2, le_liability = env_round env pv 2, le_active = True,
                le_entry = Some entryID\<rparr>
     in if \<not> le_payment row > 0 then (Inl (CheckViolation ''leases_monthly_payment_check''), s)
        else if lz_ref inp \<in> le_ref ` set (leases r) then (Inl ErrLeaseExists, s)
        else (Inr row, s\<lparr>registers_of := r\<lparr>leases := leases r @ [row]\<rparr>, next_id := Suc (next_id s)\<rparr>))"

definition insert_lease_line :: "env \<Rightarrow> id \<Rightarrow> schedule_row \<Rightarrow> unit action" where
  "insert_lease_line env i x = (\<lambda>s.
     let r = registers_of s;
         row = \<lparr>ll_id = next_id s, ll_lease = i, ll_period = sr_period x,
                ll_opening = env_round env (sr_opening x) 2, ll_interest = env_round env (sr_interest x) 2,
                ll_payment = env_round env (sr_payment x) 2, ll_principal = env_round env (sr_principal x) 2,
                ll_closing = env_round env (sr_closing x) 2,
                ll_depreciation = env_round env (sr_depreciation x) 2, ll_entry = None\<rparr>
     in if \<exists>l \<in> set (lease_lines r). ll_lease l = i \<and> ll_period l = sr_period x
        then (Inl (UniqueViolation ''lease_schedule_lines_lease_id_period_key''), s)
        else (Inr (), s\<lparr>registers_of := r\<lparr>lease_lines := lease_lines r @ [row]\<rparr>, next_id := Suc (next_id s)\<rparr>))"

definition lay_out_lease :: "env \<Rightarrow> lease_input \<Rightarrow> rat \<Rightarrow> schedule_row list \<Rightarrow> id \<Rightarrow> lease action" where
  "lay_out_lease env inp pv rows entryID =
     bind (insert_lease env inp pv entryID) (\<lambda>row.
     bind (for_each rows (insert_lease_line env (le_id row))) (\<lambda>_.
     ok (row\<lparr>le_payment := lz_payment inp, le_rate := lz_rate inp, le_rou := pv, le_liability := pv\<rparr>)))"

definition GetLeaseByRef :: "string \<Rightarrow> lease action" where
  "GetLeaseByRef ref = bind (gets (\<lambda>s. row_by le_ref ref (leases (registers_of s)))) (\<lambda>x.
     case x of None \<Rightarrow> fail ErrLeaseNotFound | Some r \<Rightarrow> ok r)"

definition ListLeases :: "int \<Rightarrow> lease list action" where
  "ListLeases limit = gets (\<lambda>s.
     take (nat (if limit \<le> 0 \<or> limit > 200 then 60 else limit)) (rev (leases (registers_of s))))"

definition lease_check :: "lease_input \<Rightarrow> err option" where
  "lease_check inp =
     (if lz_payment inp \<le> 0 then Some (ErrText ''monthly payment must be positive'')
      else if lz_term inp < 1 then Some (ErrText ''term must be at least 1 month'')
      else if lz_rate inp < 0 then Some (ErrText ''annual rate cannot be negative'')
      else if parse_period (lz_start inp) = None then Some (ErrText ''startPeriod must be YYYY-MM'')
      else None)"

definition repo_CreateLease :: "env \<Rightarrow> lease_input \<Rightarrow> time \<Rightarrow> audit_info option \<Rightarrow> lease action" where
  "repo_CreateLease env inp0 postedAt audit_i =
     bind (check (lease_check inp0)) (\<lambda>_.
     let inp = inp0\<lparr>lz_currency := (if lz_currency inp0 = '''' then env_base env else lz_currency inp0)\<rparr>;
         eventID = ''lease:'' @ lz_ref inp in
     case buildLeaseSchedule env (lz_payment inp) (lz_rate inp) (nat (lz_term inp)) (lz_start inp) of (pv, rows) \<Rightarrow>
     if pv \<le> 0 then fail (ErrText ''computed lease present value is not positive'')
     else bind (accountIDByCode ''1600'') (\<lambda>rouID.
     bind (accountIDByCode ''2500'') (\<lambda>liabID.
     bind (RateOrOne env (lz_currency inp) (date_of postedAt)) (\<lambda>rate.
     bind (BookPostedEntry env
             ((finance_params (''Recognise lease '' @ lz_ref inp) eventID (date_of postedAt)
                 (two_lines rouID liabID pv (''Right-of-use asset '' @ lz_ref inp)
                    (''Lease liability '' @ lz_ref inp)))\<lparr>jp_currency := lz_currency inp, jp_fx_rate := rate\<rparr>)
             eventID ''finance.lease.recognize'' postedAt (Some (lay_out_lease env inp pv rows)) audit_i) (\<lambda>(_, out).
     case out of None \<Rightarrow> GetLeaseByRef (lz_ref inp) | Some row \<Rightarrow> ok row)))))"

section \<open>The run of a period\<close>

definition due_lease_lines :: "string \<Rightarrow> lease_line list action" where
  "due_lease_lines period = gets (\<lambda>s.
     filter (\<lambda>l. str_le (ll_period l) period \<and> ll_entry l = None) (lease_lines (registers_of s)))"

definition nonzero :: "line_input list \<Rightarrow> line_input list" where
  "nonzero ls = filter (\<lambda>l. \<not> (li_debit l = 0 \<and> li_credit l = 0)) ls"

definition lease_run_lines :: "string \<Rightarrow> rat \<Rightarrow> rat \<Rightarrow> rat \<Rightarrow> rat \<Rightarrow> line_input list" where
  "lease_run_lines period interest princ payment depr = nonzero
     [dr ''5600'' interest (''Lease interest '' @ period),
      dr ''5320'' depr (''ROU depreciation '' @ period),
      dr ''2500'' princ (''Lease principal '' @ period),
      cr ''1000'' payment (''Lease payment '' @ period),
      cr ''1610'' depr (''Accum ROU depreciation '' @ period)]"

definition with_accounts :: "(string \<times> id) list \<Rightarrow> line_input list \<Rightarrow> resolved_line list" where
  "with_accounts ids ls =
     map (\<lambda>(i, l). mk_line (the (map_of ids (li_code l))) (li_debit l) (li_credit l) (li_memo l) (int i))
       (enumerate 0 ls)"

definition stamp_lease_line :: "id \<Rightarrow> id \<Rightarrow> unit action" where
  "stamp_lease_line entry i = upd_registers (\<lambda>r. r\<lparr>lease_lines :=
     update_where (\<lambda>l. ll_id l = i \<and> ll_entry l = None) (\<lambda>l. l\<lparr>ll_entry := Some entry\<rparr>) (lease_lines r)\<rparr>)"

definition complete_leases :: "unit action" where
  "complete_leases = upd_registers (\<lambda>r. r\<lparr>leases :=
     update_where (\<lambda>x. le_active x \<and> \<not> (\<exists>l \<in> set (lease_lines r). ll_lease l = le_id x \<and> ll_entry l = None))
       (\<lambda>x. x\<lparr>le_active := False\<rparr>) (leases r)\<rparr>)"

definition repo_RunLeasePeriod ::
  "env \<Rightarrow> string \<Rightarrow> time \<Rightarrow> audit_info option \<Rightarrow> (journal option \<times> rat \<times> nat) action" where
  "repo_RunLeasePeriod env period postedAt audit_i =
     (if parse_period period = None then fail (ErrText ''period must be YYYY-MM'')
      else bind (due_lease_lines period) (\<lambda>dues.
      let interest = sum_list (map ll_interest dues); principal = sum_list (map ll_principal dues);
          payment = sum_list (map ll_payment dues); depr = sum_list (map ll_depreciation dues);
          eventID = ''leaserun:'' @ period in
      if dues = [] then ok (None, 0, 0)
      else bind (map_each [''5600'', ''5320'', ''2500'', ''1000'', ''1610''] (\<lambda>code.
              bind (accountIDByCode code) (\<lambda>i. ok (code, i)))) (\<lambda>ids.
      bind (BookPostedEntry env
              (finance_params (''Lease period '' @ period) eventID (date_of postedAt)
                (with_accounts ids (lease_run_lines period interest principal payment depr)))
              eventID ''finance.lease.run'' postedAt
              (Some (\<lambda>entryID. bind (for_each (map ll_id dues) (stamp_lease_line entryID)) (\<lambda>_. complete_leases)))
              audit_i) (\<lambda>(entry, _).
      ok (entry, interest + principal, length dues)))))"

definition CreateLease :: "env \<Rightarrow> lease_input \<Rightarrow> string \<Rightarrow> lease action" where
  "CreateLease env inp actor =
     bind (guardOpen (env_now env)) (\<lambda>_.
     repo_CreateLease env inp (env_now env)
       (actor_audit actor ''finance.lease.recognize'' (''recognise lease '' @ lz_ref inp)))"

definition RunLeasePeriod :: "env \<Rightarrow> string \<Rightarrow> string \<Rightarrow> run_result action" where
  "RunLeasePeriod env period actor = run_period period (\<lambda>end_of.
     repo_RunLeasePeriod env period end_of
       (actor_audit actor ''finance.lease.run'' (''lease period '' @ period)))"

section \<open>Leases keep the books\<close>

lemma lateral_lease_rows [lateral_intros]:
  "lateral (insert_lease env inp pv e)" "lateral (insert_lease_line env i x)"
  by (simp_all add: insert_lease_def insert_lease_line_def lateral_def core_of_def Let_def)

lemma lateral_leases [lateral_intros]:
  "lateral (lay_out_lease env inp pv rows e)" "lateral (stamp_lease_line e i)" "lateral complete_leases"
  unfolding lay_out_lease_def stamp_lease_line_def complete_leases_def by (intro lateral_intros)+

lemma keeps_books_leases [keeps_intros]:
  "keeps (books env h) (CreateLease env inp actor)" "keeps (books env h) (RunLeasePeriod env q actor)"
  unfolding CreateLease_def repo_CreateLease_def GetLeaseByRef_def RunLeasePeriod_def
    repo_RunLeasePeriod_def due_lease_lines_def Let_def
  by (intro keeps_intros; auto intro!: lateral_intros)+

section \<open>The schedule unwinds the lease\<close>

lemma lease_rows_sums:
  "k \<ge> 1 \<Longrightarrow> sum_list (map sr_principal (lease_rows env p m st rou d i k bal accum)) = bal \<and>
     sum_list (map sr_depreciation (lease_rows env p m st rou d i k bal accum)) = rou - accum \<and>
     sr_closing (last (lease_rows env p m st rou d i k bal accum)) = 0"
proof (induction k arbitrary: i bal accum)
  case 0
  then show ?case by simp
next
  case (Suc k)
  show ?case
  proof (cases k)
    case 0
    then show ?thesis by (simp add: Let_def)
  next
    case (Suc j)
    then have k: "1 \<le> k" by simp
    note ih = Suc.IH [OF k]
    have ne: "lease_rows env p m st rou d q k x y \<noteq> []" for q x y
      using Suc by (simp add: Let_def)
    show ?thesis
      using ih k ne by (simp add: Let_def)
  qed
qed

lemma length_lease_rows: "length (lease_rows env p m st rou d i k bal accum) = k"
  by (induction k arbitrary: i bal accum) (simp_all add: Let_def)

text \<open>Each row opens where the one before closed, and pays its interest and principal.\<close>

fun linked :: "rat \<Rightarrow> schedule_row list \<Rightarrow> bool" where
  "linked x [] = True"
| "linked x (r # rs) \<longleftrightarrow> sr_opening r = x \<and> sr_closing r = x - sr_principal r \<and>
     sr_payment r = sr_interest r + sr_principal r \<and> linked (sr_closing r) rs"

lemma lease_rows_linked: "linked bal (lease_rows env p m st rou d i k bal accum)"
  by (induction k arbitrary: i bal accum) (simp_all add: Let_def)

lemma lease_run_lines_balanced:
  "payment = interest + princ \<Longrightarrow>
     total_debit (lease_run_lines period interest princ payment depr)
       = total_credit (lease_run_lines period interest princ payment depr)"
  by (simp add: lease_run_lines_def nonzero_def)

end
