(* ===== verification/Charges.thy ===== *)
theory Charges
  imports Leases
begin

text \<open>
  Withholding-tax certificates and late fees (\<open>repository/withholding_tax.go\<close>,
  \<open>repository/late_fees.go\<close>, \<open>ledger/withholding_tax.go\<close>, \<open>ledger/late_fees.go\<close>): a row with a
  generated reference and its posting in one transaction. The cast of a text to an integer is the
  database's, a parameter.
\<close>

definition has_prefix :: "string \<Rightarrow> string \<Rightarrow> bool" where
  "has_prefix p s \<longleftrightarrow> take (length p) s = p"

definition pad_number :: "int \<Rightarrow> string" where
  "pad_number n = (if n < 0 then CHR ''-'' # pad_left 2 (show_int (- n)) else pad_left 3 (show_int n))"

text \<open>
  \<open>MAX(CAST(SUBSTRING(ref FROM k) AS INT)) \<dots> WHERE ref LIKE 'prefix%'\<close>. The error of the query is
  dropped, but it aborts the transaction, so that the statement after it fails.
\<close>

definition next_reference :: "(string \<Rightarrow> int option) \<Rightarrow> string \<Rightarrow> string list \<Rightarrow> string action" where
  "next_reference cast_int prefix refs =
     (let nums = map (\<lambda>r. cast_int (drop (length prefix) r)) (filter (has_prefix prefix) refs) in
      if None \<in> set nums then fail (ErrText ''current transaction is aborted'')
      else if nums = [] then ok (prefix @ pad_number 1)
      else ok (prefix @ pad_number (Max (the ` set nums) + 1)))"

section \<open>Withholding tax\<close>

record wht_input =
  wi_ref :: string
  wi_customer :: string
  wi_invoice :: string
  wi_authority :: string
  wi_amount :: rat
  wi_date :: time
  wi_currency :: string
  wi_notes :: string

definition insert_wht :: "env \<Rightarrow> wht_input \<Rightarrow> string \<Rightarrow> string \<Rightarrow> wht_receipt action" where
  "insert_wht env inp ref currency = (\<lambda>s.
     let r = registers_of s;
         row = \<lparr>wh_ref = ref, wh_customer = wi_customer inp, wh_invoice = wi_invoice inp,
                wh_authority = wi_authority inp, wh_amount = env_round env (wi_amount inp) 2,
                wh_date = date_of (wi_date inp), wh_currency = currency, wh_notes = wi_notes inp\<rparr>
     in if \<not> wh_amount row > 0 then (Inl (CheckViolation ''wht_receipts_amount_check''), s)
        else if ref \<in> wh_ref ` set (wht_receipts r)
        then (Inl (UniqueViolation ''wht_receipts_certificate_ref_key''), s)
        else (Inr row, s\<lparr>registers_of := r\<lparr>wht_receipts := wht_receipts r @ [row]\<rparr>\<rparr>))"

definition wht_posting :: "env \<Rightarrow> wht_input \<Rightarrow> wht_receipt \<Rightarrow> string \<Rightarrow> unit action" where
  "wht_posting env inp rec currency =
     (if wi_amount inp > 0 then
        bind (accountIDByCodeTx ''1150'') (\<lambda>whtID.
        bind (accountIDByCodeTx ''1100'') (\<lambda>arID.
        bind (post_in_tx env
          (default_params\<lparr>jp_desc := ''WHT certificate '' @ wh_ref rec, jp_source_service := Some ''wht-receipt'',
             jp_acc_date := Some (date_of (wi_date inp)), jp_currency := currency,
             jp_lines := two_lines whtID arID (wi_amount inp) (''WHT recoverable '' @ wh_ref rec)
                           (''Settle AR via WHT '' @ wh_invoice rec)\<rparr>) (wi_date inp)) (\<lambda>_. ok ())))
      else ok ())"

definition CreateWHTReceipt :: "env \<Rightarrow> (string \<Rightarrow> int option) \<Rightarrow> wht_input \<Rightarrow> wht_receipt action" where
  "CreateWHTReceipt env cast_int inp =
     (let currency = (if wi_currency inp = '''' then env_base env else wi_currency inp) in tx
      (bind (if wi_ref inp = ''''
             then bind (gets (\<lambda>s. map wh_ref (wht_receipts (registers_of s)))) (next_reference cast_int ''WHT-2026-'')
             else ok (wi_ref inp)) (\<lambda>ref.
       bind (insert_wht env inp ref currency) (\<lambda>rec.
       bind (wht_posting env inp rec currency) (\<lambda>_. ok rec)))))"

definition RecordWHTReceipt :: "env \<Rightarrow> (string \<Rightarrow> int option) \<Rightarrow> wht_input \<Rightarrow> wht_receipt action" where
  "RecordWHTReceipt env cast_int inp =
     bind (IsPeriodClosed (period_of_time (wi_date inp))) (\<lambda>closed.
     if closed then fail ErrPeriodClosed else CreateWHTReceipt env cast_int inp)"

definition ListWHTReceipts :: "int \<Rightarrow> int \<Rightarrow> wht_receipt list action" where
  "ListWHTReceipts limit offset = gets (\<lambda>s.
     page (if limit \<le> 0 \<or> limit > 200 then 100 else limit) offset
       (rev (sort_key (\<lambda>w. day_of_civil (wh_date w)) (wht_receipts (registers_of s)))))"

section \<open>Late fees\<close>

record late_fee_input =
  fe_ref :: string
  fe_customer :: string
  fe_invoice :: string
  fe_rate :: rat
  fe_amount :: rat
  fe_date :: time
  fe_currency :: string
  fe_notes :: string

definition insert_late_fee :: "env \<Rightarrow> late_fee_input \<Rightarrow> string \<Rightarrow> string \<Rightarrow> late_fee action" where
  "insert_late_fee env inp ref currency = (\<lambda>s.
     let r = registers_of s;
         row = \<lparr>lf_ref = ref, lf_customer = fe_customer inp, lf_invoice = fe_invoice inp,
                lf_rate = env_round env (fe_rate inp) 4, lf_amount = env_round env (fe_amount inp) 2,
                lf_date = date_of (fe_date inp), lf_currency = currency, lf_notes = fe_notes inp\<rparr>
     in if \<not> lf_amount row > 0 then (Inl (CheckViolation ''late_fees_amount_check''), s)
        else if ref \<in> lf_ref ` set (late_fees r) then (Inl (UniqueViolation ''late_fees_fee_ref_key''), s)
        else (Inr row, s\<lparr>registers_of := r\<lparr>late_fees := late_fees r @ [row]\<rparr>\<rparr>))"

definition CreateLateFee :: "env \<Rightarrow> (string \<Rightarrow> int option) \<Rightarrow> late_fee_input \<Rightarrow> late_fee action" where
  "CreateLateFee env cast_int inp =
     (let currency = (if fe_currency inp = '''' then env_base env else fe_currency inp) in tx
      (bind (if fe_ref inp = ''''
             then bind (gets (\<lambda>s. map lf_ref (late_fees (registers_of s)))) (next_reference cast_int ''LF-2026-'')
             else ok (fe_ref inp)) (\<lambda>ref.
       bind (insert_late_fee env inp ref currency) (\<lambda>fee.
       bind (accountIDByCodeTx ''1100'') (\<lambda>arID.
       bind (accountIDByCodeTx ''4300'') (\<lambda>incomeID.
       bind (post_in_tx env
          (default_params\<lparr>jp_desc := ''Late fee '' @ lf_ref fee, jp_source_service := Some ''late-fee'',
             jp_acc_date := Some (date_of (fe_date inp)), jp_currency := currency,
             jp_lines := two_lines arID incomeID (fe_amount inp) (''Late fee on '' @ lf_invoice fee)
                           (''Late fee income '' @ lf_ref fee)\<rparr>) (fe_date inp)) (\<lambda>_. ok fee)))))))"

definition RecordLateFee :: "env \<Rightarrow> (string \<Rightarrow> int option) \<Rightarrow> late_fee_input \<Rightarrow> late_fee action" where
  "RecordLateFee env cast_int inp =
     bind (IsPeriodClosed (period_of_time (fe_date inp))) (\<lambda>closed.
     if closed then fail ErrPeriodClosed else CreateLateFee env cast_int inp)"

definition ListLateFees :: "int \<Rightarrow> int \<Rightarrow> late_fee list action" where
  "ListLateFees limit offset = gets (\<lambda>s.
     page (if limit \<le> 0 \<or> limit > 200 then 100 else limit) offset
       (rev (sort_key (\<lambda>w. day_of_civil (lf_date w)) (late_fees (registers_of s)))))"

section \<open>Charges keep the books\<close>

lemma lateral_charges [lateral_intros]:
  "lateral (next_reference c p rs)" "lateral (insert_wht env inp ref cur)" "lateral (insert_late_fee env inp' ref cur)"
  by (simp_all add: next_reference_def insert_wht_def insert_late_fee_def lateral_def core_of_def Let_def)

lemma keeps_books_charges [keeps_intros]:
  "keeps (books env h) (RecordWHTReceipt env c inp)" "keeps (books env h) (RecordLateFee env c inp')"
  unfolding RecordWHTReceipt_def RecordLateFee_def CreateWHTReceipt_def CreateLateFee_def wht_posting_def
    accountIDByCodeTx_def IsPeriodClosed_def Let_def
  by (intro keeps_intros keeps_books_tx posting_intros lateral_charges [THEN posting_lateral])+

end
