(* ===== verification/Credit_Losses.thy ===== *)
theory Credit_Losses
  imports Charges
begin

text \<open>
  Expected credit losses (\<open>repository/provisions_ecl.go\<close>, \<open>ledger/provisions_ecl.go\<close>): the allowance
  is moved to its target period by period, a write-off consumes it before it is expensed, and cash
  recovered on a written-off debt is income.
\<close>

section \<open>The target and the allowance\<close>

definition aging_bucket :: "date \<Rightarrow> date option \<Rightarrow> string" where
  "aging_bucket today due =
     (case due of None \<Rightarrow> ''current''
      | Some d \<Rightarrow> let late = day_of_civil today - day_of_civil d in
          if late \<le> 0 then ''current'' else if late \<le> 30 then ''1-30'' else if late \<le> 60 then ''31-60''
          else if late \<le> 90 then ''61-90'' else ''90+'')"

definition open_base :: "open_item \<Rightarrow> rat" where
  "open_base i = (oi_amount i - oi_paid i) * oi_fx_rate i"

definition eclTarget :: "env \<Rightarrow> rat action" where
  "eclTarget env = gets (\<lambda>s. sum_list (map
     (\<lambda>i. case map_of (ecl_rates (estimates_of s)) (aging_bucket (date_of (env_now env)) (oi_due i)) of
        None \<Rightarrow> 0 | Some rate \<Rightarrow> open_base i * rate)
     (filter (\<lambda>i. oi_status i \<noteq> Closed) (ar_items s))))"

text \<open>The lines of the posted entries of a window on the account of a code, active or not.\<close>

definition posted_on :: "db \<Rightarrow> (entry \<Rightarrow> bool) \<Rightarrow> string \<Rightarrow> jline list" where
  "posted_on s P code = filter (\<lambda>l. entry_posted_in s P (l_entry l) \<and>
     l_account l \<in> a_id ` set (filter (\<lambda>a. a_code a = code) (accounts s))) (jlines s)"

definition allowanceBalanceBase :: "rat action" where
  "allowanceBalanceBase = gets (\<lambda>s. let ls = posted_on s (\<lambda>_. True) ''1190'' in base_credits ls - base_debits ls)"

section \<open>Provisioning\<close>

definition upd_estimates :: "(estimates \<Rightarrow> estimates) \<Rightarrow> unit action" where
  "upd_estimates f = modify (\<lambda>s. s\<lparr>estimates_of := f (estimates_of s)\<rparr>)"

record ecl_provision =
  ec_period :: string
  ec_target :: rat
  ec_movement :: rat
  ec_entry :: "id option"

text \<open>\<open>INSERT INTO ar_provisions \<dots> ON CONFLICT (period) DO NOTHING\<close>.\<close>

definition record_provisioning :: "env \<Rightarrow> string \<Rightarrow> rat \<Rightarrow> rat \<Rightarrow> id option \<Rightarrow> unit action" where
  "record_provisioning env period target mv entryID = upd_estimates (\<lambda>r.
     if period \<in> av_period ` set (ar_provisions r) then r
     else r\<lparr>ar_provisions := ar_provisions r @
       [\<lparr>av_period = period, av_target = env_round env target 2, av_movement = env_round env mv 2,
         av_entry = entryID\<rparr>]\<rparr>)"

definition ecl_lines :: "string \<Rightarrow> id \<Rightarrow> id \<Rightarrow> rat \<Rightarrow> resolved_line list" where
  "ecl_lines period expenseID allowID mv =
     (if mv > 0 then two_lines expenseID allowID mv (''ECL provision '' @ period) ''Allowance for doubtful debts''
      else two_lines allowID expenseID (- mv) (''ECL release '' @ period) ''Bad debt expense release'')"

definition entry_or_panic :: "journal option \<Rightarrow> journal action" where
  "entry_or_panic j = (case j of None \<Rightarrow> fail (ErrText ''nil entry'') | Some x \<Rightarrow> ok x)"

definition BookECLProvision :: "env \<Rightarrow> string \<Rightarrow> time \<Rightarrow> audit_info option \<Rightarrow> ecl_provision action" where
  "BookECLProvision env period postedAt audit_i =
     bind (eclTarget env) (\<lambda>target.
     bind allowanceBalanceBase (\<lambda>current.
     let mv = target - current;
         out = \<lparr>ec_period = period, ec_target = target, ec_movement = mv, ec_entry = None\<rparr>;
         eventID = ''ecl:'' @ period
     in if mv = 0 then bind (record_provisioning env period target 0 None) (\<lambda>_. ok out)
        else bind (accountIDByCode ''5400'') (\<lambda>expenseID.
        bind (accountIDByCode ''1190'') (\<lambda>allowID.
        bind (BookPostedEntry env
                (finance_params (''ECL provision '' @ period) eventID (date_of postedAt)
                  (ecl_lines period expenseID allowID mv))
                eventID ''finance.ecl.provision'' postedAt
                (Some (\<lambda>i. record_provisioning env period target mv (Some i))) audit_i) (\<lambda>(entry, _).
        bind (entry_or_panic entry) (\<lambda>j. ok (out\<lparr>ec_entry := Some (e_id (j_entry j))\<rparr>)))))))"

definition ListECLProvisions :: "int \<Rightarrow> ar_provision list action" where
  "ListECLProvisions limit = gets (\<lambda>s.
     take (nat (if limit \<le> 0 \<or> limit > 200 then 60 else limit))
       (rev (sort_key (\<lambda>p. map (of_char :: char \<Rightarrow> nat) (av_period p)) (ar_provisions (estimates_of s)))))"

section \<open>Write-off and recovery\<close>

definition ErrNothingToWriteOff :: err where
  "ErrNothingToWriteOff = ErrText ''receivable has no open balance to write off''"

definition ErrWriteOffNotFound :: err where
  "ErrWriteOffNotFound = ErrText ''no write-off found for document''"

text \<open>How much of an outstanding amount (document currency) the allowance (base currency) covers.\<close>

definition covered_amount :: "env \<Rightarrow> rat \<Rightarrow> rat \<Rightarrow> rat \<Rightarrow> rat" where
  "covered_amount env outstanding fxRate allowance0 =
     (let allowance = (if allowance0 < 0 then 0 else allowance0);
          outstandingBase = outstanding * fxRate;
          coveredBase = (if allowance < outstandingBase then allowance else outstandingBase);
          coveredDoc = env_round env (coveredBase / fxRate) 2
      in if coveredDoc > outstanding then outstanding else coveredDoc)"

definition write_off_lines :: "string \<Rightarrow> id \<Rightarrow> id \<Rightarrow> id \<Rightarrow> rat \<Rightarrow> rat \<Rightarrow> resolved_line list" where
  "write_off_lines ref allowID expenseID arID outstanding covered =
     (let uncovered = outstanding - covered;
          first = (if covered > 0 then [mk_line allowID covered 0 (''Write-off against allowance '' @ ref) 0] else []);
          second = (if uncovered > 0
                    then [mk_line expenseID uncovered 0 (''Write-off to bad debt expense '' @ ref) (int (length first))]
                    else [])
      in first @ second @
         [mk_line arID 0 outstanding (''De-recognise receivable '' @ ref) (int (length (first @ second)))])"

text \<open>\<open>UPDATE ar_open_items SET status = 'closed' WHERE document_ref = $1 AND status != 'closed'\<close>.\<close>

definition close_receivable :: "string \<Rightarrow> unit action" where
  "close_receivable ref = modify (\<lambda>s. set_items AR
     (update_where (\<lambda>i. oi_document_ref i = ref \<and> oi_status i \<noteq> Closed) (\<lambda>i. i\<lparr>oi_status := Closed\<rparr>) (ar_items s)) s)"

definition insert_write_off :: "env \<Rightarrow> ar_writeoff \<Rightarrow> unit action" where
  "insert_write_off env w = (\<lambda>s.
     let r = estimates_of s;
         row = w\<lparr>wo_amount := env_round env (wo_amount w) 2, wo_covered := env_round env (wo_covered w) 2\<rparr>
     in if \<not> wo_amount row > 0 then (Inl (CheckViolation ''ar_writeoffs_amount_check''), s)
        else if wo_document w \<in> wo_document ` set (ar_writeoffs r) then (Inr (), s)
        else (Inr (), s\<lparr>estimates_of := r\<lparr>ar_writeoffs := ar_writeoffs r @ [row]\<rparr>\<rparr>))"

record write_off_result =
  wr_document :: string
  wr_customer :: string
  wr_amount :: rat
  wr_covered :: rat
  wr_currency :: string
  wr_entry :: id

definition WriteOffReceivable ::
  "env \<Rightarrow> string \<Rightarrow> string \<Rightarrow> time \<Rightarrow> audit_info option \<Rightarrow> write_off_result action" where
  "WriteOffReceivable env ref reason postedAt audit_i =
     bind (GetARByDocumentRef ref) (\<lambda>row.
     case row of
       None \<Rightarrow> fail ErrOriginalNotFound
     | Some item \<Rightarrow>
         let outstanding = oi_amount item - oi_paid item in
         if outstanding \<le> 0 then fail ErrNothingToWriteOff
         else bind (OpenItemFXRateByDocRef AR ref) (\<lambda>rate.
         let fxRate = (if rate = 0 then 1 else rate) in
         bind allowanceBalanceBase (\<lambda>allowance.
         let covered = covered_amount env outstanding fxRate allowance; eventID = ''ar-writeoff:'' @ ref in
         bind (accountIDByCode ''1190'') (\<lambda>allowID.
         bind (accountIDByCode ''5400'') (\<lambda>expenseID.
         bind (accountIDByCode ''1100'') (\<lambda>arID.
         bind (BookPostedEntry env
                 ((finance_params (''Write-off '' @ ref) eventID (date_of postedAt)
                     (write_off_lines ref allowID expenseID arID outstanding covered))
                   \<lparr>jp_currency := oi_currency item, jp_fx_rate := fxRate\<rparr>)
                 eventID ''finance.ar.writeoff'' postedAt
                 (Some (\<lambda>i. bind (close_receivable ref) (\<lambda>_. insert_write_off env
                    \<lparr>wo_document = ref, wo_customer = oi_party_ref item, wo_amount = outstanding,
                     wo_covered = covered, wo_currency = oi_currency item, wo_reason = reason,
                     wo_recovered = 0, wo_entry = Some i\<rparr>))) audit_i) (\<lambda>(entry, _).
         bind (entry_or_panic entry) (\<lambda>j.
         ok \<lparr>wr_document = ref, wr_customer = oi_party_ref item, wr_amount = outstanding,
             wr_covered = covered, wr_currency = oi_currency item, wr_entry = e_id (j_entry j)\<rparr>))))))))"

definition RecoverWrittenOff ::
  "env \<Rightarrow> string \<Rightarrow> string \<Rightarrow> rat \<Rightarrow> time \<Rightarrow> audit_info option \<Rightarrow> journal option action" where
  "RecoverWrittenOff env ref reference amount postedAt audit_i =
     (if amount \<le> 0 then fail ErrNothingToWriteOff
      else bind (gets (\<lambda>s. ref \<in> wo_document ` set (ar_writeoffs (estimates_of s)))) (\<lambda>exists.
      if \<not> exists then fail ErrWriteOffNotFound
      else bind (accountIDByCode ''1000'') (\<lambda>cashID.
      bind (accountIDByCode ''4300'') (\<lambda>recovID.
      let eventID = ''ar-recovery:'' @ reference in
      bind (BookPostedEntry env
              (finance_params (''Bad debt recovery '' @ ref) eventID (date_of postedAt)
                (two_lines cashID recovID amount (''Recovery of written-off debt '' @ ref) ''Bad debt recovery income''))
              eventID ''finance.ar.recovery'' postedAt
              (Some (\<lambda>_. upd_estimates (\<lambda>r. r\<lparr>ar_writeoffs := update_where (\<lambda>w. wo_document w = ref)
                 (\<lambda>w. w\<lparr>wo_recovered := env_round env (wo_recovered w + amount) 2\<rparr>) (ar_writeoffs r)\<rparr>))) audit_i)
        (\<lambda>(entry, _). ok entry)))))"

section \<open>Service\<close>

definition RunECLProvision :: "env \<Rightarrow> string \<Rightarrow> string \<Rightarrow> ecl_provision action" where
  "RunECLProvision env period actor =
     bind (periodEnd period) (\<lambda>end_of.
     bind (IsPeriodClosed period) (\<lambda>closed.
     if closed then fail ErrPeriodClosed
     else BookECLProvision env period end_of
            (actor_audit actor ''finance.ecl.provision'' (''ECL provision '' @ period))))"

definition WriteOffAR :: "env \<Rightarrow> string \<Rightarrow> string \<Rightarrow> string \<Rightarrow> write_off_result action" where
  "WriteOffAR env ref reason actor =
     bind (IsPeriodClosed (period_of_time (env_now env))) (\<lambda>closed.
     if closed then fail ErrPeriodClosed
     else WriteOffReceivable env ref reason (env_now env)
            (actor_audit actor ''finance.ar.writeoff'' (''write-off '' @ ref @ '': '' @ reason)))"

definition RecoverAR :: "env \<Rightarrow> string \<Rightarrow> string \<Rightarrow> rat \<Rightarrow> string \<Rightarrow> journal option action" where
  "RecoverAR env ref reference amount actor =
     bind (IsPeriodClosed (period_of_time (env_now env))) (\<lambda>closed.
     if closed then fail ErrPeriodClosed
     else RecoverWrittenOff env ref reference amount (env_now env)
            (actor_audit actor ''finance.ar.recovery'' (''recovery '' @ ref @ '' ref '' @ reference)))"

section \<open>Credit losses keep the books\<close>

lemma lateral_upd_estimates [lateral_intros]: "lateral (upd_estimates f)"
  by (simp add: upd_estimates_def lateral_def core_of_def)

lemma lateral_credit_losses [lateral_intros]:
  "lateral (record_provisioning env q t m i)" "lateral (insert_write_off env w)"
  by (unfold record_provisioning_def, rule lateral_upd_estimates)
    (simp add: insert_write_off_def lateral_def core_of_def Let_def)

lemma keeps_entry_or_panic [keeps_intros]: "keeps I (entry_or_panic j)"
  unfolding entry_or_panic_def by (intro keeps_intros)

text \<open>A booking whose side effect may touch the core keeps the books when the side effect does.\<close>

lemma keeps_books_booking:
  assumes "\<And>f i. side = Some f \<Longrightarrow> posting env (f i)"
  shows "keeps (books env h) (BookPostedEntry env p ev ty t side a)"
proof -
  have "keeps journal_tx_inv (f i)" "keeps reconciled (f i)" "keeps (audit_ok env) (f i)" "keeps (numbers_wf n) (f i)"
    "keeps (kept h) (f i)" if "side = Some f" for f i n
    using assms [OF that, of i] by (simp_all add: posting_def)
  then show ?thesis
    by (intro keeps_booksI keeps_BookPostedEntry pay.sub_BookPostedEntry keeps_audit_booking
        keeps_numbers_BookPostedEntry keeps_kept_BookPostedEntry)
qed

lemma posting_close_receivable [posting_intros]: "posting env (close_receivable ref)"
proof -
  let ?f = "update_where (\<lambda>i. oi_document_ref i = ref \<and> oi_status i \<noteq> Closed) (\<lambda>i. i\<lparr>oi_status := Closed\<rparr>)"
  have view: "journal_view (snd (close_receivable ref s)) = journal_view s" for s
    by (simp add: close_receivable_def set_items_view)
  have "keeps reconciled (close_receivable ref)"
  proof (rule keepsI)
    fix s assume s: "reconciled s"
    then have "side_wf (next_id s) (?f (ar_items s))"
      by (intro side_wf_update) (auto simp: reconciled_def items_wf_def item_ok_def)
    moreover have "\<forall>i \<in> set (?f (ar_items s)). \<exists>j \<in> set (ar_items s). oi_id i = oi_id j \<and> oi_paid i = oi_paid j"
      by (auto simp: set_update_where)
    ultimately show "reconciled (snd (close_receivable ref s))"
      using reconciled_set_items [OF s, of "?f (ar_items s)" AR] by (simp add: close_receivable_def)
  qed
  with journal_view_cong(1) [OF view] show ?thesis
    by (auto simp: posting_def keeps_def close_receivable_def set_items_def audit_ok_def numbers_wf_def elim: kept_frame)
qed

lemma keeps_books_credit_losses [keeps_intros]:
  "keeps (books env h) (RunECLProvision env q actor)" "keeps (books env h) (WriteOffAR env ref reason actor)"
  "keeps (books env h) (RecoverAR env ref k x actor)"
proof -
  show "keeps (books env h) (RunECLProvision env q actor)" "keeps (books env h) (RecoverAR env ref k x actor)"
    unfolding RunECLProvision_def BookECLProvision_def eclTarget_def allowanceBalanceBase_def RecoverAR_def
      RecoverWrittenOff_def IsPeriodClosed_def Let_def
    by (intro keeps_intros keeps_books_lateral; auto intro!: lateral_intros)+
  have side: "posting env (bind (close_receivable ref) (\<lambda>_. insert_write_off env w))" for w
    by (intro posting_intros posting_lateral lateral_intros)
  show "keeps (books env h) (WriteOffAR env ref reason actor)"
    unfolding WriteOffAR_def WriteOffReceivable_def GetARByDocumentRef_def allowanceBalanceBase_def IsPeriodClosed_def Let_def
    by (intro keeps_intros keeps_books_booking) (auto intro: side)
qed

section \<open>The write-off entry\<close>

lemma write_off_lines_balanced:
  assumes "0 \<le> covered" "covered \<le> outstanding"
  shows "sum_list (map rl_debit (write_off_lines ref a e r outstanding covered)) = outstanding"
    "sum_list (map rl_credit (write_off_lines ref a e r outstanding covered)) = outstanding"
  using assms by (auto simp: write_off_lines_def mk_line_def Let_def)

lemma covered_amount_bounds:
  assumes "rounding_laws (env_round env)" "0 < outstanding" "0 < fxRate"
  shows "0 \<le> covered_amount env outstanding fxRate a" "covered_amount env outstanding fxRate a \<le> outstanding"
proof -
  let ?x = "min (max 0 a) (outstanding * fxRate) / fxRate"
  have "0 \<le> ?x" using assms(2,3) by simp
  then have "0 \<le> env_round env ?x 2" using round_mono [OF assms(1), of 0 ?x 2] round_exact [OF assms(1) has_places_0, of 2] by simp
  moreover have "covered_amount env outstanding fxRate a = min outstanding (env_round env ?x 2)"
    by (auto simp: covered_amount_def Let_def min_def max_def)
  ultimately show "0 \<le> covered_amount env outstanding fxRate a" "covered_amount env outstanding fxRate a \<le> outstanding"
    using assms(2) by simp_all
qed

end
