(* ===== verification/Provisions.thy ===== *)
theory Provisions
  imports Credit_Losses
begin

text \<open>
  Provisions and decommissioning obligations (\<open>repository/provisions_liab.go\<close>,
  \<open>ledger/provisions_liab.go\<close>): recognition at present value, the unwinding of the discount,
  utilisation, remeasurement and release, each an entry and a movement of the register. The
  discounting is computed in floating point: its result is a parameter.
\<close>

definition ErrProvisionNotFound :: err where
  "ErrProvisionNotFound = ErrText ''provision not found''"

definition ErrProvisionClosed :: err where
  "ErrProvisionClosed = ErrText ''provision is not active''"

definition liabilityCode :: "string \<Rightarrow> string" where
  "liabilityCode kind = (if kind = ''decommissioning'' then ''2410'' else ''2400'')"

definition recognitionDebit :: "string \<Rightarrow> string" where
  "recognitionDebit kind = (if kind = ''decommissioning'' then ''1500'' else ''5500'')"

record liability_input =
  li_kind :: string
  li_desc :: string
  li_estimate :: rat
  li_rate :: rat
  li_settlement :: "time option"
  li_cur :: string
  li_asset :: string

text \<open>
  \<open>discounted estimate rate years\<close> is the decimal of \<open>estimate / math.Pow(1 + rate, years)\<close>; the
  years are those between two instants.
\<close>

definition presentValue ::
  "env \<Rightarrow> (rat \<Rightarrow> rat \<Rightarrow> rat \<Rightarrow> rat) \<Rightarrow> rat \<Rightarrow> rat \<Rightarrow> time option \<Rightarrow> time \<Rightarrow> rat" where
  "presentValue env discounted estimate rate settlement now =
     (case settlement of
        None \<Rightarrow> estimate
      | Some t \<Rightarrow>
          let years = of_int (t - now) / of_int (3600 * 1000000000) / (24 * 365)
          in if rate \<le> 0 \<or> years \<le> 0 then estimate else env_round env (discounted estimate rate years) 2)"

definition insert_provision :: "env \<Rightarrow> liab_provision \<Rightarrow> unit action" where
  "insert_provision env p = (\<lambda>s.
     let r = estimates_of s;
         row = p\<lparr>gp_estimate := env_round env (gp_estimate p) 2, gp_rate := env_round env (gp_rate p) 4,
                 gp_carrying := env_round env (gp_carrying p) 2\<rparr>
     in if gp_kind p \<notin> {''general'', ''legal'', ''warranty'', ''decommissioning''}
        then (Inl (CheckViolation ''liab_provisions_kind_check''), s)
        else if gp_estimate row < 0 then (Inl (CheckViolation ''liab_provisions_estimate_check''), s)
        else (Inr (), s\<lparr>estimates_of := r\<lparr>liab_provisions := liab_provisions r @ [row]\<rparr>\<rparr>))"

definition insertProvisionMovement :: "env \<Rightarrow> id \<Rightarrow> date \<Rightarrow> string \<Rightarrow> rat \<Rightarrow> id \<Rightarrow> unit action" where
  "insertProvisionMovement env prov effective kind amount entryID = upd_estimates (\<lambda>r.
     r\<lparr>provision_movements := provision_movements r @
       [\<lparr>pm_provision = prov, pm_date = effective, pm_kind = kind, pm_amount = env_round env amount 2,
         pm_entry = Some entryID\<rparr>]\<rparr>)"

definition provision_by_id :: "db \<Rightarrow> id \<Rightarrow> liab_provision option" where
  "provision_by_id s i = row_by gp_id i (liab_provisions (estimates_of s))"

definition GetProvision :: "id \<Rightarrow> liab_provision action" where
  "GetProvision i = bind (gets (\<lambda>s. provision_by_id s i)) (\<lambda>row.
     case row of None \<Rightarrow> fail ErrProvisionNotFound | Some p \<Rightarrow> ok p)"

definition ListProvisions :: "int \<Rightarrow> liab_provision list action" where
  "ListProvisions limit = gets (\<lambda>s.
     take (nat (if limit \<le> 0 \<or> limit > 200 then 60 else limit)) (rev (liab_provisions (estimates_of s))))"

definition provision_row :: "env \<Rightarrow> liability_input \<Rightarrow> id \<Rightarrow> rat \<Rightarrow> liab_provision" where
  "provision_row env inp provID carrying =
     \<lparr>gp_id = provID, gp_kind = li_kind inp, gp_desc = li_desc inp, gp_estimate = li_estimate inp,
      gp_rate = li_rate inp, gp_settlement = map_option date_of (li_settlement inp), gp_carrying = carrying,
      gp_currency = li_cur inp, gp_asset = (if li_asset inp = '''' then None else Some (li_asset inp)),
      gp_entity = env_entity env, gp_status = ProvActive\<rparr>"

definition repo_RecognizeProvision ::
  "env \<Rightarrow> (rat \<Rightarrow> rat \<Rightarrow> rat \<Rightarrow> rat) \<Rightarrow> liability_input \<Rightarrow> time \<Rightarrow> audit_info option \<Rightarrow> liab_provision action" where
  "repo_RecognizeProvision env discounted inp0 postedAt audit_i =
     (if li_estimate inp0 \<le> 0 then fail (ErrText ''estimate must be positive'')
      else let inp = inp0\<lparr>li_kind := (if li_kind inp0 = '''' then ''general'' else li_kind inp0),
                          li_cur := (if li_cur inp0 = '''' then env_base env else li_cur inp0)\<rparr>;
               carrying = presentValue env discounted (li_estimate inp) (li_rate inp) (li_settlement inp) postedAt
      in bind (accountIDByCode (recognitionDebit (li_kind inp))) (\<lambda>debitID.
         bind (accountIDByCode (liabilityCode (li_kind inp))) (\<lambda>liabID.
         bind fresh_id (\<lambda>provID.
         let eventID = ''provision.recognize:'' @ show_nat provID in
         bind (BookPostedEntry env
                 ((finance_params (''Provision: '' @ li_desc inp) eventID (date_of postedAt)
                     (two_lines debitID liabID carrying ''Recognise provision'' ''Provision liability''))
                   \<lparr>jp_currency := li_cur inp\<rparr>)
                 eventID ''finance.provision.recognize'' postedAt
                 (Some (\<lambda>entryID. bind (insert_provision env (provision_row env inp provID carrying)) (\<lambda>_.
                    insertProvisionMovement env provID (date_of postedAt) ''recognize'' carrying entryID))) audit_i) (\<lambda>_.
         GetProvision provID)))))"

section \<open>Movements\<close>

definition refOrDate :: "string \<Rightarrow> time \<Rightarrow> string" where
  "refOrDate reference postedAt = (if reference \<noteq> '''' then reference else format_date (date_of postedAt))"

text \<open>\<open>GREATEST(carrying_amount + delta, 0)\<close> and the status that follows from it.\<close>

definition move_provision :: "env \<Rightarrow> string \<Rightarrow> rat \<Rightarrow> liab_provision \<Rightarrow> liab_provision" where
  "move_provision env kind delta p =
     p\<lparr>gp_carrying := env_round env (max (gp_carrying p + delta) 0) 2,
       gp_status := (if kind = ''reverse'' then ProvReversed
                     else if gp_carrying p + delta \<le> 0 then ProvSettled else gp_status p)\<rparr>"

definition provision_side :: "env \<Rightarrow> id \<Rightarrow> string \<Rightarrow> rat \<Rightarrow> time \<Rightarrow> id \<Rightarrow> unit action" where
  "provision_side env i kind delta postedAt entryID =
     bind (upd_estimates (\<lambda>r. r\<lparr>liab_provisions :=
             update_where (\<lambda>p. gp_id p = i) (move_provision env kind delta) (liab_provisions r)\<rparr>)) (\<lambda>_.
     insertProvisionMovement env i (date_of postedAt) kind delta entryID)"

definition bookProvisionOp ::
  "env \<Rightarrow> id \<Rightarrow> string \<Rightarrow> rat \<Rightarrow> string \<Rightarrow> string \<Rightarrow> string \<Rightarrow> string \<Rightarrow> resolved_line list \<Rightarrow> time \<Rightarrow>
   audit_info option \<Rightarrow> liab_provision action" where
  "bookProvisionOp env i kind delta eventID eventType desc currency ls postedAt audit_i =
     bind (BookPostedEntry env
             ((finance_params desc eventID (date_of postedAt) ls)\<lparr>jp_currency := currency\<rparr>)
             eventID eventType postedAt (Some (provision_side env i kind delta postedAt)) audit_i) (\<lambda>_.
     GetProvision i)"

text \<open>What the movements share: the provision is there and active.\<close>

definition active_provision :: "id \<Rightarrow> liab_provision action" where
  "active_provision i = bind (GetProvision i) (\<lambda>p.
     if gp_status p \<noteq> ProvActive then fail ErrProvisionClosed else ok p)"

definition UnwindProvisionDiscount ::
  "env \<Rightarrow> id \<Rightarrow> string \<Rightarrow> time \<Rightarrow> audit_info option \<Rightarrow> liab_provision action" where
  "UnwindProvisionDiscount env i reference postedAt audit_i =
     bind (active_provision i) (\<lambda>p.
     let interest = env_round env (gp_carrying p * gp_rate p) 2 in
     if interest \<le> 0 then ok p
     else bind (accountIDByCode ''5510'') (\<lambda>costID.
     bind (accountIDByCode (liabilityCode (gp_kind p))) (\<lambda>liabID.
     bookProvisionOp env i ''unwind'' interest (''provision.unwind:'' @ show_nat i @ '':'' @ refOrDate reference postedAt)
       ''finance.provision.unwind'' ''Unwind provision discount'' (gp_currency p)
       (two_lines costID liabID interest ''Unwind discount'' ''Provision unwind'') postedAt audit_i)))"

definition repo_UtilizeProvision ::
  "env \<Rightarrow> id \<Rightarrow> rat \<Rightarrow> string \<Rightarrow> time \<Rightarrow> audit_info option \<Rightarrow> liab_provision action" where
  "repo_UtilizeProvision env i amount0 reference postedAt audit_i =
     bind (active_provision i) (\<lambda>p.
     let amount = (if amount0 > gp_carrying p then gp_carrying p else amount0) in
     if amount \<le> 0 then ok p
     else bind (accountIDByCode (liabilityCode (gp_kind p))) (\<lambda>liabID.
     bind (accountIDByCode ''1000'') (\<lambda>cashID.
     bookProvisionOp env i ''utilize'' (- amount) (''provision.utilize:'' @ show_nat i @ '':'' @ refOrDate reference postedAt)
       ''finance.provision.utilize'' ''Utilise provision'' (gp_currency p)
       (two_lines liabID cashID amount ''Utilise provision'' ''Provision settled'') postedAt audit_i)))"

definition remeasure_lines :: "id \<Rightarrow> id \<Rightarrow> rat \<Rightarrow> resolved_line list" where
  "remeasure_lines debitID liabID delta =
     (if delta > 0 then two_lines debitID liabID delta ''Remeasure provision (increase)'' ''Provision increase''
      else two_lines liabID debitID (- delta) ''Remeasure provision (decrease)'' ''Provision decrease'')"

definition repo_RemeasureProvision ::
  "env \<Rightarrow> id \<Rightarrow> rat \<Rightarrow> string \<Rightarrow> time \<Rightarrow> audit_info option \<Rightarrow> liab_provision action" where
  "repo_RemeasureProvision env i newEstimate reference postedAt audit_i =
     bind (active_provision i) (\<lambda>p.
     let delta = newEstimate - gp_carrying p in
     if delta = 0 then ok p
     else bind (accountIDByCode (recognitionDebit (gp_kind p))) (\<lambda>debitID.
     bind (accountIDByCode (liabilityCode (gp_kind p))) (\<lambda>liabID.
     bookProvisionOp env i ''remeasure'' delta (''provision.remeasure:'' @ show_nat i @ '':'' @ refOrDate reference postedAt)
       ''finance.provision.remeasure'' ''Remeasure provision'' (gp_currency p)
       (remeasure_lines debitID liabID delta) postedAt audit_i)))"

definition repo_ReverseProvision ::
  "env \<Rightarrow> id \<Rightarrow> string \<Rightarrow> time \<Rightarrow> audit_info option \<Rightarrow> liab_provision action" where
  "repo_ReverseProvision env i reference postedAt audit_i =
     bind (active_provision i) (\<lambda>p.
     if gp_carrying p \<le> 0 then ok p
     else bind (accountIDByCode (liabilityCode (gp_kind p))) (\<lambda>liabID.
     bind (accountIDByCode ''5500'') (\<lambda>expenseID.
     bookProvisionOp env i ''reverse'' (- gp_carrying p) (''provision.reverse:'' @ show_nat i @ '':'' @ refOrDate reference postedAt)
       ''finance.provision.reverse'' ''Reverse provision'' (gp_currency p)
       (two_lines liabID expenseID (gp_carrying p) ''Reverse provision'' ''Provision reversal'') postedAt audit_i)))"

section \<open>Service\<close>

definition RecognizeProvision ::
  "env \<Rightarrow> (rat \<Rightarrow> rat \<Rightarrow> rat \<Rightarrow> rat) \<Rightarrow> liability_input \<Rightarrow> string \<Rightarrow> liab_provision action" where
  "RecognizeProvision env discounted inp actor =
     bind (guardOpen (env_now env)) (\<lambda>_.
     repo_RecognizeProvision env discounted inp (env_now env)
       (actor_audit actor ''finance.provision.recognize'' (''recognise provision '' @ li_desc inp)))"

definition UnwindProvision :: "env \<Rightarrow> id \<Rightarrow> string \<Rightarrow> string \<Rightarrow> liab_provision action" where
  "UnwindProvision env i reference actor =
     bind (guardOpen (env_now env)) (\<lambda>_.
     UnwindProvisionDiscount env i reference (env_now env)
       (actor_audit actor ''finance.provision.unwind'' ''unwind provision''))"

definition UtilizeProvision :: "env \<Rightarrow> id \<Rightarrow> rat \<Rightarrow> string \<Rightarrow> string \<Rightarrow> liab_provision action" where
  "UtilizeProvision env i amount reference actor =
     bind (guardOpen (env_now env)) (\<lambda>_.
     repo_UtilizeProvision env i amount reference (env_now env)
       (actor_audit actor ''finance.provision.utilize'' ''utilise provision''))"

definition RemeasureProvision :: "env \<Rightarrow> id \<Rightarrow> rat \<Rightarrow> string \<Rightarrow> string \<Rightarrow> liab_provision action" where
  "RemeasureProvision env i newEstimate reference actor =
     bind (guardOpen (env_now env)) (\<lambda>_.
     repo_RemeasureProvision env i newEstimate reference (env_now env)
       (actor_audit actor ''finance.provision.remeasure'' ''remeasure provision''))"

definition ReverseProvision :: "env \<Rightarrow> id \<Rightarrow> string \<Rightarrow> string \<Rightarrow> liab_provision action" where
  "ReverseProvision env i reference actor =
     bind (guardOpen (env_now env)) (\<lambda>_.
     repo_ReverseProvision env i reference (env_now env)
       (actor_audit actor ''finance.provision.reverse'' ''reverse provision''))"

section \<open>Provisions keep the books\<close>

lemma lateral_provisions [lateral_intros]:
  "lateral fresh_id" "lateral (insert_provision env p)" "lateral (insertProvisionMovement env i d k x e)"
  "lateral (provision_side env i k x t e)"
proof -
  show "lateral fresh_id" "lateral (insert_provision env p)" for p
    by (simp_all add: fresh_id_def insert_provision_def lateral_def core_of_def Let_def)
  show "lateral (insertProvisionMovement env i d k x e)" "lateral (provision_side env i k x t e)"
    unfolding provision_side_def insertProvisionMovement_def by (intro lateral_intros)+
qed

lemma keeps_GetProvision [keeps_intros]: "keeps I (GetProvision i)" "keeps I (active_provision i)"
  unfolding active_provision_def GetProvision_def by (intro keeps_intros)+

lemma keeps_books_provisions [keeps_intros]:
  "keeps (books env h) (RecognizeProvision env dc inp actor)" "keeps (books env h) (UnwindProvision env i ref actor)"
  "keeps (books env h) (UtilizeProvision env i x ref actor)" "keeps (books env h) (RemeasureProvision env i x ref actor)"
  "keeps (books env h) (ReverseProvision env i ref actor)"
proof -
  have op: "keeps (books env h) (bookProvisionOp env i k d ev ty ds c ls t a)" for i k d ev ty ds c ls t a
    unfolding bookProvisionOp_def by (intro keeps_intros) (auto intro: lateral_intros)
  show "keeps (books env h) (UnwindProvision env i ref actor)" "keeps (books env h) (UtilizeProvision env i x ref actor)"
    "keeps (books env h) (RemeasureProvision env i x ref actor)" "keeps (books env h) (ReverseProvision env i ref actor)"
    unfolding UnwindProvision_def UnwindProvisionDiscount_def UtilizeProvision_def repo_UtilizeProvision_def
      RemeasureProvision_def repo_RemeasureProvision_def ReverseProvision_def repo_ReverseProvision_def Let_def
    by (intro keeps_intros op)+
  show "keeps (books env h) (RecognizeProvision env dc inp actor)"
    unfolding RecognizeProvision_def repo_RecognizeProvision_def Let_def
    by (intro keeps_intros keeps_books_lateral; auto intro!: lateral_intros)
qed

end
