(* ===== verification/Income_Tax.thy ===== *)
theory Income_Tax
  imports Provisions
begin

text \<open>
  Income taxes (\<open>repository/income_tax.go\<close>, \<open>ledger/income_tax.go\<close>): the current tax of a period and
  the deferred tax of a temporary difference; intangible assets (\<open>repository/intangible_assets.go\<close>,
  \<open>ledger/intangible_assets.go\<close>) and recorded currency conversions (\<open>repository/fx_conversions.go\<close>,
  \<open>ledger/fx_conversions.go\<close>).
\<close>

section \<open>Current tax\<close>

definition ErrTaxRunExists :: err where
  "ErrTaxRunExists = ErrText ''income tax run already exists for period''"

definition ErrDeferredTaxExists :: err where
  "ErrDeferredTaxExists = ErrText ''deferred tax item already exists for reference''"

definition insert_tax_run :: "env \<Rightarrow> string \<Rightarrow> rat \<Rightarrow> rat \<Rightarrow> rat \<Rightarrow> id \<Rightarrow> income_tax_run action" where
  "insert_tax_run env period profit rate tax entryID = (\<lambda>s.
     let r = estimates_of s;
         row = \<lparr>it_id = next_id s, it_entity = env_entity env, it_period = period, it_profit = profit,
                it_rate = rate, it_tax = tax, it_entry = Some entryID\<rparr>;
         stored = row\<lparr>it_profit := env_round env profit 2, it_rate := env_round env rate 6,
                      it_tax := env_round env tax 2\<rparr>
     in if period \<in> it_period ` set (income_tax_runs r) then (Inl ErrTaxRunExists, s)
        else (Inr row, s\<lparr>estimates_of := r\<lparr>income_tax_runs := income_tax_runs r @ [stored]\<rparr>,
                         next_id := Suc (next_id s)\<rparr>))"

definition GetIncomeTaxRun :: "string \<Rightarrow> income_tax_run action" where
  "GetIncomeTaxRun period = bind (gets (\<lambda>s. row_by it_period period (income_tax_runs (estimates_of s)))) (\<lambda>row.
     case row of None \<Rightarrow> fail ErrTaxRunExists | Some t \<Rightarrow> ok t)"

definition ListIncomeTaxRuns :: "int \<Rightarrow> income_tax_run list action" where
  "ListIncomeTaxRuns limit = gets (\<lambda>s.
     take (nat (if limit \<le> 0 \<or> limit > 200 then 60 else limit)) (rev (income_tax_runs (estimates_of s))))"

definition current_tax :: "env \<Rightarrow> rat \<Rightarrow> rat \<Rightarrow> rat" where
  "current_tax env profit rate = (if profit > 0 then env_round env (profit * rate) 2 else 0)"

definition repo_RunCurrentTax ::
  "env \<Rightarrow> string \<Rightarrow> rat \<Rightarrow> rat \<Rightarrow> time \<Rightarrow> audit_info option \<Rightarrow> income_tax_run action" where
  "repo_RunCurrentTax env period profit rate postedAt audit_i =
     (if period = '''' then fail (ErrText ''period is required'')
      else if rate \<le> 0 then fail (ErrText ''rate must be positive'')
      else let tax = current_tax env profit rate; eventID = ''incometax:'' @ period in
      if tax \<le> 0 then fail (ErrText ''no current tax due on a non-positive taxable profit'')
      else bind (accountIDByCode ''5700'') (\<lambda>expenseID.
      bind (accountIDByCode ''2600'') (\<lambda>payableID.
      bind (BookPostedEntry env
              (finance_params (''Current tax provision '' @ period) eventID (date_of postedAt)
                (two_lines expenseID payableID tax (''Income tax expense '' @ period) (''Income tax payable '' @ period)))
              eventID ''finance.tax.current'' postedAt (Some (insert_tax_run env period profit rate tax)) audit_i)
        (\<lambda>(_, out). case out of None \<Rightarrow> GetIncomeTaxRun period | Some run \<Rightarrow> ok run))))"

section \<open>Deferred tax\<close>

definition insert_deferred_tax ::
  "env \<Rightarrow> string \<Rightarrow> string \<Rightarrow> rat \<Rightarrow> string \<Rightarrow> rat \<Rightarrow> rat \<Rightarrow> id \<Rightarrow> deferred_tax_item action" where
  "insert_deferred_tax env ref desc diff dtype rate tax entryID = (\<lambda>s.
     let r = estimates_of s;
         row = \<lparr>dt_id = next_id s, dt_entity = env_entity env, dt_reference = ref, dt_desc = desc,
                dt_difference = diff, dt_type = dtype, dt_rate = rate, dt_tax = tax, dt_entry = Some entryID\<rparr>;
         stored = row\<lparr>dt_difference := env_round env diff 2, dt_rate := env_round env rate 6,
                      dt_tax := env_round env tax 2\<rparr>
     in if ref \<in> dt_reference ` set (deferred_tax_items r) then (Inl ErrDeferredTaxExists, s)
        else (Inr row, s\<lparr>estimates_of := r\<lparr>deferred_tax_items := deferred_tax_items r @ [stored]\<rparr>,
                         next_id := Suc (next_id s)\<rparr>))"

definition GetDeferredTaxItem :: "string \<Rightarrow> deferred_tax_item action" where
  "GetDeferredTaxItem ref = bind (gets (\<lambda>s. row_by dt_reference ref (deferred_tax_items (estimates_of s)))) (\<lambda>row.
     case row of None \<Rightarrow> fail ErrDeferredTaxExists | Some t \<Rightarrow> ok t)"

definition ListDeferredTaxItems :: "int \<Rightarrow> deferred_tax_item list action" where
  "ListDeferredTaxItems limit = gets (\<lambda>s.
     take (nat (if limit \<le> 0 \<or> limit > 200 then 60 else limit)) (rev (deferred_tax_items (estimates_of s))))"

definition deferred_lines :: "string \<Rightarrow> string \<Rightarrow> id \<Rightarrow> id \<Rightarrow> id \<Rightarrow> rat \<Rightarrow> resolved_line list" where
  "deferred_lines dtype ref assetID liabID expenseID tax =
     (if dtype = ''deductible''
      then two_lines assetID expenseID tax (''Deferred tax asset '' @ ref) (''Deferred tax credit '' @ ref)
      else two_lines expenseID liabID tax (''Deferred tax charge '' @ ref) (''Deferred tax liability '' @ ref))"

definition repo_RecognizeDeferredTax ::
  "env \<Rightarrow> string \<Rightarrow> string \<Rightarrow> rat \<Rightarrow> rat \<Rightarrow> string \<Rightarrow> time \<Rightarrow> audit_info option \<Rightarrow> deferred_tax_item action" where
  "repo_RecognizeDeferredTax env ref desc diff rate dtype postedAt audit_i =
     (if ref = '''' then fail (ErrText ''reference is required'')
      else if dtype \<noteq> ''deductible'' \<and> dtype \<noteq> ''taxable'' then fail (ErrText ''dtype must be deductible or taxable'')
      else if rate \<le> 0 then fail (ErrText ''rate must be positive'')
      else if diff \<le> 0 then fail (ErrText ''temporary difference must be positive'')
      else let tax = env_round env (diff * rate) 2; eventID = ''deferredtax:'' @ ref in
      bind (accountIDByCode ''1700'') (\<lambda>assetID.
      bind (accountIDByCode ''2610'') (\<lambda>liabID.
      bind (accountIDByCode ''5700'') (\<lambda>expenseID.
      bind (BookPostedEntry env
              (finance_params (''Deferred tax '' @ ref) eventID (date_of postedAt)
                (deferred_lines dtype ref assetID liabID expenseID tax))
              eventID ''finance.tax.deferred'' postedAt
              (Some (insert_deferred_tax env ref desc diff dtype rate tax)) audit_i)
        (\<lambda>(_, out). case out of None \<Rightarrow> GetDeferredTaxItem ref | Some item \<Rightarrow> ok item)))))"

definition RunCurrentTax :: "env \<Rightarrow> string \<Rightarrow> rat \<Rightarrow> rat \<Rightarrow> string \<Rightarrow> income_tax_run action" where
  "RunCurrentTax env period profit rate actor =
     bind (guardOpen (env_now env)) (\<lambda>_.
     repo_RunCurrentTax env period profit rate (env_now env)
       (actor_audit actor ''finance.tax.current'' (''current tax provision '' @ period)))"

definition RecognizeDeferredTax ::
  "env \<Rightarrow> string \<Rightarrow> string \<Rightarrow> rat \<Rightarrow> rat \<Rightarrow> string \<Rightarrow> string \<Rightarrow> deferred_tax_item action" where
  "RecognizeDeferredTax env ref desc diff rate dtype actor =
     bind (guardOpen (env_now env)) (\<lambda>_.
     repo_RecognizeDeferredTax env ref desc diff rate dtype (env_now env)
       (actor_audit actor ''finance.tax.deferred'' (''deferred tax '' @ ref)))"

section \<open>Intangible assets\<close>

record intangible_input =
  xi_ref :: string
  xi_desc :: string
  xi_category :: string
  xi_cost :: rat
  xi_in_service :: time
  xi_life :: int
  xi_currency :: string
  xi_from :: string

definition insert_intangible :: "env \<Rightarrow> intangible_input \<Rightarrow> string \<Rightarrow> intangible_asset action" where
  "insert_intangible env inp currency = (\<lambda>s.
     let r = estimates_of s;
         row = \<lparr>ia_ref = xi_ref inp, ia_desc = xi_desc inp, ia_category = xi_category inp,
                ia_cost = env_round env (xi_cost inp) 2, ia_in_service = date_of (xi_in_service inp),
                ia_life = xi_life inp, ia_accumulated = 0, ia_currency = currency, ia_active = True\<rparr>
     in if xi_life inp \<le> 0 then (Inl (CheckViolation ''ia_assets_useful_life_months_check''), s)
        else if xi_ref inp \<in> ia_ref ` set (ia_assets r)
        then (Inl (UniqueViolation ''ia_assets_asset_ref_key''), s)
        else (Inr row, s\<lparr>estimates_of := r\<lparr>ia_assets := ia_assets r @ [row]\<rparr>\<rparr>))"

definition intangible_posting :: "env \<Rightarrow> intangible_input \<Rightarrow> string \<Rightarrow> unit action" where
  "intangible_posting env inp currency =
     (if xi_from inp \<noteq> '''' \<and> xi_cost inp > 0 then
        bind (accountIDByCodeTx ''1700'') (\<lambda>iaID.
        bind (accountIDByCodeTx (xi_from inp)) (\<lambda>fromID.
        bind (post_in_tx env
          (default_params\<lparr>jp_desc := ''Capitalize '' @ xi_ref inp, jp_source_service := Some ''ia-capitalization'',
             jp_acc_date := Some (date_of (xi_in_service inp)), jp_currency := currency,
             jp_lines := two_lines iaID fromID (xi_cost inp) (''Capitalize '' @ xi_ref inp)
                           (''Reclass from '' @ xi_from inp)\<rparr>) (xi_in_service inp)) (\<lambda>_. ok ())))
      else ok ())"

definition CreateIntangibleAsset :: "env \<Rightarrow> intangible_input \<Rightarrow> intangible_asset action" where
  "CreateIntangibleAsset env inp =
     (let currency = (if xi_currency inp = '''' then env_base env else xi_currency inp) in tx
      (bind (insert_intangible env inp currency) (\<lambda>asset.
       bind (intangible_posting env inp currency) (\<lambda>_. ok asset))))"

definition RegisterIntangibleAsset :: "env \<Rightarrow> intangible_input \<Rightarrow> intangible_asset action" where
  "RegisterIntangibleAsset env inp =
     bind (if xi_from inp \<noteq> '''' then IsPeriodClosed (period_of_time (xi_in_service inp)) else ok False) (\<lambda>closed.
     if closed then fail ErrPeriodClosed else CreateIntangibleAsset env inp)"

definition ListIntangibleAssets :: "int \<Rightarrow> int \<Rightarrow> intangible_asset list action" where
  "ListIntangibleAssets limit offset = gets (\<lambda>s.
     page (if limit \<le> 0 \<or> limit > 200 then 100 else limit) offset (rev (ia_assets (estimates_of s))))"

section \<open>Currency conversions\<close>

record conversion_input =
  ci_ref :: string
  ci_from :: string
  ci_from_currency :: string
  ci_from_amount :: rat
  ci_to :: string
  ci_to_currency :: string
  ci_rate :: rat
  ci_converted :: rat
  ci_fees :: rat
  ci_gain_loss :: string
  ci_date :: time
  ci_notes :: string

text \<open>
  Outside a transaction the dropped error of the numbering query does no harm: without a maximum the
  numbering starts again at one.
\<close>

definition next_free_reference :: "(string \<Rightarrow> int option) \<Rightarrow> string \<Rightarrow> string list \<Rightarrow> string" where
  "next_free_reference cast_int prefix refs =
     (let nums = map (\<lambda>r. cast_int (drop (length prefix) r)) (filter (has_prefix prefix) refs) in
      if nums = [] \<or> None \<in> set nums then prefix @ pad_number 1
      else prefix @ pad_number (Max (the ` set nums) + 1))"

definition CreateFXConversion :: "env \<Rightarrow> (string \<Rightarrow> int option) \<Rightarrow> conversion_input \<Rightarrow> fx_conversion action" where
  "CreateFXConversion env cast_int inp = (\<lambda>s.
     let r = estimates_of s;
         ref = (if ci_ref inp = '''' then next_free_reference cast_int ''FX-2026-'' (map cv_ref (fx_conversions r))
                else ci_ref inp);
         row = \<lparr>cv_ref = ref, cv_from = ci_from inp, cv_from_currency = ci_from_currency inp,
                cv_from_amount = env_round env (ci_from_amount inp) 2, cv_to = ci_to inp,
                cv_to_currency = ci_to_currency inp, cv_rate = env_round env (ci_rate inp) 8,
                cv_converted = env_round env (ci_converted inp) 2, cv_fees = env_round env (ci_fees inp) 2,
                cv_gain_loss = ci_gain_loss inp, cv_date = date_of (ci_date inp), cv_notes = ci_notes inp\<rparr>
     in if ref \<in> cv_ref ` set (fx_conversions r)
        then (Inl (UniqueViolation ''fx_conversions_conversion_ref_key''), s)
        else (Inr row, s\<lparr>estimates_of := r\<lparr>fx_conversions := fx_conversions r @ [row]\<rparr>\<rparr>))"

definition RecordFXConversion :: "env \<Rightarrow> (string \<Rightarrow> int option) \<Rightarrow> conversion_input \<Rightarrow> fx_conversion action" where
  "RecordFXConversion = CreateFXConversion"

definition ListFXConversions :: "int \<Rightarrow> int \<Rightarrow> fx_conversion list action" where
  "ListFXConversions limit offset = gets (\<lambda>s.
     page (if limit \<le> 0 \<or> limit > 200 then 100 else limit) offset
       (rev (sort_key (\<lambda>c. day_of_civil (cv_date c)) (fx_conversions (estimates_of s)))))"

section \<open>They keep the books\<close>

lemma lateral_income_tax [lateral_intros]:
  "lateral (insert_tax_run env q p r t e)" "lateral (insert_deferred_tax env ref d x ty r t e)"
  "lateral (insert_intangible env xin c)" "lateral (CreateFXConversion env cast cin)"
  by (simp_all add: insert_tax_run_def insert_deferred_tax_def insert_intangible_def CreateFXConversion_def
      lateral_def core_of_def Let_def)

lemma keeps_books_income_tax [keeps_intros]:
  "keeps (books env h) (RunCurrentTax env q p r actor)" "keeps (books env h) (RecognizeDeferredTax env ref d x r ty actor)"
  unfolding RunCurrentTax_def repo_RunCurrentTax_def GetIncomeTaxRun_def RecognizeDeferredTax_def
    repo_RecognizeDeferredTax_def GetDeferredTaxItem_def Let_def
  by (intro keeps_intros; auto intro: lateral_intros)+

lemma posting_account_of_code: "posting env (accountIDByCodeTx c)"
  unfolding accountIDByCodeTx_def by (intro posting_intros)

lemma posting_intangible: "posting env (intangible_posting env xin c)"
  unfolding intangible_posting_def by (intro posting_intros posting_account_of_code)

lemma keeps_books_intangibles [keeps_intros]:
  "keeps (books env h) (RegisterIntangibleAsset env xin)" "keeps (books env h) (RecordFXConversion env cast cin)"
proof -
  have "posting env (insert_intangible env xin c)" for c
    by (intro posting_lateral lateral_intros)
  then show "keeps (books env h) (RegisterIntangibleAsset env xin)"
    unfolding RegisterIntangibleAsset_def CreateIntangibleAsset_def IsPeriodClosed_def Let_def
    by (intro keeps_intros keeps_books_tx posting_intros posting_intangible)
  show "keeps (books env h) (RecordFXConversion env cast cin)"
    unfolding RecordFXConversion_def by (intro keeps_books_lateral lateral_intros)
qed

end
