(* ===== verification/Reports.thy ===== *)
theory Reports
  imports Income_Tax
begin

text \<open>
  The financial statements (\<open>repository/reports.go\<close>, \<open>reports_extra.go\<close>, \<open>cashflow.go\<close>,
  \<open>control_recon.go\<close>, \<open>budgets.go\<close>): queries over the posted lines of a window of accounting dates and
  a set of entities. A \<open>SUM\<close> over an inner join ranges over \<open>account_lines\<close>; \<open>GROUP BY\<close> gives no row
  to an account without lines. A text amount is the exact value of the query, \<open>StringFixed(2)\<close> rounds.
\<close>

section \<open>Aging and receivables\<close>

record aging_row =
  ag_label :: string
  ag_amount :: rat
  ag_count :: nat

definition aging_labels :: "string list" where
  "aging_labels = [''current'', ''1-30'', ''31-60'', ''61-90'', ''90+'']"

definition aging_rows :: "env \<Rightarrow> open_item list \<Rightarrow> aging_row list" where
  "aging_rows env items =
     (let open_items = filter (\<lambda>i. oi_status i = Open \<or> oi_status i = Partial) items in
      map (\<lambda>label. let is = filter (\<lambda>i. aging_bucket (date_of (env_now env)) (oi_due i) = label) open_items
                   in \<lparr>ag_label = label, ag_amount = sum_list (map open_base is), ag_count = length is\<rparr>)
        aging_labels)"

definition ARAging :: "env \<Rightarrow> aging_row list action" where
  "ARAging env = gets (\<lambda>s. aging_rows env (ar_items s))"

definition APAging :: "env \<Rightarrow> aging_row list action" where
  "APAging env = gets (\<lambda>s. aging_rows env (ap_items s))"

record finance_summary =
  fs_balance :: rat
  fs_overdue :: rat
  fs_collected :: rat
  fs_open :: nat
  fs_at :: time

definition overdue_on :: "date \<Rightarrow> open_item \<Rightarrow> bool" where
  "overdue_on today i \<longleftrightarrow> (case oi_due i of None \<Rightarrow> False | Some d \<Rightarrow> \<not> date_le today d)"

definition FinanceSummary :: "env \<Rightarrow> finance_summary action" where
  "FinanceSummary env = gets (\<lambda>s.
     \<lparr>fs_balance = sum_list (map open_base (ar_items s)),
      fs_overdue = sum_list (map open_base (filter (overdue_on (date_of (env_now env))) (ar_items s))),
      fs_collected = sum_list (map (\<lambda>i. oi_paid i * oi_fx_rate i) (ar_items s)),
      fs_open = length (filter (\<lambda>i. oi_status i = Open \<or> oi_status i = Partial) (ar_items s)),
      fs_at = env_now env\<rparr>)"

section \<open>Income statement and balance sheet\<close>

definition text_key :: "string \<Rightarrow> nat list" where
  "text_key c = map of_char c"

definition by_type_and_code :: "account list \<Rightarrow> account list" where
  "by_type_and_code as = sort_key (\<lambda>a. text_key (a_type a)) (by_code as)"

definition credit_net :: "jline list \<Rightarrow> rat" where
  "credit_net ls = base_credits ls - base_debits ls"

text \<open>Credit-positive for the credit-normal types, debit-positive for the others.\<close>

definition natural_net :: "string \<Rightarrow> jline list \<Rightarrow> rat" where
  "natural_net ty ls =
     (if ty \<in> {''revenue'', ''liability'', ''equity''} then credit_net ls else - credit_net ls)"

text \<open>\<open>HAVING SUM(jl.debit_base) > 0 OR SUM(jl.credit_base) > 0\<close>\<close>

definition has_activity :: "jline list \<Rightarrow> bool" where
  "has_activity ls \<longleftrightarrow> base_debits ls > 0 \<or> base_credits ls > 0"

record statement_row =
  sr_type :: string
  sr_code :: string
  sr_name :: string
  sr_amount :: rat

definition statement_rows :: "db \<Rightarrow> (entry \<Rightarrow> bool) \<Rightarrow> string list \<Rightarrow> statement_row list" where
  "statement_rows s P types =
     map (\<lambda>a. \<lparr>sr_type = a_type a, sr_code = a_code a, sr_name = a_name a,
               sr_amount = natural_net (a_type a) (account_lines s P (a_id a))\<rparr>)
       (filter (\<lambda>a. has_activity (account_lines s P (a_id a)))
         (by_type_and_code (filter (\<lambda>a. a_active a \<and> a_type a \<in> set types) (accounts s))))"

definition ProfitAndLoss :: "date option \<Rightarrow> date option \<Rightarrow> id list \<Rightarrow> statement_row list action" where
  "ProfitAndLoss lo hi entities = gets (\<lambda>s.
     statement_rows s (in_scope lo hi entities) [''revenue'', ''expense''])"

definition NetIncome :: "date option \<Rightarrow> date option \<Rightarrow> id list \<Rightarrow> rat action" where
  "NetIncome lo hi entities = gets (\<lambda>s.
     sum_list (map (\<lambda>a. credit_net (account_lines s (in_scope lo hi entities) (a_id a)))
       (filter (\<lambda>a. a_active a \<and> a_type a \<in> {''revenue'', ''expense''}) (accounts s))))"

text \<open>The activity of a project, deactivated accounts and all entities included.\<close>

definition ProjectPL :: "id \<Rightarrow> date option \<Rightarrow> date option \<Rightarrow> statement_row list action" where
  "ProjectPL project lo hi = gets (\<lambda>s.
     let lines = (\<lambda>a. filter (\<lambda>l. l_project l = Some project)
                    (account_lines s (\<lambda>e. in_range lo hi (e_acc_date e)) (a_id a))) in
     map (\<lambda>a. \<lparr>sr_type = '''', sr_code = a_code a, sr_name = a_name a,
               sr_amount = natural_net (a_type a) (lines a)\<rparr>)
       (filter (\<lambda>a. has_activity (lines a))
         (by_type_and_code (filter (\<lambda>a. a_type a \<in> {''revenue'', ''expense''}) (accounts s)))))"

definition earnings_row :: "rat \<Rightarrow> statement_row list" where
  "earnings_row ni =
     (if ni \<noteq> 0 then [\<lparr>sr_type = ''equity'', sr_code = ''NET-INCOME'', sr_name = ''Current Period Earnings'',
                       sr_amount = ni\<rparr>] else [])"

definition BalanceSheet :: "date option \<Rightarrow> id list \<Rightarrow> statement_row list action" where
  "BalanceSheet asOf entities =
     bind (gets (\<lambda>s. statement_rows s (in_scope None asOf entities) [''asset'', ''liability'', ''equity''])) (\<lambda>rows.
     bind (NetIncome None asOf entities) (\<lambda>ni. ok (rows @ earnings_row ni)))"

record equity_row =
  eq_code :: string
  eq_name :: string
  eq_opening :: rat
  eq_movement :: rat
  eq_closing :: rat

definition StatementOfChangesInEquity :: "date option \<Rightarrow> date option \<Rightarrow> id list \<Rightarrow> equity_row list action" where
  "StatementOfChangesInEquity lo hi entities =
     bind (gets (\<lambda>s.
       let lines = (\<lambda>P a. account_lines s (\<lambda>e. P (e_acc_date e) \<and> e_entity e \<in> set entities) (a_id a)) in
       map (\<lambda>a. let before = credit_net (lines (\<lambda>d. case lo of None \<Rightarrow> True | Some f \<Rightarrow> \<not> date_le f d) a);
                    by_end = credit_net (lines (\<lambda>d. case hi of None \<Rightarrow> True | Some t \<Rightarrow> date_le d t) a)
                in \<lparr>eq_code = a_code a, eq_name = a_name a, eq_opening = before,
                    eq_movement = by_end - before, eq_closing = by_end\<rparr>)
         (filter (\<lambda>a. has_activity (lines (\<lambda>_. True) a))
           (by_code (filter (\<lambda>a. a_active a \<and> a_type a = ''equity'') (accounts s)))))) (\<lambda>rows.
     bind (NetIncome lo hi entities) (\<lambda>ni.
     ok (rows @ (if ni \<noteq> 0 then [\<lparr>eq_code = ''NET-INCOME'', eq_name = ''Current Period Earnings'',
                                  eq_opening = 0, eq_movement = ni, eq_closing = ni\<rparr>] else []))))"

section \<open>Account detail\<close>

record gl_line =
  gl_date :: date
  gl_number :: string
  gl_desc :: string
  gl_memo :: string
  gl_currency :: string
  gl_debit :: rat
  gl_credit :: rat
  gl_balance :: rat

text \<open>The joined rows of a code in \<open>ORDER BY accounting_date, entry_number, line_order\<close>.\<close>

definition detail_rows :: "db \<Rightarrow> string \<Rightarrow> date option \<Rightarrow> date option \<Rightarrow> (entry \<times> jline) list" where
  "detail_rows s code lo hi =
     (let ls = posted_lines s (\<lambda>e. in_range lo hi (e_acc_date e)) code;
          rows = List.map_filter (\<lambda>l. map_option (\<lambda>e. (e, l)) (entry_by_id s (l_entry l))) ls
      in sort_key (\<lambda>(e, _). day_of_civil (e_acc_date e))
           (sort_key (\<lambda>(e, _). text_key (e_number e)) (sort_key (\<lambda>(_, l). l_order l) rows)))"

fun running :: "rat \<Rightarrow> (entry \<times> jline) list \<Rightarrow> gl_line list" where
  "running balance [] = []"
| "running balance ((e, l) # rows) =
     (let new_balance = balance + l_debit_base l - l_credit_base l in
      \<lparr>gl_date = e_acc_date e, gl_number = e_number e, gl_desc = e_desc e, gl_memo = l_memo l,
       gl_currency = l_currency l, gl_debit = l_debit_base l, gl_credit = l_credit_base l,
       gl_balance = new_balance\<rparr> # running new_balance rows)"

definition GLAccountDetail :: "string \<Rightarrow> date option \<Rightarrow> date option \<Rightarrow> gl_line list action" where
  "GLAccountDetail code lo hi = gets (\<lambda>s. running 0 (detail_rows s code lo hi))"

section \<open>Cash flow\<close>

record cash_flow_row =
  cf_category :: string
  cf_net :: rat

definition line_account :: "db \<Rightarrow> jline \<Rightarrow> account option" where
  "line_account s l = row_by a_id (l_account l) (accounts s)"

definition on_account :: "db \<Rightarrow> (account \<Rightarrow> bool) \<Rightarrow> jline \<Rightarrow> bool" where
  "on_account s Q l = (case line_account s l of None \<Rightarrow> False | Some a \<Rightarrow> Q a)"

definition cash_entries :: "db \<Rightarrow> id list" where
  "cash_entries s = map l_entry (filter (on_account s a_cash) (jlines s))"

definition activity_of :: "account \<Rightarrow> string" where
  "activity_of a =
     (if a_code a \<in> {''1500'', ''1510''} then ''investing''
      else if a_type a = ''equity'' then ''financing'' else ''operating'')"

definition cash_legs :: "db \<Rightarrow> date option \<Rightarrow> date option \<Rightarrow> id list \<Rightarrow> jline list" where
  "cash_legs s lo hi entities = filter (\<lambda>l.
     entry_posted_in s (in_scope lo hi entities) (l_entry l) \<and> l_entry l \<in> set (cash_entries s) \<and>
     on_account s (\<lambda>a. \<not> a_cash a) l) (jlines s)"

definition legs_of :: "db \<Rightarrow> string \<Rightarrow> jline list \<Rightarrow> jline list" where
  "legs_of s c legs = filter (on_account s (\<lambda>a. activity_of a = c)) legs"

definition CashFlow :: "date option \<Rightarrow> date option \<Rightarrow> id list \<Rightarrow> cash_flow_row list action" where
  "CashFlow lo hi entities = gets (\<lambda>s.
     let legs = cash_legs s lo hi entities in
     map (\<lambda>c. \<lparr>cf_category = c, cf_net = credit_net (legs_of s c legs)\<rparr>)
       (filter (\<lambda>c. legs_of s c legs \<noteq> []) [''financing'', ''investing'', ''operating'']))"

record indirect_cash_flow =
  ic_income :: rat
  ic_adjustments :: "(string \<times> rat) list"
  ic_operating :: rat
  ic_investing :: rat
  ic_financing :: rat
  ic_change :: rat

definition accountMovementBase :: "string \<Rightarrow> date option \<Rightarrow> date option \<Rightarrow> id list \<Rightarrow> rat action" where
  "accountMovementBase code lo hi entities = gets (\<lambda>s.
     - credit_net (posted_lines s (in_scope lo hi entities) code))"

text \<open>Unlike \<open>NetIncome\<close> this query counts deactivated accounts.\<close>

definition all_income :: "db \<Rightarrow> date option \<Rightarrow> date option \<Rightarrow> id list \<Rightarrow> rat" where
  "all_income s lo hi entities = credit_net (filter (\<lambda>l.
     entry_posted_in s (in_scope lo hi entities) (l_entry l) \<and>
     on_account s (\<lambda>a. a_type a \<in> {''revenue'', ''expense''}) l) (jlines s))"

definition category_total :: "string \<Rightarrow> cash_flow_row list \<Rightarrow> rat" where
  "category_total c rows = sum_list (map cf_net (filter (\<lambda>r. cf_category r = c) rows))"

definition IndirectCashFlow :: "env \<Rightarrow> date option \<Rightarrow> date option \<Rightarrow> id list \<Rightarrow> indirect_cash_flow action" where
  "IndirectCashFlow env lo hi entities =
     (let mv = (\<lambda>code. accountMovementBase code lo hi entities); fixed = (\<lambda>x. env_round env x 2) in
      bind (gets (\<lambda>s. all_income s lo hi entities)) (\<lambda>netIncome.
      bind (mv ''5300'') (\<lambda>depreciation. bind (mv ''5310'') (\<lambda>impairment. bind (mv ''5500'') (\<lambda>provisions.
      bind (mv ''1100'') (\<lambda>arMove. bind (mv ''2000'') (\<lambda>apMove.
      let netOperating = netIncome + depreciation + impairment + provisions - arMove - apMove in
      bind (CashFlow lo hi entities) (\<lambda>direct.
      let investing = category_total ''investing'' direct; financing = category_total ''financing'' direct in
      ok \<lparr>ic_income = fixed netIncome,
          ic_adjustments = [(''Depreciation'', fixed depreciation), (''Impairment'', fixed impairment),
            (''Provisions (non-cash)'', fixed provisions), (''Change in receivables'', fixed (- arMove)),
            (''Change in payables'', fixed (- apMove))],
          ic_operating = fixed netOperating, ic_investing = fixed investing, ic_financing = fixed financing,
          ic_change = fixed (netOperating + investing + financing)\<rparr>))))))))"

section \<open>Control accounts\<close>

record control_row =
  ct_control :: string
  ct_code :: string
  ct_ledger :: rat
  ct_sub :: rat
  ct_difference :: rat

definition glBalance :: "id list \<Rightarrow> string \<Rightarrow> bool \<Rightarrow> rat action" where
  "glBalance entities code credit_normal = gets (\<lambda>s.
     let net = credit_net (posted_lines s (\<lambda>e. e_entity e \<in> set entities) code)
     in if credit_normal then net else - net)"

definition subBalance :: "id list \<Rightarrow> open_item list \<Rightarrow> rat" where
  "subBalance entities items = sum_list (map (\<lambda>i. oi_amount i - oi_paid i)
     (filter (\<lambda>i. oi_status i \<noteq> Closed \<and> oi_entity i \<in> set entities) items))"

definition control_row_of :: "env \<Rightarrow> string \<Rightarrow> string \<Rightarrow> rat \<Rightarrow> rat \<Rightarrow> control_row" where
  "control_row_of env name code gl sub =
     \<lparr>ct_control = name, ct_code = code, ct_ledger = env_round env gl 2, ct_sub = env_round env sub 2,
      ct_difference = env_round env (gl - sub) 2\<rparr>"

definition ControlReconciliation :: "env \<Rightarrow> id list \<Rightarrow> control_row list action" where
  "ControlReconciliation env entities =
     bind (glBalance entities ''1100'' False) (\<lambda>arGL. bind (glBalance entities ''2000'' True) (\<lambda>apGL.
     bind (gets (\<lambda>s. subBalance entities (ar_items s))) (\<lambda>arSub.
     bind (gets (\<lambda>s. subBalance entities (ap_items s))) (\<lambda>apSub.
     bind (glBalance entities ''2150'' True) (\<lambda>grirGL. bind openGRNIAccrualTotal (\<lambda>grirSub.
     bind (glBalance entities ''1050'' False) (\<lambda>clearingGL.
     bind (openPaymentsClearingTotal entities) (\<lambda>clearingSub.
     ok [control_row_of env ''Accounts Receivable'' ''1100'' arGL arSub,
         control_row_of env ''Accounts Payable'' ''2000'' apGL apSub,
         control_row_of env ''GR/IR Clearing'' ''2150'' grirGL grirSub,
         control_row_of env ''Payments Clearing'' ''1050'' clearingGL clearingSub]))))))))"

section \<open>Sales by item\<close>

record item_sales =
  is_item :: string
  is_quantity :: rat
  is_revenue :: rat
  is_tax :: rat

text \<open>\<open>TRIM\<close> of SQL removes blanks only.\<close>

definition sql_trim :: "string \<Rightarrow> string" where
  "sql_trim c = (let strip = dropWhile (\<lambda>x. x = CHR '' '') in rev (strip (rev (strip c))))"

definition item_label :: "invoice_line \<Rightarrow> string" where
  "item_label l = (let t = sql_trim (il_desc l) in if t = '''' then ''(unlabelled)'' else t)"

definition optional_in_range :: "date option \<Rightarrow> date option \<Rightarrow> date option \<Rightarrow> bool" where
  "optional_in_range lo hi d = (case d of None \<Rightarrow> lo = None \<and> hi = None | Some x \<Rightarrow> in_range lo hi x)"

definition issued_lines :: "db \<Rightarrow> date option \<Rightarrow> date option \<Rightarrow> id list \<Rightarrow> invoice_line list" where
  "issued_lines s lo hi entities = concat (map in_lines (filter (\<lambda>v.
     (in_status v = InvIssued \<or> in_status v = InvPaid) \<and> in_entity v \<in> set entities \<and>
     optional_in_range lo hi (in_issue v)) (invoices (docs_of s))))"

definition SalesByItem :: "date option \<Rightarrow> date option \<Rightarrow> id list \<Rightarrow> item_sales list action" where
  "SalesByItem lo hi entities = gets (\<lambda>s.
     let ls = issued_lines s lo hi entities in
     sort_key (\<lambda>r. - is_revenue r)
       (map (\<lambda>item. let g = filter (\<lambda>l. item_label l = item) ls in
               \<lparr>is_item = item, is_quantity = sum_list (map il_quantity g),
                is_revenue = sum_list (map il_total g), is_tax = sum_list (map il_tax g)\<rparr>)
         (remdups (map item_label ls))))"

section \<open>Budgets\<close>

definition upd_docs :: "(documents \<Rightarrow> documents) \<Rightarrow> unit action" where
  "upd_docs f = modify (\<lambda>s. s\<lparr>docs_of := f (docs_of s)\<rparr>)"

definition UpsertBudget :: "env \<Rightarrow> string \<Rightarrow> string \<Rightarrow> rat \<Rightarrow> unit action" where
  "UpsertBudget env period code amount = (\<lambda>s.
     let row = \<lparr>bu_entity = env_entity env, bu_period = period, bu_account = code,
                bu_amount = env_round env amount 2\<rparr>;
         same = (\<lambda>b. bu_entity b = env_entity env \<and> bu_period b = period \<and> bu_account b = code)
     in if env_entity env \<notin> en_id ` set (entity_rows (docs_of s))
        then (Inl (ForeignKeyViolation ''budgets_entity_id_fkey''), s)
        else if code \<notin> a_code ` set (accounts s)
        then (Inl (ForeignKeyViolation ''budgets_account_code_fkey''), s)
        else upd_docs (\<lambda>d. d\<lparr>budgets :=
               (if \<exists>b \<in> set (budgets d). same b
                then update_where same (\<lambda>b. b\<lparr>bu_amount := bu_amount row\<rparr>) (budgets d)
                else budgets d @ [row])\<rparr>) s)"

record budget_line =
  bv_code :: string
  bv_name :: string
  bv_type :: string
  bv_budget :: rat
  bv_actual :: rat
  bv_variance :: rat

definition budgeted :: "db \<Rightarrow> date option \<Rightarrow> date option \<Rightarrow> id list \<Rightarrow> string \<Rightarrow> budget list" where
  "budgeted s lo hi entities code = filter (\<lambda>b.
     bu_account b = code \<and> bu_entity b \<in> set entities \<and>
     (case lo of None \<Rightarrow> True | Some f \<Rightarrow> text_key (format_period f) \<le> text_key (bu_period b)) \<and>
     (case hi of None \<Rightarrow> True | Some t \<Rightarrow> text_key (bu_period b) \<le> text_key (format_period t)))
     (budgets (docs_of s))"

definition BudgetVsActual :: "date option \<Rightarrow> date option \<Rightarrow> id list \<Rightarrow> budget_line list action" where
  "BudgetVsActual lo hi entities = gets (\<lambda>s.
     let acts = (\<lambda>a. account_lines s (in_scope lo hi entities) (a_id a));
         buds = (\<lambda>a. budgeted s lo hi entities (a_code a)) in
     map (\<lambda>a. let b = sum_list (map bu_amount (buds a)); x = natural_net (a_type a) (acts a) in
              \<lparr>bv_code = a_code a, bv_name = a_name a, bv_type = a_type a, bv_budget = b, bv_actual = x,
               bv_variance = x - b\<rparr>)
       (by_code (filter (\<lambda>a. a_active a \<and> (acts a \<noteq> [] \<or> buds a \<noteq> [])) (accounts s))))"

lemma lateral_UpsertBudget [lateral_intros]: "lateral (UpsertBudget env q c x)"
  by (simp add: UpsertBudget_def upd_docs_def lateral_def core_of_def modify_def Let_def)

end
