(* ===== verification/Entities.thy ===== *)
theory Entities
  imports Reports
begin

text \<open>
  The entities of the group (\<open>repository/entity.go\<close>), the scope of a consolidated report and the
  eliminations of consolidation (\<open>repository/consolidation.go\<close>, \<open>ledger/consolidation.go\<close>).
\<close>

section \<open>Registry\<close>

definition ListEntities :: "entity_row list action" where
  "ListEntities = gets (\<lambda>s. sort_key (\<lambda>e. text_key (en_code e)) (entity_rows (docs_of s)))"

definition CreateEntity ::
  "env \<Rightarrow> string \<Rightarrow> string \<Rightarrow> string \<Rightarrow> id option \<Rightarrow> rat option \<Rightarrow> entity_row action" where
  "CreateEntity env code name base par owned = (\<lambda>s.
     let d = docs_of s;
         row = \<lparr>en_id = next_id s, en_code = code, en_name = name,
                en_base = (if base = '''' then env_base env else base), en_parent = par, en_active = True,
                en_owned = env_round env (case owned of None \<Rightarrow> 1 | Some x \<Rightarrow> x) 4\<rparr>
     in if \<not> (en_owned row > 0 \<and> en_owned row \<le> 1)
        then (Inl (CheckViolation ''entities_ownership_pct_check''), s)
        else if code \<in> en_code ` set (entity_rows d) then (Inl (UniqueViolation ''entities_code_key''), s)
        else if (case par of None \<Rightarrow> False | Some i \<Rightarrow> i \<notin> en_id ` set (entity_rows d))
        then (Inl (ForeignKeyViolation ''entities_parent_id_fkey''), s)
        else (Inr row, s\<lparr>docs_of := d\<lparr>entity_rows := entity_rows d @ [row]\<rparr>, next_id := Suc (next_id s)\<rparr>))"

definition SetEntityOwnership :: "env \<Rightarrow> id \<Rightarrow> rat \<Rightarrow> entity_row option action" where
  "SetEntityOwnership env i owned = (\<lambda>s.
     let d = docs_of s; x = env_round env owned 4 in
     case row_by en_id i (entity_rows d) of
       None \<Rightarrow> (Inr None, s)
     | Some e \<Rightarrow>
         if \<not> (x > 0 \<and> x \<le> 1) then (Inl (CheckViolation ''entities_ownership_pct_check''), s)
         else (Inr (Some (e\<lparr>en_owned := x\<rparr>)),
               s\<lparr>docs_of := d\<lparr>entity_rows := update_where (\<lambda>r. en_id r = i) (\<lambda>r. r\<lparr>en_owned := x\<rparr>)
                                              (entity_rows d)\<rparr>\<rparr>))"

definition GetEntityByCode :: "string \<Rightarrow> entity_row option action" where
  "GetEntityByCode code = gets (\<lambda>s. row_by en_code code (entity_rows (docs_of s)))"

section \<open>The scope of a report\<close>

text \<open>
  The recursive query level by level, as the server runs it: the entities whose parent is in the level
  before. \<open>UNION ALL\<close> does not stop on a cycle, where the result here is \<open>None\<close>.
\<close>

definition children_of :: "entity_row list \<Rightarrow> id list \<Rightarrow> id list" where
  "children_of rows level =
     concat (map (\<lambda>p. map en_id (filter (\<lambda>e. en_parent e = Some p) rows)) level)"

partial_function (option) entity_tree :: "entity_row list \<Rightarrow> id list \<Rightarrow> id list option" where
  "entity_tree rows level =
     (if level = [] then Some []
      else Option.bind (entity_tree rows (children_of rows level)) (\<lambda>rest. Some (level @ rest)))"

definition EntityScope :: "db \<Rightarrow> id \<Rightarrow> bool \<Rightarrow> id list option" where
  "EntityScope s i consolidated =
     (if \<not> consolidated then Some [i]
      else map_option (\<lambda>ids. if ids = [] then [i] else ids)
             (entity_tree (entity_rows (docs_of s))
               (map en_id (filter (\<lambda>e. en_id e = i) (entity_rows (docs_of s))))))"

section \<open>Eliminations\<close>

definition investmentCode :: string where "investmentCode = ''1800''"
definition goodwillCode :: string where "goodwillCode = ''1900''"
definition nciCode :: string where "nciCode = ''3200''"

record elimination_row =
  el_code :: string
  el_name :: string
  el_type :: string
  el_amount :: rat

definition touches_control :: "db \<Rightarrow> id \<Rightarrow> bool" where
  "touches_control s i \<longleftrightarrow>
     (\<exists>l \<in> set (lines_of s i). on_account s (\<lambda>a. a_code a \<in> {''1800'', ''1900'', ''3200''}) l)"

definition intra_group :: "db \<Rightarrow> date option \<Rightarrow> date option \<Rightarrow> id list \<Rightarrow> entry \<Rightarrow> bool" where
  "intra_group s lo hi scope e \<longleftrightarrow>
     in_scope lo hi scope e \<and> (case e_counterparty e of None \<Rightarrow> False | Some c \<Rightarrow> c \<in> set scope) \<and>
     \<not> touches_control s (e_id e)"

definition elimination_balance :: "string \<Rightarrow> jline list \<Rightarrow> rat" where
  "elimination_balance ty ls = (if ty = ''asset'' \<or> ty = ''expense'' then - credit_net ls else credit_net ls)"

definition TransactionalEliminations ::
  "env \<Rightarrow> date option \<Rightarrow> date option \<Rightarrow> id list \<Rightarrow> elimination_row list action" where
  "TransactionalEliminations env lo hi scope = gets (\<lambda>s.
     let acts = (\<lambda>a. account_lines s (intra_group s lo hi scope) (a_id a)) in
     map (\<lambda>a. \<lparr>el_code = a_code a, el_name = ''Eliminate intercompany '' @ a_name a, el_type = a_type a,
               el_amount = env_round env (- elimination_balance (a_type a) (acts a)) 2\<rparr>)
       (filter (\<lambda>a. elimination_balance (a_type a) (acts a) \<noteq> 0)
         (filter (\<lambda>a. base_debits (acts a) \<noteq> 0 \<or> base_credits (acts a) \<noteq> 0)
           (by_type_and_code (accounts s)))))"

record subsidiary =
  sb_id :: id
  sb_code :: string
  sb_parent :: id
  sb_owned :: rat

definition subsidiariesInScope :: "id list \<Rightarrow> subsidiary list action" where
  "subsidiariesInScope scope = gets (\<lambda>s. List.map_filter
     (\<lambda>e. case en_parent e of None \<Rightarrow> None
        | Some p \<Rightarrow> if en_id e \<in> set scope \<and> p \<in> set scope
                    then Some \<lparr>sb_id = en_id e, sb_code = en_code e, sb_parent = p, sb_owned = en_owned e\<rparr>
                    else None)
     (sort_key (\<lambda>e. text_key (en_code e)) (entity_rows (docs_of s))))"

definition up_to :: "date option \<Rightarrow> entry \<Rightarrow> bool" where
  "up_to asOf e \<longleftrightarrow> in_range None asOf (e_acc_date e)"

definition subEquity :: "id \<Rightarrow> date option \<Rightarrow> rat action" where
  "subEquity sub asOf = gets (\<lambda>s. credit_net (filter (\<lambda>l.
     entry_posted_in s (\<lambda>e. e_entity e = sub \<and> up_to asOf e) (l_entry l) \<and>
     on_account s (\<lambda>a. a_type a = ''equity'') l) (jlines s)))"

definition investmentInSub :: "id \<Rightarrow> id \<Rightarrow> date option \<Rightarrow> rat action" where
  "investmentInSub par sub asOf = gets (\<lambda>s. - credit_net
     (posted_lines s (\<lambda>e. e_entity e = par \<and> e_counterparty e = Some sub \<and> up_to asOf e) investmentCode))"

definition investmentEquityRows ::
  "env \<Rightarrow> string \<Rightarrow> rat \<Rightarrow> rat \<Rightarrow> rat \<Rightarrow> elimination_row list \<times> rat \<times> rat" where
  "investmentEquityRows env sub invest equity owned =
     (let ownedEquity = env_round env (equity * owned) 2;
          nci = env_round env (equity - ownedEquity) 2;
          goodwill = env_round env (invest - ownedEquity) 2
      in ([\<lparr>el_code = investmentCode, el_name = ''Eliminate investment in '' @ sub, el_type = ''asset'',
            el_amount = env_round env (- invest) 2\<rparr>,
           \<lparr>el_code = goodwillCode, el_name = ''Goodwill on '' @ sub, el_type = ''asset'',
            el_amount = env_round env goodwill 2\<rparr>,
           \<lparr>el_code = ''ELIM-EQ'', el_name = ''Eliminate equity of '' @ sub, el_type = ''equity'',
            el_amount = env_round env (- equity) 2\<rparr>,
           \<lparr>el_code = nciCode, el_name = ''Non-controlling interest ('' @ sub @ '')'', el_type = ''equity'',
            el_amount = env_round env nci 2\<rparr>], nci, goodwill))"

text \<open>The rows, the non-controlling interests and the goodwill of one subsidiary after the other.\<close>

fun eliminate_subsidiaries ::
  "env \<Rightarrow> date option \<Rightarrow> subsidiary list \<Rightarrow> (elimination_row list \<times> rat \<times> rat) action" where
  "eliminate_subsidiaries env asOf [] = ok ([], 0, 0)"
| "eliminate_subsidiaries env asOf (sub # subs) =
     bind (subEquity (sb_id sub) asOf) (\<lambda>equity.
     bind (investmentInSub (sb_parent sub) (sb_id sub) asOf) (\<lambda>invest.
     bind (eliminate_subsidiaries env asOf subs) (\<lambda>(rows, nci, goodwill).
     if equity = 0 \<and> invest = 0 then ok (rows, nci, goodwill)
     else case investmentEquityRows env (sb_code sub) invest equity (sb_owned sub) of
       (r, n, g) \<Rightarrow> ok (r @ rows, n + nci, g + goodwill))))"

definition StructuralEliminations ::
  "env \<Rightarrow> date option \<Rightarrow> id list \<Rightarrow> (elimination_row list \<times> rat \<times> rat) action" where
  "StructuralEliminations env asOf scope =
     bind (subsidiariesInScope scope) (\<lambda>subs. eliminate_subsidiaries env asOf subs)"

record consolidation_summary =
  cs_transactional :: "elimination_row list"
  cs_structural :: "elimination_row list"
  cs_nci :: rat
  cs_goodwill :: rat

definition ConsolidationEliminations :: "env \<Rightarrow> date option \<Rightarrow> id list \<Rightarrow> consolidation_summary action" where
  "ConsolidationEliminations env asOf scope =
     bind (TransactionalEliminations env None asOf scope) (\<lambda>txn.
     bind (StructuralEliminations env asOf scope) (\<lambda>(structural, nci, goodwill).
     ok \<lparr>cs_transactional = txn, cs_structural = structural, cs_nci = env_round env nci 2,
         cs_goodwill = env_round env goodwill 2\<rparr>))"

lemma lateral_entities [lateral_intros]:
  "lateral (CreateEntity env c n b p w)" "lateral (SetEntityOwnership env i x)"
  by (auto simp: CreateEntity_def SetEntityOwnership_def lateral_def core_of_def Let_def split: option.splits)

lemma keeps_books_entities [keeps_intros]:
  "keeps (books env h) (UpsertBudget env q c x)" "keeps (books env h) (CreateEntity env c n b p w)"
  "keeps (books env h) (SetEntityOwnership env i x)"
  by (intro keeps_books_lateral lateral_intros)+

section \<open>The scope is finite and complete\<close>

text \<open>
  An entity is created below an existing one and is never moved, so that the parents come first.
\<close>

definition parents_first :: "entity_row list \<Rightarrow> bool" where
  "parents_first rows \<longleftrightarrow>
     distinct (map en_id rows) \<and> (\<forall>e \<in> set rows. \<forall>p. en_parent e = Some p \<longrightarrow> p < en_id e)"

inductive below :: "entity_row list \<Rightarrow> id \<Rightarrow> id \<Rightarrow> bool" for rows :: "entity_row list" where
  itself: "below rows i i"
| child: "below rows i p \<Longrightarrow> e \<in> set rows \<Longrightarrow> en_parent e = Some p \<Longrightarrow> below rows i (en_id e)"

inductive_cases below_cases: "below rows i j"

lemma in_children_of:
  "c \<in> set (children_of rows level) \<longleftrightarrow> (\<exists>p \<in> set level. \<exists>e \<in> set rows. en_id e = c \<and> en_parent e = Some p)"
  by (auto simp: children_of_def)

lemma same_entity: "parents_first rows \<Longrightarrow> e \<in> set rows \<Longrightarrow> e' \<in> set rows \<Longrightarrow> en_id e = en_id e' \<Longrightarrow> e = e'"
  by (auto simp: parents_first_def distinct_map dest: inj_onD)

lemma below_trans: "below rows j k \<Longrightarrow> below rows i j \<Longrightarrow> below rows i k"
  by (induction rule: below.induct) (auto intro: below.intros)

lemma below_level:
  assumes "e \<in> set rows" "en_parent e = Some p" "below rows (en_id e) j"
  shows "below rows p j"
  by (rule below_trans [OF assms(3)]) (rule below.child [OF below.itself assms(1,2)])

text \<open>What lies below a level is the level and what lies below its children.\<close>

lemma below_level_iff:
  "(\<exists>r \<in> set level. below rows r i) \<longleftrightarrow>
     i \<in> set level \<or> (\<exists>r \<in> set (children_of rows level). below rows r i)" (is "?L \<longleftrightarrow> ?R")
proof
  assume ?L
  then obtain r where r: "r \<in> set level" "below rows r i" by blast
  from r(2,1) show ?R
  proof (induction rule: below.induct)
    case (child i p e)
    from child.IH [OF child.prems] show ?case
    proof
      assume "p \<in> set level"
      then have "en_id e \<in> set (children_of rows level)" using child by (auto simp: in_children_of)
      then show ?thesis using below.itself by blast
    next
      assume "\<exists>r \<in> set (children_of rows level). below rows r p"
      then show ?thesis using child below.child by blast
    qed
  qed simp
next
  assume ?R
  then show ?L
    using below.itself below_level by (fastforce simp: in_children_of)
qed

text \<open>The entities of a level, none of them below another.\<close>

definition antichain :: "entity_row list \<Rightarrow> id list \<Rightarrow> bool" where
  "antichain rows level \<longleftrightarrow>
     distinct level \<and> (\<forall>a \<in> set level. \<forall>b \<in> set level. below rows a b \<longrightarrow> a = b)"

lemma below_of_child:
  assumes "parents_first rows" "e \<in> set rows" "en_parent e = Some p" "below rows a (en_id e)"
  shows "a = en_id e \<or> below rows a p"
  using assms(4)
proof (rule below_cases)
  fix q e' assume "en_id e = en_id e'" and e': "e' \<in> set rows" "en_parent e' = Some q" "below rows a q"
  then have "e' = e" using same_entity [OF assms(1) assms(2) e'(1)] by simp
  then show ?thesis using e' assms(3) by simp
qed simp

lemma below_le: "parents_first rows \<Longrightarrow> below rows a b \<Longrightarrow> a \<le> b"
  by (erule below.induct [of rows a b]) (fastforce simp: parents_first_def)+

lemma distinct_children:
  assumes "distinct level" "parents_first rows"
  shows "distinct (children_of rows level)"
  using assms(1)
proof (induction level)
  case (Cons p level)
  have one: "distinct (map en_id (filter P rows))" for P
    using assms(2) by (auto simp: parents_first_def distinct_map intro: inj_on_subset)
  have "en_id ` {e \<in> set rows. en_parent e = Some p} \<inter> set (children_of rows level) = {}"
    using Cons.prems same_entity [OF assms(2)] by (auto simp: in_children_of) (metis option.inject)
  then show ?case using Cons one [of "\<lambda>e. en_parent e = Some p"] by (simp add: children_of_def)
qed (simp add: children_of_def)

lemma antichain_children:
  assumes anti: "antichain rows level" and rows: "parents_first rows"
  shows "antichain rows (children_of rows level)"
    "set level \<inter> {i. \<exists>r \<in> set (children_of rows level). below rows r i} = {}"
proof -
  have none_above: False if "p \<in> set level" "e \<in> set rows" "en_parent e = Some p" "q \<in> set level" "below rows (en_id e) q" for p e q
  proof -
    have "below rows p q" using below_level that by blast
    then have "p = q" using anti that by (auto simp: antichain_def)
    then have "en_id e \<le> p" using below_le [OF rows] that by blast
    then show False using rows that by (auto simp: parents_first_def)
  qed
  have "a = b" if ab: "a \<in> set (children_of rows level)" "b \<in> set (children_of rows level)" "below rows a b" for a b
  proof -
    obtain p e q e' where p: "p \<in> set level" "e \<in> set rows" "en_id e = a" "en_parent e = Some p"
      and q: "q \<in> set level" "e' \<in> set rows" "en_id e' = b" "en_parent e' = Some q"
      using ab by (auto simp: in_children_of)
    show "a = b" using below_of_child [OF rows q(2,4), of a] none_above [OF p(1,2,4) q(1)] ab(3) p(3) q(3) by auto
  qed
  then show "antichain rows (children_of rows level)"
    using distinct_children [OF _ rows] anti by (auto simp: antichain_def)
  show "set level \<inter> {i. \<exists>r \<in> set (children_of rows level). below rows r i} = {}"
    using none_above by (auto simp: in_children_of)
qed

text \<open>
  Each level lies above the least identifier of the one before, so the recursion ends; it returns what
  is below the level, each entity once.
\<close>

lemma entity_tree_complete:
  assumes "parents_first rows" "antichain rows level" "set level \<subseteq> en_id ` set rows"
  shows "\<exists>ids. entity_tree rows level = Some ids \<and> distinct ids \<and>
    set ids = {i. \<exists>r \<in> set level. below rows r i}"
proof -
  let ?above = "\<lambda>m. {i \<in> en_id ` set rows. m \<le> i}"
  have "\<exists>ids. entity_tree rows level = Some ids \<and> distinct ids \<and>
      set ids = {i. \<exists>r \<in> set level. below rows r i}"
    if "\<forall>i \<in> set level. m \<le> i" "antichain rows level" "set level \<subseteq> en_id ` set rows" for m
    using that
  proof (induction "card (?above m)" arbitrary: m level rule: less_induct)
    case less
    show ?case
    proof (cases "level = []")
      case False
      let ?next = "children_of rows level"
      define k where "k = Min (?above m)"
      have "hd level \<in> ?above m" using False less.prems by (cases level) auto
      then have k: "k \<in> ?above m" unfolding k_def by (intro Min_in) auto
      have least: "k \<le> j" if "j \<in> set level" for j
        unfolding k_def using that less.prems by (intro Min_le) auto
      have "k \<notin> ?above (Suc k)" "?above (Suc k) \<subseteq> ?above m" using k by auto
      then have "?above (Suc k) \<subset> ?above m" using k by blast
      then have smaller: "card (?above (Suc k)) < card (?above m)" by (intro psubset_card_mono) simp
      have "\<forall>j \<in> set ?next. Suc k \<le> j"
        using least assms(1) by (fastforce simp: in_children_of parents_first_def)
      moreover have "set ?next \<subseteq> en_id ` set rows" by (auto simp: in_children_of)
      ultimately obtain rest where rest: "entity_tree rows ?next = Some rest" "distinct rest"
        "set rest = {i. \<exists>r \<in> set ?next. below rows r i}"
        using less.hyps [OF smaller] antichain_children(1) [OF less.prems(2) assms(1)] by blast
      have "entity_tree rows level = Some (level @ rest)"
        using rest(1) False by (subst entity_tree.simps) simp
      moreover have "distinct (level @ rest)"
        using rest(2,3) less.prems(2) antichain_children(2) [OF less.prems(2) assms(1)] by (auto simp: antichain_def)
      moreover have "set (level @ rest) = {i. \<exists>r \<in> set level. below rows r i}"
        using rest(3) below_level_iff [of level rows] by (simp add: set_eq_iff)
      ultimately show ?thesis by blast
    qed (simp add: entity_tree.simps)
  qed
  from this [of 0] assms show ?thesis by simp
qed

lemma filter_key_distinct: "distinct (map f xs) \<Longrightarrow> x \<in> set xs \<Longrightarrow> filter (\<lambda>e. f e = f x) xs = [x]"
  by (induction xs) (auto simp: filter_empty_conv image_iff)

lemma EntityScope_complete:
  assumes "parents_first (entity_rows (docs_of s))" "i \<in> en_id ` set (entity_rows (docs_of s))"
  shows "\<exists>ids. EntityScope s i True = Some ids \<and> distinct ids \<and> set ids = {j. below (entity_rows (docs_of s)) i j}"
proof -
  let ?rows = "entity_rows (docs_of s)"
  from assms(2) obtain e where e: "e \<in> set ?rows" "en_id e = i" by blast
  have start: "filter (\<lambda>e. en_id e = i) ?rows = [e]"
    using filter_key_distinct [of en_id ?rows e] assms(1) e by (simp add: parents_first_def)
  have "antichain ?rows [i]" by (simp add: antichain_def)
  from entity_tree_complete [OF assms(1) this] assms(2) obtain ids
    where ids: "entity_tree ?rows [i] = Some ids" "distinct ids" "set ids = {j. below ?rows i j}" by auto
  then have "ids \<noteq> []" using below.itself by fastforce
  then show ?thesis using ids start e(2) by (auto simp: EntityScope_def)
qed

text \<open>The operations keep the order of the registry.\<close>

lemma CreateEntity_parents_first:
  assumes "CreateEntity env c n b p w s = (r, t)" "parents_first (entity_rows (docs_of s))"
    and "\<forall>e \<in> set (entity_rows (docs_of s)). en_id e < next_id s"
  shows "parents_first (entity_rows (docs_of t)) \<and> (\<forall>e \<in> set (entity_rows (docs_of t)). en_id e < next_id t)"
proof (cases "r")
  case (Inr row)
  then have "\<forall>q. p = Some q \<longrightarrow> q \<in> en_id ` set (entity_rows (docs_of s))"
    "entity_rows (docs_of t) = entity_rows (docs_of s) @ [row]" "en_id row = next_id s" "en_parent row = p"
    "next_id t = Suc (next_id s)"
    using assms(1) by (auto simp: CreateEntity_def Let_def split: if_splits option.splits)
  then show ?thesis using assms(2,3) by (auto simp: parents_first_def)
next
  case (Inl e)
  then have "t = s" using assms(1) by (auto simp: CreateEntity_def Let_def split: if_splits)
  then show ?thesis using assms(2,3) by simp
qed

end
