(* ===== verification/Parties.thy ===== *)
theory Parties
  imports Entities
begin

text \<open>
  Customers and vendors (\<open>repository/parties.go\<close>), the mirrors of the supply-chain parties on payables
  and portal users (\<open>party_sync.go\<close>, \<open>portal_party.go\<close>) and the links from open items to their
  entries (\<open>open_items.go\<close>). The text of a UUID is a parameter; the nil UUID is 0.
\<close>

section \<open>Annotating open items\<close>

text \<open>An \<open>UPDATE\<close> of open items that leaves their key and their amounts alone.\<close>

definition annotate :: "direction \<Rightarrow> (open_item \<Rightarrow> bool) \<Rightarrow> (open_item \<Rightarrow> open_item) \<Rightarrow> unit action" where
  "annotate d P f = modify (\<lambda>s. set_items d (update_where P f (items_of d s)) s)"

text \<open>\<open>WHERE document_ref = $1 AND journal_entry_id IS NULL\<close>\<close>

definition link_open_item :: "direction \<Rightarrow> string \<Rightarrow> id \<Rightarrow> string \<Rightarrow> unit action" where
  "link_open_item d ref entryID eventID =
     annotate d (\<lambda>i. oi_document_ref i = ref \<and> oi_entry i = None)
       (\<lambda>i. i\<lparr>oi_entry := Some entryID, oi_source_event := Some eventID\<rparr>)"

definition LinkAROpenItemByDocumentRef :: "string \<Rightarrow> id \<Rightarrow> string \<Rightarrow> unit action" where
  "LinkAROpenItemByDocumentRef = link_open_item AR"

definition LinkAPOpenItemByDocumentRef :: "string \<Rightarrow> id \<Rightarrow> string \<Rightarrow> unit action" where
  "LinkAPOpenItemByDocumentRef = link_open_item AP"

definition LinkARToJournal :: "string \<Rightarrow> id \<Rightarrow> string \<Rightarrow> unit action" where
  "LinkARToJournal ref entryID eventID =
     (if ref = '''' then ok () else LinkAROpenItemByDocumentRef ref entryID eventID)"

definition LinkAPToJournal :: "string \<Rightarrow> id \<Rightarrow> string \<Rightarrow> unit action" where
  "LinkAPToJournal ref entryID eventID =
     (if ref = '''' then ok () else LinkAPOpenItemByDocumentRef ref entryID eventID)"

section \<open>Parties\<close>

datatype party_table = Customers | Vendors

definition parties_in :: "party_table \<Rightarrow> documents \<Rightarrow> party list" where
  "parties_in t d = (case t of Customers \<Rightarrow> customers d | Vendors \<Rightarrow> vendors d)"

definition set_parties :: "party_table \<Rightarrow> party list \<Rightarrow> documents \<Rightarrow> documents" where
  "set_parties t ps d = (case t of Customers \<Rightarrow> d\<lparr>customers := ps\<rparr> | Vendors \<Rightarrow> d\<lparr>vendors := ps\<rparr>)"

text \<open>The unique keys: \<open>(entity_id, code)\<close>, and \<open>party_id\<close> where it is not null.\<close>

definition party_clash :: "party \<Rightarrow> party list \<Rightarrow> bool" where
  "party_clash p ps \<longleftrightarrow> (\<exists>q \<in> set ps.
     (py_entity q = py_entity p \<and> py_code q = py_code p) \<or> (py_party p \<noteq> None \<and> py_party q = py_party p))"

definition insert_party :: "party_table \<Rightarrow> party \<Rightarrow> party action" where
  "insert_party t p0 = (\<lambda>s.
     let p = p0\<lparr>py_id := next_id s\<rparr> in
     if party_clash p (parties_in t (docs_of s)) then (Inl (UniqueViolation ''parties_entity_id_code_key''), s)
     else (Inr p, s\<lparr>docs_of := set_parties t (parties_in t (docs_of s) @ [p]) (docs_of s),
                    next_id := Suc (next_id s)\<rparr>))"

definition vendorUpsertedType :: string where
  "vendorUpsertedType = ''party.vendor.upserted''"

definition text_or_empty :: "string option \<Rightarrow> string" where
  "text_or_empty x = (case x of None \<Rightarrow> '''' | Some v \<Rightarrow> v)"

definition vendor_event :: "(id \<Rightarrow> string) \<Rightarrow> string \<Rightarrow> string \<Rightarrow> party \<Rightarrow> outbox_event" where
  "vendor_event show_uuid topic eventID p =
     (let party = show_uuid (case py_party p of None \<Rightarrow> 0 | Some i \<Rightarrow> i) in
      \<lparr>oe_topic = topic, oe_key = party, oe_event_id = eventID, oe_event_type = vendorUpsertedType,
       oe_payload =
         [(''party_id'', JString party), (''code'', JString (py_code p)), (''name'', JString (py_name p)),
          (''email'', JString (text_or_empty (py_email p))), (''phone'', JString (text_or_empty (py_phone p))),
          (''currency'', JString (py_currency p)),
          (''status'', JString (if py_active p then ''Active'' else ''Inactive'')),
          (''supplier_type'', JString ''vendor''), (''source'', JString ''iag.finance'')]\<rparr>)"

text \<open>\<open>topic\<close> is empty when vendor synchronisation is off.\<close>

definition createParty ::
  "env \<Rightarrow> (id \<Rightarrow> string) \<Rightarrow> string \<Rightarrow> party_table \<Rightarrow> string \<Rightarrow> string \<Rightarrow> string \<Rightarrow> string \<Rightarrow> string \<Rightarrow> bool \<Rightarrow> party action" where
  "createParty env show_uuid topic t code name email phone currency emit =
     bind fresh_id (\<lambda>partyID.
     bind fresh_id (\<lambda>eventID. tx
      (bind (insert_party t
         \<lparr>py_id = 0, py_entity = env_entity env, py_code = code, py_name = name,
          py_email = optional_string email, py_phone = optional_string phone,
          py_currency = (if currency = '''' then ''UGX'' else currency), py_active = True,
          py_party = Some partyID\<rparr>) (\<lambda>p.
       bind (if emit \<and> topic \<noteq> '''' then enqueueOutboxTx (vendor_event show_uuid topic (show_uuid eventID) p)
             else ok ()) (\<lambda>_. ok p)))))"

definition CreateCustomer ::
  "env \<Rightarrow> (id \<Rightarrow> string) \<Rightarrow> string \<Rightarrow> string \<Rightarrow> string \<Rightarrow> string \<Rightarrow> string \<Rightarrow> string \<Rightarrow> party action" where
  "CreateCustomer env show_uuid topic code name email phone currency =
     createParty env show_uuid topic Customers code name email phone currency False"

definition CreateVendor ::
  "env \<Rightarrow> (id \<Rightarrow> string) \<Rightarrow> string \<Rightarrow> string \<Rightarrow> string \<Rightarrow> string \<Rightarrow> string \<Rightarrow> string \<Rightarrow> party action" where
  "CreateVendor env show_uuid topic code name email phone currency =
     createParty env show_uuid topic Vendors code name email phone currency True"

definition listParties :: "env \<Rightarrow> party_table \<Rightarrow> party list action" where
  "listParties env t = gets (\<lambda>s. sort_key (\<lambda>p. text_key (py_name p))
     (filter (\<lambda>p. py_entity p = env_entity env \<and> py_active p) (parties_in t (docs_of s))))"

definition ListCustomers :: "env \<Rightarrow> party list action" where
  "ListCustomers env = listParties env Customers"

definition ListVendors :: "env \<Rightarrow> party list action" where
  "ListVendors env = listParties env Vendors"

text \<open>A match by code comes before one by name.\<close>

definition CustomerEmailByRef :: "env \<Rightarrow> string \<Rightarrow> string action" where
  "CustomerEmailByRef env ref = gets (\<lambda>s.
     let ps = filter (\<lambda>p. py_entity p = env_entity env \<and> (py_code p = ref \<or> py_name p = ref) \<and>
                          text_or_empty (py_email p) \<noteq> '''') (customers (docs_of s));
         ordered = filter (\<lambda>p. py_code p = ref) ps @ filter (\<lambda>p. py_code p \<noteq> ref) ps
     in case ordered of [] \<Rightarrow> '''' | p # _ \<Rightarrow> text_or_empty (py_email p))"

section \<open>Inbound vendors\<close>

definition matches_vendor :: "id \<Rightarrow> id \<Rightarrow> string \<Rightarrow> party \<Rightarrow> bool" where
  "matches_vendor entity partyID code p \<longleftrightarrow>
     py_entity p = entity \<and> (py_party p = Some partyID \<or> py_code p = code)"

definition merge_vendor :: "id \<Rightarrow> string \<Rightarrow> string \<Rightarrow> string \<Rightarrow> bool \<Rightarrow> party \<Rightarrow> party" where
  "merge_vendor partyID name email phone active p =
     p\<lparr>py_party := Some partyID, py_name := (if name \<noteq> '''' then name else py_name p),
       py_email := (if email \<noteq> '''' then Some email else py_email p),
       py_phone := (if phone \<noteq> '''' then Some phone else py_phone p), py_active := active\<rparr>"

text \<open>
  The \<open>UPDATE\<close> can match two rows, one by \<open>party_id\<close> and one by code; giving both the party then breaks
  the unique index on \<open>party_id\<close>.
\<close>

definition UpsertVendorByParty ::
  "(id \<Rightarrow> string) \<Rightarrow> id \<Rightarrow> id \<Rightarrow> string \<Rightarrow> string \<Rightarrow> string \<Rightarrow> string \<Rightarrow> string \<Rightarrow> string \<Rightarrow> unit action" where
  "UpsertVendorByParty show_uuid entity partyID code0 name0 email phone currency0 status = (\<lambda>s.
     let name = trim_space name0; currency = (if currency0 = '''' then ''UGX'' else currency0);
         code = (if trim_space code0 = '''' then ''PARTY-'' @ take 8 (show_uuid partyID) else trim_space code0);
         active = (\<not> equal_fold (trim_space status) ''Inactive'');
         d = docs_of s; matching = filter (matches_vendor entity partyID code) (vendors d);
         updated = update_where (matches_vendor entity partyID code) (merge_vendor partyID name email phone active) (vendors d);
         row = \<lparr>py_id = next_id s, py_entity = entity, py_code = code, py_name = name,
                py_email = optional_string email, py_phone = optional_string phone, py_currency = currency,
                py_active = active, py_party = Some partyID\<rparr>
     in if partyID = 0 then (Inr (), s)
        else if matching \<noteq> [] then
          (if \<not> distinct (filter (\<lambda>x. x \<noteq> None) (map py_party updated))
           then (Inl (UniqueViolation ''idx_vendors_party_id''), s)
           else (Inr (), s\<lparr>docs_of := d\<lparr>vendors := updated\<rparr>\<rparr>))
        else if party_clash row (vendors d) then (Inr (), s)
        else (Inr (), s\<lparr>docs_of := d\<lparr>vendors := vendors d @ [row]\<rparr>, next_id := Suc (next_id s)\<rparr>))"

text \<open>\<open>vendor_ref ILIKE $3\<close>: the name of the party is the pattern.\<close>

definition claimed_by :: "string \<Rightarrow> string \<Rightarrow> open_item \<Rightarrow> bool" where
  "claimed_by businessID name i \<longleftrightarrow> oi_party_id i = None \<and>
     (oi_party_ref i = businessID \<or> oi_party_ref i = name \<or> like (to_lower name) (to_lower (oi_party_ref i)))"

definition SyncAPPartyFromSCM :: "id \<Rightarrow> string \<Rightarrow> string \<Rightarrow> nat action" where
  "SyncAPPartyFromSCM partyID businessID0 name0 =
     (let businessID = trim_space businessID0; name = trim_space name0 in
      if partyID = 0 then ok 0
      else bind (gets (\<lambda>s. length (filter (claimed_by businessID name) (ap_items s)))) (\<lambda>n.
           bind (annotate AP (claimed_by businessID name) (\<lambda>i. i\<lparr>oi_party_id := Some partyID\<rparr>)) (\<lambda>_. ok n)))"

section \<open>Portal users\<close>

definition UpsertPortalPartyLink :: "id \<Rightarrow> id \<Rightarrow> string \<Rightarrow> string \<Rightarrow> unit action" where
  "UpsertPortalPartyLink user partyID businessID supplierType = upd_docs (\<lambda>d.
     let row = \<lparr>pl_user = user, pl_party = partyID, pl_business = trim_space businessID,
                pl_type = trim_space supplierType\<rparr>
     in d\<lparr>portal_links :=
          (if user \<in> pl_user ` set (portal_links d) then update_where (\<lambda>l. pl_user l = user) (\<lambda>_. row) (portal_links d)
           else portal_links d @ [row])\<rparr>)"

definition ErrPortalPartyNotLinked :: err where
  "ErrPortalPartyNotLinked = ErrText ''portal party not linked''"

definition PartyIDForPlatformUser :: "id \<Rightarrow> id action" where
  "PartyIDForPlatformUser user = bind (gets (\<lambda>s. row_by pl_user user (portal_links (docs_of s)))) (\<lambda>row.
     case row of None \<Rightarrow> fail ErrPortalPartyNotLinked | Some l \<Rightarrow> ok (pl_party l))"

section \<open>They keep the books\<close>

lemma reconciled_annotate:
  assumes "\<And>i. oi_id (f i) = oi_id i" "\<And>i. oi_document_ref (f i) = oi_document_ref i"
    and "\<And>i. oi_paid (f i) = oi_paid i" "\<And>i. item_ok i \<Longrightarrow> item_ok (f i)"
  shows "keeps reconciled (annotate d P f)"
proof (rule keepsI)
  fix s assume s: "reconciled s"
  let ?f = "update_where P f"
  have "side_wf (next_id s) (?f (items_of d s))"
    using s assms by (intro side_wf_update) (auto simp: reconciled_def items_wf_alt)
  moreover have "\<forall>i \<in> set (?f (items_of d s)). \<exists>j \<in> set (items_of d s). oi_id i = oi_id j \<and> oi_paid i = oi_paid j"
    using assms(1,3) by (auto simp: set_update_where)
  ultimately show "reconciled (snd (annotate d P f s))"
    using reconciled_set_items [OF s, of "?f (items_of d s)" d] by (simp add: annotate_def)
qed

lemma keeps_books_annotate:
  assumes "\<And>i. oi_id (f i) = oi_id i" "\<And>i. oi_document_ref (f i) = oi_document_ref i"
    and "\<And>i. oi_paid (f i) = oi_paid i" "\<And>i. item_ok i \<Longrightarrow> item_ok (f i)"
  shows "keeps (books env h) (annotate d P f)"
  by (rule keeps_books_items [OF reconciled_annotate [OF assms]])
    (cases d; simp add: annotate_def set_items_def journal_view_def)+

lemma keeps_books_links [keeps_intros]:
  "keeps (books env h) (LinkARToJournal ref i ev)" "keeps (books env h) (LinkAPToJournal ref i ev)"
  "keeps (books env h) (SyncAPPartyFromSCM q b n)"
  unfolding LinkARToJournal_def LinkAPToJournal_def LinkAROpenItemByDocumentRef_def LinkAPOpenItemByDocumentRef_def
    link_open_item_def SyncAPPartyFromSCM_def Let_def
  by (intro keeps_intros keeps_books_annotate; simp add: item_ok_def)+

lemma lateral_parties [lateral_intros]:
  "lateral (insert_party t p)" "lateral (UpsertVendorByParty sh e q c n em ph cur st)"
  "lateral (UpsertPortalPartyLink u q b ty)" "lateral fresh_id"
  by (simp_all add: insert_party_def UpsertVendorByParty_def UpsertPortalPartyLink_def upd_docs_def fresh_id_def
      lateral_def core_of_def modify_def Let_def)

lemma keeps_books_parties [keeps_intros]:
  "keeps (books env h) (CreateCustomer env' sh tp c n em ph cur)" "keeps (books env h) (CreateVendor env' sh tp c n em ph cur)"
  "keeps (books env h) (UpsertVendorByParty sh e q c n em ph cur st)"
  "keeps (books env h) (UpsertPortalPartyLink u q b ty)"
proof -
  have "keeps (books env h) (createParty env' sh tp t c n em ph cur b)" for t b
    unfolding createParty_def
    by (intro keeps_intros keeps_books_tx keeps_books_lateral posting_intros posting_lateral lateral_intros)
  then show "keeps (books env h) (CreateCustomer env' sh tp c n em ph cur)" "keeps (books env h) (CreateVendor env' sh tp c n em ph cur)"
    unfolding CreateCustomer_def CreateVendor_def by simp_all
qed (intro keeps_books_lateral lateral_intros)+

end
