(* ===== verification/Event_Codec.thy ===== *)
theory Event_Codec
  imports Parties
begin

text \<open>
  How the consumers read an event: the envelope of the platform library, \<open>remarshal\<close> into the struct of
  the handler (\<open>encoding/json\<close> matches field names without regard to case, keys in sorted order, later
  ones winning; a value of another type is an error, \<open>null\<close> leaves the field) and the parsing of times
  and amounts.
\<close>

section \<open>The envelope\<close>

record envelope =
  ev_id :: string
  ev_type :: string
  ev_source :: string
  ev_time :: string
  ev_correlation :: string
  ev_data :: "json_object option"          \<comment> \<open>the nil map: \<open>None\<close>\<close>

definition data_of :: "envelope \<Rightarrow> json_object" where
  "data_of ev = (case ev_data ev of None \<Rightarrow> [] | Some obj \<Rightarrow> obj)"

section \<open>Decoding a struct\<close>

definition members_of :: "string \<Rightarrow> json_object \<Rightarrow> json list" where
  "members_of field obj =
     map snd (sort_key (\<lambda>(k, _). text_key k) (filter (\<lambda>(k, _). equal_fold k field) obj))"

definition decode_field :: "(json \<Rightarrow> 'a option) \<Rightarrow> 'a \<Rightarrow> string \<Rightarrow> json_object \<Rightarrow> 'a option" where
  "decode_field dec zero field obj =
     foldl (\<lambda>acc v. case acc of None \<Rightarrow> None | Some old \<Rightarrow> if v = JNull then Some old else dec v)
       (Some zero) (members_of field obj)"

fun as_string :: "json \<Rightarrow> string option" where
  "as_string (JString x) = Some x"
| "as_string _ = None"

fun as_bool :: "json \<Rightarrow> bool option" where
  "as_bool (JBool b) = Some b"
| "as_bool _ = None"

fun as_float :: "json \<Rightarrow> rat option" where
  "as_float (JNumber x) = Some x"
| "as_float _ = None"

fun as_int64 :: "json \<Rightarrow> int option" where
  "as_int64 (JNumber x) =
     (let n = \<lfloor>x\<rfloor> in if of_int n = x \<and> - (2 ^ 63) \<le> n \<and> n < 2 ^ 63 then Some n else None)"
| "as_int64 _ = None"

abbreviation text_field :: "string \<Rightarrow> json_object \<Rightarrow> string option" where
  "text_field \<equiv> decode_field as_string ''''"

abbreviation float_field :: "string \<Rightarrow> json_object \<Rightarrow> rat option" where
  "float_field \<equiv> decode_field as_float 0"

abbreviation int_field :: "string \<Rightarrow> json_object \<Rightarrow> int option" where
  "int_field \<equiv> decode_field as_int64 0"

text \<open>\<open>x, _ := data["k"].(string)\<close> of the handlers that read the map itself.\<close>

definition str_at :: "json_object \<Rightarrow> string \<Rightarrow> string" where
  "str_at obj k = (case map_of obj k of Some (JString x) \<Rightarrow> x | _ \<Rightarrow> '''')"

definition float_at :: "json_object \<Rightarrow> string \<Rightarrow> rat" where
  "float_at obj k = (case map_of obj k of Some (JNumber x) \<Rightarrow> x | _ \<Rightarrow> 0)"

definition bool_at :: "json_object \<Rightarrow> string \<Rightarrow> bool" where
  "bool_at obj k = (case map_of obj k of Some (JBool b) \<Rightarrow> b | _ \<Rightarrow> False)"

section \<open>Amounts\<close>

definition parseAmount :: "env \<Rightarrow> string \<Rightarrow> rat" where
  "parseAmount env x = (case env_parse env x of None \<Rightarrow> 0 | Some d \<Rightarrow> if d \<le> 0 then 0 else d)"

definition errUnparseableAmount :: "string \<Rightarrow> err" where
  "errUnparseableAmount raw = ErrText (''amount is present but not a usable number: '' @ raw)"

text \<open>\<open>Inr None\<close>: nothing to book.\<close>

definition parseAmountStrict :: "env \<Rightarrow> string \<Rightarrow> err + rat option" where
  "parseAmountStrict env raw0 =
     (let raw = trim_space raw0 in
      if raw = '''' then Inr None
      else case env_parse env raw of
        None \<Rightarrow> Inl (errUnparseableAmount raw)
      | Some d \<Rightarrow> if d \<le> 0 then Inl (errUnparseableAmount (env_show env d)) else Inr (Some d))"

definition disposalAmount :: "env \<Rightarrow> json option \<Rightarrow> rat" where
  "disposalAmount env v = (case v of
     Some (JNumber x) \<Rightarrow> x
   | Some (JString x) \<Rightarrow> (case env_parse env x of None \<Rightarrow> 0 | Some d \<Rightarrow> d)
   | _ \<Rightarrow> 0)"

definition scmAmount :: "env \<Rightarrow> json option \<Rightarrow> rat" where
  "scmAmount env v = (case v of
     Some (JNumber x) \<Rightarrow> x
   | Some (JString x) \<Rightarrow> (case env_parse env (trim_space x) of None \<Rightarrow> 0 | Some d \<Rightarrow> d)
   | _ \<Rightarrow> 0)"

text \<open>\<open>StringFixed(2)\<close>\<close>

definition string_fixed :: "env \<Rightarrow> rat \<Rightarrow> string" where
  "string_fixed env x =
     (let cents = \<lfloor>env_round env x 2 * 100\<rfloor>; n = abs cents in
      (if cents < 0 then ''-'' else '''') @ show_int (n div 100) @ ''.'' @ pad_left 2 (show_int (n mod 100)))"

section \<open>Times\<close>

definition fixed_number :: "nat \<Rightarrow> string \<Rightarrow> (int \<times> string) option" where
  "fixed_number n s =
     (if n \<le> length s \<and> list_all is_digit (take n s) then Some (digits_value (take n s), drop n s) else None)"

text \<open>The hour may have a single digit.\<close>

definition hour_number :: "string \<Rightarrow> (int \<times> string) option" where
  "hour_number s = (case fixed_number 2 s of Some r \<Rightarrow> Some r | None \<Rightarrow> fixed_number 1 s)"

definition literal :: "char \<Rightarrow> string \<Rightarrow> string option" where
  "literal c s = (case s of [] \<Rightarrow> None | x # r \<Rightarrow> if x = c then Some r else None)"

definition parse_day :: "string \<Rightarrow> (date \<times> string) option" where
  "parse_day s0 =
     Option.bind (fixed_number 4 s0) (\<lambda>(y, s1). Option.bind (literal (CHR ''-'') s1) (\<lambda>s2.
     Option.bind (fixed_number 2 s2) (\<lambda>(m, s3). Option.bind (literal (CHR ''-'') s3) (\<lambda>s4.
     Option.bind (fixed_number 2 s4) (\<lambda>(d, s5).
     if 1 \<le> m \<and> m \<le> 12 \<and> 1 \<le> d \<and> d \<le> days_in_month y m then Some ((y, m, d), s5) else None)))))"

text \<open>\<open>time.Parse("2006-01-02", s)\<close>\<close>

definition parse_date :: "string \<Rightarrow> date option" where
  "parse_date s = (case parse_day s of Some (d, []) \<Rightarrow> Some d | _ \<Rightarrow> None)"

text \<open>An optional fraction of a second, in nanoseconds.\<close>

definition parse_fraction :: "string \<Rightarrow> int \<times> string" where
  "parse_fraction s =
     (case s of
        c # d # r \<Rightarrow>
          if (c = CHR ''.'' \<or> c = CHR '','') \<and> is_digit d
          then let ds = takeWhile is_digit (d # r) in
               (digits_value (take 9 (ds @ replicate 9 (CHR ''0''))), drop (length ds) (d # r))
          else (0, s)
      | _ \<Rightarrow> (0, s))"

text \<open>The zone: its offset in seconds.\<close>

definition parse_zone :: "string \<Rightarrow> (int \<times> string) option" where
  "parse_zone s =
     (case s of
        [] \<Rightarrow> None
      | c # r \<Rightarrow>
          if c = CHR ''Z'' then Some (0, r)
          else if c = CHR ''+'' \<or> c = CHR ''-'' then
            Option.bind (fixed_number 2 r) (\<lambda>(h, r1). Option.bind (literal (CHR '':'') r1) (\<lambda>r2.
            Option.bind (fixed_number 2 r2) (\<lambda>(m, r3).
            if h \<le> 24 \<and> m \<le> 60 then Some ((if c = CHR ''-'' then - 1 else 1) * (h * 60 + m) * 60, r3) else None)))
          else None)"

text \<open>\<open>time.Parse(time.RFC3339Nano, s)\<close> and its conversion to UTC.\<close>

definition parse_rfc3339 :: "string \<Rightarrow> time option" where
  "parse_rfc3339 s0 =
     Option.bind (parse_day s0) (\<lambda>(d, s1). Option.bind (literal (CHR ''T'') s1) (\<lambda>s2.
     Option.bind (hour_number s2) (\<lambda>(h, s3). Option.bind (literal (CHR '':'') s3) (\<lambda>s4.
     Option.bind (fixed_number 2 s4) (\<lambda>(mi, s5). Option.bind (literal (CHR '':'') s5) (\<lambda>s6.
     Option.bind (fixed_number 2 s6) (\<lambda>(sec, s7).
     case parse_fraction s7 of (nanos, s8) \<Rightarrow>
     Option.bind (parse_zone s8) (\<lambda>(offset, rest).
     if h < 24 \<and> mi < 60 \<and> sec < 60 \<and> rest = []
     then Some (time_of_date d + ((h * 3600 + mi * 60 + sec) - offset) * 1000000000 + nanos)
     else None))))))))"

definition parseEnvTime :: "string \<Rightarrow> time" where
  "parseEnvTime s =
     (if s = '''' then 0 else case parse_rfc3339 s of None \<Rightarrow> 0 | Some t \<Rightarrow> t)"

definition eventRef :: "envelope \<Rightarrow> event_ref" where
  "eventRef ev =
     \<lparr>er_id = ev_id ev, er_type = ev_type ev, er_source = ev_source ev,
      er_correlation = ev_correlation ev, er_occurred = parseEnvTime (ev_time ev)\<rparr>"

section \<open>Decoding a text field\<close>

lemma members_of_Nil [simp]: "members_of f [] = []"
  by (simp add: members_of_def)

lemma decode_absent: "\<forall>(k, _) \<in> set obj. \<not> equal_fold k f \<Longrightarrow> decode_field dec zero f obj = Some zero"
proof -
  assume "\<forall>(k, _) \<in> set obj. \<not> equal_fold k f"
  then have "filter (\<lambda>(k, _). equal_fold k f) obj = []" by (auto simp: filter_empty_conv)
  then have "members_of f obj = []" by (simp add: members_of_def)
  then show ?thesis by (simp add: decode_field_def)
qed

lemma decode_present:
  assumes "filter (\<lambda>(k, _). equal_fold k f) obj = [(k, v)]" "v \<noteq> JNull"
  shows "decode_field dec zero f obj = dec v"
  using assms by (simp add: decode_field_def members_of_def)

end
