(* ===== verification/Consumers.thy ===== *)
theory Consumers
  imports Event_Codec
begin

text \<open>
  The event consumers (\<open>internal/consumer\<close>): what each handler does with an event of its stream. A
  handler answers that the event is handled, that it is broken (\<open>Permanent\<close>, to the dead-letter topic)
  or that it should be tried again (\<open>Transient\<close>). Kafka, the retries and the dead-letter topic belong
  to the platform library; log lines and the best-effort audit record of a booking are left out.
\<close>

datatype handler_err = Permanent err | Transient err

type_synonym 'a handling = "(db, handler_err, 'a) act"

record handler =
  hd_topic :: "string option"              \<comment> \<open>the finance topic while the bus is enabled\<close>
  hd_clearing :: bool                      \<comment> \<open>\<open>CoffeePayoutViaClearing\<close>\<close>
  hd_ledger :: bool                        \<comment> \<open>the ledger service is wired\<close>
  hd_uuid :: "string \<Rightarrow> id option"         \<comment> \<open>\<open>uuid.Parse\<close>\<close>
  hd_show_uuid :: "id \<Rightarrow> string"
  hd_fixed2 :: "rat \<Rightarrow> string"             \<comment> \<open>\<open>fmt.Sprintf("%.2f", f)\<close> of a \<open>float64\<close>\<close>

definition attempt :: "'a action \<Rightarrow> 'a handling" where
  "attempt m = (\<lambda>s. case m s of (Inl e, t) \<Rightarrow> (Inl (Transient e), t) | (Inr x, t) \<Rightarrow> (Inr x, t))"

definition broken :: "string \<Rightarrow> 'a handling" where
  "broken msg = fail (Permanent (ErrText msg))"

definition decoded :: "'a option \<Rightarrow> 'a handling" where
  "decoded x = (case x of None \<Rightarrow> broken ''json: cannot unmarshal'' | Some v \<Rightarrow> ok v)"

definition amount_or_broken :: "err + rat option \<Rightarrow> rat option handling" where
  "amount_or_broken x = (case x of Inl e \<Rightarrow> fail (Permanent e) | Inr v \<Rightarrow> ok v)"

definition or_ugx :: "string \<Rightarrow> string" where
  "or_ugx c = (if trim_space c = '''' then ''UGX'' else c)"

section \<open>Subscriptions\<close>

definition Subscriptions :: "(string \<times> string list) list" where
  "Subscriptions =
     [(''iag.finance.ledger'', [''sale.completed'', ''invoice.posted'']),
      (''iag.finance.fleet'', [''fleet.fuel.recorded'']),
      (''iag.finance.payments'', [''payments.settled'']),
      (''iag.finance.supply-chain'',
        [''scm.party.created'', ''scm.party.updated'', ''scm.party.portal_linked'', ''scm.farmer_payment.recorded'']),
      (''iag.finance.commercial'',
        [''procurement.invoice.received'', ''procurement.grn.posted'', ''contracts.payment.authorized'']),
      (''iag.finance.vendor-sync'', [''party.vendor.upserted'']),
      (''iag.finance.erp'',
        [''erp.employee.created'', ''erp.employee.updated'', ''erp.employee.terminated'', ''erp.leave.approved'',
         ''erp.leave.rejected'', ''erp.leave.cancelled'', ''erp.leave.balance_changed'',
         ''erp.employee.rate_changed'', ''erp.payroll.run_posted'']),
      (''iag.finance.warehouse'', [''warehouse.asset.disposed'', ''warehouse.movement.posted''])]"

definition HandledTypes :: "string list" where
  "HandledTypes = concat (map snd Subscriptions)"

section \<open>Payables that announce themselves\<close>

text \<open>The event that books a payable, with the optional names it carries.\<close>

definition invoicePostedOutbox ::
  "handler \<Rightarrow> string \<Rightarrow> string \<Rightarrow> string \<Rightarrow> string \<Rightarrow> string \<Rightarrow> string \<Rightarrow> string \<Rightarrow> string \<Rightarrow> bool \<Rightarrow> outbox_event option" where
  "invoicePostedOutbox hdl ref vendor amount currency po vat taxCode quantity reverseCharge =
     (case hd_topic hdl of None \<Rightarrow> None
      | Some topic \<Rightarrow> Some
         \<lparr>oe_topic = topic, oe_key = ref, oe_event_id = ''invoice.posted:'' @ ref, oe_event_type = ''invoice.posted'',
          oe_payload =
            [(''amount'', JString amount), (''currency'', JString currency), (''vendorRef'', JString vendor),
             (''documentRef'', JString ref)]
            @ (if po \<noteq> '''' then [(''poRef'', JString po)] else [])
            @ (if vat \<noteq> '''' then [(''vatAmount'', JString vat)] else [])
            @ (if quantity \<noteq> '''' then [(''quantity'', JString quantity)] else [])
            @ (if reverseCharge
               then (''reverseCharge'', JBool True) # (if taxCode \<noteq> '''' then [(''taxCode'', JString taxCode)] else [])
               else [])\<rparr>)"

text \<open>\<open>ledger.CreateAPItem\<close>; a payable that exists already is a redelivery.\<close>

definition CreateAPItem ::
  "env \<Rightarrow> string \<Rightarrow> string \<Rightarrow> string \<Rightarrow> string \<Rightarrow> string \<Rightarrow> date option \<Rightarrow> outbox_event option \<Rightarrow> open_item action" where
  "CreateAPItem env vendor ref desc amount currency due ob =
     bind (numeric_text env (trim_space amount)) (\<lambda>x.
     CreateAPOpenItem env vendor ref desc x currency due None None ob)"

definition create_payable ::
  "env \<Rightarrow> string \<Rightarrow> string \<Rightarrow> string \<Rightarrow> string \<Rightarrow> string \<Rightarrow> date option \<Rightarrow> outbox_event option \<Rightarrow> unit handling" where
  "create_payable env vendor ref desc amount currency due ob =
     catch (bind (attempt (CreateAPItem env vendor ref desc amount currency due ob)) (\<lambda>_. ok ()))
       (\<lambda>e. case e of
          Transient x \<Rightarrow> if is_unique_violation x then ok () else fail e
        | Permanent x \<Rightarrow> fail e)"

section \<open>The finance stream\<close>

record sale_completed =
  so_amount :: string
  so_currency :: string
  so_customer :: string
  so_document :: string
  so_vat :: string

definition decode_sale :: "json_object \<Rightarrow> sale_completed option" where
  "decode_sale obj =
     Option.bind (text_field ''amount'' obj) (\<lambda>a. Option.bind (text_field ''currency'' obj) (\<lambda>c.
     Option.bind (text_field ''customerRef'' obj) (\<lambda>cu. Option.bind (text_field ''documentRef'' obj) (\<lambda>d.
     Option.bind (text_field ''vatAmount'' obj) (\<lambda>v.
     Some \<lparr>so_amount = a, so_currency = c, so_customer = cu, so_document = d, so_vat = v\<rparr>)))))"

record invoice_posted =
  ip_amount :: string
  ip_currency :: string
  ip_vendor :: string
  ip_document :: string
  ip_po :: string
  ip_vat :: string
  ip_reverse :: bool
  ip_tax_code :: string
  ip_quantity :: string
  ip_inventory :: string

definition decode_invoice :: "json_object \<Rightarrow> invoice_posted option" where
  "decode_invoice obj =
     Option.bind (text_field ''amount'' obj) (\<lambda>a. Option.bind (text_field ''currency'' obj) (\<lambda>c.
     Option.bind (text_field ''vendorRef'' obj) (\<lambda>v. Option.bind (text_field ''documentRef'' obj) (\<lambda>d.
     Option.bind (text_field ''poRef'' obj) (\<lambda>p. Option.bind (text_field ''vatAmount'' obj) (\<lambda>x.
     Option.bind (decode_field as_bool False ''reverseCharge'' obj) (\<lambda>r.
     Option.bind (text_field ''taxCode'' obj) (\<lambda>t. Option.bind (text_field ''quantity'' obj) (\<lambda>q.
     Option.bind (text_field ''inventoryValue'' obj) (\<lambda>i.
     Some \<lparr>ip_amount = a, ip_currency = c, ip_vendor = v, ip_document = d, ip_po = p, ip_vat = x,
           ip_reverse = r, ip_tax_code = t, ip_quantity = q, ip_inventory = i\<rparr>))))))))))"

definition linkOpenItem :: "string \<Rightarrow> string \<Rightarrow> journal option \<Rightarrow> string \<Rightarrow> unit handling" where
  "linkOpenItem eventType ref entry eventID =
     (case entry of None \<Rightarrow> ok ()
      | Some j \<Rightarrow>
          let i = e_id (j_entry j) in
          if ref = '''' then ok ()
          else if eventType = ''sale.completed'' then catch (attempt (LinkARToJournal ref i eventID)) (\<lambda>_. ok ())
          else if eventType = ''invoice.posted'' \<or> eventType = ''fleet.fuel.recorded''
          then catch (attempt (LinkAPToJournal ref i eventID)) (\<lambda>_. ok ())
          else ok ())"

definition described :: "string \<Rightarrow> string \<Rightarrow> string" where
  "described text ref = (if ref \<noteq> '''' then text @ '' '' @ em_dash @ '' '' @ ref else text)"

definition sale_lines :: "rat \<Rightarrow> rat \<Rightarrow> line_input list" where
  "sale_lines amount vat =
     dr ''1100'' amount ''AR from sale'' #
     (if vat > 0 \<and> vat < amount
      then [cr ''4000'' (amount - vat) ''Revenue'', cr ''2100'' vat ''Output VAT'']
      else [cr ''4000'' amount ''Revenue''])"

definition handleSaleCompleted :: "env \<Rightarrow> envelope \<Rightarrow> unit handling" where
  "handleSaleCompleted env ev =
     bind (decoded (decode_sale (data_of ev))) (\<lambda>d.
     bind (amount_or_broken (parseAmountStrict env (so_amount d))) (\<lambda>amount.
     case amount of None \<Rightarrow> ok ()
     | Some x \<Rightarrow>
         bind (attempt (BookFromEvent env (eventRef ev) (described ''Sale completed'' (so_document d)) (so_currency d)
                 (sale_lines x (parseAmount env (so_vat d))))) (\<lambda>entry.
         linkOpenItem (ev_type ev) (so_document d) entry (ev_id ev))))"

definition handleInvoicePosted :: "env \<Rightarrow> envelope \<Rightarrow> unit handling" where
  "handleInvoicePosted env ev =
     bind (decoded (decode_invoice (data_of ev))) (\<lambda>d.
     bind (amount_or_broken (parseAmountStrict env (ip_amount d))) (\<lambda>amount.
     case amount of None \<Rightarrow> ok ()
     | Some x \<Rightarrow>
         bind (attempt (BookAPInvoice env (eventRef ev) (described ''Invoice posted'' (ip_document d)) (ip_currency d)
                 (trim_space (ip_po d)) x (parseAmount env (ip_vat d))
                 (parseAmount env (trim_space (ip_inventory d))) (ip_reverse d) (trim_space (ip_tax_code d))
                 (parseAmount env (trim_space (ip_quantity d))))) (\<lambda>entry.
         linkOpenItem (ev_type ev) (ip_document d) entry (ev_id ev))))"

record fleet_fuel =
  ff_amount :: string
  ff_currency :: string
  ff_vendor :: string
  ff_document :: string
  ff_vehicle :: string
  ff_litres :: string

definition decode_fuel :: "json_object \<Rightarrow> fleet_fuel option" where
  "decode_fuel obj =
     Option.bind (text_field ''amount'' obj) (\<lambda>a. Option.bind (text_field ''currency'' obj) (\<lambda>c.
     Option.bind (text_field ''vendorRef'' obj) (\<lambda>v. Option.bind (text_field ''documentRef'' obj) (\<lambda>d.
     Option.bind (text_field ''vehicleId'' obj) (\<lambda>ve. Option.bind (text_field ''litres'' obj) (\<lambda>l.
     Some \<lparr>ff_amount = a, ff_currency = c, ff_vendor = v, ff_document = d, ff_vehicle = ve, ff_litres = l\<rparr>))))))"

definition handleFleetFuelRecorded :: "env \<Rightarrow> handler \<Rightarrow> envelope \<Rightarrow> unit handling" where
  "handleFleetFuelRecorded env hdl ev =
     bind (decoded (decode_fuel (data_of ev))) (\<lambda>d.
     bind (amount_or_broken (parseAmountStrict env (ff_amount d))) (\<lambda>amount.
     if amount = None then ok ()
     else if trim_space (ff_document d) = '''' then broken ''fleet.fuel.recorded is missing documentRef''
     else
       let desc = described ''Fleet fuel purchase'' (ff_document d) @
                  (if ff_vehicle d \<noteq> '''' then '' ('' @ ff_vehicle d @ '')'' else '''');
           currency = or_ugx (ff_currency d); vendor = trim_space (ff_vendor d)
       in create_payable env vendor (ff_document d) desc (ff_amount d) currency None
            (invoicePostedOutbox hdl (ff_document d) vendor (ff_amount d) currency '''' '''' '''' '''' False)))"

record payments_settled =
  pt_instruction :: string
  pt_reference :: string
  pt_party :: string
  pt_origin :: string
  pt_category :: string
  pt_minor :: int
  pt_currency :: string
  pt_provider :: string

definition decode_settled :: "json_object \<Rightarrow> payments_settled option" where
  "decode_settled obj =
     Option.bind (text_field ''instructionId'' obj) (\<lambda>i. Option.bind (text_field ''referenceNumber'' obj) (\<lambda>r.
     Option.bind (text_field ''partyBusinessId'' obj) (\<lambda>p. Option.bind (text_field ''originService'' obj) (\<lambda>g.
     Option.bind (text_field ''category'' obj) (\<lambda>c. Option.bind (int_field ''amountMinor'' obj) (\<lambda>a.
     Option.bind (text_field ''currency'' obj) (\<lambda>cu. Option.bind (text_field ''providerRef'' obj) (\<lambda>v.
     Some \<lparr>pt_instruction = i, pt_reference = r, pt_party = p, pt_origin = g, pt_category = c, pt_minor = a,
           pt_currency = cu, pt_provider = v\<rparr>))))))))"

definition disbursementDebit :: "string \<Rightarrow> bool \<Rightarrow> string \<times> string" where
  "disbursementDebit category via_clearing =
     (if category = ''coffee_payout'' \<and> \<not> via_clearing then (''1400'', ''Coffee cherry purchase (inventory)'')
      else (PaymentsClearingAccount, ''Payments clearing '' @ em_dash @ '' '' @
             (if category = '''' then ''unclassified'' else category)))"

definition handlePaymentsSettled :: "env \<Rightarrow> handler \<Rightarrow> envelope \<Rightarrow> unit handling" where
  "handlePaymentsSettled env hdl ev =
     bind (decoded (decode_settled (data_of ev))) (\<lambda>d.
     if pt_minor d \<le> 0 then ok ()
     else case disbursementDebit (pt_category d) (hd_clearing hdl) of (code, memo) \<Rightarrow>
       bind (attempt (BookPaymentSettlement env (eventRef ev)
         \<lparr>si_instruction = pt_instruction d, si_reference = pt_reference d, si_origin = pt_origin d,
          si_category = pt_category d, si_party = pt_party d, si_provider = pt_provider d,
          si_amount = of_int (pt_minor d), si_currency = (if pt_currency d = '''' then ''UGX'' else pt_currency d),
          si_debit_account = code, si_debit_memo = memo,
          si_desc = described ''Payment settled''
            (if pt_reference d \<noteq> '''' then pt_reference d else pt_instruction d)\<rparr>)) (\<lambda>_. ok ()))"

definition finance_handle :: "env \<Rightarrow> handler \<Rightarrow> envelope \<Rightarrow> unit handling" where
  "finance_handle env hdl ev =
     (if ev_type ev = ''sale.completed'' then handleSaleCompleted env ev
      else if ev_type ev = ''invoice.posted'' then handleInvoicePosted env ev
      else if ev_type ev = ''fleet.fuel.recorded'' then handleFleetFuelRecorded env hdl ev
      else if ev_type ev = ''payments.settled'' then handlePaymentsSettled env hdl ev
      else ok ())"

section \<open>Procurement and contracts\<close>

definition handleGRNPosted :: "env \<Rightarrow> envelope \<Rightarrow> unit handling" where
  "handleGRNPosted env ev =
     (case ev_data ev of None \<Rightarrow> ok ()
      | Some obj \<Rightarrow>
          let po = trim_space (str_at obj ''po_id''); amountStr = str_at obj ''amount'' in
          if po = '''' \<or> trim_space amountStr = '''' then ok ()
          else bind (amount_or_broken (parseAmountStrict env amountStr)) (\<lambda>value.
          case value of None \<Rightarrow> ok ()
          | Some x \<Rightarrow>
              bind (attempt (BookGRNAccrual env (eventRef ev) (or_ugx (str_at obj ''currency'')) po x
                      (parseAmount env (trim_space (str_at obj ''inventory_value'')))
                      (parseAmount env (trim_space (str_at obj ''quantity''))))) (\<lambda>_. ok ())))"

definition handlePaymentAuthorized :: "env \<Rightarrow> envelope \<Rightarrow> unit handling" where
  "handlePaymentAuthorized env ev =
     (case ev_data ev of None \<Rightarrow> ok ()
      | Some obj \<Rightarrow>
          let paymentID = trim_space (str_at obj ''paymentId''); payable = float_at obj ''payable'';
              contractor = str_at obj ''contractor'' in
          if paymentID = '''' \<or> payable \<le> 0 then ok ()
          else create_payable env (if trim_space contractor = '''' then ''contract-management'' else contractor)
                 (''CT-PAY-'' @ paymentID)
                 (trim_space (''Contract milestone payment '' @ str_at obj ''contractNumber''))
                 (string_fixed env payable) (or_ugx (str_at obj ''currency'')) None None)"

definition due_of :: "json_object \<Rightarrow> date option handling" where
  "due_of obj =
     (let raw = trim_space (str_at obj ''dueDate'') in
      if raw = '''' then ok None
      else case parse_date raw of None \<Rightarrow> broken ''parsing time'' | Some d \<Rightarrow> ok (Some d))"

definition handleInvoiceReceived :: "env \<Rightarrow> handler \<Rightarrow> envelope \<Rightarrow> unit handling" where
  "handleInvoiceReceived env hdl ev =
     (case ev_data ev of None \<Rightarrow> ok ()
      | Some obj \<Rightarrow>
          let vendor = trim_space (str_at obj ''vendorRef''); ref = trim_space (str_at obj ''documentRef'');
              amount = trim_space (str_at obj ''amount'');
              currency = (if str_at obj ''currency'' = '''' then ''UGX'' else str_at obj ''currency'') in
          if ref = '''' \<or> amount = '''' then broken ''procurement.invoice.received missing documentRef or amount''
          else bind (due_of obj) (\<lambda>due.
               create_payable env vendor ref (str_at obj ''description'') amount currency due
                 (invoicePostedOutbox hdl ref vendor amount currency (trim_space (str_at obj ''poRef''))
                   (trim_space (str_at obj ''vatAmount'')) (trim_space (str_at obj ''taxCode''))
                   (trim_space (str_at obj ''quantity'')) (bool_at obj ''reverseCharge''))))"

definition procurement_handle :: "env \<Rightarrow> handler \<Rightarrow> envelope \<Rightarrow> unit handling" where
  "procurement_handle env hdl ev =
     (if ev_type ev = ''procurement.invoice.received'' then handleInvoiceReceived env hdl ev
      else if ev_type ev = ''procurement.grn.posted'' then handleGRNPosted env ev
      else if ev_type ev = ''contracts.payment.authorized'' then handlePaymentAuthorized env ev
      else ok ())"

section \<open>The warehouse\<close>

definition handleMovementPosted :: "env \<Rightarrow> envelope \<Rightarrow> unit handling" where
  "handleMovementPosted env ev =
     (case ev_data ev of None \<Rightarrow> ok ()
      | Some obj \<Rightarrow>
          bind (attempt (BookInventoryMovement env (eventRef ev) (trim_space (str_at obj ''movement_type''))
                  (trim_space (str_at obj ''source_doc_type'')) (trim_space (str_at obj ''ref''))
                  (or_ugx (str_at obj ''currency'')) (disposalAmount env (map_of obj ''total_cost'')))) (\<lambda>_. ok ()))"

definition handleAssetDisposed :: "env \<Rightarrow> envelope \<Rightarrow> unit handling" where
  "handleAssetDisposed env ev =
     (case ev_data ev of None \<Rightarrow> ok ()
      | Some obj \<Rightarrow>
          bind (attempt (BookAssetDisposal env (eventRef ev) (or_ugx (str_at obj ''currency''))
                  (str_at obj ''asset_tag'') (str_at obj ''method'') (disposalAmount env (map_of obj ''proceeds''))
                  (disposalAmount env (map_of obj ''book_value'')))) (\<lambda>_. ok ()))"

definition warehouse_handle :: "env \<Rightarrow> envelope \<Rightarrow> unit handling" where
  "warehouse_handle env ev =
     (if ev_type ev = ''warehouse.asset.disposed'' then handleAssetDisposed env ev
      else if ev_type ev = ''warehouse.movement.posted'' then handleMovementPosted env ev
      else ok ())"

section \<open>The supply chain\<close>

definition coffeePayableRef :: "string \<Rightarrow> string" where
  "coffeePayableRef businessID = ''CHERRY-'' @ businessID"

definition errMissingFarmerPaymentFields :: string where
  "errMissingFarmerPaymentFields = ''scm.farmer_payment.recorded missing business_id or party_business_id''"

text \<open>The whole gross capitalises to stock.\<close>

definition recordFarmerPayable :: "env \<Rightarrow> handler \<Rightarrow> envelope \<Rightarrow> unit handling" where
  "recordFarmerPayable env hdl ev =
     (case ev_data ev of None \<Rightarrow> ok ()
      | Some obj \<Rightarrow>
          let businessID = trim_space (str_at obj ''business_id''); gross = scmAmount env (map_of obj ''gross_ugx'');
              vendor = trim_space (str_at obj ''party_business_id'') in
          if \<not> hd_ledger hdl then ok ()
          else if businessID = '''' then broken errMissingFarmerPaymentFields
          else if \<not> gross > 0 then ok ()
          else if vendor = '''' then broken errMissingFarmerPaymentFields
          else
            let currency = or_ugx (str_at obj ''currency''); ref = coffeePayableRef businessID;
                batch = trim_space (str_at obj ''batch_business_id'');
                desc = ''Coffee purchase '' @ em_dash @ '' '' @ businessID @
                       (if batch \<noteq> '''' then '' ('' @ batch @ '')'' else '''');
                amount = string_fixed env gross in
            create_payable env vendor ref desc amount currency None
              (map_option (\<lambda>out. out\<lparr>oe_payload := oe_payload out @ [(''inventoryValue'', JString amount)]\<rparr>)
                (invoicePostedOutbox hdl ref vendor amount currency '''' '''' '''' '''' False)))"

definition uuid_or_broken :: "handler \<Rightarrow> string \<Rightarrow> id handling" where
  "uuid_or_broken hdl raw = (case hd_uuid hdl raw of None \<Rightarrow> broken ''invalid UUID'' | Some i \<Rightarrow> ok i)"

definition syncAPParty :: "handler \<Rightarrow> json_object option \<Rightarrow> unit handling" where
  "syncAPParty hdl data =
     (case data of None \<Rightarrow> ok ()
      | Some obj \<Rightarrow>
          let kind = trim_space (str_at obj ''supplier_type''); raw = trim_space (str_at obj ''party_id'');
              businessID = (if trim_space (str_at obj ''party_business_id'') = '''' then raw
                            else trim_space (str_at obj ''party_business_id''));
              name = str_at obj ''name'' in
          if to_lower kind \<notin> {''vendor'', ''cooperative'', ''farmer''} then ok ()
          else if raw = '''' then ok ()
          else bind (uuid_or_broken hdl raw) (\<lambda>partyID.
               bind (attempt (SyncAPPartyFromSCM partyID businessID name)) (\<lambda>_.
               if equal_fold kind ''vendor''
               then attempt (UpsertVendorByParty (hd_show_uuid hdl) default_entity partyID businessID name
                               '''' '''' '''' ''Active'')
               else ok ())))"

definition syncPortalLink :: "handler \<Rightarrow> json_object option \<Rightarrow> unit handling" where
  "syncPortalLink hdl data =
     (case data of None \<Rightarrow> ok ()
      | Some obj \<Rightarrow>
          let user = trim_space (str_at obj ''platform_user_id''); party = trim_space (str_at obj ''party_id'') in
          if user = '''' \<or> party = '''' then ok ()
          else bind (uuid_or_broken hdl user) (\<lambda>u.
               bind (uuid_or_broken hdl party) (\<lambda>p.
               attempt (UpsertPortalPartyLink u p (str_at obj ''party_business_id'') (str_at obj ''supplier_type'')))))"

definition supply_chain_handle :: "env \<Rightarrow> handler \<Rightarrow> envelope \<Rightarrow> unit handling" where
  "supply_chain_handle env hdl ev =
     (if ev_type ev = ''scm.party.created'' \<or> ev_type ev = ''scm.party.updated'' then syncAPParty hdl (ev_data ev)
      else if ev_type ev = ''scm.party.portal_linked'' then syncPortalLink hdl (ev_data ev)
      else if ev_type ev = ''scm.farmer_payment.recorded'' then recordFarmerPayable env hdl ev
      else ok ())"

definition vendor_handle :: "handler \<Rightarrow> envelope \<Rightarrow> unit handling" where
  "vendor_handle hdl ev =
     (if ev_type ev \<noteq> ''party.vendor.upserted'' then ok ()
      else if equal_fold (trim_space (ev_source ev)) ''iag.finance'' then ok ()
      else case ev_data ev of None \<Rightarrow> ok ()
      | Some obj \<Rightarrow>
          let raw = trim_space (str_at obj ''party_id'') in
          if raw = '''' then ok ()
          else bind (uuid_or_broken hdl raw) (\<lambda>partyID.
               attempt (UpsertVendorByParty (hd_show_uuid hdl) default_entity partyID (str_at obj ''code'')
                 (str_at obj ''name'') (str_at obj ''email'') (str_at obj ''phone'') (str_at obj ''currency'')
                 (str_at obj ''status''))))"

section \<open>Personnel\<close>

record payroll_event =
  pe_ref :: string
  pe_period :: string
  pe_currency :: string
  pe_count :: int
  pe_gross :: rat
  pe_paye :: rat
  pe_nssf_employee :: rat
  pe_nssf_employer :: rat
  pe_other :: rat
  pe_net :: rat

definition decode_payroll :: "json_object \<Rightarrow> payroll_event option" where
  "decode_payroll obj =
     Option.bind (text_field ''run_ref'' obj) (\<lambda>r. Option.bind (text_field ''period'' obj) (\<lambda>p.
     Option.bind (text_field ''currency'' obj) (\<lambda>c. Option.bind (int_field ''employee_count'' obj) (\<lambda>n.
     Option.bind (float_field ''gross'' obj) (\<lambda>g. Option.bind (float_field ''paye'' obj) (\<lambda>t.
     Option.bind (float_field ''nssf_employee'' obj) (\<lambda>e. Option.bind (float_field ''nssf_employer'' obj) (\<lambda>y.
     Option.bind (float_field ''other_deductions'' obj) (\<lambda>x. Option.bind (float_field ''net'' obj) (\<lambda>z.
     Some \<lparr>pe_ref = r, pe_period = p, pe_currency = c, pe_count = n, pe_gross = g, pe_paye = t,
           pe_nssf_employee = e, pe_nssf_employer = y, pe_other = x, pe_net = z\<rparr>))))))))))"

fun never_succeeds :: "err \<Rightarrow> bool" where
  "never_succeeds ErrPayrollUnbalanced = True"
| "never_succeeds ErrPeriodClosed = True"
| "never_succeeds (ErrAccountNotFound _) = True"
| "never_succeeds _ = False"

definition handlePayrollRun :: "env \<Rightarrow> handler \<Rightarrow> envelope \<Rightarrow> unit handling" where
  "handlePayrollRun env hdl ev =
     (if \<not> hd_ledger hdl then ok ()
      else bind (decoded (decode_payroll (data_of ev))) (\<lambda>d.
      let ref = trim_space (pe_ref d); period = trim_space (pe_period d) in
      if ref = '''' \<or> period = '''' then broken ''erp payroll event missing run_ref or period''
      else catch (bind (attempt (PostPayrollRun env
               \<lparr>pi_ref = ref, pi_period = period, pi_gross = pe_gross d, pi_paye = pe_paye d,
                pi_nssf = pe_nssf_employee d, pi_other = pe_other d, pi_net = pe_net d,
                pi_currency = trim_space (pe_currency d), pi_employer = pe_nssf_employer d\<rparr>)) (\<lambda>_. ok ()))
             (\<lambda>e. case e of Transient x \<Rightarrow> fail (if never_succeeds x then Permanent x else e)
                          | Permanent x \<Rightarrow> fail e)))"

text \<open>The trimmed text names of an event, unless one of them is not a text.\<close>

definition trimmed_field :: "json_object \<Rightarrow> string \<Rightarrow> string" where
  "trimmed_field obj k = trim_space (case text_field k obj of None \<Rightarrow> '''' | Some x \<Rightarrow> x)"

definition texts_decode :: "json_object \<Rightarrow> string list \<Rightarrow> bool" where
  "texts_decode obj names \<longleftrightarrow> list_all (\<lambda>k. text_field k obj \<noteq> None) names"

definition handleEmployee :: "env \<Rightarrow> handler \<Rightarrow> envelope \<Rightarrow> unit handling" where
  "handleEmployee env hdl ev =
     (let obj = data_of ev; field = trimmed_field obj;
          status = (if ev_type ev = ''erp.employee.terminated'' then ''terminated'' else field ''status'') in
      if \<not> texts_decode obj [''employee_no'', ''first_name'', ''last_name'', ''status'', ''employment_type'',
            ''job_title'', ''department_code'', ''operator_ref'', ''user_id''] then broken ''json: cannot unmarshal''
      else if field ''employee_no'' = '''' then broken ''erp employee event missing employee_no''
      else bind (if field ''user_id'' = '''' then ok None
                 else bind (uuid_or_broken hdl (field ''user_id'')) (\<lambda>u. ok (Some u))) (\<lambda>user.
      attempt (UpsertPayrollEmployeeRef env
        \<lparr>ee_no = field ''employee_no'', ee_user = user, ee_first = field ''first_name'',
         ee_last = field ''last_name'', ee_department = Some (field ''department_code''),
         ee_title = field ''job_title'', ee_type = field ''employment_type'',
         ee_status = (if status = '''' then ''active'' else status),
         ee_operator = Some (field ''operator_ref''), ee_event = ev_id ev, ee_event_type = ev_type ev,
         ee_at = parseEnvTime (ev_time ev)\<rparr>)))"

definition accrual_status :: "string \<Rightarrow> string \<Rightarrow> string" where
  "accrual_status eventType status =
     (if status \<noteq> '''' then status
      else if eventType = ''erp.leave.approved'' then ''approved''
      else if eventType = ''erp.leave.rejected'' then ''rejected''
      else if eventType = ''erp.leave.cancelled'' then ''cancelled'' else '''')"

definition handleLeave :: "env \<Rightarrow> handler \<Rightarrow> envelope \<Rightarrow> unit handling" where
  "handleLeave env hdl ev =
     (let obj = data_of ev; field = trimmed_field obj in
      if \<not> texts_decode obj [''leave_request_id'', ''employee_no'', ''leave_type_code'', ''starts_on'', ''ends_on'', ''status'']
      then broken ''json: cannot unmarshal''
      else bind (decoded (float_field ''days'' obj)) (\<lambda>days.
      if field ''leave_request_id'' = '''' \<or> field ''employee_no'' = ''''
      then broken ''erp leave event missing leave_request_id or employee_no''
      else case parse_date (field ''starts_on'') of
        None \<Rightarrow> broken ''erp leave event missing valid starts_on/ends_on''
      | Some first \<Rightarrow> (case parse_date (field ''ends_on'') of
          None \<Rightarrow> broken ''erp leave event missing valid starts_on/ends_on''
        | Some last_day \<Rightarrow>
            attempt (RecordPayrollLeaveAccrual env
              \<lparr>la_request = field ''leave_request_id'', la_employee = field ''employee_no'',
               la_type = field ''leave_type_code'', la_starts = first, la_ends = last_day, la_days = 0,
               la_status = accrual_status (ev_type ev) (field ''status''), la_event = ev_id ev,
               la_event_type = ev_type ev\<rparr> (hd_fixed2 hdl days)))))"

definition handleLeaveBalance :: "env \<Rightarrow> handler \<Rightarrow> envelope \<Rightarrow> unit handling" where
  "handleLeaveBalance env hdl ev =
     (let obj = data_of ev in
      bind (decoded (text_field ''employee_no'' obj)) (\<lambda>no.
      bind (decoded (text_field ''leave_type_code'' obj)) (\<lambda>ty.
      bind (decoded (int_field ''accrual_year'' obj)) (\<lambda>year.
      bind (decoded (float_field ''balance_days'' obj)) (\<lambda>days.
      if trim_space no = '''' \<or> year \<le> 0
      then broken ''erp leave balance event missing employee_no or accrual_year''
      else attempt (UpsertLeaveBalance env (trim_space no) (trim_space ty) year (hd_fixed2 hdl days) (ev_id ev)))))))"

definition handleEmployeeRate :: "env \<Rightarrow> handler \<Rightarrow> envelope \<Rightarrow> unit handling" where
  "handleEmployeeRate env hdl ev =
     (let obj = data_of ev in
      bind (decoded (text_field ''employee_no'' obj)) (\<lambda>no.
      bind (decoded (float_field ''daily_rate'' obj)) (\<lambda>rate.
      bind (decoded (text_field ''currency'' obj)) (\<lambda>currency.
      bind (decoded (text_field ''effective_from'' obj)) (\<lambda>effective.
      if trim_space no = '''' \<or> rate \<le> 0
      then broken ''erp rate event missing employee_no or a positive daily_rate''
      else case parse_date (trim_space effective) of
        None \<Rightarrow> broken ''erp rate event missing a valid effective_from''
      | Some d \<Rightarrow> attempt (UpsertEmployeeRate env (trim_space no) (hd_fixed2 hdl rate)
                    (if trim_space currency = '''' then ''UGX'' else trim_space currency) d))))))"

definition erp_handle :: "env \<Rightarrow> handler \<Rightarrow> envelope \<Rightarrow> unit handling" where
  "erp_handle env hdl ev =
     (let t = ev_type ev in
      if t \<in> {''erp.employee.created'', ''erp.employee.updated'', ''erp.employee.terminated''}
      then handleEmployee env hdl ev
      else if t = ''erp.leave.balance_changed'' then handleLeaveBalance env hdl ev
      else if t = ''erp.employee.rate_changed'' then handleEmployeeRate env hdl ev
      else if t \<in> {''erp.leave.approved'', ''erp.leave.rejected'', ''erp.leave.cancelled''} then handleLeave env hdl ev
      else if t = ''erp.payroll.run_posted'' then handlePayrollRun env hdl ev
      else ok ())"

section \<open>The consumers keep the books\<close>

text \<open>An event delivered to one of the handlers.\<close>

datatype stream = Finance | Procurement | Warehouse | SupplyChain | VendorSync | Personnel

definition consume :: "env \<Rightarrow> handler \<Rightarrow> stream \<Rightarrow> envelope \<Rightarrow> unit handling" where
  "consume env hdl st ev = (case st of
     Finance \<Rightarrow> finance_handle env hdl ev | Procurement \<Rightarrow> procurement_handle env hdl ev
   | Warehouse \<Rightarrow> warehouse_handle env ev | SupplyChain \<Rightarrow> supply_chain_handle env hdl ev
   | VendorSync \<Rightarrow> vendor_handle hdl ev | Personnel \<Rightarrow> erp_handle env hdl ev)"

lemma snd_attempt [simp]: "snd (attempt m s) = snd (m s)"
  by (simp add: attempt_def split: prod.split sum.split)

lemma keeps_attempt [keeps_intros]: "keeps I m \<Longrightarrow> keeps I (attempt m)"
  by (simp add: keeps_def)

lemma keeps_answers [keeps_intros]:
  "keeps I (broken msg)" "keeps I (decoded x)" "keeps I (amount_or_broken y)" "keeps I (uuid_or_broken hdl raw)"
  "keeps I (due_of obj)"
  unfolding broken_def decoded_def amount_or_broken_def uuid_or_broken_def due_of_def Let_def by (intro keeps_intros)+

lemma keeps_verdict [keeps_intros]:
  "(\<And>x. keeps I (f x)) \<Longrightarrow> (\<And>x. keeps I (g x)) \<Longrightarrow> keeps I (case e of Permanent x \<Rightarrow> f x | Transient x \<Rightarrow> g x)"
  by (cases e) simp_all

lemmas keeps_books_mirrors [keeps_intros] = lateral_personnel [THEN keeps_books_lateral]

lemma keeps_books_create_payable [keeps_intros]:
  assumes "rounding_laws (env_round env)"
  shows "keeps (books env h) (create_payable env vendor ref desc x c due ob)"
  unfolding create_payable_def CreateAPItem_def CreateAPOpenItem_def using assms
  by (intro keeps_intros keeps_books_lateral lateral_intros)

lemma keeps_books_finance: "rounding_laws (env_round env) \<Longrightarrow> keeps (books env h) (finance_handle env hdl ev)"
  unfolding finance_handle_def handleSaleCompleted_def handleInvoicePosted_def handleFleetFuelRecorded_def
    handlePaymentsSettled_def linkOpenItem_def Let_def
  by (intro keeps_intros)

lemma keeps_books_procurement_handle: "rounding_laws (env_round env) \<Longrightarrow> keeps (books env h) (procurement_handle env hdl ev)"
  unfolding procurement_handle_def handleInvoiceReceived_def handleGRNPosted_def handlePaymentAuthorized_def Let_def
  by (intro keeps_intros)

lemma keeps_books_warehouse: "keeps (books env h) (warehouse_handle env ev)"
  unfolding warehouse_handle_def handleMovementPosted_def handleAssetDisposed_def Let_def
  by (intro keeps_intros)

lemma keeps_books_supply_chain: "rounding_laws (env_round env) \<Longrightarrow> keeps (books env h) (supply_chain_handle env hdl ev)"
  unfolding supply_chain_handle_def syncAPParty_def syncPortalLink_def recordFarmerPayable_def Let_def
  by (intro keeps_intros)

lemma keeps_books_vendor: "keeps (books env h) (vendor_handle hdl ev)"
  unfolding vendor_handle_def Let_def by (intro keeps_intros)

lemma keeps_books_erp: "keeps (books env h) (erp_handle env hdl ev)"
  unfolding erp_handle_def handleEmployee_def handleLeaveBalance_def handleEmployeeRate_def handleLeave_def
    handlePayrollRun_def Let_def
  by (intro keeps_intros)

lemma keeps_books_consume [keeps_intros]:
  "rounding_laws (env_round env) \<Longrightarrow> keeps (books env h) (consume env hdl st ev)"
  unfolding consume_def
  by (cases st) (simp_all add: keeps_books_finance keeps_books_procurement_handle keeps_books_warehouse
      keeps_books_supply_chain keeps_books_vendor keeps_books_erp)

end
