(* ===== verification/Billing.thy ===== *)
theory Billing
  imports Consumers
begin

text \<open>
  Sales invoices (\<open>repository/billing_invoices.go\<close>, \<open>ledger/invoicing.go\<close>), the schedules that raise
  them (\<open>repository/recurring.go\<close>, \<open>worker/recurring.go\<close>), billable time
  (\<open>repository/billable_time.go\<close>) and payment intents (\<open>payment_intents.go\<close> of both packages).
\<close>

section \<open>Drafting\<close>

record invoice_line_input =
  nl_desc :: string
  nl_quantity :: rat
  nl_price :: rat
  nl_tax_code :: string

record invoice_input =
  ni_customer :: string
  ni_currency :: string
  ni_due :: "date option"
  ni_notes :: string
  ni_method :: string
  ni_periods :: int
  ni_start :: string
  ni_lines :: "invoice_line_input list"

text \<open>\<open>nextval\<close> is not undone by a rollback.\<close>

definition next_invoice_number :: "string action" where
  "next_invoice_number = (\<lambda>s. let d = docs_of s in
     (Inr (''INV-'' @ show_nat (invoice_seq d)), s\<lparr>docs_of := d\<lparr>invoice_seq := Suc (invoice_seq d)\<rparr>\<rparr>))"

definition tax_on_line :: "env \<Rightarrow> rat \<times> bool \<Rightarrow> rat \<Rightarrow> rat" where
  "tax_on_line env rate lineTotal = (if snd rate then env_round env (lineTotal * fst rate) 2 else 0)"

fun compute_lines :: "env \<Rightarrow> int \<Rightarrow> invoice_line_input list \<Rightarrow> invoice_line list action" where
  "compute_lines env order [] = ok []"
| "compute_lines env order (l # ls) =
     (let lineTotal = env_round env (nl_quantity l * nl_price l) 2 in
      bind (if nl_tax_code l \<noteq> '''' then GetTaxRate (nl_tax_code l) else ok (0, False)) (\<lambda>rate.
      bind (compute_lines env (order + 1) ls) (\<lambda>rest.
      ok (\<lparr>il_desc = nl_desc l, il_quantity = env_round env (nl_quantity l) 4,
           il_price = env_round env (nl_price l) 2, il_tax_code = optional_string (nl_tax_code l),
           il_total = lineTotal, il_tax = tax_on_line env rate lineTotal, il_order = order\<rparr> # rest))))"

definition insert_invoice :: "invoice \<Rightarrow> invoice action" where
  "insert_invoice v0 = (\<lambda>s.
     let d = docs_of s; v = v0\<lparr>in_id := next_id s\<rparr> in
     if (in_entity v, in_number v) \<in> (\<lambda>w. (in_entity w, in_number w)) ` set (invoices d)
     then (Inl (UniqueViolation ''invoices_entity_id_number_key''), s)
     else (Inr v, s\<lparr>docs_of := d\<lparr>invoices := invoices d @ [v]\<rparr>, next_id := Suc (next_id s)\<rparr>))"

definition draft_invoice :: "env \<Rightarrow> invoice_input \<Rightarrow> string \<Rightarrow> invoice_line list \<Rightarrow> invoice" where
  "draft_invoice env inp number ls =
     (let subtotal = sum_list (map il_total ls); taxTotal = sum_list (map il_tax ls) in
      \<lparr>in_id = 0, in_entity = env_entity env, in_number = number, in_customer = ni_customer inp,
       in_currency = (if ni_currency inp = '''' then env_base env else ni_currency inp), in_issue = None,
       in_due = ni_due inp, in_status = InvDraft, in_subtotal = subtotal, in_tax = taxTotal,
       in_total = subtotal + taxTotal, in_notes = ni_notes inp, in_document = None,
       in_method = ni_method inp, in_periods = ni_periods inp, in_start = ni_start inp, in_lines = ls\<rparr>)"

definition GetInvoice :: "id \<Rightarrow> invoice option action" where
  "GetInvoice i = gets (\<lambda>s. row_by in_id i (invoices (docs_of s)))"

definition CreateInvoice :: "env \<Rightarrow> invoice_input \<Rightarrow> invoice option action" where
  "CreateInvoice env inp =
     bind next_invoice_number (\<lambda>number.
     bind (tx (bind (compute_lines env 0 (ni_lines inp)) (\<lambda>ls.
               insert_invoice (draft_invoice env inp number ls)))) (\<lambda>v.
     GetInvoice (in_id v)))"

definition ListInvoices :: "env \<Rightarrow> int \<Rightarrow> int \<Rightarrow> invoice list action" where
  "ListInvoices env limit offset = gets (\<lambda>s.
     page (if limit \<le> 0 \<or> limit > 200 then 50 else limit) offset
       (map (\<lambda>v. v\<lparr>in_lines := []\<rparr>) (filter (\<lambda>v. in_entity v = env_entity env) (rev (invoices (docs_of s))))))"

definition MarkInvoiceIssued :: "id \<Rightarrow> string \<Rightarrow> date \<Rightarrow> unit action" where
  "MarkInvoiceIssued i ref issued = upd_docs (\<lambda>d. d\<lparr>invoices :=
     update_where (\<lambda>v. in_id v = i \<and> in_status v = InvDraft)
       (\<lambda>v. v\<lparr>in_status := InvIssued, in_document := Some ref, in_issue := Some issued\<rparr>) (invoices d)\<rparr>)"

section \<open>Issuing\<close>

definition ErrInvoiceNotDraft :: err where
  "ErrInvoiceNotDraft = ErrText ''only a draft invoice can be issued''"

definition issue_lines :: "invoice \<Rightarrow> line_input list" where
  "issue_lines v =
     [dr ''1100'' (in_total v) (''AR '' @ em_dash @ '' '' @ in_number v), cr ''4000'' (in_subtotal v) ''Revenue'']
     @ (if in_tax v > 0 then [cr ''2100'' (in_tax v) ''Output VAT''] else [])"

definition issue_booking ::
  "env \<Rightarrow> invoice \<Rightarrow> string \<Rightarrow> string \<Rightarrow> resolved_line list \<Rightarrow> rat \<Rightarrow> (journal option \<times> unit option) action" where
  "issue_booking env v eventID actor resolved rate =
     BookPostedEntry env
       (default_params\<lparr>jp_desc := ''Invoice '' @ in_number v, jp_source_service := Some ''iag.finance'',
          jp_source_event := Some eventID, jp_currency := in_currency v, jp_fx_rate := rate, jp_lines := resolved\<rparr>)
       eventID ''finance.invoice.issued'' (env_now env) None
       (Some \<lparr>ai_actor = actorOrSystem actor, ai_type = ''invoice.issued'', ai_message = ''issued '' @ in_number v\<rparr>)"

definition open_receivable :: "env \<Rightarrow> invoice \<Rightarrow> id \<Rightarrow> string \<Rightarrow> unit action" where
  "open_receivable env v entryID eventID =
     catch (bind (CreateAROpenItem env (in_customer v) (in_number v) (''Invoice '' @ in_number v) (in_total v)
                    (in_currency v) (in_due v) (Some entryID) (Some eventID) None) (\<lambda>_. ok ()))
       (\<lambda>e. if is_unique_violation e then ok () else fail e)"

definition defer_invoice :: "env \<Rightarrow> invoice \<Rightarrow> string \<Rightarrow> unit action" where
  "defer_invoice env v actor =
     (if in_method v = ''ratable'' \<and> in_periods v \<ge> 1 \<and> in_subtotal v > 0 then
        catch (bind (CreateSchedule env
                 \<lparr>sc_source = in_number v, sc_total = in_subtotal v, sc_currency = in_currency v,
                  sc_method = ''ratable'',
                  sc_start = (if in_start v = '''' then period_of_time (env_now env) else in_start v),
                  sc_periods = in_periods v, sc_obligations = []\<rparr> (env_now env)
                 (Some \<lparr>ai_actor = actorOrSystem actor, ai_type = ''finance.revenue.defer'',
                        ai_message = ''defer invoice '' @ in_number v\<rparr>)) (\<lambda>_. ok ()))
          (\<lambda>e. if e = ErrScheduleExists then ok () else fail e)
      else ok ())"

definition IssueInvoice :: "env \<Rightarrow> (id \<Rightarrow> string) \<Rightarrow> id \<Rightarrow> string \<Rightarrow> invoice option action" where
  "IssueInvoice env show_uuid i actor =
     bind (GetInvoice i) (\<lambda>row.
     case row of None \<Rightarrow> fail ErrInvoiceNotFound
     | Some v \<Rightarrow>
         if in_status v \<noteq> InvDraft then fail ErrInvoiceNotDraft
         else let eventID = ''invoice.issued:'' @ show_uuid i in
           bind (resolveLines (issue_lines v)) (\<lambda>resolved.
           bind (RateOrOne env (in_currency v) (date_of (env_now env))) (\<lambda>rate.
           bind (issue_booking env v eventID actor resolved rate) (\<lambda>(entry, _).
           bind (entry_or_panic entry) (\<lambda>j.
           bind (open_receivable env v (e_id (j_entry j)) eventID) (\<lambda>_.
           bind (MarkInvoiceIssued i (in_number v) (date_of (env_now env))) (\<lambda>_.
           bind (defer_invoice env v actor) (\<lambda>_.
           GetInvoice i))))))))"

section \<open>Recurring invoices\<close>

record recurring_input =
  rn_customer :: string
  rn_currency :: string
  rn_cadence :: string
  rn_next :: date
  rn_template :: json
  rn_notes :: string
  rn_method :: string
  rn_periods :: int

definition CreateRecurringInvoice :: "env \<Rightarrow> recurring_input \<Rightarrow> recurring_invoice action" where
  "CreateRecurringInvoice env inp = (\<lambda>s.
     let d = docs_of s;
         r = \<lparr>ri_id = next_id s, ri_entity = env_entity env, ri_customer = rn_customer inp,
              ri_currency = (if rn_currency inp = '''' then env_base env else rn_currency inp),
              ri_cadence = rn_cadence inp, ri_next = rn_next inp, ri_template = rn_template inp,
              ri_notes = rn_notes inp, ri_active = True, ri_method = rn_method inp, ri_periods = rn_periods inp\<rparr>
     in if rn_cadence inp \<notin> {''weekly'', ''monthly''}
        then (Inl (CheckViolation ''recurring_invoices_cadence_check''), s)
        else (Inr r, s\<lparr>docs_of := d\<lparr>recurring_invoices := recurring_invoices d @ [r]\<rparr>, next_id := Suc (next_id s)\<rparr>))"

definition ListRecurringInvoices :: "env \<Rightarrow> recurring_invoice list action" where
  "ListRecurringInvoices env = gets (\<lambda>s.
     filter (\<lambda>r. ri_entity r = env_entity env) (rev (recurring_invoices (docs_of s))))"

definition ListDueRecurring :: "date \<Rightarrow> recurring_invoice list action" where
  "ListDueRecurring asOf = gets (\<lambda>s. sort_key (\<lambda>r. day_of_civil (ri_next r))
     (filter (\<lambda>r. ri_active r \<and> date_le (ri_next r) asOf) (recurring_invoices (docs_of s))))"

text \<open>The conditional \<open>UPDATE\<close>; the answer is whether one row was affected.\<close>

definition ClaimRecurring :: "id \<Rightarrow> date \<Rightarrow> date \<Rightarrow> bool action" where
  "ClaimRecurring i current next_run = (\<lambda>s.
     let d = docs_of s; hit = (\<lambda>r. ri_id r = i \<and> ri_next r = current) in
     (Inr (length (filter hit (recurring_invoices d)) = 1),
      s\<lparr>docs_of := d\<lparr>recurring_invoices := update_where hit (\<lambda>r. r\<lparr>ri_next := next_run\<rparr>) (recurring_invoices d)\<rparr>\<rparr>))"

text \<open>\<open>AddDate\<close> counts a day beyond the end of the month into the month after.\<close>

definition advanceRun :: "date \<Rightarrow> string \<Rightarrow> date" where
  "advanceRun d cadence =
     (if cadence = ''weekly'' then civil_of_day (day_of_civil d + 7)
      else case d of (y, m, day) \<Rightarrow> civil_of_day (day_of_civil (next_month_start y m) + day - 1))"

text \<open>The template: a list of objects of text fields, \<open>null\<close> elements being empty.\<close>

fun template_line :: "env \<Rightarrow> json \<Rightarrow> invoice_line_input option" where
  "template_line env (JObject obj) =
     Option.bind (text_field ''description'' obj) (\<lambda>t. Option.bind (text_field ''quantity'' obj) (\<lambda>q.
     Option.bind (text_field ''unitPrice'' obj) (\<lambda>p. Option.bind (text_field ''taxCode'' obj) (\<lambda>c.
     Some \<lparr>nl_desc = t, nl_quantity = (case env_parse env q of None \<Rightarrow> 1 | Some x \<Rightarrow> x),
           nl_price = (case env_parse env p of None \<Rightarrow> 0 | Some x \<Rightarrow> x), nl_tax_code = c\<rparr>))))"
| "template_line env JNull = Some \<lparr>nl_desc = '''', nl_quantity = 1, nl_price = 0, nl_tax_code = ''''\<rparr>"
| "template_line env _ = None"

fun template_lines :: "env \<Rightarrow> json \<Rightarrow> invoice_line_input list option" where
  "template_lines env (JArray vs) =
     (let ls = map (template_line env) vs in if None \<in> set ls then None else Some (map the ls))"
| "template_lines env JNull = Some []"
| "template_lines env _ = None"

definition raise_invoice :: "env \<Rightarrow> (id \<Rightarrow> string) \<Rightarrow> recurring_invoice \<Rightarrow> unit action" where
  "raise_invoice env show_uuid r =
     (case template_lines env (ri_template r) of None \<Rightarrow> fail (ErrText ''bad template'')
      | Some ls \<Rightarrow>
          bind (CreateInvoice env
            \<lparr>ni_customer = ri_customer r, ni_currency = ri_currency r, ni_due = None, ni_notes = ri_notes r,
             ni_method = ri_method r, ni_periods = ri_periods r, ni_start = '''', ni_lines = ls\<rparr>) (\<lambda>v.
          case v of None \<Rightarrow> fail (ErrText ''nil invoice'')
          | Some w \<Rightarrow> bind (IssueInvoice env show_uuid (in_id w) ''system:recurring'') (\<lambda>_. ok ())))"

text \<open>One schedule of a pass: the period is claimed before anything is raised.\<close>

definition generate_one :: "env \<Rightarrow> (id \<Rightarrow> string) \<Rightarrow> recurring_invoice \<Rightarrow> unit action" where
  "generate_one env show_uuid r =
     bind (ClaimRecurring (ri_id r) (ri_next r) (advanceRun (ri_next r) (ri_cadence r))) (\<lambda>claimed.
     if \<not> claimed then ok ()
     else catch (raise_invoice (env\<lparr>env_entity := ri_entity r\<rparr>) show_uuid r) (\<lambda>_. ok ()))"

definition generate :: "env \<Rightarrow> (id \<Rightarrow> string) \<Rightarrow> unit action" where
  "generate env show_uuid =
     bind (ListDueRecurring (date_of (env_now env))) (\<lambda>due. for_each due (generate_one env show_uuid))"

section \<open>Billable time\<close>

definition CreateTimeEntry :: "env \<Rightarrow> (string \<Rightarrow> int option) \<Rightarrow> time_entry \<Rightarrow> time_entry action" where
  "CreateTimeEntry env cast_int inp = (\<lambda>s.
     let d = docs_of s;
         ref = (if te_ref inp = '''' then next_free_reference cast_int ''BT-2026-'' (map te_ref (time_entries d))
                else te_ref inp);
         row = inp\<lparr>te_ref := ref, te_hours := env_round env (te_hours inp) 2, te_rate := env_round env (te_rate inp) 2,
                   te_amount := env_round env (te_amount inp) 2,
                   te_currency := (if te_currency inp = '''' then env_base env else te_currency inp)\<rparr>
     in if ref \<in> te_ref ` set (time_entries d)
        then (Inl (UniqueViolation ''billable_time_entries_entry_ref_key''), s)
        else (Inr row, s\<lparr>docs_of := d\<lparr>time_entries := time_entries d @ [row]\<rparr>\<rparr>))"

definition ListTimeEntries :: "int \<Rightarrow> int \<Rightarrow> time_entry list action" where
  "ListTimeEntries limit offset = gets (\<lambda>s.
     page (if limit \<le> 0 \<or> limit > 200 then 100 else limit) offset
       (sort_key (\<lambda>e. - day_of_civil (te_date e)) (rev (time_entries (docs_of s)))))"

section \<open>Payment intents\<close>

definition ErrPaymentIntentNotFound :: err where
  "ErrPaymentIntentNotFound = ErrText ''payment intent not found''"

definition GetPaymentIntent :: "id \<Rightarrow> payment_intent option action" where
  "GetPaymentIntent i = gets (\<lambda>s. row_by tt_id i (payment_intents (docs_of s)))"

definition insert_intent :: "env \<Rightarrow> payment_intent \<Rightarrow> payment_intent action" where
  "insert_intent env row = (\<lambda>s.
     let d = docs_of s; p = row\<lparr>tt_id := next_id s, tt_amount := env_round env (tt_amount row) 2\<rparr> in
     if \<not> tt_amount p > 0 then (Inl (CheckViolation ''payment_intents_amount_check''), s)
     else if item_by_id AR s (tt_item p) = None
     then (Inl (ForeignKeyViolation ''payment_intents_open_item_id_fkey''), s)
     else (Inr p, s\<lparr>docs_of := d\<lparr>payment_intents := payment_intents d @ [p]\<rparr>, next_id := Suc (next_id s)\<rparr>))"

definition CreatePaymentIntent :: "env \<Rightarrow> (id \<Rightarrow> string) \<Rightarrow> id \<Rightarrow> rat \<Rightarrow> string \<Rightarrow> payment_intent action" where
  "CreatePaymentIntent env show_uuid itemID amount currency =
     bind (GetAROpenItem itemID) (\<lambda>row.
     case row of None \<Rightarrow> fail ErrOpenItemNotFound
     | Some item \<Rightarrow>
         bind fresh_id (\<lambda>intentID.
         insert_intent env
           \<lparr>tt_id = 0, tt_entity = env_entity env, tt_item = itemID, tt_amount = amount,
            tt_currency = (if currency = '''' then oi_currency item else currency), tt_provider = ''manual'',
            tt_status = IntentPending, tt_external = Some (''manual:'' @ show_uuid intentID), tt_checkout = None\<rparr>))"

definition MarkPaymentIntentStatus :: "id \<Rightarrow> intent_status \<Rightarrow> unit action" where
  "MarkPaymentIntentStatus i st = upd_docs (\<lambda>d. d\<lparr>payment_intents :=
     update_where (\<lambda>p. tt_id p = i) (\<lambda>p. p\<lparr>tt_status := st\<rparr>) (payment_intents d)\<rparr>)"

definition ConfirmPaymentIntent ::
  "env \<Rightarrow> (id \<Rightarrow> string) \<Rightarrow> id \<Rightarrow> string \<Rightarrow> payment_intent option action" where
  "ConfirmPaymentIntent env show_uuid i actor =
     bind (GetPaymentIntent i) (\<lambda>row.
     case row of None \<Rightarrow> fail ErrPaymentIntentNotFound
     | Some p \<Rightarrow>
         if tt_status p = IntentSucceeded then ok (Some p)
         else bind (catch (bind (ApplyARPayment env (tt_item p) (tt_amount p) (tt_currency p)
                                   (''intent:'' @ show_uuid i) actor None) (\<lambda>_. ok ()))
                      (\<lambda>e. bind (MarkPaymentIntentStatus i IntentFailed) (\<lambda>_. fail e))) (\<lambda>_.
              bind (MarkPaymentIntentStatus i IntentSucceeded) (\<lambda>_. GetPaymentIntent i)))"

section \<open>They keep the books\<close>

lemma lateral_upd_docs [lateral_intros]: "lateral (upd_docs f)"
  by (simp add: upd_docs_def lateral_def core_of_def)

lemma lateral_billing [lateral_intros]:
  "lateral next_invoice_number" "lateral (insert_invoice v)" "lateral (CreateRecurringInvoice env rin)"
  "lateral (ClaimRecurring i d1 d2)" "lateral (CreateTimeEntry env cast te)" "lateral (insert_intent env p)"
  "lateral (MarkInvoiceIssued i ref dt)" "lateral (MarkPaymentIntentStatus i st)"
  by (simp_all add: next_invoice_number_def insert_invoice_def CreateRecurringInvoice_def ClaimRecurring_def
      CreateTimeEntry_def insert_intent_def MarkInvoiceIssued_def MarkPaymentIntentStatus_def upd_docs_def
      modify_def lateral_def core_of_def Let_def)

lemma lateral_compute_lines [lateral_intros]: "lateral (compute_lines env k ls)"
proof (induction env k ls rule: compute_lines.induct)
  case (2 env k l ls)
  show ?case
    unfolding compute_lines.simps GetTaxRate_def Let_def by (intro lateral_intros 2 [OF refl])
qed (unfold compute_lines.simps, intro lateral_intros)

lemma keeps_books_CreateInvoice [keeps_intros]: "keeps (books env h) (CreateInvoice env' inp)"
  unfolding CreateInvoice_def GetInvoice_def
  by (intro keeps_intros keeps_books_tx keeps_books_lateral posting_intros posting_lateral lateral_intros)

lemma keeps_books_CreateAROpenItem [keeps_intros]:
  "rounding_laws (env_round env) \<Longrightarrow> keeps (books env h) (CreateAROpenItem env p r d x c due i ev ob)"
  unfolding CreateAROpenItem_def by (intro keeps_intros)

lemma keeps_books_CreateSchedule [keeps_intros]: "keeps (books env h) (CreateSchedule env inp t a)"
  unfolding CreateSchedule_def GetScheduleBySourceRef_def Let_def
  by (intro keeps_intros; auto intro!: lateral_intros)+

lemma keeps_books_IssueInvoice [keeps_intros]:
  assumes "rounding_laws (env_round env)"
  shows "keeps (books env h) (IssueInvoice env show_uuid i actor)"
  unfolding IssueInvoice_def GetInvoice_def issue_booking_def open_receivable_def defer_invoice_def Let_def
  using assms by (intro keeps_intros lateral_billing [THEN keeps_books_lateral]; simp?)

lemma keeps_books_generate [keeps_intros]:
  assumes "rounding_laws (env_round env)"
  shows "keeps (books env h) (generate env show_uuid)"
proof -
  have other: "books env h = books (env\<lparr>env_entity := e\<rparr>) h" for e
    by (intro ext books_hash) simp
  have "keeps (books env h) (raise_invoice (env\<lparr>env_entity := e\<rparr>) show_uuid r)" for e r
    unfolding raise_invoice_def other [of e] using assms by (intro keeps_intros) simp
  then show ?thesis
    unfolding generate_def ListDueRecurring_def generate_one_def
    by (intro keeps_intros lateral_billing [THEN keeps_books_lateral])
qed

lemma keeps_books_billing [keeps_intros]:
  "keeps (books env h) (CreateRecurringInvoice env rin)" "keeps (books env h) (CreateTimeEntry env cast te)"
  "keeps (books env h) (CreatePaymentIntent env show_uuid i x c)"
  unfolding CreatePaymentIntent_def GetAROpenItem_def
  by (intro keeps_intros keeps_books_lateral lateral_intros)+

lemma keeps_books_ConfirmPaymentIntent [keeps_intros]:
  assumes "rounding_laws (env_round env)"
  shows "keeps (books env h) (ConfirmPaymentIntent env show_uuid i actor)"
  unfolding ConfirmPaymentIntent_def GetPaymentIntent_def using assms
  by (intro keeps_intros lateral_billing [THEN keeps_books_lateral])

end
