(* ===== verification/Banking.thy ===== *)
theory Banking
  imports Billing
begin

text \<open>
  Bank statements and their reconciliation: the feed (\<open>ledger/invoices.go\<close>,
  \<open>repository/integrations_store.go\<close>), matching lines to documents (\<open>reconciliation.go\<close> of both
  packages), the bank ledger (\<open>repository/banking.go\<close>) and the payables without an open item
  (\<open>repository/ap_orphans.go\<close>). Text is ASCII where the code folds its case.
\<close>

section \<open>Importing\<close>

record statement_line_input =
  nx_date :: date
  nx_desc :: string
  nx_payee :: string
  nx_amount :: string
  nx_direction :: string
  nx_external :: string

definition ImportBankStatement :: "string \<Rightarrow> date \<Rightarrow> int \<Rightarrow> id action" where
  "ImportBankStatement code on_date count = (\<lambda>s.
     let d = docs_of s;
         row = \<lparr>bs_id = next_id s, bs_account = code, bs_date = on_date, bs_status = ''imported'', bs_count = count\<rparr>
     in if count < 0 then (Inl (CheckViolation ''bank_statements_line_count_check''), s)
        else (Inr (next_id s), s\<lparr>docs_of := d\<lparr>bank_statements := bank_statements d @ [row]\<rparr>,
                                next_id := Suc (next_id s)\<rparr>))"

text \<open>
  \<open>ON CONFLICT (external_ref)\<close> names no index: the only unique index on the column is partial, and the
  statement does not repeat its predicate.
\<close>

definition errNoConflictTarget :: err where
  "errNoConflictTarget =
     ErrText ''there is no unique or exclusion constraint matching the ON CONFLICT specification''"

definition insert_statement_line :: "env \<Rightarrow> id \<Rightarrow> statement_line_input \<Rightarrow> unit action" where
  "insert_statement_line env statement l =
     (if trim_space (nx_external l) \<noteq> '''' then fail errNoConflictTarget
      else bind (numeric_text env (nx_amount l)) (\<lambda>x s.
        let d = docs_of s;
            row = \<lparr>sn_id = next_id s, sn_statement = statement, sn_date = nx_date l, sn_desc = nx_desc l,
                   sn_payee = nx_payee l, sn_amount = x, sn_direction = nx_direction l, sn_external = None,
                   sn_status = Unmatched, sn_matched = None\<rparr>
        in if \<not> x > 0 then (Inl (CheckViolation ''bank_statement_lines_amount_check''), s)
           else if nx_direction l \<notin> {''credit'', ''debit''}
           then (Inl (CheckViolation ''bank_statement_lines_direction_check''), s)
           else if statement \<notin> bs_id ` set (bank_statements d)
           then (Inl (ForeignKeyViolation ''bank_statement_lines_statement_id_fkey''), s)
           else (Inr (), s\<lparr>docs_of := d\<lparr>statement_lines := statement_lines d @ [row]\<rparr>,
                           next_id := Suc (next_id s)\<rparr>)))"

text \<open>Every statement is its own transaction: the lines before a failing one stay.\<close>

fun insert_statement_lines :: "env \<Rightarrow> id \<Rightarrow> int \<Rightarrow> statement_line_input list \<Rightarrow> int action" where
  "insert_statement_lines env statement count [] =
     bind (upd_docs (\<lambda>d. d\<lparr>bank_statements :=
       update_where (\<lambda>b. bs_id b = statement) (\<lambda>b. b\<lparr>bs_count := count\<rparr>) (bank_statements d)\<rparr>)) (\<lambda>_. ok count)"
| "insert_statement_lines env statement count (l # ls) =
     bind (insert_statement_line env statement l) (\<lambda>_. insert_statement_lines env statement (count + 1) ls)"

definition InsertStatementLines :: "env \<Rightarrow> id \<Rightarrow> statement_line_input list \<Rightarrow> int action" where
  "InsertStatementLines env statement = insert_statement_lines env statement 0"

definition materialize_line :: "string \<Rightarrow> statement_line \<Rightarrow> unit action" where
  "materialize_line code l = upd_docs (\<lambda>d.
     if Some (sn_id l) \<in> bt_line ` set (bank_transactions d) then d
     else d\<lparr>bank_transactions := bank_transactions d @
       [\<lparr>bt_account = code, bt_date = sn_date l, bt_desc = sn_desc l, bt_payee = sn_payee l,
         bt_spent = (if sn_direction l = ''debit'' then Some (sn_amount l) else None),
         bt_received = (if sn_direction l = ''debit'' then None else Some (sn_amount l)),
         bt_action = (if sn_matched l \<noteq> None \<and> sn_matched l \<noteq> Some '''' then ''match'' else ''add''),
         bt_matched = sn_matched l, bt_line = Some (sn_id l)\<rparr>]\<rparr>)"

definition MaterializeBankTransactions :: "string \<Rightarrow> id \<Rightarrow> unit action" where
  "MaterializeBankTransactions code statement =
     bind (gets (\<lambda>s. filter (\<lambda>l. sn_statement l = statement \<and> sn_status l \<noteq> Proposed) (statement_lines (docs_of s))))
       (\<lambda>ls. for_each ls (materialize_line code))"

definition statement_states :: "string list" where
  "statement_states = [''imported'', ''reconciling'', ''reconciled'', ''failed'']"

definition UpdateBankStatementStatus :: "id \<Rightarrow> string \<Rightarrow> unit action" where
  "UpdateBankStatementStatus i st = (\<lambda>s.
     if (\<exists>b \<in> set (bank_statements (docs_of s)). bs_id b = i) \<and> st \<notin> set statement_states
     then (Inl (CheckViolation ''bank_statements_status_check''), s)
     else upd_docs (\<lambda>d. d\<lparr>bank_statements :=
            update_where (\<lambda>b. bs_id b = i) (\<lambda>b. b\<lparr>bs_status := st\<rparr>) (bank_statements d)\<rparr>) s)"

definition SyncBankFeed ::
  "env \<Rightarrow> (id \<Rightarrow> string) \<Rightarrow> string \<Rightarrow> date \<Rightarrow> statement_line_input list \<Rightarrow> (string \<times> int) action" where
  "SyncBankFeed env show_uuid code to_date ls =
     bind (ImportBankStatement code to_date 0) (\<lambda>stmtID.
     bind (InsertStatementLines env stmtID ls) (\<lambda>n.
     bind (MaterializeBankTransactions code stmtID) (\<lambda>_.
     bind (catch (UpdateBankStatementStatus stmtID ''reconciling'') (\<lambda>_. ok ())) (\<lambda>_.
     ok (show_uuid stmtID, n)))))"

record banking_status =
  bc_imported :: nat
  bc_reconciling :: nat
  bc_reconciled :: nat
  bc_failed :: nat

definition BankingCounts :: "banking_status action" where
  "BankingCounts = gets (\<lambda>s.
     let count = (\<lambda>st. length (filter (\<lambda>b. bs_status b = st) (bank_statements (docs_of s))))
     in \<lparr>bc_imported = count ''imported'', bc_reconciling = count ''reconciling'',
         bc_reconciled = count ''reconciled'', bc_failed = count ''failed''\<rparr>)"

section \<open>Matching\<close>

definition ErrStatementLineNotFound :: err where
  "ErrStatementLineNotFound = ErrText ''statement line not found''"

definition ListStatementLines :: "id \<Rightarrow> statement_line list action" where
  "ListStatementLines statement = gets (\<lambda>s. sort_key (\<lambda>l. day_of_civil (sn_date l))
     (filter (\<lambda>l. sn_statement l = statement) (statement_lines (docs_of s))))"

definition GetStatementLine :: "id \<Rightarrow> statement_line option action" where
  "GetStatementLine i = gets (\<lambda>s. row_by sn_id i (statement_lines (docs_of s)))"

text \<open>An \<open>UPDATE\<close> of a line guarded by its status; no row is an error.\<close>

definition move_line ::
  "id \<Rightarrow> match_status \<Rightarrow> (statement_line \<Rightarrow> statement_line) \<Rightarrow> statement_line action" where
  "move_line i st f = (\<lambda>s.
     let d = docs_of s; hit = (\<lambda>l. sn_id l = i \<and> sn_status l = st) in
     case filter hit (statement_lines d) of [] \<Rightarrow> (Inl ErrStatementLineNotFound, s)
     | l # _ \<Rightarrow> (Inr (f l), s\<lparr>docs_of := d\<lparr>statement_lines := update_where hit f (statement_lines d)\<rparr>\<rparr>))"

definition match_line :: "id \<Rightarrow> string \<Rightarrow> unit action" where
  "match_line i ref = bind (move_line i Unmatched (\<lambda>l. l\<lparr>sn_status := Matched, sn_matched := Some ref\<rparr>)) (\<lambda>_. ok ())"

definition ProposeStatementLineMatch :: "id \<Rightarrow> string \<Rightarrow> unit action" where
  "ProposeStatementLineMatch i ref =
     bind (move_line i Unmatched (\<lambda>l. l\<lparr>sn_status := Proposed, sn_matched := Some ref\<rparr>)) (\<lambda>_. ok ())"

definition ConfirmStatementLineMatch :: "id \<Rightarrow> statement_line action" where
  "ConfirmStatementLineMatch i = move_line i Proposed (\<lambda>l. l\<lparr>sn_status := Matched\<rparr>)"

definition RejectStatementLineMatch :: "id \<Rightarrow> unit action" where
  "RejectStatementLineMatch i =
     bind (move_line i Proposed (\<lambda>l. l\<lparr>sn_status := Unmatched, sn_matched := None\<rparr>)) (\<lambda>_. ok ())"

definition BankAccountCodeForStatement :: "id \<Rightarrow> string action" where
  "BankAccountCodeForStatement i = bind (gets (\<lambda>s. row_by bs_id i (bank_statements (docs_of s)))) (\<lambda>row.
     case row of None \<Rightarrow> fail (ErrText ''no rows in result set'') | Some b \<Rightarrow> ok (bs_account b))"

text \<open>The first payment under the reference in one subledger, joined with its document.\<close>

definition paid_document :: "direction \<Rightarrow> string \<Rightarrow> db \<Rightarrow> string option" where
  "paid_document d ref s =
     (case filter (\<lambda>p. p_ref p = ref \<and> p_direction p = d \<and> item_by_id d s (p_item p) \<noteq> None) (payments s) of
        [] \<Rightarrow> None
      | p # _ \<Rightarrow> map_option oi_document_ref (item_by_id d s (p_item p)))"

definition FindDocumentRefByPaymentRef :: "string \<Rightarrow> (string \<times> string) action" where
  "FindDocumentRefByPaymentRef ref0 = gets (\<lambda>s.
     let ref = trim_space ref0 in
     if ref = '''' then ('''', '''')
     else case paid_document AR ref s of Some r \<Rightarrow> (r, ''ar'')
          | None \<Rightarrow> (case paid_document AP ref s of Some r \<Rightarrow> (r, ''ap'') | None \<Rightarrow> ('''', '''')))"

definition FindOpenDocumentByRef :: "string \<Rightarrow> string action" where
  "FindOpenDocumentByRef ref0 = gets (\<lambda>s.
     let ref = trim_space ref0 in
     if ref = '''' then ''''
     else if item_by_ref AR s ref \<noteq> None then ''ar''
     else if item_by_ref AP s ref \<noteq> None then ''ap'' else '''')"

text \<open>The leftmost match of \<open>(INV|CN|DN|BILL|PO|PAY)[-_A-Z0-9]+\<close> in the upper-cased text.\<close>

definition upper_char :: "char \<Rightarrow> char" where
  "upper_char c = (let n = (of_char c :: nat) in if 97 \<le> n \<and> n \<le> 122 then char_of (n - 32) else c)"

definition ref_char :: "char \<Rightarrow> bool" where
  "ref_char c \<longleftrightarrow> c = CHR ''-'' \<or> c = CHR ''_'' \<or> is_digit c \<or>
     ((65::nat) \<le> of_char c \<and> (of_char c :: nat) \<le> 90)"

definition ref_prefixes :: "string list" where
  "ref_prefixes = [''INV'', ''CN'', ''DN'', ''BILL'', ''PO'', ''PAY'']"

definition match_here :: "string \<Rightarrow> string option" where
  "match_here t = (case filter (\<lambda>p. take (length p) t = p \<and> takeWhile ref_char (drop (length p) t) \<noteq> []) ref_prefixes of
     [] \<Rightarrow> None | p # _ \<Rightarrow> Some (p @ takeWhile ref_char (drop (length p) t)))"

fun find_match :: "string \<Rightarrow> string" where
  "find_match [] = []"
| "find_match (c # cs) = (case match_here (c # cs) of Some m \<Rightarrow> m | None \<Rightarrow> find_match cs)"

definition extractDocumentRef :: "string \<Rightarrow> string" where
  "extractDocumentRef t = find_match (map upper_char (trim_space t))"

definition match_candidate :: "statement_line \<Rightarrow> string" where
  "match_candidate l =
     (let c = trim_space (text_or_empty (sn_external l)) in
      if c \<noteq> '''' then c
      else let c = extractDocumentRef (sn_desc l) in
        if c \<noteq> '''' then c else extractDocumentRef (sn_payee l))"

definition propose_match :: "statement_line \<Rightarrow> nat action" where
  "propose_match l =
     (let candidate = match_candidate l in
      if sn_status l \<noteq> Unmatched \<or> candidate = '''' then ok 0
      else
        bind (FindDocumentRefByPaymentRef candidate) (\<lambda>(paid, _).
        bind (if paid \<noteq> '''' then ok paid
              else bind (FindOpenDocumentByRef candidate) (\<lambda>ledger. ok (if ledger \<noteq> '''' then candidate else ''''))) (\<lambda>docRef.
        if docRef = '''' then ok 0
        else catch (bind (ProposeStatementLineMatch (sn_id l) docRef) (\<lambda>_. ok 1))
               (\<lambda>e. if e = ErrStatementLineNotFound then ok 0 else fail e))))"

definition AutoMatchStatementLines :: "id \<Rightarrow> nat action" where
  "AutoMatchStatementLines statement =
     bind (ListStatementLines statement) (\<lambda>ls.
     bind (map_each ls propose_match) (\<lambda>ns.
     let matched = sum_list ns in
     bind (when_ok (matched > 0)
             (catch (UpdateBankStatementStatus statement ''reviewing'') (\<lambda>_. ok ()))) (\<lambda>_. ok matched)))"

section \<open>Settling\<close>

definition ErrInvalidSettlement :: err where
  "ErrInvalidSettlement = ErrText ''statement line cannot settle the document''"

definition settle_document ::
  "env \<Rightarrow> (id \<Rightarrow> string) \<Rightarrow> direction \<Rightarrow> string \<Rightarrow> statement_line \<Rightarrow> unit action" where
  "settle_document env show_uuid d ref l =
     bind (if d = AR then GetARByDocumentRef ref else GetAPByDocumentRef ref) (\<lambda>row.
     case row of None \<Rightarrow> fail ErrOriginalNotFound
     | Some i \<Rightarrow>
         bind ((if d = AR then ApplyARPayment else ApplyAPPayment) env (oi_id i) (sn_amount l) (oi_currency i)
                 (''recon:'' @ show_uuid (sn_id l)) ''reconciliation'' None) (\<lambda>_. ok ()))"

definition settleMatchedLine :: "env \<Rightarrow> (id \<Rightarrow> string) \<Rightarrow> statement_line \<Rightarrow> unit action" where
  "settleMatchedLine env show_uuid l =
     (let docRef = trim_space (text_or_empty (sn_matched l)) in
      if docRef = '''' then ok ()
      else if sn_amount l \<le> 0 then fail ErrInvalidSettlement
      else if sn_direction l = ''credit'' then settle_document env show_uuid AR docRef l
      else if sn_direction l = ''debit'' then settle_document env show_uuid AP docRef l
      else fail ErrInvalidSettlement)"

definition MatchStatementLine :: "env \<Rightarrow> (id \<Rightarrow> string) \<Rightarrow> id \<Rightarrow> string \<Rightarrow> unit action" where
  "MatchStatementLine env show_uuid i ref =
     bind (GetStatementLine i) (\<lambda>row.
     case row of None \<Rightarrow> fail ErrStatementLineNotFound
     | Some l \<Rightarrow>
         bind (settleMatchedLine env show_uuid (l\<lparr>sn_matched := Some (trim_space ref)\<rparr>)) (\<lambda>_.
         bind (match_line i ref) (\<lambda>_.
         bind (BankAccountCodeForStatement (sn_statement l)) (\<lambda>code.
         MaterializeBankTransactions code (sn_statement l)))))"

definition ConfirmStatementLine :: "env \<Rightarrow> (id \<Rightarrow> string) \<Rightarrow> id \<Rightarrow> unit action" where
  "ConfirmStatementLine env show_uuid i =
     bind (GetStatementLine i) (\<lambda>row.
     case row of None \<Rightarrow> fail ErrStatementLineNotFound
     | Some l \<Rightarrow>
         if sn_status l \<noteq> Proposed then fail ErrStatementLineNotFound
         else
           bind (settleMatchedLine env show_uuid l) (\<lambda>_.
           bind (ConfirmStatementLineMatch i) (\<lambda>confirmed.
           bind (BankAccountCodeForStatement (sn_statement confirmed)) (\<lambda>code.
           MaterializeBankTransactions code (sn_statement confirmed)))))"

section \<open>The bank ledger and the payables without an item\<close>

definition ListLegacyBankTx :: "int \<Rightarrow> int \<Rightarrow> (bank_transaction list \<times> nat) action" where
  "ListLegacyBankTx limit offset = gets (\<lambda>s.
     let txs = bank_transactions (docs_of s) in
     (page (if limit \<le> 0 \<or> limit > 100 then 20 else limit) offset
        (sort_key (\<lambda>t. - day_of_civil (bt_date t)) txs), length txs))"

record ap_orphan =
  ao_entry :: entry
  ao_credit :: rat

definition ap_credits :: "db \<Rightarrow> id \<Rightarrow> jline list" where
  "ap_credits s i = filter (\<lambda>l. l_entry l = i \<and> l_credit l > 0 \<and> on_account s (\<lambda>a. a_code a = ''2000'') l) (jlines s)"

definition ap_orphans :: "db \<Rightarrow> ap_orphan list" where
  "ap_orphans s =
     map (\<lambda>e. \<lparr>ao_entry = e, ao_credit = sum_list (map l_credit (ap_credits s (e_id e)))\<rparr>)
       (filter (\<lambda>e. ap_credits s (e_id e) \<noteq> [] \<and> Some (e_id e) \<notin> oi_entry ` set (ap_items s)) (entries s))"

definition orphan_limit :: "int \<Rightarrow> int" where
  "orphan_limit limit = (if limit \<le> 0 \<or> limit > 1000 then 200 else limit)"

text \<open>\<open>posted_at DESC NULLS LAST\<close>\<close>

definition newest_posted :: "ap_orphan list \<Rightarrow> ap_orphan list" where
  "newest_posted xs =
     sort_key (\<lambda>r. - the (e_posted_at (ao_entry r))) (filter (\<lambda>r. e_posted_at (ao_entry r) \<noteq> None) xs) @
     filter (\<lambda>r. e_posted_at (ao_entry r) = None) xs"

definition ListOrphanedAPJournals :: "int \<Rightarrow> (ap_orphan list \<times> nat \<times> rat) action" where
  "ListOrphanedAPJournals limit = gets (\<lambda>s.
     let xs = ap_orphans s in
     (take (nat (orphan_limit limit)) (newest_posted xs), length xs, sum_list (map ao_credit xs)))"

record currency_total =
  ct_currency :: string
  ct_count :: nat
  ct_total :: rat

definition ListContractPayables :: "string \<Rightarrow> int \<Rightarrow> (open_item list \<times> currency_total list) action" where
  "ListContractPayables currency limit = gets (\<lambda>s.
     let xs = filter (\<lambda>i. like ''CT-PAY-%'' (oi_document_ref i)) (ap_items s);
         summary = map (\<lambda>c. let g = filter (\<lambda>i. oi_currency i = c) xs in
                          \<lparr>ct_currency = c, ct_count = length g, ct_total = sum_list (map oi_amount g)\<rparr>)
                     (remdups (map oi_currency xs))
     in (take (nat (orphan_limit limit)) (filter (\<lambda>i. currency = '''' \<or> oi_currency i = currency) (rev xs)),
         sort_key (\<lambda>c. - int (ct_count c)) summary))"

section \<open>They keep the books\<close>

lemma lateral_move_line [lateral_intros]: "lateral (move_line i st f)"
  by (auto simp: move_line_def lateral_def core_of_def Let_def split: list.split)

lemma lateral_statements [lateral_intros]:
  "lateral (ImportBankStatement c d n)" "lateral (UpdateBankStatementStatus i st)" "lateral (materialize_line c l)"
  by (simp_all add: ImportBankStatement_def UpdateBankStatementStatus_def materialize_line_def upd_docs_def
      modify_def lateral_def core_of_def Let_def)

lemma lateral_matches [lateral_intros]:
  "lateral (match_line i ref)" "lateral (ProposeStatementLineMatch i ref)" "lateral (ConfirmStatementLineMatch i)"
  "lateral (RejectStatementLineMatch i)" "lateral (MaterializeBankTransactions c st)"
  unfolding match_line_def ProposeStatementLineMatch_def ConfirmStatementLineMatch_def RejectStatementLineMatch_def
    MaterializeBankTransactions_def
  by (intro lateral_intros)+

lemmas keeps_books_bank_rows =
  lateral_statements [THEN keeps_books_lateral] lateral_matches [THEN keeps_books_lateral]

lemma lateral_insert_statement_line [lateral_intros]: "lateral (insert_statement_line env st l)"
proof -
  have "lateral (\<lambda>s. if x \<le> 0 then (Inl e, s) else if b then (Inl e', s) else if P (docs_of s) then (Inl e'', s)
          else (Inr (), s\<lparr>docs_of := f x (docs_of s) (next_id s), next_id := Suc (next_id s)\<rparr>))" for x :: rat and e e' e'' b P f
    by (simp add: lateral_def core_of_def)
  then show ?thesis
    unfolding insert_statement_line_def Let_def not_less by (intro lateral_intros)
qed

lemma lateral_insert_statement_lines [lateral_intros]: "lateral (insert_statement_lines env st n ls)"
  by (induction env st n ls rule: insert_statement_lines.induct; simp only: insert_statement_lines.simps)
    (intro lateral_intros; assumption?)+

lemma keeps_books_SyncBankFeed [keeps_intros]: "keeps (books env h) (SyncBankFeed env' show_uuid c d ls)"
  unfolding SyncBankFeed_def InsertStatementLines_def
  by (intro keeps_intros keeps_books_bank_rows lateral_insert_statement_lines [THEN keeps_books_lateral])

lemma keeps_books_AutoMatch [keeps_intros]: "keeps (books env h) (AutoMatchStatementLines i)"
  unfolding AutoMatchStatementLines_def ListStatementLines_def propose_match_def FindDocumentRefByPaymentRef_def
    FindOpenDocumentByRef_def Let_def
  by (intro keeps_intros keeps_books_bank_rows)

lemma keeps_books_RejectStatementLine [keeps_intros]: "keeps (books env h) (RejectStatementLineMatch i)"
  by (rule keeps_books_bank_rows)

lemma keeps_books_settleMatchedLine [keeps_intros]:
  assumes "rounding_laws (env_round env)"
  shows "keeps (books env h) (settleMatchedLine env show_uuid l)"
  unfolding settleMatchedLine_def settle_document_def GetARByDocumentRef_def GetAPByDocumentRef_def Let_def
  using assms by (intro keeps_intros; simp; intro keeps_intros)

lemma keeps_books_reconciliation [keeps_intros]:
  assumes "rounding_laws (env_round env)"
  shows "keeps (books env h) (MatchStatementLine env show_uuid i ref)"
    "keeps (books env h) (ConfirmStatementLine env show_uuid i)"
  unfolding MatchStatementLine_def ConfirmStatementLine_def GetStatementLine_def BankAccountCodeForStatement_def
  by (intro keeps_intros keeps_books_bank_rows assms)+

end
