(* ===== verification/Service.thy ===== *)
theory Service
  imports Banking
begin

text \<open>
  The service as a transition system: one rule per operation its callers (the HTTP handlers, the
  event consumers, the relay) can invoke, with whatever arguments and whatever the outcome, and the
  states reachable from a database without history.
\<close>

inductive service_step :: "env \<Rightarrow> db \<Rightarrow> db \<Rightarrow> bool" where
  seed_chart: "service_step env s (snd (SeedChartOfAccounts s))"
| create_account: "service_step env s (snd (CreateChartAccount code n ty cur par s))"
| update_account: "service_step env s (snd (UpdateChartAccount i n ty cur par a r s))"
| deactivate_account: "service_step env s (snd (DeactivateChartAccount i s))"
| upsert_rate: "service_step env s (snd (UpsertRate env c x d s))"
| set_period: "service_step env s (snd (SetPeriodStatus env q st u s))"
| create_entry: "service_step env s (snd (CreateJournalEntry env inp s))"
| post_entry: "service_step env s (snd (PostJournalEntry env i actor s))"
| reverse_entry: "service_step env s (snd (ReverseJournalEntry env i reason actor s))"
| delete_draft: "service_step env s (snd (DeleteDraftEntry i s))"
| supersede: "service_step env s (snd (SupersedeEntriesBySource env sv dn reason actor s))"
| book_event: "service_step env s (snd (BookFromEvent env ref desc c ls s))"
| open_document: "service_step env s (snd (create_open_item env d party ref desc amount c due e sev ob s))"
| amend_document: "service_step env s (snd (update_open_item d ref party desc due status s))"
| delete_document: "service_step env s (snd (delete_open_item d ref s))"
| receive_payment: "service_step env s (snd (ApplyARPayment env i amount c ref actor ob s))"
| pay_bill: "service_step env s (snd (ApplyAPPayment env i amount c ref actor ob s))"
| adjust: "service_step env s (snd (CreateAdjustment env ai actor s))"
| revalue: "service_step env s (snd (RevalueFX env q actor s))"
| drain_outbox: "service_step env s (snd (drain env answer s))"
| accrue_receipt: "service_step env s (snd (BookGRNAccrual env ref c po v iv qty s))"
| book_ap_invoice: "service_step env s (snd (BookAPInvoice env ref doc c po g vat iv rc tc qty s))"
| self_assess: "service_step env s (snd (SelfAssessReverseCharge env code rf net t actor s))"
| move_inventory: "service_step env s (snd (BookInventoryMovement env ref mt sd dref c cost s))"
| detect_exceptions: "service_step env s (snd (DetectMatchExceptions env s))"
| resolve_exception: "service_step env s (snd (ResolveMatchException i actor s))"
| write_off: "service_step env s (snd (WriteOffMatchVariance env po actor s))"
| settle_instruction: "service_step env s (snd (BookPaymentSettlement env ref st s))"
| clear_item: "service_step env s (snd (ClearPaymentsClearingItem i doc s))"
| payroll_run: "service_step env s (snd (PostPayrollRun env pin s))"
| leave_provision: "service_step env s (snd (PostLeaveProvision env lin s))"
| leave_valuation: "service_step env s (snd (ValueLeaveLiability env y t s))"
| close_year: "service_step env s (snd (CloseFiscalYear env y actor u s))"
| submit_approval: "service_step env s (snd (SubmitForApproval env tg am c pl w d s))"
| approve: "service_step env s (snd (ApproveApproval env parse_uuid i actor hp note s))"
| reject: "service_step env s (snd (RejectApproval i actor hp note s))"
| register_asset: "service_step env s (snd (RegisterFixedAsset env fin s))"
| depreciate: "service_step env s (snd (RunDepreciation env q s))"
| dispose: "service_step env s (snd (BookAssetDisposal env ref c tag meth pr bv s))"
| impair: "service_step env s (snd (ImpairAsset env aref x t actor s))"
| reverse_impairment: "service_step env s (snd (ReverseImpairment env aref x t actor s))"
| revalue_asset: "service_step env s (snd (RevalueAsset env aref x t actor s))"
| defer_revenue: "service_step env s (snd (CreateRevenueSchedule env sched actor s))"
| recognise_revenue: "service_step env s (snd (RunRevenueRecognition env q actor s))"
| satisfy_obligation: "service_step env s (snd (SatisfyObligation env i actor s))"
| accrue_revenue: "service_step env s (snd (AccrueRevenue env aref x actor s))"
| prepay: "service_step env s (snd (CreatePrepayment env ppin actor s))"
| amortize: "service_step env s (snd (RunAmortization env q actor s))"
| recognise_lease: "service_step env s (snd (CreateLease env lzin actor s))"
| run_leases: "service_step env s (snd (RunLeasePeriod env q actor s))"
| withhold: "service_step env s (snd (RecordWHTReceipt env cast win s))"
| late_fee: "service_step env s (snd (RecordLateFee env cast fin' s))"
| expected_losses: "service_step env s (snd (RunECLProvision env q actor s))"
| write_off_receivable: "service_step env s (snd (WriteOffAR env ref reason actor s))"
| recover_receivable: "service_step env s (snd (RecoverAR env ref k x actor s))"
| recognise_provision: "service_step env s (snd (RecognizeProvision env dc linp actor s))"
| unwind_provision: "service_step env s (snd (UnwindProvision env i ref actor s))"
| utilise_provision: "service_step env s (snd (UtilizeProvision env i x ref actor s))"
| remeasure_provision: "service_step env s (snd (RemeasureProvision env i x ref actor s))"
| reverse_provision: "service_step env s (snd (ReverseProvision env i ref actor s))"
| current_tax_run: "service_step env s (snd (RunCurrentTax env q profit r actor s))"
| deferred_tax: "service_step env s (snd (RecognizeDeferredTax env ref d x r dty actor s))"
| register_intangible: "service_step env s (snd (RegisterIntangibleAsset env xin s))"
| convert_currency: "service_step env s (snd (RecordFXConversion env cast cin s))"
| budget_account: "service_step env s (snd (UpsertBudget env q c x s))"
| create_entity: "service_step env s (snd (CreateEntity env c n cur par w s))"
| set_ownership: "service_step env s (snd (SetEntityOwnership env i x s))"
| create_customer: "service_step env s (snd (CreateCustomer env show_uuid topic c n em ph cur s))"
| create_vendor: "service_step env s (snd (CreateVendor env show_uuid topic c n em ph cur s))"
| receive_event: "service_step env s (snd (consume env hdl strm ev s))"
| draft_sale: "service_step env s (snd (CreateInvoice env vin s))"
| issue_sale: "service_step env s (snd (IssueInvoice env show_uuid i actor s))"
| schedule_sale: "service_step env s (snd (CreateRecurringInvoice env rin s))"
| raise_recurring: "service_step env s (snd (generate env show_uuid s))"
| log_time: "service_step env s (snd (CreateTimeEntry env cast te s))"
| open_intent: "service_step env s (snd (CreatePaymentIntent env show_uuid i x c s))"
| confirm_intent: "service_step env s (snd (ConfirmPaymentIntent env show_uuid i actor s))"
| bank_feed: "service_step env s (snd (SyncBankFeed env show_uuid c d bls s))"
| auto_match: "service_step env s (snd (AutoMatchStatementLines i s))"
| match_statement_line: "service_step env s (snd (MatchStatementLine env show_uuid i ref s))"
| confirm_statement_line: "service_step env s (snd (ConfirmStatementLine env show_uuid i s))"
| reject_statement_line: "service_step env s (snd (RejectStatementLineMatch i s))"

text \<open>A database in which nothing was booked, whatever its configuration.\<close>

definition no_history :: "db \<Rightarrow> bool" where
  "no_history s \<longleftrightarrow> entries s = [] \<and> jlines s = [] \<and> ar_items s = [] \<and> ap_items s = [] \<and>
     payments s = [] \<and> audit s = []"

text \<open>
  Every call has its own environment (base currency, entity, clock, parser); the hash function and
  the rounding are those of the deployment. \<open>runs\<close> relates a state to a later one.
\<close>

inductive runs :: "(string \<Rightarrow> string) \<Rightarrow> (rat \<Rightarrow> nat \<Rightarrow> rat) \<Rightarrow> db \<Rightarrow> db \<Rightarrow> bool"
  for hash :: "string \<Rightarrow> string" and rnd :: "rat \<Rightarrow> nat \<Rightarrow> rat" and s :: db where
  here: "runs hash rnd s s"
| step: "runs hash rnd s t \<Longrightarrow> env_hash env = hash \<Longrightarrow> env_round env = rnd \<Longrightarrow>
     service_step env t u \<Longrightarrow> runs hash rnd s u"

definition reachable :: "(string \<Rightarrow> string) \<Rightarrow> (rat \<Rightarrow> nat \<Rightarrow> rat) \<Rightarrow> db \<Rightarrow> bool" where
  "reachable hash rnd s \<longleftrightarrow> (\<exists>s\<^sub>0. no_history s\<^sub>0 \<and> runs hash rnd s\<^sub>0 s)"

lemma keeps_books_RejectApproval [keeps_intros]: "keeps (books env h) (RejectApproval i actor hp note)"
  unfolding RejectApproval_def by (intro keeps_intros)

lemma run_books: "t = snd (m s) \<Longrightarrow> keeps (books env h) m \<Longrightarrow> books env h s \<Longrightarrow> books env h t"
  by (simp add: keeps_def)

lemma service_step_books:
  assumes step: "service_step env s t" and rnd: "rounding_laws (env_round env)" and s: "books env h s"
  shows "books env h t"
  using step by cases (erule run_books [OF _ _ s]; (intro keeps_intros rnd; fail)?)+

lemma books_start: "no_history s \<Longrightarrow> books env [] s"
  by (auto simp: no_history_def books_def journal_inv_def entries_wf_def lines_wf_def reconciled_def
      items_wf_def side_wf_def payments_wf_def audit_ok_def numbers_wf_def items_of_def kept_def
      split: direction.splits)

lemma runs_books:
  assumes "runs hash rnd s t" "rounding_laws rnd" "env_hash env = hash" "books env h s"
  shows "books env h t"
  using assms(1,4)
proof induction
  case (step t env' u)
  have "books env' h = books env h" using step(2) assms(3) by (intro books_hash) simp
  with service_step_books [OF step(4), of h] step assms(2) show ?case by simp
qed

lemma reachable_books:
  assumes "reachable hash rnd s" "rounding_laws rnd" "env_hash env = hash"
  shows "books env [] s"
  using assms books_start runs_books unfolding reachable_def by blast

text \<open>A recorded entry stays recorded.\<close>

lemma runs_kept:
  assumes "books env [] s" "rounding_laws rnd" "env_hash env = hash" "runs hash rnd s t"
    and "e \<in> set (entries s)" "e_status e \<noteq> Draft"
  shows "recorded e t" "lines_of t (e_id e) = lines_of s (e_id e)"
proof -
  from assms(1,5,6) have "books env [(e, lines_of s (e_id e))] s"
    by (simp add: books_def kept_def recorded_def)
  from runs_books [OF assms(4,2,3) this]
  show "recorded e t" "lines_of t (e_id e) = lines_of s (e_id e)"
    by (simp_all add: books_def kept_def)
qed

end
