(* ===== verification/Reporting.thy ===== *)
theory Reporting
  imports Service "HOL-Library.Multiset"
begin

text \<open>
  Facts on the trial balance: its lines partitioned by account and by entry.
\<close>

lemma sum_list_partition:
  assumes "\<forall>x \<in> set xs. f x \<in> set ks" "distinct ks"
  shows "sum_list (map (\<lambda>k. sum_list (map g (filter (\<lambda>x. f x = k) xs))) ks) = sum_list (map g xs :: rat list)"
  using assms(1)
proof (induction xs)
  case (Cons x xs)
  have one: "sum_list (map (\<lambda>k. (if f x = k then g x else 0)) ks) = g x"
    using Cons.prems assms(2) by (simp add: sum_list_distinct_conv_sum_set)
  have "sum_list (map (\<lambda>k. sum_list (map g (filter (\<lambda>x. f x = k) (x # xs)))) ks) =
      sum_list (map (\<lambda>k. (if f x = k then g x else 0) + sum_list (map g (filter (\<lambda>x. f x = k) xs))) ks)"
    by (intro arg_cong [where f = sum_list] map_cong) simp_all
  also have "\<dots> = g x + sum_list (map g xs)"
    using Cons one by (simp add: sum_list_addf)
  finally show ?case by simp
qed simp

lemma sum_list_by_code: "sum_list (map g (by_code as)) = (sum_list (map g as) :: rat)"
proof -
  have "mset (map g (by_code as)) = mset (map g as)"
    by (simp only: by_code_def mset_map mset_sort)
  then show ?thesis by (metis sum_mset_sum_list)
qed

text \<open>The lines of the posted entries a window selects, whatever their account.\<close>

definition selected_lines :: "db \<Rightarrow> (entry \<Rightarrow> bool) \<Rightarrow> jline list" where
  "selected_lines s P = filter (\<lambda>l. entry_posted_in s P (l_entry l)) (jlines s)"

lemma account_lines_selected:
  "account_lines s P a = filter (\<lambda>l. l_account l = a) (selected_lines s P)"
  by (auto simp: account_lines_def selected_lines_def intro: filter_cong)

lemma selected_by_account:
  assumes "journal_inv s" "distinct (map a_id (accounts s))"
  shows "sum_list (map (\<lambda>a. sum_list (map g (account_lines s P (a_id a)))) (accounts s)) =
    (sum_list (map g (selected_lines s P)) :: rat)"
proof -
  have "\<forall>l \<in> set (selected_lines s P). l_account l \<in> set (map a_id (accounts s))"
    using assms(1) by (auto simp: selected_lines_def journal_inv_def lines_wf_def)
  from sum_list_partition [OF this assms(2), of g] show ?thesis
    by (simp add: account_lines_selected o_def)
qed

lemma selected_by_entry:
  assumes "journal_inv s"
  shows "sum_list (map (\<lambda>i. sum_list (map g (filter (\<lambda>l. l_entry l = i) (selected_lines s P)))) (map e_id (entries s))) =
    (sum_list (map g (selected_lines s P)) :: rat)"
  using assms
  by (intro sum_list_partition) (auto simp: selected_lines_def journal_inv_def lines_wf_def entries_wf_def)

lemma selected_balanced:
  assumes "journal_inv s"
  shows "base_debits (selected_lines s P) = base_credits (selected_lines s P)"
proof -
  have "base_debits (filter (\<lambda>l. l_entry l = i) (selected_lines s P)) =
      base_credits (filter (\<lambda>l. l_entry l = i) (selected_lines s P))" for i
  proof (cases "entry_posted_in s P i")
    case True
    then have "filter (\<lambda>l. l_entry l = i) (selected_lines s P) = lines_of s i"
      by (auto simp: selected_lines_def lines_of_def intro!: filter_cong)
    moreover from True have "balanced s i"
      using assms by (auto simp: entry_posted_in_def journal_inv_def dest!: entry_by_id_SomeD split: option.splits)
    ultimately show ?thesis by (simp add: balanced_def)
  next
    case False
    then have "filter (\<lambda>l. l_entry l = i) (selected_lines s P) = []"
      by (auto simp: selected_lines_def filter_empty_conv)
    then show ?thesis by (simp add: base_debits_def base_credits_def)
  qed
  then show ?thesis
    using selected_by_entry [OF assms, of l_debit_base P] selected_by_entry [OF assms, of l_credit_base P]
    by (simp add: base_debits_def base_credits_def)
qed

lemma trial_balance_totals:
  assumes "journal_inv s" "distinct (map a_id (accounts s))" "\<forall>a \<in> set (accounts s). a_active a"
    and "TrialBalance lo hi entities s = (Inr rows, t)"
  shows "sum_list (map tb_debit rows) = sum_list (map tb_credit rows)"
proof -
  let ?P = "in_scope lo hi entities"
  have act: "filter a_active (accounts s) = accounts s" using assms(3) by (simp add: filter_id_conv)
  have "sum_list (map tb_debit rows) = sum_list (map (\<lambda>a. base_debits (account_lines s ?P (a_id a))) (accounts s))"
    "sum_list (map tb_credit rows) = sum_list (map (\<lambda>a. base_credits (account_lines s ?P (a_id a))) (accounts s))"
    using assms(4) sum_list_by_code [of _ "accounts s"] by (auto simp: TrialBalance_def act Let_def o_def)
  then show ?thesis
    using selected_by_account [OF assms(1,2), of _ ?P] selected_balanced [OF assms(1), of ?P]
    by (simp add: base_debits_def base_credits_def)
qed

lemma distinct_filter_map_eq:
  "distinct (filter Q (map f xs)) \<Longrightarrow> x \<in> set xs \<Longrightarrow> y \<in> set xs \<Longrightarrow> f x = f y \<Longrightarrow> Q (f x) \<Longrightarrow> x = y"
  by (induction xs) (auto split: if_splits simp: image_iff)

end
