(* ===== verification/Journal_Facts.thy ===== *)
theory Journal_Facts
  imports Service "HOL-Library.Multiset"
begin

text \<open>
  What the operations of the manual lifecycle do on every branch: posting a draft, reversing a
  posted entry, clearing a document's postings, and booking an event for the first time.
\<close>

section \<open>Posting\<close>

definition posted_at :: "id \<Rightarrow> time \<Rightarrow> entry \<Rightarrow> entry" where
  "posted_at i t e = (if e_id e = i \<and> e_status e = Draft then e\<lparr>e_status := Posted, e_posted_at := Some t\<rparr> else e)"

lemma one_draft:
  assumes "distinct (map e_id es)" "row_by e_id i es = Some e" "e_status e = Draft"
  shows "length (filter (\<lambda>e. e_id e = i \<and> e_status e = Draft) es) = 1"
  using assms
proof (induction es)
  case (Cons x es)
  show ?case
  proof (cases "e_id x = i")
    case True
    with Cons.prems(1) have "filter (\<lambda>e. e_id e = i \<and> e_status e = Draft) es = []"
      by (auto simp: filter_empty_conv) (metis image_eqI)
    with True Cons.prems show ?thesis by simp
  qed (use Cons in simp)
qed simp

lemma posted_at_id [simp]: "e_id (posted_at i t e) = e_id e"
  by (simp add: posted_at_def)

lemma row_by_posted_at:
  "row_by e_id i es = Some e \<Longrightarrow> row_by e_id i (map (posted_at i t) es) = Some (posted_at i t e)"
  by (induction es) (simp_all split: if_splits)

lemma update_posted_at:
  "update_where (\<lambda>e. e_id e = i \<and> e_status e = Draft) (\<lambda>e. e\<lparr>e_status := Posted, e_posted_at := Some t\<rparr>) es =
     map (posted_at i t) es"
  by (simp add: update_where_def posted_at_def)

text \<open>The result of posting, and the state a successful posting leaves.\<close>

definition post_result :: "id \<Rightarrow> db \<Rightarrow> err + bool" where
  "post_result i s =
     (case entry_by_id s i of
        None \<Rightarrow> Inr False
      | Some e \<Rightarrow>
          if e_status e \<noteq> Draft then Inr False
          else if period_status_of s (format_period (e_acc_date e)) = Some PeriodClosed then Inl ErrPeriodClosed
          else if balanced s i then Inr True
          else Inl (CheckViolation ''journal entry is not balanced (base)''))"

lemma MarkEntryPosted_spec:
  assumes wf: "entries_wf s" and run: "MarkEntryPosted env i t a s = (r, s')"
  shows "r = post_result i s" "entries s' = (if r = Inr True then map (posted_at i t) (entries s) else entries s)"
    "jlines s' = jlines s" "periods s' = periods s" "accounts s' = accounts s"
proof -
  have all: "r = post_result i s \<and> entries s' = (if r = Inr True then map (posted_at i t) (entries s) else entries s) \<and>
    jlines s' = jlines s \<and> periods s' = periods s \<and> accounts s' = accounts s"
  proof (cases "entry_by_id s i")
    case None
    with run show ?thesis by (auto simp: MarkEntryPosted_def tx_def post_result_def entry_by_id_def)
  next
    case (Some e)
    let ?p = "period_status_of s (format_period (e_acc_date e))"
    show ?thesis
    proof (cases "e_status e = Draft \<and> ?p \<noteq> Some PeriodClosed")
      case False
      with run Some show ?thesis
        by (auto simp: MarkEntryPosted_def tx_def post_result_def entry_by_id_def period_status_of_def rollback_def
            split: if_splits)
    next
      case True
      let ?u = "s\<lparr>entries := map (posted_at i t) (entries s), touched := [i]\<rparr>"
      have one: "length (filter (\<lambda>e. e_id e = i \<and> e_status e = Draft) (entries s)) = 1"
        using wf Some True by (intro one_draft [of _ _ e]) (auto simp: entries_wf_def entry_by_id_def)
      obtain s2 where s2: "appendAudit env a ?u = (Inr (), s2)"
        using appendAudit_frame(1) by (metis prod.collapse)
      from appendAudit_frame(2) [OF s2] obtain au n where
        fr: "s2 = ?u\<lparr>audit := au, next_id := n\<rparr>" by blast
      have look: "row_by e_id i (entries s2) = Some (posted_at i t e)"
        using Some by (simp add: fr entry_by_id_def row_by_posted_at)
      have posted: "e_status (posted_at i t e) = Posted"
        using True Some by (auto simp: posted_at_def dest: entry_by_id_SomeD)
      have run': "MarkEntryPosted env i t a s =
          (if balanced s i then (Inr True, s2\<lparr>touched := []\<rparr>)
           else (Inl (CheckViolation ''journal entry is not balanced (base)''), rollback s s2))"
        using True Some s2 one look posted fr
        by (simp add: MarkEntryPosted_def tx_def entry_by_id_def period_status_of_def bind_apply update_entry_def
            update_posted_at assert_journal_balanced_def balanced_def lines_of_def)
      with run Some True fr show ?thesis
        by (auto simp: post_result_def rollback_def split: if_splits)
    qed
  qed
  then show "r = post_result i s" "entries s' = (if r = Inr True then map (posted_at i t) (entries s) else entries s)"
    "jlines s' = jlines s" "periods s' = periods s" "accounts s' = accounts s" by blast+
qed

section \<open>Reversing\<close>

definition reversed_at :: "id \<Rightarrow> entry \<Rightarrow> entry" where
  "reversed_at i e = (if e_id e = i then e\<lparr>e_status := Reversed\<rparr> else e)"

lemma reversed_at_id [simp]: "e_id (reversed_at i e) = e_id e"
  by (simp add: reversed_at_def)

lemma row_by_reversed_at:
  "row_by e_id k es = Some e \<Longrightarrow> row_by e_id k (map (reversed_at i) es) = Some (reversed_at i e)"
  by (induction es) (simp_all split: if_splits)

text \<open>The posted entry \<open>i\<close> of \<open>s\<close> is reversed by the entry \<open>r\<close> with the lines \<open>ks\<close>.\<close>

definition reversal :: "env \<Rightarrow> id \<Rightarrow> db \<Rightarrow> db \<Rightarrow> entry \<Rightarrow> jline list \<Rightarrow> bool" where
  "reversal env i s t r ks \<longleftrightarrow>
     entries t = map (reversed_at i) (entries s) @ [r] \<and> jlines t = jlines s @ ks \<and>
     e_status r = Posted \<and> e_reverses r = Some i \<and> e_id r = next_id s \<and> e_source_service r = None \<and>
     map line_key ks = map (\<lambda>l. line_key (store_line env (mirror_row (next_id s) l))) (sort_key l_order (lines_of s i)) \<and>
     accounts t = accounts s \<and> periods t = periods s"

lemma reverse_posted_Inr:
  assumes run: "reverse_posted env reason a e s = (Inr k, t)" and wf: "\<forall>x \<in> set (entries s). e_id x < next_id s"
    and e: "e \<in> set (entries s)"
  shows "\<exists>r ks. reversal env (e_id e) s t r ks"
proof -
  let ?i = "e_id e" and ?n = "entry_number (entry_seq s)"
  let ?r = "(reversal_entry env reason e ?n)\<lparr>e_id := next_id s\<rparr>"
  from run obtain s1 s2 s3 u where
    ins: "insert_entry (reversal_entry env reason e ?n) (s\<lparr>entry_seq := Suc (entry_seq s)\<rparr>) = (Inr k, s1)"
    and lines: "for_each (sort_key l_order (lines_of s ?i)) (\<lambda>l. bind (insert_line env (mirror_row k l)) (\<lambda>_. ok ())) s1 = (Inr (), s2)"
    and upd: "update_entry ?i (\<lambda>_. True) (\<lambda>e. e\<lparr>e_status := Reversed\<rparr>) s2 = (Inr u, s3)"
    and au: "appendAudit env a s3 = (Inr (), t)"
    unfolding reverse_posted_def nextEntryNumberTx_def by (auto simp: bind_Inr_iff)
  from ins have s1: "k = next_id s" "entries s1 = entries s @ [?r]" "jlines s1 = jlines s"
    "accounts s1 = accounts s" "periods s1 = periods s"
    by (auto simp: insert_entry_Inr)
  from for_each_insert_lines [OF lines] obtain ks where
    s2: "s2 = s1\<lparr>jlines := jlines s1 @ ks, next_id := next_id s2, touched := touched s2\<rparr>"
    and ks: "map line_key ks = map (\<lambda>l. line_key (store_line env (mirror_row k l))) (sort_key l_order (lines_of s ?i))"
    by blast
  have s2f: "entries s2 = entries s1" "jlines s2 = jlines s1 @ ks" "accounts s2 = accounts s1" "periods s2 = periods s1"
    by (subst s2; simp)+
  have new: "e_id ?r \<noteq> ?i" using wf e by auto
  have old: "update_where (\<lambda>x. e_id x = ?i) (\<lambda>x. x\<lparr>e_status := Reversed\<rparr>) xs = map (reversed_at ?i) xs" for xs
    by (simp add: update_where_def reversed_at_def)
  have s3: "s3 = s2\<lparr>entries := map (reversed_at ?i) (entries s @ [?r]), touched := ?i # touched s2\<rparr>"
    using upd by (auto simp: update_entry_def old s2f(1) s1(2))
  from new have "reversed_at ?i ?r = ?r" by (simp add: reversed_at_def)
  moreover obtain au n where "t = s3\<lparr>audit := au, next_id := n\<rparr>"
    using appendAudit_frame(2) [OF au] by blast
  ultimately have "reversal env ?i s t ?r ks"
    using s1 s2f ks by (simp add: reversal_def s3 reversal_entry_def)
  then show ?thesis by blast
qed

lemma ReverseEntry_Inr:
  assumes wf: "entries_wf s" and run: "ReverseEntry env i reason a s = (Inr j, t)"
  shows "\<exists>e r ks. entry_by_id s i = Some e \<and> e_status e = Posted \<and> reversal env i s t r ks"
proof -
  from run obtain k u where u: "(case entry_by_id s i of None \<Rightarrow> fail ErrEntryNotFound
      | Some e \<Rightarrow> if e_status e \<noteq> Posted then fail ErrNotReversible else reverse_posted env reason a e)
        (s\<lparr>touched := []\<rparr>) = (Inr k, u)" and t: "t = u\<lparr>touched := []\<rparr>"
    unfolding ReverseEntry_def GetJournalEntry_def
    by (auto elim!: bind_InrE tx_InrD simp: entry_by_id_def)
  then obtain e where e: "entry_by_id s i = Some e" "e_status e = Posted"
      "reverse_posted env reason a e (s\<lparr>touched := []\<rparr>) = (Inr k, u)"
    by (auto split: option.splits if_splits)
  note ei = entry_by_id_SomeD [OF e(1)]
  from reverse_posted_Inr [OF e(3)] wf ei obtain r ks where "reversal env i (s\<lparr>touched := []\<rparr>) u r ks"
    by (auto simp: entries_wf_def)
  then have "reversal env i s t r ks" by (simp add: reversal_def t lines_of_def)
  with e show ?thesis by blast
qed

lemma reversal_found:
  assumes "reversal env i s t r ks" "entry_by_id s i = Some e"
  shows "entry_by_id t i = Some (e\<lparr>e_status := Reversed\<rparr>)"
proof -
  from assms(2) have "row_by e_id i (map (reversed_at i) (entries s)) = Some (reversed_at i e)" "e_id e = i"
    by (auto simp: entry_by_id_def row_by_reversed_at dest: row_by_Some_in)
  with assms(1) show ?thesis by (simp add: reversal_def entry_by_id_def row_by_append) (simp add: reversed_at_def)
qed

lemma ReverseEntry_not_posted:
  assumes "entry_by_id s i = Some e" "e_status e \<noteq> Posted"
  shows "ReverseEntry env i reason a s = (Inl ErrNotReversible, s)"
  using assms by (simp add: ReverseEntry_def bind_apply tx_def entry_by_id_def rollback_def)

text \<open>The nominal movement of a list of lines on an account.\<close>

definition movement :: "id \<Rightarrow> jline list \<Rightarrow> rat" where
  "movement acct ls = sum_list (map (\<lambda>l. l_debit l - l_credit l) (filter (\<lambda>l. l_account l = acct) ls))"

lemma movement_key: "map line_key ks = map line_key ls \<Longrightarrow> movement acct ks = movement acct ls"
proof -
  have "movement acct xs = sum_list (map (\<lambda>l. l_debit l - l_credit l) (filter (\<lambda>l. l_account l = acct) (map line_key xs)))" for xs
    by (induction xs) (simp_all add: movement_def line_key_def)
  then show "map line_key ks = map line_key ls \<Longrightarrow> movement acct ks = movement acct ls" by simp
qed

lemma movement_mset: "mset ls = mset ks \<Longrightarrow> movement acct ls = movement acct ks"
proof -
  assume "mset ls = mset ks"
  then have "mset (map (\<lambda>l. l_debit l - l_credit l) (filter (\<lambda>l. l_account l = acct) ls)) =
      mset (map (\<lambda>l. l_debit l - l_credit l) (filter (\<lambda>l. l_account l = acct) ks))"
    by (simp only: mset_map mset_filter)
  then show ?thesis unfolding movement_def by (metis sum_mset_sum_list)
qed

lemma movement_mirror:
  assumes "rounding_laws (env_round env)" "\<forall>l \<in> set ls. has_places 4 (l_debit l) \<and> has_places 4 (l_credit l)"
  shows "movement acct (map (\<lambda>l. store_line env (mirror_row k l)) ls) = - movement acct ls"
  using assms(2)
  by (induction ls) (simp_all add: movement_def store_line_def mirror_row_def round_exact [OF assms(1)])

lemma reversal_movement:
  assumes "reversal env i s t r ks" "rounding_laws (env_round env)"
    and "\<forall>l \<in> set (lines_of s i). has_places 4 (l_debit l) \<and> has_places 4 (l_credit l)"
  shows "movement acct ks = - movement acct (lines_of s i)"
proof -
  let ?ls = "sort_key l_order (lines_of s i)"
  have "movement acct ks = movement acct (map (\<lambda>l. store_line env (mirror_row (next_id s) l)) ?ls)"
    using assms(1) by (intro movement_key) (simp add: reversal_def o_def)
  also have "\<dots> = - movement acct ?ls" using assms(2,3) by (intro movement_mirror) auto
  also have "movement acct ?ls = movement acct (lines_of s i)" by (intro movement_mset) simp
  finally show ?thesis .
qed

section \<open>Clearing a document's postings\<close>

lemma DeleteDraftEntry_Inr:
  assumes "DeleteDraftEntry i s = (Inr u, t)"
  shows "entries t = filter (\<lambda>e. e_id e \<noteq> i) (entries s)"
  using assms unfolding DeleteDraftEntry_def
  by (elim tx_InrD) (auto simp: delete_lines_def delete_entry_def drop_refs_def split: option.splits if_splits)

lemma DeleteDraftEntry_NotDraft:
  assumes "DeleteDraftEntry i s = (Inl ErrNotDraft, t)"
  shows "t = s\<lparr>entry_seq := entry_seq t\<rparr>" "\<exists>e. entry_by_id s i = Some e \<and> e_status e \<noteq> Draft"
  using assms unfolding DeleteDraftEntry_def tx_def
  by (auto simp: delete_lines_def delete_entry_def entry_by_id_def rollback_def
      split: option.splits if_splits prod.splits sum.splits)

definition live :: "string \<Rightarrow> string \<Rightarrow> entry \<Rightarrow> bool" where
  "live sv dn e \<longleftrightarrow> e_source_service e = Some sv \<and> e_correlation e = Some dn \<and> e_status e \<noteq> Reversed"

definition live_ids :: "string \<Rightarrow> string \<Rightarrow> db \<Rightarrow> id set" where
  "live_ids sv dn s = e_id ` {e \<in> set (entries s). live sv dn e}"

text \<open>An entry the list reports past the draft stage stays past it.\<close>

definition past_draft :: "(id \<times> entry_status) list \<Rightarrow> db \<Rightarrow> bool" where
  "past_draft xs s \<longleftrightarrow> (\<forall>(i, st) \<in> set xs. st \<noteq> Draft \<longrightarrow> (\<forall>e \<in> set (entries s). e_id e = i \<longrightarrow> e_status e \<noteq> Draft))"

lemma past_draft_delete:
  "past_draft xs s \<Longrightarrow> entries t = filter P (entries s) \<Longrightarrow> past_draft xs t"
  by (auto simp: past_draft_def)

lemma past_draft_reversal:
  assumes "past_draft xs s" "reversal env i s t r ks"
  shows "past_draft xs t"
proof -
  have "e_status e \<noteq> Draft" if x: "(k, st) \<in> set xs" "st \<noteq> Draft" and e: "e \<in> set (entries t)" "e_id e = k" for k st e
  proof -
    from e(1) assms(2) consider (new) "e = r" | (old) e' where "e' \<in> set (entries s)" "e = reversed_at i e'"
      by (auto simp: reversal_def)
    then show ?thesis
    proof cases
      case old
      with e(2) x assms(1) have "e_status e' \<noteq> Draft" by (auto simp: past_draft_def)
      with old show ?thesis by (simp add: reversed_at_def)
    qed (use assms(2) in \<open>simp add: reversal_def\<close>)
  qed
  then show ?thesis by (auto simp: past_draft_def)
qed

lemma live_reversal:
  assumes "reversal env i s t r ks"
  shows "live_ids sv dn t = live_ids sv dn s - {i}"
proof -
  have "live sv dn (reversed_at i e) \<longleftrightarrow> live sv dn e \<and> e_id e \<noteq> i" for e
    by (auto simp: live_def reversed_at_def)
  moreover have "e_id e \<noteq> i \<Longrightarrow> reversed_at i e = e" for e by (simp add: reversed_at_def)
  moreover have "\<not> live sv dn r" using assms by (auto simp: reversal_def live_def)
  ultimately have "{e \<in> set (entries t). live sv dn e} = {e \<in> set (entries s). live sv dn e \<and> e_id e \<noteq> i}"
    using assms by (force simp: reversal_def)
  then show ?thesis by (auto simp: live_ids_def)
qed

lemma raises_reverse_posted: "raises (\<lambda>e. e \<noteq> ErrNotReversible) (reverse_posted env reason a e)"
proof -
  have "raises (\<lambda>e. e \<noteq> ErrNotReversible) (insert_entry x)" for x
    by (auto simp: raises_def insert_entry_def)
  moreover have "raises (\<lambda>e. e \<noteq> ErrNotReversible) (insert_line env l)" for l
    by (auto simp: raises_def insert_line_def Let_def)
  moreover have "raises E nextEntryNumberTx" "raises E (update_entry i P f)" "raises E (appendAudit env a)" for E i P f
    using appendAudit_frame(1) by (fastforce simp: raises_def nextEntryNumberTx_def update_entry_def)+
  ultimately show ?thesis
    unfolding reverse_posted_def by (intro raises_intros)
qed

lemma ReverseEntry_NotReversible:
  assumes "ReverseEntry env i reason a s = (Inl ErrNotReversible, t)"
  shows "t = s" "\<exists>e. entry_by_id s i = Some e \<and> e_status e \<noteq> Posted"
proof -
  have "t = s \<and> (\<exists>e. entry_by_id s i = Some e \<and> e_status e \<noteq> Posted)"
  proof (cases "entry_by_id s i")
    case None
    with assms show ?thesis
      by (simp add: ReverseEntry_def bind_apply tx_def entry_by_id_def)
  next
    case (Some e)
    show ?thesis
    proof (cases "e_status e = Posted")
      case True
      with Some assms show ?thesis
        using raisesD [OF raises_reverse_posted [of env reason a e], of "s\<lparr>touched := []\<rparr>"]
        by (auto simp: ReverseEntry_def GetJournalEntry_def bind_apply tx_def entry_by_id_def
            split: sum.splits prod.splits if_splits)
    next
      case False
      with ReverseEntry_not_posted [OF Some False] Some assms show ?thesis by simp
    qed
  qed
  then show "t = s" "\<exists>e. entry_by_id s i = Some e \<and> e_status e \<noteq> Posted" by blast+
qed

lemma reverse_or_skip:
  assumes "entries_wf s"
    and "catch (bind (ReverseJournalEntry env i reason actor) (\<lambda>_. ok x))
           (\<lambda>e. if e = ErrNotReversible then ok y else fail e) s = (Inr z, t)"
  shows "(\<exists>r ks. reversal env i s t r ks) \<or> (\<exists>e. entry_by_id s i = Some e \<and> e_status e \<noteq> Posted \<and> t = s)"
proof (cases "ReverseJournalEntry env i reason actor s")
  case (Pair q u)
  show ?thesis
  proof (cases q)
    case (Inr j)
    with assms(2) Pair have "u = t" by (simp add: catch_apply bind_apply)
    with ReverseEntry_Inr [OF assms(1)] Pair Inr show ?thesis
      unfolding ReverseJournalEntry_def by blast
  next
    case (Inl err)
    with assms(2) Pair have err: "err = ErrNotReversible" "u = t"
      by (auto simp: catch_apply bind_apply split: if_splits)
    from ReverseEntry_NotReversible [OF Pair [unfolded ReverseJournalEntry_def Inl err]] show ?thesis by blast
  qed
qed

lemma reverse_round:
  assumes ewf: "entries_wf s" and tail: "past_draft xs s"
    and nd: "\<forall>e. entry_by_id s i = Some e \<longrightarrow> e_status e \<noteq> Draft"
    and r: "(\<exists>r ks. reversal env i s t r ks) \<or> (\<exists>e. entry_by_id s i = Some e \<and> e_status e \<noteq> Posted \<and> t = s)"
  shows "live_ids sv dn t \<subseteq> live_ids sv dn s - {i} \<and> past_draft xs t"
proof -
  from r consider (rev) r ks where "reversal env i s t r ks"
    | (skip) e where "entry_by_id s i = Some e" "e_status e \<noteq> Posted" "t = s" by blast
  then show ?thesis
  proof cases
    case rev
    with live_reversal past_draft_reversal [OF tail] show ?thesis by blast
  next
    case skip
    with nd have st: "e_status e = Reversed" by (cases "e_status e") auto
    have "i \<notin> live_ids sv dn s"
    proof
      assume "i \<in> live_ids sv dn s"
      then obtain x where x: "x \<in> set (entries s)" "e_id x = i" "live sv dn x" by (auto simp: live_ids_def)
      with entry_by_id_wf [OF ewf x(1)] skip(1) st show False by (simp add: live_def)
    qed
    with skip tail show ?thesis by auto
  qed
qed

text \<open>One round: the entry it was given is not live any more, and no other became live.\<close>

lemma supersede_one_round:
  assumes wf: "journal_inv s" and past: "past_draft ((i, st) # xs) s"
    and run: "supersede_one env reason actor (i, st) out s = (Inr out', t)"
  shows "live_ids sv dn t \<subseteq> live_ids sv dn s - {i}" "past_draft xs t"
proof -
  have ewf: "entries_wf s" using wf by (simp add: journal_inv_def)
  have tail: "past_draft xs s" using past by (simp add: past_draft_def)
  have "live_ids sv dn t \<subseteq> live_ids sv dn s - {i} \<and> past_draft xs t"
  proof (cases "st = Draft")
    case False
    with past have "\<forall>e. entry_by_id s i = Some e \<longrightarrow> e_status e \<noteq> Draft"
      by (auto simp: past_draft_def dest!: entry_by_id_SomeD)
    moreover have "(\<exists>r ks. reversal env i s t r ks) \<or> (\<exists>e. entry_by_id s i = Some e \<and> e_status e \<noteq> Posted \<and> t = s)"
      using run False by (intro reverse_or_skip [OF ewf]) (simp add: supersede_one_def Let_def)
    ultimately show ?thesis by (intro reverse_round [OF ewf tail])
  next
    case True
    show ?thesis
    proof (cases "DeleteDraftEntry i s")
      case (Pair q u)
      show ?thesis
      proof (cases q)
        case (Inr x)
        with run True Pair have "t = u" by (simp add: supersede_one_def Let_def catch_apply bind_apply)
        with DeleteDraftEntry_Inr Pair Inr have "entries t = filter (\<lambda>e. e_id e \<noteq> i) (entries s)" by blast
        with tail past_draft_delete show ?thesis by (auto simp: live_ids_def)
      next
        case (Inl err)
        with run True Pair have "err = ErrNotDraft"
          by (auto simp: supersede_one_def Let_def catch_apply bind_apply split: if_splits)
        note d = DeleteDraftEntry_NotDraft [OF Pair [unfolded Inl this]]
        obtain n where u: "u = s\<lparr>entry_seq := n\<rparr>" using d(1) by blast
        have same: "entries_wf u" "live_ids sv dn u = live_ids sv dn s" "past_draft xs u"
          using ewf tail by (simp_all add: u entries_wf_def live_ids_def past_draft_def)
        have "(\<exists>r ks. reversal env i u t r ks) \<or> (\<exists>e. entry_by_id u i = Some e \<and> e_status e \<noteq> Posted \<and> t = u)"
          using run True Pair Inl \<open>err = ErrNotDraft\<close>
          by (intro reverse_or_skip [OF same(1)]) (simp add: supersede_one_def Let_def catch_apply bind_apply)
        moreover from d(2) have "\<forall>e. entry_by_id u i = Some e \<longrightarrow> e_status e \<noteq> Draft" by (auto simp: u entry_by_id_def)
        ultimately show ?thesis
          using reverse_round [OF same(1,3)] same(2) by blast
      qed
    qed
  qed
  then show "live_ids sv dn t \<subseteq> live_ids sv dn s - {i}" "past_draft xs t" by blast+
qed

lemma supersede_loop_clears:
  assumes "journal_inv s" "past_draft xs s"
    and "supersede_loop env reason actor xs out s = (Inr out', t)"
  shows "live_ids sv dn t \<subseteq> live_ids sv dn s - fst ` set xs"
  using assms
proof (induction xs arbitrary: s out)
  case (Cons x xs)
  obtain i st where x: "x = (i, st)" by (cases x)
  from Cons.prems(3) obtain o1 s1 where one: "supersede_one env reason actor (i, st) out s = (Inr o1, s1)"
    and rest: "supersede_loop env reason actor xs o1 s1 = (Inr out', t)"
    unfolding x supersede_loop.simps by (rule bind_InrE)
  from keeps_run [OF keeps_supersede_one Cons.prems(1) one] have "journal_inv s1" .
  note round = supersede_one_round [OF Cons.prems(1) Cons.prems(2) [unfolded x] one]
  have "live_ids sv dn t \<subseteq> live_ids sv dn s1 - fst ` set xs"
    by (rule Cons.IH [OF \<open>journal_inv s1\<close> round(2) rest])
  moreover have "live_ids sv dn s1 \<subseteq> live_ids sv dn s - {i}" by (rule round(1))
  ultimately show ?case by (auto simp: x)
qed simp

lemma supersede_clears:
  assumes "journal_inv s" "SupersedeEntriesBySource env sv dn reason actor s = (Inr out, t)"
  shows "live_ids sv dn t = {}"
proof -
  let ?xs = "map (\<lambda>e. (e_id e, e_status e)) (filter (live sv dn) (rev (entries s)))"
  have ids: "live_ids sv dn s = fst ` set ?xs" by (auto simp: live_ids_def image_iff)
  have "past_draft ?xs s"
  proof -
    have "e_status e' = e_status e" if "e \<in> set (entries s)" "e' \<in> set (entries s)" "e_id e' = e_id e" for e e'
      using that assms(1) by (metis entry_by_id_wf journal_inv_def option.inject)
    note same = this
    show ?thesis
      unfolding past_draft_def
    proof
      fix x assume "x \<in> set ?xs"
      then obtain e where e: "e \<in> set (entries s)" "x = (e_id e, e_status e)" by auto
      from same [OF e(1)] show "case x of (i, st) \<Rightarrow> st \<noteq> Draft \<longrightarrow> (\<forall>e \<in> set (entries s). e_id e = i \<longrightarrow> e_status e \<noteq> Draft)"
        unfolding e(2) prod.case by metis
    qed
  qed
  moreover have "supersede_loop env reason actor ?xs \<lparr>sr_reversed = [], sr_deleted = []\<rparr> s = (Inr out, t)"
    using assms(2) by (simp add: SupersedeEntriesBySource_def ListEntriesBySource_def live_def [abs_def])
  ultimately have "live_ids sv dn t \<subseteq> live_ids sv dn s - fst ` set ?xs"
    by (rule supersede_loop_clears [OF assms(1)])
  with ids show ?thesis by blast
qed

section \<open>Booking an event for the first time\<close>

lemma resolve_from_lines:
  "resolve_from i ls s = (Inr rs, t) \<Longrightarrow> t = s \<and>
     list_all2 (\<lambda>l r. (\<exists>a. account_by_code s (li_code l) = Some a \<and> rl_account r = a_id a) \<and>
       rl_debit r = li_debit l \<and> rl_credit r = li_credit l \<and> rl_memo r = li_memo l) ls rs"
proof (induction ls arbitrary: i rs t)
  case (Cons l ls)
  from Cons.prems obtain a rs' t' where a: "account_by_code s (li_code l) = Some a"
    and rest: "resolve_from (i + 1) ls s = (Inr rs', t')" and rs: "rs = resolved_of a l i # rs'" "t = t'"
    by (auto simp: GetAccountByCode_def bind_apply split: option.splits if_splits prod.splits sum.splits)
  from a Cons.IH [OF rest] show ?case by (simp add: rs resolved_of_def)
qed simp

lemma BookPostedEntry_first:
  assumes ev: "ev \<noteq> ''''" "jp_source_event p = Some ev"
    and new: "\<not> event_processed s ev" "entry_by_source s ev = None"
    and run: "BookPostedEntry env p ev ty postedAt (None :: (id \<Rightarrow> unit action) option) a s = (Inr (Some j, x), t)"
  shows "\<exists>i. booking_tx env p ev ty postedAt (None :: (id \<Rightarrow> unit action) option) a s = (Inr (i, x), t) \<and>
    GetJournalEntry i t = (Inr (Some j), t)"
proof (cases "booking_tx env p ev ty postedAt (None :: (id \<Rightarrow> unit action) option) a s")
  case (Pair q u)
  show ?thesis
  proof (cases q)
    case (Inl e)
    obtain n where "u = s\<lparr>entry_seq := n\<rparr>" using booking_tx_Inl [OF Pair [unfolded Inl]] by blast
    with run Pair Inl new ev show ?thesis
      by (auto simp: BookPostedEntry_def Let_def IsEventProcessed_def bind_apply catch_apply
          GetJournalEntryBySourceEvent_def entry_by_source_def split: if_splits)
  next
    case (Inr y)
    obtain i z where "y = (i, z)" by (cases y)
    with run Pair Inr new ev show ?thesis
      by (auto simp: BookPostedEntry_def Let_def IsEventProcessed_def bind_apply catch_apply GetJournalEntry_def)
  qed
qed

lemma list_all2_of_map: "map f xs = map g ys \<Longrightarrow> list_all2 (\<lambda>x y. f x = g y) xs ys"
  by (simp add: list_all2_conv_all_nth) (metis length_map nth_map)

lemma line_key_fields:
  "line_key k = line_key m \<Longrightarrow> l_entry k = l_entry m \<and> l_account k = l_account m \<and> l_debit k = l_debit m \<and>
     l_credit k = l_credit m \<and> l_memo k = l_memo m"
  by (cases k; cases m) (simp add: line_key_def)

text \<open>The stored line \<open>k\<close> of the entry \<open>i\<close> says what the requested line \<open>l\<close> says.\<close>

definition stored_as :: "env \<Rightarrow> db \<Rightarrow> id \<Rightarrow> line_input \<Rightarrow> jline \<Rightarrow> bool" where
  "stored_as env s i l k \<longleftrightarrow> (\<exists>a. account_by_code s (li_code l) = Some a \<and> l_account k = a_id a) \<and> l_entry k = i \<and>
     l_debit k = env_round env (li_debit l) 4 \<and> l_credit k = env_round env (li_credit l) 4 \<and> l_memo k = li_memo l"

lemma BookFromEvent_call:
  assumes "BookFromEvent env ref desc c ls s = (Inr j, t)"
  obtains rs w x fx a where "validateBalance ls = None" "resolveLines ls s = (Inr rs, s)"
    "resolvePostingWindow env ref s = (Inr w, s)"
    "BookPostedEntry env (event_params ref w (describeDeferral desc w) c fx rs) (er_id ref) (er_type ref)
        (env_now env) (None :: (id \<Rightarrow> unit action) option) a s = (Inr (j, x), t)"
proof -
  from assms obtain rs s1 w s2 fx s3 x where ls: "validateBalance ls = None"
    and run: "resolveLines ls s = (Inr rs, s1)" "resolvePostingWindow env ref s1 = (Inr w, s2)"
      "RateOrOne env c (date_of (pw_transaction w)) s2 = (Inr fx, s3)"
      "BookPostedEntry env (event_params ref w (describeDeferral desc w) c fx rs) (er_id ref) (er_type ref)
        (env_now env) (None :: (id \<Rightarrow> unit action) option)
        (Some \<lparr>ai_actor = ''system:'' @ er_source ref, ai_type = ''ledger.booked'',
          ai_message = er_type ref @ '' booked from '' @ er_source ref @ '' ('' @ describeDeferral desc w @ '')''\<rparr>) s3 =
        (Inr (j, x), t)"
    unfolding BookFromEvent_def Let_def
    by (auto simp: bind_Inr_iff check_Inr_iff split: if_splits prod.splits)
  have "s1 = s" by (rule reads_final [OF reads_resolveLines run(1)])
  moreover have "s2 = s1" by (rule reads_final [OF reads_resolvePostingWindow run(2)])
  moreover have "s3 = s2" by (rule reads_final [OF reads_RateOrOne run(3)])
  ultimately show thesis using that ls run by simp
qed

text \<open>What a handler that books balanced lines for an event for the first time leaves behind.\<close>

definition booked_first :: "env \<Rightarrow> event_ref \<Rightarrow> line_input list \<Rightarrow> db \<Rightarrow> db \<Rightarrow> entry \<Rightarrow> bool" where
  "booked_first env ref ls s t e \<longleftrightarrow> (\<exists>ks. entries t = entries s @ [e] \<and> jlines t = jlines s @ ks \<and> e_status e = Posted \<and>
     e_source_event e = Some (er_id ref) \<and> event_processed t (er_id ref) \<and>
     period_status_of s (format_period (e_acc_date e)) \<noteq> Some PeriodClosed \<and>
     total_debit ls = total_credit ls \<and> list_all2 (stored_as env s (e_id e)) ls ks)"

lemma event_booked_first:
  assumes ev: "er_id ref \<noteq> ''''" and new: "\<not> event_processed s (er_id ref)" "entry_by_source s (er_id ref) = None"
    and ls: "validateBalance ls = None"
    and rs: "resolveLines ls s = (Inr rs, s)" and w: "resolvePostingWindow env ref s = (Inr w, s)"
    and book: "BookPostedEntry env (event_params ref w d c fx rs) (er_id ref) (er_type ref)
        (env_now env) (None :: (id \<Rightarrow> unit action) option) a s = (Inr (Some j, x), t)"
  shows "\<exists>e. booked_first env ref ls s t e \<and> e_id e = e_id (j_entry j)"
proof -
  let ?p = "event_params ref w d c fx rs"
  have p: "jp_source_event ?p = Some (er_id ref)" "jp_lines ?p = rs" "jp_acc_date ?p = Some (date_of (pw_accounting w))"
    by (simp_all add: event_params_def)
  from BookPostedEntry_first [OF ev p(1) new book] obtain i where
    tx: "booking_tx env ?p (er_id ref) (er_type ref) (env_now env) (None :: (id \<Rightarrow> unit action) option) a s =
        (Inr (i, x), t)" and j: "GetJournalEntry i t = (Inr (Some j), t)" by blast
  from booking_tx_Inr [OF tx] obtain ks where
    t: "entries t = entries s @ [posted_row env ?p (env_now env) (entry_number (entry_seq s)) i]"
      "jlines t = jlines s @ ks" "processed t = processed s @ [(er_id ref, er_type ref)]"
      "map line_key ks = map (\<lambda>l. line_key (store_line env (line_row env ?p i l))) rs"
    using ev by (auto simp: p)
  let ?e = "posted_row env ?p (env_now env) (entry_number (entry_seq s)) i"
  have "list_all2 (\<lambda>k r. line_key k = line_key (store_line env (line_row env ?p i r))) ks rs"
    by (rule list_all2_of_map) (rule t(4))
  then have "list_all2 (\<lambda>r k. l_entry k = i \<and> l_account k = rl_account r \<and> l_debit k = env_round env (rl_debit r) 4 \<and>
      l_credit k = env_round env (rl_credit r) 4 \<and> l_memo k = rl_memo r) rs ks"
    by (auto simp: list_all2_conv_all_nth line_row_def store_line_def dest!: line_key_fields)
  then have "list_all2 (stored_as env s i) ls ks"
    using rs resolve_from_lines [of 0 ls s rs s]
    by (auto simp: resolveLines_def list_all2_conv_all_nth stored_as_def)
  moreover have "e_id ?e = i" "e_status ?e = Posted" "e_source_event ?e = Some (er_id ref)"
    "format_period (e_acc_date ?e) = period_of_time (pw_accounting w)"
    by (simp_all add: posted_row_def p resolveAccountingDate_def period_of_time_def)
  moreover have "e_id (j_entry j) = i"
    using j by (auto simp: GetJournalEntry_def entry_by_id_def dest: row_by_Some_in)
  ultimately show ?thesis
    using t(1-3) resolvePostingWindow_open [OF w] ls
    by (intro exI [of _ ?e]) (auto simp: booked_first_def event_processed_def validateBalance_None_iff)
qed

lemma BookFromEvent_first:
  assumes ev: "er_id ref \<noteq> ''''" and new: "\<not> event_processed s (er_id ref)" "entry_by_source s (er_id ref) = None"
    and run: "BookFromEvent env ref desc c ls s = (Inr (Some j), t)"
  shows "\<exists>e ks. entries t = entries s @ [e] \<and> jlines t = jlines s @ ks \<and> e_status e = Posted \<and>
     e_source_event e = Some (er_id ref) \<and> event_processed t (er_id ref) \<and>
     period_status_of s (format_period (e_acc_date e)) \<noteq> Some PeriodClosed \<and>
     total_debit ls = total_credit ls \<and> list_all2 (stored_as env s (e_id e)) ls ks"
proof -
  from run obtain rs w x fx a where "validateBalance ls = None" "resolveLines ls s = (Inr rs, s)"
    "resolvePostingWindow env ref s = (Inr w, s)"
    "BookPostedEntry env (event_params ref w (describeDeferral desc w) c fx rs) (er_id ref) (er_type ref)
        (env_now env) (None :: (id \<Rightarrow> unit action) option) a s = (Inr (Some j, x), t)"
    by (rule BookFromEvent_call)
  from event_booked_first [OF ev new this] show ?thesis unfolding booked_first_def by blast
qed

section \<open>The service call that posts\<close>

definition postable :: "id \<Rightarrow> db \<Rightarrow> bool" where
  "postable i s \<longleftrightarrow>
     (case entry_by_id s i of
        None \<Rightarrow> False
      | Some e \<Rightarrow> e_status e = Draft \<and> validateEntryLines (loadJournalLines s i) = None \<and>
          period_status_of s (format_period (e_acc_date e)) \<noteq> Some PeriodClosed \<and> balanced s i)"

lemma PostJournalEntry_spec:
  assumes wf: "entries_wf s" and run: "PostJournalEntry env i actor s = (r, t)"
  shows "(case r of Inl _ \<Rightarrow> \<not> postable i s | Inr _ \<Rightarrow> postable i s)"
    "entries t = (if postable i s then map (posted_at i (env_now env)) (entries s) else entries s)"
    "jlines t = jlines s"
proof -
  have "(case r of Inl _ \<Rightarrow> \<not> postable i s | Inr _ \<Rightarrow> postable i s) \<and>
    entries t = (if postable i s then map (posted_at i (env_now env)) (entries s) else entries s) \<and> jlines t = jlines s"
  proof (cases "entry_by_id s i")
    case None
    with run show ?thesis by (auto simp: PostJournalEntry_def GetJournalEntry_def postable_def)
  next
    case (Some e)
    show ?thesis
    proof (cases "e_status e = Draft \<and> validateEntryLines (loadJournalLines s i) = None")
      case False
      with run Some show ?thesis
        by (cases "validateEntryLines (loadJournalLines s i)")
          (auto simp: PostJournalEntry_def GetJournalEntry_def postable_def split: if_splits)
    next
      case True
      obtain a where run': "bind (MarkEntryPosted env i (env_now env) a)
          (\<lambda>posted. if \<not> posted then fail ErrInvalidStatus else GetJournalEntry i) s = (r, t)"
        using run Some True by (simp add: PostJournalEntry_def GetJournalEntry_def)
      obtain q u where m: "MarkEntryPosted env i (env_now env) a s = (q, u)" by (cases "MarkEntryPosted env i (env_now env) a s")
      note spec = MarkEntryPosted_spec [OF wf m]
      from run' m have "t = u" "r = (case q of Inl x \<Rightarrow> Inl x | Inr b \<Rightarrow> if b then fst (GetJournalEntry i u) else Inl ErrInvalidStatus)"
        by (auto simp: bind_apply GetJournalEntry_def split: sum.splits if_splits)
      with spec Some True show ?thesis
        by (auto simp: postable_def post_result_def GetJournalEntry_def split: if_splits)
    qed
  qed
  then show "(case r of Inl _ \<Rightarrow> \<not> postable i s | Inr _ \<Rightarrow> postable i s)"
    "entries t = (if postable i s then map (posted_at i (env_now env)) (entries s) else entries s)"
    "jlines t = jlines s" by blast+
qed

section \<open>The lines of a reversal\<close>

lemma reversal_lines:
  assumes wf: "journal_inv s" and rv: "reversal env i s t r ks" and i: "entry_by_id s i = Some e"
  shows "lines_of t (e_id r) = ks" "lines_of t i = lines_of s i"
proof -
  have new: "\<forall>k \<in> set ks. l_entry k = next_id s"
  proof
    fix k assume "k \<in> set ks"
    then have "line_key k \<in> line_key ` set (map (\<lambda>l. store_line env (mirror_row (next_id s) l)) (sort_key l_order (lines_of s i)))"
      using rv by (metis (mono_tags, lifting) image_eqI image_set list.map_comp o_def reversal_def list.map_cong)
    then obtain l where "line_key k = line_key (store_line env (mirror_row (next_id s) l))" by auto
    from line_key_fields [OF this] show "l_entry k = next_id s" by (simp add: mirror_row_def)
  qed
  have old: "\<forall>l \<in> set (jlines s). l_entry l < next_id s"
    using wf by (force simp: journal_inv_def lines_wf_def entries_wf_def)
  have "i < next_id s" using i wf by (auto simp: journal_inv_def entries_wf_def dest!: entry_by_id_SomeD)
  then show "lines_of t i = lines_of s i"
    using rv new by (auto simp: reversal_def lines_of_def filter_empty_conv)
  show "lines_of t (e_id r) = ks"
    using rv new old by (auto simp: reversal_def lines_of_def filter_empty_conv filter_id_conv)
qed

section \<open>Closing a period\<close>

lemma row_by_upsert:
  "row_by fp_period (fp_period r) (if fp_period r \<in> fp_period ` set rs
      then update_where (\<lambda>q. fp_period q = fp_period r) (\<lambda>_. r) rs else rs @ [r]) = Some r"
  by (induction rs) (auto simp: row_by_append row_by_None_iff)

lemma upsert_period_status:
  "upsert_period r s = (Inr x, t) \<Longrightarrow> period_status_of t (fp_period r) = Some (fp_status r) \<and> entries t = entries s"
  using row_by_upsert [of r "periods s"] by (auto simp: upsert_period_def period_status_of_def simp del: if_image_distrib)

lemma ClosePeriod_Inr:
  assumes "ClosePeriod env p u s = (Inr x, t)"
  shows "period_status_of t p = Some PeriodClosed" "entries t = entries s" "drafts_in_period s p = 0"
  using assms
  by (auto simp: ClosePeriod_def SetPeriodStatus_def split: if_splits dest!: upsert_period_status)

end
