(* ===== verification/Demo.thy ===== *)
theory Demo
  imports Service
begin

text \<open>
  Small concrete databases on which the properties are applied.
\<close>

text \<open>A ledger with two accounts and nothing booked, for the witnesses.\<close>

definition demo_account :: "id \<Rightarrow> string \<Rightarrow> string \<Rightarrow> account" where
  "demo_account i code ty =
     \<lparr>a_id = i, a_code = code, a_name = code, a_type = ty, a_parent = None, a_currency = ''UGX'',
      a_active = True, a_restrict = False, a_cash = False\<rparr>"

definition demo_db :: db where
  "demo_db = empty_db\<lparr>accounts := [demo_account 2 ''1000'' ''asset'', demo_account 3 ''4000'' ''revenue''],
     next_id := 4\<rparr>"

section \<open>A ledger with one posted entry\<close>

definition demo_ref :: event_ref where
  "demo_ref = \<lparr>er_id = ''e1'', er_type = ''sale'', er_source = ''shop'', er_correlation = ''S-1'',
     er_occurred = time_of_date (2026, 8, 14)\<rparr>"

definition demo_lines :: "line_input list" where
  "demo_lines = [dr ''1000'' 5 ''cash'', cr ''4000'' 5 ''revenue'']"

definition demo_ledger :: db where
  "demo_ledger = snd (BookFromEvent demo_env demo_ref ''sale'' ''UGX'' demo_lines demo_db)"

text \<open>Its value, which evaluations read instead of booking the entry again.\<close>

lemma demo_ledger_code [code]:
  "demo_ledger = demo_db
     \<lparr>entries :=
        [\<lparr>e_id = 4, e_number = ''JE-000001'', e_desc = ''sale'', e_status = Posted, e_source_event = Some ''e1'',
          e_source_service = Some ''shop'', e_correlation = Some ''S-1'', e_acc_date = (2026, 8, 14), e_reverses = None,
          e_posted_at = Some 63922348800000000000, e_created_by = None, e_entity = 1, e_counterparty = None\<rparr>],
      jlines :=
        [\<lparr>l_id = 5, l_entry = 4, l_account = 2, l_debit = 5, l_credit = 0, l_memo = ''cash'', l_order = 0,
          l_currency = ''UGX'', l_debit_base = 5, l_credit_base = 0, l_cost_center = None, l_project = None\<rparr>,
         \<lparr>l_id = 6, l_entry = 4, l_account = 3, l_debit = 0, l_credit = 5, l_memo = ''revenue'', l_order = 1,
          l_currency = ''UGX'', l_debit_base = 0, l_credit_base = 5, l_cost_center = None, l_project = None\<rparr>],
      processed := [(''e1'', ''sale'')],
      audit :=
        [\<lparr>au_id = 7, au_ts = 63922348800000000000, au_actor = ''system:shop'', au_type = ''ledger.booked'',
          au_message = ''sale booked from shop (sale)'', au_prev = ''GENESIS'',
          au_hash = ''2026-08-15T00:00:00Z|system:shop|ledger.booked|sale booked from shop (sale)|GENESIS''\<rparr>],
      entry_seq := 2, next_id := 8\<rparr>"
  by code_simp

lemma demo_db_start: "no_history demo_db"
  by (simp add: no_history_def demo_db_def empty_db_def)

lemma demo_ledger_runs: "runs (env_hash demo_env) round_half_away demo_db demo_ledger"
  unfolding demo_ledger_def
  by (rule runs.step [OF runs.here refl _ service_step.book_event]) (simp add: demo_env_def)

lemma demo_ledger_reachable: "reachable (env_hash demo_env) round_half_away demo_ledger"
  using demo_db_start demo_ledger_runs by (auto simp: reachable_def)

lemma demo_ledger_entry: "map e_status (entries demo_ledger) = [Posted]" "map l_debit_base (jlines demo_ledger) = [5, 0]"
  by code_simp+

lemma demo_ledger_posted: obtains e where "entries demo_ledger = [e]" "e_status e = Posted"
  using demo_ledger_entry(1) by (cases "entries demo_ledger") auto

lemma demo_ledger_wf: "books demo_env [] demo_ledger"
  by (rule reachable_books [OF demo_ledger_reachable rounding_laws_half_away]) simp

lemma demo_ledger_places: "\<forall>l \<in> set (jlines demo_ledger). has_places 4 (l_debit l) \<and> has_places 4 (l_credit l)"
proof -
  have lines: "map (\<lambda>l. (l_debit l, l_credit l)) (jlines demo_ledger) = [(5, 0), (0, 5)]" by code_simp
  have "\<forall>x \<in> set (map (\<lambda>l. (l_debit l, l_credit l)) (jlines demo_ledger)). has_places 4 (fst x) \<and> has_places 4 (snd x)"
    unfolding lines by (auto simp: has_places_def intro: exI [of _ 50000])
  then show ?thesis by simp
qed

end
