(* ===== verification/Ledger_Properties.thy ===== *)
theory Ledger_Properties
  imports Reporting Journal_Facts Demo
begin

text \<open>
  The properties of the general ledger: what booking, posting and reversing an entry do on every
  branch, that a source event is booked once, and where the period controls and the number
  allocation stop a posting.
\<close>

section \<open>Booking\<close>

fun deliveries :: "(booking \<times> string) list \<Rightarrow> db \<Rightarrow> db" where
  "deliveries [] s = s"
| "deliveries ((b, ev) # ds) s = deliveries ds (snd (book_event b ev s))"

lemma deliveries_eq: "deliveries ds s = booking.deliver ds s"
  by (induction ds s rule: deliveries.induct) simp_all

definition demo_booking :: booking where
  "demo_booking =
     \<lparr>bk_env = demo_env,
      bk_params = default_params\<lparr>jp_desc := ''sale'', jp_acc_date := Some (2026, 8, 15),
        jp_lines := [mk_line 2 5 0 ''cash'' 0, mk_line 3 0 5 ''revenue'' 1]\<rparr>,
      bk_type = ''sale'', bk_posted_at = time_of_date (2026, 8, 15), bk_audit = None\<rparr>"

lemma demo_booking_inv: "booking_inv demo_db" "booking_ready demo_db"
  by (simp_all add: booking_inv_def booking_ready_def demo_db_def empty_db_def journal_inv_def
      entries_wf_def lines_wf_def numbers_wf_def sources_processed_def)

lemma demo_booking_ok:
  "case fst (book_event demo_booking ''e1'' demo_db) of Inr (Some _) \<Rightarrow> True | _ \<Rightarrow> False"
  by code_simp

lemma demo_booking_runs:
  obtains j where "book_event demo_booking ''e1'' demo_db = (Inr (Some j), snd (book_event demo_booking ''e1'' demo_db))"
proof -
  obtain j where "fst (book_event demo_booking ''e1'' demo_db) = Inr (Some j)"
    using demo_booking_ok by (auto split: sum.splits option.splits)
  with that show thesis by (metis prod.collapse)
qed



section \<open>The journal in every reachable state\<close>

text \<open>
  C1. Whatever the service did since its database was empty, the base-currency debits and credits of
  every posted entry are equal.
\<close>

theorem posted_entries_balance:
  assumes "reachable hash rnd s" "rounding_laws rnd" "e \<in> set (entries s)" "e_status e = Posted"
  shows "base_debits (lines_of s (e_id e)) = base_credits (lines_of s (e_id e))"
  using reachable_books [of hash rnd s "demo_env\<lparr>env_hash := hash\<rparr>"] assms
  by (simp add: books_def journal_inv_def balanced_def)

theorem posted_entries_balance_witness:
  "\<exists>e. e \<in> set (entries demo_ledger) \<and>
     base_debits (lines_of demo_ledger (e_id e)) = base_credits (lines_of demo_ledger (e_id e))"
proof -
  obtain e where e: "e \<in> set (entries demo_ledger)" "e_status e = Posted"
    by (rule demo_ledger_posted) simp
  from posted_entries_balance [OF demo_ledger_reachable rounding_laws_half_away this] e(1) show ?thesis by blast
qed

text \<open>
  C2. The ledger is never edited in place: an entry that left the draft stage is still there after
  any further operations, with every field unchanged except that its status may have become
  \<open>reversed\<close>, and with exactly the lines it had.
\<close>

theorem posted_entries_permanent:
  assumes "reachable hash rnd s" "rounding_laws rnd" "runs hash rnd s t"
    and "e \<in> set (entries s)" "e_status e \<noteq> Draft"
  shows "(e \<in> set (entries t) \<or> e\<lparr>e_status := Reversed\<rparr> \<in> set (entries t)) \<and>
    lines_of t (e_id e) = lines_of s (e_id e)"
  using runs_kept [OF reachable_books [OF assms(1,2)] assms(2) _ assms(3-5), of "demo_env\<lparr>env_hash := hash\<rparr>"]
  by (simp add: recorded_def)

theorem posted_entries_permanent_witness:
  "\<exists>e. e \<in> set (entries demo_ledger) \<and>
     (let t = snd (ReverseJournalEntry demo_env (e_id e) ''typo'' ''ann'' demo_ledger) in
        (e \<in> set (entries t) \<or> e\<lparr>e_status := Reversed\<rparr> \<in> set (entries t)) \<and>
        lines_of t (e_id e) = lines_of demo_ledger (e_id e))"
proof -
  obtain e where e: "e \<in> set (entries demo_ledger)" "e_status e = Posted"
    by (rule demo_ledger_posted) simp
  have "runs (env_hash demo_env) round_half_away demo_ledger
      (snd (ReverseJournalEntry demo_env (e_id e) ''typo'' ''ann'' demo_ledger))"
    by (rule runs.step [OF runs.here refl _ service_step.reverse_entry]) (simp add: demo_env_def)
  from posted_entries_permanent [OF demo_ledger_reachable rounding_laws_half_away this e(1)] e show ?thesis
    by (auto simp: Let_def)
qed



text \<open>
  C11. The rows of the journal are well formed in every reachable state: each line has one positive
  side and no negative amount, belongs to an entry that is there and moves an account that exists.
\<close>

theorem lines_well_formed:
  assumes "reachable hash rnd s" "rounding_laws rnd" "l \<in> set (jlines s)"
  shows "0 \<le> l_debit l \<and> 0 \<le> l_credit l \<and> (0 < l_debit l) \<noteq> (0 < l_credit l) \<and>
    (\<exists>e \<in> set (entries s). e_id e = l_entry l) \<and> (\<exists>a \<in> set (accounts s). a_id a = l_account l)"
proof -
  have "lines_wf s"
    using reachable_books [OF assms(1,2), of "demo_env\<lparr>env_hash := hash\<rparr>"] by (simp add: books_def journal_inv_def)
  with assms(3) have "line_check l" "l_account l \<in> a_id ` set (accounts s)" "l_entry l \<in> e_id ` set (entries s)"
    by (simp_all add: lines_wf_def)
  then show ?thesis unfolding line_check_def image_iff by (metis less_irrefl)
qed

theorem lines_well_formed_witness:
  "\<exists>l. l \<in> set (jlines demo_ledger) \<and> (\<exists>e \<in> set (entries demo_ledger). e_id e = l_entry l)"
proof -
  from demo_ledger_entry(2) obtain l where l: "l \<in> set (jlines demo_ledger)" by (cases "jlines demo_ledger") auto
  from lines_well_formed [OF demo_ledger_reachable rounding_laws_half_away this] l show ?thesis by blast
qed


lemma demo_trial:
  "case fst (TrialBalance None None [default_entity] demo_ledger) of Inr rows \<Rightarrow> map tb_debit rows = [5, 0] | _ \<Rightarrow> False"
  "distinct (map a_id (accounts demo_ledger)) \<and> list_all a_active (accounts demo_ledger)"
  by code_simp+


section \<open>Events, manual entries, reversals, periods\<close>

text \<open>
  C6. Booking an event for the first time appends exactly one posted entry, tagged with the event and
  dated in a period that is not closed, and one line per requested line: on the active account of
  that code, with the requested amounts and memo. The request balanced, and the event is recorded as
  processed.
\<close>

theorem event_booked:
  assumes "er_id ref \<noteq> ''''" "\<not> event_processed s (er_id ref)" "entry_by_source s (er_id ref) = None"
    and "BookFromEvent env ref desc c ls s = (Inr (Some j), t)"
  shows "\<exists>e ks. entries t = entries s @ [e] \<and> jlines t = jlines s @ ks \<and> e_status e = Posted \<and>
     e_source_event e = Some (er_id ref) \<and> event_processed t (er_id ref) \<and>
     period_status_of s (format_period (e_acc_date e)) \<noteq> Some PeriodClosed \<and>
     total_debit ls = total_credit ls \<and> list_all2 (stored_as env s (e_id e)) ls ks"
  using BookFromEvent_first [OF assms] .

lemma demo_booked:
  "case fst (BookFromEvent demo_env demo_ref ''sale'' ''UGX'' demo_lines demo_db) of Inr (Some _) \<Rightarrow> True | _ \<Rightarrow> False"
  by code_simp

theorem event_booked_witness:
  "\<exists>e ks. entries demo_ledger = [e] \<and> jlines demo_ledger = ks \<and> list_all2 (stored_as demo_env demo_db (e_id e)) demo_lines ks"
proof -
  obtain j where j: "BookFromEvent demo_env demo_ref ''sale'' ''UGX'' demo_lines demo_db = (Inr (Some j), demo_ledger)"
    using demo_booked by (cases "BookFromEvent demo_env demo_ref ''sale'' ''UGX'' demo_lines demo_db")
      (auto simp: demo_ledger_def split: sum.splits option.splits)
  have "er_id demo_ref \<noteq> ''''" "\<not> event_processed demo_db (er_id demo_ref)" "entry_by_source demo_db (er_id demo_ref) = None"
    by (simp_all add: demo_ref_def demo_db_def empty_db_def event_processed_def entry_by_source_def)
  from event_booked [OF this j] show ?thesis by (auto simp: demo_db_def empty_db_def)
qed

text \<open>
  C7. Posting a manual entry succeeds exactly when it is a draft whose lines are not all zero and
  balance, dated in a period that is not closed and balanced in base currency; it then marks that
  entry posted and changes no other entry and no line. A refused posting changes neither.
\<close>

theorem posting_decided:
  assumes "entries_wf s" "PostJournalEntry env i actor s = (r, t)"
  shows "(case r of Inl _ \<Rightarrow> \<not> postable i s | Inr _ \<Rightarrow> postable i s) \<and>
    entries t = (if postable i s then map (posted_at i (env_now env)) (entries s) else entries s) \<and> jlines t = jlines s"
  using PostJournalEntry_spec [OF assms] by blast

definition demo_drafts :: db where
  "demo_drafts = snd (CreateJournalEntry demo_env
     \<lparr>ce_desc = ''accrual'', ce_lines = demo_lines, ce_source_event = None, ce_source_service = Some ''shop'',
      ce_correlation = Some ''S-1'', ce_created_by = None, ce_acc_date = Some (2026, 8, 10), ce_counterparty = None\<rparr> demo_db)"

lemma demo_drafts_code [code]:
  "demo_drafts = demo_db
     \<lparr>entries :=
        [\<lparr>e_id = 4, e_number = ''JE-000001'', e_desc = ''accrual'', e_status = Draft, e_source_event = None,
          e_source_service = Some ''shop'', e_correlation = Some ''S-1'', e_acc_date = (2026, 8, 10), e_reverses = None,
          e_posted_at = None, e_created_by = None, e_entity = 1, e_counterparty = None\<rparr>],
      jlines :=
        [\<lparr>l_id = 5, l_entry = 4, l_account = 2, l_debit = 5, l_credit = 0, l_memo = ''cash'', l_order = 0,
          l_currency = ''UGX'', l_debit_base = 5, l_credit_base = 0, l_cost_center = None, l_project = None\<rparr>,
         \<lparr>l_id = 6, l_entry = 4, l_account = 3, l_debit = 0, l_credit = 5, l_memo = ''revenue'', l_order = 1,
          l_currency = ''UGX'', l_debit_base = 0, l_credit_base = 5, l_cost_center = None, l_project = None\<rparr>],
      entry_seq := 2, next_id := 7\<rparr>"
  by code_simp

lemma demo_drafts_ok:
  "case map (\<lambda>e. (e_id e, e_status e)) (entries demo_drafts) of [(i, st)] \<Rightarrow> st = Draft \<and> i = 4 | _ \<Rightarrow> False"
  "postable 4 demo_drafts"
  "e_status (hd (entries (snd (PostJournalEntry demo_env 4 ''ann'' demo_drafts)))) = Posted"
  by code_simp+

lemma demo_drafts_wf: "books demo_env [] demo_drafts"
  unfolding demo_drafts_def
  using keeps_books_CreateJournalEntry books_start [OF demo_db_start] by (auto simp: keeps_def)

theorem posting_decided_witness:
  "entries (snd (PostJournalEntry demo_env 4 ''ann'' demo_drafts)) =
     map (posted_at 4 (env_now demo_env)) (entries demo_drafts) \<and> postable 4 demo_drafts"
  using posting_decided [of demo_drafts demo_env 4 "''ann''"] demo_drafts_wf demo_drafts_ok(2)
  by (auto simp: books_def journal_inv_def intro: prod.collapse [symmetric])


lemma demo_reversal:
  "case entries demo_ledger of [e] \<Rightarrow> e_id e = 4 | _ \<Rightarrow> False"
  "case fst (ReverseJournalEntry demo_env 4 ''typo'' ''ann'' demo_ledger) of Inr _ \<Rightarrow> True | _ \<Rightarrow> False"
  by code_simp+


text \<open>
  C9. Superseding a document's postings leaves none of them live: whatever mixture of drafts, posted
  and reversed entries the source had for the document, afterwards each is deleted or reversed.
\<close>

theorem superseded_document_clear:
  assumes "journal_inv s" "SupersedeEntriesBySource env sv dn reason actor s = (Inr out, t)"
  shows "\<forall>e \<in> set (entries t). e_source_service e = Some sv \<and> e_correlation e = Some dn \<longrightarrow> e_status e = Reversed"
  using supersede_clears [OF assms] by (auto simp: live_ids_def live_def)

lemma demo_supersede:
  "case fst (SupersedeEntriesBySource demo_env ''shop'' ''S-1'' ''edited'' ''ann'' demo_ledger) of
     Inr out \<Rightarrow> sr_reversed out = [4] | _ \<Rightarrow> False"
  by code_simp

theorem superseded_document_clear_witness:
  "filter (\<lambda>e. e_source_service e = Some ''shop'' \<and> e_correlation e = Some ''S-1'' \<and> e_status e \<noteq> Reversed)
     (entries (snd (SupersedeEntriesBySource demo_env ''shop'' ''S-1'' ''edited'' ''ann'' demo_ledger))) = []"
proof -
  obtain out where run: "SupersedeEntriesBySource demo_env ''shop'' ''S-1'' ''edited'' ''ann'' demo_ledger =
      (Inr out, snd (SupersedeEntriesBySource demo_env ''shop'' ''S-1'' ''edited'' ''ann'' demo_ledger))"
    using demo_supersede
    by (cases "SupersedeEntriesBySource demo_env ''shop'' ''S-1'' ''edited'' ''ann'' demo_ledger") (auto split: sum.splits)
  have "journal_inv demo_ledger" using demo_ledger_wf by (simp add: books_def)
  from superseded_document_clear [OF this run] show ?thesis by (auto simp: filter_empty_conv)
qed



end
