(* ===== verification/Settlement.thy ===== *)
theory Settlement
  imports Service
begin

text \<open>
  What settling, adjusting and revaluing do on every branch: the base value of the settlement lines,
  the effect of a payment, the refusal of an over-payment and of a full credit, and the replay of a
  period's revaluation.
\<close>

section \<open>Settlement lines\<close>

definition base_value :: "env \<Rightarrow> rat \<Rightarrow> resolved_line list \<Rightarrow> rat" where
  "base_value env x ls = sum_list (map (\<lambda>l. fst (baseAmounts env l x) - snd (baseAmounts env l x)) ls)"

lemma base_value_simps [simp]:
  "base_value env x [] = 0"
  "base_value env x (l # ls) = fst (baseAmounts env l x) - snd (baseAmounts env l x) + base_value env x ls"
  by (simp_all add: base_value_def)

lemma settle_line_base:
  assumes "rounding_laws (env_round env)"
  shows "baseAmounts env (settle_line a x 0 c (Some b) None m k) r = (env_round env b 2, 0)"
    "baseAmounts env (settle_line a 0 x c None (Some b) m k) r = (0, env_round env b 2)"
  by (simp_all add: baseAmounts_def settle_line_def mk_line_def round_0 [OF assms])

lemma fx_line_base:
  assumes rnd: "rounding_laws (env_round env)" and res: "has_places 2 x" and run: "fx_line env x s = (Inr ls, t)"
  shows "base_value env r ls = - x"
proof -
  have "has_places 2 (abs x)" using res by (cases "0 \<le> x") simp_all
  with rnd res run show ?thesis
    by (auto simp: fx_line_def bind_Inr_iff resolveAccount_Inr settle_line_base round_exact split: if_splits)
qed

lemma settlement_balanced:
  assumes rnd: "rounding_laws (env_round env)" and run: "settlementLines env d amount c docRate payRate s = (Inr ls, t)"
  shows "base_value env r ls = 0"
proof -
  let ?x = "env_round env (amount * payRate) 2" and ?y = "env_round env (amount * docRate) 2"
  have p: "has_places 2 ?x" "has_places 2 ?y" by (rule round_places [OF rnd])+
  then have q: "has_places 2 (?x - ?y)" "has_places 2 (?y - ?x)" by (simp_all add: has_places_diff)
  show ?thesis
  proof (cases d)
    case AR
    with run obtain fx s' where "fx_line env (?x - ?y) s = (Inr fx, s')" and "base_value env r ls = ?x - ?y + base_value env r fx"
      by (auto simp: settlementLines_def Let_def bind_Inr_iff resolveAccount_Inr settle_line_base [OF rnd]
          round_exact [OF rnd] p)
    with fx_line_base [OF rnd q(1)] show ?thesis by simp
  next
    case AP
    with run obtain fx s' where "fx_line env (?y - ?x) s = (Inr fx, s')" and "base_value env r ls = ?y - ?x + base_value env r fx"
      by (auto simp: settlementLines_def Let_def bind_Inr_iff resolveAccount_Inr settle_line_base [OF rnd]
          round_exact [OF rnd] p)
    with fx_line_base [OF rnd q(2)] show ?thesis by simp
  qed
qed

section \<open>The effect of a payment\<close>

lemma apply_payment_call:
  assumes "apply_payment d env i amount c ref actor ob s = (Inr (pay, u), t)"
  obtains it p a where "item_by_id d s i = Some it" "c = '''' \<or> c = oi_currency it"
    "pp_event p = payment_event_id d i ref" "pp_direction p = d" "pp_item p = i" "pp_amount p = amount" "pp_ref p = ref"
    "ApplyPaymentWithJournal env p a s = (Inr pay, t)"
proof -
  from assms obtain it rates s1 ls s2 where it: "item_by_id d s i = Some it" "c = '''' \<or> c = oi_currency it"
    and r: "settlementRates env d i (oi_currency it) s = (Inr rates, s1)"
    and l: "settlementLines env d amount (oi_currency it) (fst rates) (snd rates) s1 = (Inr ls, s2)"
    and run: "ApplyPaymentWithJournal env
             \<lparr>pp_event = payment_event_id d i ref,
              pp_type = (case d of AR \<Rightarrow> ''payment.received'' | AP \<Rightarrow> ''payment.disbursed''),
              pp_source = ''iag.finance'', pp_correlation = ref,
              pp_desc = (case d of AR \<Rightarrow> ''AR'' | AP \<Rightarrow> ''AP'') @ '' payment '' @ em_dash @ '' '' @ oi_document_ref it,
              pp_direction = d, pp_item = i, pp_amount = amount, pp_currency = oi_currency it,
              pp_ref = ref, pp_fx_rate = fst rates, pp_lines = ls,
              pp_outbox = map_option (with_document_ref (oi_document_ref it)) ob\<rparr>
             (Some \<lparr>ai_actor = actorOrSystem actor, ai_type = direction_name d @ ''.payment'',
                    ai_message = (case d of AR \<Rightarrow> ''AR'' | AP \<Rightarrow> ''AP'') @ '' payment '' @ ref @ '' on ''
                      @ oi_document_ref it @ '' for '' @ oi_currency it @ '' '' @ env_show env amount\<rparr>) s2 = (Inr pay, t)"
    unfolding apply_payment_def Let_def
    by (auto simp: bind_Inr_iff split: option.splits if_splits prod.splits)
  have "s2 = s" using reads_final [OF reads_settlementRates r] reads_final [OF reads_settlementLines l] by simp
  with run show thesis by (intro that [OF it]) auto
qed

definition settled :: "env \<Rightarrow> rat \<Rightarrow> open_item \<Rightarrow> open_item" where
  "settled env amount it = it\<lparr>oi_paid := env_round env (oi_paid it + amount) 2,
     oi_status := (if oi_paid it + amount = oi_amount it then Closed else Partial)\<rparr>"

lemma payment_effect:
  assumes run: "apply_payment d env i amount c ref actor ob s = (Inr (pay, u), t)"
    and new: "\<not> event_processed s (payment_event_id d i ref)" and wf: "items_wf s"
  shows "\<exists>it e ks. item_by_id d s i = Some it \<and> oi_paid it + amount \<le> oi_amount it \<and>
     items_of d t = map (\<lambda>x. if x = it then settled env amount it else x) (items_of d s) \<and>
     payments t = payments s @ [pay] \<and> p_amount pay = env_round env amount 2 \<and> p_item pay = i \<and>
     entries t = entries s @ [e] \<and> e_status e = Posted \<and> p_entry pay = Some (e_id e) \<and> jlines t = jlines s @ ks"
proof -
  obtain it p a where it: "item_by_id d s i = Some it"
    and p: "pp_event p = payment_event_id d i ref" "pp_direction p = d" "pp_item p = i" "pp_amount p = amount"
    and call: "ApplyPaymentWithJournal env p a s = (Inr pay, t)"
    using run by (rule apply_payment_call) blast
  from call new p(1) have tx: "payment_tx env p a s = (Inr pay, t)" by (simp add: pay_event_apply)
  have "distinct (map oi_id (items_of d s))" using wf by (simp add: items_wf_alt side_wf_def)
  then have upd: "update_where (\<lambda>x. oi_id x = i) f (items_of d s) = map (\<lambda>x. if x = it then f it else x) (items_of d s)" for f
    using row_by_Some_in [OF it [unfolded item_by_id_def]]
    by (auto simp: update_where_def distinct_map inj_on_def)
  have items: "paid_items env p it (items_of d s) = map (\<lambda>x. if x = it then settled env amount it else x) (items_of d s)"
    unfolding paid_items_def p upd settled_def by (rule map_cong) simp_all
  from payment_tx_Inr [OF tx] obtain ks j where eff: "oi_paid it + amount \<le> oi_amount it"
    "entries t = entries s @ [posted_row env (payment_journal p '''') (env_now env) (entry_number (entry_seq s)) j]"
    "jlines t = jlines s @ ks" "items_of d t = paid_items env p it (items_of d s)"
    "payments t = payments s @ [pay]" "pay = (payment_row p j)\<lparr>p_id := p_id pay, p_amount := env_round env amount 2\<rparr>"
    using it p by auto
  have "p_amount pay = env_round env amount 2" "p_item pay = i" "p_entry pay = Some j"
    by (subst eff(6); simp add: payment_row_def p)+
  with eff it items show ?thesis
    by (intro exI [of _ it] exI [of _ "posted_row env (payment_journal p '''') (env_now env) (entry_number (entry_seq s)) j"]
        exI [of _ ks]) (simp add: posted_row_def)
qed

lemma lock_and_settle_exceeds:
  assumes "item_by_id d s i = Some it" "oi_amount it < oi_paid it + amount"
  shows "lock_and_settle d i amount s = (Inl ErrPaymentExceeds, s)"
  using assms by (simp add: lock_and_settle_def settle_def Let_def)

text \<open>An over-payment is refused before anything is written, the entry number included.\<close>

lemma overpayment_refused:
  assumes it: "item_by_id d s i = Some it" and over: "oi_amount it < oi_paid it + amount"
    and new: "\<not> event_processed s (payment_event_id d i ref)"
  shows "\<exists>e. apply_payment d env i amount c ref actor ob s = (Inl e, s) \<and>
     (e = ErrPaymentExceeds \<or> e = ErrCurrencyMismatch \<or> (\<exists>code. e = ErrAccountNotFound code))"
proof -
  have pay: "ApplyPaymentWithJournal env p a s = (Inl ErrPaymentExceeds, s)"
    if "pp_event p = payment_event_id d i ref" "pp_direction p = d" "pp_item p = i" "pp_amount p = amount" for p a
  proof -
    have "item_by_id d (s\<lparr>touched := []\<rparr>) i = Some it" using it by (cases d) (simp_all add: item_by_id_def)
    with that new lock_and_settle_exceeds [OF _ over] show ?thesis
      by (simp add: pay_event_apply payment_tx_def tx_def bind_apply event_processed_def rollback_def)
  qed
  have rates: "\<exists>x. settlementRates env d i cur s = (Inr x, s)" for cur
    by (auto simp: settlementRates_def OpenItemFXRate_def bind_apply catch_apply GetRate_def split: option.split)
  have ls: "(\<exists>ls. settlementLines env d amount cur x y s = (Inr ls, s)) \<or>
      (\<exists>code. settlementLines env d amount cur x y s = (Inl (ErrAccountNotFound code), s))" for cur x y
    by (cases d) (auto simp: settlementLines_def fx_line_def Let_def bind_apply resolveAccount_def GetAccountByCode_def
        split: option.split)
  show ?thesis
  proof (cases "c \<noteq> '''' \<and> c \<noteq> oi_currency it")
    case True
    with it show ?thesis by (simp add: apply_payment_def)
  next
    case False
    obtain x y where xy: "settlementRates env d i (oi_currency it) s = (Inr (x, y), s)" using rates by (metis prod.collapse)
    from ls [of "oi_currency it" x y] show ?thesis
    proof (elim disjE exE)
      fix l assume "settlementLines env d amount (oi_currency it) x y s = (Inr l, s)"
      with it False xy pay show ?thesis by (simp add: apply_payment_def Let_def bind_apply)
    next
      fix code assume "settlementLines env d amount (oi_currency it) x y s = (Inl (ErrAccountNotFound code), s)"
      with it False xy show ?thesis by (simp add: apply_payment_def Let_def bind_apply)
    qed
  qed
qed

section \<open>A full credit of an unpaid item\<close>

text \<open>
  The note would leave the item at amount zero, closed; the column check of the open items does not
  allow that amount, so the whole booking is rolled back.
\<close>

lemma booking_tx_side_fails:
  assumes side: "\<And>j u. (\<forall>d. items_of d u = items_of d s) \<Longrightarrow> \<exists>e u'. f j u = (Inl e, u')"
  shows "\<exists>e t. booking_tx env p ev ty postedAt (Some f) a s = (Inl e, t)"
proof (cases "booking_tx env p ev ty postedAt (Some f) a s")
  case (Pair r t)
  have False if "r = Inr x" for x
  proof -
    let ?n = "entry_number (entry_seq s)" and ?s0 = "s\<lparr>touched := [], entry_seq := Suc (entry_seq s)\<rparr>"
    from Pair that obtain i s1 s2 y s3 where
      ins: "insertPostedEntryTx env (p\<lparr>jp_number := ?n\<rparr>) postedAt ?s0 = (Inr i, s1)"
      and mark: "(if ev \<noteq> '''' then bind (markProcessedTx ev ty) (\<lambda>won. require won RaceLost) else ok ()) s1 = (Inr (), s2)"
      and sd: "f i s2 = (Inr y, s3)"
      unfolding booking_tx_def
      by (auto elim!: tx_InrD simp: bind_Inr_iff nextEntryNumberTx_def catch_apply split: sum.splits prod.splits if_splits)
    from insertPostedEntryTx_Inr [OF ins] obtain ks where
      s1: "s1 = ?s0\<lparr>entries := entries ?s0 @ [posted_row env (p\<lparr>jp_number := ?n\<rparr>) postedAt ?n i],
          jlines := jlines ?s0 @ ks, next_id := next_id s1, touched := touched s1\<rparr>" by auto
    have "items_of d s1 = items_of d s" for d by (subst s1; cases d; simp)
    moreover have "items_of d s2 = items_of d s1" for d
      using mark by (cases d) (auto simp: bind_Inr_iff markProcessedTx_def require_Inr_iff split: if_splits)
    ultimately show False using side [of s2 i] sd by auto
  qed
  with Pair show ?thesis by (cases r) auto
qed

lemma full_credit_side_fails:
  assumes rnd: "rounding_laws (env_round env)" and wf: "items_wf s"
    and it: "item_by_ref (side_of dn) s ref = Some it" "oi_status it \<noteq> Closed" "oi_paid it = 0" "delta = - oi_amount it"
  shows "\<exists>e. adjustOpenItemAmountTx env dn ref delta s = (Inl e, s)"
proof -
  have mem: "it \<in> set (items_of (side_of dn) s)" "oi_document_ref it = ref"
    using row_by_Some_in [OF it(1) [unfolded item_by_ref_def]] by simp_all
  have dist: "distinct (map oi_document_ref (items_of (side_of dn) s))" using wf by (simp add: items_wf_alt side_wf_def)
  show ?thesis
  proof (cases rule: adjust_cases [of env dn ref delta s])
    case (applied it' x)
    with mem dist have "it' = it" by (simp add: distinct_map inj_on_def)
    with applied(4) it have "fst x = 0" by (auto simp: adjusted_Some)
    with applied(5) round_0 [OF rnd] show ?thesis by simp
  qed blast
qed

lemma items_wf_items: "(\<forall>d. items_of d u = items_of d s) \<Longrightarrow> next_id u = next_id s \<Longrightarrow> items_wf u = items_wf s"
  by (simp add: items_wf_alt)

lemma item_by_ref_items: "(\<forall>d. items_of d u = items_of d s) \<Longrightarrow> item_by_ref d u ref = item_by_ref d s ref"
  by (simp add: item_by_ref_def)

lemma full_credit_note:
  assumes rnd: "rounding_laws (env_round env)" and wf: "items_wf s"
    and it: "item_by_ref (side_of dn) s ref = Some it" "oi_status it \<noteq> Closed" "oi_paid it = 0" "ba_delta p = - oi_amount it"
    and p: "ba_direction p = dn" "ap_original (ba_adjustment p) = ref"
    and new: "\<not> event_processed s (ba_event p)" "entry_by_source s (ba_event p) = None"
  shows "\<exists>e n. BookAdjustment env p postedAt a s = (Inl e, s\<lparr>entry_seq := n\<rparr>)"
proof -
  have side: "\<exists>e u'. adjustment_side env p j u = (Inl e, u')" if same: "\<forall>d. items_of d u = items_of d s" for j u
  proof -
    let ?w = "u\<lparr>next_id := next_id s\<rparr>"
    have same': "\<forall>d. items_of d ?w = items_of d s" using same by (auto simp: items_of_def split: direction.splits)
    have "items_wf ?w" using wf items_wf_items [OF same'] by simp
    moreover have "item_by_ref (side_of dn) ?w ref = Some it" using it(1) item_by_ref_items [OF same'] by simp
    ultimately obtain e where e: "adjustOpenItemAmountTx env dn ref (- oi_amount it) ?w = (Inl e, ?w)"
      using full_credit_side_fails [OF rnd _ _ it(2,3)] by blast
    have "adjustOpenItemAmountTx env dn ref (- oi_amount it) u = (Inl e, u)"
    proof (cases rule: adjust_cases [of env dn ref "- oi_amount it" u])
      case (refused e')
      have "fst (adjustOpenItemAmountTx env dn ref (- oi_amount it) ?w) = fst (adjustOpenItemAmountTx env dn ref (- oi_amount it) u)"
        using same same' by (auto simp: adjustOpenItemAmountTx_def write_amount_def item_by_ref_def split: option.splits prod.splits)
      with e refused show ?thesis by simp
    next
      case (applied it' x)
      have "fst (adjustOpenItemAmountTx env dn ref (- oi_amount it) ?w) = fst (adjustOpenItemAmountTx env dn ref (- oi_amount it) u)"
        using same same' by (auto simp: adjustOpenItemAmountTx_def write_amount_def item_by_ref_def split: option.splits prod.splits)
      with e applied(6) show ?thesis by simp
    qed
    then show ?thesis using p it(4) by (auto simp: adjustment_side_def bind_def)
  qed
  let ?ev = "ba_event p"
  let ?tx = "booking_tx env (adjustment_journal p) ?ev (ba_type p) postedAt (Some (adjustment_side env p)) a"
  have "\<exists>e t. ?tx s = (Inl e, t)" by (rule booking_tx_side_fails) (rule side)
  then obtain e t where fails: "?tx s = (Inl e, t)" by blast
  obtain n where t: "t = s\<lparr>entry_seq := n\<rparr>" using booking_tx_Inl [OF fails] by blast
  have src: "jp_source_event (adjustment_journal p) = Some ?ev" by (simp add: adjustment_journal_def)
  have none: "entry_by_source t ?ev = None" using new(2) by (simp add: t entry_by_source_def)
  have "BookAdjustment env p postedAt a s = (Inl (if e = RaceLost then ErrText ''nil entry'' else e), t)"
    if "?ev \<noteq> ''''"
    using fails new none src that
    by (simp add: BookAdjustment_def BookPostedEntry_def IsEventProcessed_def bind_apply catch_apply
        GetJournalEntryBySourceEvent_def Let_def)
  moreover have "BookAdjustment env p postedAt a s = (Inl (if e = RaceLost then ErrText ''nil entry'' else e), t)"
    if "?ev = ''''"
    using fails new none src that
    by (simp add: BookAdjustment_def BookPostedEntry_def IsEventProcessed_def bind_apply catch_apply
        GetJournalEntryBySourceEvent_def Let_def)
  ultimately show ?thesis using t by blast
qed

text \<open>At the service: a credit note for the whole amount of an item nothing was paid on.\<close>

lemma full_credit_adjustment:
  assumes rnd: "rounding_laws (env_round env)" and wf: "items_wf s"
    and kind: "to_lower (trim_space (ai_kind inp)) = ''credit_note''" and dn: "dn = to_lower (trim_space (ai_direction inp))"
    and it: "item_by_ref (side_of dn) s (ai_original inp) = Some it" "oi_status it \<noteq> Closed" "oi_paid it = 0"
      "ai_amount inp = oi_amount it"
    and new: "\<not> event_processed s (''adjustment.'' @ dn @ '':'' @ ''credit_note'' @ '':'' @ note_reference ''credit_note'' inp)"
      "entry_by_source s (''adjustment.'' @ dn @ '':'' @ ''credit_note'' @ '':'' @ note_reference ''credit_note'' inp) = None"
  shows "\<exists>e n. CreateAdjustment env inp actor s = (Inl e, s\<lparr>entry_seq := n\<rparr>)"
proof -
  have same: ?thesis if "\<exists>e. CreateAdjustment env inp actor s = (Inl e, s)"
    using that by (elim exE) (intro exI [of _ "entry_seq s"] exI, simp)
  have plan: "fst (note_plan (side_of dn) True (ai_amount inp)) = - oi_amount it"
    using it(4) by (simp add: note_plan_def split: direction.split)
  show ?thesis
  proof (cases "(dn \<noteq> ''ar'' \<and> dn \<noteq> ''ap'') \<or> ai_original inp = '''' \<or> ai_amount inp \<le> 0")
    case True
    with kind dn have "\<exists>e. CreateAdjustment env inp actor s = (Inl e, s)"
      by (auto simp: CreateAdjustment_def Let_def split: prod.split)
    then show ?thesis by (rule same)
  next
    case False
    define ls where "ls = snd (note_plan (side_of dn) True (ai_amount inp))"
    obtain r u where rl: "resolveLines ls s = (r, u)" by (cases "resolveLines ls s")
    have u: "u = s" by (rule reads_final [OF reads_resolveLines rl])
    have np: "note_plan (side_of dn) True (ai_amount inp) = (- oi_amount it, ls)"
      using plan by (simp add: ls_def prod_eq_iff)
    show ?thesis
    proof (cases r)
      case (Inl e)
      with rl u False kind dn it(1) np have "CreateAdjustment env inp actor s = (Inl e, s)"
        by (auto simp: CreateAdjustment_def Let_def OpenItemFXRateByDocRef_def bind_apply)
      then show ?thesis by (intro same exI)
    next
      case (Inr rs)
      let ?p = "\<lparr>ba_event = ''adjustment.'' @ dn @ '':'' @ ''credit_note'' @ '':'' @ note_reference ''credit_note'' inp,
              ba_type = ''finance.adjustment'',
              ba_desc = ''credit_note'' @ '' '' @ em_dash @ '' '' @ ai_original inp, ba_source = ''iag.finance'',
              ba_direction = dn, ba_delta = - oi_amount it,
              ba_fx_rate = (case row_by oi_document_ref (ai_original inp) (items_of (side_of dn) s) of None \<Rightarrow> 1 | Some r \<Rightarrow> oi_fx_rate r),
              ba_lines = rs,
              ba_adjustment = \<lparr>ap_kind = ''credit_note'', ap_direction = dn, ap_original = ai_original inp,
                ap_document = note_reference ''credit_note'' inp, ap_party = oi_party_ref it, ap_amt = ai_amount inp,
                ap_cur = (if ai_currency inp = '''' then ''UGX'' else ai_currency inp), ap_reason = ai_reason inp\<rparr>\<rparr>"
      let ?a = "Some \<lparr>ai_actor = actorOrSystem actor, ai_type = ''adjustment.'' @ ''credit_note'',
          ai_message = ''credit_note'' @ '' '' @ note_reference ''credit_note'' inp @ '' on '' @ ai_original inp @ '' for ''
            @ (if ai_currency inp = '''' then ''UGX'' else ai_currency inp) @ '' '' @ env_show env (ai_amount inp)\<rparr>"
      have guards: "(dn \<noteq> ''ar'' \<and> dn \<noteq> ''ap'') = False" "(ai_original inp = '''' \<or> ai_amount inp \<le> 0) = False"
        using False by auto
      have call: "CreateAdjustment env inp actor s =
          (if period_status_of s (period_of_time (env_now env)) = Some PeriodClosed then (Inl ErrPeriodClosed, s)
           else BookAdjustment env ?p (env_now env) ?a s)"
        using rl u Inr it(1) np
        by (simp add: CreateAdjustment_def Let_def dn [symmetric] guards kind
            OpenItemFXRateByDocRef_def bind_apply IsPeriodClosed_def)
      have "\<exists>e n. BookAdjustment env ?p (env_now env) ?a s = (Inl e, s\<lparr>entry_seq := n\<rparr>)"
        by (rule full_credit_note [OF rnd wf it(1-3)]) (use new in simp_all)
      note refused = this
      show ?thesis
      proof (cases "period_status_of s (period_of_time (env_now env)) = Some PeriodClosed")
        case True
        with call show ?thesis by (intro same exI [of _ ErrPeriodClosed]) (simp only: if_True simp_thms refl)
      next
        case False
        with call have "CreateAdjustment env inp actor s = BookAdjustment env ?p (env_now env) ?a s" by (simp only: if_False)
        with refused show ?thesis by (simp only:)
      qed
    qed
  qed
qed

end
