(* ===== verification/Subledger_Properties.thy ===== *)
theory Subledger_Properties
  imports Settlement Demo
begin

text \<open>
  The properties of the receivable and payable subledgers: settlement and its exchange differences,
  over-payments, redelivered payments, notes, and their agreement with the payments.
\<close>

section \<open>A receivable to settle\<close>

definition demo_cash :: db where
  "demo_cash = empty_db\<lparr>accounts := [demo_account 2 ''1000'' ''asset'', demo_account 3 ''1100'' ''asset'',
     demo_account 4 ''4000'' ''revenue''], next_id := 10\<rparr>"

definition demo_invoiced :: db where
  "demo_invoiced = snd (create_open_item demo_env AR ''C1'' ''INV-1'' ''goods'' 100 ''UGX'' None None None None demo_cash)"

lemma demo_invoiced_code [code]:
  "demo_invoiced = demo_cash
     \<lparr>ar_items :=
        [\<lparr>oi_id = 10, oi_party_ref = ''C1'', oi_document_ref = ''INV-1'', oi_desc = ''goods'', oi_amount = 100, oi_paid = 0,
          oi_currency = ''UGX'', oi_due = None, oi_status = Open, oi_entry = None, oi_source_event = None, oi_fx_rate = 1,
          oi_entity = 1, oi_party_id = None, oi_notified = None\<rparr>], next_id := 11\<rparr>"
  by code_simp

definition demo_paid :: db where
  "demo_paid = snd (ApplyARPayment demo_env 10 40 '''' ''R-1'' ''ann'' None demo_invoiced)"

lemma demo_paid_reachable: "reachable (env_hash demo_env) round_half_away demo_paid"
proof -
  have e: "env_hash demo_env = env_hash demo_env" "env_round demo_env = round_half_away" by (simp_all add: demo_env_def)
  have "no_history demo_cash" by (simp add: no_history_def demo_cash_def empty_db_def)
  moreover have "runs (env_hash demo_env) round_half_away demo_cash demo_invoiced"
    unfolding demo_invoiced_def by (rule runs.step [OF runs.here e service_step.open_document])
  then have "runs (env_hash demo_env) round_half_away demo_cash demo_paid"
    unfolding demo_paid_def by (rule runs.step [OF _ e service_step.receive_payment])
  ultimately show ?thesis by (auto simp: reachable_def)
qed

lemma demo_invoiced_facts:
  "map (\<lambda>i. (oi_id i, oi_amount i, oi_paid i, oi_status i)) (ar_items demo_invoiced) = [(10, 100, 0, Open)]"
  "processed demo_invoiced = []" "entries demo_invoiced = []"
  by code_simp+

lemma demo_invoiced_wf: "items_wf demo_invoiced"
proof -
  have "runs (env_hash demo_env) round_half_away demo_cash demo_invoiced"
    unfolding demo_invoiced_def
    by (rule runs.step [OF runs.here refl _ service_step.open_document]) (simp add: demo_env_def)
  moreover have "no_history demo_cash" by (simp add: no_history_def demo_cash_def empty_db_def)
  ultimately have "reachable (env_hash demo_env) round_half_away demo_invoiced" by (auto simp: reachable_def)
  from reachable_books [OF this rounding_laws_half_away, of demo_env] show ?thesis by (simp add: books_def reconciled_def)
qed

lemma demo_payment:
  "case ApplyARPayment demo_env 10 40 '''' ''R-1'' ''ann'' None demo_invoiced of
     (Inr (p, Some i), _) \<Rightarrow> p_amount p = 40 \<and> oi_paid i = 40 \<and> oi_status i = Partial | _ \<Rightarrow> False"
  by code_simp

section \<open>Settlement\<close>

text \<open>
  The lines that settle an amount balance in base currency whatever the rates of the document and
  of the payment are: what the cash line and the cleared balance differ by is on the realized gain or
  loss line.
\<close>

theorem settlement_books_balance:
  assumes "rounding_laws (env_round env)" "settlementLines env d amount c docRate payRate s = (Inr ls, t)"
  shows "sum_list (map (\<lambda>l. fst (baseAmounts env l r)) ls) = sum_list (map (\<lambda>l. snd (baseAmounts env l r)) ls)"
  using settlement_balanced [OF assms] by (simp add: base_value_def sum_list_subtractf)

definition demo_fx :: db where
  "demo_fx = demo_cash\<lparr>accounts := demo_account 5 ''7200'' ''revenue'' # accounts demo_cash\<rparr>"

lemma demo_settlement:
  "case settlementLines demo_env AR 100 ''USD'' 3700 3800 demo_fx of
     (Inr ls, _) \<Rightarrow> map rl_debit_base ls = [Some 380000, None, None] \<and> map rl_credit_base ls = [None, Some 370000, Some 10000]
   | _ \<Rightarrow> False"
  by code_simp

theorem settlement_books_balance_witness:
  "\<exists>ls. fst (settlementLines demo_env AR 100 ''USD'' 3700 3800 demo_fx) = Inr ls \<and> length ls = 3 \<and>
     sum_list (map (\<lambda>l. fst (baseAmounts demo_env l 3700)) ls) = sum_list (map (\<lambda>l. snd (baseAmounts demo_env l 3700)) ls)"
proof -
  obtain ls t where r: "settlementLines demo_env AR 100 ''USD'' 3700 3800 demo_fx = (Inr ls, t)"
    "map rl_debit_base ls = [Some 380000, None, None]"
    using demo_settlement by (cases "settlementLines demo_env AR 100 ''USD'' 3700 3800 demo_fx") (auto split: sum.splits)
  from r(2) have "length ls = 3" by (metis length_map length_Cons list.size(3) numeral_3_eq_3)
  with r settlement_books_balance [OF demo_env_round r(1), of 3700] show ?thesis by simp
qed

text \<open>
  C16. A payment booked for the first time raises the paid amount of its item, and of no other, by its
  amount, closes it exactly when it is paid in full, and records one payment and one posted entry
  linked to each other; no item was or is paid beyond its amount.
\<close>

theorem payment_settles:
  assumes "apply_payment d env i amount c ref actor ob s = (Inr (pay, u), t)"
    and "\<not> event_processed s (payment_event_id d i ref)" "items_wf s"
  shows "\<exists>it e ks. item_by_id d s i = Some it \<and> oi_paid it + amount \<le> oi_amount it \<and>
     items_of d t = map (\<lambda>x. if x = it then settled env amount it else x) (items_of d s) \<and>
     payments t = payments s @ [pay] \<and> p_amount pay = env_round env amount 2 \<and> p_item pay = i \<and>
     entries t = entries s @ [e] \<and> e_status e = Posted \<and> p_entry pay = Some (e_id e) \<and> jlines t = jlines s @ ks"
  by (rule payment_effect [OF assms])

theorem payment_settles_witness:
  "\<exists>it e. item_by_id AR demo_invoiced 10 = Some it \<and> ar_items demo_paid = [settled demo_env 40 it] \<and> entries demo_paid = [e]"
proof -
  obtain p x where run: "apply_payment AR demo_env 10 40 '''' ''R-1'' ''ann'' None demo_invoiced = (Inr (p, x), demo_paid)"
    using demo_payment unfolding demo_paid_def ApplyARPayment_def
    by (cases "apply_payment AR demo_env 10 40 '''' ''R-1'' ''ann'' None demo_invoiced") (auto split: sum.splits)
  have new: "\<not> event_processed demo_invoiced (payment_event_id AR 10 ''R-1'')"
    by (simp add: event_processed_def demo_invoiced_facts(2))
  obtain it where it: "ar_items demo_invoiced = [it]" "oi_id it = 10" using demo_invoiced_facts(1) by auto
  from payment_settles [OF run new demo_invoiced_wf] it show ?thesis
    by (auto simp: demo_invoiced_facts(3) item_by_id_def)
qed

text \<open>
  C18. A payment that would take an item beyond its amount is refused, and nothing at all changes, not
  even the entry number sequence.
\<close>

theorem overpayment_rejected:
  assumes "item_by_id d s i = Some it" "oi_amount it < oi_paid it + amount" "\<not> event_processed s (payment_event_id d i ref)"
  shows "\<exists>e. apply_payment d env i amount c ref actor ob s = (Inl e, s) \<and>
     (e = ErrPaymentExceeds \<or> e = ErrCurrencyMismatch \<or> (\<exists>code. e = ErrAccountNotFound code))"
  by (rule overpayment_refused [OF assms])

theorem overpayment_rejected_witness:
  "\<exists>e. apply_payment AR demo_env 10 101 '''' ''R-1'' ''ann'' None demo_invoiced = (Inl e, demo_invoiced)"
proof -
  obtain it where it: "item_by_id AR demo_invoiced 10 = Some it" "oi_amount it = 100" "oi_paid it = 0"
    using demo_invoiced_facts(1) by (auto simp: item_by_id_def)
  from overpayment_rejected [OF it(1), of 101 "''R-1''" demo_env "''''" "''ann''" None] it(2,3)
  show ?thesis by (auto simp: event_processed_def demo_invoiced_facts(2))
qed

text \<open>Payments as they arrive, each under its own event.\<close>

fun payment_deliveries :: "((env \<times> payment_params \<times> audit_info option) \<times> string) list \<Rightarrow> db \<Rightarrow> db" where
  "payment_deliveries [] s = s"
| "payment_deliveries ((p, ev) # ds) s = payment_deliveries ds (snd (pay_event p ev s))"

lemma payment_deliveries_eq: "payment_deliveries ds s = payment_booking.deliver ds s"
  by (induction ds s rule: payment_deliveries.induct) simp_all

text \<open>
  A payment is applied once: delivering its event again, after any other payments and with
  whatever amount, returns the payment of the first delivery and leaves the database as it is.
\<close>

theorem payment_redelivered:
  assumes "payments_linked s" "pay_event p ev s = (Inr pay, t)" "ev \<noteq> ''''" "list_all (\<lambda>d. snd d \<noteq> '''') ds"
  shows "pay_event p' ev (payment_deliveries ds t) = (Inr pay, payment_deliveries ds t)"
  unfolding payment_deliveries_eq
  using assms by (intro payment_booking.redelivery [OF assms(1) _ assms(2,3)]) (auto simp: list_all_iff)

definition demo_settlement_of :: "rat \<Rightarrow> env \<times> payment_params \<times> audit_info option" where
  "demo_settlement_of amount = (demo_env,
     \<lparr>pp_event = '''', pp_type = ''payment.received'', pp_source = ''iag.finance'', pp_correlation = ''R-1'',
      pp_desc = ''AR payment'', pp_direction = AR, pp_item = 10, pp_amount = amount, pp_currency = ''UGX'', pp_ref = ''R-1'',
      pp_fx_rate = 1, pp_lines = [mk_line 2 amount 0 ''cash'' 0, mk_line 3 0 amount ''ar'' 1], pp_outbox = None\<rparr>, None)"

lemma demo_pay_event:
  "case pay_event (demo_settlement_of 40) ''e1'' demo_invoiced of (Inr p, _) \<Rightarrow> p_amount p = 40 | _ \<Rightarrow> False"
  "payments demo_invoiced = []"
  by code_simp+

theorem payment_redelivered_witness:
  "\<exists>p t. pay_event (demo_settlement_of 40) ''e1'' demo_invoiced = (Inr p, t) \<and> p_amount p = 40 \<and>
     pay_event (demo_settlement_of 60) ''e1'' t = (Inr p, t)"
proof -
  obtain p t where p: "pay_event (demo_settlement_of 40) ''e1'' demo_invoiced = (Inr p, t)" "p_amount p = 40"
    using demo_pay_event(1) by (cases "pay_event (demo_settlement_of 40) ''e1'' demo_invoiced") (auto split: sum.splits)
  from payment_redelivered [OF _ p(1), of "[]" "demo_settlement_of 60"] p show ?thesis
    by (auto simp: payments_linked_def demo_pay_event(2))
qed

section \<open>The subledgers in every reachable state\<close>

text \<open>
  C15. In every reachable state the paid amount of a receivable or payable is the sum of the payments
  recorded for it, is not negative, and does not exceed the amount of the item, which is positive.
\<close>

theorem paid_is_sum_of_payments:
  assumes "reachable hash rnd s" "rounding_laws rnd" "it \<in> set (items_of d s)"
  shows "oi_paid it = sum_list (map p_amount (filter (\<lambda>p. p_direction p = d \<and> p_item p = oi_id it) (payments s))) \<and>
    0 \<le> oi_paid it \<and> oi_paid it \<le> oi_amount it \<and> 0 < oi_amount it"
proof -
  have r: "reconciled s"
    using reachable_books [OF assms(1,2), of "demo_env\<lparr>env_hash := hash\<rparr>"] by (simp add: books_def)
  then have "item_ok it" using assms(3) by (auto simp: reconciled_def items_wf_alt side_wf_def)
  with r assms(3) show ?thesis by (simp add: reconciled_def item_ok_def paid_total_def)
qed

lemma demo_paid_facts:
  "map (\<lambda>i. (oi_id i, oi_paid i)) (ar_items demo_paid) = [(10, 40)]" "map p_amount (payments demo_paid) = [40]"
  by code_simp+

theorem paid_is_sum_of_payments_witness:
  "\<exists>it. ar_items demo_paid = [it] \<and> oi_paid it = 40 \<and>
     oi_paid it = sum_list (map p_amount (filter (\<lambda>p. p_direction p = AR \<and> p_item p = oi_id it) (payments demo_paid)))"
proof -
  obtain it where it: "ar_items demo_paid = [it]" "oi_paid it = 40" using demo_paid_facts(1) by auto
  with paid_is_sum_of_payments [OF demo_paid_reachable rounding_laws_half_away, of it AR] show ?thesis by auto
qed

section \<open>Notes\<close>

text \<open>
  C19. A credit note for the whole amount of an item nothing was paid on always fails: the item cannot
  be closed at amount zero, so the booking is rolled back and only an entry number is lost.
\<close>

theorem full_credit_refused:
  assumes "rounding_laws (env_round env)" "items_wf s"
    and "to_lower (trim_space (ai_kind inp)) = ''credit_note''" "dn = to_lower (trim_space (ai_direction inp))"
    and "item_by_ref (side_of dn) s (ai_original inp) = Some it" "oi_status it \<noteq> Closed" "oi_paid it = 0"
      "ai_amount inp = oi_amount it"
    and "\<not> event_processed s (''adjustment.'' @ dn @ '':'' @ ''credit_note'' @ '':'' @ note_reference ''credit_note'' inp)"
      "entry_by_source s (''adjustment.'' @ dn @ '':'' @ ''credit_note'' @ '':'' @ note_reference ''credit_note'' inp) = None"
  shows "\<exists>e n. CreateAdjustment env inp actor s = (Inl e, s\<lparr>entry_seq := n\<rparr>)"
  using assms by (rule full_credit_adjustment)

definition demo_note :: adjustment_input where
  "demo_note = \<lparr>ai_kind = ''credit_note'', ai_direction = ''ar'', ai_original = ''INV-1'', ai_document = '''',
     ai_reason = ''returned'', ai_amount = 100, ai_currency = ''UGX''\<rparr>"

theorem full_credit_refused_witness:
  "\<exists>e n. CreateAdjustment demo_env demo_note ''ann'' demo_invoiced = (Inl e, demo_invoiced\<lparr>entry_seq := n\<rparr>)"
proof -
  have ref: "map oi_document_ref (ar_items demo_invoiced) = [''INV-1'']" by code_simp
  obtain it where it: "ar_items demo_invoiced = [it]" "oi_amount it = 100" "oi_paid it = 0" "oi_status it = Open"
    using demo_invoiced_facts(1) by auto
  have low: "to_lower (trim_space (ai_kind demo_note)) = ''credit_note''" "to_lower (trim_space (ai_direction demo_note)) = ''ar''"
    "side_of ''ar'' = AR" by code_simp+
  show ?thesis
    by (rule full_credit_refused [OF demo_env_round demo_invoiced_wf low(1) low(2) [symmetric], of it])
      (use it ref in \<open>simp_all add: low(3) item_by_ref_def demo_note_def event_processed_def entry_by_source_def
        demo_invoiced_facts(2,3)\<close>)
qed

end
