(* ===== verification/Infrastructure_Properties.thy ===== *)
theory Infrastructure_Properties
  imports Service Demo
begin

text \<open>
  The properties of what the ledger rests on: the audit chain, the numbering of entries and the
  transactional outbox with its relay.
\<close>

section \<open>The audit chain\<close>



text \<open>What a row's hash is computed from.\<close>

definition hash_input :: "audit_row \<Rightarrow> string" where
  "hash_input e = format_rfc3339nano (au_ts e) @ ''|'' @ au_actor e @ ''|'' @ au_type e @ ''|'' @ au_message e @ ''|'' @ au_prev e"

lemma row_hash_input: "row_hash env e = env_hash env (hash_input e)"
  by (simp add: row_hash_def EventHash_def SimpleHash_def hash_input_def)

lemma chain_head_length:
  assumes "chained env genesis xs" "\<And>x. length (env_hash env x) = 64"
  shows "length (chain_head xs) = (if xs = [] then 7 else 64)"
proof (cases xs rule: rev_cases)
  case (snoc ys y)
  with assms(1) have "env_hash env (hash_input y) = au_hash y" by (simp add: chained_snoc_head row_hash_input)
  with assms(2) [of "hash_input y"] snoc show ?thesis by (simp add: chain_head_def)
qed (simp add: chain_head_def genesis_def)

lemma hash_input_prev:
  assumes "hash_input x = hash_input y" "length (au_prev x) = length (au_prev y)"
  shows "au_prev x = au_prev y"
proof -
  have "\<exists>us. hash_input e = us @ au_prev e" for e unfolding hash_input_def by (metis append.assoc append_Cons)
  then obtain us vs where "hash_input x = us @ au_prev x" "hash_input y = vs @ au_prev y" by metis
  with assms show ?thesis by simp
qed

lemma chains_agree:
  assumes "length xs = length ys" "chained env genesis xs" "chained env genesis ys" "chain_head xs = chain_head ys"
    and len: "\<And>x. length (env_hash env x) = 64"
    and inj: "\<And>x y. x \<in> set xs \<Longrightarrow> y \<in> set ys \<Longrightarrow> env_hash env (hash_input x) = env_hash env (hash_input y) \<Longrightarrow>
      hash_input x = hash_input y"
  shows "map hash_input xs = map hash_input ys"
  using assms(1-4) inj
proof (induction xs arbitrary: ys rule: rev_induct)
  case (snoc x xs)
  from snoc.prems(1) obtain y ys' where ys: "ys = ys' @ [y]" by (cases ys rule: rev_cases) auto
  from snoc.prems(4) have heads: "au_hash x = au_hash y" by (simp add: chain_head_def ys)
  have c: "chained env genesis xs" "au_prev x = chain_head xs" "env_hash env (hash_input x) = au_hash x"
    "chained env genesis ys'" "au_prev y = chain_head ys'" "env_hash env (hash_input y) = au_hash y"
    using snoc.prems(2,3) by (simp_all add: chained_snoc_head ys row_hash_input)
  have same: "length xs = length ys'" using snoc.prems(1) ys by simp
  have i: "hash_input x = hash_input y" using c heads by (intro snoc.prems(5)) (simp_all add: ys)
  have "length (au_prev x) = length (au_prev y)"
    using c same chain_head_length [OF c(1) len] chain_head_length [OF c(4) len] by (cases xs) auto
  with i have "au_prev x = au_prev y" by (rule hash_input_prev)
  with c have "chain_head xs = chain_head ys'" by simp
  with same c have "map hash_input xs = map hash_input ys'"
    by (intro snoc.IH) (auto intro: snoc.prems(5) simp: ys)
  with i show ?case by (simp add: ys)
qed simp

text \<open>
  C21. Tampering shows: two audit logs of the same length that both verify and end in the same hash
  agree on everything their hashes cover, unless two of their rows are a collision of the hash
  function. The hash has the 64 hexadecimal digits of SHA-256.
\<close>

theorem tampering_needs_collision:
  assumes "Verify env s = (Inr (ChainValid n), s)" "Verify env t = (Inr (ChainValid n), t)"
    and "chain_head (audit s) = chain_head (audit t)" "\<forall>x. length (env_hash env x) = 64"
    and "map hash_input (audit s) \<noteq> map hash_input (audit t)"
  shows "\<exists>x \<in> set (audit s). \<exists>y \<in> set (audit t). hash_input x \<noteq> hash_input y \<and>
    env_hash env (hash_input x) = env_hash env (hash_input y)"
proof -
  have "chained env genesis (audit s)" "length (audit s) = n" "chained env genesis (audit t)" "length (audit t) = n"
    using assms(1,2) verify_from_valid_iff [of env genesis 0 "audit s" n] verify_from_valid_iff [of env genesis 0 "audit t" n]
    by (simp_all add: Verify_def)
  then show ?thesis using chains_agree [of "audit s" "audit t" env] assms(3-5) by metis
qed

definition weak_env :: env where
  "weak_env = demo_env\<lparr>env_hash := \<lambda>_. replicate 64 (CHR ''0'')\<rparr>"

definition demo_log :: "string \<Rightarrow> db" where
  "demo_log message = snd (Append weak_env ''entry.posted'' message ''ann'' empty_db)"

lemma demo_log_rows:
  "Verify weak_env (demo_log ''a'') = (Inr (ChainValid 1), demo_log ''a'')"
  "Verify weak_env (demo_log ''b'') = (Inr (ChainValid 1), demo_log ''b'')"
  "map au_hash (audit (demo_log ''a'')) = map au_hash (audit (demo_log ''b''))"
  "map hash_input (audit (demo_log ''a'')) \<noteq> map hash_input (audit (demo_log ''b''))"
  "audit (demo_log ''a'') \<noteq> [] \<and> audit (demo_log ''b'') \<noteq> []"
  by (simp_all add: demo_log_def Append_def tx_def AppendChainTx_eq Let_def Verify_def genesis_def chain_head_def
      row_hash_def EventHash_def SimpleHash_def weak_env_def empty_db_def rollback_def hash_input_def)

theorem tampering_needs_collision_witness:
  "\<exists>x y. hash_input x \<noteq> hash_input y \<and> env_hash weak_env (hash_input x) = env_hash weak_env (hash_input y)"
proof -
  have "chain_head (audit (demo_log ''a'')) = chain_head (audit (demo_log ''b''))"
    using demo_log_rows(3,5) by (simp add: chain_head_def) (metis last_map)
  moreover have "\<forall>x. length (env_hash weak_env x) = 64" by (simp add: weak_env_def)
  ultimately show ?thesis
    using tampering_needs_collision [OF demo_log_rows(1,2) _ _ demo_log_rows(4)] by blast
qed

text \<open>
  Truncation does not show: a log that verifies still verifies after any number of its last rows
  is removed, with the smaller count.
\<close>

theorem truncation_verifies:
  assumes "Verify env s = (Inr (ChainValid n), s)" "m \<le> n"
  shows "Verify env (s\<lparr>audit := take m (audit s)\<rparr>) = (Inr (ChainValid m), s\<lparr>audit := take m (audit s)\<rparr>)"
proof -
  have "chained env genesis (audit s)" "length (audit s) = n"
    using assms(1) verify_from_valid_iff [of env genesis 0 "audit s" n] by (simp_all add: Verify_def)
  with assms(2) have "verify_from env genesis 0 (take m (audit s)) = ChainValid m"
    by (simp add: verify_from_valid_iff chained_take)
  then show ?thesis by (simp add: Verify_def)
qed

theorem truncation_verifies_witness:
  "Verify weak_env (demo_log ''a''\<lparr>audit := take 0 (audit (demo_log ''a''))\<rparr>) =
     (Inr (ChainValid 0), demo_log ''a''\<lparr>audit := take 0 (audit (demo_log ''a''))\<rparr>)"
  by (rule truncation_verifies [OF demo_log_rows(1)]) simp

section \<open>Entry numbers\<close>

text \<open>
  An entry number carries its sequence value while that has at most six digits: the digits after
  the prefix read back as the value.
\<close>

theorem entry_number_roundtrip:
  assumes "n \<le> 999999"
  shows "digits_value (drop 3 (entry_number n)) = int n"
  using assms by (intro entry_number_value) simp

theorem entry_number_roundtrip_witness: "digits_value (drop 3 (entry_number 999999)) = 999999"
  using entry_number_roundtrip [of 999999] by simp

lemma taken_number_refused:
  assumes "entry_number (entry_seq s) \<in> e_number ` set (entries s)" "ev \<noteq> ''''"
  shows "booking_tx env p ev ty postedAt side a s = (Inl RaceLost, s\<lparr>entry_seq := Suc (entry_seq s)\<rparr>)"
proof -
  have "insertPostedEntryTx env (p\<lparr>jp_number := entry_number (entry_seq s)\<rparr>) postedAt
      (s\<lparr>touched := [], entry_seq := Suc (entry_seq s)\<rparr>) =
    (Inl (UniqueViolation ''journal_entries_entry_number_key''), s\<lparr>touched := [], entry_seq := Suc (entry_seq s)\<rparr>)"
    using assms(1) by (simp add: insertPostedEntryTx_def insert_entry_def bind_apply)
  with assms(2) show ?thesis
    by (simp add: booking_tx_def tx_def bind_apply nextEntryNumberTx_def catch_apply rollback_def)
qed

text \<open>
  C22. A number that is already taken (the sequence passed 999999, where the padding truncates) makes
  a first booking of an event end without an error and without an entry: the violation is taken for
  a lost race, and the replay finds nothing.
\<close>

theorem taken_number_loses_event:
  assumes "ev \<noteq> ''''" "\<not> event_processed s ev" "jp_source_event p = None \<or> jp_source_event p = Some ev"
    and "entry_by_source s ev = None" "entry_number (entry_seq s) \<in> e_number ` set (entries s)"
  shows "BookPostedEntry env p ev ty postedAt side a s = (Inr (None, None), s\<lparr>entry_seq := Suc (entry_seq s)\<rparr>)"
  using assms(1-4)
  by (auto simp: taken_number_refused [OF assms(5,1)] BookPostedEntry_def IsEventProcessed_def GetJournalEntryBySourceEvent_def bind_apply catch_apply
      Let_def entry_by_source_def)

definition full_ledger :: db where
  "full_ledger = demo_ledger\<lparr>entries := map (\<lambda>e. e\<lparr>e_number := ''JE-100000''\<rparr>) (entries demo_ledger), entry_seq := 1000000\<rparr>"

lemma entry_number_million: "entry_number 1000000 = ''JE-100000''"
proof -
  have "digit_char 0 = CHR ''0''" "digit_char 1 = CHR ''1''" by code_simp+
  then have "show_digits 1000000 = ''1000000''" by (simp add: show_digits.simps)
  then show ?thesis by (simp add: entry_number_def lpad_def show_nat_def show_int_def)
qed

lemma full_ledger_facts:
  "\<not> event_processed full_ledger ''e2''" "entry_by_source full_ledger ''e2'' = None"
  "entry_number (entry_seq full_ledger) \<in> e_number ` set (entries full_ledger)"
proof -
  have "processed demo_ledger = [(''e1'', ''sale'')]" "map e_source_event (entries demo_ledger) = [Some ''e1'']"
    by code_simp+
  then show "\<not> event_processed full_ledger ''e2''" "entry_by_source full_ledger ''e2'' = None"
    "entry_number (entry_seq full_ledger) \<in> e_number ` set (entries full_ledger)"
    by (auto simp: full_ledger_def event_processed_def entry_by_source_def entry_number_million)
qed

theorem taken_number_loses_event_witness:
  "BookPostedEntry demo_env default_params ''e2'' ''sale'' 0 (None :: (id \<Rightarrow> unit action) option) None full_ledger =
     (Inr (None, None), full_ledger\<lparr>entry_seq := Suc (entry_seq full_ledger)\<rparr>)"
  by (rule taken_number_loses_event [OF _ full_ledger_facts(1) _ full_ledger_facts(2,3)])
    (simp_all add: default_params_def)

section \<open>The outbox\<close>

lemma one_with_id:
  "distinct (map ob_event_id os) \<Longrightarrow>
     length (filter (\<lambda>x. ob_event_id x = k) os) = (if k \<in> ob_event_id ` set os then 1 else 0)"
  by (induction os) (auto simp: image_iff)

text \<open>
  An event is announced once: enqueueing it leaves exactly one row with its identifier, whatever
  the outbox held, and enqueueing the identifier again changes nothing.
\<close>

theorem announced_once:
  assumes "outbox_wf s" "enqueueOutboxTx ev s = (r, t)"
  shows "length (filter (\<lambda>x. ob_event_id x = oe_event_id ev) (outbox t)) = 1 \<and>
    (oe_event_id ev' = oe_event_id ev \<longrightarrow> enqueueOutboxTx ev' t = (Inr (), t))"
proof (cases "oe_event_id ev \<in> ob_event_id ` set (outbox s)")
  case True
  with assms(2) have t: "t = s" by (simp add: enqueueOutboxTx_def)
  with True assms(1) one_with_id [of "outbox s" "oe_event_id ev"]
  show ?thesis by (simp add: enqueueOutboxTx_def outbox_wf_def)
next
  case False
  then have "filter (\<lambda>x. ob_event_id x = oe_event_id ev) (outbox s) = []" by (simp add: filter_empty_conv) (metis image_eqI)
  with False assms(2) show ?thesis by (auto simp: enqueueOutboxTx_def)
qed

definition demo_event :: "string \<Rightarrow> outbox_event" where
  "demo_event k = \<lparr>oe_topic = ''finance'', oe_key = k, oe_event_id = k, oe_event_type = ''payment.received'', oe_payload = []\<rparr>"

theorem announced_once_witness:
  "length (filter (\<lambda>x. ob_event_id x = ''e1'') (outbox (snd (enqueueOutboxTx (demo_event ''e1'') empty_db)))) = 1"
  using announced_once [of empty_db "demo_event ''e1''", OF _ prod.collapse [symmetric]]
  by (simp add: outbox_wf_def empty_db_def demo_event_def)

text \<open>Successive passes of the relay, each with its own answers of the broker.\<close>

fun relay_rounds :: "env \<Rightarrow> (outbox_row \<Rightarrow> delivery) list \<Rightarrow> db \<Rightarrow> outbox_row list \<times> db" where
  "relay_rounds env [] s = ([], s)"
| "relay_rounds env (answer # as) s =
     (case drain env answer s of
        (Inl _, t) \<Rightarrow> relay_rounds env as t
      | (Inr sent, t) \<Rightarrow> (let (more, u) = relay_rounds env as t in (sent @ more, u)))"

definition pending :: "db \<Rightarrow> outbox_row list" where
  "pending s = filter (\<lambda>r. ob_published r = None \<and> ob_attempts r < 6000) (outbox s)"

lemma filter_not_taken: "distinct xs \<Longrightarrow> filter (\<lambda>x. x \<notin> set (take n xs)) xs = drop n xs"
proof (induction xs arbitrary: n)
  case (Cons x xs)
  then show ?case by (cases n) (auto intro: filter_cong [THEN trans])
qed simp

lemma filter_map_taken:
  assumes "\<And>x. x \<in> R \<Longrightarrow> \<not> P (g x)"
  shows "filter P (map (\<lambda>x. if x \<in> R then g x else x) xs) = filter (\<lambda>x. x \<notin> R) (filter P xs)"
  using assms by (induction xs) auto

lemma drain_delivered:
  assumes wf: "outbox_wf s" and all: "\<And>r. answer r = Delivered"
  shows "\<exists>t. drain env answer s = (Inr (take 100 (pending s)), t) \<and> pending t = drop 100 (pending s) \<and> outbox_wf t"
proof -
  let ?rows = "take 100 (pending s)"
  let ?t = "s\<lparr>outbox := map (\<lambda>x. if x \<in> set ?rows then relayed env answer x else x) (outbox s)\<rparr>"
  have run: "drain env answer s = (Inr ?rows, ?t)"
    unfolding drain_apply [OF wf] pending_def Let_def by (simp add: sent_of_def all)
  have "distinct (pending s)" using wf by (simp add: outbox_wf_def distinct_map pending_def)
  then have "pending ?t = drop 100 (pending s)"
    using filter_not_taken [of "pending s" 100]
    by (simp add: pending_def filter_map_taken relayed_def all)
  moreover have "outbox_wf ?t" using keeps_run [OF keeps_drain(1) wf run] by simp
  ultimately show ?thesis using run by blast
qed

text \<open>
  C23. A broker that accepts everything gets every pending event, each exactly once and in the order
  of the outbox, after as many passes of a hundred rows as it takes; then nothing is pending.
\<close>

theorem relay_delivers_all:
  assumes "outbox_wf s" "\<forall>answer \<in> set as. \<forall>r. answer r = Delivered" "length (pending s) \<le> 100 * length as"
  shows "fst (relay_rounds env as s) = pending s \<and> pending (snd (relay_rounds env as s)) = []"
  using assms
proof (induction as arbitrary: s)
  case (Cons answer as)
  then obtain t where t: "drain env answer s = (Inr (take 100 (pending s)), t)" "pending t = drop 100 (pending s)" "outbox_wf t"
    using drain_delivered [of s answer env] by auto
  with Cons have "fst (relay_rounds env as t) = pending t \<and> pending (snd (relay_rounds env as t)) = []" by simp
  with t show ?case by (simp add: case_prod_beta Let_def)
qed simp

definition demo_outbox :: db where
  "demo_outbox = snd (enqueueOutboxTx (demo_event ''e2'') (snd (enqueueOutboxTx (demo_event ''e1'') empty_db)))"

lemma demo_outbox_wf: "outbox_wf demo_outbox" "length (pending demo_outbox) = 2"
  by (simp_all add: demo_outbox_def enqueueOutboxTx_def demo_event_def outbox_wf_def pending_def empty_db_def)

theorem relay_delivers_all_witness:
  "map ob_event_id (fst (relay_rounds demo_env [\<lambda>_. Delivered] demo_outbox)) = map ob_event_id (pending demo_outbox) \<and>
   length (pending demo_outbox) = 2"
  using relay_delivers_all [OF demo_outbox_wf(1), of "[\<lambda>_. Delivered]" demo_env] demo_outbox_wf(2) by simp

lemma drain_bounded:
  assumes wf: "outbox_wf s" and max: "\<forall>r \<in> set (outbox s). ob_attempts r \<le> 6000" and run: "drain env answer s = (x, t)"
  shows "\<forall>r \<in> set (outbox t). ob_attempts r \<le> 6000"
    "\<forall>r \<in> set (outbox s). ob_published r \<noteq> None \<or> ob_attempts r = 6000 \<longrightarrow> r \<in> set (outbox t)" "outbox_wf t"
proof -
  let ?rows = "take 100 (pending s)"
  have t: "outbox t = map (\<lambda>x. if x \<in> set ?rows then relayed env answer x else x) (outbox s)"
    using run unfolding drain_apply [OF wf] pending_def Let_def by auto
  have rows: "ob_published r = None \<and> ob_attempts r < 6000" if "r \<in> set ?rows" for r
    using in_set_takeD [OF that] by (simp add: pending_def)
  then have "ob_attempts (relayed env answer r) \<le> 6000" if "r \<in> set ?rows" for r
    using that by (fastforce simp: relayed_def split: delivery.split)
  with max show "\<forall>r \<in> set (outbox t). ob_attempts r \<le> 6000" by (auto simp: t)
  show "\<forall>r \<in> set (outbox s). ob_published r \<noteq> None \<or> ob_attempts r = 6000 \<longrightarrow> r \<in> set (outbox t)"
  proof (intro ballI impI)
    fix r assume "r \<in> set (outbox s)" "ob_published r \<noteq> None \<or> ob_attempts r = 6000"
    with rows [of r] have "r \<notin> set ?rows" by auto
    then show "r \<in> set (outbox t)" unfolding t set_map
      by (intro image_eqI [where x = r] \<open>r \<in> set (outbox s)\<close>) (rule if_not_P [symmetric])
  qed
  show "outbox_wf t" using keeps_run [OF keeps_drain(1) wf run] .
qed



end
