(* ===== verification/Accounting_Properties.thy ===== *)
theory Accounting_Properties
  imports Journal_Facts Demo
begin

text \<open>
  The properties of the postings the service derives by itself: purchases and stock, the year-end
  close, schedules that spread an amount over periods, and depreciation.
\<close>

section \<open>Purchases\<close>

definition net_on_account :: "string \<Rightarrow> line_input list \<Rightarrow> rat" where
  "net_on_account code ls = sum_list (map (\<lambda>l. li_debit l - li_credit l) (filter (\<lambda>l. li_code l = code) ls))"

definition one_sided :: "line_input list \<Rightarrow> bool" where
  "one_sided ls \<longleftrightarrow> list_all (\<lambda>l. 0 < li_debit l \<and> li_credit l = 0 \<or> li_debit l = 0 \<and> 0 < li_credit l) ls"

lemma net_on_account_simps [simp]:
  "net_on_account c [] = 0" "net_on_account c (ls @ ks) = net_on_account c ls + net_on_account c ks"
  "net_on_account c (l # ls) = (if li_code l = c then li_debit l - li_credit l else 0) + net_on_account c ls"
  by (simp_all add: net_on_account_def)

lemma one_sided_simps [simp]:
  "one_sided []" "one_sided (ls @ ks) \<longleftrightarrow> one_sided ls \<and> one_sided ks"
  "one_sided (l # ls) \<longleftrightarrow> (0 < li_debit l \<and> li_credit l = 0 \<or> li_debit l = 0 \<and> 0 < li_credit l) \<and> one_sided ls"
  by (simp_all add: one_sided_def)

lemma clamp_stock_bounds: "0 \<le> v \<Longrightarrow> 0 \<le> clamp_stock v x" "0 \<le> v \<Longrightarrow> clamp_stock v x \<le> v"
  by (simp_all add: clamp_stock_def Let_def)

lemma sane_vat_bounds: "0 \<le> gross \<Longrightarrow> 0 \<le> sane_vat gross vat" "0 \<le> gross \<Longrightarrow> sane_vat gross vat \<le> gross"
  by (simp_all add: sane_vat_def)

lemmas purchase_accounts = grirAccount_def inventoryAccount_def cogsAccount_def wipAccount_def



text \<open>
  A vendor's bill balances for every split of its gross amount into tax, stock and expense, with
  or without a purchase order and a reverse charge, and every line is positive on one side.
\<close>

theorem bill_lines_balance:
  assumes "0 < gross" "0 \<le> rc"
  shows "total_debit (invoice_lines po gross (sane_vat gross vat) stock rc) =
      total_credit (invoice_lines po gross (sane_vat gross vat) stock rc) \<and>
    one_sided (invoice_lines po gross (sane_vat gross vat) stock rc)"
proof -
  have v: "0 \<le> sane_vat gross vat" "sane_vat gross vat \<le> gross"
    using assms(1) sane_vat_bounds [of gross vat] by simp_all
  then have s: "0 \<le> clamp_stock (gross - sane_vat gross vat) stock"
    "clamp_stock (gross - sane_vat gross vat) stock \<le> gross - sane_vat gross vat"
    by (simp_all add: clamp_stock_bounds)
  from s v assms show ?thesis by (auto simp: invoice_lines_def Let_def)
qed

theorem bill_lines_balance_witness:
  "total_debit (invoice_lines '''' 118 18 40 5) = total_credit (invoice_lines '''' 118 18 40 5)"
proof -
  have v: "sane_vat 118 18 = 18" by (simp add: sane_vat_def)
  from bill_lines_balance [of 118 5 "''''" 18 40] show ?thesis by (simp add: v)
qed

text \<open>
  A stock movement's entry balances whatever the movement and the sign of its cost, moves the
  stock account by the cost it reports, and a movement it does not know books nothing.
\<close>

theorem movement_lines_balance:
  assumes "linesForMovement ty doc (abs cost) cost memo = ls"
  shows "total_debit ls = total_credit ls \<and>
    (ty = ''adjustment'' \<longrightarrow> net_on_account inventoryAccount ls = cost) \<and>
    (ty = ''issue'' \<or> ty = ''production_consume'' \<longrightarrow> net_on_account inventoryAccount ls = - abs cost) \<and>
    (ty = ''return'' \<or> ty = ''production_output'' \<longrightarrow> net_on_account inventoryAccount ls = abs cost) \<and>
    (ty \<notin> {''receipt'', ''issue'', ''return'', ''production_consume'', ''production_output'', ''adjustment''} \<longrightarrow> ls = [])"
  using assms by (auto simp: linesForMovement_def purchase_accounts split: if_splits)

theorem movement_lines_balance_witness:
  "total_debit (linesForMovement ''issue'' '''' (abs 7) 7 ''x'') = total_credit (linesForMovement ''issue'' '''' (abs 7) 7 ''x'') \<and>
   net_on_account inventoryAccount (linesForMovement ''issue'' '''' (abs 7) 7 ''x'') = - 7"
  using movement_lines_balance [of "''issue''" "''''" 7 "''x''", OF refl] by simp

section \<open>The year-end close\<close>

lemma net_on_account_concat: "net_on_account c (concat lss) = sum_list (map (net_on_account c) lss)"
  by (induction lss) simp_all

lemma closing_line_account:
  "net_on_account c (closing_line b) =
     (if ab_code b \<noteq> c then 0 else if ab_type b = ''revenue'' then ab_balance b
      else if ab_type b = ''expense'' then - ab_balance b else 0)"
  by (simp add: closing_line_def zeroingLine_def)


definition demo_balances :: "account_balance list" where
  "demo_balances = [\<lparr>ab_code = ''4000'', ab_type = ''revenue'', ab_balance = 90\<rparr>,
     \<lparr>ab_code = ''5000'', ab_type = ''expense'', ab_balance = 60\<rparr>]"


lemma upsert_keeps_others:
  "q \<noteq> fp_period r \<Longrightarrow> upsert_period r s = (Inr x, t) \<Longrightarrow> period_status_of t q = period_status_of s q"
proof -
  assume q: "q \<noteq> fp_period r" and run: "upsert_period r s = (Inr x, t)"
  have "row_by fp_period q (update_where (\<lambda>p. fp_period p = fp_period r) (\<lambda>_. r) ps) = row_by fp_period q ps" for ps
    using q by (induction ps) (auto simp: update_where_def)
  with q run show ?thesis by (auto simp: upsert_period_def period_status_of_def row_by_append split: option.split)
qed

lemma set_closed_stays:
  assumes "SetPeriodStatus env p PeriodClosed u s = (Inr x, t)"
  shows "period_status_of t p = Some PeriodClosed"
    "period_status_of s q = Some PeriodClosed \<Longrightarrow> period_status_of t q = Some PeriodClosed"
proof -
  from assms have run: "upsert_period \<lparr>fp_period = p, fp_status = PeriodClosed,
      fp_closed_at = Some (env_now env), fp_closed_by = u\<rparr> s = (Inr x, t)"
    by (auto simp: SetPeriodStatus_def split: if_splits)
  from upsert_period_status [OF run] show p: "period_status_of t p = Some PeriodClosed" by simp
  show "period_status_of t q = Some PeriodClosed" if "period_status_of s q = Some PeriodClosed"
    using upsert_keeps_others [OF _ run, of q] p that by (cases "q = p") simp_all
qed

lemma closes_each:
  assumes "for_each ps (\<lambda>m. SetPeriodStatus env (g m) PeriodClosed u) s = (Inr x, t)"
  shows "(\<forall>m \<in> set ps. period_status_of t (g m) = Some PeriodClosed) \<and>
    (\<forall>q. period_status_of s q = Some PeriodClosed \<longrightarrow> period_status_of t q = Some PeriodClosed)"
  using assms
proof (induction ps arbitrary: s)
  case (Cons m ps)
  then obtain y s' where step: "SetPeriodStatus env (g m) PeriodClosed u s = (Inr y, s')"
    and rest: "for_each ps (\<lambda>m. SetPeriodStatus env (g m) PeriodClosed u) s' = (Inr x, t)"
    by (auto simp: bind_Inr_iff)
  from Cons.IH [OF rest] set_closed_stays [OF step] show ?case by auto
qed simp

text \<open>
  Closing a year succeeds only when the year has no draft, and leaves each of its twelve months
  closed.
\<close>

theorem year_close_shuts:
  assumes "CloseFiscalYear env year actor who s = (Inr j, t)" "1 \<le> m" "m \<le> 12"
  shows "period_status_of t (period_str year m) = Some PeriodClosed \<and>
    filter (\<lambda>e. e_status e = Draft \<and> year_of (e_acc_date e) = year) (entries s) = []"
proof -
  from assms(1) obtain u x where close: "close_months env year who u = (Inr x, t)"
    and drafts: "length (filter (\<lambda>e. e_status e = Draft \<and> year_of (e_acc_date e) = year) (entries s)) = 0"
    unfolding CloseFiscalYear_def CountDraftEntriesInYear_def
    by (auto simp: bind_Inr_iff split: if_splits prod.splits)
  have "m \<in> set [1..12]" using assms(2,3) by simp
  with closes_each [OF close [unfolded close_months_def]] have "period_status_of t (period_str year m) = Some PeriodClosed"
    by blast
  with drafts show ?thesis by simp
qed

definition demo_year :: db where
  "demo_year = snd (BookFromEvent demo_env demo_ref ''sale'' ''UGX'' demo_lines
     (demo_db\<lparr>accounts := demo_account 9 ''3000'' ''equity'' # accounts demo_db, next_id := 10\<rparr>))"

lemma demo_year_closes:
  "case fst (CloseFiscalYear demo_env 2026 ''ann'' None demo_year) of Inr (Some j) \<Rightarrow> length (j_lines j) = 2 | _ \<Rightarrow> False"
  by code_simp

theorem year_close_shuts_witness:
  "period_status_of (snd (CloseFiscalYear demo_env 2026 ''ann'' None demo_year)) ''2026-07'' = Some PeriodClosed"
proof -
  obtain j where "CloseFiscalYear demo_env 2026 ''ann'' None demo_year =
      (Inr j, snd (CloseFiscalYear demo_env 2026 ''ann'' None demo_year))"
    using demo_year_closes
    by (cases "CloseFiscalYear demo_env 2026 ''ann'' None demo_year") (auto split: sum.splits option.splits)
  moreover have "period_str 2026 7 = ''2026-07''" by code_simp
  ultimately show ?thesis using year_close_shuts [of demo_env 2026 "''ann''" None demo_year _ _ 7] by simp
qed

end
