(* ===== verification/Schedule_Properties.thy ===== *)
theory Schedule_Properties
  imports Service Demo
begin

text \<open>
  The properties of what is spread over months: period labels, revenue and prepayment schedules,
  lease schedules and depreciation.
\<close>

section \<open>Period labels\<close>

lemma digit_char_digit: "0 \<le> d \<Longrightarrow> d < 10 \<Longrightarrow> is_digit (digit_char d)"
proof -
  assume d: "0 \<le> d" "d < 10"
  then have "d \<in> set [0..9]" by simp
  moreover have "list_all (\<lambda>d. is_digit (digit_char d)) [0..9]" by code_simp
  ultimately show ?thesis by (auto simp: list_all_iff)
qed

lemma show_digits_digits: "0 \<le> n \<Longrightarrow> list_all is_digit (show_digits n)"
proof (induction n rule: show_digits.induct)
  case (1 n)
  then show ?case
    by (cases "n < 10") (simp_all add: show_digits.simps [of n] digit_char_digit)
qed

lemma padded:
  assumes "0 \<le> n" "n < 10 ^ Suc k"
  shows "length (pad_left (Suc k) (show_int n)) = Suc k" "list_all is_digit (pad_left (Suc k) (show_int n))"
    "digits_value (pad_left (Suc k) (show_int n)) = n"
proof -
  have z: "is_digit (CHR ''0'')" by code_simp
  have s: "show_int n = show_digits n" using assms(1) by (simp add: show_int_def)
  show "length (pad_left (Suc k) (show_int n)) = Suc k"
    using length_show_digits [OF assms] by (simp add: pad_left_def s)
  show "list_all is_digit (pad_left (Suc k) (show_int n))"
    using show_digits_digits [OF assms(1)] z by (auto simp: pad_left_def s list_all_iff)
  show "digits_value (pad_left (Suc k) (show_int n)) = n"
    using digits_value_show_digits [OF assms(1)] by (simp add: pad_left_def s digits_value_zeros)
qed

text \<open>
  A period label round trips: the label printed for a month of a four-digit year parses back to
  that year and month.
\<close>

theorem period_label_roundtrip:
  assumes "0 \<le> y" "y \<le> 9999" "1 \<le> m" "m \<le> 12"
  shows "parse_period (period_str y m) = Some (y, m)"
proof -
  note py = padded [of y 3] and pm = padded [of m 1]
  have y: "length (pad_left 4 (show_int y)) = 4" "list_all is_digit (pad_left 4 (show_int y))"
    "digits_value (pad_left 4 (show_int y)) = y"
    using py assms(1,2) by (simp_all add: eval_nat_numeral)
  have m: "length (pad_left 2 (show_int m)) = 2" "list_all is_digit (pad_left 2 (show_int m))"
    "digits_value (pad_left 2 (show_int m)) = m"
    using pm assms(3,4) by (simp_all add: eval_nat_numeral)
  obtain a where a: "pad_left 4 (show_int y) = a" by blast
  obtain b where b: "pad_left 2 (show_int m) = b" by blast
  have "period_str y m = a @ CHR ''-'' # b" by (simp add: period_str_def a b)
  moreover have "drop 5 (a @ CHR ''-'' # b) = b" "take 4 (a @ CHR ''-'' # b) = a" "(a @ CHR ''-'' # b) ! 4 = CHR ''-''"
    using y(1) by (simp_all add: a nth_append)
  ultimately show ?thesis
    using y m assms(3,4) by (simp add: parse_period_def a b Let_def)
qed

theorem period_label_roundtrip_witness: "parse_period (period_str 2026 8) = Some (2026, 8)"
  by (rule period_label_roundtrip) simp_all

section \<open>Schedules that spread an amount\<close>

definition rows_of :: "plan \<Rightarrow> id \<Rightarrow> db \<Rightarrow> sched_line list" where
  "rows_of p sched s = filter (\<lambda>l. sl_schedule l = sched) (plan_lines p (registers_of s))"

lemma plan_lines_set: "plan_lines p (set_plan_lines p ls r) = ls"
  by (cases p) (simp_all add: plan_lines_def set_plan_lines_def)

lemma insert_sched_line_Inr:
  assumes "insert_sched_line env p sched period x s = (Inr u, t)"
  shows "\<exists>row. plan_lines p (registers_of t) = plan_lines p (registers_of s) @ [row] \<and>
    sl_schedule row = sched \<and> sl_period row = period \<and> sl_amount row = env_round env x 2 \<and> sl_entry row = None \<and>
    0 \<le> sl_amount row \<and> (\<forall>l \<in> set (rows_of p sched s). sl_period l \<noteq> period)"
  using assms by (auto simp: insert_sched_line_def Let_def plan_lines_set rows_of_def split: if_splits)

lemma lay_slices_rows:
  assumes "for_each (enumerate k xs) (\<lambda>(i, x). insert_sched_line env p sched (addMonths start i) x) s = (Inr u, t)"
    and "distinct (map sl_period (rows_of p sched s))"
  shows "\<exists>rows. plan_lines p (registers_of t) = plan_lines p (registers_of s) @ rows \<and>
    map sl_amount rows = map (\<lambda>x. env_round env x 2) xs \<and> (\<forall>l \<in> set rows. sl_schedule l = sched \<and> sl_entry l = None \<and> 0 \<le> sl_amount l) \<and>
    distinct (map sl_period (rows_of p sched t))"
  using assms
proof (induction xs arbitrary: k s)
  case (Cons x xs)
  from Cons.prems(1) obtain s' where ins: "insert_sched_line env p sched (addMonths start k) x s = (Inr (), s')"
    and rest: "for_each (enumerate (Suc k) xs) (\<lambda>(i, x). insert_sched_line env p sched (addMonths start i) x) s' = (Inr u, t)"
    by (auto simp: bind_Inr_iff)
  from insert_sched_line_Inr [OF ins] obtain row where
    row: "plan_lines p (registers_of s') = plan_lines p (registers_of s) @ [row]" "sl_schedule row = sched"
      "sl_period row = addMonths start k" "sl_amount row = env_round env x 2" "sl_entry row = None" "0 \<le> sl_amount row"
    and new: "\<forall>l \<in> set (rows_of p sched s). sl_period l \<noteq> addMonths start k" by blast
  have "rows_of p sched s' = rows_of p sched s @ [row]" by (simp add: rows_of_def row)
  with new Cons.prems(2) row(3) have "distinct (map sl_period (rows_of p sched s'))" by auto
  from Cons.IH [OF rest this] obtain rows where
    "plan_lines p (registers_of t) = plan_lines p (registers_of s') @ rows" "map sl_amount rows = map (\<lambda>x. env_round env x 2) xs"
    "\<forall>l \<in> set rows. sl_schedule l = sched \<and> sl_entry l = None \<and> 0 \<le> sl_amount l"
    "distinct (map sl_period (rows_of p sched t))" by blast
  with row show ?case by (intro exI [of _ "row # rows"]) simp
qed simp

lemma has_places_mult: "has_places k x \<Longrightarrow> has_places k (of_nat n * x)"
  by (induction n) (simp_all add: algebra_simps has_places_add)

lemma slices_exact:
  assumes "rounding_laws (env_round env)" "has_places 2 amount" "x \<in> set (ratableSlices env amount n)"
  shows "env_round env x 2 = x"
proof -
  have "has_places 2 (env_round env (amount / of_nat n) 2)" by (rule round_places [OF assms(1)])
  with assms(2,3) have "has_places 2 x"
    by (auto simp: ratableSlices_def Let_def has_places_diff has_places_mult)
  then show ?thesis by (rule round_exact [OF assms(1)])
qed

text \<open>
  C27. Laying a schedule out over \<open>n\<close> months stores exactly \<open>n\<close> rows, for distinct months, none
  negative and none yet booked, whose amounts add up to the scheduled amount to the cent; the rows of
  other schedules stay.
\<close>

theorem schedule_adds_up:
  assumes "lay_slices env p sched start (ratableSlices env amount n) s = (Inr u, t)"
    and "rounding_laws (env_round env)" "has_places 2 amount" "1 \<le> n" "rows_of p sched s = []"
  shows "length (rows_of p sched t) = n \<and> sum_list (map sl_amount (rows_of p sched t)) = amount \<and>
    distinct (map sl_period (rows_of p sched t)) \<and> (\<forall>l \<in> set (rows_of p sched t). sl_entry l = None \<and> 0 \<le> sl_amount l) \<and>
    (\<forall>other. other \<noteq> sched \<longrightarrow> rows_of p other t = rows_of p other s)"
proof -
  from lay_slices_rows [OF assms(1) [unfolded lay_slices_def]] assms(5) obtain rows where
    rows: "plan_lines p (registers_of t) = plan_lines p (registers_of s) @ rows"
      "map sl_amount rows = map (\<lambda>x. env_round env x 2) (ratableSlices env amount n)"
      "\<forall>l \<in> set rows. sl_schedule l = sched \<and> sl_entry l = None \<and> 0 \<le> sl_amount l"
      "distinct (map sl_period (rows_of p sched t))" by auto
  have mine: "rows_of p sched t = rows" using rows(1,3) assms(5) by (simp add: rows_of_def filter_id_conv)
  have "map (\<lambda>x. env_round env x 2) (ratableSlices env amount n) = ratableSlices env amount n"
    using slices_exact [OF assms(2,3)] by (simp add: map_idI)
  with rows(2) have amounts: "map sl_amount rows = ratableSlices env amount n" by simp
  then have "length rows = n" using length_ratableSlices [OF assms(4)] by (metis length_map)
  moreover have "rows_of p other t = rows_of p other s" if "other \<noteq> sched" for other
  proof -
    have "filter (\<lambda>l. sl_schedule l = other) rows = []" using rows(3) that by (auto simp: filter_empty_conv)
    then show ?thesis by (simp add: rows_of_def rows(1))
  qed
  ultimately show ?thesis
    using mine amounts rows(3,4) ratableSlices_sum [of env amount n] by simp
qed

lemma demo_schedule:
  "case lay_slices demo_env RevenuePlan 7 ''2026-11'' (ratableSlices demo_env 100 3) empty_db of
     (Inr _, t) \<Rightarrow> map (\<lambda>l. (sl_period l, sl_amount l)) (rows_of RevenuePlan 7 t) =
       [(''2026-11'', 3333/100), (''2026-12'', 3333/100), (''2027-01'', 3334/100)] | _ \<Rightarrow> False"
  "rows_of RevenuePlan 7 empty_db = []"
  by code_simp+

theorem schedule_adds_up_witness:
  "sum_list (map sl_amount (rows_of RevenuePlan 7 (snd (lay_slices demo_env RevenuePlan 7 ''2026-11''
     (ratableSlices demo_env 100 3) empty_db)))) = 100"
proof -
  obtain u where "lay_slices demo_env RevenuePlan 7 ''2026-11'' (ratableSlices demo_env 100 3) empty_db =
      (Inr u, snd (lay_slices demo_env RevenuePlan 7 ''2026-11'' (ratableSlices demo_env 100 3) empty_db))"
    using demo_schedule(1)
    by (cases "lay_slices demo_env RevenuePlan 7 ''2026-11'' (ratableSlices demo_env 100 3) empty_db") (auto split: sum.splits)
  moreover have "has_places 2 100" by (auto simp: has_places_def intro: exI [of _ 10000])
  ultimately show ?thesis using schedule_adds_up [OF _ demo_env_round _ _ demo_schedule(2)] by simp
qed

section \<open>Leases\<close>

text \<open>
  C28. A lease schedule unwinds the lease: it has a row per month of the term, each row opens where the
  one before closed and pays its interest and principal, the principals and the depreciation each add
  up to the present value, and the last row closes at zero.
\<close>

theorem lease_schedule_unwinds:
  assumes "buildLeaseSchedule env payment rate term start = (pv, rows)" "1 \<le> term"
  shows "length rows = term \<and> linked pv rows \<and> sum_list (map sr_principal rows) = pv \<and>
    sum_list (map sr_depreciation rows) = pv \<and> sr_closing (last rows) = 0 \<and>
    sum_list (map sr_payment rows) = pv + sum_list (map sr_interest rows)"
proof -
  let ?monthly = "decimal_div env rate 12"
  have rows: "rows = lease_rows env payment ?monthly start pv (env_round env (pv / of_nat term) 2) 0 term pv 0"
    using assms(1) by (auto simp: buildLeaseSchedule_def Let_def)
  have "sum_list (map sr_payment rs) = sum_list (map sr_interest rs) + sum_list (map sr_principal rs)" if "linked x rs" for x rs
    using that by (induction x rs rule: linked.induct) (auto simp del: sum_list_addf)
  with rows lease_rows_linked [of pv env payment ?monthly start pv "env_round env (pv / of_nat term) 2" 0 "term" 0]
    lease_rows_sums [OF assms(2), of env payment ?monthly start pv "env_round env (pv / of_nat term) 2" 0 pv 0]
    length_lease_rows
  show ?thesis by simp
qed

theorem lease_schedule_unwinds_witness:
  "length (snd (buildLeaseSchedule demo_env 100 (6/100) 3 ''2026-08'')) = 3 \<and>
   sr_closing (last (snd (buildLeaseSchedule demo_env 100 (6/100) 3 ''2026-08''))) = 0"
  using lease_schedule_unwinds [of demo_env 100 "6/100" 3 "''2026-08''", OF prod.collapse [symmetric]] by simp

section \<open>Depreciation\<close>

definition charged :: "env \<Rightarrow> (id \<times> rat) list \<Rightarrow> fixed_asset \<Rightarrow> fixed_asset" where
  "charged env cs a = (case map_of cs (fa_id a) of None \<Rightarrow> a
     | Some c \<Rightarrow> a\<lparr>fa_accumulated := env_round env (fa_accumulated a + c) 2\<rparr>)"

lemma charged_fields [simp]:
  "fa_id (charged env cs a) = fa_id a" "fa_cost (charged env cs a) = fa_cost a" "fa_salvage (charged env cs a) = fa_salvage a"
  "fa_active (charged env cs a) = fa_active a" "fa_in_service (charged env cs a) = fa_in_service a"
  by (simp_all add: charged_def split: option.split)

definition dep_keys :: "registers \<Rightarrow> (id \<times> string) set" where
  "dep_keys r = (\<lambda>d. (dp_asset d, dp_period d)) ` set (fa_depreciation r)"

lemma charge_asset_apply:
  "\<exists>r. charge_asset env period (i, x) s = (Inr (), s\<lparr>registers_of := r\<rparr>) \<and>
     fa_assets r = map (charged env [(i, x)]) (fa_assets (registers_of s)) \<and>
     dep_keys r = insert (i, period) (dep_keys (registers_of s))"
proof -
  have "update_where (\<lambda>a. fa_id a = i) (\<lambda>a. a\<lparr>fa_accumulated := env_round env (fa_accumulated a + x) 2\<rparr>) as =
      map (charged env [(i, x)]) as" for as
    by (induction as) (simp_all add: charged_def)
  then show ?thesis
    by (intro exI [of _ "(if \<exists>d \<in> set (fa_depreciation (registers_of s)). dp_asset d = i \<and> dp_period d = period
        then registers_of s else (registers_of s)\<lparr>fa_depreciation := fa_depreciation (registers_of s) @
          [\<lparr>dp_asset = i, dp_period = period, dp_amount = env_round env x 2\<rparr>]\<rparr>)
        \<lparr>fa_assets := map (charged env [(i, x)]) (fa_assets (registers_of s))\<rparr>"])
      (auto simp: charge_asset_def upd_assets_def upd_registers_def dep_keys_def image_iff)
qed

lemma charged_later: "i \<notin> fst ` set cs \<Longrightarrow> charged env cs (charged env [(i, x)] a) = charged env ((i, x) # cs) a"
proof -
  assume "i \<notin> fst ` set cs"
  then have "map_of cs i = None" by (simp add: map_of_eq_None_iff)
  then show ?thesis by (auto simp: charged_def split: option.split)
qed

lemma charge_assets_apply:
  assumes "distinct (map fst cs)"
  shows "\<exists>r. for_each cs (charge_asset env period) s = (Inr (), s\<lparr>registers_of := r\<rparr>) \<and>
     fa_assets r = map (charged env cs) (fa_assets (registers_of s)) \<and>
     dep_keys r = (\<lambda>c. (fst c, period)) ` set cs \<union> dep_keys (registers_of s)"
  using assms
proof (induction cs arbitrary: s)
  case Nil
  have "charged env [] = (\<lambda>a. a)" by (rule ext) (simp add: charged_def)
  then show ?case by (intro exI [of _ "registers_of s"]) simp
next
  case (Cons c cs)
  obtain i x where c: "c = (i, x)" by (cases c)
  obtain r where r: "charge_asset env period (i, x) s = (Inr (), s\<lparr>registers_of := r\<rparr>)"
    "fa_assets r = map (charged env [(i, x)]) (fa_assets (registers_of s))"
    "dep_keys r = insert (i, period) (dep_keys (registers_of s))"
    using charge_asset_apply [of env period i x s] by blast
  obtain q where q: "for_each cs (charge_asset env period) (s\<lparr>registers_of := r\<rparr>) = (Inr (), s\<lparr>registers_of := q\<rparr>)"
    "fa_assets q = map (charged env cs) (fa_assets r)" "dep_keys q = (\<lambda>c. (fst c, period)) ` set cs \<union> dep_keys r"
    using Cons.IH [of "s\<lparr>registers_of := r\<rparr>"] Cons.prems by auto
  have "fa_assets q = map (charged env (c # cs)) (fa_assets (registers_of s))"
    using Cons.prems by (simp add: q(2) r(2) c charged_later)
  with q r show ?case by (intro exI [of _ q]) (auto simp: c bind_apply)
qed

lemma charges_of:
  "List.map_filter (\<lambda>a. map_option (\<lambda>c. (fa_id a, c)) (f a)) as = map (\<lambda>a. (fa_id a, the (f a))) (filter (\<lambda>a. f a \<noteq> None) as)"
  by (induction as) (auto simp: List.map_filter_def)

lemma charges_fst: "map fst (charges env as) = map fa_id (filter (\<lambda>a. depreciation_charge env a \<noteq> None) as)"
  by (simp add: charges_def charges_of)

lemma charges_ids:
  assumes "distinct (map fa_id as)"
  shows "distinct (map fst (charges env as))"
  unfolding charges_fst using assms by (simp add: distinct_map inj_on_def)

lemma charges_find:
  assumes "distinct (map fa_id as)" "a \<in> set as"
  shows "map_of (charges env (filter P as)) (fa_id a) = (if P a then depreciation_charge env a else None)"
  using assms
proof (induction as)
  case (Cons b as)
  have none: "map_of (charges env (filter P as)) (fa_id b) = None"
    using Cons.prems(1) by (auto simp: map_of_eq_None_iff charges_def charges_of image_iff)
  show ?case
  proof (cases "a = b")
    case True
    then show ?thesis using none by (auto simp: charges_def map_filter_simps split: option.split)
  next
    case False
    with Cons.prems have a: "a \<in> set as" "fa_id b \<notin> fa_id ` set as" by auto
    then have "fa_id a \<noteq> fa_id b" by (metis image_eqI)
    note this a(1)
    with Cons.IH Cons.prems(1) show ?thesis by (auto simp: charges_def map_filter_simps split: option.split)
  qed
qed simp

lemma keeps_registers_post: "keeps (\<lambda>u. registers_of u = r) (depreciation_entry env period d x postedAt)"
proof -
  let ?I = "\<lambda>u. registers_of u = r"
  have "keeps ?I (insert_entry e)" "keeps ?I (insert_line env l)" "keeps ?I nextEntryNumberTx"
    "keeps ?I (accountIDByCodeTx c)" for e l c
    by (simp_all add: keeps_def insert_entry_def insert_line_def nextEntryNumberTx_def accountIDByCodeTx_def
        GetAccountByCode_def Let_def bind_apply split: option.split)
  then show ?thesis
    unfolding depreciation_entry_def post_in_tx_def insertPostedEntryTx_def by (intro keeps_intros)
qed

lemma depreciation_run_Inr:
  assumes run: "repo_RunDepreciation env period postedAt s = (Inr res, t)"
    and ids: "distinct (map fa_id (fa_assets (registers_of s)))"
  obtains y m cs where "parse_period period = Some (y, m)" "cs = charges env (due_assets (registers_of s) period (month_end y m))"
    "fa_assets (registers_of t) = map (charged env cs) (fa_assets (registers_of s))"
    "dep_keys (registers_of t) = (\<lambda>c. (fst c, period)) ` set cs \<union> dep_keys (registers_of s)"
    "dr_count res = length cs" "dr_total res = sum_list (map snd cs)"
proof -
  from run obtain y m where p: "parse_period period = Some (y, m)"
    by (auto simp: repo_RunDepreciation_def split: option.splits)
  define cs where "cs = charges env (due_assets (registers_of s) period (month_end y m))"
  have cs: "distinct (map fst cs)"
    unfolding cs_def due_assets_def by (rule charges_ids) (use ids in \<open>simp add: distinct_map inj_on_def\<close>)
  from run p obtain s1 e s2 where each: "for_each cs (charge_asset env period) (s\<lparr>touched := []\<rparr>) = (Inr (), s1)"
    and post: "(if sum_list (map snd cs) > 0
               then bind (depreciation_entry env period (month_end y m) (sum_list (map snd cs)) postedAt) (\<lambda>i. ok (Some i))
               else ok None) s1 = (Inr e, s2)"
    and t: "t = s2\<lparr>touched := []\<rparr>" "dr_count res = length cs" "dr_total res = sum_list (map snd cs)"
    unfolding repo_RunDepreciation_def Let_def
    by (auto elim!: tx_InrD simp: bind_Inr_iff cs_def cong: if_cong)
  obtain r where r: "for_each cs (charge_asset env period) (s\<lparr>touched := []\<rparr>) = (Inr (), (s\<lparr>touched := []\<rparr>)\<lparr>registers_of := r\<rparr>)"
    "fa_assets r = map (charged env cs) (fa_assets (registers_of s))"
    "dep_keys r = (\<lambda>c. (fst c, period)) ` set cs \<union> dep_keys (registers_of s)"
    using charge_assets_apply [OF cs, of env period "s\<lparr>touched := []\<rparr>"] by auto
  have s1: "s1 = s\<lparr>touched := [], registers_of := r\<rparr>" using each r(1) by simp
  have "registers_of s2 = r"
  proof (cases "sum_list (map snd cs) > 0")
    case True
    with post obtain i where "depreciation_entry env period (month_end y m) (sum_list (map snd cs)) postedAt s1 = (Inr i, s2)"
      by (auto simp: bind_Inr_iff)
    from keeps_run [OF keeps_registers_post _ this, of r] show ?thesis by (simp add: s1)
  next
    case False
    with post show ?thesis by (auto simp: s1)
  qed
  with that [OF p cs_def] r t show thesis by simp
qed

lemma charge_within:
  assumes "depreciation_charge env a = Some c"
  shows "0 < c" "fa_accumulated a + c \<le> fa_cost a - fa_salvage a"
  using assms by (auto simp: depreciation_charge_def Let_def split: if_splits)

lemma charged_due:
  assumes ids: "distinct (map fa_id (fa_assets r))" and a: "a \<in> set (fa_assets r)"
  shows "map_of (charges env (due_assets r period d)) (fa_id a) =
    (if fa_active a \<and> date_le (fa_in_service a) d \<and> \<not> depreciated_in r period a then depreciation_charge env a else None)"
  unfolding due_assets_def by (rule charges_find [OF ids a])

text \<open>
  C29. A depreciation run never writes an asset below its salvage value: if no asset was, none is
  afterwards, whatever the method, and no accumulated depreciation decreases.
\<close>

theorem depreciation_floor:
  assumes "repo_RunDepreciation env period postedAt s = (Inr res, t)" "rounding_laws (env_round env)"
    and "distinct (map fa_id (fa_assets (registers_of s)))"
    and "\<forall>a \<in> set (fa_assets (registers_of s)). has_places 2 (fa_cost a) \<and> has_places 2 (fa_salvage a) \<and>
      has_places 2 (fa_accumulated a) \<and> fa_accumulated a \<le> fa_cost a - fa_salvage a"
  shows "list_all2 (\<lambda>a b. fa_id b = fa_id a \<and> fa_accumulated a \<le> fa_accumulated b \<and> fa_accumulated b \<le> fa_cost b - fa_salvage b)
    (fa_assets (registers_of s)) (fa_assets (registers_of t))"
proof -
  obtain y m cs where
    cs: "cs = charges env (due_assets (registers_of s) period (month_end y m))"
    and t: "fa_assets (registers_of t) = map (charged env cs) (fa_assets (registers_of s))"
    by (rule depreciation_run_Inr [OF assms(1,3)]) (rule that)
  have "fa_accumulated a \<le> fa_accumulated (charged env cs a) \<and> fa_accumulated (charged env cs a) \<le> fa_cost a - fa_salvage a"
    if a: "a \<in> set (fa_assets (registers_of s))" for a
  proof (cases "map_of cs (fa_id a)")
    case None
    with a assms(4) show ?thesis by (simp add: charged_def)
  next
    case (Some c)
    with charged_due [OF assms(3) a, of env period "month_end y m"] have c: "depreciation_charge env a = Some c"
      by (simp add: cs split: if_splits)
    have p: "has_places 2 (fa_cost a - fa_salvage a)" "has_places 2 (fa_accumulated a)" using a assms(4) by (simp_all add: has_places_diff)
    have "env_round env (fa_accumulated a) 2 \<le> env_round env (fa_accumulated a + c) 2"
      "env_round env (fa_accumulated a + c) 2 \<le> env_round env (fa_cost a - fa_salvage a) 2"
      by (intro round_mono [OF assms(2)]; use charge_within [OF c] in linarith)+
    with p Some show ?thesis by (simp add: charged_def round_exact [OF assms(2)])
  qed
  then show ?thesis unfolding t by (simp add: list_all2_conv_all_nth)
qed

text \<open>
  A period is depreciated once: running it again charges no asset, books nothing and leaves the
  register as it is.
\<close>

theorem depreciation_once:
  assumes "repo_RunDepreciation env period postedAt s = (Inr res, t)"
    and "distinct (map fa_id (fa_assets (registers_of s)))"
    and "repo_RunDepreciation env period postedAt' t = (Inr res', u)"
  shows "dr_count res' = 0 \<and> dr_total res' = 0 \<and> fa_assets (registers_of u) = fa_assets (registers_of t)"
proof -
  obtain y m cs where p: "parse_period period = Some (y, m)"
    and cs: "cs = charges env (due_assets (registers_of s) period (month_end y m))"
    and t: "fa_assets (registers_of t) = map (charged env cs) (fa_assets (registers_of s))"
      "dep_keys (registers_of t) = (\<lambda>c. (fst c, period)) ` set cs \<union> dep_keys (registers_of s)"
    by (rule depreciation_run_Inr [OF assms(1,2)]) (rule that)
  have ids: "distinct (map fa_id (fa_assets (registers_of t)))" using assms(2) by (simp add: t o_def)
  obtain y' m' cs' where p': "parse_period period = Some (y', m')"
    and cs': "cs' = charges env (due_assets (registers_of t) period (month_end y' m'))"
    and u: "fa_assets (registers_of u) = map (charged env cs') (fa_assets (registers_of t))"
      "dr_count res' = length cs'" "dr_total res' = sum_list (map snd cs')"
    by (rule depreciation_run_Inr [OF assms(3) ids]) (rule that)
  have "depreciation_charge env b = None" if b: "b \<in> set (due_assets (registers_of t) period (month_end y m))" for b
  proof -
    from b t(1) obtain a where a: "a \<in> set (fa_assets (registers_of s))" "b = charged env cs a"
      by (auto simp: due_assets_def)
    have keys: "depreciated_in r period x \<longleftrightarrow> (fa_id x, period) \<in> dep_keys r" for r x
      by (force simp: depreciated_in_def dep_keys_def image_iff)
    from b a(2) have n: "fa_id a \<notin> fst ` set cs" "\<not> depreciated_in (registers_of s) period a" "fa_active a"
      "date_le (fa_in_service a) (month_end y m)"
      by (auto simp: due_assets_def keys t(2) image_iff)
    then have "map_of cs (fa_id a) = None" by (simp add: map_of_eq_None_iff)
    with charged_due [OF assms(2) a(1), of env period "month_end y m"] n(2-4) have "depreciation_charge env a = None"
      by (simp add: cs)
    with \<open>map_of cs (fa_id a) = None\<close> a(2) show ?thesis by (simp add: charged_def)
  qed
  with p p' have "cs' = []" by (simp add: cs' charges_def charges_of filter_empty_conv)
  moreover have "charged env [] = (\<lambda>a. a)" by (rule ext) (simp add: charged_def)
  ultimately show ?thesis using u by simp
qed

definition demo_asset :: fixed_asset where
  "demo_asset = \<lparr>fa_id = 7, fa_ref = ''V-1'', fa_desc = ''van'', fa_category = ''vehicle'', fa_cost = 1000, fa_salvage = 100,
     fa_in_service = (2026, 1, 10), fa_life = 9, fa_method = ''straight_line'', fa_accumulated = 0, fa_currency = ''UGX'',
     fa_active = True, fa_rate = None\<rparr>"

definition demo_register :: db where
  "demo_register = demo_db\<lparr>accounts := demo_account 8 ''5300'' ''expense'' # demo_account 9 ''1510'' ''asset'' # accounts demo_db,
     next_id := 10, registers_of := empty_registers\<lparr>fa_assets := [demo_asset]\<rparr>\<rparr>"

definition demo_depreciated :: db where
  "demo_depreciated = snd (repo_RunDepreciation demo_env ''2026-08'' 0 demo_register)"

lemma demo_depreciated_code [code]:
  "demo_depreciated = demo_register
     \<lparr>entries :=
        [\<lparr>e_id = 10, e_number = ''JE-000001'', e_desc = ''Depreciation 2026-08'', e_status = Posted, e_source_event = None,
          e_source_service = Some ''fa-depreciation'', e_correlation = None, e_acc_date = (2026, 8, 31), e_reverses = None,
          e_posted_at = Some 0, e_created_by = None, e_entity = 1, e_counterparty = None\<rparr>],
      jlines :=
        [\<lparr>l_id = 11, l_entry = 10, l_account = 8, l_debit = 100, l_credit = 0, l_memo = ''Depreciation 2026-08'',
          l_order = 0, l_currency = ''UGX'', l_debit_base = 100, l_credit_base = 0, l_cost_center = None, l_project = None\<rparr>,
         \<lparr>l_id = 12, l_entry = 10, l_account = 9, l_debit = 0, l_credit = 100,
          l_memo = ''Accumulated depreciation 2026-08'', l_order = 1, l_currency = ''UGX'', l_debit_base = 0,
          l_credit_base = 100, l_cost_center = None, l_project = None\<rparr>],
      registers_of := empty_registers
        \<lparr>fa_assets := [demo_asset\<lparr>fa_accumulated := 100\<rparr>],
         fa_depreciation := [\<lparr>dp_asset = 7, dp_period = ''2026-08'', dp_amount = 100\<rparr>]\<rparr>,
      entry_seq := 2, next_id := 13\<rparr>"
  by code_simp

lemma demo_runs:
  "case fst (repo_RunDepreciation demo_env ''2026-08'' 0 demo_register) of Inr r \<Rightarrow> dr_total r = 100 | _ \<Rightarrow> False"
  "case fst (repo_RunDepreciation demo_env ''2026-08'' 0 demo_depreciated) of Inr r \<Rightarrow> True | _ \<Rightarrow> False"
  by code_simp+

lemma demo_register_assets: "fa_assets (registers_of demo_register) = [demo_asset]"
  by (simp add: demo_register_def)

lemma demo_run:
  obtains r where "repo_RunDepreciation demo_env ''2026-08'' 0 demo_register = (Inr r, demo_depreciated)"
  using demo_runs(1) unfolding demo_depreciated_def
  by (cases "repo_RunDepreciation demo_env ''2026-08'' 0 demo_register") (auto split: sum.splits)

theorem depreciation_floor_witness:
  "\<exists>b. fa_assets (registers_of demo_depreciated) = [b] \<and> fa_accumulated b \<le> fa_cost b - fa_salvage b"
proof -
  obtain r where r: "repo_RunDepreciation demo_env ''2026-08'' 0 demo_register = (Inr r, demo_depreciated)" by (rule demo_run)
  have "has_places 2 1000" "has_places 2 100" "has_places 2 0"
    by (auto simp: has_places_def intro: exI [of _ 100000] exI [of _ 10000])
  then have "list_all2 (\<lambda>a b. fa_id b = fa_id a \<and> fa_accumulated a \<le> fa_accumulated b \<and> fa_accumulated b \<le> fa_cost b - fa_salvage b)
      [demo_asset] (fa_assets (registers_of demo_depreciated))"
    using depreciation_floor [OF r demo_env_round] by (simp add: demo_register_assets) (simp add: demo_asset_def)
  then show ?thesis by (auto simp: list_all2_Cons1)
qed

theorem depreciation_once_witness:
  "\<exists>r u. repo_RunDepreciation demo_env ''2026-08'' 0 demo_depreciated = (Inr r, u) \<and> dr_count r = 0 \<and> dr_total r = 0"
proof -
  obtain r where r: "repo_RunDepreciation demo_env ''2026-08'' 0 demo_register = (Inr r, demo_depreciated)" by (rule demo_run)
  obtain q u where q: "repo_RunDepreciation demo_env ''2026-08'' 0 demo_depreciated = (Inr q, u)"
    using demo_runs(2) by (cases "repo_RunDepreciation demo_env ''2026-08'' 0 demo_depreciated") (auto split: sum.splits)
  from depreciation_once [OF r _ q] q show ?thesis by (simp add: demo_register_assets)
qed

end
