(* ===== verification/Approval_Properties.thy ===== *)
theory Approval_Properties
  imports Service Demo
begin

text \<open>
  The properties of tiered approvals: nothing is approved without a signature for every tier its
  amount reaches, nobody signs what he asked for or signs twice, and each signature brings an approval
  one tier closer.
\<close>

section \<open>Signatures are sound\<close>

definition decided :: "db \<Rightarrow> _" where
  "decided s = (tiers s, approvals s, decisions s)"

definition approving :: "db \<Rightarrow> id \<Rightarrow> decision list" where
  "approving s i = filter (\<lambda>d. d_approval d = i \<and> d_approved d) (decisions s)"

definition signatures_ok :: "db \<Rightarrow> approval \<Rightarrow> bool" where
  "signatures_ok s a \<longleftrightarrow>
     (\<forall>d \<in> set (approving s (ap_id a)). \<not> sameApprovalActor (d_actor d) (ap_requested_by a)) \<and>
     (\<forall>d \<in> set (approving s (ap_id a)). \<forall>e \<in> set (approving s (ap_id a)). d \<noteq> e \<longrightarrow>
        to_lower (d_actor d) \<noteq> to_lower (d_actor e) \<or> trim_space (d_actor d) = '''' \<or> trim_space (d_actor e) = '''') \<and>
     (ap_status a = Approved \<or> ap_status a = Executed \<longrightarrow>
        (\<forall>t \<in> set (RequiredApprovalTiers (tiers s) (ap_amount a)).
           \<exists>d \<in> set (approving s (ap_id a)). d_tier d = t_tier t))"

definition approvals_ok :: "db \<Rightarrow> bool" where
  "approvals_ok s \<longleftrightarrow> distinct (map ap_id (approvals s)) \<and> (\<forall>a \<in> set (approvals s). ap_id a < next_id s) \<and>
     (\<forall>d \<in> set (decisions s). d_approval d < next_id s) \<and> (\<forall>a \<in> set (approvals s). signatures_ok s a)"

lemma approved_tiers_set: "set (approved_tiers s i) = d_tier ` set (approving s i)"
  by (simp add: approved_tiers_def approving_def)

lemma pending_approval_Inr:
  "pending_approval i s = (Inr a, t) \<longleftrightarrow> t = s \<and> approval_by_id s i = Some a \<and> ap_status a = Pending"
  by (auto simp: pending_approval_def GetApproval_def bind_Inr_iff require_Inr_iff split: option.splits)

definition signed_with :: "decision \<Rightarrow> bool \<Rightarrow> id \<Rightarrow> db \<Rightarrow> db \<Rightarrow> bool" where
  "signed_with d fin i s t \<longleftrightarrow> decisions t = decisions s @ [d] \<and> d_approval d = i \<and> d_approved d \<and> tiers t = tiers s \<and>
     next_id t = next_id s \<and>
     approvals t = (if fin then update_where (\<lambda>x. ap_id x = i) (\<lambda>x. x\<lparr>ap_status := Approved\<rparr>) (approvals s) else approvals s)"

text \<open>A successful signature: of the first unsigned tier, or of none when all are signed.\<close>

lemma RecordApprovalTier_Inr:
  assumes "RecordApprovalTier i actor hasPerm note s = (Inr (fin, prog), t)"
  obtains (signed) a tr d where "approval_by_id s i = Some a" "ap_status a = Pending"
      "\<not> sameApprovalActor actor (ap_requested_by a)" "\<not> actor_approved s i actor"
      "next_tier (RequiredApprovalTiers (sort_key t_tier (tiers s)) (ap_amount a)) (approved_tiers s i) = Some tr"
      "hasPerm (t_perm tr)" "signed_with d fin i s t" "d_tier d = t_tier tr" "d_actor d = actor"
      "fin = allApprovalTiers (RequiredApprovalTiers (sort_key t_tier (tiers s)) (ap_amount a)) (approved_tiers s i @ [t_tier tr])"
  | (all_signed) a where "approval_by_id s i = Some a" "ap_status a = Pending"
      "\<not> sameApprovalActor actor (ap_requested_by a)" "\<not> actor_approved s i actor"
      "next_tier (RequiredApprovalTiers (sort_key t_tier (tiers s)) (ap_amount a)) (approved_tiers s i) = None"
      "fin" "decisions t = decisions s" "tiers t = tiers s" "next_id t = next_id s"
      "approvals t = update_where (\<lambda>x. ap_id x = i) (\<lambda>x. x\<lparr>ap_status := Approved\<rparr>) (approvals s)"
proof -
  let ?s = "s\<lparr>touched := []\<rparr>"
  have same: "approval_by_id ?s = approval_by_id s" "approved_tiers ?s = approved_tiers s" "actor_approved ?s = actor_approved s"
    by (simp_all add: approval_by_id_def approved_tiers_def actor_approved_def fun_eq_iff)
  from assms obtain a signed s1 s2 where a: "approval_by_id s i = Some a" "ap_status a = Pending"
    and guard: "\<not> sameApprovalActor actor (ap_requested_by a)" "\<not> actor_approved s i actor"
    and sign: "(case next_tier (RequiredApprovalTiers (sort_key t_tier (tiers ?s)) (ap_amount a)) (approved_tiers ?s i) of
              None \<Rightarrow> ok (approved_tiers ?s i, True)
            | Some tr \<Rightarrow>
                bind (require (hasPerm (t_perm tr)) ErrApprovalForbidden) (\<lambda>_.
                bind (insert_decision \<lparr>d_approval = i, d_tier = t_tier tr, d_actor = actor, d_approved = True, d_note = note\<rparr>) (\<lambda>_.
                ok (approved_tiers ?s i @ [t_tier tr],
                  allApprovalTiers (RequiredApprovalTiers (sort_key t_tier (tiers ?s)) (ap_amount a)) (approved_tiers ?s i @ [t_tier tr]))))) ?s
          = (Inr (signed, fin), s1)"
    and mark: "when_ok fin (set_approval i (\<lambda>x. x\<lparr>ap_status := Approved\<rparr>)) s1 = (Inr (), s2)" and t: "t = s2\<lparr>touched := []\<rparr>"
    unfolding RecordApprovalTier_def Let_def
    by (auto elim!: tx_InrD simp: bind_Inr_iff require_Inr_iff pending_approval_Inr ListApprovalTiers_def same)
  have s2: "decisions s2 = decisions s1 \<and> tiers s2 = tiers s1 \<and> next_id s2 = next_id s1 \<and>
      approvals s2 = (if fin then update_where (\<lambda>x. ap_id x = i) (\<lambda>x. x\<lparr>ap_status := Approved\<rparr>) (approvals s1) else approvals s1)"
    using mark by (cases fin) (auto simp: set_approval_def)
  show thesis
  proof (cases "next_tier (RequiredApprovalTiers (sort_key t_tier (tiers s)) (ap_amount a)) (approved_tiers s i)")
    case None
    with sign s2 t show thesis by (intro all_signed [OF a guard]) (auto simp: same)
  next
    case (Some tr)
    with sign s2 t show thesis
      by (intro signed [OF a guard])
        (auto simp: same bind_Inr_iff require_Inr_iff insert_decision_def signed_with_def split: if_splits)
  qed
qed

lemma required_sorted: "set (RequiredApprovalTiers (sort_key t_tier ts) x) = set (RequiredApprovalTiers ts x)"
  by (simp add: RequiredApprovalTiers_def)

lemma approvals_ok_cong:
  assumes "decided t = decided s" "next_id s \<le> next_id t" "approvals_ok s"
  shows "approvals_ok t"
proof -
  have d: "tiers t = tiers s" "approvals t = approvals s" "decisions t = decisions s" using assms(1) by (simp_all add: decided_def)
  then have "signatures_ok t a = signatures_ok s a" for a by (simp add: signatures_ok_def approving_def)
  with d assms(2,3) show ?thesis unfolding approvals_ok_def by (metis order_less_le_trans)
qed

text \<open>The status of one approval changes and decisions about it are added.\<close>

lemma approvals_ok_mark:
  assumes ok: "approvals_ok s" and a: "approval_by_id s i = Some a"
    and t: "tiers t = tiers s" "next_id t = next_id s" "decisions t = decisions s @ ds"
      "approvals t = update_where (\<lambda>x. ap_id x = i) f (approvals s)"
    and f: "ap_id (f a) = i" "ap_requested_by (f a) = ap_requested_by a" "ap_amount (f a) = ap_amount a"
    and ds: "\<forall>d \<in> set ds. d_approval d = i" and sound: "signatures_ok t (f a)"
  shows "approvals_ok t"
proof -
  have mem: "a \<in> set (approvals s)" "ap_id a = i" using row_by_Some_in [OF a [unfolded approval_by_id_def]] by simp_all
  have uniq: "x = a" if "x \<in> set (approvals s)" "ap_id x = i" for x
    using that mem ok by (auto simp: approvals_ok_def distinct_map inj_on_def)
  have t': "approvals t = map (\<lambda>x. if x = a then f a else x) (approvals s)"
    unfolding t(4) update_where_def by (rule map_cong) (auto dest: uniq simp: mem(2))
  have "map ap_id (approvals t) = map ap_id (approvals s)" using f(1) mem(2) by (simp add: t')
  moreover have "signatures_ok t b" if b: "b \<in> set (approvals t)" for b
  proof -
    from b t' obtain x where x: "x \<in> set (approvals s)" "b = (if x = a then f a else x)" by auto
    show ?thesis
    proof (cases "x = a")
      case True
      with x(2) sound show ?thesis by simp
    next
      case False
      with uniq x(1) have "ap_id x \<noteq> i" by blast
      then have "approving t (ap_id x) = approving s (ap_id x)" using ds by (auto simp: approving_def t(3) filter_empty_conv)
      with ok x(1) False x(2) show ?thesis by (simp add: approvals_ok_def signatures_ok_def t(1))
    qed
  qed
  moreover have "\<forall>b \<in> set (approvals t). ap_id b < next_id t"
    using ok mem f(1) by (auto simp: t' t(2) approvals_ok_def)
  moreover have "\<forall>d \<in> set (decisions t). d_approval d < next_id t"
    using ok mem ds by (auto simp: t approvals_ok_def)
  ultimately show ?thesis using ok by (simp add: approvals_ok_def)
qed

lemma approvals_ok_record:
  assumes ok: "approvals_ok s" and run: "RecordApprovalTier i actor hp note s = (r, t)"
  shows "approvals_ok t"
proof (cases r)
  case (Inl e)
  with run obtain s' where "t = rollback s s'" unfolding RecordApprovalTier_def by (auto elim: tx_InlD)
  then show ?thesis by (intro approvals_ok_cong [OF _ _ ok]) (simp_all add: rollback_def decided_def)
next
  case (Inr x)
  obtain fin prog where "x = (fin, prog)" by (cases x)
  with run Inr have run': "RecordApprovalTier i actor hp note s = (Inr (fin, prog), t)" by simp
  let ?mark = "\<lambda>x :: approval. x\<lparr>ap_status := Approved\<rparr>"
  from run' show ?thesis
  proof (cases rule: RecordApprovalTier_Inr)
    case (signed a tr d)
    note mem = row_by_Some_in [OF signed(1) [unfolded approval_by_id_def]]
    let ?f = "if fin then ?mark else (\<lambda>x. x)"
    have id: "update_where P (\<lambda>x. x) xs = xs" for P and xs :: "approval list" by (induction xs) (auto simp: update_where_def)
    have s': "decisions t = decisions s @ [d]" "d_approval d = i" "d_approved d" "tiers t = tiers s" "next_id t = next_id s"
      "approvals t = update_where (\<lambda>x. ap_id x = i) ?f (approvals s)"
      using signed(7) by (simp_all add: signed_with_def id)
    have ap: "approving t i = approving s i @ [d]" by (simp add: approving_def s'(1-3))
    have old: "signatures_ok s a" using ok mem by (simp add: approvals_ok_def)
    have new: "to_lower (d_actor e) \<noteq> to_lower actor \<or> trim_space actor = ''''" if "e \<in> set (approving s i)" for e
      using signed(4) that by (auto simp: actor_approved_def approving_def)
    have all: "\<exists>e \<in> set (approving t i). d_tier e = t_tier x"
      if "fin" "x \<in> set (RequiredApprovalTiers (tiers s) (ap_amount a))" for x
      using signed(8,10) that
      by (fastforce simp: allApprovalTiers_def list_all_iff required_sorted approved_tiers_set ap)
    have "signatures_ok t (?f a)"
      using old new all signed(2,3,9) mem s'(4) by (auto simp: signatures_ok_def ap)
    then show ?thesis
      using mem s' by (intro approvals_ok_mark [OF ok signed(1) s'(4,5,1,6)]) auto
  next
    case (all_signed a)
    note mem = row_by_Some_in [OF all_signed(1) [unfolded approval_by_id_def]]
    have ap: "approving t i = approving s i" by (simp add: approving_def all_signed(7))
    have old: "signatures_ok s a" using ok mem by (simp add: approvals_ok_def)
    have "\<exists>e \<in> set (approving t i). d_tier e = t_tier x" if "x \<in> set (RequiredApprovalTiers (tiers s) (ap_amount a))" for x
      using all_signed(5) that
      by (fastforce simp: next_tier_def find_None_iff required_sorted approved_tiers_set ap)
    with old mem have "signatures_ok t (?mark a)" by (auto simp: signatures_ok_def ap all_signed(8))
    then show ?thesis
      using mem by (intro approvals_ok_mark [OF ok all_signed(1,8,9) _ all_signed(10), of "[]"]) (auto simp: all_signed(7))
  qed
qed

section \<open>Approvals among everything else\<close>

text \<open>
  The approval calls of any actors, between steps of the rest of the service, which may do anything
  but write the tables of approvals, decisions and tiers.
\<close>

inductive approval_step :: "db \<Rightarrow> db \<Rightarrow> bool" where
  submit: "approval_step s (snd (SubmitForApproval env tg am c pl w d s))"
| approve: "approval_step s (snd (ApproveApproval env parse_uuid i actor hp note s))"
| reject: "approval_step s (snd (RejectApproval i actor hp note s))"
| elsewhere: "decided t = decided s \<Longrightarrow> next_id s \<le> next_id t \<Longrightarrow> approval_step s t"

inductive approval_runs :: "db \<Rightarrow> db \<Rightarrow> bool" for s where
  here: "approval_runs s s"
| step: "approval_runs s t \<Longrightarrow> approval_step t u \<Longrightarrow> approval_runs s u"

interpretation undecided: subledger "\<lambda>s. decided s = x \<and> n \<le> next_id s" for x n
  by unfold_locales (auto simp: decided_def documents_of_def drop_refs_def)

lemma undecided_payment_tx: "keeps (\<lambda>s. decided s = x \<and> n \<le> next_id s) (payment_tx env p a)"
proof -
  let ?I = "\<lambda>s. decided s = x \<and> n \<le> next_id s"
  have "keeps ?I (lock_and_settle d i m)" for d i m
    by (auto simp: keeps_def lock_and_settle_def bind_apply split: option.split)
  moreover have "keeps ?I (write_paid env d i y)" for d i y
    by (cases y; cases d) (auto simp: keeps_def write_paid_def set_items_def decided_def)
  moreover have "keeps ?I (insert_payment env r)" for r
    by (auto simp: keeps_def insert_payment_def decided_def Let_def)
  ultimately show ?thesis unfolding payment_tx_def by (intro keeps_intros undecided.sub_tx)
qed

lemma undecided_run:
  assumes "m s = (r, t)" "\<And>x n. keeps (\<lambda>u. decided u = x \<and> n \<le> next_id u) m"
  shows "decided t = decided s" "next_id s \<le> next_id t"
  using keeps_run [OF assms(2) _ assms(1), of "decided s" "next_id s"] by simp_all

lemmas undecided_execution = undecided_run [OF _ undecided.sub_PostJournalEntry]
  undecided_run [OF _ keeps_apply_payment [OF undecided_payment_tx]]

lemma approved_marked:
  assumes ok: "approvals_ok s" and a: "approval_by_id s i = Some a" "ap_status a = Approved"
    and run: "MarkApprovalExecuted i ref s = (r, t)"
  shows "approvals_ok t"
proof -
  have mem: "a \<in> set (approvals s)" "ap_id a = i" using row_by_Some_in [OF a(1) [unfolded approval_by_id_def]] by simp_all
  let ?f = "\<lambda>a :: approval. a\<lparr>ap_status := Executed, ap_result := ref\<rparr>"
  have t: "t = s\<lparr>approvals := update_where (\<lambda>a. ap_id a = i) ?f (approvals s)\<rparr>"
    using run by (simp add: MarkApprovalExecuted_def set_approval_def)
  have "signatures_ok s a" using ok mem by (simp add: approvals_ok_def)
  with a(2) mem have "signatures_ok t (?f a)" by (simp add: t signatures_ok_def approving_def)
  then show ?thesis
    using mem by (intro approvals_ok_mark [OF ok a(1), of t "[]" ?f]) (simp_all add: t)
qed

lemma approvals_ok_execute:
  assumes ok: "approvals_ok s" and a: "approval_by_id s i = Some a" "ap_status a = Approved"
    and run: "executeApproval env parse_uuid i actor s = (r, t)"
  shows "approvals_ok t"
proof -
  have id: "ap_id a = i" using row_by_Some_in [OF a(1) [unfolded approval_by_id_def]] by simp
  have after: "approvals_ok v"
    if m: "m s = (q, u)" "\<And>x n. keeps (\<lambda>u. decided u = x \<and> n \<le> next_id u) m"
      and rest: "case q of Inl e \<Rightarrow> v = u | Inr z \<Rightarrow> MarkApprovalExecuted i (g z) u = (w, v)" for m :: "'x action" and q u v g w
  proof -
    note d = undecided_run [OF m]
    have u: "approvals_ok u" by (rule approvals_ok_cong [OF d ok])
    have "approval_by_id u i = Some a" using d(1) a(1) by (simp add: approval_by_id_def decided_def)
    with rest u approved_marked [OF u _ a(2)] show ?thesis by (cases q) auto
  qed
  show ?thesis
  proof (cases "ap_target a = ''journal''")
    case True
    show ?thesis
    proof (cases "parse_uuid (approvalString (ap_payload a) ''entryId'')")
      case None
      with run a True ok show ?thesis by (simp add: executeApproval_def GetApproval_def bind_apply execute_journal_def)
    next
      case (Some j)
      obtain q u where q: "PostJournalEntry env j actor s = (q, u)" by (cases "PostJournalEntry env j actor s")
      with run a True Some id show ?thesis
        by (intro after [OF q undecided.sub_PostJournalEntry, of t "\<lambda>entry. case entry of None \<Rightarrow> '''' | Some j \<Rightarrow> e_number (j_entry j)" r])
          (auto simp: executeApproval_def GetApproval_def bind_apply execute_journal_def split: sum.splits)
    qed
  next
    case no: False
    show ?thesis
    proof (cases "ap_target a = ''payment'' \<and> parse_uuid (approvalString (ap_payload a) ''openItemId'') \<noteq> None")
      case True
      then obtain j where j: "parse_uuid (approvalString (ap_payload a) ''openItemId'') = Some j" by auto
      let ?ref = "approvalString (ap_payload a) ''paymentRef''"
      let ?d = "if approvalString (ap_payload a) ''direction'' = ''ar'' then AR else AP"
      obtain q u where q: "apply_payment ?d env j (ap_amount a) (ap_currency a) ?ref actor None s = (q, u)"
        by (cases "apply_payment ?d env j (ap_amount a) (ap_currency a) ?ref actor None s")
      with run a True no j id show ?thesis
        by (intro after [OF q keeps_apply_payment [OF undecided_payment_tx], of t "\<lambda>_. ?ref" r])
          (auto simp: executeApproval_def GetApproval_def bind_apply execute_payment_def ApplyARPayment_def ApplyAPPayment_def
            Let_def split: sum.splits if_splits)
    next
      case False
      with run a no ok show ?thesis
        by (auto simp: executeApproval_def GetApproval_def bind_apply execute_payment_def split: if_splits)
    qed
  qed
qed

lemma RecordApprovalTier_final:
  assumes "RecordApprovalTier i actor hp note s = (Inr (True, prog), t)"
  shows "\<exists>a. approval_by_id t i = Some a \<and> ap_status a = Approved"
proof -
  have marked: "\<exists>b. row_by ap_id i (update_where (\<lambda>x. ap_id x = i) (\<lambda>x. x\<lparr>ap_status := Approved\<rparr>) xs) = Some b \<and> ap_status b = Approved"
    if "row_by ap_id i xs = Some a" for xs a
    using that by (induction xs) (auto simp: update_where_def split: if_splits)
  from assms show ?thesis
  proof (cases rule: RecordApprovalTier_Inr)
    case (signed a tr d)
    from marked [OF signed(1) [unfolded approval_by_id_def]] signed(7) show ?thesis
      by (simp add: signed_with_def approval_by_id_def)
  next
    case (all_signed a)
    from marked [OF all_signed(1) [unfolded approval_by_id_def]] all_signed(10) show ?thesis
      by (simp add: approval_by_id_def)
  qed
qed

lemma approvals_ok_approve:
  assumes "approvals_ok s" "ApproveApproval env parse_uuid i actor hp note s = (r, t)"
  shows "approvals_ok t"
proof -
  obtain q u where q: "RecordApprovalTier i actor hp note s = (q, u)" by (cases "RecordApprovalTier i actor hp note s")
  have u: "approvals_ok u" by (rule approvals_ok_record [OF assms(1) q])
  show ?thesis
  proof (cases q)
    case (Inl e)
    with assms(2) q u show ?thesis by (simp add: ApproveApproval_def bind_apply)
  next
    case (Inr x)
    obtain fin prog where x: "x = (fin, prog)" by (cases x)
    show ?thesis
    proof (cases fin)
      case False
      with assms(2) q u Inr x show ?thesis
        by (auto simp: ApproveApproval_def bind_apply GetApproval_def split: option.splits)
    next
      case True
      obtain z v where z: "executeApproval env parse_uuid i actor u = (z, v)" by (cases "executeApproval env parse_uuid i actor u")
      from RecordApprovalTier_final [of i actor hp "note" s prog u] q Inr x True
      obtain a where "approval_by_id u i = Some a" "ap_status a = Approved" by auto
      from approvals_ok_execute [OF u this z] have "approvals_ok v" .
      with assms(2) q Inr x True z show ?thesis
        by (auto simp: ApproveApproval_def bind_apply GetApproval_def split: option.splits sum.splits)
    qed
  qed
qed

lemma approvals_ok_reject:
  assumes ok: "approvals_ok s" and run: "RejectApproval i actor hp note s = (r, t)"
  shows "approvals_ok t"
proof -
  obtain q u where q: "repo_RejectApproval i actor hp note s = (q, u)" by (cases "repo_RejectApproval i actor hp note s")
  have t: "t = u" using run q
    by (cases q) (auto simp: RejectApproval_def bind_apply GetApproval_def split: option.splits)
  show ?thesis
  proof (cases q)
    case (Inl e)
    with q obtain s' where "u = rollback s s'" unfolding repo_RejectApproval_def by (auto elim: tx_InlD)
    then show ?thesis unfolding t by (intro approvals_ok_cong [OF _ _ ok]) (simp_all add: rollback_def decided_def)
  next
    case (Inr x)
    let ?f = "\<lambda>x :: approval. x\<lparr>ap_status := Rejected\<rparr>"
    have same: "approval_by_id (s\<lparr>touched := []\<rparr>) = approval_by_id s" by (simp add: approval_by_id_def fun_eq_iff)
    from q Inr obtain a k where a: "approval_by_id s i = Some a"
      and d: "decisions u = decisions s @ [\<lparr>d_approval = i, d_tier = k, d_actor = actor, d_approved = False, d_note = note\<rparr>]" "tiers u = tiers s" "next_id u = next_id s"
        "approvals u = update_where (\<lambda>x. ap_id x = i) ?f (approvals s)"
      unfolding repo_RejectApproval_def Let_def
      by (auto elim!: tx_InrD simp: bind_Inr_iff require_Inr_iff pending_approval_Inr ListApprovalTiers_def same
          insert_decision_def set_approval_def)
    have mem: "a \<in> set (approvals s)" "ap_id a = i" using row_by_Some_in [OF a [unfolded approval_by_id_def]] by simp_all
    have "approving u i = approving s i" by (simp add: approving_def d)
    then have "signatures_ok u (?f a)" using ok mem by (auto simp: approvals_ok_def signatures_ok_def)
    then show ?thesis
      unfolding t using mem by (intro approvals_ok_mark [OF ok a d(2,3,1,4)]) simp_all
  qed
qed

lemma CreateApproval_cases:
  assumes "CreateApproval env tg am c pl w d s = (r, t)"
  obtains "t = s" | a where "ap_id a = next_id s" "ap_status a = Pending" "t = s\<lparr>approvals := approvals s @ [a], next_id := Suc (next_id s)\<rparr>"
proof (cases "tg \<noteq> ''journal'' \<and> tg \<noteq> ''payment''")
  case True
  with assms show thesis by (intro that(1)) (simp add: CreateApproval_def)
next
  case False
  with assms show thesis by (intro that(2) [of "projr r"]) (auto simp: CreateApproval_def Let_def)
qed

lemma approvals_ok_submit:
  assumes ok: "approvals_ok s" and run: "SubmitForApproval env tg am c pl w d s = (r, t)"
  shows "approvals_ok t"
proof -
  obtain q u where q: "CreateApproval env tg am c pl w d s = (q, u)" by (cases "CreateApproval env tg am c pl w d s")
  have "t = s \<or> t = u"
    using run q by (auto simp: SubmitForApproval_def ApprovalRequired_def ListApprovalTiers_def bind_apply split: sum.splits if_splits)
  with q consider "t = s" | a where "ap_id a = next_id s" "ap_status a = Pending"
      "t = s\<lparr>approvals := approvals s @ [a], next_id := Suc (next_id s)\<rparr>"
    by (metis CreateApproval_cases)
  then show ?thesis
  proof cases
    case 2
    note oks = ok [unfolded approvals_ok_def]
    have t: "tiers t = tiers s" "decisions t = decisions s" "approvals t = approvals s @ [a]" "next_id t = Suc (next_id s)"
      by (simp_all add: 2(3))
    have "approving s (next_id s) = []" using oks by (auto simp: approving_def filter_empty_conv)
    then have "signatures_ok t a" using 2(1,2) by (simp add: signatures_ok_def approving_def t)
    moreover have "signatures_ok t b = signatures_ok s b" for b by (simp add: signatures_ok_def approving_def t)
    moreover have "next_id s \<notin> ap_id ` set (approvals s)" using oks by auto
    ultimately show ?thesis unfolding approvals_ok_def t using oks 2(1) by (auto simp: less_Suc_eq)
  qed (use ok in simp)
qed

lemma approval_runs_ok: "approval_runs s t \<Longrightarrow> approvals_ok s \<Longrightarrow> approvals_ok t"
proof (induction rule: approval_runs.induct)
  case (step t u)
  then have t: "approvals_ok t" by simp
  from \<open>approval_step t u\<close> show ?case
  proof cases
    case submit
    then show ?thesis using approvals_ok_submit [OF t prod.collapse [symmetric]] by simp
  next
    case approve
    then show ?thesis using approvals_ok_approve [OF t prod.collapse [symmetric]] by simp
  next
    case reject
    then show ?thesis using approvals_ok_reject [OF t prod.collapse [symmetric]] by simp
  next
    case elsewhere
    then show ?thesis using approvals_ok_cong [OF _ _ t] by simp
  qed
qed

section \<open>What approvals promise\<close>

definition demo_tiers :: db where
  "demo_tiers = empty_db\<lparr>tiers := [\<lparr>t_tier = 1, t_min = 100, t_max = Some 1000, t_perm = ''approve.1''\<rparr>,
     \<lparr>t_tier = 2, t_min = 1000, t_max = None, t_perm = ''approve.2''\<rparr>], next_id := 10\<rparr>"

definition demo_requested :: db where
  "demo_requested = snd (SubmitForApproval demo_env ''journal'' 5000 ''UGX'' [] ''ann'' ''accrual'' demo_tiers)"

lemma demo_requested_code [code]:
  "demo_requested = demo_tiers
     \<lparr>approvals := [\<lparr>ap_id = 10, ap_target = ''journal'', ap_amount = 5000, ap_currency = ''UGX'', ap_payload = [],
        ap_status = Pending, ap_requested_by = ''ann'', ap_desc = ''accrual'', ap_result = []\<rparr>], next_id := 11\<rparr>"
  by code_simp

definition demo_signed :: db where
  "demo_signed = snd (ApproveApproval demo_env (\<lambda>_. None) 10 ''eve'' (\<lambda>_. True) ''''
     (snd (ApproveApproval demo_env (\<lambda>_. None) 10 ''bob'' (\<lambda>_. True) '''' demo_requested)))"

lemma demo_signed_code [code]:
  "demo_signed = demo_tiers
     \<lparr>approvals := [\<lparr>ap_id = 10, ap_target = ''journal'', ap_amount = 5000, ap_currency = ''UGX'', ap_payload = [],
        ap_status = Approved, ap_requested_by = ''ann'', ap_desc = ''accrual'', ap_result = []\<rparr>],
      decisions :=
        [\<lparr>d_approval = 10, d_tier = 1, d_actor = ''bob'', d_approved = True, d_note = []\<rparr>,
         \<lparr>d_approval = 10, d_tier = 2, d_actor = ''eve'', d_approved = True, d_note = []\<rparr>], next_id := 11\<rparr>"
  by code_simp

lemma demo_approvals:
  "map ap_status (approvals demo_requested) = [Pending]" "map ap_status (approvals demo_signed) = [Approved]"
  "map d_actor (decisions demo_signed) = [''bob'', ''eve'']"
  by code_simp+

lemma demo_signed_runs: "approval_runs demo_tiers demo_signed"
proof -
  have "approval_runs demo_tiers demo_requested"
    unfolding demo_requested_def by (rule approval_runs.step [OF approval_runs.here approval_step.submit])
  from approval_runs.step [OF approval_runs.step [OF this approval_step.approve] approval_step.approve]
  show ?thesis unfolding demo_signed_def .
qed

text \<open>
  C30. Nothing is approved or executed without the signatures its amount asks for: each tier it reaches
  was signed, by nobody who requested it, and no two of its signatures are by the same named actor,
  however the calls of submitters, signers and the rest of the service interleave.
\<close>

theorem approvals_fully_signed:
  assumes "approval_runs s t" "approvals s = []" "decisions s = []"
    and "a \<in> set (approvals t)" "ap_status a = Approved \<or> ap_status a = Executed"
  shows "(\<forall>x \<in> set (RequiredApprovalTiers (tiers t) (ap_amount a)).
       \<exists>d \<in> set (approving t (ap_id a)). d_tier d = t_tier x) \<and>
    (\<forall>d \<in> set (approving t (ap_id a)). \<not> sameApprovalActor (d_actor d) (ap_requested_by a)) \<and>
    (\<forall>d \<in> set (approving t (ap_id a)). \<forall>e \<in> set (approving t (ap_id a)). d \<noteq> e \<longrightarrow>
       to_lower (d_actor d) \<noteq> to_lower (d_actor e) \<or> trim_space (d_actor d) = '''' \<or> trim_space (d_actor e) = '''')"
proof -
  have "approvals_ok s" using assms(2,3) by (simp add: approvals_ok_def)
  from approval_runs_ok [OF assms(1) this] have "signatures_ok t a" using assms(4) by (simp add: approvals_ok_def)
  with assms(5) show ?thesis unfolding signatures_ok_def by blast
qed

theorem approvals_fully_signed_witness:
  "\<exists>a. approvals demo_signed = [a] \<and> filter (\<lambda>d. sameApprovalActor (d_actor d) (ap_requested_by a)) (approving demo_signed (ap_id a)) = []"
proof -
  obtain a where a: "approvals demo_signed = [a]" "ap_status a = Approved" using demo_approvals(2) by auto
  have "approvals demo_tiers = []" "decisions demo_tiers = []" by (simp_all add: demo_tiers_def empty_db_def)
  from approvals_fully_signed [OF demo_signed_runs this, of a] a show ?thesis
    by (intro exI [of _ a]) (auto simp: filter_empty_conv)
qed

text \<open>
  C31. A decision is final: once an approval is approved, rejected or executed, signing and rejecting it
  both fail with a conflict and change nothing; one whose execution failed is not taken up again.
\<close>

theorem decision_is_final:
  assumes "approval_by_id s i = Some a" "ap_status a \<noteq> Pending"
  shows "ApproveApproval env parse_uuid i actor hp note s = (Inl ErrApprovalConflict, s) \<and>
    RejectApproval i actor hp note s = (Inl ErrApprovalConflict, s)"
proof -
  have "pending_approval i (s\<lparr>touched := []\<rparr>) = (Inl ErrApprovalConflict, s\<lparr>touched := []\<rparr>)"
    using assms by (simp add: pending_approval_def GetApproval_def bind_apply approval_by_id_def)
  then show ?thesis
    by (simp add: ApproveApproval_def RejectApproval_def RecordApprovalTier_def repo_RejectApproval_def tx_def bind_apply
        rollback_def)
qed

theorem decision_is_final_witness:
  "ApproveApproval demo_env (\<lambda>_. None) 10 ''dan'' (\<lambda>_. True) '''' demo_signed = (Inl ErrApprovalConflict, demo_signed)"
proof -
  have "map (\<lambda>a. (ap_id a, ap_status a)) (approvals demo_signed) = [(10, Approved)]" by code_simp
  then obtain a where "approval_by_id demo_signed 10 = Some a" "ap_status a = Approved"
    by (auto simp: approval_by_id_def)
  with decision_is_final [of demo_signed 10 a] show ?thesis by simp
qed

section \<open>Enough signatures approve\<close>

definition unsigned :: "db \<Rightarrow> approval \<Rightarrow> tier_row list" where
  "unsigned s a = filter (\<lambda>t. t_tier t \<notin> set (approved_tiers s (ap_id a)))
     (RequiredApprovalTiers (sort_key t_tier (tiers s)) (ap_amount a))"

lemma next_tier_unsigned: "next_tier (RequiredApprovalTiers (sort_key t_tier (tiers s)) (ap_amount a)) (approved_tiers s (ap_id a)) =
    (case unsigned s a of [] \<Rightarrow> None | t # ts \<Rightarrow> Some t)"
proof -
  have "find P xs = (case filter P xs of [] \<Rightarrow> None | x # ys \<Rightarrow> Some x)" for P and xs :: "tier_row list"
    by (induction xs) auto
  then show ?thesis by (simp add: next_tier_def unsigned_def)
qed

definition may_sign :: "db \<Rightarrow> approval \<Rightarrow> string \<Rightarrow> bool" where
  "may_sign s a x \<longleftrightarrow> trim_space x \<noteq> '''' \<and> \<not> sameApprovalActor x (ap_requested_by a) \<and> \<not> actor_approved s (ap_id a) x"

lemma record_succeeds:
  assumes a: "approval_by_id s i = Some a" "ap_status a = Pending" and x: "may_sign s a x" and hp: "\<forall>t \<in> set (tiers s). hp (t_perm t)"
  shows "\<exists>fin prog t. RecordApprovalTier i x hp note s = (Inr (fin, prog), t)"
proof -
  have i: "ap_id a = i" using row_by_Some_in [OF a(1) [unfolded approval_by_id_def]] by simp
  let ?s = "s\<lparr>touched := []\<rparr>"
  have same: "approved_tiers ?s = approved_tiers s" "actor_approved ?s = actor_approved s"
    by (simp_all add: approved_tiers_def actor_approved_def fun_eq_iff)
  have p: "pending_approval i ?s = (Inr a, ?s)"
    using a by (simp add: pending_approval_Inr) (simp add: approval_by_id_def)
  have nxt: "hp (t_perm tr) \<and> \<not> (\<exists>d \<in> set (decisions s). d_approved d \<and> d_approval d = i \<and> d_tier d = t_tier tr)"
    if "next_tier (RequiredApprovalTiers (sort_key t_tier (tiers s)) (ap_amount a)) (approved_tiers s i) = Some tr" for tr
  proof -
    have "tr \<in> set (tiers s)" "t_tier tr \<notin> set (approved_tiers s i)"
      using that by (auto simp: next_tier_def find_Some_iff RequiredApprovalTiers_def dest!: nth_mem)
    with hp show ?thesis unfolding approved_tiers_set approving_def by force
  qed
  show ?thesis
  proof (cases "next_tier (RequiredApprovalTiers (sort_key t_tier (tiers s)) (ap_amount a)) (approved_tiers s i)")
    case None
    with p x i show ?thesis
      by (intro exI [of _ True]) (simp add: RecordApprovalTier_def tx_def bind_apply ListApprovalTiers_def may_sign_def same Let_def set_approval_def)
  next
    case (Some tr)
    with p x i nxt [OF Some] show ?thesis
      by (auto simp: RecordApprovalTier_def tx_def bind_apply ListApprovalTiers_def may_sign_def same Let_def set_approval_def
          insert_decision_def when_ok_def)
  qed
qed

fun signatures :: "id \<Rightarrow> (string \<Rightarrow> bool) \<Rightarrow> string list \<Rightarrow> db \<Rightarrow> db" where
  "signatures i hp [] s = s"
| "signatures i hp (x # xs) s = signatures i hp xs (snd (RecordApprovalTier i x hp '''' s))"

lemma record_progress:
  assumes run: "RecordApprovalTier i x hp note s = (Inr (fin, prog), t)" and a: "approval_by_id s i = Some a"
    and tiers: "distinct (map t_tier (tiers s))"
  shows "tiers t = tiers s" "fin \<longleftrightarrow> unsigned t a = []" "length (unsigned t a) = length (unsigned s a) - 1"
    "fin \<Longrightarrow> \<exists>b. approval_by_id t i = Some b \<and> ap_status b = Approved" "\<not> fin \<Longrightarrow> approval_by_id t i = Some a"
    "to_lower y \<noteq> to_lower x \<Longrightarrow> may_sign s a y \<Longrightarrow> may_sign t a y"
proof -
  have i: "ap_id a = i" using row_by_Some_in [OF a [unfolded approval_by_id_def]] by simp
  show "\<exists>b. approval_by_id t i = Some b \<and> ap_status b = Approved" if fin
    using RecordApprovalTier_final [of i x hp "note" s prog t] run that by simp
  let ?req = "RequiredApprovalTiers (sort_key t_tier (tiers s)) (ap_amount a)"
  have "tiers t = tiers s \<and> (fin \<longleftrightarrow> unsigned t a = []) \<and> length (unsigned t a) = length (unsigned s a) - 1 \<and>
    (\<not> fin \<longrightarrow> approval_by_id t i = Some a) \<and> (to_lower y \<noteq> to_lower x \<longrightarrow> may_sign s a y \<longrightarrow> may_sign t a y)" for y
    using run
  proof (cases rule: RecordApprovalTier_Inr)
    case (signed b tr d)
    have b: "b = a" using signed(1) a by simp
    note w = signed(7) [unfolded signed_with_def]
    have ap: "set (approved_tiers t i) = insert (t_tier tr) (set (approved_tiers s i))"
      using w signed(8) by (simp add: approved_tiers_set approving_def)
    have us: "unsigned t a = filter (\<lambda>z. t_tier z \<noteq> t_tier tr) (unsigned s a)"
      using w ap by (simp add: unsigned_def i) (rule filter_cong, auto)
    from next_tier_unsigned [of s a] signed(5) obtain rest where rest: "unsigned s a = tr # rest"
      by (auto simp: b i split: list.splits)
    have "distinct (map t_tier (unsigned s a))"
      using tiers unfolding unsigned_def RequiredApprovalTiers_def
      by (intro distinct_map_filter) (simp add: distinct_map inj_on_def)
    then have "filter (\<lambda>z. t_tier z \<noteq> t_tier tr) rest = rest" unfolding rest by (simp add: filter_id_conv) (metis image_eqI)
    with us rest have un: "unsigned t a = rest" by simp
    have "fin \<longleftrightarrow> unsigned t a = []"
      using signed(8,10) w ap by (auto simp: unsigned_def i b allApprovalTiers_def list_all_iff filter_empty_conv)
    moreover have "\<not> fin \<longrightarrow> approval_by_id t i = Some a" using w a by (simp add: approval_by_id_def)
    moreover have "may_sign t a y" if "to_lower y \<noteq> to_lower x" "may_sign s a y"
      using that w signed(9) by (auto simp: may_sign_def actor_approved_def i)
    ultimately show ?thesis using w un rest by simp
  next
    case (all_signed b)
    have "approving t i = approving s i" by (simp add: approving_def all_signed(7))
    then have ap: "set (approved_tiers t i) = set (approved_tiers s i)" by (simp add: approved_tiers_set)
    have "unsigned s a = []" using next_tier_unsigned [of s a] all_signed(1,5) a by (auto simp: i split: list.splits)
    moreover have "unsigned t a = unsigned s a" by (simp add: unsigned_def i ap all_signed(8))
    moreover have "actor_approved t i = actor_approved s i" by (simp add: actor_approved_def all_signed(7) fun_eq_iff)
    ultimately show ?thesis using all_signed(6,8) by (simp add: may_sign_def i)
  qed
  then show "tiers t = tiers s" "fin \<longleftrightarrow> unsigned t a = []" "length (unsigned t a) = length (unsigned s a) - 1"
    "\<not> fin \<Longrightarrow> approval_by_id t i = Some a" "to_lower y \<noteq> to_lower x \<Longrightarrow> may_sign s a y \<Longrightarrow> may_sign t a y" by blast+
qed

text \<open>
  C32. Sign-off terminates: as many distinct eligible signers as there are tiers left to sign (one, when
  none is left) take a pending approval to approved.
\<close>

theorem enough_signatures_approve:
  assumes "approval_by_id s i = Some a" "ap_status a = Pending" "distinct (map t_tier (tiers s))"
    and "\<forall>t \<in> set (tiers s). hp (t_perm t)" "distinct (map to_lower xs)" "\<forall>x \<in> set xs. may_sign s a x"
    and "length xs = max 1 (length (unsigned s a))"
  shows "\<exists>b. approval_by_id (signatures i hp xs s) i = Some b \<and> ap_status b = Approved"
  using assms
proof (induction xs arbitrary: s)
  case (Cons x xs)
  from record_succeeds [OF Cons.prems(1,2) _ Cons.prems(4), of x "''''"] Cons.prems(6)
  obtain fin prog t where run: "RecordApprovalTier i x hp '''' s = (Inr (fin, prog), t)" by auto
  note p = record_progress [OF run Cons.prems(1,3)]
  show ?case
  proof (cases fin)
    case True
    with p(2,3) Cons.prems(7) have "xs = []" by simp
    with p(4) [OF True] run show ?thesis by simp
  next
    case False
    have "\<forall>y \<in> set xs. may_sign t a y" using p(6) Cons.prems(5,6) by (auto simp: image_iff)
    moreover have "length xs = max 1 (length (unsigned t a))"
      using p(2,3) False Cons.prems(7) by (cases "unsigned t a") auto
    ultimately have "\<exists>b. approval_by_id (signatures i hp xs t) i = Some b \<and> ap_status b = Approved"
      using Cons.prems by (intro Cons.IH [OF p(5) [OF False]]) (simp_all add: p(1))
    with run show ?thesis by simp
  qed
qed simp

theorem enough_signatures_approve_witness:
  "\<exists>b. approval_by_id (signatures 10 (\<lambda>_. True) [''bob'', ''eve''] demo_requested) 10 = Some b \<and> ap_status b = Approved"
proof -
  have "map ap_id (approvals demo_requested) = [10]" by code_simp
  with demo_approvals(1) obtain a where a: "approvals demo_requested = [a]" "ap_id a = 10" "ap_status a = Pending" by auto
  have c: "case approvals demo_requested of [a] \<Rightarrow> may_sign demo_requested a ''bob'' \<and> may_sign demo_requested a ''eve'' \<and>
      length (unsigned demo_requested a) = 2 | _ \<Rightarrow> False"
    "distinct (map t_tier (tiers demo_requested))" "distinct (map to_lower [''bob'', ''eve''])"
    by code_simp+
  show ?thesis
    by (rule enough_signatures_approve [of _ _ a]) (use a c in \<open>simp_all add: approval_by_id_def\<close>)
qed

end
