(* ===== verification/Ledger_Refinement.thy ===== *)
theory Ledger_Refinement
  imports Journal_Facts Demo
begin

text \<open>
  The journal refines an abstract ledger, a balance per account: drafting and discarding leave the
  balances, posting an entry adds its lines, reversing it takes them back, a refused call does nothing.
\<close>

section \<open>The abstract ledger\<close>

datatype ledger_call = Draft_Entry create_entry_input | Post_Entry id | Reverse_Entry id string | Discard_Entry id

text \<open>What a successful call adds to each balance.\<close>

fun abstract_delta :: "ledger_call \<Rightarrow> db \<Rightarrow> id \<Rightarrow> rat" where
  "abstract_delta (Draft_Entry inp) s acct = 0"
| "abstract_delta (Post_Entry i) s acct = movement acct (lines_of s i)"
| "abstract_delta (Reverse_Entry i reason) s acct = - movement acct (lines_of s i)"
| "abstract_delta (Discard_Entry i) s acct = 0"

definition succeeded :: "err + 'a \<Rightarrow> bool" where
  "succeeded r = (case r of Inl _ \<Rightarrow> False | Inr _ \<Rightarrow> True)"

fun concrete_call :: "env \<Rightarrow> string \<Rightarrow> ledger_call \<Rightarrow> db \<Rightarrow> bool \<times> db" where
  "concrete_call env actor (Draft_Entry inp) s = (let (r, t) = CreateJournalEntry env inp s in (succeeded r, t))"
| "concrete_call env actor (Post_Entry i) s = (let (r, t) = PostJournalEntry env i actor s in (succeeded r, t))"
| "concrete_call env actor (Reverse_Entry i reason) s = (let (r, t) = ReverseJournalEntry env i reason actor s in (succeeded r, t))"
| "concrete_call env actor (Discard_Entry i) s = (let (r, t) = DeleteDraftEntry i s in (succeeded r, t))"

definition counted :: "entry list \<Rightarrow> jline \<Rightarrow> bool" where
  "counted es l \<longleftrightarrow> (\<exists>e \<in> set es. e_id e = l_entry l \<and> e_status e \<noteq> Draft)"

definition net_balance :: "db \<Rightarrow> id \<Rightarrow> rat" where
  "net_balance s acct = movement acct (filter (counted (entries s)) (jlines s))"

section \<open>Each call refines its abstract step\<close>

lemma movement_append: "movement acct (xs @ ys) = movement acct xs + movement acct ys"
  by (simp add: movement_def)

lemma movement_disj:
  "\<forall>x \<in> set xs. \<not> (P x \<and> Q x) \<Longrightarrow>
     movement acct (filter (\<lambda>x. P x \<or> Q x) xs) = movement acct (filter P xs) + movement acct (filter Q xs)"
  by (induction xs) (auto simp: movement_def)

lemma balance_cong: "entries t = entries s \<Longrightarrow> jlines t = jlines s \<Longrightarrow> net_balance t = net_balance s"
  by (simp add: net_balance_def fun_eq_iff)

lemma map_each_lines:
  assumes "map_each ls (\<lambda>l. insert_line env (line_row env p i l)) s = (Inr ks, t)"
  shows "jlines t = jlines s @ ks \<and> entries t = entries s \<and> (\<forall>k \<in> set ks. l_entry k = i)"
  using assms
proof (induction ls arbitrary: s ks)
  case (Cons l ls)
  from Cons.prems obtain k s' ks' where k: "insert_line env (line_row env p i l) s = (Inr k, s')"
    and rest: "map_each ls (\<lambda>l. insert_line env (line_row env p i l)) s' = (Inr ks', t)" "ks = k # ks'"
    by (auto simp: bind_Inr_iff)
  have "l_entry k = i" using insert_line_Inr(1) [OF k] by (simp add: store_line_def line_row_def)
  with Cons.IH [OF rest(1)] insert_line_Inr(3) [OF k] rest(2) show ?case by simp
qed simp

definition drafted :: "db \<Rightarrow> db \<Rightarrow> bool" where
  "drafted s t \<longleftrightarrow> entries t = entries s \<and> jlines t = jlines s \<or>
     (\<exists>e ks. entries t = entries s @ [e] \<and> e_status e = Draft \<and> e_id e = next_id s \<and> jlines t = jlines s @ ks \<and>
        (\<forall>k \<in> set ks. l_entry k = next_id s))"

lemma repo_drafts:
  assumes "repo_CreateJournalEntry env p s = (r, t)" "jp_status p = Draft"
  shows "drafted s t"
proof (cases r)
  case (Inl e)
  with assms(1) obtain s' where "t = rollback s s'" unfolding repo_CreateJournalEntry_def by (auto elim: tx_InlD)
  then show ?thesis by (simp add: drafted_def rollback_def)
next
  case (Inr j)
  with assms obtain i s1 ks s2 where ins: "insert_entry
      \<lparr>e_id = 0, e_number = jp_number p, e_desc = jp_desc p, e_status = Draft,
       e_source_event = jp_source_event p, e_source_service = jp_source_service p,
       e_correlation = jp_correlation p, e_acc_date = resolveAccountingDate (jp_acc_date p) (env_now env),
       e_reverses = None, e_posted_at = None, e_created_by = jp_created_by p,
       e_entity = env_entity env, e_counterparty = jp_counterparty p\<rparr> (s\<lparr>touched := []\<rparr>) = (Inr i, s1)"
    and lns: "map_each (jp_lines p) (\<lambda>l. insert_line env (line_row env p i l)) s1 = (Inr ks, s2)" and t: "t = s2\<lparr>touched := []\<rparr>"
    unfolding repo_CreateJournalEntry_def Let_def by (auto elim!: tx_InrD simp: bind_Inr_iff)
  from map_each_lines [OF lns] ins [unfolded insert_entry_Inr] show ?thesis
    unfolding drafted_def t by (intro disjI2) auto
qed

lemma create_drafts: "CreateJournalEntry env inp s = (r, t) \<Longrightarrow> drafted s t"
proof -
  assume run: "CreateJournalEntry env inp s = (r, t)"
  have same: "drafted s s" by (simp add: drafted_def)
  have ev: "snd ((case ce_source_event inp of None \<Rightarrow> ok False | Some ev \<Rightarrow> IsEventProcessed ev) s) = s"
    by (simp add: IsEventProcessed_def split: option.split)
  obtain rl where rl: "resolveLines (ce_lines inp) s = (rl, s)"
    using reads_final [OF reads_resolveLines] by (metis prod.exhaust)
  let ?u = "s\<lparr>entry_seq := Suc (entry_seq s)\<rparr>"
  have "drafted s t" if "repo_CreateJournalEntry env p ?u = (q, t)" "jp_status p = Draft" for p q
    using repo_drafts [OF that] by (simp add: drafted_def)
  with run same rl show ?thesis
    by (auto simp: CreateJournalEntry_def bind_apply check_def IsEventProcessed_def NextEntryNumber_def nextEntryNumberTx_def
        split: if_splits option.splits sum.splits)
qed

lemma draft_refines:
  assumes wf: "journal_inv s" and run: "CreateJournalEntry env inp s = (r, t)"
  shows "net_balance t = net_balance s"
  using create_drafts [OF run] unfolding drafted_def
proof (elim disjE exE conjE)
  fix e ks assume t: "entries t = entries s @ [e]" "e_status e = Draft" "jlines t = jlines s @ ks"
    and ks: "\<forall>k \<in> set ks. l_entry k = next_id s"
  have old: "counted (entries t) = counted (entries s)" by (rule ext) (auto simp: counted_def t)
  have "\<not> counted (entries s) k" if "k \<in> set ks" for k
    using wf ks that by (auto simp: counted_def journal_inv_def entries_wf_def)
  then have "filter (counted (entries s)) ks = []" by (simp add: filter_empty_conv)
  then show ?thesis by (intro ext) (simp only: net_balance_def old t(3) filter_append append_Nil2)
qed (rule balance_cong)

lemma post_refines:
  assumes wf: "journal_inv s" and run: "PostJournalEntry env i actor s = (r, t)"
  shows "net_balance t acct = net_balance s acct + (if succeeded r then movement acct (lines_of s i) else 0)"
proof -
  have ewf: "entries_wf s" using wf by (simp add: journal_inv_def)
  note spec = PostJournalEntry_spec [OF ewf run]
  have ok: "succeeded r = postable i s" using spec(1) by (auto simp: succeeded_def split: sum.splits)
  show ?thesis
  proof (cases "postable i s")
    case False
    with ok spec(2,3) balance_cong [of t s] show ?thesis by simp
  next
    case True
    then obtain e where e: "entry_by_id s i = Some e" "e_status e = Draft" by (auto simp: postable_def split: option.splits)
    from entry_by_id_SomeD [OF e(1)] have mem: "e \<in> set (entries s)" "e_id e = i" by simp_all
    have uniq: "x = e" if "x \<in> set (entries s)" "e_id x = i" for x
      using that mem ewf by (auto simp: entries_wf_def distinct_map inj_on_def)
    have es: "entries t = map (posted_at i (env_now env)) (entries s)" using spec(2) True by simp
    have now: "counted (entries t) l \<longleftrightarrow> counted (entries s) l \<or> l_entry l = i" for l
    proof
      assume "counted (entries t) l"
      then obtain x where "x \<in> set (entries s)" "e_id x = l_entry l" "e_status (posted_at i (env_now env) x) \<noteq> Draft"
        by (auto simp: counted_def es)
      then show "counted (entries s) l \<or> l_entry l = i" by (auto simp: counted_def posted_at_def split: if_splits)
    next
      assume "counted (entries s) l \<or> l_entry l = i"
      then consider (old) x where "x \<in> set (entries s)" "e_id x = l_entry l" "e_status x \<noteq> Draft" | (this) "l_entry l = i"
        by (auto simp: counted_def)
      then show "counted (entries t) l"
      proof cases
        case old
        then have "posted_at i (env_now env) x = x" by (simp add: posted_at_def)
        with old show ?thesis unfolding counted_def es by (metis image_eqI list.set_map)
      next
        case this
        with mem e(2) have "e_status (posted_at i (env_now env) e) \<noteq> Draft" "e_id (posted_at i (env_now env) e) = l_entry l"
          by (simp_all add: posted_at_def)
        with mem(1) show ?thesis unfolding counted_def es by (metis image_eqI list.set_map)
      qed
    qed
    have "\<not> (counted (entries s) l \<and> l_entry l = i)" for l
      using uniq e(2) by (auto simp: counted_def)
    then have "movement acct (filter (\<lambda>l. counted (entries s) l \<or> l_entry l = i) (jlines s)) =
        movement acct (filter (counted (entries s)) (jlines s)) + movement acct (filter (\<lambda>l. l_entry l = i) (jlines s))"
      by (intro movement_disj) simp
    moreover have "counted (entries t) = (\<lambda>l. counted (entries s) l \<or> l_entry l = i)" by (rule ext) (rule now)
    ultimately show ?thesis using True ok spec(3) by (simp add: net_balance_def lines_of_def)
  qed
qed

lemma reversal_line_entry:
  assumes "reversal env i s t r ks" "k \<in> set ks"
  shows "l_entry k = next_id s"
proof -
  have "line_key k \<in> set (map line_key ks)" using assms(2) by simp
  then have "line_key k \<in> set (map (\<lambda>l. line_key (store_line env (mirror_row (next_id s) l))) (sort_key l_order (lines_of s i)))"
    using assms(1) by (simp only: reversal_def)
  then obtain l where "line_key k = line_key (store_line env (mirror_row (next_id s) l))" by auto
  then have "l_entry (line_key k) = l_entry (line_key (store_line env (mirror_row (next_id s) l)))" by simp
  then show ?thesis by (simp add: line_key_def store_line_def mirror_row_def)
qed

lemma reversed_counted:
  assumes wf: "journal_inv s" and rv: "reversal env i s t r ks" and e: "entry_by_id s i = Some e" "e_status e = Posted"
    and l: "l \<in> set (jlines s)"
  shows "counted (entries t) l = counted (entries s) l"
proof -
  have "l_entry l \<in> e_id ` set (entries s)" using wf l by (simp add: journal_inv_def lines_wf_def)
  then have "l_entry l \<noteq> next_id s" using wf by (auto simp: journal_inv_def entries_wf_def)
  moreover have "e_status (reversed_at i x) = Draft \<longleftrightarrow> e_status x = Draft" if "x \<in> set (entries s)" for x
    using entry_by_id_wf [OF _ that] wf e that by (auto simp: reversed_at_def journal_inv_def)
  ultimately show ?thesis using rv by (auto simp: counted_def reversal_def)
qed

lemma reverse_fails:
  assumes "ReverseEntry env i reason a s = (Inl e, t)"
  shows "entries t = entries s \<and> jlines t = jlines s"
proof -
  from assms obtain s' where "t = rollback s s'"
    unfolding ReverseEntry_def by (auto simp: bind_def GetJournalEntry_def split: prod.splits sum.splits elim: tx_InlD)
  then show ?thesis by (simp add: rollback_def)
qed

lemma reverse_refines:
  assumes wf: "journal_inv s" and rnd: "rounding_laws (env_round env)"
    and places: "\<forall>l \<in> set (jlines s). has_places 4 (l_debit l) \<and> has_places 4 (l_credit l)"
    and run: "ReverseJournalEntry env i reason actor s = (r, t)"
  shows "net_balance t acct = net_balance s acct - (if succeeded r then movement acct (lines_of s i) else 0)"
proof (cases r)
  case (Inl e)
  with reverse_fails run have "entries t = entries s \<and> jlines t = jlines s" unfolding ReverseJournalEntry_def by blast
  with Inl balance_cong [of t s] show ?thesis by (simp add: succeeded_def)
next
  case (Inr j)
  have ewf: "entries_wf s" using wf by (simp add: journal_inv_def)
  from ReverseEntry_Inr [OF ewf] run Inr obtain e q ks where
    e: "entry_by_id s i = Some e" "e_status e = Posted" and rv: "reversal env i s t q ks"
    unfolding ReverseJournalEntry_def by blast
  have "counted (entries t) k" if "k \<in> set ks" for k
    using rv reversal_line_entry [OF rv that] by (auto simp: counted_def reversal_def)
  then have new: "filter (counted (entries t)) ks = ks" by simp
  have old: "filter (counted (entries t)) (jlines s) = filter (counted (entries s)) (jlines s)"
    using reversed_counted [OF wf rv e] by (intro filter_cong) simp_all
  have "movement acct ks = - movement acct (lines_of s i)"
    using places by (intro reversal_movement [OF rv rnd]) (simp add: lines_of_def)
  moreover have "jlines t = jlines s @ ks" using rv by (simp add: reversal_def)
  ultimately show ?thesis using Inr by (simp add: net_balance_def new old movement_append succeeded_def)
qed

lemma discard_refines:
  assumes wf: "journal_inv s" and run: "DeleteDraftEntry i s = (r, t)"
  shows "net_balance t = net_balance s"
proof (cases r)
  case (Inl e)
  with run obtain s' where "t = rollback s s'" unfolding DeleteDraftEntry_def by (auto elim: tx_InlD)
  then show ?thesis by (intro balance_cong) (simp_all add: rollback_def)
next
  case (Inr u)
  with run obtain e where e: "entry_by_id s i = Some e" "e_status e = Draft"
    and t: "entries t = filter (\<lambda>e. e_id e \<noteq> i) (entries s)" "jlines t = filter (\<lambda>l. l_entry l \<noteq> i) (jlines s)"
    unfolding DeleteDraftEntry_def
    by (auto elim!: tx_InrD simp: bind_Inr_iff delete_lines_def delete_entry_def drop_refs_def entry_by_id_def
        split: option.splits if_splits)
  have uniq: "x = e" if "x \<in> set (entries s)" "e_id x = i" for x
    using entry_by_id_wf [OF _ that(1)] wf e(1) that(2) by (auto simp: journal_inv_def)
  have "l_entry l \<noteq> i \<and> counted (entries t) l \<longleftrightarrow> counted (entries s) l" for l
    using uniq e(2) by (auto simp: counted_def t(1))
  then have "filter (counted (entries t)) (jlines t) = filter (counted (entries s)) (jlines s)"
    by (simp add: t(2))
  then show ?thesis by (intro ext) (simp add: net_balance_def)
qed

text \<open>
  C12. The journal refines a balance per account: creating or discarding a draft leaves every balance,
  posting an entry adds the movement of its lines, reversing it takes that movement back, and a call
  that reports an error leaves every balance as it was.
\<close>

theorem journal_refines_balances:
  assumes "reachable hash rnd s" "rounding_laws rnd" "env_round env = rnd"
    and "\<forall>l \<in> set (jlines s). has_places 4 (l_debit l) \<and> has_places 4 (l_credit l)"
    and "concrete_call env actor c s = (fine, t)"
  shows "net_balance t acct = net_balance s acct + (if fine then abstract_delta c s acct else 0)"
proof -
  have wf: "journal_inv s"
    using reachable_books [OF assms(1,2), of "demo_env\<lparr>env_hash := hash\<rparr>"] by (simp add: books_def)
  show ?thesis
  proof (cases c)
    case (Draft_Entry inp)
    with assms(5) draft_refines [OF wf] show ?thesis by (auto split: prod.splits)
  next
    case (Post_Entry i)
    with assms(5) post_refines [OF wf] show ?thesis by (auto split: prod.splits)
  next
    case (Reverse_Entry i reason)
    with assms(5) reverse_refines [OF wf _ assms(4)] assms(2,3) show ?thesis by (auto split: prod.splits)
  next
    case (Discard_Entry i)
    with assms(5) discard_refines [OF wf] show ?thesis by (auto split: prod.splits)
  qed
qed

theorem journal_refines_balances_witness:
  "\<exists>e. e \<in> set (entries demo_ledger) \<and>
     (let t = snd (concrete_call demo_env ''ann'' (Reverse_Entry (e_id e) ''typo'') demo_ledger)
      in net_balance t 2 = net_balance demo_ledger 2 - 5)"
proof -
  obtain e where e: "entries demo_ledger = [e]" "e_status e = Posted" by (rule demo_ledger_posted)
  have "list_all (\<lambda>e. fst (concrete_call demo_env ''ann'' (Reverse_Entry (e_id e) ''typo'') demo_ledger) \<and>
      movement 2 (lines_of demo_ledger (e_id e)) = 5) (entries demo_ledger)"
    by code_simp
  with e have ok: "fst (concrete_call demo_env ''ann'' (Reverse_Entry (e_id e) ''typo'') demo_ledger)"
    and mv: "movement 2 (lines_of demo_ledger (e_id e)) = 5" by simp_all
  have "env_round demo_env = round_half_away" by (simp add: demo_env_def)
  from journal_refines_balances [OF demo_ledger_reachable rounding_laws_half_away this demo_ledger_places prod.collapse [symmetric], of _ _ 2]
  show ?thesis using e ok mv by (intro exI [of _ e]) (simp add: Let_def del: concrete_call.simps)
qed

end
