(* ===== verification/Report_Properties.thy ===== *)
theory Report_Properties
  imports Reporting Demo
begin

text \<open>
  The financial statements agree with the ledger: the balance sheet balances, the cash flow statement
  explains the change in cash, the eliminations of consolidation balance, and the scope of a
  consolidated report is what lies below its root.
\<close>

section \<open>Sums over accounts\<close>

lemma credit_net_append: "credit_net (xs @ ys) = credit_net xs + credit_net ys"
  by (simp add: credit_net_def base_credits_def base_debits_def)

lemma credit_net_Nil [simp]: "credit_net [] = 0"
  by (simp add: credit_net_def base_credits_def base_debits_def)

lemma credit_net_sum: "credit_net ls = sum_list (map (\<lambda>l. l_credit_base l - l_debit_base l) ls)"
  by (simp add: credit_net_def base_credits_def base_debits_def sum_list_subtractf)

lemma credit_net_split: "credit_net ls = credit_net (filter P ls) + credit_net (filter (\<lambda>l. \<not> P l) ls)"
  unfolding credit_net_sum by (induction ls) auto

lemma credit_net_by_account:
  assumes "journal_inv s" "distinct (map a_id (accounts s))"
  shows "sum_list (map (\<lambda>a. credit_net (account_lines s P (a_id a))) (accounts s)) = 0"
proof -
  have "sum_list (map (\<lambda>a. credit_net (account_lines s P (a_id a))) (accounts s)) = credit_net (selected_lines s P)"
    unfolding credit_net_sum by (rule selected_by_account [OF assms])
  then show ?thesis using selected_balanced [OF assms(1), of P] by (simp add: credit_net_def)
qed

lemma sum_by_type_and_code:
  "sum_list (map g (filter Q (by_type_and_code as))) = (sum_list (map g (filter Q as)) :: rat)"
proof -
  have "mset (map g (filter Q (by_type_and_code as))) = mset (map g (filter Q as))"
    by (simp add: by_type_and_code_def by_code_def)
  then show ?thesis by (metis sum_mset_sum_list)
qed

section \<open>The balance sheet\<close>

definition section_total :: "string \<Rightarrow> statement_row list \<Rightarrow> rat" where
  "section_total ty rows = sum_list (map sr_amount (filter (\<lambda>r. sr_type r = ty) rows))"

definition type_total :: "db \<Rightarrow> (entry \<Rightarrow> bool) \<Rightarrow> string \<Rightarrow> rat" where
  "type_total s P ty =
     sum_list (map (\<lambda>a. credit_net (account_lines s P (a_id a))) (filter (\<lambda>a. a_type a = ty) (accounts s)))"

lemma section_total_append: "section_total ty (xs @ ys) = section_total ty xs + section_total ty ys"
  by (simp add: section_total_def)

text \<open>An account left out for lack of activity has a zero balance.\<close>

lemma inactive_zero:
  assumes "\<forall>l \<in> set (jlines s). 0 \<le> l_debit_base l \<and> 0 \<le> l_credit_base l"
    and "\<not> has_activity (account_lines s P i)"
  shows "credit_net (account_lines s P i) = 0"
proof -
  have "0 \<le> base_debits (account_lines s P i)" "0 \<le> base_credits (account_lines s P i)"
    using assms(1) by (auto simp: base_debits_def base_credits_def account_lines_def intro!: sum_list_nonneg)
  then show ?thesis using assms(2) by (simp add: has_activity_def credit_net_def)
qed

lemma section_total_rows:
  assumes "\<forall>l \<in> set (jlines s). 0 \<le> l_debit_base l \<and> 0 \<le> l_credit_base l"
    and "\<forall>a \<in> set (accounts s). a_active a" "ty \<in> set types"
  shows "section_total ty (statement_rows s P types) =
    (if ty \<in> {''revenue'', ''liability'', ''equity''} then type_total s P ty else - type_total s P ty)"
proof -
  let ?g = "\<lambda>a. natural_net ty (account_lines s P (a_id a))"
  let ?act = "\<lambda>a. has_activity (account_lines s P (a_id a))"
  let ?Q = "\<lambda>a. a_type a = ty \<and> ?act a \<and> a_active a \<and> a_type a \<in> set types"
  have "section_total ty (statement_rows s P types) =
      sum_list (map ?g (filter (\<lambda>a. ?act a \<and> a_type a = ty) (by_type_and_code (filter (\<lambda>a. a_active a \<and> a_type a \<in> set types) (accounts s)))))"
    by (simp add: section_total_def statement_rows_def filter_map o_def)
       (intro arg_cong [where f = sum_list] map_cong refl, simp_all)
  also have "\<dots> = sum_list (map ?g (filter (\<lambda>a. ?act a \<and> a_type a = ty) (filter (\<lambda>a. a_active a \<and> a_type a \<in> set types) (accounts s))))"
    by (rule sum_by_type_and_code)
  also have "\<dots> = sum_list (map ?g (filter ?act (filter (\<lambda>a. a_type a = ty) (accounts s))))"
    using assms(2,3) by (intro arg_cong [where f = sum_list] arg_cong2 [where f = map] refl)
      (auto intro: filter_cong)
  also have "\<dots> = sum_list (map ?g (filter (\<lambda>a. a_type a = ty) (accounts s)))"
    using inactive_zero [OF assms(1)] by (intro sum_list_map_filter_zero) (simp add: natural_net_def)
  also have "\<dots> = (if ty \<in> {''revenue'', ''liability'', ''equity''} then type_total s P ty else - type_total s P ty)"
    by (simp add: type_total_def natural_net_def uminus_sum_list_map o_def)
  finally show ?thesis .
qed

lemma section_total_none:
  assumes "ty \<notin> set types"
  shows "section_total ty (statement_rows s P types) = 0"
proof -
  have "filter (\<lambda>r. sr_type r = ty) (statement_rows s P types) = []"
    using assms by (auto simp: statement_rows_def by_type_and_code_def by_code_def filter_empty_conv)
  then show ?thesis by (simp add: section_total_def)
qed

definition five_types :: "string list" where
  "five_types = [''asset'', ''liability'', ''equity'', ''revenue'', ''expense'']"

lemma type_totals_cancel:
  assumes "journal_inv s" "distinct (map a_id (accounts s))" "\<forall>a \<in> set (accounts s). a_type a \<in> set five_types"
  shows "type_total s P ''asset'' + type_total s P ''expense'' + type_total s P ''liability'' + type_total s P ''equity'' + type_total s P ''revenue'' = 0"
proof -
  have "sum_list (map (type_total s P) five_types) = 0"
    using credit_net_by_account [OF assms(1,2), of P]
      sum_list_partition [OF assms(3), of "\<lambda>a. credit_net (account_lines s P (a_id a))"]
    by (simp add: type_total_def [abs_def] five_types_def)
  then show ?thesis by (simp add: five_types_def)
qed

lemma net_income_types:
  assumes "\<forall>a \<in> set (accounts s). a_active a"
  shows "NetIncome lo hi entities s =
    (Inr (type_total s (in_scope lo hi entities) ''revenue'' + type_total s (in_scope lo hi entities) ''expense''), s)"
proof -
  have "sum_list (map g (filter (\<lambda>a. a_active a \<and> a_type a \<in> {''revenue'', ''expense''}) as)) =
      sum_list (map g (filter (\<lambda>a. a_type a = ''revenue'') as)) + (sum_list (map g (filter (\<lambda>a. a_type a = ''expense'') as)) :: rat)"
    if "\<forall>a \<in> set as. a_active a" for as g
    using that by (induction as) auto
  then show ?thesis using assms by (simp add: NetIncome_def type_total_def gets_def)
qed

lemma balance_sheet_equation:
  assumes "journal_inv s" "distinct (map a_id (accounts s))"
    and "\<forall>a \<in> set (accounts s). a_active a" "\<forall>a \<in> set (accounts s). a_type a \<in> set five_types"
    and "\<forall>l \<in> set (jlines s). 0 \<le> l_debit_base l \<and> 0 \<le> l_credit_base l"
    and "BalanceSheet asOf entities s = (Inr rows, t)"
  shows "section_total ''asset'' rows = section_total ''liability'' rows + section_total ''equity'' rows"
proof -
  let ?P = "in_scope None asOf entities"
  let ?T = "type_total s ?P"
  have "rows = statement_rows s ?P [''asset'', ''liability'', ''equity''] @ earnings_row (?T ''revenue'' + ?T ''expense'')"
    using assms(6) by (auto simp: BalanceSheet_def bind_def gets_def ok_def net_income_types [OF assms(3)])
  moreover have "section_total ''asset'' (earnings_row n) = 0" "section_total ''liability'' (earnings_row n) = 0"
    "section_total ''equity'' (earnings_row n) = n" for n
    by (simp_all add: section_total_def earnings_row_def)
  ultimately show ?thesis
    using type_totals_cancel [OF assms(1,2,4), of ?P]
    by (simp add: section_total_append section_total_rows [OF assms(5,3)])
qed

text \<open>
  C14. The balance sheet balances: the assets equal the liabilities and the equity with the earnings of
  the period, at any date and for any entities, as long as no account was deactivated and each has one
  of the five types.
\<close>

theorem balance_sheet_balances:
  assumes "reachable hash rnd s" "rounding_laws rnd"
    and "distinct (map a_id (accounts s))" "\<forall>a \<in> set (accounts s). a_active a"
    and "\<forall>a \<in> set (accounts s). a_type a \<in> set five_types"
    and "\<forall>l \<in> set (jlines s). 0 \<le> l_debit_base l \<and> 0 \<le> l_credit_base l"
    and "BalanceSheet asOf entities s = (Inr rows, t)"
  shows "section_total ''asset'' rows = section_total ''liability'' rows + section_total ''equity'' rows"
  using reachable_books [OF assms(1,2), of "demo_env\<lparr>env_hash := hash\<rparr>"] assms(3-7)
  by (intro balance_sheet_equation [of s]) (simp_all add: books_def)

lemma demo_balance_sheet:
  "case fst (BalanceSheet None [default_entity] demo_ledger) of
     Inr rows \<Rightarrow> map (\<lambda>r. (sr_code r, sr_amount r)) rows = [(''1000'', 5), (''NET-INCOME'', 5)] | _ \<Rightarrow> False"
  "list_all (\<lambda>a. a_type a \<in> set five_types) (accounts demo_ledger)"
  "list_all (\<lambda>l. 0 \<le> l_debit_base l \<and> 0 \<le> l_credit_base l) (jlines demo_ledger)"
  "distinct (map a_id (accounts demo_ledger)) \<and> list_all a_active (accounts demo_ledger)"
  by code_simp+

theorem balance_sheet_balances_witness:
  "\<exists>rows t. BalanceSheet None [default_entity] demo_ledger = (Inr rows, t) \<and>
     map (\<lambda>r. (sr_code r, sr_amount r)) rows = [(''1000'', 5), (''NET-INCOME'', 5)] \<and>
     section_total ''asset'' rows = section_total ''liability'' rows + section_total ''equity'' rows"
proof -
  obtain rows t where r: "BalanceSheet None [default_entity] demo_ledger = (Inr rows, t)"
    "map (\<lambda>r. (sr_code r, sr_amount r)) rows = [(''1000'', 5), (''NET-INCOME'', 5)]"
    using demo_balance_sheet(1) by (cases "BalanceSheet None [default_entity] demo_ledger") (auto split: sum.splits)
  have "distinct (map a_id (accounts demo_ledger))" "\<forall>a \<in> set (accounts demo_ledger). a_active a"
    "\<forall>a \<in> set (accounts demo_ledger). a_type a \<in> set five_types"
    "\<forall>l \<in> set (jlines demo_ledger). 0 \<le> l_debit_base l \<and> 0 \<le> l_credit_base l"
    using demo_balance_sheet by (simp_all add: list_all_iff)
  from balance_sheet_balances [OF demo_ledger_reachable rounding_laws_half_away this r(1)] r show ?thesis
    by (intro exI [of _ rows] exI [of _ t]) simp
qed

section \<open>The cash flow statement\<close>

definition cash_change :: "db \<Rightarrow> date option \<Rightarrow> date option \<Rightarrow> id list \<Rightarrow> rat" where
  "cash_change s lo hi entities = sum_list (map (\<lambda>l. l_debit_base l - l_credit_base l)
     (filter (\<lambda>l. entry_posted_in s (in_scope lo hi entities) (l_entry l) \<and> on_account s a_cash l) (jlines s)))"

lemma line_account_exists:
  assumes "journal_inv s" "l \<in> set (jlines s)"
  obtains a where "line_account s l = Some a"
  using assms row_by_None_iff [of a_id "l_account l" "accounts s"]
  by (cases "line_account s l") (auto simp: journal_inv_def lines_wf_def line_account_def)

lemma legs_by_activity:
  assumes "journal_inv s" "set legs \<subseteq> set (jlines s)"
  shows "sum_list (map (\<lambda>c. credit_net (legs_of s c legs)) [''financing'', ''investing'', ''operating'']) = credit_net legs"
proof -
  let ?f = "\<lambda>l. activity_of (the (line_account s l))"
  have eq: "legs_of s c legs = filter (\<lambda>l. ?f l = c) legs" for c
    unfolding legs_of_def using assms
    by (intro filter_cong refl) (auto simp: on_account_def elim!: line_account_exists [of s])
  have "\<forall>l \<in> set legs. ?f l \<in> set [''financing'', ''investing'', ''operating'']"
    by (simp add: activity_of_def)
  moreover have "distinct [''financing'', ''investing'', ''operating'']" by simp
  ultimately show ?thesis
    unfolding eq credit_net_sum by (rule sum_list_partition)
qed

lemma cash_legs_change:
  assumes "journal_inv s"
  shows "credit_net (cash_legs s lo hi entities) = cash_change s lo hi entities"
proof -
  let ?P = "\<lambda>e. in_scope lo hi entities e \<and> e_id e \<in> set (cash_entries s)"
  have sel: "entry_posted_in s ?P i \<longleftrightarrow> entry_posted_in s (in_scope lo hi entities) i \<and> i \<in> set (cash_entries s)" for i
    using entry_by_id_SomeD [of s i] by (cases "entry_by_id s i") (auto simp: entry_posted_in_def)
  have non_cash: "on_account s (\<lambda>a. \<not> a_cash a) l \<longleftrightarrow> \<not> on_account s a_cash l" if "l \<in> set (jlines s)" for l
    by (rule line_account_exists [OF assms that]) (simp add: on_account_def)
  have cash_entry: "l_entry l \<in> set (cash_entries s)" if "l \<in> set (jlines s)" "on_account s a_cash l" for l
    using that by (simp add: cash_entries_def)
  have "0 = credit_net (selected_lines s ?P)"
    using selected_balanced [OF assms, of ?P] by (simp add: credit_net_def)
  also have "\<dots> = credit_net (filter (on_account s a_cash) (selected_lines s ?P)) +
      credit_net (filter (\<lambda>l. \<not> on_account s a_cash l) (selected_lines s ?P))"
    by (rule credit_net_split)
  also have "filter (\<lambda>l. \<not> on_account s a_cash l) (selected_lines s ?P) = cash_legs s lo hi entities"
    unfolding selected_lines_def cash_legs_def filter_filter
    using non_cash by (intro filter_cong refl) (auto simp: sel)
  also have "filter (on_account s a_cash) (selected_lines s ?P) =
      filter (\<lambda>l. entry_posted_in s (in_scope lo hi entities) (l_entry l) \<and> on_account s a_cash l) (jlines s)"
    unfolding selected_lines_def filter_filter
    using cash_entry by (intro filter_cong refl) (auto simp: sel)
  finally show ?thesis
    by (simp add: credit_net_sum cash_change_def sum_list_subtractf)
qed

lemma cash_flow_total:
  assumes "journal_inv s" "CashFlow lo hi entities s = (Inr rows, t)"
  shows "sum_list (map cf_net rows) = cash_change s lo hi entities"
proof -
  let ?legs = "cash_legs s lo hi entities"
  let ?cs = "[''financing'', ''investing'', ''operating'']"
  have "sum_list (map cf_net rows) =
      sum_list (map (\<lambda>c. credit_net (legs_of s c ?legs)) (filter (\<lambda>c. legs_of s c ?legs \<noteq> []) ?cs))"
    using assms(2) by (auto simp: CashFlow_def gets_def Let_def)
  also have "\<dots> = sum_list (map (\<lambda>c. credit_net (legs_of s c ?legs)) ?cs)"
    by (rule sum_list_map_filter_zero) simp
  also have "\<dots> = credit_net ?legs"
    by (rule legs_by_activity [OF assms(1)]) (auto simp: cash_legs_def)
  finally show ?thesis using cash_legs_change [OF assms(1)] by simp
qed

text \<open>
  C33. The cash flow statement explains the change in cash: over any window and any entities the
  operating, investing and financing flows add up to what the posted entries moved on the cash accounts.
\<close>

theorem cash_flow_explains:
  assumes "reachable hash rnd s" "rounding_laws rnd" "CashFlow lo hi entities s = (Inr rows, t)"
  shows "sum_list (map cf_net rows) = cash_change s lo hi entities"
  using reachable_books [OF assms(1,2), of "demo_env\<lparr>env_hash := hash\<rparr>"] assms(3)
  by (intro cash_flow_total) (simp_all add: books_def)

definition demo_cash_db :: db where
  "demo_cash_db = demo_db\<lparr>accounts :=
     [demo_account 2 ''1000'' ''asset''\<lparr>a_cash := True\<rparr>, demo_account 3 ''4000'' ''revenue'']\<rparr>"

definition demo_cash_ledger :: db where
  "demo_cash_ledger = snd (BookFromEvent demo_env demo_ref ''sale'' ''UGX'' demo_lines demo_cash_db)"

lemma demo_cash_ledger_reachable: "reachable (env_hash demo_env) round_half_away demo_cash_ledger"
proof -
  have "no_history demo_cash_db" by (simp add: no_history_def demo_cash_db_def demo_db_def empty_db_def)
  moreover have "runs (env_hash demo_env) round_half_away demo_cash_db demo_cash_ledger"
    unfolding demo_cash_ledger_def
    by (rule runs.step [OF runs.here refl _ service_step.book_event]) (simp add: demo_env_def)
  ultimately show ?thesis by (auto simp: reachable_def)
qed

lemma demo_cash_flow:
  "case fst (CashFlow None None [default_entity] demo_cash_ledger) of
     Inr rows \<Rightarrow> map (\<lambda>r. (cf_category r, cf_net r)) rows = [(''operating'', 5)] | _ \<Rightarrow> False"
  by code_simp

theorem cash_flow_explains_witness:
  "cash_change demo_cash_ledger None None [default_entity] = 5"
proof -
  obtain rows t where r: "CashFlow None None [default_entity] demo_cash_ledger = (Inr rows, t)"
    "map (\<lambda>r. (cf_category r, cf_net r)) rows = [(''operating'', 5)]"
    using demo_cash_flow by (cases "CashFlow None None [default_entity] demo_cash_ledger") (auto split: sum.splits)
  from r(2) have "map cf_net rows = [5]" by auto
  with cash_flow_explains [OF demo_cash_ledger_reachable rounding_laws_half_away r(1)] show ?thesis by simp
qed

section \<open>Consolidation\<close>

definition rows_of_type :: "string \<Rightarrow> elimination_row list \<Rightarrow> rat" where
  "rows_of_type ty rows = sum_list (map el_amount (filter (\<lambda>r. el_type r = ty) rows))"

text \<open>
  The eliminations of a subsidiary balance when the amounts have two decimals: assets and equity
  change by the same amount, the share the parent holds of the equity, and the investment is replaced
  by that share and goodwill.
\<close>

theorem eliminations_balance:
  assumes "rounding_laws (env_round env)" "has_places 2 invest" "has_places 2 equity"
    and "investmentEquityRows env sub invest equity owned = (rows, nci, goodwill)"
  shows "rows_of_type ''asset'' rows = rows_of_type ''equity'' rows \<and>
    rows_of_type ''equity'' rows = - env_round env (equity * owned) 2 \<and>
    invest = goodwill + (equity - nci)"
proof -
  let ?o = "env_round env (equity * owned) 2"
  have o: "has_places 2 ?o" using assms(1) by (simp add: rounding_laws_def)
  have exact: "env_round env x 2 = x" if "has_places 2 x" for x using assms(1) that by (simp add: rounding_laws_def)
  have neg: "env_round env (- x) 2 = - x" if "has_places 2 x" for x
    using assms(1) exact [OF that] by (simp add: rounding_laws_def)
  show ?thesis
    using assms(4) has_places_diff [OF assms(3) o] has_places_diff [OF assms(2) o] assms(2,3)
    by (auto simp: investmentEquityRows_def rows_of_type_def Let_def exact neg)
qed

theorem eliminations_balance_witness:
  "map el_amount (fst (investmentEquityRows demo_env ''S1'' 100 80 (3/4))) = [-100, 40, -80, 20] \<and>
   (100 :: rat) = snd (snd (investmentEquityRows demo_env ''S1'' 100 80 (3/4))) +
     (80 - fst (snd (investmentEquityRows demo_env ''S1'' 100 80 (3/4))))"
proof -
  have "has_places 2 100" "has_places 2 80"
    by (auto simp: has_places_def intro: exI [of _ 10000] exI [of _ 8000])
  moreover have "rounding_laws (env_round demo_env)" by (simp add: demo_env_def rounding_laws_half_away)
  moreover have "map el_amount (fst (investmentEquityRows demo_env ''S1'' 100 80 (3/4))) = [-100, 40, -80, 20]"
    by code_simp
  ultimately show ?thesis
    using eliminations_balance [of demo_env 100 80 "''S1''" "3/4"]
    by (cases "investmentEquityRows demo_env ''S1'' 100 80 (3/4)") auto
qed

text \<open>
  The scope of a consolidated report is computed, whatever the tree of entities: it ends, and it
  is the root and every entity below it, each once.
\<close>

theorem entity_scope_ends:
  assumes "parents_first (entity_rows (docs_of s))" "i \<in> en_id ` set (entity_rows (docs_of s))"
  shows "\<exists>ids. EntityScope s i True = Some ids \<and> distinct ids \<and> set ids = {j. below (entity_rows (docs_of s)) i j}"
  by (rule EntityScope_complete [OF assms])

definition demo_group :: db where
  "demo_group = snd (bind (CreateEntity demo_env ''ROOT'' ''Group'' ''UGX'' None None) (\<lambda>r.
     bind (CreateEntity demo_env ''SUB'' ''Mill'' ''UGX'' (Some (en_id r)) None) (\<lambda>m.
     CreateEntity demo_env ''SUB2'' ''Farm'' ''UGX'' (Some (en_id m)) None)) empty_db)"

lemma demo_group_rows: "map (\<lambda>e. (en_id e, en_parent e)) (entity_rows (docs_of demo_group)) = [(2, None), (3, Some 2), (4, Some 3)]"
  by code_simp

theorem entity_scope_ends_witness:
  "\<exists>ids. EntityScope demo_group 2 True = Some ids \<and> distinct ids \<and> 4 \<in> set ids"
proof -
  let ?rows = "entity_rows (docs_of demo_group)"
  obtain a b c where rows: "?rows = [a, b, c]" "en_id a = 2" "en_id b = 3" "en_id c = 4"
    "en_parent a = None" "en_parent b = Some 2" "en_parent c = Some 3"
    using demo_group_rows by (auto simp: map_eq_Cons_conv)
  then have "parents_first ?rows" by (simp add: parents_first_def)
  moreover have "2 \<in> en_id ` set ?rows" using rows by simp
  ultimately obtain ids where ids: "EntityScope demo_group 2 True = Some ids" "distinct ids"
    "set ids = {j. below ?rows 2 j}" using entity_scope_ends by blast
  have "below ?rows 2 3" using below.child [OF below.itself, of b ?rows 2] rows by simp
  then have "below ?rows 2 4" using below.child [of ?rows 2 3 c] rows by simp
  then show ?thesis using ids by blast
qed

end
