(* ===== verification/Consumer_Properties.thy ===== *)
theory Consumer_Properties
  imports Journal_Facts Demo
begin

text \<open>
  The consumers: what the payables of other services leave in the subledger, in the outbox and, when
  their announcement comes ann, in the general ledger.
\<close>

section \<open>The announcement of a payable\<close>

lemma to_lower_names:
  "to_lower ''amount'' = ''amount''" "to_lower ''currency'' = ''currency''" "to_lower ''vendorRef'' = ''vendorref''"
  "to_lower ''documentRef'' = ''documentref''" "to_lower ''poRef'' = ''poref''" "to_lower ''vatAmount'' = ''vatamount''"
  "to_lower ''quantity'' = ''quantity''" "to_lower ''reverseCharge'' = ''reversecharge''"
  "to_lower ''taxCode'' = ''taxcode''" "to_lower ''inventoryValue'' = ''inventoryvalue''"
  by code_simp+

lemma announced_payload:
  assumes "invoicePostedOutbox hdl ref vendor amount currency po vat taxCode quantity rc = Some out"
  shows "decode_invoice (oe_payload out) = Some
    \<lparr>ip_amount = amount, ip_currency = currency, ip_vendor = vendor, ip_document = ref, ip_po = po, ip_vat = vat,
     ip_reverse = rc, ip_tax_code = (if rc then taxCode else ''''), ip_quantity = quantity, ip_inventory = ''''\<rparr>"
  using assms unfolding invoicePostedOutbox_def
  by (cases "hd_topic hdl")
    (auto simp: decode_invoice_def decode_field_def members_of_def equal_fold_def to_lower_names)

section \<open>Redelivery\<close>

text \<open>The events that raise a payable.\<close>

definition raises_payable :: "stream \<Rightarrow> envelope \<Rightarrow> bool" where
  "raises_payable st ev \<longleftrightarrow> (st, ev_type ev) \<in>
     {(Finance, ''fleet.fuel.recorded''), (Procurement, ''procurement.invoice.received''),
      (Procurement, ''contracts.payment.authorized''), (SupplyChain, ''scm.farmer_payment.recorded'')}"

text \<open>
  Whatever the data of such an event, its handler answers without looking at the database or creates
  one payable; only the clock can make a difference between two deliveries.
\<close>

definition payable_like :: "env \<Rightarrow> (time \<Rightarrow> unit handling) \<Rightarrow> bool" where
  "payable_like env m \<longleftrightarrow> (\<exists>x. \<forall>n s. m n s = (x, s)) \<or>
     (\<exists>v r d a c due ob. \<forall>n. m n = create_payable (env\<lparr>env_now := n\<rparr>) v r d a c due ob)"

lemma like_answer: "(\<And>n s. m n s = (x, s)) \<Longrightarrow> payable_like env m"
  by (auto simp: payable_like_def)

lemma like_ok: "payable_like env (\<lambda>n. ok ())" and like_broken: "payable_like env (\<lambda>n. broken msg)"
  by (auto simp: broken_def intro: like_answer)

lemma like_create: "payable_like env (\<lambda>n. create_payable (env\<lparr>env_now := n\<rparr>) v r d a c due ob)"
  unfolding payable_like_def by blast

lemma like_if: "payable_like env m \<Longrightarrow> payable_like env k \<Longrightarrow> payable_like env (\<lambda>n. if b then m n else k n)"
  by (cases b) simp_all

lemma like_decoded: "(\<And>x. payable_like env (\<lambda>n. f n x)) \<Longrightarrow> payable_like env (\<lambda>n. bind (decoded y) (f n))"
  by (cases y) (auto simp: decoded_def broken_def bind_apply intro: like_answer)

lemma like_amount: "(\<And>x. payable_like env (\<lambda>n. f n x)) \<Longrightarrow> payable_like env (\<lambda>n. bind (amount_or_broken y) (f n))"
  by (cases y) (auto simp: amount_or_broken_def bind_apply intro: like_answer)

lemma like_due: "(\<And>x. payable_like env (\<lambda>n. f n x)) \<Longrightarrow> payable_like env (\<lambda>n. bind (due_of obj) (f n))"
  by (auto simp: due_of_def broken_def bind_apply Let_def split: option.split intro: like_answer)

lemmas like_intros = like_if like_decoded like_amount like_due like_ok like_broken like_create

lemma clock_parse [simp]:
  "parseAmountStrict (env\<lparr>env_now := n\<rparr>) = parseAmountStrict env" "scmAmount (env\<lparr>env_now := n\<rparr>) = scmAmount env"
  "string_fixed (env\<lparr>env_now := n\<rparr>) = string_fixed env"
  by (auto simp: parseAmountStrict_def scmAmount_def string_fixed_def Let_def fun_eq_iff split: option.split json.split)

lemma payable_consumed:
  assumes "raises_payable st ev"
  shows "payable_like env (\<lambda>n. consume (env\<lparr>env_now := n\<rparr>) hdl st ev)"
proof -
  have "payable_like env (\<lambda>n. handleFleetFuelRecorded (env\<lparr>env_now := n\<rparr>) hdl ev)"
    unfolding handleFleetFuelRecorded_def Let_def clock_parse by (intro like_intros)
  moreover have "payable_like env (\<lambda>n. handleInvoiceReceived (env\<lparr>env_now := n\<rparr>) hdl ev)"
    unfolding handleInvoiceReceived_def Let_def by (cases "ev_data ev"; simp only: option.case) (intro like_intros)+
  moreover have "payable_like env (\<lambda>n. handlePaymentAuthorized (env\<lparr>env_now := n\<rparr>) ev)"
    unfolding handlePaymentAuthorized_def Let_def clock_parse
    by (cases "ev_data ev"; simp only: option.case) (intro like_intros)+
  moreover have "payable_like env (\<lambda>n. recordFarmerPayable (env\<lparr>env_now := n\<rparr>) hdl ev)"
    unfolding recordFarmerPayable_def Let_def clock_parse
    by (cases "ev_data ev"; simp only: option.case) (intro like_intros)+
  ultimately show ?thesis
    using assms by (auto simp: raises_payable_def consume_def finance_handle_def procurement_handle_def supply_chain_handle_def)
qed

text \<open>What creating a payable does: refuse it, or append the item and enqueue its announcement.\<close>

lemma RateOrOne_answers: "\<exists>rate. RateOrOne env c d s = (Inr rate, s)"
proof -
  obtain r t where rt: "RateOrOne env c d s = (r, t)" by (cases "RateOrOne env c d s")
  have "t = s" by (rule reads_final [OF reads_RateOrOne rt])
  moreover have "\<exists>x. r = Inr x"
    using rt by (auto simp: RateOrOne_def catch_apply split: prod.splits sum.splits)
  ultimately show ?thesis using rt by auto
qed

definition new_payable :: "env \<Rightarrow> string \<Rightarrow> string \<Rightarrow> string \<Rightarrow> rat \<Rightarrow> string \<Rightarrow> date option \<Rightarrow> rat \<Rightarrow> id \<Rightarrow> open_item" where
  "new_payable env v r d x c due rate i =
     \<lparr>oi_id = i, oi_party_ref = v, oi_document_ref = r, oi_desc = d, oi_amount = env_round env x 2, oi_paid = 0,
      oi_currency = c, oi_due = due, oi_status = Open, oi_entry = None, oi_source_event = None,
      oi_fx_rate = env_round env rate 8, oi_entity = env_entity env, oi_party_id = None, oi_notified = None\<rparr>"

definition announced_row :: "outbox_event \<Rightarrow> id \<Rightarrow> outbox_row" where
  "announced_row ev i =
     \<lparr>ob_id = i, ob_topic = oe_topic ev, ob_key = oe_key ev, ob_event_id = oe_event_id ev,
      ob_event_type = oe_event_type ev, ob_payload = oe_payload ev, ob_published = None, ob_attempts = 0,
      ob_last_error = ''''\<rparr>"

definition newly_announced :: "outbox_event option \<Rightarrow> db \<Rightarrow> outbox_row list" where
  "newly_announced ob s = (case ob of None \<Rightarrow> []
     | Some ev \<Rightarrow> if oe_event_id ev \<in> ob_event_id ` set (outbox s) then [] else [announced_row ev (next_id s)])"

lemma enqueue_opt_run:
  "\<exists>n \<ge> next_id s. enqueue_opt ob s = (Inr (), s\<lparr>outbox := outbox s @ newly_announced ob s, next_id := n\<rparr>)"
  by (cases ob) (auto simp: enqueue_opt_def enqueueOutboxTx_def newly_announced_def announced_row_def
      intro: exI [of _ "next_id s"] exI [of _ "Suc (next_id s)"])

lemma CreateAPOpenItem_cases:
  obtains (refused) "\<not> env_round env x 2 > 0"
      "CreateAPOpenItem env v r d x c due None None ob s = (Inl (CheckViolation ''open_items_amount_check''), s)"
  | (known) "env_round env x 2 > 0" "r \<in> oi_document_ref ` set (ap_items s)"
      "CreateAPOpenItem env v r d x c due None None ob s = (Inl (UniqueViolation ''open_items_document_ref_key''), s)"
  | (created) rate i k n where "next_id s \<le> n" "env_round env x 2 > 0" "r \<notin> oi_document_ref ` set (ap_items s)"
      "CreateAPOpenItem env v r d x c due None None ob s =
         (Inr (new_payable env v r d x c due rate i),
          s\<lparr>ap_items := ap_items s @ [new_payable env v r d x c due rate i],
            outbox := outbox s @ newly_announced ob (s\<lparr>next_id := k\<rparr>), next_id := n, touched := []\<rparr>)"
proof -
  obtain rate where rate: "RateOrOne env c (date_of (env_now env)) (s\<lparr>touched := []\<rparr>) = (Inr rate, s\<lparr>touched := []\<rparr>)"
    using RateOrOne_answers by blast
  let ?i = "new_payable env v r d x c due rate (next_id s)"
  let ?s1 = "s\<lparr>touched := [], next_id := Suc (next_id s), ap_items := ap_items s @ [?i]\<rparr>"
  obtain n where q: "enqueue_opt ob ?s1 = (Inr (), ?s1\<lparr>outbox := outbox ?s1 @ newly_announced ob ?s1, next_id := n\<rparr>)"
    and n: "next_id s \<le> n"
    using enqueue_opt_run [of ?s1 ob] by auto
  have "newly_announced ob ?s1 = newly_announced ob (s\<lparr>next_id := Suc (next_id s)\<rparr>)"
    by (cases ob) (simp_all add: newly_announced_def)
  note q = q [unfolded this]
  note run = CreateAPOpenItem_def create_open_item_def tx_def bind_apply rate insert_item_def items_of_def set_items_def
    rollback_def Let_def
  show thesis
  proof (cases "env_round env x 2 > 0 \<and> r \<notin> oi_document_ref ` set (ap_items s)")
    case True
    with q n show thesis by (intro created [where rate = rate and i = "next_id s" and k = "Suc (next_id s)" and n = n]) (auto simp: run new_payable_def)
  next
    case False
    then show thesis
      using refused known by (cases "env_round env x 2 > 0") (auto simp: run)
  qed
qed

lemma create_payable_cases:
  assumes "create_payable env v r d a c due ob s = (Inr (), t)"
  obtains x where "env_parse env (trim_space a) = Some x" "env_round env (env_round env x 2) 2 > 0"
    "r \<in> oi_document_ref ` set (ap_items s)" "t = s"
  | x rate i k n where "next_id s \<le> n" "env_parse env (trim_space a) = Some x" "env_round env (env_round env x 2) 2 > 0"
    "r \<notin> oi_document_ref ` set (ap_items s)"
    "t = s\<lparr>ap_items := ap_items s @ [new_payable env v r d (env_round env x 2) c due rate i],
           outbox := outbox s @ newly_announced ob (s\<lparr>next_id := k\<rparr>), next_id := n, touched := []\<rparr>"
proof -
  note run = create_payable_def CreateAPItem_def numeric_text_def attempt_def bind_apply catch_apply
  obtain x where x: "env_parse env (trim_space a) = Some x"
    using assms by (auto simp: run split: option.splits)
  show thesis
  proof (cases rule: CreateAPOpenItem_cases [of env "env_round env x 2" v r d c due ob s])
    case refused
    with assms show thesis by (simp add: run x)
  next
    case known
    with assms show thesis by (intro that(1)) (simp_all add: run x)
  next
    case (created rate i k n)
    with assms show thesis by (intro that(2) [where x = x and rate = rate and i = i and k = k and n = n]) (simp_all add: run x)
  qed
qed

lemma payable_redelivered_item:
  assumes run: "create_payable env v r d a c due ob s = (Inr (), t)"
    and kept: "oi_document_ref ` set (ap_items t) \<subseteq> oi_document_ref ` set (ap_items u)"
  shows "create_payable (env\<lparr>env_now := n\<rparr>) v r d a c due ob u = (Inr (), u)"
proof -
  obtain x where x: "env_parse env (trim_space a) = Some x" "env_round env (env_round env x 2) 2 > 0"
    and "r \<in> oi_document_ref ` set (ap_items t)"
    using run by (cases rule: create_payable_cases) (auto simp: new_payable_def)
  with kept have r: "r \<in> oi_document_ref ` set (ap_items u)" by blast
  show ?thesis
  proof (cases rule: CreateAPOpenItem_cases [of "env\<lparr>env_now := n\<rparr>" "env_round env x 2" v r d c due ob u])
    case known
    then show ?thesis
      by (simp add: create_payable_def CreateAPItem_def numeric_text_def x attempt_def bind_apply catch_apply)
  qed (use x r in auto)
qed

text \<open>
  Redelivery of an event that raises a payable is harmless: once its handler has answered, any
  later delivery of the same event, at any time and in any state that still has the payables of then,
  succeeds and changes nothing, whatever happened in between.
\<close>

theorem payable_redelivered:
  assumes "raises_payable st ev" "consume (env\<lparr>env_now := m\<rparr>) hdl st ev s = (Inr (), t)"
    and "oi_document_ref ` set (ap_items t) \<subseteq> oi_document_ref ` set (ap_items u)"
  shows "consume (env\<lparr>env_now := n\<rparr>) hdl st ev u = (Inr (), u)"
  using payable_consumed [OF assms(1), of env hdl] unfolding payable_like_def
proof (elim disjE exE)
  fix x assume x: "\<forall>n s. consume (env\<lparr>env_now := n\<rparr>) hdl st ev s = (x, s)"
  with assms(2) have "x = Inr ()" by simp
  with x show ?thesis by simp
next
  fix v r d a c due ob
  assume call: "\<forall>n. consume (env\<lparr>env_now := n\<rparr>) hdl st ev = create_payable (env\<lparr>env_now := n\<rparr>) v r d a c due ob"
  with payable_redelivered_item [of "env\<lparr>env_now := m\<rparr>" v r d a c due ob s t u n] assms(2,3) show ?thesis by simp
qed

section \<open>From the event to the ledger\<close>

lemma first_booking_answers:
  assumes inv: "booking_inv s" "booking_ready s" and ev: "ev \<noteq> ''''" "jp_source_event p = Some ev"
    and new: "\<not> event_processed s ev"
    and run: "BookPostedEntry env p ev ty postedAt (None :: (id \<Rightarrow> unit action) option) a s = (Inr (jo, y), t)"
  shows "\<exists>j. jo = Some j"
proof (cases "booking_tx env p ev ty postedAt (None :: (id \<Rightarrow> unit action) option) a s")
  case (Pair q u)
  show ?thesis
  proof (cases q)
    case (Inl e)
    then have "e \<noteq> RaceLost" using booking_tx_not_race [OF inv ev new] Pair by blast
    with run Pair Inl new ev show ?thesis
      by (simp add: BookPostedEntry_def Let_def IsEventProcessed_def bind_apply catch_apply)
  next
    case (Inr z)
    obtain i x where z: "z = (i, x)" by (cases z)
    have "entry_by_id u i \<noteq> None"
      using booking_tx_Inr [of env p ev ty postedAt None a s i x u] Pair Inr z
      by (auto simp: entry_by_id_def row_by_append posted_row_def split: option.split)
    with run Pair Inr z new ev show ?thesis
      by (auto simp: BookPostedEntry_def Let_def IsEventProcessed_def bind_apply catch_apply GetJournalEntry_def)
  qed
qed

text \<open>The booking of a bill that names no purchase order and no reverse charge.\<close>

lemma BookAPInvoice_call:
  assumes "BookAPInvoice env ref d c '''' x v iv False tc q s = (Inr jo, t)"
  obtains rs w cur fx a y where "validateBalance (invoice_lines '''' x (sane_vat x v) iv 0) = None"
    "resolveLines (invoice_lines '''' x (sane_vat x v) iv 0) s = (Inr rs, s)"
    "resolvePostingWindow env ref s = (Inr w, s)"
    "BookPostedEntry env (event_params ref w (describeDeferral d w) cur fx rs) (er_id ref) (er_type ref) (env_now env)
       (None :: (id \<Rightarrow> unit action) option) a s = (Inr (jo, y), t)"
proof -
  let ?ls = "invoice_lines '''' x (sane_vat x v) iv 0" and ?cur = "if c = '''' then env_base env else c"
  from assms obtain rs s1 w s2 fx s3 y where ls: "validateBalance ?ls = None"
    and run: "resolveLines ?ls s = (Inr rs, s1)" "resolvePostingWindow env ref s1 = (Inr w, s2)"
      "RateOrOne env ?cur (date_of (pw_transaction w)) s2 = (Inr fx, s3)"
      "BookPostedEntry env (event_params ref w (describeDeferral d w) ?cur fx rs) (er_id ref) (er_type ref) (env_now env)
        (None :: (id \<Rightarrow> unit action) option) (system_audit ref ''ledger.booked'' (describeDeferral d w)) s3 = (Inr (jo, y), t)"
    unfolding BookAPInvoice_def Let_def reverse_charge_vat_def
    by (auto simp: bind_Inr_iff check_Inr_iff split: if_splits prod.splits)
  have "s1 = s" by (rule reads_final [OF reads_resolveLines run(1)])
  moreover have "s2 = s1" by (rule reads_final [OF reads_resolvePostingWindow run(2)])
  moreover have "s3 = s2" by (rule reads_final [OF reads_RateOrOne run(3)])
  ultimately show thesis using that ls run by simp
qed

text \<open>A payable without an entry: booking leaves it so.\<close>

definition unbooked :: "string \<Rightarrow> rat \<Rightarrow> db \<Rightarrow> bool" where
  "unbooked ref x s \<longleftrightarrow> (case item_by_ref AP s ref of None \<Rightarrow> False | Some i \<Rightarrow> oi_entry i = None \<and> oi_amount i = x)"

lemma row_by_map: "(\<And>r. key (f r) = key r) \<Longrightarrow> row_by key k (map f rs) = map_option f (row_by key k rs)"
  by (induction rs) auto

interpretation unbooked: subledger "unbooked ref x" for ref x
proof
  fix s t i
  assume s: "unbooked ref x s"
  show "unbooked ref x t" if "documents_of t = documents_of s"
    using s that by (simp add: unbooked_def documents_of_def item_by_ref_def items_of_def)
  show "unbooked ref x (drop_refs i s)"
    using s by (auto simp: unbooked_def drop_refs_def item_by_ref_def items_of_def row_by_map drop_ref_def split: option.splits)
qed

lemma LinkAP_links:
  assumes "unbooked ref x s" "ref \<noteq> ''''"
  shows "\<exists>i. LinkAPToJournal ref e ev s = (Inr (), snd (LinkAPToJournal ref e ev s)) \<and>
    item_by_ref AP (snd (LinkAPToJournal ref e ev s)) ref = Some i \<and> oi_entry i = Some e \<and> oi_amount i = x"
proof -
  from assms(1) obtain i where i: "item_by_ref AP s ref = Some i" "oi_entry i = None" "oi_amount i = x"
    by (auto simp: unbooked_def split: option.splits)
  then have "oi_document_ref i = ref" by (auto simp: item_by_ref_def dest: row_by_Some_in)
  with i assms(2) show ?thesis
    by (auto simp: LinkAPToJournal_def LinkAPOpenItemByDocumentRef_def link_open_item_def annotate_def update_where_def
        set_items_def items_of_def item_by_ref_def row_by_map)
qed

lemma booking_inv_frame:
  assumes s: "booking_inv s" and t: "journal_frame t = journal_frame s" "next_id s \<le> next_id t"
  shows "booking_inv t"
proof -
  have f: "entries t = entries s" "jlines t = jlines s" "processed t = processed s" "accounts t = accounts s"
    "entry_seq t = entry_seq s" using t(1) by (simp_all add: journal_frame_def)
  from s t(2) show ?thesis
    unfolding booking_inv_def journal_inv_def entries_wf_def lines_wf_def numbers_wf_def sources_processed_def
      event_processed_def balanced_def lines_of_def f
    by (auto intro: less_le_trans)
qed

text \<open>An event of the platform that carries a row of the outbox.\<close>

definition carries :: "envelope \<Rightarrow> outbox_row \<Rightarrow> bool" where
  "carries ev r \<longleftrightarrow> ev_id ev = ob_event_id r \<and> ev_type ev = ob_event_type r \<and> ev_data ev = Some (ob_payload r)"

lemma fuel_payable:
  assumes ev: "ev_type ev = ''fleet.fuel.recorded''" "decode_fuel (data_of ev) = Some f" "hd_topic hdl = Some topic"
    and amount: "parseAmountStrict env (ff_amount f) = Inr (Some x)"
    and fresh: "ff_document f \<notin> oi_document_ref ` set (ap_items s)"
      "''invoice.posted:'' @ ff_document f \<notin> ob_event_id ` set (outbox s)"
    and run: "consume env hdl Finance ev s = (Inr (), t)"
  shows "ff_document f \<noteq> ''''" "journal_frame t = journal_frame s" "next_id s \<le> next_id t"
    "unbooked (ff_document f) (env_round env (env_round env x 2) 2) t"
    "\<exists>r c v. outbox t = outbox s @ [r] \<and> ob_event_id r = ''invoice.posted:'' @ ff_document f \<and> ob_event_type r = ''invoice.posted'' \<and>
       decode_invoice (ob_payload r) = Some
         \<lparr>ip_amount = ff_amount f, ip_currency = c, ip_vendor = v, ip_document = ff_document f, ip_po = '''', ip_vat = '''',
          ip_reverse = False, ip_tax_code = '''', ip_quantity = '''', ip_inventory = ''''\<rparr>"
proof -
  let ?ref = "ff_document f" and ?c = "or_ugx (ff_currency f)" and ?v = "trim_space (ff_vendor f)"
  obtain out where out: "invoicePostedOutbox hdl ?ref ?v (ff_amount f) ?c '''' '''' '''' '''' False = Some out"
    using ev(3) by (simp add: invoicePostedOutbox_def)
  then have o: "oe_event_id out = ''invoice.posted:'' @ ?ref" "oe_event_type out = ''invoice.posted''"
    using ev(3) by (auto simp: invoicePostedOutbox_def)
  have ref: "trim_space ?ref \<noteq> ''''"
    using run by (auto simp: consume_def finance_handle_def ev handleFleetFuelRecorded_def decoded_def amount
        amount_or_broken_def broken_def bind_apply)
  then show "?ref \<noteq> ''''" by (auto simp: trim_space_def)
  from run ref obtain d where create: "create_payable env ?v ?ref d (ff_amount f) ?c None (Some out) s = (Inr (), t)"
    by (auto simp: consume_def finance_handle_def ev handleFleetFuelRecorded_def decoded_def amount
        amount_or_broken_def Let_def out)
  have x: "env_parse env (trim_space (ff_amount f)) = Some x"
    using amount by (auto simp: parseAmountStrict_def Let_def split: if_splits option.splits)
  from create obtain rate i k n where t: "t = s\<lparr>ap_items := ap_items s @ [new_payable env ?v ?ref d (env_round env x 2) ?c None rate i],
      outbox := outbox s @ newly_announced (Some out) (s\<lparr>next_id := k\<rparr>), next_id := n, touched := []\<rparr>" and n: "next_id s \<le> n"
  proof (cases rule: create_payable_cases)
    case (2 y rate i k n)
    with x that show thesis by simp
  qed (use fresh(1) in simp)
  show "journal_frame t = journal_frame s" "next_id s \<le> next_id t" using n by (simp_all add: t journal_frame_def)
  have "row_by oi_document_ref ?ref (ap_items s) = None" using fresh(1) by (simp add: row_by_None_iff)
  then show "unbooked ?ref (env_round env (env_round env x 2) 2) t"
    by (simp add: t unbooked_def item_by_ref_def items_of_def row_by_append new_payable_def)
  show "\<exists>r c v. outbox t = outbox s @ [r] \<and> ob_event_id r = ''invoice.posted:'' @ ?ref \<and> ob_event_type r = ''invoice.posted'' \<and>
       decode_invoice (ob_payload r) = Some
         \<lparr>ip_amount = ff_amount f, ip_currency = c, ip_vendor = v, ip_document = ?ref, ip_po = '''', ip_vat = '''',
          ip_reverse = False, ip_tax_code = '''', ip_quantity = '''', ip_inventory = ''''\<rparr>"
    using fresh(2) announced_payload [OF out]
    by (intro exI [of _ "announced_row out k"] exI [of _ ?c] exI [of _ ?v])
      (simp add: t newly_announced_def announced_row_def o)
qed

lemma announcement_booked:
  assumes inv: "booking_inv s" "booking_ready s" and ref: "ref \<noteq> ''''" "unbooked ref x s"
    and ev: "ev_type ev = ''invoice.posted''" "ev_id ev = ''invoice.posted:'' @ ref" "\<not> event_processed s (ev_id ev)"
    and data: "decode_invoice (data_of ev) = Some
         \<lparr>ip_amount = a, ip_currency = c, ip_vendor = v, ip_document = ref, ip_po = '''', ip_vat = '''',
          ip_reverse = False, ip_tax_code = '''', ip_quantity = '''', ip_inventory = ''''\<rparr>"
    and amount: "parseAmountStrict env a = Inr (Some y)"
    and run: "consume env hdl Finance ev s = (Inr (), t)"
  shows "\<exists>e ls i. booked_first env (eventRef ev) ls s t e \<and> cr ''2000'' y ''AP liability'' \<in> set ls \<and>
    item_by_ref AP t ref = Some i \<and> oi_entry i = Some (e_id e) \<and> oi_amount i = x"
proof -
  have trim: "trim_space '''' = ''''" by (simp add: trim_space_def)
  let ?ls = "invoice_lines '''' y (sane_vat y (parseAmount env '''')) (parseAmount env '''') 0"
  from run obtain jo s1 where book: "BookAPInvoice env (eventRef ev) (described ''Invoice posted'' ref) c '''' y
        (parseAmount env '''') (parseAmount env '''') False '''' (parseAmount env '''') s = (Inr jo, s1)"
    and link: "linkOpenItem ''invoice.posted'' ref jo (ev_id ev) s1 = (Inr (), t)"
    by (auto simp: consume_def finance_handle_def ev(1) handleInvoicePosted_def data decoded_def amount amount_or_broken_def
        trim attempt_def bind_apply split: prod.splits sum.splits)
  from book obtain rs w cur fx au z where call: "validateBalance ?ls = None"
    "resolveLines ?ls s = (Inr rs, s)" "resolvePostingWindow env (eventRef ev) s = (Inr w, s)"
    and post: "BookPostedEntry env (event_params (eventRef ev) w (describeDeferral (described ''Invoice posted'' ref) w) cur fx rs)
        (er_id (eventRef ev)) (er_type (eventRef ev)) (env_now env) (None :: (id \<Rightarrow> unit action) option) au s = (Inr (jo, z), s1)"
    by (rule BookAPInvoice_call)
  let ?p = "event_params (eventRef ev) w (describeDeferral (described ''Invoice posted'' ref) w) cur fx rs"
  have id: "er_id (eventRef ev) = ev_id ev" "er_id (eventRef ev) \<noteq> ''''" "jp_source_event ?p = Some (er_id (eventRef ev))"
    using ev(2) by (simp_all add: eventRef_def event_params_def)
  have new: "\<not> event_processed s (er_id (eventRef ev))" "entry_by_source s (er_id (eventRef ev)) = None"
  proof -
    show "\<not> event_processed s (er_id (eventRef ev))" using ev(3) id by simp
    with inv(1) show "entry_by_source s (er_id (eventRef ev)) = None"
      by (auto simp: booking_inv_def sources_processed_def entry_by_source_def row_by_None_iff)
  qed
  from first_booking_answers [OF inv id(2,3) new(1) post] obtain j where j: "jo = Some j" by blast
  from event_booked_first [OF id(2) new call post [unfolded j]] obtain e where
    e: "booked_first env (eventRef ev) ?ls s s1 e" "e_id e = e_id (j_entry j)" by blast
  have "keeps (unbooked ref x) (BookPostedEntry env ?p (er_id (eventRef ev)) (er_type (eventRef ev)) (env_now env)
      (None :: (id \<Rightarrow> unit action) option) au)"
    by (rule unbooked.sub_BookPostedEntry) simp
  from keeps_run [OF this ref(2) post] have un: "unbooked ref x s1" .
  from LinkAP_links [OF un ref(1), of "e_id e" "ev_id ev"] obtain i where
    l: "LinkAPToJournal ref (e_id e) (ev_id ev) s1 = (Inr (), snd (LinkAPToJournal ref (e_id e) (ev_id ev) s1))"
    and i: "item_by_ref AP (snd (LinkAPToJournal ref (e_id e) (ev_id ev) s1)) ref = Some i" "oi_entry i = Some (e_id e)"
      "oi_amount i = x" by blast
  have "LinkAPToJournal ref (e_id (j_entry j)) (ev_id ev) s1 = (Inr (), t)"
    using link ref(1) l by (simp add: linkOpenItem_def j e(2) [symmetric] catch_apply attempt_def split: prod.splits sum.splits)
  then have t: "t = snd (LinkAPToJournal ref (e_id e) (ev_id ev) s1)" by (simp add: e(2))
  have "entries t = entries s1" "jlines t = jlines s1" "processed t = processed s1"
    using ref(1) by (simp_all add: t LinkAPToJournal_def LinkAPOpenItemByDocumentRef_def link_open_item_def annotate_def set_items_def)
  with e(1) have "booked_first env (eventRef ev) ?ls s t e"
    by (simp add: booked_first_def event_processed_def)
  moreover have "cr ''2000'' y ''AP liability'' \<in> set ?ls" by (simp add: invoice_lines_def Let_def)
  ultimately show ?thesis using i t by blast
qed


text \<open>
  C34. The announcement of a payable reads back as it was written: it is an \<open>invoice.posted\<close> event named
  after the document, and decoding its payload gives the amount, the currency, the vendor, the
  document, the purchase order, the VAT and the quantity of the payable; the tax code travels only
  with a reverse charge, and there is no inventory value.
\<close>

theorem announcement_decodes:
  "map_option (\<lambda>out. (oe_event_id out, oe_event_type out, decode_invoice (oe_payload out)))
     (invoicePostedOutbox (hdl\<lparr>hd_topic := Some topic\<rparr>) ref vendor amount currency po vat taxCode quantity rc) =
   Some (''invoice.posted:'' @ ref, ''invoice.posted'', Some
     \<lparr>ip_amount = amount, ip_currency = currency, ip_vendor = vendor, ip_document = ref, ip_po = po, ip_vat = vat,
      ip_reverse = rc, ip_tax_code = (if rc then taxCode else ''''), ip_quantity = quantity, ip_inventory = ''''\<rparr>)"
proof -
  obtain out where out: "invoicePostedOutbox (hdl\<lparr>hd_topic := Some topic\<rparr>) ref vendor amount currency po vat taxCode quantity rc = Some out"
    by (simp add: invoicePostedOutbox_def)
  then have "oe_event_id out = ''invoice.posted:'' @ ref" "oe_event_type out = ''invoice.posted''"
    by (auto simp: invoicePostedOutbox_def)
  with out announced_payload [OF out] show ?thesis by simp
qed

section \<open>A fuel purchase\<close>

definition demo_prices :: env where
  "demo_prices = demo_env\<lparr>env_parse := (\<lambda>x. if x = ''5'' then Some 5 else None)\<rparr>"

definition demo_fleet :: db where
  "demo_fleet = empty_db\<lparr>accounts := [demo_account 2 ''2000'' ''liability'', demo_account 3 ''5000'' ''expense''],
     next_id := 4\<rparr>"

definition demo_handler :: handler where
  "demo_handler = \<lparr>hd_topic = Some ''iag.finance'', hd_clearing = False, hd_ledger = True, hd_uuid = (\<lambda>_. None),
     hd_show_uuid = (\<lambda>_. ''''), hd_fixed2 = (\<lambda>_. ''0.00'')\<rparr>"

definition demo_fuel :: envelope where
  "demo_fuel = \<lparr>ev_id = ''f1'', ev_type = ''fleet.fuel.recorded'', ev_source = ''fleet'', ev_time = ''2026-08-14T00:00:00Z'',
     ev_correlation = '''', ev_data = Some [(''amount'', JString ''5''), (''documentRef'', JString ''F-1'')]\<rparr>"

definition demo_fueled :: db where
  "demo_fueled = snd (consume demo_prices demo_handler Finance demo_fuel demo_fleet)"

lemma demo_fueled_code [code]:
  "demo_fueled = demo_fleet
     \<lparr>ap_items :=
        [\<lparr>oi_id = 4, oi_party_ref = '''', oi_document_ref = ''F-1'',
          oi_desc = ''Fleet fuel purchase '' @ em_dash @ '' F-1'', oi_amount = 5, oi_paid = 0, oi_currency = ''UGX'',
          oi_due = None, oi_status = Open, oi_entry = None, oi_source_event = None, oi_fx_rate = 1, oi_entity = 1,
          oi_party_id = None, oi_notified = None\<rparr>],
      outbox :=
        [\<lparr>ob_id = 5, ob_topic = ''iag.finance'', ob_key = ''F-1'', ob_event_id = ''invoice.posted:F-1'',
          ob_event_type = ''invoice.posted'',
          ob_payload = [(''amount'', JString ''5''), (''currency'', JString ''UGX''), (''vendorRef'', JString ''''),
            (''documentRef'', JString ''F-1'')],
          ob_published = None, ob_attempts = 0, ob_last_error = ''''\<rparr>],
      next_id := 6\<rparr>"
  by code_simp

definition demo_announcement :: envelope where
  "demo_announcement = \<lparr>ev_id = ''invoice.posted:F-1'', ev_type = ''invoice.posted'', ev_source = ''iag.finance'',
     ev_time = ''2026-08-14T00:00:00Z'', ev_correlation = '''',
     ev_data = map_option ob_payload (find (\<lambda>_. True) (outbox demo_fueled))\<rparr>"

definition demo_booked :: db where
  "demo_booked = snd (consume demo_prices demo_handler Finance demo_announcement demo_fueled)"

lemma demo_fuel_handled:
  "case fst (consume demo_prices demo_handler Finance demo_fuel demo_fleet) of Inr _ \<Rightarrow> True | Inl _ \<Rightarrow> False"
  "case fst (consume demo_prices demo_handler Finance demo_announcement demo_fueled) of Inr _ \<Rightarrow> True | Inl _ \<Rightarrow> False"
  "map oi_document_ref (ap_items demo_fueled) = [''F-1'']" "map ob_event_type (outbox demo_fueled) = [''invoice.posted'']"
  "map_option ff_document (decode_fuel (data_of demo_fuel)) = Some ''F-1''"
  "map_option ff_amount (decode_fuel (data_of demo_fuel)) = Some ''5''"
  by code_simp+

lemma demo_fuel_run: "consume demo_prices demo_handler Finance demo_fuel demo_fleet = (Inr (), demo_fueled)"
  using demo_fuel_handled(1)
  by (cases "consume demo_prices demo_handler Finance demo_fuel demo_fleet") (auto simp: demo_fueled_def split: sum.splits)

theorem payable_redelivered_witness:
  "consume (demo_prices\<lparr>env_now := env_now demo_prices + 86400\<rparr>) demo_handler Finance demo_fuel demo_fueled = (Inr (), demo_fueled)
   \<and> map oi_document_ref (ap_items demo_fueled) = [''F-1'']"
proof -
  have "demo_prices\<lparr>env_now := env_now demo_prices\<rparr> = demo_prices" by simp
  then show ?thesis
    using payable_redelivered [where st = Finance and ev = demo_fuel and env = demo_prices and m = "env_now demo_prices"
        and hdl = demo_handler and s = demo_fleet and t = demo_fueled and u = demo_fueled] demo_fuel_run demo_fuel_handled(3)
    by (simp add: raises_payable_def demo_fuel_def)
qed


end
