(* ===== verification/Document_Properties.thy ===== *)
theory Document_Properties
  imports Subledger_Properties
begin

text \<open>
  Documents around the ledger: a confirmed bank line settles its document once, a feed with an external
  reference fails, and a period of a recurring invoice is claimed by one replica.
\<close>

section \<open>A confirmed line\<close>

lemma move_line_Inr:
  assumes "move_line i st f s = (Inr l, t)"
  obtains m where "m \<in> set (statement_lines (docs_of s))" "sn_id m = i" "sn_status m = st" "l = f m"
    "t = s\<lparr>docs_of := (docs_of s)\<lparr>statement_lines :=
       update_where (\<lambda>l. sn_id l = i \<and> sn_status l = st) f (statement_lines (docs_of s))\<rparr>\<rparr>"
proof -
  let ?hit = "\<lambda>l. sn_id l = i \<and> sn_status l = st"
  from assms obtain m ms where hit: "filter ?hit (statement_lines (docs_of s)) = m # ms" and res: "l = f m"
    "t = s\<lparr>docs_of := (docs_of s)\<lparr>statement_lines := update_where ?hit f (statement_lines (docs_of s))\<rparr>\<rparr>"
    by (auto simp: move_line_def Let_def split: list.splits)
  have "m \<in> set (filter ?hit (statement_lines (docs_of s)))" by (simp add: hit)
  with res show thesis by (intro that [of m]) auto
qed

lemma statement_lines_materialize:
  "statement_lines (docs_of (snd (MaterializeBankTransactions code st s))) = statement_lines (docs_of s)"
proof -
  have one: "statement_lines (docs_of (snd (materialize_line code l u))) = statement_lines (docs_of u)"
    "fst (materialize_line code l u) = Inr ()" for l u
    by (simp_all add: materialize_line_def upd_docs_def modify_def)
  have "statement_lines (docs_of (snd (for_each ls (materialize_line code) u))) = statement_lines (docs_of u)" for ls u
  proof (induction ls arbitrary: u)
    case (Cons l ls)
    then show ?case using one [of l u]
      by (cases "materialize_line code l u") (simp add: andthen_def bind_def)
  qed (simp add: ok_def)
  then show ?thesis by (simp add: MaterializeBankTransactions_def bind_def gets_def)
qed

text \<open>No line of the number is left in the status a step started from.\<close>

lemma none_left_proposed:
  assumes "ConfirmStatementLineMatch i s = (Inr l, t)" "m \<in> set (statement_lines (docs_of t))" "sn_id m = i"
  shows "sn_status m \<noteq> Proposed"
  using assms(1) [unfolded ConfirmStatementLineMatch_def]
  by (rule move_line_Inr) (use assms(2,3) in \<open>auto simp: update_where_def\<close>)

lemma confirm_again:
  assumes "\<And>m. m \<in> set (statement_lines (docs_of s)) \<Longrightarrow> sn_id m = i \<Longrightarrow> sn_status m \<noteq> Proposed"
  shows "ConfirmStatementLine env show_uuid i s = (Inl ErrStatementLineNotFound, s)"
proof (cases "row_by sn_id i (statement_lines (docs_of s))")
  case (Some l)
  then have "sn_status l \<noteq> Proposed" using assms row_by_Some_in by fastforce
  with Some show ?thesis by (simp add: ConfirmStatementLine_def GetStatementLine_def bind_def gets_def fail_def)
qed (simp add: ConfirmStatementLine_def GetStatementLine_def bind_def gets_def fail_def)

lemma lateral_core:
  assumes "lateral m" "m s = (r, t)"
  shows "core_of t = core_of s"
  using assms unfolding lateral_def by (metis snd_conv)

definition line_ledger :: "statement_line \<Rightarrow> direction" where
  "line_ledger l = (if sn_direction l = ''credit'' then AR else AP)"

text \<open>What a successful confirmation ran.\<close>

lemma confirm_steps:
  assumes "ConfirmStatementLine env show_uuid i s = (Inr (), t)"
    and l: "row_by sn_id i (statement_lines (docs_of s)) = Some l"
    and ref: "trim_space (text_or_empty (sn_matched l)) = ref" "ref \<noteq> ''''"
    and it: "item_by_ref (line_ledger l) s ref = Some it"
  obtains pay u s1 where
    "apply_payment (line_ledger l) env (oi_id it) (sn_amount l) (oi_currency it) (''recon:'' @ show_uuid (sn_id l))
       ''reconciliation'' None s = (Inr (pay, u), s1)"
    "core_of t = core_of s1"
    "\<And>m. m \<in> set (statement_lines (docs_of t)) \<Longrightarrow> sn_id m = i \<Longrightarrow> sn_status m \<noteq> Proposed"
proof -
  from assms(1) l obtain s1 c s2 code s3 where run:
    "settleMatchedLine env show_uuid l s = (Inr (), s1)" "ConfirmStatementLineMatch i s1 = (Inr c, s2)"
    "BankAccountCodeForStatement (sn_statement c) s2 = (Inr code, s3)"
    "MaterializeBankTransactions code (sn_statement c) s3 = (Inr (), t)"
    by (auto simp: ConfirmStatementLine_def GetStatementLine_def bind_Inr_iff gets_def fail_def split: if_splits)
  from run(3) have s3: "s3 = s2"
    by (auto simp: BankAccountCodeForStatement_def bind_def gets_def fail_def ok_def split: option.splits)
  have "core_of t = core_of s2"
    using lateral_core [OF lateral_matches(5) run(4)] by (simp add: s3)
  moreover have "core_of s2 = core_of s1" using lateral_core [OF lateral_matches(3) run(2)] .
  moreover have "statement_lines (docs_of t) = statement_lines (docs_of s2)"
    using statement_lines_materialize [of code "sn_statement c" s2] run(4) by (simp add: s3)
  moreover obtain pay u where
    "apply_payment (line_ledger l) env (oi_id it) (sn_amount l) (oi_currency it) (''recon:'' @ show_uuid (sn_id l))
       ''reconciliation'' None s = (Inr (pay, u), s1)"
    using run(1) ref it
    by (auto simp: settleMatchedLine_def settle_document_def line_ledger_def Let_def bind_Inr_iff gets_def ok_def fail_def
        GetARByDocumentRef_def GetAPByDocumentRef_def ApplyARPayment_def ApplyAPPayment_def split: if_splits)
  ultimately show thesis using none_left_proposed [OF run(2)] by (intro that) auto
qed

text \<open>
  C17. Confirming a proposed bank line settles the document it names, once: the open item with that
  reference, and no other, is paid by the amount of the line and never beyond its own, one payment and
  one posted entry linked to each other are recorded, and confirming the line again is refused and
  changes nothing.
\<close>

theorem bank_line_settles:
  assumes "ConfirmStatementLine env show_uuid i s = (Inr (), t)"
    and "row_by sn_id i (statement_lines (docs_of s)) = Some l"
    and "trim_space (text_or_empty (sn_matched l)) = ref" "ref \<noteq> ''''"
    and "item_by_ref (line_ledger l) s ref = Some it" "items_wf s"
    and "\<not> event_processed s (payment_event_id (line_ledger l) (oi_id it) (''recon:'' @ show_uuid (sn_id l)))"
  shows "oi_paid it + sn_amount l \<le> oi_amount it \<and>
     items_of (line_ledger l) t =
       map (\<lambda>x. if x = it then settled env (sn_amount l) it else x) (items_of (line_ledger l) s) \<and>
     (\<exists>pay e. payments t = payments s @ [pay] \<and> p_item pay = oi_id it \<and> p_amount pay = env_round env (sn_amount l) 2 \<and>
        entries t = entries s @ [e] \<and> e_status e = Posted \<and> p_entry pay = Some (e_id e)) \<and>
     ConfirmStatementLine env' show_uuid i t = (Inl ErrStatementLineNotFound, t)"
proof -
  obtain pay u s1 where run:
    "apply_payment (line_ledger l) env (oi_id it) (sn_amount l) (oi_currency it) (''recon:'' @ show_uuid (sn_id l))
       ''reconciliation'' None s = (Inr (pay, u), s1)"
    and core: "core_of t = core_of s1"
    and spent: "\<And>m. m \<in> set (statement_lines (docs_of t)) \<Longrightarrow> sn_id m = i \<Longrightarrow> sn_status m \<noteq> Proposed"
    using assms(1-5) by (rule confirm_steps) blast
  have "distinct (map oi_id (items_of (line_ledger l) s))" "it \<in> set (items_of (line_ledger l) s)"
    using assms(6) row_by_Some_in [OF assms(5) [unfolded item_by_ref_def]] by (simp_all add: items_wf_alt side_wf_def)
  then have "item_by_id (line_ledger l) s (oi_id it) = Some it" by (simp add: item_by_id_def row_by_distinct)
  with payment_effect [OF run assms(7,6)] core confirm_again [OF spent] show ?thesis
    by (cases "line_ledger l") (auto simp: core_of_def)
qed

text \<open>An invoice of 100 and a proposed receipt of 60 that names it.\<close>

definition demo_receipt :: statement_line where
  "demo_receipt = \<lparr>sn_id = 50, sn_statement = 49, sn_date = (2026, 8, 14), sn_desc = ''transfer'', sn_payee = ''C1'',
     sn_amount = 60, sn_direction = ''credit'', sn_external = None, sn_status = Proposed, sn_matched = Some ''INV-1''\<rparr>"

definition demo_bank :: db where
  "demo_bank = demo_invoiced\<lparr>docs_of := (docs_of demo_invoiced)
     \<lparr>bank_statements := [\<lparr>bs_id = 49, bs_account = ''1000'', bs_date = (2026, 8, 14), bs_status = ''reconciling'',
        bs_count = 1\<rparr>], statement_lines := [demo_receipt]\<rparr>\<rparr>"

lemma demo_bank_run: "fst (ConfirmStatementLine demo_env show_nat 50 demo_bank) = Inr ()"
  by code_simp

lemma demo_bank_wf: "items_wf demo_bank"
proof -
  have "items_wf demo_bank = items_wf demo_invoiced"
    by (rule items_wf_items) (auto simp: demo_bank_def items_of_def split: direction.splits)
  then show ?thesis using demo_invoiced_wf by simp
qed

theorem bank_line_settles_witness:
  "\<exists>it pay. ar_items demo_bank = [it] \<and>
     ar_items (snd (ConfirmStatementLine demo_env show_nat 50 demo_bank)) = [settled demo_env 60 it] \<and>
     payments (snd (ConfirmStatementLine demo_env show_nat 50 demo_bank)) = [pay] \<and> p_amount pay = round_half_away 60 2"
proof -
  obtain t where run: "ConfirmStatementLine demo_env show_nat 50 demo_bank = (Inr (), t)"
    using demo_bank_run by (cases "ConfirmStatementLine demo_env show_nat 50 demo_bank") simp
  obtain it where it: "ar_items demo_bank = [it]" "oi_id it = 10" "oi_document_ref it = ''INV-1''"
  proof -
    have "map (\<lambda>i. (oi_id i, oi_document_ref i)) (ar_items demo_bank) = [(10, ''INV-1'')]" by code_simp
    then show thesis by (auto intro: that)
  qed
  have l: "row_by sn_id 50 (statement_lines (docs_of demo_bank)) = Some demo_receipt"
    "trim_space (text_or_empty (sn_matched demo_receipt)) = ''INV-1''" "line_ledger demo_receipt = AR"
    "sn_amount demo_receipt = 60" "payments demo_bank = []" "processed demo_bank = []"
    by code_simp+
  have rounding: "env_round demo_env = round_half_away" by (simp add: demo_env_def)
  have ref: "item_by_ref (line_ledger demo_receipt) demo_bank ''INV-1'' = Some it"
    by (simp add: l it item_by_ref_def)
  have new: "\<not> event_processed demo_bank
      (payment_event_id (line_ledger demo_receipt) (oi_id it) (''recon:'' @ show_nat (sn_id demo_receipt)))"
    by (simp add: event_processed_def l)
  from bank_line_settles [OF run l(1,2) _ ref demo_bank_wf new, of demo_env] it l show ?thesis
    by (auto simp: run rounding)
qed

section \<open>The bank feed\<close>

lemma referenced_line_fails:
  assumes "l \<in> set ls" "trim_space (nx_external l) \<noteq> ''''"
  shows "\<exists>e t. insert_statement_lines env st n ls s = (Inl e, t) \<and>
     bank_transactions (docs_of t) = bank_transactions (docs_of s) \<and> core_of t = core_of s"
  using assms
proof (induction ls arbitrary: n s)
  case (Cons k ls)
  show ?case
  proof (cases "insert_statement_line env st k s")
    case (Pair r u)
    have keep: "bank_transactions (docs_of u) = bank_transactions (docs_of s)"
      using Pair by (auto simp: insert_statement_line_def bind_def numeric_text_def fail_def ok_def Let_def
          split: if_splits option.splits)
    have core: "core_of u = core_of s" using lateral_core [OF lateral_insert_statement_line Pair] .
    show ?thesis
    proof (cases r)
      case (Inl e)
      with Pair keep core show ?thesis by (simp add: bind_def)
    next
      case (Inr x)
      then have "trim_space (nx_external k) = ''''" using Pair by (auto simp: insert_statement_line_def fail_def split: if_splits)
      with Cons.prems have "l \<in> set ls" by auto
      from Cons.IH [OF this Cons.prems(2), of "n + 1" u] Inr Pair keep core show ?thesis by (auto simp: bind_def)
    qed
  qed
qed simp

text \<open>
  A bank feed with a line that carries an external reference always fails: the statement row and
  the lines before it stay, but no bank transaction appears and the books are untouched.
\<close>

theorem feed_with_reference_fails:
  assumes "l \<in> set ls" "trim_space (nx_external l) \<noteq> ''''"
  shows "\<exists>e t. SyncBankFeed env show_uuid code on_date ls s = (Inl e, t) \<and>
     bank_transactions (docs_of t) = bank_transactions (docs_of s) \<and> core_of t = core_of s"
proof -
  obtain i u where imp: "ImportBankStatement code on_date 0 s = (Inr i, u)"
    "bank_transactions (docs_of u) = bank_transactions (docs_of s)" "core_of u = core_of s"
    by (simp add: ImportBankStatement_def Let_def core_of_def)
  from referenced_line_fails [OF assms, of env i 0 u] obtain e t where
    "insert_statement_lines env i 0 ls u = (Inl e, t)" "bank_transactions (docs_of t) = bank_transactions (docs_of u)"
    "core_of t = core_of u" by blast
  with imp show ?thesis by (auto simp: SyncBankFeed_def InsertStatementLines_def bind_def)
qed

definition demo_feed_line :: statement_line_input where
  "demo_feed_line = \<lparr>nx_date = (2026, 8, 14), nx_desc = ''transfer'', nx_payee = ''C1'', nx_amount = ''60'',
     nx_direction = ''credit'', nx_external = ''TX-1''\<rparr>"

theorem feed_with_reference_fails_witness:
  "\<exists>e t. SyncBankFeed demo_env show_nat ''1000'' (2026, 8, 14) [demo_feed_line] demo_bank = (Inl e, t) \<and>
     bank_transactions (docs_of t) = [] \<and> entries t = []"
proof -
  have ext: "trim_space (nx_external demo_feed_line) \<noteq> ''''" by code_simp
  have start: "bank_transactions (docs_of demo_bank) = []" "entries demo_bank = []" by code_simp+
  from feed_with_reference_fails [OF _ ext, of "[demo_feed_line]" demo_env show_nat "''1000''" "(2026, 8, 14)" demo_bank] start
  show ?thesis by (auto simp: core_of_def)
qed

section \<open>Recurring invoices\<close>

text \<open>
  A period of a recurring invoice is raised by one replica: once a claim has moved the schedule on, a
  replica that still holds the schedule as it was read raises nothing and changes nothing, in whatever
  database the schedules are as the claim left them.
\<close>

theorem recurring_raised_once:
  assumes "ClaimRecurring (ri_id r) (ri_next r) later s = (Inr True, t)" "later \<noteq> ri_next r"
    and "recurring_invoices (docs_of u) = recurring_invoices (docs_of t)"
    and "advanceRun (ri_next r) (ri_cadence r) = later"
  shows "generate_one env show_uuid r u = (Inr (), u)"
proof -
  let ?hit = "\<lambda>x. ri_id x = ri_id r \<and> ri_next x = ri_next r"
  have "recurring_invoices (docs_of u) =
      update_where ?hit (\<lambda>x. x\<lparr>ri_next := later\<rparr>) (recurring_invoices (docs_of s))"
    using assms(1,3) by (auto simp: ClaimRecurring_def Let_def)
  then have none: "\<And>x. x \<in> set (recurring_invoices (docs_of u)) \<Longrightarrow> \<not> ?hit x"
    using assms(2) by (auto simp: update_where_def)
  then have "filter ?hit (recurring_invoices (docs_of u)) = []"
    "update_where ?hit f (recurring_invoices (docs_of u)) = recurring_invoices (docs_of u)" for f
    by (auto simp: filter_empty_conv update_where_def intro!: map_idI)
  then show ?thesis by (simp add: generate_one_def ClaimRecurring_def bind_def ok_def Let_def)
qed

definition demo_schedule :: recurring_invoice where
  "demo_schedule = \<lparr>ri_id = 60, ri_entity = default_entity, ri_customer = ''C1'', ri_currency = ''UGX'', ri_cadence = ''monthly'',
     ri_next = (2026, 1, 31), ri_template = JArray [], ri_notes = '''', ri_active = True, ri_method = '''', ri_periods = 0\<rparr>"

definition demo_recurring :: db where
  "demo_recurring = demo_db\<lparr>docs_of := (docs_of demo_db)\<lparr>recurring_invoices := [demo_schedule]\<rparr>\<rparr>"

definition demo_claimed :: db where
  "demo_claimed = snd (ClaimRecurring 60 (2026, 1, 31) (2026, 3, 3) demo_recurring)"

theorem recurring_raised_once_witness:
  "generate_one demo_env show_nat demo_schedule demo_claimed = (Inr (), demo_claimed)"
proof -
  have claim: "fst (ClaimRecurring 60 (2026, 1, 31) (2026, 3, 3) demo_recurring) = Inr True" by code_simp
  have due: "ri_id demo_schedule = 60" "ri_next demo_schedule = (2026, 1, 31)"
    "advanceRun (2026, 1, 31) (ri_cadence demo_schedule) = (2026, 3, 3)" by code_simp+
  have run: "ClaimRecurring (ri_id demo_schedule) (ri_next demo_schedule) (2026, 3, 3) demo_recurring = (Inr True, demo_claimed)"
    unfolding due demo_claimed_def using claim
    by (cases "ClaimRecurring 60 (2026, 1, 31) (2026, 3, 3) demo_recurring") simp
  show ?thesis by (rule recurring_raised_once [OF run]) (simp_all add: due)
qed

end
