(* ===== verification/Access.thy ===== *)
theory Access
  imports Schema
begin

text \<open>
  Who may call what: principals and permissions (\<open>authz/authz.go\<close>), the gate table of the mutating
  routes (\<open>permissions/gates.go\<close>) and its registration (\<open>api/gated_group.go\<close>, \<open>api/router.go\<close>), and the
  middleware in front of every handler (\<open>middleware/principal.go\<close>, \<open>entity.go\<close>, \<open>rbac.go\<close>). Verifying a
  token and parsing a UUID are parameters; rate limiting and the request log are left out.
\<close>

section \<open>Principals\<close>

record principal =
  pr_superuser :: bool
  pr_staff :: bool
  pr_groups :: "string list"
  pr_permissions :: "string list"

definition IsSuperuser :: "principal \<Rightarrow> bool" where
  "IsSuperuser p \<longleftrightarrow> pr_superuser p \<or> ''superadmin'' \<in> set (pr_groups p)"

definition IsStaff :: "principal \<Rightarrow> bool" where
  "IsStaff p \<longleftrightarrow> IsSuperuser p \<or> pr_staff p \<or> ''admin'' \<in> set (pr_groups p) \<or> ''staff'' \<in> set (pr_groups p)"

definition HasAnyPermission :: "principal \<Rightarrow> string list \<Rightarrow> bool" where
  "HasAnyPermission p required \<longleftrightarrow> IsSuperuser p \<or> list_ex (\<lambda>c. c \<in> set (pr_permissions p)) required"

definition CanAccessAdmin :: "principal \<Rightarrow> bool" where
  "CanAccessAdmin p =
     (if IsSuperuser p then True
      else if \<not> IsStaff p then False
      else ''admin'' \<in> set (pr_groups p) \<or> HasAnyPermission p [''auth.change_user'', ''auth.change_group''])"

section \<open>The gate table\<close>

record route_gate =
  rg_method :: string
  rg_path :: string
  rg_permissions :: "string list"

definition changeLedger :: string where
  "changeLedger = ''finance.change_ledger''"

definition changeOperations :: string where
  "changeOperations = ''finance.change_operations''"

definition ledgerWrite :: "string list" where
  "ledgerWrite = [changeLedger, changeOperations]"

definition opsWrite :: "string list" where
  "opsWrite = [changeOperations, changeLedger]"

definition granular :: "string \<Rightarrow> string list" where
  "granular p = [p, changeLedger]"

definition RouteGates :: "route_gate list" where
  "RouteGates = map (\<lambda>(m, p, ps). \<lparr>rg_method = m, rg_path = p, rg_permissions = ps\<rparr>)
    [(''POST'', ''/integrations/ura-efris/submit'', granular ''finance.submit_efris''),
     (''POST'', ''/pos/receipts'', granular ''finance.ingest_pos''),
     (''POST'', ''/integrations/banking/statements'', granular ''finance.manage_banking''),
     (''POST'', ''/integrations/banking/statements/:id/reconcile/auto'', granular ''finance.manage_banking''),
     (''POST'', ''/integrations/banking/lines/:lineId/match'', granular ''finance.manage_banking''),
     (''POST'', ''/integrations/banking/lines/:lineId/confirm'', granular ''finance.manage_banking''),
     (''POST'', ''/integrations/banking/lines/:lineId/reject'', granular ''finance.manage_banking''),
     (''POST'', ''/integrations/banking/sync'', granular ''finance.manage_banking''),
     (''POST'', ''/payments-clearing/:id/clear'', granular ''finance.manage_banking''),
     (''POST'', ''/chart-of-accounts'', granular ''finance.manage_coa''),
     (''PATCH'', ''/chart-of-accounts/:id'', granular ''finance.manage_coa''),
     (''DELETE'', ''/chart-of-accounts/:id'', granular ''finance.manage_coa''),
     (''POST'', ''/ledger/entries'', granular ''finance.create_journal''),
     (''POST'', ''/ledger/entries/:id/post'', granular ''finance.post_journal''),
     (''POST'', ''/ledger/entries/:id/reverse'', granular ''finance.reverse_journal''),
     (''POST'', ''/ledger/supersede-by-source'', granular ''finance.reverse_journal''),
     (''PUT'', ''/app/global/:namespace/:key'', granular ''finance.manage_settings''),
     (''DELETE'', ''/app/global/:namespace/:key'', granular ''finance.manage_settings''),
     (''PUT'', ''/app/me/:namespace/:key'', granular ''finance.use_app_store''),
     (''DELETE'', ''/app/me/:namespace/:key'', granular ''finance.use_app_store''),
     (''POST'', ''/attachments'', ledgerWrite),
     (''DELETE'', ''/ledger/entries/:id'', granular ''finance.create_journal''),
     (''POST'', ''/ledger/validate-posting'', granular ''finance.create_journal''),
     (''POST'', ''/ledger/periods/:period/close'', granular ''finance.close_period''),
     (''POST'', ''/ledger/periods/:period/reopen'', granular ''finance.close_period''),
     (''POST'', ''/ledger/year-end/:year/close'', granular ''finance.close_period''),
     (''POST'', ''/fixed-assets'', granular ''finance.run_depreciation''),
     (''POST'', ''/intangible-assets'', granular ''finance.run_depreciation''),
     (''POST'', ''/fixed-assets/depreciation/run'', granular ''finance.run_depreciation''),
     (''POST'', ''/fixed-assets/impair'', granular ''finance.run_depreciation''),
     (''POST'', ''/fixed-assets/reverse-impairment'', granular ''finance.run_depreciation''),
     (''POST'', ''/fixed-assets/revalue'', granular ''finance.run_depreciation''),
     (''POST'', ''/approvals'', ledgerWrite), (''POST'', ''/approvals/:id/approve'', ledgerWrite),
     (''POST'', ''/approvals/:id/reject'', ledgerWrite),
     (''POST'', ''/fx/rates'', granular ''finance.manage_fx''),
     (''POST'', ''/fx/revalue'', granular ''finance.manage_fx''),
     (''POST'', ''/fx/conversions'', granular ''finance.manage_fx''),
     (''POST'', ''/tax-codes'', granular ''finance.manage_tax''),
     (''POST'', ''/tax/reverse-charge'', granular ''finance.manage_tax''),
     (''POST'', ''/tax/withholding'', granular ''finance.manage_tax''),
     (''POST'', ''/entities'', granular ''finance.manage_entities''),
     (''PATCH'', ''/entities/:id/ownership'', granular ''finance.manage_entities''),
     (''POST'', ''/budgets'', granular ''finance.manage_budgets''),
     (''POST'', ''/projects'', granular ''finance.manage_dimensions''),
     (''POST'', ''/cost-centers'', granular ''finance.manage_dimensions''),
     (''DELETE'', ''/cost-centers/:id'', granular ''finance.manage_dimensions''),
     (''POST'', ''/customers'', granular ''finance.manage_dimensions''),
     (''POST'', ''/vendors'', granular ''finance.manage_dimensions''),
     (''POST'', ''/billing/invoices'', granular ''finance.issue_invoice''),
     (''POST'', ''/billing/invoices/:id/issue'', granular ''finance.issue_invoice''),
     (''POST'', ''/billing/recurring'', granular ''finance.issue_invoice''),
     (''POST'', ''/billing/time-entries'', granular ''finance.issue_invoice''),
     (''POST'', ''/payments/intents'', granular ''finance.collect_payment''),
     (''POST'', ''/payments/intents/:id/confirm'', granular ''finance.collect_payment''),
     (''POST'', ''/invoices'', granular ''finance.manage_ar''),
     (''PATCH'', ''/invoices/:no'', granular ''finance.manage_ar''),
     (''DELETE'', ''/invoices/:no'', granular ''finance.manage_ar''),
     (''POST'', ''/bills'', granular ''finance.manage_ap''),
     (''PATCH'', ''/bills/:no'', granular ''finance.manage_ap''),
     (''DELETE'', ''/bills/:no'', granular ''finance.manage_ap''),
     (''POST'', ''/ar/items'', granular ''finance.manage_ar''),
     (''POST'', ''/ar/items/:id/payments'', granular ''finance.manage_ar''),
     (''POST'', ''/ar/invoices/:documentRef/email'', granular ''finance.issue_invoice''),
     (''POST'', ''/ar/late-fees'', granular ''finance.manage_ar''),
     (''POST'', ''/ar/credit-notes'', granular ''finance.manage_ar''),
     (''POST'', ''/ar/debit-notes'', granular ''finance.manage_ar''),
     (''POST'', ''/ap/credit-notes'', granular ''finance.manage_ap''),
     (''POST'', ''/ap/debit-notes'', granular ''finance.manage_ap''),
     (''POST'', ''/ap/items'', granular ''finance.manage_ap''),
     (''POST'', ''/ap/items/:id/payments'', granular ''finance.manage_ap''),
     (''POST'', ''/provisions/ecl-run'', granular ''finance.manage_provisions''),
     (''POST'', ''/provisions/write-off'', granular ''finance.manage_provisions''),
     (''POST'', ''/provisions/recover'', granular ''finance.manage_provisions''),
     (''POST'', ''/revenue/schedules'', granular ''finance.manage_revenue''),
     (''POST'', ''/revenue/recognition-run'', granular ''finance.manage_revenue''),
     (''POST'', ''/revenue/obligations/:id/satisfy'', granular ''finance.manage_revenue''),
     (''POST'', ''/revenue/accrue'', granular ''finance.manage_revenue''),
     (''POST'', ''/prepayments'', granular ''finance.manage_prepayments''),
     (''POST'', ''/prepayments/amortization-run'', granular ''finance.manage_prepayments''),
     (''POST'', ''/leases'', granular ''finance.manage_leases''),
     (''POST'', ''/leases/run'', granular ''finance.manage_leases''),
     (''POST'', ''/income-tax/current-run'', granular ''finance.manage_tax''),
     (''POST'', ''/income-tax/deferred'', granular ''finance.manage_tax''),
     (''POST'', ''/provisions/liability/recognize'', granular ''finance.manage_provisions''),
     (''POST'', ''/provisions/liability/unwind'', granular ''finance.manage_provisions''),
     (''POST'', ''/provisions/liability/utilize'', granular ''finance.manage_provisions''),
     (''POST'', ''/provisions/liability/remeasure'', granular ''finance.manage_provisions''),
     (''POST'', ''/provisions/liability/reverse'', granular ''finance.manage_provisions''),
     (''POST'', ''/procurement/match-check'', ledgerWrite),
     (''POST'', ''/procurement/match-exceptions/:id/resolve'', ledgerWrite),
     (''POST'', ''/procurement/match-variance/write-off'', ledgerWrite),
     (''POST'', ''/payroll/runs'', ledgerWrite),
     (''POST'', ''/payroll/leave-provisions'', ledgerWrite),
     (''POST'', ''/payroll/leave-valuations'', ledgerWrite),
     (''POST'', ''/audit/events'', opsWrite), (''POST'', ''/tables/:tableId/rows'', opsWrite)]"

section \<open>Registration\<close>

text \<open>The keys of a Go map: a later gate for the same method and path replaces an earlier one.\<close>

definition newGatedGroup :: "string \<Rightarrow> string list option" where
  "newGatedGroup = map_of (rev (map (\<lambda>g. (rg_method g @ '' '' @ rg_path g, rg_permissions g)) RouteGates))"

text \<open>\<open>gatedGroup.handle\<close>; None is the panic at start-up.\<close>

definition handle :: "string \<times> string \<Rightarrow> string list option" where
  "handle = (\<lambda>(m, p). newGatedGroup (m @ '' '' @ p))"

text \<open>The routes \<open>NewRouter\<close> registers through the gated group, in its order.\<close>

definition gated_routes :: "(string \<times> string) list" where
  "gated_routes =
    [(''POST'', ''/integrations/ura-efris/submit''), (''POST'', ''/pos/receipts''),
     (''POST'', ''/integrations/banking/statements''),
     (''POST'', ''/integrations/banking/statements/:id/reconcile/auto''),
     (''POST'', ''/integrations/banking/lines/:lineId/match''),
     (''POST'', ''/integrations/banking/lines/:lineId/confirm''),
     (''POST'', ''/integrations/banking/lines/:lineId/reject''),
     (''POST'', ''/integrations/banking/sync''), (''POST'', ''/chart-of-accounts''),
     (''PATCH'', ''/chart-of-accounts/:id''), (''DELETE'', ''/chart-of-accounts/:id''),
     (''POST'', ''/ledger/entries''), (''POST'', ''/ledger/entries/:id/post''),
     (''POST'', ''/ledger/entries/:id/reverse''), (''POST'', ''/ledger/supersede-by-source''),
     (''DELETE'', ''/ledger/entries/:id''), (''POST'', ''/ledger/validate-posting''),
     (''POST'', ''/ledger/periods/:period/close''), (''POST'', ''/ledger/periods/:period/reopen''),
     (''POST'', ''/ledger/year-end/:year/close''), (''POST'', ''/fixed-assets''),
     (''POST'', ''/intangible-assets''), (''POST'', ''/fixed-assets/depreciation/run''),
     (''POST'', ''/fixed-assets/impair''), (''POST'', ''/fixed-assets/reverse-impairment''),
     (''POST'', ''/fixed-assets/revalue''), (''POST'', ''/approvals''),
     (''POST'', ''/approvals/:id/approve''), (''POST'', ''/approvals/:id/reject''),
     (''POST'', ''/fx/rates''), (''POST'', ''/fx/revalue''), (''POST'', ''/fx/conversions''),
     (''POST'', ''/tax-codes''), (''POST'', ''/tax/reverse-charge''),
     (''POST'', ''/tax/withholding''), (''POST'', ''/ar/late-fees''),
     (''POST'', ''/billing/time-entries''), (''POST'', ''/entities''),
     (''PATCH'', ''/entities/:id/ownership''), (''POST'', ''/budgets''),
     (''POST'', ''/payments-clearing/:id/clear''), (''POST'', ''/billing/invoices''),
     (''POST'', ''/billing/invoices/:id/issue''), (''POST'', ''/billing/recurring''),
     (''POST'', ''/payments/intents''), (''POST'', ''/payments/intents/:id/confirm''),
     (''POST'', ''/projects''), (''POST'', ''/cost-centers''), (''DELETE'', ''/cost-centers/:id''),
     (''POST'', ''/customers''), (''POST'', ''/vendors''), (''POST'', ''/invoices''),
     (''PATCH'', ''/invoices/:no''), (''DELETE'', ''/invoices/:no''), (''POST'', ''/bills''),
     (''PATCH'', ''/bills/:no''), (''DELETE'', ''/bills/:no''), (''POST'', ''/ar/items''),
     (''POST'', ''/ar/items/:id/payments''), (''POST'', ''/ar/invoices/:documentRef/email''),
     (''POST'', ''/ar/credit-notes''), (''POST'', ''/ar/debit-notes''),
     (''POST'', ''/ap/credit-notes''), (''POST'', ''/ap/debit-notes''),
     (''POST'', ''/provisions/ecl-run''), (''POST'', ''/provisions/write-off''),
     (''POST'', ''/provisions/recover''), (''POST'', ''/revenue/schedules''),
     (''POST'', ''/revenue/recognition-run''), (''POST'', ''/revenue/obligations/:id/satisfy''),
     (''POST'', ''/revenue/accrue''), (''POST'', ''/prepayments''),
     (''POST'', ''/prepayments/amortization-run''), (''POST'', ''/leases''),
     (''POST'', ''/leases/run''), (''POST'', ''/income-tax/current-run''),
     (''POST'', ''/income-tax/deferred''), (''POST'', ''/provisions/liability/recognize''),
     (''POST'', ''/provisions/liability/unwind''), (''POST'', ''/provisions/liability/utilize''),
     (''POST'', ''/provisions/liability/remeasure''), (''POST'', ''/provisions/liability/reverse''),
     (''POST'', ''/procurement/match-check''),
     (''POST'', ''/procurement/match-exceptions/:id/resolve''),
     (''POST'', ''/procurement/match-variance/write-off''), (''POST'', ''/ap/items''),
     (''POST'', ''/ap/items/:id/payments''), (''POST'', ''/payroll/runs''),
     (''POST'', ''/payroll/leave-provisions''), (''POST'', ''/payroll/leave-valuations''),
     (''POST'', ''/audit/events''), (''PUT'', ''/app/global/:namespace/:key''),
     (''DELETE'', ''/app/global/:namespace/:key''), (''PUT'', ''/app/me/:namespace/:key''),
     (''DELETE'', ''/app/me/:namespace/:key''), (''POST'', ''/tables/:tableId/rows'')]"

text \<open>The one mutating route outside the group, with its inline \<open>RequireLedgerWrite\<close>.\<close>

definition inline_routes :: "((string \<times> string) \<times> string list) list" where
  "inline_routes = [((''POST'', ''/attachments''), ledgerWrite)]"

section \<open>Answers\<close>

text \<open>
  What a refused request carries: a fixed text, the text of an error, or the text of a third-party
  parser.
\<close>

datatype message = Says string | ErrorOf err | Unreadable

type_synonym refusal = "nat \<times> message"

section \<open>Callers\<close>

text \<open>The claims of a verified token that the service reads.\<close>

record claims =
  cm_principal :: principal
  cm_email :: string

record request =
  rq_authorization :: string              \<comment> \<open>the headers, empty when absent\<close>
  rq_entity :: string
  rq_key :: string

record caller =
  cl_claims :: "claims option"
  cl_user :: "id option"                  \<comment> \<open>0: the nil UUID of a service principal\<close>
  cl_entity :: "id option"
  cl_key :: string                        \<comment> \<open>\<open>Idempotency-Key\<close>\<close>

definition bearer :: string where
  "bearer = ''Bearer ''"

definition starts_with :: "string \<Rightarrow> string \<Rightarrow> bool" where
  "starts_with p s \<longleftrightarrow> take (length p) s = p"

text \<open>\<open>middleware.Principal\<close>\<close>

definition Principal ::
  "(string \<Rightarrow> (claims \<times> id) option) option \<Rightarrow> string \<Rightarrow> refusal + claims \<times> id" where
  "Principal verifier header =
     (case verifier of
        None \<Rightarrow> Inl (503, Says ''JWT verifier not configured'')
      | Some verify \<Rightarrow>
          if header = '''' \<or> \<not> starts_with bearer header then Inl (401, Says ''missing bearer token'')
          else case verify (drop (length bearer) header) of
                 None \<Rightarrow> Inl (401, Says ''invalid or expired token'')
               | Some x \<Rightarrow> Inr x)"

definition principalFromContext :: "caller \<Rightarrow> principal option" where
  "principalFromContext c = map_option cm_principal (cl_claims c)"

definition requireAnyPermission :: "string list \<Rightarrow> caller \<Rightarrow> refusal option" where
  "requireAnyPermission perms c =
     (case principalFromContext c of
        None \<Rightarrow> Some (401, Says ''authentication required'')
      | Some p \<Rightarrow> if HasAnyPermission p perms then None else Some (403, Says ''permission denied''))"

definition HasPerm :: "caller \<Rightarrow> string \<Rightarrow> bool" where
  "HasPerm c code =
     (case principalFromContext c of None \<Rightarrow> False | Some p \<Rightarrow> HasAnyPermission p [code])"

definition RequireLedgerRead :: "caller \<Rightarrow> refusal option" where
  "RequireLedgerRead = requireAnyPermission [''finance.view_ledger'', ''finance.view_operations'']"

definition RequireLedgerWrite :: "caller \<Rightarrow> refusal option" where
  "RequireLedgerWrite = requireAnyPermission [''finance.change_ledger'', ''finance.change_operations'']"

definition RequirePortalAP :: "caller \<Rightarrow> refusal option" where
  "RequirePortalAP = requireAnyPermission [''finance.view_own_ap'', ''finance.view_own_payment'']"

definition RequireAdmin :: "caller \<Rightarrow> refusal option" where
  "RequireAdmin c =
     (case cl_claims c of
        None \<Rightarrow> Some (401, Says ''authentication required'')
      | Some cm \<Rightarrow> if CanAccessAdmin (cm_principal cm) then None
                  else Some (403, Says ''admin access required''))"

definition EntityContext :: "(string \<Rightarrow> id option) \<Rightarrow> string \<Rightarrow> caller \<Rightarrow> refusal + caller" where
  "EntityContext parse_uuid raw c =
     (if raw = '''' then Inr c
      else case parse_uuid raw of
             None \<Rightarrow> Inl (400, Says ''X-Entity-Id must be a valid UUID'')
           | Some i \<Rightarrow>
               if i \<noteq> default_entity \<and> \<not> HasPerm c ''finance.cross_entity''
               then Inl (403, Says ''not permitted to access this entity'')
               else Inr (c\<lparr>cl_entity := Some i\<rparr>))"

text \<open>\<open>chainActor\<close> of \<open>handlers/context.go\<close>: who the audit chain names.\<close>

definition chainActor :: "(id \<Rightarrow> string) \<Rightarrow> caller \<Rightarrow> string" where
  "chainActor show_uuid c =
     (let email = (case cl_claims c of None \<Rightarrow> '''' | Some cm \<Rightarrow> cm_email cm) in
      if email \<noteq> '''' then email
      else case cl_user c of Some i \<Rightarrow> show_uuid i | None \<Rightarrow> ''anonymous'')"

text \<open>\<open>portalUserID\<close> of \<open>handlers/portal.go\<close>: a person, not a service principal.\<close>

definition portalUserID :: "caller \<Rightarrow> id option" where
  "portalUserID c = (case cl_user c of None \<Rightarrow> None | Some i \<Rightarrow> if i = 0 then None else Some i)"

section \<open>The chain of middleware\<close>

text \<open>
  What stands before the handler of a gated route: the token, the working entity, the gate. A route
  without a gate is not served: registering it panics.
\<close>

definition admit ::
  "(string \<Rightarrow> (claims \<times> id) option) option \<Rightarrow> (string \<Rightarrow> id option) \<Rightarrow> string \<times> string \<Rightarrow> request \<Rightarrow>
   refusal + caller" where
  "admit verifier parse_uuid route rq =
     (case handle route of
        None \<Rightarrow> Inl (404, Unreadable)
      | Some perms \<Rightarrow>
          case Principal verifier (rq_authorization rq) of
            Inl e \<Rightarrow> Inl e
          | Inr (cm, user) \<Rightarrow>
              case EntityContext parse_uuid (rq_entity rq)
                     \<lparr>cl_claims = Some cm, cl_user = Some user, cl_entity = None, cl_key = rq_key rq\<rparr> of
                Inl e \<Rightarrow> Inl e
              | Inr c \<Rightarrow> (case requireAnyPermission perms c of None \<Rightarrow> Inr c | Some e \<Rightarrow> Inl e))"

section \<open>Facts\<close>

lemma HasAnyPermission_iff:
  "HasAnyPermission p ps \<longleftrightarrow> IsSuperuser p \<or> set ps \<inter> set (pr_permissions p) \<noteq> {}"
  by (auto simp: HasAnyPermission_def list_ex_iff)

lemma admin_is_staff: "CanAccessAdmin p \<Longrightarrow> IsStaff p"
  by (auto simp: CanAccessAdmin_def IsStaff_def split: if_splits)

lemma EntityContext_claims: "EntityContext pu raw c = Inr c' \<Longrightarrow> cl_claims c' = cl_claims c"
  by (auto simp: EntityContext_def split: if_splits option.splits)

lemma EntityContext_entity:
  "EntityContext pu raw c = Inr c' \<Longrightarrow> cl_entity c = None \<Longrightarrow> cl_entity c' = Some i \<Longrightarrow>
   i = default_entity \<or> HasPerm c ''finance.cross_entity''"
  by (auto simp: EntityContext_def split: if_splits option.splits)

text \<open>Who gets through holds a permission of the gate, or is a superuser.\<close>

lemma admit_caller:
  assumes "admit v pu route rq = Inr c"
  obtains perms cm where "handle route = Some perms" "cl_claims c = Some cm" "HasAnyPermission (cm_principal cm) perms"
    "cl_entity c = None \<or> cl_entity c = Some default_entity \<or> HasPerm c ''finance.cross_entity''"
  using assms
  by (fastforce simp: admit_def requireAnyPermission_def principalFromContext_def HasPerm_def
      dest: EntityContext_claims EntityContext_entity split: option.splits sum.splits if_splits)

end
