(* ===== verification/Ledger_Api.thy ===== *)
theory Ledger_Api
  imports Access Service
begin

text \<open>
  The HTTP handlers of the general ledger, the open items, payments, approvals, adjustments and the
  year end (\<open>handlers/ledger_api.go\<close>, \<open>payments.go\<close>, \<open>approvals.go\<close>, \<open>adjustments_api.go\<close>, \<open>yearend.go\<close>,
  \<open>billing.go\<close>): decoding and checking the request, the call of the service, and the status its error is
  mapped to. The body arrives decoded (None: not JSON of the expected shape); what \<open>binding:"required"\<close>
  asks for is a predicate on it. The best-effort business log and the e-mails are left out.
\<close>

section \<open>Requests and answers\<close>

type_synonym 'a endpoint = "(db, refusal, nat \<times> 'a) act"

record api =
  api_env :: env
  api_approval :: bool                     \<comment> \<open>\<open>Cfg.RequireApproval\<close>\<close>
  api_bus :: "string option"               \<comment> \<open>\<open>a.Events\<close>: its finance topic\<close>
  api_publishing :: bool                   \<comment> \<open>\<open>Bus.Enabled\<close>\<close>
  api_uuid :: "string \<Rightarrow> id option"        \<comment> \<open>\<open>uuid.Parse\<close>\<close>
  api_show_uuid :: "id \<Rightarrow> string"
  api_billing :: "(string \<Rightarrow> string \<Rightarrow> string + string) option"  \<comment> \<open>the users service: organisation and identity to an error or a reference\<close>

definition env_for :: "api \<Rightarrow> caller \<Rightarrow> env" where
  "env_for a c = (api_env a)\<lparr>env_entity := (case cl_entity c of None \<Rightarrow> default_entity | Some i \<Rightarrow> i)\<rparr>"

definition actor_of :: "api \<Rightarrow> caller \<Rightarrow> string" where
  "actor_of a = chainActor (api_show_uuid a)"

definition answer :: "(err \<Rightarrow> refusal) \<Rightarrow> 'a action \<Rightarrow> (db, refusal, 'a) act" where
  "answer f m = (\<lambda>s. case m s of (Inl e, t) \<Rightarrow> (Inl (f e), t) | (Inr x, t) \<Rightarrow> (Inr x, t))"

definition says :: "nat \<Rightarrow> string \<Rightarrow> err \<Rightarrow> refusal" where
  "says status msg = (\<lambda>_. (status, Says msg))"

definition body_of :: "('b \<Rightarrow> bool) \<Rightarrow> 'b option \<Rightarrow> (db, refusal, 'b) act" where
  "body_of bound body =
     (case body of None \<Rightarrow> fail (400, Unreadable)
      | Some b \<Rightarrow> if bound b then ok b else fail (400, Unreadable))"

definition uuid_of :: "api \<Rightarrow> string \<Rightarrow> string \<Rightarrow> (db, refusal, id) act" where
  "uuid_of a raw msg = (case api_uuid a raw of None \<Rightarrow> fail (400, Says msg) | Some i \<Rightarrow> ok i)"

definition optional_uuid :: "api \<Rightarrow> string \<Rightarrow> string \<Rightarrow> (db, refusal, id option) act" where
  "optional_uuid a raw msg =
     (if raw = '''' then ok None else bind (uuid_of a raw msg) (\<lambda>i. ok (Some i)))"

definition optional_date :: "string \<Rightarrow> string \<Rightarrow> (db, refusal, date option) act" where
  "optional_date raw msg =
     (if raw = '''' then ok None
      else case parse_date raw of None \<Rightarrow> fail (400, Says msg) | Some d \<Rightarrow> ok (Some d))"

definition or_shillings :: "string \<Rightarrow> string" where
  "or_shillings c = (if c = '''' then ''UGX'' else c)"

section \<open>The chart of accounts\<close>

record create_account_request =
  ca_code :: string
  ca_name :: string
  ca_type :: string
  ca_currency :: string
  ca_parent :: string

definition account_bound :: "create_account_request \<Rightarrow> bool" where
  "account_bound r \<longleftrightarrow> ca_code r \<noteq> '''' \<and> ca_name r \<noteq> '''' \<and>
     ca_type r \<in> {''asset'', ''liability'', ''equity'', ''revenue'', ''expense''}"

definition api_CreateChartAccount :: "api \<Rightarrow> create_account_request option \<Rightarrow> account endpoint" where
  "api_CreateChartAccount a body =
     bind (body_of account_bound body) (\<lambda>r.
     bind (optional_uuid a (ca_parent r) ''invalid parentId'') (\<lambda>parent.
     bind (answer (says 409 ''could not create account'')
       (CreateChartAccount (ca_code r) (ca_name r) (ca_type r) (or_shillings (ca_currency r)) parent)) (\<lambda>acct.
     ok (201, acct))))"

definition validAccountTypes :: "string set" where
  "validAccountTypes = {''asset'', ''liability'', ''equity'', ''revenue'', ''expense''}"

record update_account_request =
  ua_name :: "string option"
  ua_type :: "string option"
  ua_currency :: "string option"
  ua_parent :: "string option"
  ua_active :: "bool option"
  ua_restrict :: "bool option"

definition update_parent :: "api \<Rightarrow> id \<Rightarrow> update_account_request \<Rightarrow> (db, refusal, id option) act" where
  "update_parent a i r =
     (case ua_parent r of
        None \<Rightarrow> ok None
      | Some raw \<Rightarrow>
          bind (optional_uuid a raw ''invalid parentId'') (\<lambda>parent.
          if parent = Some i then fail (400, Says ''an account cannot be its own parent'') else ok parent))"

definition api_UpdateChartAccount :: "api \<Rightarrow> string \<Rightarrow> update_account_request option \<Rightarrow> account endpoint" where
  "api_UpdateChartAccount a raw body =
     bind (uuid_of a raw ''invalid account id'') (\<lambda>i.
     bind (body_of (\<lambda>_. True) body) (\<lambda>r.
     bind (require (case ua_type r of None \<Rightarrow> True | Some t \<Rightarrow> t \<in> validAccountTypes)
       (400, Says ''accountType must be one of asset, liability, equity, revenue, expense'')) (\<lambda>_.
     bind (update_parent a i r) (\<lambda>parent.
     bind (answer (says 409 ''could not update account'')
       (UpdateChartAccount i (if ua_name r = Some '''' then None else ua_name r) (ua_type r) (ua_currency r)
          parent (ua_active r) (ua_restrict r))) (\<lambda>acct.
     case acct of None \<Rightarrow> fail (404, Says ''account not found'') | Some x \<Rightarrow> ok (200, x))))))"

definition api_DeleteChartAccount :: "api \<Rightarrow> string \<Rightarrow> unit endpoint" where
  "api_DeleteChartAccount a raw =
     bind (uuid_of a raw ''invalid account id'') (\<lambda>i.
     bind (answer (says 500 ''could not deactivate account'') (DeactivateChartAccount i)) (\<lambda>deactivated.
     if deactivated then ok (204, ()) else fail (404, Says ''account not found'')))"

section \<open>Approvals in front of a posting\<close>

definition ApprovalGuard :: "api \<Rightarrow> rat \<Rightarrow> (db, refusal, unit) act" where
  "ApprovalGuard a amount =
     (if \<not> api_approval a then ok ()
      else bind (answer (says 500 ''approval check failed'') (ApprovalRequired amount)) (\<lambda>required.
        if required then fail (409, Says ''amount requires tiered approval; submit via POST /v1/approvals'')
        else ok ()))"

section \<open>Journal entries\<close>

record journal_line_request =
  jr_account :: string
  jr_debit :: string
  jr_credit :: string
  jr_memo :: string
  jr_cost_center :: string
  jr_project :: string

record create_journal_request =
  cj_description :: string
  cj_lines :: "journal_line_request list"
  cj_counterparty :: string
  cj_date :: string
  cj_document :: string
  cj_source :: string

definition journal_bound :: "create_journal_request \<Rightarrow> bool" where
  "journal_bound r \<longleftrightarrow> cj_description r \<noteq> '''' \<and> 2 \<le> length (cj_lines r)"

definition amount_of :: "api \<Rightarrow> string \<Rightarrow> (db, refusal, rat) act" where
  "amount_of a raw =
     (if raw = '''' then ok 0
      else case env_parse (api_env a) raw of None \<Rightarrow> fail (400, Unreadable) | Some x \<Rightarrow> ok x)"

definition dimension_of :: "api \<Rightarrow> string \<Rightarrow> (db, refusal, id option) act" where
  "dimension_of a raw =
     (if raw = '''' then ok None
      else case api_uuid a raw of None \<Rightarrow> fail (400, Unreadable) | Some i \<Rightarrow> ok (Some i))"

definition parseLine :: "api \<Rightarrow> journal_line_request \<Rightarrow> (db, refusal, line_input) act" where
  "parseLine a l =
     bind (amount_of a (jr_debit l)) (\<lambda>debit.
     bind (amount_of a (jr_credit l)) (\<lambda>credit.
     bind (dimension_of a (jr_cost_center l)) (\<lambda>cc.
     bind (dimension_of a (jr_project l)) (\<lambda>pr.
     ok \<lparr>li_code = jr_account l, li_debit = debit, li_credit = credit, li_memo = jr_memo l,
         li_cost_center = cc, li_project = pr\<rparr>))))"

definition parseLines :: "api \<Rightarrow> journal_line_request list \<Rightarrow> (db, refusal, line_input list) act" where
  "parseLines a ls = map_each ls (parseLine a)"

definition optionalTrimmed :: "string \<Rightarrow> string option" where
  "optionalTrimmed x = (let t = trim_space x in if t = '''' then None else Some t)"

definition create_journal_refusal :: "err \<Rightarrow> refusal" where
  "create_journal_refusal e = (if e = ErrUnbalancedEntry \<or> e = ErrEmptyEntry then 422 else 400, ErrorOf e)"

definition api_CreateJournalEntry :: "api \<Rightarrow> caller \<Rightarrow> create_journal_request option \<Rightarrow> journal endpoint" where
  "api_CreateJournalEntry a c body =
     bind (body_of journal_bound body) (\<lambda>r.
     bind (parseLines a (cj_lines r)) (\<lambda>ls.
     bind (optional_uuid a (trim_space (cj_counterparty r)) ''counterpartyEntityId must be a UUID'') (\<lambda>cp.
     bind (optional_date (trim_space (cj_date r)) ''accountingDate must be YYYY-MM-DD'') (\<lambda>d.
     bind (answer create_journal_refusal (CreateJournalEntry (env_for a c)
       \<lparr>ce_desc = cj_description r, ce_lines = ls, ce_source_event = None,
        ce_source_service = optionalTrimmed (cj_source r), ce_correlation = optionalTrimmed (cj_document r),
        ce_created_by = cl_user c, ce_acc_date = d, ce_counterparty = cp\<rparr>)) (\<lambda>entry.
     ok (201, entry))))))"

definition entry_total :: "journal \<Rightarrow> rat" where
  "entry_total j = sum_list (map (l_debit \<circ> jl_line) (j_lines j))"

definition post_guard :: "api \<Rightarrow> id \<Rightarrow> (db, refusal, unit) act" where
  "post_guard a i =
     (if \<not> api_approval a then ok ()
      else bind (gets (\<lambda>s. fst (GetJournalEntry i s))) (\<lambda>draft.
        case draft of Inr (Some j) \<Rightarrow> ApprovalGuard a (entry_total j) | _ \<Rightarrow> ok ()))"

definition post_refusal :: "err \<Rightarrow> refusal" where
  "post_refusal e =
     (if e = ErrInvalidStatus \<or> e = ErrUnbalancedEntry \<or> e = ErrPeriodClosed then 422 else 400, ErrorOf e)"

definition api_PostJournalEntry :: "api \<Rightarrow> caller \<Rightarrow> string \<Rightarrow> journal option endpoint" where
  "api_PostJournalEntry a c raw =
     bind (uuid_of a raw ''invalid id'') (\<lambda>i.
     bind (post_guard a i) (\<lambda>_.
     bind (answer post_refusal (PostJournalEntry (env_for a c) i (actor_of a c))) (\<lambda>entry.
     ok (200, entry))))"

record supersede_request =
  sq_document :: string
  sq_source :: string
  sq_reason :: string

definition api_SupersedeEntries :: "api \<Rightarrow> caller \<Rightarrow> supersede_request option \<Rightarrow> supersede_result endpoint" where
  "api_SupersedeEntries a c body =
     bind (body_of (\<lambda>r. sq_document r \<noteq> '''') body) (\<lambda>r.
     let docRef = trim_space (sq_document r);
         source = trim_space (sq_source r);
         reason = (if trim_space (sq_reason r) = '''' then ''superseded by a later version of '' @ docRef
                   else trim_space (sq_reason r)) in
     bind (require (source \<noteq> '''')
       (400, Says (''sourceService is required '' @ em_dash @ '' it scopes the supersede to one system's postings''))) (\<lambda>_.
     bind (answer (says 500 (''could not supersede entries for '' @ docRef))
       (SupersedeEntriesBySource (env_for a c) source docRef reason (actor_of a c))) (\<lambda>out.
     ok (200, out))))"

definition api_DeleteJournalEntry :: "api \<Rightarrow> string \<Rightarrow> unit endpoint" where
  "api_DeleteJournalEntry a raw =
     bind (uuid_of a raw ''invalid id'') (\<lambda>i.
     bind (answer (\<lambda>e. if e = ErrEntryNotFound then (404, Says ''journal entry not found'')
             else if e = ErrNotDraft then (409, Says (''only a draft entry can be deleted '' @ em_dash @ '' reverse a posted entry instead''))
             else (500, Says ''could not delete entry'')) (DeleteDraftEntry i)) (\<lambda>_.
     ok (204, ())))"

definition reverse_refusal :: "err \<Rightarrow> refusal" where
  "reverse_refusal e =
     (if e = ErrEntryNotFound then (404, Says ''journal entry not found'')
      else if e = ErrNotReversible then (422, Says ''only a posted entry can be reversed'')
      else (500, Says ''could not reverse entry''))"

text \<open>The binding error of the body is discarded: without one the reason is empty.\<close>

definition api_ReverseJournalEntry :: "api \<Rightarrow> caller \<Rightarrow> string \<Rightarrow> string option \<Rightarrow> journal option endpoint" where
  "api_ReverseJournalEntry a c raw reason =
     bind (uuid_of a raw ''invalid id'') (\<lambda>i.
     bind (answer reverse_refusal
       (ReverseJournalEntry (env_for a c) i (case reason of None \<Rightarrow> '''' | Some r \<Rightarrow> r) (actor_of a c))) (\<lambda>rev.
     ok (201, rev)))"

section \<open>Fiscal periods\<close>

definition period_refusal :: "err \<Rightarrow> refusal" where
  "period_refusal e =
     (if e = ErrPeriodHasDrafts then (422, Says ''period has draft entries; post or delete them before closing'')
      else (500, Says ''could not update period''))"

definition setPeriodStatus :: "api \<Rightarrow> caller \<Rightarrow> string \<Rightarrow> bool \<Rightarrow> (string \<times> string) endpoint" where
  "setPeriodStatus a c period close =
     bind (require (period_matches period) (400, Says ''period must be in YYYY-MM format'')) (\<lambda>_.
     bind (answer period_refusal
       (if close then ClosePeriod (env_for a c) period (cl_user c)
        else ReopenPeriod (env_for a c) period (cl_user c))) (\<lambda>_.
     ok (200, (period, if close then ''closed'' else ''open''))))"

section \<open>Open items\<close>

record open_item_request =
  oq_org :: string
  oq_billing :: string
  oq_customer :: string
  oq_vendor :: string
  oq_document :: string
  oq_description :: string
  oq_amount :: string
  oq_currency :: string
  oq_due :: string

definition open_item_bound :: "open_item_request \<Rightarrow> bool" where
  "open_item_bound r \<longleftrightarrow> oq_document r \<noteq> '''' \<and> oq_amount r \<noteq> ''''"

text \<open>
  \<open>resolveBillingCustomerRef\<close>: the reference given, or the one the users service derives from a billing
  identity, which must agree with the one given.
\<close>

definition resolveBillingCustomerRef :: "api \<Rightarrow> string \<Rightarrow> string \<Rightarrow> string \<Rightarrow> refusal + string \<times> (id \<times> id) option" where
  "resolveBillingCustomerRef a org billing customer =
     (let orgID = trim_space org; billingID = trim_space billing; explicit = trim_space customer;
          refuse = (\<lambda>msg. Inl (400, Says msg)) in
      if billingID \<noteq> '''' \<and> orgID = '''' then refuse ''orgId is required when billingIdentityId is set''
      else if billingID = '''' \<and> explicit = ''''
      then refuse ''customerRef or (orgId + billingIdentityId) is required''
      else if billingID = '''' then Inr (explicit, None)
      else case api_billing a of
        None \<Rightarrow> refuse ''billing identity resolution requires USERS_API_URL and SERVICE_CLIENT_SECRET''
      | Some users \<Rightarrow>
          (case users orgID billingID of
             Inl msg \<Rightarrow> refuse msg
           | Inr resolved \<Rightarrow>
               if resolved = '''' then refuse ''billing identity has no legalName or financeCustomerRef''
               else if explicit \<noteq> '''' \<and> \<not> equal_fold explicit resolved
               then refuse ''customerRef does not match billing identity financeCustomerRef''
               else case api_uuid a orgID of
                      None \<Rightarrow> refuse ''invalid orgId''
                    | Some o' \<Rightarrow> (case api_uuid a billingID of
                        None \<Rightarrow> refuse ''invalid billingIdentityId''
                      | Some b' \<Rightarrow> Inr (resolved, Some (o', b')))))"

definition announcement ::
  "api \<Rightarrow> string \<Rightarrow> string \<Rightarrow> string \<Rightarrow> (string \<times> string) \<Rightarrow> string \<Rightarrow> outbox_event option" where
  "announcement a ty ref amount party currency =
     (case api_bus a of None \<Rightarrow> None
      | Some topic \<Rightarrow>
          if \<not> api_publishing a \<or> ref = '''' \<or> amount = '''' then None
          else Some \<lparr>oe_topic = topic, oe_key = ref, oe_event_id = ty @ '':'' @ ref, oe_event_type = ty,
                     oe_payload = [(''amount'', JString amount), (''currency'', JString currency),
                                   (fst party, JString (snd party)), (''documentRef'', JString ref)]\<rparr>)"

definition saleCompletedOutbox :: "api \<Rightarrow> string \<Rightarrow> string \<Rightarrow> string \<Rightarrow> string \<Rightarrow> outbox_event option" where
  "saleCompletedOutbox a ref customer amount currency =
     announcement a ''sale.completed'' ref amount (''customerRef'', customer) currency"

definition api_invoicePostedOutbox :: "api \<Rightarrow> string \<Rightarrow> string \<Rightarrow> string \<Rightarrow> string \<Rightarrow> outbox_event option" where
  "api_invoicePostedOutbox a ref vendor amount currency =
     announcement a ''invoice.posted'' ref amount (''vendorRef'', vendor) currency"

text \<open>\<open>ledger.CreateARItem\<close>; the columns of the billing identity are not modelled.\<close>

definition CreateARItem ::
  "env \<Rightarrow> string \<Rightarrow> string \<Rightarrow> string \<Rightarrow> string \<Rightarrow> string \<Rightarrow> date option \<Rightarrow> outbox_event option \<Rightarrow> open_item action" where
  "CreateARItem env customer ref desc amount currency due ob =
     bind (numeric_text env (trim_space amount)) (\<lambda>x.
     CreateAROpenItem env customer ref desc x currency due None None ob)"

definition api_CreateARItem :: "api \<Rightarrow> caller \<Rightarrow> open_item_request option \<Rightarrow> open_item endpoint" where
  "api_CreateARItem a c body =
     bind (body_of open_item_bound body) (\<lambda>r.
     case resolveBillingCustomerRef a (oq_org r) (oq_billing r) (oq_customer r) of
       Inl e \<Rightarrow> fail e
     | Inr (customer, _) \<Rightarrow>
         let currency = or_shillings (oq_currency r) in
         bind (optional_date (oq_due r) ''invalid dueDate'') (\<lambda>due.
         bind (answer (says 409 ''could not create AR item'')
           (CreateARItem (env_for a c) customer (oq_document r) (oq_description r) (oq_amount r) currency due
              (saleCompletedOutbox a (oq_document r) customer (oq_amount r) currency))) (\<lambda>item.
         ok (201, item))))"

definition api_CreateAPItem :: "api \<Rightarrow> caller \<Rightarrow> open_item_request option \<Rightarrow> open_item endpoint" where
  "api_CreateAPItem a c body =
     bind (body_of open_item_bound body) (\<lambda>r.
     let currency = or_shillings (oq_currency r) in
     bind (optional_date (oq_due r) ''invalid dueDate'') (\<lambda>due.
     bind (answer (says 409 ''could not create AP item'')
       (CreateAPItem (env_for a c) (oq_vendor r) (oq_document r) (oq_description r) (oq_amount r) currency due
          (api_invoicePostedOutbox a (oq_document r) (oq_vendor r) (oq_amount r) currency))) (\<lambda>item.
     ok (201, item))))"

section \<open>Payments\<close>

record payment_request =
  pq_amount :: string
  pq_currency :: string
  pq_ref :: string

definition mapPaymentErr :: "err \<Rightarrow> refusal" where
  "mapPaymentErr e =
     (if e = ErrOpenItemNotFound then (404, Says ''open item not found'')
      else if e = ErrPaymentExceeds then (422, Says ''payment exceeds open balance'')
      else if e = ErrCurrencyMismatch then (422, Says ''payment currency must match the open item currency'')
      else (500, Says ''could not apply payment''))"

definition paymentMadeOutbox ::
  "api \<Rightarrow> direction \<Rightarrow> id \<Rightarrow> rat \<Rightarrow> string \<Rightarrow> string \<Rightarrow> outbox_event option" where
  "paymentMadeOutbox a d i amount currency ref =
     (case api_bus a of None \<Rightarrow> None
      | Some topic \<Rightarrow>
          let item = api_show_uuid a i in
          Some \<lparr>oe_topic = topic, oe_key = item,
                oe_event_id = ''finance.payment.made:'' @ direction_name d @ '':'' @ item @ '':'' @ ref,
                oe_event_type = ''finance.payment.made'',
                oe_payload =
                  [(''direction'', JString (direction_name d)), (''openItemId'', JString item),
                   (''amount'', JString (env_show (api_env a) amount)),
                   (''currency'', JString (if currency = '''' then env_base (api_env a) else currency)),
                   (''paymentRef'', JString ref)]\<rparr>)"

definition payment_amount :: "api \<Rightarrow> string \<Rightarrow> (db, refusal, rat) act" where
  "payment_amount a raw =
     (case ParsePaymentAmount (api_env a) raw of Inl e \<Rightarrow> fail (400, ErrorOf e) | Inr x \<Rightarrow> ok x)"

definition applyPayment ::
  "api \<Rightarrow> caller \<Rightarrow> direction \<Rightarrow> string \<Rightarrow> payment_request option \<Rightarrow> (payment \<times> open_item option) endpoint" where
  "applyPayment a c d raw body =
     bind (uuid_of a raw ''invalid id'') (\<lambda>i.
     bind (body_of (\<lambda>r. pq_amount r \<noteq> '''') body) (\<lambda>r.
     bind (payment_amount a (pq_amount r)) (\<lambda>amount.
     bind (ApprovalGuard a amount) (\<lambda>_.
     let ref = (if pq_ref r = '''' then cl_key c else pq_ref r) in
     bind (require (ref \<noteq> '''') (400, Says ''an Idempotency-Key header or paymentRef is required'')) (\<lambda>_.
     bind (answer mapPaymentErr
       ((case d of AR \<Rightarrow> ApplyARPayment | AP \<Rightarrow> ApplyAPPayment) (env_for a c) i amount (pq_currency r) ref
          (actor_of a c) (paymentMadeOutbox a d i amount (pq_currency r) ref))) (\<lambda>out.
     ok (201, out)))))))"

section \<open>Approvals\<close>

record submit_request =
  sb_target :: string
  sb_entry :: string
  sb_direction :: string
  sb_item :: string
  sb_amount :: string
  sb_currency :: string
  sb_ref :: string

definition respondSubmit :: "(approval option \<times> bool) action \<Rightarrow> approval option endpoint" where
  "respondSubmit m =
     bind (answer (says 500 ''could not submit approval'') m) (\<lambda>(ap, required).
     if required then ok (201, ap) else ok (200, None))"

definition submit_journal :: "api \<Rightarrow> caller \<Rightarrow> submit_request \<Rightarrow> approval option endpoint" where
  "submit_journal a c r =
     bind (uuid_of a (trim_space (sb_entry r)) ''entryId must be a uuid'') (\<lambda>i.
     bind (answer (says 500 ''could not load entry'') (GetJournalEntry i)) (\<lambda>entry.
     case entry of
       None \<Rightarrow> fail (404, Says ''journal entry not found'')
     | Some j \<Rightarrow>
         respondSubmit (SubmitForApproval (env_for a c) ''journal'' (entry_total j) ''''
           [(''entryId'', api_show_uuid a i)] (actor_of a c) (e_desc (j_entry j)))))"

definition positive_amount :: "api \<Rightarrow> string \<Rightarrow> string \<Rightarrow> (db, refusal, rat) act" where
  "positive_amount a raw msg =
     (case env_parse (api_env a) raw of
        None \<Rightarrow> fail (400, Says msg) | Some x \<Rightarrow> if x \<le> 0 then fail (400, Says msg) else ok x)"

definition submit_payment :: "api \<Rightarrow> caller \<Rightarrow> submit_request \<Rightarrow> approval option endpoint" where
  "submit_payment a c r =
     (let dir = to_lower (trim_space (sb_direction r)) in
      bind (require (dir = ''ar'' \<or> dir = ''ap'') (400, Says ''direction must be ar or ap'')) (\<lambda>_.
      bind (uuid_of a (trim_space (sb_item r)) ''openItemId must be a uuid'') (\<lambda>i.
      bind (positive_amount a (trim_space (sb_amount r)) ''amount must be a positive decimal'') (\<lambda>amount.
      respondSubmit (SubmitForApproval (env_for a c) ''payment'' amount (trim_space (sb_currency r))
        [(''direction'', dir), (''openItemId'', api_show_uuid a i), (''paymentRef'', trim_space (sb_ref r))]
        (actor_of a c) (dir @ '' payment '' @ trim_space (sb_ref r)))))))"

definition api_SubmitApproval :: "api \<Rightarrow> caller \<Rightarrow> submit_request option \<Rightarrow> approval option endpoint" where
  "api_SubmitApproval a c body =
     bind (case body of None \<Rightarrow> fail (400, Says ''invalid request body'') | Some r \<Rightarrow> ok r) (\<lambda>r.
     if sb_target r = ''journal'' then submit_journal a c r
     else if sb_target r = ''payment'' then submit_payment a c r
     else fail (400, Says ''targetType must be journal or payment''))"

definition decision_refusal :: "err \<Rightarrow> refusal" where
  "decision_refusal e =
     (if e = ErrApprovalNotFound then (404, Says ''approval not found'')
      else if e = ErrApprovalForbidden then (403, ErrorOf e)
      else if e = ErrApprovalConflict then (409, ErrorOf e)
      else if e = ErrPeriodClosed then (422, Says ''accounting period is closed'')
      else (500, ErrorOf e))"

definition decideApproval ::
  "api \<Rightarrow> caller \<Rightarrow> bool \<Rightarrow> string \<Rightarrow> string option \<Rightarrow> (approval \<times> approval_progress) endpoint" where
  "decideApproval a c approve raw note =
     bind (uuid_of a raw ''invalid approval id'') (\<lambda>i.
     let remark = trim_space (case note of None \<Rightarrow> '''' | Some n \<Rightarrow> n) in
     bind (answer decision_refusal
       (if approve then ApproveApproval (env_for a c) (api_uuid a) i (actor_of a c) (HasPerm c) remark
        else RejectApproval i (actor_of a c) (HasPerm c) remark)) (\<lambda>out.
     ok (200, out)))"

section \<open>Adjustments and the year end\<close>

record adjustment_request =
  aq_original :: string
  aq_document :: string
  aq_amount :: string
  aq_currency :: string
  aq_reason :: string

definition adjustment_bound :: "adjustment_request \<Rightarrow> bool" where
  "adjustment_bound r \<longleftrightarrow> aq_original r \<noteq> '''' \<and> aq_amount r \<noteq> ''''"

definition adjustment_refusal :: "err \<Rightarrow> refusal" where
  "adjustment_refusal e =
     (if e = ErrInvalidAdjustment then 400
      else if e = ErrAdjustmentTooLarge \<or> e = ErrPeriodClosed then 422
      else if e = ErrOriginalNotFound then 404 else 409, ErrorOf e)"

definition createAdjustment ::
  "api \<Rightarrow> caller \<Rightarrow> string \<Rightarrow> string \<Rightarrow> adjustment_request option \<Rightarrow> adjustment endpoint" where
  "createAdjustment a c dir kind body =
     bind (body_of adjustment_bound body) (\<lambda>r.
     bind (positive_amount a (aq_amount r) ''invalid amount'') (\<lambda>amount.
     bind (answer adjustment_refusal (CreateAdjustment (env_for a c)
       \<lparr>ai_kind = kind, ai_direction = dir, ai_original = aq_original r, ai_document = aq_document r,
        ai_reason = aq_reason r, ai_amount = amount, ai_currency = or_shillings (aq_currency r)\<rparr>
       (actor_of a c))) (\<lambda>adj.
     ok (201, adj))))"

definition year_refusal :: "err \<Rightarrow> refusal" where
  "year_refusal e =
     (if e = ErrYearHasDrafts \<or> e = ErrNothingToClose then (422, ErrorOf e)
      else (500, Says ''could not close fiscal year''))"

text \<open>\<open>year\<close>: the result of \<open>strconv.Atoi\<close>.\<close>

definition api_CloseFiscalYear :: "api \<Rightarrow> caller \<Rightarrow> int option \<Rightarrow> (int \<times> journal option) endpoint" where
  "api_CloseFiscalYear a c year =
     (case year of
        None \<Rightarrow> fail (400, Says ''year must be a four-digit calendar year'')
      | Some y \<Rightarrow>
          bind (require (2000 \<le> y \<and> y \<le> 9999) (400, Says ''year must be a four-digit calendar year'')) (\<lambda>_.
          bind (answer year_refusal (CloseFiscalYear (env_for a c) y (actor_of a c) (cl_user c))) (\<lambda>entry.
          ok (200, (y, entry)))))"

end
