(* ===== verification/Subledger_Api.thy ===== *)
theory Subledger_Api
  imports Ledger_Api
begin

text \<open>
  The HTTP handlers of the subledgers: exchange rates and tax, provisions, revenue, leases, prepayments,
  income tax, payroll and fixed assets (the files of \<open>handlers/\<close> of these names). Each checks its
  request, calls one service operation and maps the errors to a status.
\<close>

section \<open>Checks the handlers share\<close>

definition to_upper :: "string \<Rightarrow> string" where
  "to_upper = map upper_char"

definition amount_where :: "api \<Rightarrow> (rat \<Rightarrow> bool) \<Rightarrow> string \<Rightarrow> string \<Rightarrow> (db, refusal, rat) act" where
  "amount_where a P msg raw =
     (case env_parse (api_env a) raw of
        None \<Rightarrow> fail (400, Says msg) | Some x \<Rightarrow> if P x then ok x else fail (400, Says msg))"

definition date_in :: "string \<Rightarrow> string \<Rightarrow> (db, refusal, date) act" where
  "date_in msg raw = (case parse_date raw of None \<Rightarrow> fail (400, Says msg) | Some d \<Rightarrow> ok d)"

definition shape_of :: "'b option \<Rightarrow> (db, refusal, 'b) act" where
  "shape_of body = (case body of None \<Rightarrow> fail (400, Says ''invalid request body'') | Some b \<Rightarrow> ok b)"

definition optionalDecimal :: "api \<Rightarrow> string \<Rightarrow> rat" where
  "optionalDecimal a raw =
     (if raw = '''' then 0 else case env_parse (api_env a) raw of None \<Rightarrow> 0 | Some x \<Rightarrow> x)"

section \<open>Exchange rates and tax\<close>

record rate_request =
  rq_currency :: string
  rq_rate :: string
  rq_as_of :: string

definition api_UpsertExchangeRate :: "api \<Rightarrow> caller \<Rightarrow> rate_request option \<Rightarrow> unit endpoint" where
  "api_UpsertExchangeRate a c body =
     bind (body_of (\<lambda>r. rq_currency r \<noteq> '''' \<and> rq_rate r \<noteq> '''') body) (\<lambda>r.
     bind (amount_where a (\<lambda>x. x > 0) ''rate must be a positive number'' (rq_rate r)) (\<lambda>x.
     bind (optional_date (rq_as_of r) ''asOfDate must be YYYY-MM-DD'') (\<lambda>d.
     bind (answer (says 500 ''could not save exchange rate'')
       (UpsertRate (env_for a c) (to_upper (rq_currency r)) x
          (case d of None \<Rightarrow> date_of (env_now (api_env a)) | Some t \<Rightarrow> t))) (\<lambda>_.
     ok (201, ())))))"

definition api_RevalueFX :: "api \<Rightarrow> caller \<Rightarrow> string \<Rightarrow> revaluation_result endpoint" where
  "api_RevalueFX a c period =
     bind (answer (\<lambda>e. (400, ErrorOf e)) (RevalueFX (env_for a c) period (actor_of a c))) (\<lambda>r. ok (200, r))"

record reverse_charge_request =
  rc_code :: string
  rc_reference :: string
  rc_net :: string

definition reverse_charge_refusal :: "err \<Rightarrow> refusal" where
  "reverse_charge_refusal e =
     (if e = ErrPeriodClosed then 422 else if e = ErrNotReverseCharge then 400 else 500, ErrorOf e)"

text \<open>The service guards the period of today before it books (\<open>ledger/integrations.go\<close>).\<close>

definition service_SelfAssessReverseCharge :: "env \<Rightarrow> string \<Rightarrow> string \<Rightarrow> rat \<Rightarrow> string \<Rightarrow> journal option action" where
  "service_SelfAssessReverseCharge env code reference net actor =
     bind (guardOpen (env_now env)) (\<lambda>_.
     SelfAssessReverseCharge env code reference net (env_now env)
       (Some \<lparr>ai_actor = actorOrSystem actor, ai_type = ''finance.vat.reverse_charge'',
              ai_message = ''reverse-charge VAT '' @ reference\<rparr>))"

definition api_SelfAssessReverseCharge :: "api \<Rightarrow> caller \<Rightarrow> reverse_charge_request option \<Rightarrow> journal option endpoint" where
  "api_SelfAssessReverseCharge a c body =
     bind (body_of (\<lambda>r. rc_code r \<noteq> '''' \<and> rc_reference r \<noteq> '''' \<and> rc_net r \<noteq> '''') body) (\<lambda>r.
     bind (amount_where a (\<lambda>x. x > 0) ''netAmount must be a positive amount'' (trim_space (rc_net r))) (\<lambda>net.
     bind (answer reverse_charge_refusal
       (service_SelfAssessReverseCharge (env_for a c) (to_upper (trim_space (rc_code r)))
          (trim_space (rc_reference r)) net (actor_of a c))) (\<lambda>entry.
     ok (201, entry))))"

section \<open>Credit losses\<close>

definition provisionErrStatus :: "err \<Rightarrow> refusal" where
  "provisionErrStatus e =
     (if e = ErrPeriodClosed \<or> e = ErrNothingToWriteOff then 422
      else if e = ErrOriginalNotFound \<or> e = ErrWriteOffNotFound then 404 else 500, ErrorOf e)"

definition api_RunECLProvision :: "api \<Rightarrow> caller \<Rightarrow> string option \<Rightarrow> ecl_provision endpoint" where
  "api_RunECLProvision a c period =
     bind (body_of (\<lambda>p. p \<noteq> '''') period) (\<lambda>p.
     bind (answer provisionErrStatus (RunECLProvision (env_for a c) (trim_space p) (actor_of a c))) (\<lambda>r. ok (200, r)))"

definition api_WriteOffReceivable :: "api \<Rightarrow> caller \<Rightarrow> (string \<times> string) option \<Rightarrow> write_off_result endpoint" where
  "api_WriteOffReceivable a c body =
     bind (body_of (\<lambda>r. fst r \<noteq> '''') body) (\<lambda>(ref, reason).
     bind (answer provisionErrStatus (WriteOffAR (env_for a c) (trim_space ref) reason (actor_of a c))) (\<lambda>r.
     ok (201, r)))"

record recover_request =
  rr_document :: string
  rr_reference :: string
  rr_amount :: string

definition api_RecoverReceivable :: "api \<Rightarrow> caller \<Rightarrow> recover_request option \<Rightarrow> journal option endpoint" where
  "api_RecoverReceivable a c body =
     bind (body_of (\<lambda>r. rr_document r \<noteq> '''' \<and> rr_reference r \<noteq> '''' \<and> rr_amount r \<noteq> '''') body) (\<lambda>r.
     bind (amount_where a (\<lambda>x. x > 0) ''invalid amount'' (rr_amount r)) (\<lambda>x.
     bind (answer provisionErrStatus
       (RecoverAR (env_for a c) (trim_space (rr_document r)) (trim_space (rr_reference r)) x (actor_of a c))) (\<lambda>e.
     ok (201, e))))"

section \<open>Revenue, prepayments and leases\<close>

definition revrecErrStatus :: "err \<Rightarrow> refusal" where
  "revrecErrStatus e =
     (if e = ErrPeriodClosed then 422
      else if e = ErrScheduleExists \<or> e = ErrObligationSatisfied then 409
      else if e = ErrScheduleNotFound then 404 else 500, ErrorOf e)"

record revenue_request =
  rv_source :: string
  rv_amount :: string
  rv_currency_of :: string
  rv_method :: string
  rv_start :: string
  rv_months :: int
  rv_obligations :: "(string \<times> string) list"

definition parse_obligations :: "api \<Rightarrow> (string \<times> string) list \<Rightarrow> (db, refusal, (string \<times> rat) list) act" where
  "parse_obligations a os = map_each os (\<lambda>(desc, raw).
     bind (amount_where a (\<lambda>x. x > 0) ''invalid obligation amount'' raw) (\<lambda>x. ok (desc, x)))"

definition api_CreateRevenueSchedule :: "api \<Rightarrow> caller \<Rightarrow> revenue_request option \<Rightarrow> revenue_schedule endpoint" where
  "api_CreateRevenueSchedule a c body =
     bind (body_of (\<lambda>r. rv_source r \<noteq> '''' \<and> rv_amount r \<noteq> '''') body) (\<lambda>r.
     bind (amount_where a (\<lambda>x. x > 0) ''invalid total'' (rv_amount r)) (\<lambda>total.
     bind (parse_obligations a (rv_obligations r)) (\<lambda>os.
     bind (answer revrecErrStatus (CreateRevenueSchedule (env_for a c)
       \<lparr>sc_source = trim_space (rv_source r), sc_total = total, sc_currency = rv_currency_of r,
        sc_method = rv_method r, sc_start = trim_space (rv_start r), sc_periods = rv_months r,
        sc_obligations = os\<rparr> (actor_of a c))) (\<lambda>sched.
     ok (201, sched)))))"

definition api_RunRevenueRecognition :: "api \<Rightarrow> caller \<Rightarrow> string option \<Rightarrow> run_result endpoint" where
  "api_RunRevenueRecognition a c period =
     bind (body_of (\<lambda>p. p \<noteq> '''') period) (\<lambda>p.
     bind (answer revrecErrStatus (RunRevenueRecognition (env_for a c) (trim_space p) (actor_of a c))) (\<lambda>r.
     ok (200, r)))"

definition api_SatisfyObligation :: "api \<Rightarrow> caller \<Rightarrow> string \<Rightarrow> journal option endpoint" where
  "api_SatisfyObligation a c raw =
     bind (uuid_of a raw ''invalid obligation id'') (\<lambda>i.
     bind (answer revrecErrStatus (SatisfyObligation (env_for a c) i (actor_of a c))) (\<lambda>e. ok (201, e)))"

definition api_AccrueRevenue :: "api \<Rightarrow> caller \<Rightarrow> (string \<times> string) option \<Rightarrow> journal option endpoint" where
  "api_AccrueRevenue a c body =
     bind (body_of (\<lambda>r. fst r \<noteq> '''' \<and> snd r \<noteq> '''') body) (\<lambda>(ref, raw).
     bind (amount_where a (\<lambda>x. x > 0) ''invalid amount'' raw) (\<lambda>x.
     bind (answer revrecErrStatus (AccrueRevenue (env_for a c) (trim_space ref) x (actor_of a c))) (\<lambda>e.
     ok (201, e))))"

definition prepaymentErrStatus :: "err \<Rightarrow> refusal" where
  "prepaymentErrStatus e =
     (if e = ErrPeriodClosed then 422 else if e = ErrPrepaymentExists then 409
      else if e = ErrPrepaymentNotFound then 404 else 500, ErrorOf e)"

record prepayment_request =
  pm_source :: string
  pm_total :: string
  pm_money :: string
  pm_expense :: string
  pm_funding :: string
  pm_start :: string
  pm_months :: int

definition api_CreatePrepayment :: "api \<Rightarrow> caller \<Rightarrow> prepayment_request option \<Rightarrow> prepaid_schedule endpoint" where
  "api_CreatePrepayment a c body =
     bind (body_of (\<lambda>r. pm_source r \<noteq> '''' \<and> pm_total r \<noteq> '''') body) (\<lambda>r.
     bind (amount_where a (\<lambda>x. x > 0) ''invalid total'' (pm_total r)) (\<lambda>total.
     bind (answer prepaymentErrStatus (CreatePrepayment (env_for a c)
       \<lparr>pp_source = trim_space (pm_source r), pp_total = total, pp_currency = pm_money r,
        pp_expense = trim_space (pm_expense r), pp_funding = trim_space (pm_funding r),
        pp_start = trim_space (pm_start r), pp_periods = pm_months r\<rparr> (actor_of a c))) (\<lambda>sched.
     ok (201, sched))))"

definition api_RunAmortization :: "api \<Rightarrow> caller \<Rightarrow> string option \<Rightarrow> run_result endpoint" where
  "api_RunAmortization a c period =
     bind (body_of (\<lambda>p. p \<noteq> '''') period) (\<lambda>p.
     bind (answer prepaymentErrStatus (RunAmortization (env_for a c) (trim_space p) (actor_of a c))) (\<lambda>r.
     ok (200, r)))"

definition leaseErrStatus :: "err \<Rightarrow> refusal" where
  "leaseErrStatus e =
     (if e = ErrPeriodClosed then 422 else if e = ErrLeaseExists then 409
      else if e = ErrLeaseNotFound then 404 else 500, ErrorOf e)"

record lease_request =
  lq_ref :: string
  lq_description :: string
  lq_currency :: string
  lq_payment :: string
  lq_rate :: string
  lq_term :: int
  lq_start :: string

definition api_CreateLease :: "api \<Rightarrow> caller \<Rightarrow> lease_request option \<Rightarrow> lease endpoint" where
  "api_CreateLease a c body =
     bind (body_of (\<lambda>r. lq_ref r \<noteq> '''' \<and> lq_payment r \<noteq> '''' \<and> lq_term r \<noteq> 0) body) (\<lambda>r.
     bind (amount_where a (\<lambda>x. x > 0) ''invalid monthly payment'' (lq_payment r)) (\<lambda>payment.
     bind (if trim_space (lq_rate r) = '''' then ok 0
           else amount_where a (\<lambda>x. 0 \<le> x) ''invalid annual rate'' (lq_rate r)) (\<lambda>rate.
     bind (answer leaseErrStatus (CreateLease (env_for a c)
       \<lparr>lz_ref = trim_space (lq_ref r), lz_desc = lq_description r, lz_currency = lq_currency r,
        lz_payment = payment, lz_rate = rate, lz_term = lq_term r, lz_start = trim_space (lq_start r)\<rparr>
       (actor_of a c))) (\<lambda>l.
     ok (201, l)))))"

definition api_RunLeasePeriod :: "api \<Rightarrow> caller \<Rightarrow> string option \<Rightarrow> run_result endpoint" where
  "api_RunLeasePeriod a c period =
     bind (body_of (\<lambda>p. p \<noteq> '''') period) (\<lambda>p.
     bind (answer leaseErrStatus (RunLeasePeriod (env_for a c) (trim_space p) (actor_of a c))) (\<lambda>r. ok (200, r)))"

section \<open>Income tax and provisions\<close>

definition UgandaCorporateRate :: rat where
  "UgandaCorporateRate = 30 / 100"

definition taxRate :: "api \<Rightarrow> string \<Rightarrow> (db, refusal, rat) act" where
  "taxRate a raw =
     (if trim_space raw = '''' then ok UgandaCorporateRate
      else amount_where a (\<lambda>x. x > 0) ''invalid rate'' (trim_space raw))"

definition taxErrStatus :: "err \<Rightarrow> refusal" where
  "taxErrStatus e =
     (if e = ErrPeriodClosed then 422 else if e = ErrTaxRunExists \<or> e = ErrDeferredTaxExists then 409 else 500, ErrorOf e)"

record current_tax_request =
  cq_period :: string
  cq_profit :: string
  cq_rate :: string

definition api_RunCurrentTax :: "api \<Rightarrow> caller \<Rightarrow> current_tax_request option \<Rightarrow> income_tax_run endpoint" where
  "api_RunCurrentTax a c body =
     bind (body_of (\<lambda>r. cq_period r \<noteq> '''' \<and> cq_profit r \<noteq> '''') body) (\<lambda>r.
     bind (amount_where a (\<lambda>_. True) ''invalid taxable profit'' (trim_space (cq_profit r))) (\<lambda>profit.
     bind (taxRate a (cq_rate r)) (\<lambda>rate.
     bind (answer taxErrStatus (RunCurrentTax (env_for a c) (trim_space (cq_period r)) profit rate (actor_of a c))) (\<lambda>run.
     ok (201, run)))))"

record deferred_tax_request =
  dq_reference :: string
  dq_description :: string
  dq_difference :: string
  dq_kind :: string
  dq_rate :: string

definition api_RecognizeDeferredTax :: "api \<Rightarrow> caller \<Rightarrow> deferred_tax_request option \<Rightarrow> deferred_tax_item endpoint" where
  "api_RecognizeDeferredTax a c body =
     bind (body_of (\<lambda>r. dq_reference r \<noteq> '''' \<and> dq_difference r \<noteq> '''' \<and> dq_kind r \<noteq> '''') body) (\<lambda>r.
     bind (amount_where a (\<lambda>x. x > 0) ''temporary difference must be a positive amount'' (trim_space (dq_difference r))) (\<lambda>diff.
     bind (taxRate a (dq_rate r)) (\<lambda>rate.
     bind (answer taxErrStatus (RecognizeDeferredTax (env_for a c) (trim_space (dq_reference r)) (dq_description r)
             diff rate (trim_space (dq_kind r)) (actor_of a c))) (\<lambda>item.
     ok (201, item)))))"

definition provisionOpStatus :: "err \<Rightarrow> refusal" where
  "provisionOpStatus e =
     (if e = ErrPeriodClosed then 422 else if e = ErrProvisionNotFound then 404
      else if e = ErrProvisionClosed then 422 else 500, ErrorOf e)"

record provision_request =
  gq_kind :: string
  gq_description :: string
  gq_estimate :: string
  gq_rate :: string
  gq_settlement :: string
  gq_currency :: string
  gq_asset :: string

text \<open>\<open>discounted\<close>: the parameter of the service for \<open>math.Pow\<close>.\<close>

definition api_RecognizeProvision ::
  "api \<Rightarrow> (rat \<Rightarrow> rat \<Rightarrow> rat \<Rightarrow> rat) \<Rightarrow> caller \<Rightarrow> provision_request option \<Rightarrow> liab_provision endpoint" where
  "api_RecognizeProvision a discounted c body =
     bind (body_of (\<lambda>r. gq_estimate r \<noteq> '''') body) (\<lambda>r.
     bind (amount_where a (\<lambda>x. x > 0) ''estimate must be a positive amount'' (trim_space (gq_estimate r))) (\<lambda>estimate.
     bind (if trim_space (gq_rate r) = '''' then ok 0
           else amount_where a (\<lambda>x. 0 \<le> x) ''discountRate must be a non-negative fraction'' (trim_space (gq_rate r))) (\<lambda>rate.
     bind (optional_date (trim_space (gq_settlement r)) ''expectedSettlement must be YYYY-MM-DD'') (\<lambda>d.
     bind (answer provisionOpStatus (RecognizeProvision (env_for a c) discounted
       \<lparr>li_kind = gq_kind r, li_desc = gq_description r, li_estimate = estimate, li_rate = rate,
        li_settlement = map_option time_of_date d, li_cur = gq_currency r, li_asset = trim_space (gq_asset r)\<rparr>
       (actor_of a c))) (\<lambda>p.
     ok (201, p))))))"

record provision_op_request =
  go_id :: string
  go_amount :: string
  go_reference :: string

definition bindProvisionOp :: "api \<Rightarrow> provision_op_request option \<Rightarrow> (db, refusal, id \<times> provision_op_request) act" where
  "bindProvisionOp a body =
     bind (body_of (\<lambda>r. go_id r \<noteq> '''') body) (\<lambda>r.
     bind (uuid_of a (trim_space (go_id r)) ''invalid provision id'') (\<lambda>i. ok (i, r)))"

definition api_UnwindProvision :: "api \<Rightarrow> caller \<Rightarrow> provision_op_request option \<Rightarrow> liab_provision endpoint" where
  "api_UnwindProvision a c body =
     bind (bindProvisionOp a body) (\<lambda>(i, r).
     bind (answer provisionOpStatus (UnwindProvision (env_for a c) i (trim_space (go_reference r)) (actor_of a c))) (\<lambda>p.
     ok (200, p)))"

definition api_UtilizeProvision :: "api \<Rightarrow> caller \<Rightarrow> provision_op_request option \<Rightarrow> liab_provision endpoint" where
  "api_UtilizeProvision a c body =
     bind (bindProvisionOp a body) (\<lambda>(i, r).
     bind (amount_where a (\<lambda>x. x > 0) ''amount must be a positive amount'' (trim_space (go_amount r))) (\<lambda>x.
     bind (answer provisionOpStatus (UtilizeProvision (env_for a c) i x (trim_space (go_reference r)) (actor_of a c))) (\<lambda>p.
     ok (200, p))))"

definition api_RemeasureProvision :: "api \<Rightarrow> caller \<Rightarrow> provision_op_request option \<Rightarrow> liab_provision endpoint" where
  "api_RemeasureProvision a c body =
     bind (bindProvisionOp a body) (\<lambda>(i, r).
     bind (amount_where a (\<lambda>x. 0 \<le> x) ''amount (new estimate) must be a non-negative amount'' (trim_space (go_amount r))) (\<lambda>x.
     bind (answer provisionOpStatus (RemeasureProvision (env_for a c) i x (trim_space (go_reference r)) (actor_of a c))) (\<lambda>p.
     ok (200, p))))"

definition api_ReverseProvision :: "api \<Rightarrow> caller \<Rightarrow> provision_op_request option \<Rightarrow> liab_provision endpoint" where
  "api_ReverseProvision a c body =
     bind (bindProvisionOp a body) (\<lambda>(i, r).
     bind (answer provisionOpStatus (ReverseProvision (env_for a c) i (trim_space (go_reference r)) (actor_of a c))) (\<lambda>p.
     ok (200, p)))"

section \<open>Payroll\<close>

record payroll_request =
  yq_run :: string
  yq_period :: string
  yq_gross :: string
  yq_paye :: string
  yq_nssf :: string
  yq_other :: string
  yq_net :: string
  yq_currency :: string
  yq_employer :: string

definition payroll_bound :: "payroll_request \<Rightarrow> bool" where
  "payroll_bound r \<longleftrightarrow> yq_run r \<noteq> '''' \<and> yq_period r \<noteq> '''' \<and> yq_gross r \<noteq> '''' \<and> yq_net r \<noteq> ''''"

definition parsePayrollAmounts :: "api \<Rightarrow> payroll_request \<Rightarrow> (db, refusal, payroll_input) act" where
  "parsePayrollAmounts a r =
     bind (amount_where a (\<lambda>_. True) ''invalid gross amount'' (yq_gross r)) (\<lambda>gross.
     bind (amount_where a (\<lambda>_. True) ''invalid net amount'' (yq_net r)) (\<lambda>net.
     ok \<lparr>pi_ref = yq_run r, pi_period = yq_period r, pi_gross = gross, pi_paye = optionalDecimal a (yq_paye r),
         pi_nssf = optionalDecimal a (yq_nssf r), pi_other = optionalDecimal a (yq_other r), pi_net = net,
         pi_currency = yq_currency r, pi_employer = optionalDecimal a (yq_employer r)\<rparr>))"

fun account_missing :: "err \<Rightarrow> bool" where
  "account_missing (ErrAccountNotFound code) = True"
| "account_missing _ = False"

definition payroll_refusal :: "err \<Rightarrow> err \<Rightarrow> refusal" where
  "payroll_refusal domain_error e =
     (if e = domain_error \<or> e = ErrPeriodClosed \<or> account_missing e then 422 else 500, ErrorOf e)"

definition api_PostPayrollRun :: "api \<Rightarrow> caller \<Rightarrow> payroll_request option \<Rightarrow> payroll_run endpoint" where
  "api_PostPayrollRun a c body =
     bind (body_of payroll_bound body) (\<lambda>r.
     bind (require (period_matches (yq_period r)) (400, Says ''period must be in YYYY-MM format'')) (\<lambda>_.
     bind (parsePayrollAmounts a r) (\<lambda>inp.
     bind (answer (payroll_refusal ErrPayrollUnbalanced) (PostPayrollRun (env_for a c) inp)) (\<lambda>run.
     ok (201, run)))))"

record leave_request =
  vq_ref :: string
  vq_period :: string
  vq_amount :: string
  vq_currency :: string
  vq_note :: string

definition api_PostLeaveProvision :: "api \<Rightarrow> caller \<Rightarrow> leave_request option \<Rightarrow> leave_provision endpoint" where
  "api_PostLeaveProvision a c body =
     bind (body_of (\<lambda>r. vq_ref r \<noteq> '''' \<and> vq_period r \<noteq> '''' \<and> vq_amount r \<noteq> '''') body) (\<lambda>r.
     bind (require (period_matches (vq_period r)) (400, Says ''period must be in YYYY-MM format'')) (\<lambda>_.
     bind (amount_where a (\<lambda>_. True) ''amount must be a decimal number'' (trim_space (vq_amount r))) (\<lambda>x.
     bind (answer (payroll_refusal ErrLeaveProvisionZero) (PostLeaveProvision (env_for a c)
       \<lparr>pv_ref = trim_space (vq_ref r), pv_period = vq_period r, pv_amount = x,
        pv_currency = trim_space (vq_currency r), pv_note = trim_space (vq_note r)\<rparr>)) (\<lambda>p.
     ok (201, p)))))"

text \<open>An absent body is year 0 and no date; the date is then today.\<close>

definition api_ValueLeaveLiability :: "api \<Rightarrow> caller \<Rightarrow> (int \<times> string) option \<Rightarrow> leave_valuation endpoint" where
  "api_ValueLeaveLiability a c body =
     bind (body_of (\<lambda>_. True) body) (\<lambda>(year, valuedAt).
     bind (optional_date (trim_space valuedAt) ''valuedAt must be YYYY-MM-DD'') (\<lambda>d.
     bind (answer (payroll_refusal ErrPeriodClosed) (ValueLeaveLiability (env_for a c) year
       (case d of None \<Rightarrow> env_now (api_env a) | Some x \<Rightarrow> time_of_date x))) (\<lambda>v. ok (200, v))))"

section \<open>Fixed and intangible assets\<close>

record asset_request =
  sq_ref :: string
  sq_description :: string
  sq_category :: string
  sq_cost :: string
  sq_salvage :: string
  sq_in_service :: string
  sq_life :: int
  sq_currency :: string
  sq_method :: string
  sq_rate :: string
  sq_record_only :: bool
  sq_from :: string

definition capitalize_from :: "bool \<Rightarrow> string \<Rightarrow> string" where
  "capitalize_from recordOnly account =
     (if recordOnly then '''' else if trim_space account = '''' then ''5000'' else trim_space account)"

definition declining_rate :: "api \<Rightarrow> string \<Rightarrow> string \<Rightarrow> (db, refusal, rat option) act" where
  "declining_rate a meth raw =
     (if meth = ''declining_balance''
      then bind (amount_where a (\<lambda>x. 0 < x \<and> x \<le> 1)
                   ''decliningRate must be a fraction in (0,1] for declining_balance'' (trim_space raw)) (\<lambda>x. ok (Some x))
      else ok None)"

definition register_refusal :: "string \<Rightarrow> err \<Rightarrow> refusal" where
  "register_refusal msg e =
     (if is_unique_violation e then (409, Says ''asset already registered'')
      else if e = ErrPeriodClosed then (422, Says ''in-service period is closed'') else (500, Says msg))"

definition api_RegisterFixedAsset :: "api \<Rightarrow> caller \<Rightarrow> asset_request option \<Rightarrow> fixed_asset endpoint" where
  "api_RegisterFixedAsset a c body =
     bind (shape_of body) (\<lambda>r.
     bind (require (trim_space (sq_ref r) \<noteq> '''' \<and> sq_life r > 0)
       (400, Says ''assetRef and a positive usefulLifeMonths are required'')) (\<lambda>_.
     bind (amount_where a (\<lambda>x. x > 0) ''cost must be a positive amount'' (trim_space (sq_cost r))) (\<lambda>cost.
     bind (if trim_space (sq_salvage r) = '''' then ok 0
           else amount_where a (\<lambda>x. 0 \<le> x) ''salvageValue must be a non-negative amount'' (trim_space (sq_salvage r))) (\<lambda>salvage.
     bind (date_in ''inServiceDate must be YYYY-MM-DD'' (trim_space (sq_in_service r))) (\<lambda>d.
     let meth = trim_space (sq_method r) in
     bind (declining_rate a meth (sq_rate r)) (\<lambda>rate.
     bind (answer (register_refusal ''could not register fixed asset'') (RegisterFixedAsset (env_for a c)
       \<lparr>fi_ref = trim_space (sq_ref r), fi_desc = sq_description r, fi_category = sq_category r, fi_cost = cost,
        fi_salvage = salvage, fi_in_service = time_of_date d, fi_life = sq_life r,
        fi_currency = trim_space (sq_currency r), fi_method = meth, fi_rate = rate,
        fi_from = capitalize_from (sq_record_only r) (sq_from r)\<rparr>)) (\<lambda>asset.
     ok (201, asset))))))))"

definition api_RunDepreciation :: "api \<Rightarrow> caller \<Rightarrow> string \<Rightarrow> depreciation_run endpoint" where
  "api_RunDepreciation a c raw =
     (let period = (if raw = '''' then period_of_time (env_now (api_env a)) else raw) in
      bind (answer (\<lambda>e. if e = ErrPeriodClosed then (422, Says ''accounting period is closed'') else (400, ErrorOf e))
        (RunDepreciation (env_for a c) period)) (\<lambda>run. ok (200, run)))"

record asset_change =
  hq_ref :: string
  hq_amount :: string
  hq_date :: string

definition assetAdjustStatus :: "err \<Rightarrow> refusal" where
  "assetAdjustStatus e =
     (if e = ErrPeriodClosed then 422 else if e = ErrAssetNotFound then 404
      else if e = ErrAssetInactive \<or> e = ErrNoImpairment then 422 else 500, ErrorOf e)"

definition assetEffectiveDate :: "api \<Rightarrow> string \<Rightarrow> (db, refusal, time) act" where
  "assetEffectiveDate a raw =
     (if trim_space raw = '''' then ok (env_now (api_env a))
      else bind (date_in ''effectiveDate must be YYYY-MM-DD'' (trim_space raw)) (\<lambda>d. ok (time_of_date d)))"

text \<open>The three handlers differ in the amount they accept and in the operation they call.\<close>

definition change_asset ::
  "api \<Rightarrow> caller \<Rightarrow> (rat \<Rightarrow> bool) \<Rightarrow> string \<Rightarrow>
   (env \<Rightarrow> string \<Rightarrow> rat \<Rightarrow> time \<Rightarrow> string \<Rightarrow> fixed_asset option action) \<Rightarrow> asset_change option \<Rightarrow> fixed_asset option endpoint" where
  "change_asset a c P msg operation body =
     bind (shape_of body) (\<lambda>r.
     bind (require (trim_space (hq_ref r) \<noteq> '''') (400, Says ''assetRef is required'')) (\<lambda>_.
     bind (amount_where a P msg (trim_space (hq_amount r))) (\<lambda>x.
     bind (assetEffectiveDate a (hq_date r)) (\<lambda>t.
     bind (answer assetAdjustStatus (operation (env_for a c) (trim_space (hq_ref r)) x t (actor_of a c))) (\<lambda>asset.
     ok (201, asset))))))"

definition api_ImpairAsset :: "api \<Rightarrow> caller \<Rightarrow> asset_change option \<Rightarrow> fixed_asset option endpoint" where
  "api_ImpairAsset a c = change_asset a c (\<lambda>x. 0 \<le> x) ''recoverableAmount must be a non-negative amount'' ImpairAsset"

definition api_ReverseImpairment :: "api \<Rightarrow> caller \<Rightarrow> asset_change option \<Rightarrow> fixed_asset option endpoint" where
  "api_ReverseImpairment a c = change_asset a c (\<lambda>x. 0 < x) ''amount must be a positive amount'' ReverseImpairment"

definition api_RevalueAsset :: "api \<Rightarrow> caller \<Rightarrow> asset_change option \<Rightarrow> fixed_asset option endpoint" where
  "api_RevalueAsset a c = change_asset a c (\<lambda>x. 0 \<le> x) ''newCarryingAmount must be a non-negative amount'' RevalueAsset"

definition api_RegisterIntangibleAsset :: "api \<Rightarrow> caller \<Rightarrow> asset_request option \<Rightarrow> intangible_asset endpoint" where
  "api_RegisterIntangibleAsset a c body =
     bind (shape_of body) (\<lambda>r.
     bind (require (trim_space (sq_ref r) \<noteq> '''' \<and> sq_life r > 0)
       (400, Says ''assetRef and a positive usefulLifeMonths are required'')) (\<lambda>_.
     bind (amount_where a (\<lambda>x. x > 0) ''cost must be a positive amount'' (trim_space (sq_cost r))) (\<lambda>cost.
     bind (date_in ''inServiceDate must be YYYY-MM-DD'' (trim_space (sq_in_service r))) (\<lambda>d.
     bind (answer (register_refusal ''could not register intangible asset'') (RegisterIntangibleAsset (env_for a c)
       \<lparr>xi_ref = trim_space (sq_ref r), xi_desc = sq_description r, xi_category = sq_category r, xi_cost = cost,
        xi_in_service = time_of_date d, xi_life = sq_life r, xi_currency = trim_space (sq_currency r),
        xi_from = capitalize_from (sq_record_only r) (sq_from r)\<rparr>)) (\<lambda>asset.
     ok (201, asset))))))"

end
