(* ===== verification/Document_Api.thy ===== *)
theory Document_Api
  imports Subledger_Api
begin

text \<open>
  The HTTP handlers of the documents around the ledger: bank feeds and their reconciliation, the match
  exceptions and the clearing worklist, sales invoices with their schedules, time entries and payment
  intents, the flat invoices and bills of older clients, certificates, fees and conversions, entities
  and parties (\<open>handlers/reconciliation_api.go\<close>, \<open>banking_legacy.go\<close>, \<open>threewaymatch_api.go\<close>,
  \<open>payments_clearing_api.go\<close>, \<open>billing_api.go\<close>, \<open>billable_time.go\<close>, \<open>invoices_legacy.go\<close>,
  \<open>bills_legacy.go\<close>, \<open>withholding_tax.go\<close>, \<open>late_fees.go\<close>, \<open>fx_conversions.go\<close>, \<open>entity_api.go\<close>,
  \<open>parties_api.go\<close>).
\<close>

section \<open>Bank feeds and reconciliation\<close>

definition matchErrorStatus :: "err \<Rightarrow> refusal" where
  "matchErrorStatus e =
     (if e = ErrStatementLineNotFound \<or> e = ErrOriginalNotFound then 404
      else if e = ErrInvalidSettlement then 422
      else if e = ErrPaymentExceeds then 409 else 500, ErrorOf e)"

definition api_MatchStatementLine :: "api \<Rightarrow> caller \<Rightarrow> string \<Rightarrow> string option \<Rightarrow> string endpoint" where
  "api_MatchStatementLine a c raw body =
     bind (uuid_of a raw ''invalid line id'') (\<lambda>i.
     bind (body_of (\<lambda>ref. ref \<noteq> '''') body) (\<lambda>ref.
     bind (answer matchErrorStatus (MatchStatementLine (env_for a c) (api_show_uuid a) i ref)) (\<lambda>_.
     ok (200, ref))))"

definition api_AutoReconcileStatement :: "api \<Rightarrow> string \<Rightarrow> nat endpoint" where
  "api_AutoReconcileStatement a raw =
     bind (uuid_of a raw ''invalid statement id'') (\<lambda>i.
     bind (answer (says 500 ''could not auto-reconcile statement'') (AutoMatchStatementLines i)) (\<lambda>n.
     ok (200, n)))"

definition api_ConfirmStatementLine :: "api \<Rightarrow> caller \<Rightarrow> string \<Rightarrow> unit endpoint" where
  "api_ConfirmStatementLine a c raw =
     bind (uuid_of a raw ''invalid line id'') (\<lambda>i.
     bind (answer matchErrorStatus (ConfirmStatementLine (env_for a c) (api_show_uuid a) i)) (\<lambda>_.
     ok (200, ())))"

definition api_RejectStatementLine :: "api \<Rightarrow> string \<Rightarrow> unit endpoint" where
  "api_RejectStatementLine a raw =
     bind (uuid_of a raw ''invalid line id'') (\<lambda>i.
     bind (answer (\<lambda>e. (if e = ErrStatementLineNotFound then 404 else 500, ErrorOf e))
       (RejectStatementLineMatch i)) (\<lambda>_.
     ok (200, ())))"

record feed_request =
  fq_account :: string
  fq_from :: string
  fq_to :: string

definition feed_day :: "string \<Rightarrow> string \<Rightarrow> date \<Rightarrow> (db, refusal, date) act" where
  "feed_day raw msg otherwise = (if raw = '''' then ok otherwise else date_in msg raw)"

text \<open>
  \<open>fetch\<close>: the adapter of the bank, absent when it is not configured; a failure answers with its text. The
  window defaults to the last seven days.
\<close>

definition api_SyncBankFeed ::
  "api \<Rightarrow> (string \<Rightarrow> date \<Rightarrow> date \<Rightarrow> string + statement_line_input list) option \<Rightarrow> caller \<Rightarrow>
   feed_request option \<Rightarrow> (string \<times> int) endpoint" where
  "api_SyncBankFeed a bank c body =
     (case bank of
        None \<Rightarrow> fail (503, Says ''bank feed not configured'')
      | Some fetch \<Rightarrow>
          bind (body_of (\<lambda>r. fq_account r \<noteq> '''') body) (\<lambda>r.
          let today = date_of (env_now (api_env a)) in
          bind (feed_day (fq_to r) ''invalid toDate'' today) (\<lambda>until.
          bind (feed_day (fq_from r) ''invalid fromDate'' (civil_of_day (day_of_civil today - 7))) (\<lambda>since.
          case fetch (fq_account r) since until of
            Inl msg \<Rightarrow> fail (502, Says msg)
          | Inr ls \<Rightarrow>
              bind (answer (says 500 ''could not persist bank feed'')
                (SyncBankFeed (env_for a c) (api_show_uuid a) (fq_account r) until ls)) (\<lambda>out.
              ok (200, out))))))"

section \<open>Match exceptions and the clearing worklist\<close>

definition api_RunMatchCheck :: "api \<Rightarrow> caller \<Rightarrow> nat endpoint" where
  "api_RunMatchCheck a c =
     bind (answer (says 500 ''match check failed'') (DetectMatchExceptions (env_for a c))) (\<lambda>n. ok (200, n))"

definition api_ResolveMatchException :: "api \<Rightarrow> caller \<Rightarrow> string \<Rightarrow> unit endpoint" where
  "api_ResolveMatchException a c raw =
     bind (uuid_of a raw ''invalid exception id'') (\<lambda>i.
     bind (answer (\<lambda>e. (if e = ErrMatchExceptionNotFound then 404 else 500, ErrorOf e))
       (ResolveMatchException i (actor_of a c))) (\<lambda>_.
     ok (200, ())))"

definition api_WriteOffMatchVariance :: "api \<Rightarrow> caller \<Rightarrow> string option \<Rightarrow> journal option endpoint" where
  "api_WriteOffMatchVariance a c body =
     bind (body_of (\<lambda>po. po \<noteq> '''') body) (\<lambda>po.
     bind (answer (\<lambda>e. (if e = ErrPeriodClosed \<or> e = ErrNoVariance then 422 else 500, ErrorOf e))
       (WriteOffMatchVariance (env_for a c) (trim_space po) (actor_of a c))) (\<lambda>e.
     ok (201, e)))"

definition api_ClearPaymentsClearingItem :: "api \<Rightarrow> string \<Rightarrow> string option \<Rightarrow> clearing_item endpoint" where
  "api_ClearPaymentsClearingItem a raw body =
     bind (uuid_of a raw ''invalid clearing item id'') (\<lambda>i.
     bind (shape_of body) (\<lambda>ref.
     bind (require (trim_space ref \<noteq> '''') (400, Says ''documentRef is required'')) (\<lambda>_.
     bind (answer (\<lambda>e. if e = ErrClearingItemNotFound then (404, Says ''clearing item not found or already cleared'')
             else (500, Says ''could not clear the item''))
       (ClearPaymentsClearingItem i (trim_space ref))) (\<lambda>item.
     ok (200, item)))))"

section \<open>Sales invoices\<close>

record invoice_line_request =
  wl_desc :: string
  wl_quantity :: string
  wl_price :: string
  wl_tax :: string

record invoice_request =
  wq_customer :: string
  wq_currency :: string
  wq_due :: string
  wq_notes :: string
  wq_method :: string
  wq_months :: int
  wq_start :: string
  wq_lines :: "invoice_line_request list"

text \<open>Gin does not validate the elements of a list without a \<open>dive\<close>: a line without a price is refused by the parser.\<close>

definition invoice_bound :: "invoice_request \<Rightarrow> bool" where
  "invoice_bound r \<longleftrightarrow> wq_customer r \<noteq> '''' \<and> wq_lines r \<noteq> []"

definition invoice_line_of :: "api \<Rightarrow> invoice_line_request \<Rightarrow> (db, refusal, invoice_line_input) act" where
  "invoice_line_of a l =
     bind (if wl_quantity l = '''' then ok 1
           else amount_where a (\<lambda>_. True) ''invalid quantity'' (wl_quantity l)) (\<lambda>qty.
     bind (amount_where a (\<lambda>_. True) ''invalid unitPrice'' (wl_price l)) (\<lambda>price.
     ok \<lparr>nl_desc = wl_desc l, nl_quantity = qty, nl_price = price, nl_tax_code = wl_tax l\<rparr>))"

definition api_CreateInvoice :: "api \<Rightarrow> caller \<Rightarrow> invoice_request option \<Rightarrow> invoice option endpoint" where
  "api_CreateInvoice a c body =
     bind (body_of invoice_bound body) (\<lambda>r.
     bind (optional_date (wq_due r) ''dueDate must be YYYY-MM-DD'') (\<lambda>due.
     bind (map_each (wq_lines r) (invoice_line_of a)) (\<lambda>ls.
     bind (answer (says 409 ''could not create invoice'') (CreateInvoice (env_for a c)
       \<lparr>ni_customer = wq_customer r, ni_currency = wq_currency r, ni_due = due, ni_notes = wq_notes r,
        ni_method = trim_space (wq_method r), ni_periods = wq_months r, ni_start = trim_space (wq_start r),
        ni_lines = ls\<rparr>)) (\<lambda>inv.
     ok (201, inv)))))"

definition api_IssueInvoice :: "api \<Rightarrow> caller \<Rightarrow> string \<Rightarrow> invoice option endpoint" where
  "api_IssueInvoice a c raw =
     bind (uuid_of a raw ''invalid id'') (\<lambda>i.
     bind (answer (\<lambda>e. if e = ErrInvoiceNotFound then (404, Says ''invoice not found'')
             else if e = ErrInvoiceNotDraft then (422, Says ''only a draft invoice can be issued'')
             else (500, Says ''could not issue invoice''))
       (IssueInvoice (env_for a c) (api_show_uuid a) i (actor_of a c))) (\<lambda>inv.
     ok (200, inv)))"

record recurring_request =
  zq_customer :: string
  zq_currency :: string
  zq_cadence :: string
  zq_next :: string
  zq_notes :: string
  zq_method :: string
  zq_months :: int
  zq_lines :: "invoice_line_request list"

definition recurring_bound :: "recurring_request \<Rightarrow> bool" where
  "recurring_bound r \<longleftrightarrow> zq_customer r \<noteq> '''' \<and> zq_cadence r \<noteq> '''' \<and> zq_next r \<noteq> '''' \<and> zq_lines r \<noteq> []"

text \<open>The lines are kept as they came, in the JSON the worker reads back.\<close>

definition template_of :: "invoice_line_request list \<Rightarrow> json" where
  "template_of ls = JArray (map (\<lambda>l. JObject
     [(''description'', JString (wl_desc l)), (''quantity'', JString (wl_quantity l)),
      (''unitPrice'', JString (wl_price l)), (''taxCode'', JString (wl_tax l))]) ls)"

definition api_CreateRecurringInvoice :: "api \<Rightarrow> caller \<Rightarrow> recurring_request option \<Rightarrow> recurring_invoice endpoint" where
  "api_CreateRecurringInvoice a c body =
     bind (body_of recurring_bound body) (\<lambda>r.
     bind (require (zq_cadence r = ''weekly'' \<or> zq_cadence r = ''monthly'')
       (400, Says ''cadence must be weekly or monthly'')) (\<lambda>_.
     bind (date_in ''nextRun must be YYYY-MM-DD'' (zq_next r)) (\<lambda>d.
     bind (answer (says 409 ''could not create recurring invoice'') (CreateRecurringInvoice (env_for a c)
       \<lparr>rn_customer = zq_customer r, rn_currency = zq_currency r, rn_cadence = zq_cadence r, rn_next = d,
        rn_template = template_of (zq_lines r), rn_notes = zq_notes r, rn_method = trim_space (zq_method r),
        rn_periods = zq_months r\<rparr>)) (\<lambda>ri.
     ok (201, ri)))))"

record time_request =
  tq_ref :: string
  tq_customer :: string
  tq_employee :: string
  tq_project :: string
  tq_hours :: string
  tq_rate :: string
  tq_amount :: string
  tq_date :: string
  tq_currency :: string
  tq_notes :: string

definition decOrZero :: "api \<Rightarrow> string \<Rightarrow> rat" where
  "decOrZero a raw = (case env_parse (api_env a) (trim_space raw) of None \<Rightarrow> 0 | Some x \<Rightarrow> x)"

text \<open>\<open>conflict_or\<close>: a duplicate reference, a closed period, and anything else.\<close>

definition conflict_or :: "string \<Rightarrow> string \<Rightarrow> string \<Rightarrow> err \<Rightarrow> refusal" where
  "conflict_or duplicate shut msg e =
     (if is_unique_violation e then (409, Says duplicate)
      else if e = ErrPeriodClosed then (422, Says shut) else (500, Says msg))"

definition time_entry_refusal :: "err \<Rightarrow> refusal" where
  "time_entry_refusal e =
     (if is_unique_violation e then (409, Says ''a time entry with this reference already exists'')
      else (500, Says ''could not record time entry''))"

definition api_RecordTimeEntry ::
  "api \<Rightarrow> (string \<Rightarrow> int option) \<Rightarrow> caller \<Rightarrow> time_request option \<Rightarrow> time_entry endpoint" where
  "api_RecordTimeEntry a cast_int c body =
     bind (shape_of body) (\<lambda>r.
     bind (date_in ''workDate must be YYYY-MM-DD'' (trim_space (tq_date r))) (\<lambda>d.
     let hours = decOrZero a (tq_hours r); rate = decOrZero a (tq_rate r); given = decOrZero a (tq_amount r) in
     bind (answer time_entry_refusal (CreateTimeEntry (env_for a c) cast_int
       \<lparr>te_ref = trim_space (tq_ref r), te_customer = trim_space (tq_customer r),
        te_employee = trim_space (tq_employee r), te_project = trim_space (tq_project r), te_hours = hours,
        te_rate = rate, te_amount = (if given \<le> 0 then hours * rate else given), te_date = d,
        te_currency = trim_space (tq_currency r), te_notes = trim_space (tq_notes r)\<rparr>)) (\<lambda>e.
     ok (201, e))))"

section \<open>Payment intents\<close>

record intent_request =
  nq_item :: string
  nq_amount :: string
  nq_currency :: string

definition api_CreatePaymentIntent :: "api \<Rightarrow> caller \<Rightarrow> intent_request option \<Rightarrow> payment_intent endpoint" where
  "api_CreatePaymentIntent a c body =
     bind (body_of (\<lambda>r. nq_item r \<noteq> '''' \<and> nq_amount r \<noteq> '''') body) (\<lambda>r.
     bind (uuid_of a (nq_item r) ''openItemId must be a UUID'') (\<lambda>i.
     bind (payment_amount a (nq_amount r)) (\<lambda>amount.
     bind (answer (\<lambda>e. if e = ErrOpenItemNotFound then (404, Says ''open item not found'')
             else (500, Says ''could not create payment intent''))
       (CreatePaymentIntent (env_for a c) (api_show_uuid a) i amount (nq_currency r))) (\<lambda>intent.
     ok (201, intent)))))"

definition api_ConfirmPaymentIntent :: "api \<Rightarrow> caller \<Rightarrow> string \<Rightarrow> payment_intent option endpoint" where
  "api_ConfirmPaymentIntent a c raw =
     bind (uuid_of a raw ''invalid id'') (\<lambda>i.
     bind (answer (\<lambda>e. if e = ErrPaymentIntentNotFound then (404, Says ''payment intent not found'')
             else if e = ErrPaymentExceeds then (422, Says ''payment exceeds open balance'')
             else (500, Says ''could not confirm payment intent''))
       (ConfirmPaymentIntent (env_for a c) (api_show_uuid a) i (actor_of a c))) (\<lambda>intent.
     ok (200, intent)))"

section \<open>Invoices and bills of older clients\<close>

text \<open>\<open>strconv.FormatFloat(x, 'f', 2, 64)\<close> on the exact value of the number: ties go to the even cent.\<close>

definition half_even :: "rat \<Rightarrow> int" where
  "half_even x =
     (let f = \<lfloor>x\<rfloor>; r = x - of_int f in
      if r < 1 / 2 then f else if r > 1 / 2 then f + 1 else if even f then f else f + 1)"

definition format_cents :: "rat \<Rightarrow> string" where
  "format_cents x =
     (let n = half_even (abs x * 100) in
      (if x < 0 then ''-'' else '''') @ show_int (n div 100) @ ''.'' @ pad_left 2 (show_int (n mod 100)))"

text \<open>Seconds since 1970 on the clock, which counts nanoseconds from the first year.\<close>

definition unix_seconds :: "time \<Rightarrow> int" where
  "unix_seconds t = t div 1000000000 - 62135596800"

record legacy_input =
  ln_party :: string
  ln_total :: rat
  ln_due :: string

record legacy_document =
  ld_no :: string
  ld_due :: "date option"
  ld_party :: string
  ld_total :: rat
  ld_balance :: rat
  ld_status :: string

text \<open>\<open>toLegacyInvoice\<close>, \<open>toLegacyBill\<close>; the day of creation is not a column of the model.\<close>

definition to_legacy :: "api \<Rightarrow> direction \<Rightarrow> open_item \<Rightarrow> legacy_document" where
  "to_legacy a d i =
     \<lparr>ld_no = oi_document_ref i, ld_due = oi_due i, ld_party = oi_party_ref i, ld_total = oi_amount i,
      ld_balance = oi_amount i - oi_paid i,
      ld_status = (case d of AR \<Rightarrow> MapInvoiceStatus | AP \<Rightarrow> MapBillStatus) (api_env a) i\<rparr>"

definition legacy_number :: "api \<Rightarrow> string \<Rightarrow> string \<Rightarrow> string" where
  "legacy_number a prefix given =
     (if given = '''' then prefix @ show_int (unix_seconds (env_now (api_env a))) else given)"

definition legacy_bound :: "legacy_input \<Rightarrow> bool" where
  "legacy_bound r \<longleftrightarrow> ln_party r \<noteq> '''' \<and> ln_total r \<noteq> 0"

definition CreateInvoiceLegacy :: "api \<Rightarrow> caller \<Rightarrow> string \<Rightarrow> legacy_input option \<Rightarrow> legacy_document endpoint" where
  "CreateInvoiceLegacy a c given body =
     bind (body_of legacy_bound body) (\<lambda>r.
     let no = legacy_number a ''INV-'' given; amount = format_cents (ln_total r) in
     bind (optional_date (ln_due r) ''invalid due date'') (\<lambda>due.
     bind (answer (says 409 ''could not create invoice'')
       (CreateARItem (env_for a c) (ln_party r) no '''' amount ''UGX'' due
          (saleCompletedOutbox a no (ln_party r) amount ''UGX''))) (\<lambda>item.
     ok (201, to_legacy a AR item))))"

definition CreateBillLegacy :: "api \<Rightarrow> caller \<Rightarrow> string \<Rightarrow> legacy_input option \<Rightarrow> legacy_document endpoint" where
  "CreateBillLegacy a c given body =
     bind (body_of legacy_bound body) (\<lambda>r.
     let no = legacy_number a ''BILL-'' given; amount = format_cents (ln_total r) in
     bind (optional_date (ln_due r) ''invalid due date'') (\<lambda>due.
     bind (answer (says 409 ''could not create bill'')
       (CreateAPItem (env_for a c) (ln_party r) no '''' amount ''UGX'' due
          (api_invoicePostedOutbox a no (ln_party r) amount ''UGX''))) (\<lambda>item.
     ok (201, to_legacy a AP item))))"

text \<open>None: not a status; \<open>Some None\<close>: the status is left alone.\<close>

definition normalizeOpenItemStatus :: "string option \<Rightarrow> string option option" where
  "normalizeOpenItemStatus raw =
     (case raw of
        None \<Rightarrow> Some None
      | Some r \<Rightarrow>
          let st = to_lower (trim_space r) in
          if st = '''' then Some None
          else if st \<in> {''open'', ''partial'', ''closed''} then Some (Some st) else None)"

text \<open>Every error of the update comes without an item, so all of them answer 404.\<close>

record legacy_patch =
  lx_due :: "string option"
  lx_party :: "string option"
  lx_status :: "string option"

definition patch_legacy ::
  "api \<Rightarrow> direction \<Rightarrow> string \<Rightarrow> legacy_patch option \<Rightarrow> legacy_document endpoint" where
  "patch_legacy a d no body =
     bind (body_of (\<lambda>_. True) body) (\<lambda>p.
     bind (optional_date (case lx_due p of None \<Rightarrow> '''' | Some x \<Rightarrow> x) ''invalid due date'') (\<lambda>due.
     case normalizeOpenItemStatus (lx_status p) of
       None \<Rightarrow> fail (400, Says ''status must be open, partial, or closed'')
     | Some st \<Rightarrow>
         bind (answer (\<lambda>e. (404, Says ''not found''))
           ((case d of AR \<Rightarrow> UpdateARByDocumentRef | AP \<Rightarrow> UpdateAPByDocumentRef) no (lx_party p) None due st)) (\<lambda>item.
         ok (200, to_legacy a d item))))"

definition PatchInvoiceLegacy :: "api \<Rightarrow> string \<Rightarrow> legacy_patch option \<Rightarrow> legacy_document endpoint" where
  "PatchInvoiceLegacy a = patch_legacy a AR"

definition PatchBillLegacy :: "api \<Rightarrow> string \<Rightarrow> legacy_patch option \<Rightarrow> legacy_document endpoint" where
  "PatchBillLegacy a = patch_legacy a AP"

definition delete_legacy :: "direction \<Rightarrow> string \<Rightarrow> string \<Rightarrow> unit endpoint" where
  "delete_legacy d refused no =
     bind (answer (\<lambda>e. if e = ErrInvoiceNotFound \<or> e = ErrOpenItemNotFound then (404, Says ''not found'')
             else (409, Says refused))
       ((case d of AR \<Rightarrow> DeleteAROpenItem | AP \<Rightarrow> DeleteAPOpenItem) no)) (\<lambda>_.
     ok (204, ()))"

definition DeleteInvoiceLegacy :: "string \<Rightarrow> unit endpoint" where
  "DeleteInvoiceLegacy = delete_legacy AR ''invoice cannot be deleted''"

definition DeleteBillLegacy :: "string \<Rightarrow> unit endpoint" where
  "DeleteBillLegacy = delete_legacy AP ''bill cannot be deleted''"

section \<open>Pages\<close>

text \<open>\<open>strconv.Atoi\<close> on the digits it accepts; the error is dropped and leaves 0.\<close>

definition atoi_or_zero :: "string \<Rightarrow> int" where
  "atoi_or_zero raw =
     (case raw of
        [] \<Rightarrow> 0
      | x # r \<Rightarrow>
          let neg = (x = CHR ''-''); ds = (if neg \<or> x = CHR ''+'' then r else raw);
              n = (if neg then - digits_value ds else digits_value ds) in
          if ds = [] \<or> \<not> list_all is_digit ds then 0
          else if n > 9223372036854775807 then 9223372036854775807
          else if n < - 9223372036854775808 then - 9223372036854775808 else n)"

definition pagination :: "string option \<Rightarrow> string option \<Rightarrow> int \<times> int" where
  "pagination limit offset =
     (atoi_or_zero (case limit of None \<Rightarrow> ''50'' | Some x \<Rightarrow> x),
      atoi_or_zero (case offset of None \<Rightarrow> ''0'' | Some x \<Rightarrow> x))"

text \<open>The number of the page a listing reports; None: the division by zero panics.\<close>

definition page_number :: "int \<Rightarrow> int \<Rightarrow> int option" where
  "page_number limit offset =
     (if limit = 0 then None else Some (sgn offset * sgn limit * (abs offset div abs limit) + 1))"

section \<open>Certificates, fees and conversions\<close>

record wht_request =
  xq_ref :: string
  xq_customer :: string
  xq_invoice :: string
  xq_authority :: string
  xq_amount :: string
  xq_date :: string
  xq_currency :: string
  xq_notes :: string

definition api_RecordWHTReceipt ::
  "api \<Rightarrow> (string \<Rightarrow> int option) \<Rightarrow> caller \<Rightarrow> wht_request option \<Rightarrow> wht_receipt endpoint" where
  "api_RecordWHTReceipt a cast_int c body =
     bind (shape_of body) (\<lambda>r.
     bind (amount_where a (\<lambda>x. x > 0) ''amount must be a positive withheld amount'' (trim_space (xq_amount r))) (\<lambda>x.
     bind (date_in ''receiptDate must be YYYY-MM-DD'' (trim_space (xq_date r))) (\<lambda>d.
     bind (answer (conflict_or ''a WHT receipt with this certificate number already exists''
             ''the receipt period is closed'' ''could not record withholding-tax receipt'')
       (RecordWHTReceipt (env_for a c) cast_int
         \<lparr>wi_ref = trim_space (xq_ref r), wi_customer = trim_space (xq_customer r),
          wi_invoice = trim_space (xq_invoice r), wi_authority = trim_space (xq_authority r), wi_amount = x,
          wi_date = time_of_date d, wi_currency = trim_space (xq_currency r), wi_notes = trim_space (xq_notes r)\<rparr>)) (\<lambda>w.
     ok (201, w)))))"

record fee_request =
  kq_ref :: string
  kq_customer :: string
  kq_invoice :: string
  kq_rate :: string
  kq_amount :: string
  kq_date :: string
  kq_currency :: string
  kq_notes :: string

definition api_RecordLateFee ::
  "api \<Rightarrow> (string \<Rightarrow> int option) \<Rightarrow> caller \<Rightarrow> fee_request option \<Rightarrow> late_fee endpoint" where
  "api_RecordLateFee a cast_int c body =
     bind (shape_of body) (\<lambda>r.
     bind (amount_where a (\<lambda>x. x > 0) ''amount must be a positive fee amount'' (trim_space (kq_amount r))) (\<lambda>x.
     bind (if trim_space (kq_rate r) = '''' then ok 0
           else amount_where a (\<lambda>x. 0 \<le> x) ''rate must be a non-negative percentage'' (trim_space (kq_rate r))) (\<lambda>rate.
     bind (date_in ''feeDate must be YYYY-MM-DD'' (trim_space (kq_date r))) (\<lambda>d.
     bind (answer (conflict_or ''a late fee with this reference already exists''
             ''the fee period is closed'' ''could not record late fee'')
       (RecordLateFee (env_for a c) cast_int
         \<lparr>fe_ref = trim_space (kq_ref r), fe_customer = trim_space (kq_customer r),
          fe_invoice = trim_space (kq_invoice r), fe_rate = rate, fe_amount = x, fe_date = time_of_date d,
          fe_currency = trim_space (kq_currency r), fe_notes = trim_space (kq_notes r)\<rparr>)) (\<lambda>fee.
     ok (201, fee))))))"

record conversion_request =
  jq_ref :: string
  jq_from :: string
  jq_from_currency :: string
  jq_from_amount :: string
  jq_to :: string
  jq_to_currency :: string
  jq_rate :: string
  jq_converted :: string
  jq_fees :: string
  jq_gain_loss :: string
  jq_date :: string
  jq_notes :: string

definition api_RecordFXConversion ::
  "api \<Rightarrow> (string \<Rightarrow> int option) \<Rightarrow> caller \<Rightarrow> conversion_request option \<Rightarrow> fx_conversion endpoint" where
  "api_RecordFXConversion a cast_int c body =
     bind (shape_of body) (\<lambda>r.
     bind (require (decOrZero a (jq_from_amount r) > 0) (400, Says ''fromAmount must be a positive source amount'')) (\<lambda>_.
     bind (date_in ''conversionDate must be YYYY-MM-DD'' (trim_space (jq_date r))) (\<lambda>d.
     bind (answer (\<lambda>e. if is_unique_violation e then (409, Says ''a conversion with this reference already exists'')
             else (500, Says ''could not record FX conversion''))
       (RecordFXConversion (env_for a c) cast_int
         \<lparr>ci_ref = trim_space (jq_ref r), ci_from = trim_space (jq_from r),
          ci_from_currency = trim_space (jq_from_currency r), ci_from_amount = decOrZero a (jq_from_amount r),
          ci_to = trim_space (jq_to r), ci_to_currency = trim_space (jq_to_currency r),
          ci_rate = decOrZero a (jq_rate r), ci_converted = decOrZero a (jq_converted r),
          ci_fees = decOrZero a (jq_fees r), ci_gain_loss = trim_space (jq_gain_loss r),
          ci_date = time_of_date d, ci_notes = trim_space (jq_notes r)\<rparr>)) (\<lambda>x.
     ok (201, x)))))"

section \<open>Entities and parties\<close>

text \<open>\<open>$5::numeric\<close>: an unreadable fraction is an error of the statement.\<close>

definition ownership_text :: "api \<Rightarrow> string \<Rightarrow> rat action" where
  "ownership_text a raw =
     (case env_parse (api_env a) raw of
        None \<Rightarrow> fail (ErrText ''invalid input syntax for type numeric'') | Some x \<Rightarrow> ok x)"

record entity_request =
  eq_code :: string
  eq_name :: string
  eq_base :: string
  eq_parent :: string
  eq_owned :: string

definition api_CreateEntity :: "api \<Rightarrow> caller \<Rightarrow> entity_request option \<Rightarrow> entity_row endpoint" where
  "api_CreateEntity a c body =
     bind (body_of (\<lambda>r. eq_code r \<noteq> '''' \<and> eq_name r \<noteq> '''') body) (\<lambda>r.
     bind (optional_uuid a (eq_parent r) ''parentId must be a UUID'') (\<lambda>parent.
     let owned = trim_space (eq_owned r) in
     bind (answer (says 409 ''could not create entity'')
       (bind (if owned = '''' then ok None else bind (ownership_text a owned) (\<lambda>x. ok (Some x))) (\<lambda>x.
        CreateEntity (env_for a c) (to_upper (eq_code r)) (eq_name r) (to_upper (eq_base r)) parent x))) (\<lambda>e.
     ok (201, e))))"

definition api_SetEntityOwnership :: "api \<Rightarrow> caller \<Rightarrow> string \<Rightarrow> string option \<Rightarrow> entity_row endpoint" where
  "api_SetEntityOwnership a c raw body =
     bind (uuid_of a raw ''invalid entity id'') (\<lambda>i.
     bind (body_of (\<lambda>x. x \<noteq> '''') body) (\<lambda>owned.
     bind (answer (says 500 ''could not update ownership'')
       (bind (ownership_text a (trim_space owned)) (\<lambda>x. SetEntityOwnership (env_for a c) i x))) (\<lambda>e.
     case e of None \<Rightarrow> fail (404, Says ''entity not found'') | Some row \<Rightarrow> ok (200, row))))"

record party_request =
  uq_code :: string
  uq_name :: string
  uq_email :: string
  uq_phone :: string
  uq_currency :: string

definition party_bound :: "party_request \<Rightarrow> bool" where
  "party_bound r \<longleftrightarrow> uq_code r \<noteq> '''' \<and> uq_name r \<noteq> ''''"

text \<open>\<open>topic\<close>: the master-data topic, empty when vendor synchronisation is off.\<close>

definition api_CreateCustomer :: "api \<Rightarrow> string \<Rightarrow> caller \<Rightarrow> party_request option \<Rightarrow> party endpoint" where
  "api_CreateCustomer a topic c body =
     bind (body_of party_bound body) (\<lambda>r.
     bind (answer (says 409 ''could not create customer'')
       (CreateCustomer (env_for a c) (api_show_uuid a) topic (to_upper (trim_space (uq_code r))) (trim_space (uq_name r))
          (trim_space (uq_email r)) (trim_space (uq_phone r)) (to_upper (trim_space (uq_currency r))))) (\<lambda>p.
     ok (201, p)))"

definition api_CreateVendor :: "api \<Rightarrow> string \<Rightarrow> caller \<Rightarrow> party_request option \<Rightarrow> party endpoint" where
  "api_CreateVendor a topic c body =
     bind (body_of party_bound body) (\<lambda>r.
     bind (answer (says 409 ''could not create vendor'')
       (CreateVendor (env_for a c) (api_show_uuid a) topic (to_upper (trim_space (uq_code r))) (trim_space (uq_name r))
          (trim_space (uq_email r)) (trim_space (uq_phone r)) (to_upper (trim_space (uq_currency r))))) (\<lambda>p.
     ok (201, p)))"

end
