(* ===== verification/Pos.thy ===== *)
theory Pos
  imports Ledger_Api
begin

text \<open>
  Ingest of till receipts (\<open>handlers/pos_ingest.go\<close>): the postings of a sale or a return, one booking per
  receipt keyed on its reference, and a batch that reports every receipt on its own.
\<close>

section \<open>Receipts\<close>

record pos_receipt =
  px_reference :: string
  px_type :: string
  px_gross :: string
  px_vat :: string
  px_tender :: string
  px_currency :: string
  px_occurred :: string

record pos_batch =
  pb_terminal :: string
  pb_receipts :: "pos_receipt list"

datatype pos_status = PosPosted | PosDuplicate | PosRejected

record pos_result =
  ps_reference :: string
  ps_status :: pos_status
  ps_entry :: "id option"
  ps_error :: "message option"

text \<open>The account of the tender: the drawer, or the clearing account of the acquirer.\<close>

definition pos_tender_account :: "string \<Rightarrow> string" where
  "pos_tender_account tender =
     (if to_lower (trim_space tender) \<in> {''card'', ''mobile'', ''momo'', ''mobile_money''} then ''1050'' else ''1000'')"

definition pos_return_lines :: "string \<Rightarrow> rat \<Rightarrow> rat \<Rightarrow> line_input list" where
  "pos_return_lines tender gross vat =
     [dr ''4000'' (gross - vat) ''POS return'']
     @ (if vat > 0 then [dr ''2100'' vat ''POS return output VAT''] else [])
     @ [cr tender gross ''POS refund'']"

definition pos_sale_lines :: "string \<Rightarrow> rat \<Rightarrow> rat \<Rightarrow> line_input list" where
  "pos_sale_lines tender gross vat =
     [dr tender gross ''POS takings'', cr ''4000'' (gross - vat) ''POS revenue'']
     @ (if vat > 0 then [cr ''2100'' vat ''POS output VAT''] else [])"

definition posLines :: "env \<Rightarrow> pos_receipt \<Rightarrow> string + line_input list" where
  "posLines env r =
     (case env_parse env (trim_space (px_gross r)) of
        None \<Rightarrow> Inl ''gross must be a positive amount''
      | Some gross \<Rightarrow>
          if gross \<le> 0 then Inl ''gross must be a positive amount''
          else case (if trim_space (px_vat r) = '''' then Some 0 else env_parse env (trim_space (px_vat r))) of
                 None \<Rightarrow> Inl ''vat is not a number''
               | Some vat \<Rightarrow>
                   if vat < 0 \<or> vat \<ge> gross then Inl ''vat must be less than gross''
                   else Inr ((if equal_fold (trim_space (px_type r)) ''return'' then pos_return_lines else pos_sale_lines)
                               (pos_tender_account (px_tender r)) gross vat))"

text \<open>An unreadable time is the zero time: the entry is dated on arrival.\<close>

definition parsePOSTime :: "string \<Rightarrow> time" where
  "parsePOSTime raw =
     (let x = trim_space raw in
      if x = '''' then 0 else case parse_rfc3339 x of None \<Rightarrow> 0 | Some t \<Rightarrow> t)"

definition pos_description :: "string \<Rightarrow> pos_receipt \<Rightarrow> string" where
  "pos_description terminal r =
     (let kind = to_lower (trim_space (px_type r)) in
      ''POS '' @ (if kind = '''' then ''sale'' else kind) @ '' '' @ em_dash @ '' '' @ trim_space (px_reference r)
      @ (if terminal = '''' then '''' else '' ('' @ terminal @ '')''))"

definition pos_event :: "string \<Rightarrow> pos_receipt \<Rightarrow> event_ref" where
  "pos_event terminal r =
     \<lparr>er_id = trim_space (px_reference r), er_type = ''pos.receipt'', er_source = ''iag.pos'',
      er_correlation = terminal, er_occurred = parsePOSTime (px_occurred r)\<rparr>"

section \<open>Ingest\<close>

definition pos_outcome :: "string \<Rightarrow> err + journal option \<Rightarrow> pos_result" where
  "pos_outcome ref x =
     (case x of
        Inl e \<Rightarrow>
          if e = ErrDuplicateEvent
          then \<lparr>ps_reference = ref, ps_status = PosDuplicate, ps_entry = None, ps_error = None\<rparr>
          else \<lparr>ps_reference = ref, ps_status = PosRejected, ps_entry = None, ps_error = Some (ErrorOf e)\<rparr>
      | Inr j \<Rightarrow> \<lparr>ps_reference = ref, ps_status = PosPosted,
                 ps_entry = map_option (e_id \<circ> j_entry) j, ps_error = None\<rparr>)"

definition ingestOnePOSReceipt :: "env \<Rightarrow> string \<Rightarrow> pos_receipt \<Rightarrow> db \<Rightarrow> pos_result \<times> db" where
  "ingestOnePOSReceipt env terminal r s =
     (let ref = trim_space (px_reference r);
          reject = (\<lambda>msg. (\<lparr>ps_reference = ref, ps_status = PosRejected, ps_entry = None, ps_error = Some (Says msg)\<rparr>, s)) in
      if ref = '''' then reject ''reference is required''
      else case posLines env r of
        Inl msg \<Rightarrow> reject msg
      | Inr ls \<Rightarrow>
          (case BookFromEvent env (pos_event terminal r) (pos_description terminal r) (trim_space (px_currency r)) ls s of
             (x, t) \<Rightarrow> (pos_outcome ref x, t)))"

fun ingest_receipts :: "env \<Rightarrow> string \<Rightarrow> pos_receipt list \<Rightarrow> db \<Rightarrow> pos_result list \<times> db" where
  "ingest_receipts env terminal [] s = ([], s)"
| "ingest_receipts env terminal (r # rs) s =
     (let (x, t) = ingestOnePOSReceipt env terminal r s; (xs, u) = ingest_receipts env terminal rs t
      in (x # xs, u))"

record pos_report =
  pp_terminal :: string
  pp_posted :: nat
  pp_duplicates :: nat
  pp_rejected :: nat
  pp_results :: "pos_result list"

definition pos_count :: "pos_status \<Rightarrow> pos_result list \<Rightarrow> nat" where
  "pos_count st xs = length (filter (\<lambda>x. ps_status x = st) xs)"

definition IngestPOSReceipts :: "api \<Rightarrow> caller \<Rightarrow> pos_batch option \<Rightarrow> pos_report endpoint" where
  "IngestPOSReceipts a c body =
     bind (body_of (\<lambda>b. pb_receipts b \<noteq> []) body) (\<lambda>b s.
     let terminal = trim_space (pb_terminal b);
         (xs, t) = ingest_receipts (env_for a c) terminal (pb_receipts b) s in
     (Inr (200, \<lparr>pp_terminal = terminal, pp_posted = pos_count PosPosted xs,
                 pp_duplicates = pos_count PosDuplicate xs, pp_rejected = pos_count PosRejected xs,
                 pp_results = xs\<rparr>), t))"

section \<open>Facts\<close>

lemma posLines_balanced:
  assumes "posLines env r = Inr ls"
  shows "total_debit ls = total_credit ls" "validateBalance ls = None"
  using assms
  by (auto simp: posLines_def pos_return_lines_def pos_sale_lines_def validateBalance_None_iff
      split: option.splits if_splits)

end
