(* ===== verification/App_Store.thy ===== *)
theory App_Store
  imports Access Event_Codec
begin

text \<open>
  The app-shell store: JSON documents under a namespace and a key, tenant-wide or private to a user
  (\<open>appkv/appkv.go\<close>, table \<open>app_kv\<close> of migration 076), and its endpoints (\<open>handlers/appshell.go\<close>). Whether
  a body is JSON and the normal form JSONB keeps of it are parameters.
\<close>

section \<open>Scopes\<close>

datatype scope = ScopeGlobal | ScopeUser

definition namespaceScope :: "(string \<times> scope) list" where
  "namespaceScope =
     [(''settings'', ScopeGlobal), (''request-email-contacts'', ScopeGlobal), (''drafts'', ScopeUser),
      (''push'', ScopeUser), (''kv'', ScopeUser)]"

definition ScopeFor :: "string \<Rightarrow> scope option" where
  "ScopeFor ns = map_of namespaceScope (trim_space ns)"

definition IsGlobal :: "string \<Rightarrow> bool" where
  "IsGlobal ns \<longleftrightarrow> ScopeFor ns = Some ScopeGlobal"

section \<open>The table\<close>

record doc_row =
  kv_scope :: scope
  kv_owner :: string
  kv_namespace :: string
  kv_key :: string
  kv_value :: string
  kv_at :: time
  kv_by :: string

type_synonym store = "doc_row list"

datatype store_err =
    KvNotFound | KvInvalidScope | KvUnknownNamespace string | KvCheckViolation

type_synonym 'a store_action = "(store, store_err, 'a) act"

text \<open>The primary key.\<close>

definition doc_key :: "doc_row \<Rightarrow> scope \<times> string \<times> string \<times> string" where
  "doc_key r = (kv_scope r, kv_owner r, kv_namespace r, kv_key r)"

text \<open>\<open>app_kv_owner_matches_scope\<close>\<close>

definition owner_matches_scope :: "doc_row \<Rightarrow> bool" where
  "owner_matches_scope r \<longleftrightarrow>
     (case kv_scope r of ScopeUser \<Rightarrow> kv_owner r \<noteq> '''' | ScopeGlobal \<Rightarrow> kv_owner r = '''')"

definition ownerFor :: "scope \<Rightarrow> string \<Rightarrow> store_err + string" where
  "ownerFor sc user =
     (case sc of
        ScopeUser \<Rightarrow> if trim_space user = '''' then Inl KvInvalidScope else Inr user
      | ScopeGlobal \<Rightarrow> Inr '''')"

text \<open>The scope and the owner of a call, which every operation of the store resolves first.\<close>

definition resolve_scope :: "string \<Rightarrow> string \<Rightarrow> (scope \<times> string) store_action" where
  "resolve_scope ns user =
     (case ScopeFor ns of
        None \<Rightarrow> fail (KvUnknownNamespace ns)
      | Some sc \<Rightarrow> (case ownerFor sc user of Inl e \<Rightarrow> fail e | Inr owner \<Rightarrow> ok (sc, owner)))"

definition upsert_doc :: "doc_row \<Rightarrow> unit store_action" where
  "upsert_doc r = (\<lambda>s.
     if \<not> owner_matches_scope r then (Inl KvCheckViolation, s)
     else if doc_key r \<in> doc_key ` set s
     then (Inr (), update_where (\<lambda>x. doc_key x = doc_key r)
             (\<lambda>x. x\<lparr>kv_value := kv_value r, kv_at := kv_at r, kv_by := kv_by r\<rparr>) s)
     else (Inr (), s @ [r]))"

definition kv_get :: "string \<Rightarrow> string \<Rightarrow> string \<Rightarrow> doc_row store_action" where
  "kv_get ns key user =
     bind (resolve_scope ns user) (\<lambda>(sc, owner).
     bind (gets (row_by doc_key (sc, owner, ns, key))) (\<lambda>d.
     case d of None \<Rightarrow> fail KvNotFound | Some r \<Rightarrow> ok r))"

definition kv_list :: "string \<Rightarrow> string \<Rightarrow> doc_row list store_action" where
  "kv_list ns user =
     bind (resolve_scope ns user) (\<lambda>(sc, owner).
     gets (\<lambda>s. sort_key (\<lambda>r. map (of_char :: char \<Rightarrow> nat) (kv_key r))
       (filter (\<lambda>r. kv_scope r = sc \<and> kv_owner r = owner \<and> kv_namespace r = ns) s)))"

definition kv_put ::
  "(string \<Rightarrow> string) \<Rightarrow> time \<Rightarrow> string \<Rightarrow> string \<Rightarrow> string \<Rightarrow> string \<Rightarrow> string \<Rightarrow> doc_row store_action" where
  "kv_put jsonb now ns key value user actor =
     bind (resolve_scope ns user) (\<lambda>(sc, owner).
     let v = (if value = '''' then ''null'' else value);
         r = \<lparr>kv_scope = sc, kv_owner = owner, kv_namespace = ns, kv_key = key, kv_value = jsonb v,
              kv_at = now, kv_by = actor\<rparr>
     in bind (upsert_doc r) (\<lambda>_. ok r))"

definition kv_delete :: "string \<Rightarrow> string \<Rightarrow> string \<Rightarrow> unit store_action" where
  "kv_delete ns key user =
     bind (resolve_scope ns user) (\<lambda>(sc, owner).
     modify (filter (\<lambda>r. doc_key r \<noteq> (sc, owner, ns, key))))"

section \<open>The endpoints\<close>

type_synonym 'a store_endpoint = "(store, refusal, nat \<times> 'a) act"

definition maxAppKVBytes :: nat where
  "maxAppKVBytes = 256 * 1024"

definition store_answer :: "(store_err \<Rightarrow> refusal) \<Rightarrow> 'a store_action \<Rightarrow> (store, refusal, 'a) act" where
  "store_answer f m = (\<lambda>s. case m s of (Inl e, t) \<Rightarrow> (Inl (f e), t) | (Inr a, t) \<Rightarrow> (Inr a, t))"

text \<open>\<open>appKVFailure\<close>; that the table is missing is not modelled.\<close>

definition appKVFailure :: "string \<Rightarrow> store_err \<Rightarrow> refusal" where
  "appKVFailure msg = (\<lambda>_. (500, Says msg))"

text \<open>\<open>via_global\<close>: the route is one of \<open>/app/global/\<close>.\<close>

definition resolveNamespace :: "bool \<Rightarrow> string \<Rightarrow> refusal + string" where
  "resolveNamespace via_global raw =
     (let ns = trim_space raw in
      case ScopeFor ns of
        None \<Rightarrow> Inl (404, Says (''unknown namespace '' @ ns))
      | Some sc \<Rightarrow> if via_global \<noteq> (sc = ScopeGlobal)
                  then Inl (404, Says (''namespace '' @ ns @ '' is not served on this path'')) else Inr ns)"

definition appKVUser :: "(id \<Rightarrow> string) \<Rightarrow> caller \<Rightarrow> string \<Rightarrow> refusal + string" where
  "appKVUser show_uuid c ns =
     (if IsGlobal ns then Inr ''''
      else case portalUserID c of
             None \<Rightarrow> Inl (401, Says ''a signed-in user is required for this namespace'')
           | Some i \<Rightarrow> Inr (show_uuid i))"

text \<open>The namespace and the user of a request; a store that is not configured answers 503 before.\<close>

definition kv_request :: "(id \<Rightarrow> string) \<Rightarrow> caller \<Rightarrow> bool \<Rightarrow> string \<Rightarrow> (store, refusal, string \<times> string) act" where
  "kv_request show_uuid c via_global raw =
     (case resolveNamespace via_global raw of
        Inl e \<Rightarrow> fail e
      | Inr ns \<Rightarrow> (case appKVUser show_uuid c ns of Inl e \<Rightarrow> fail e | Inr user \<Rightarrow> ok (ns, user)))"

definition ListAppKV :: "(id \<Rightarrow> string) \<Rightarrow> caller \<Rightarrow> bool \<Rightarrow> string \<Rightarrow> doc_row list store_endpoint" where
  "ListAppKV show_uuid c via_global raw =
     bind (kv_request show_uuid c via_global raw) (\<lambda>(ns, user).
     bind (store_answer (appKVFailure (''could not list '' @ ns)) (kv_list ns user)) (\<lambda>docs. ok (200, docs)))"

definition GetAppKV :: "(id \<Rightarrow> string) \<Rightarrow> caller \<Rightarrow> bool \<Rightarrow> string \<Rightarrow> string \<Rightarrow> doc_row store_endpoint" where
  "GetAppKV show_uuid c via_global raw key =
     bind (kv_request show_uuid c via_global raw) (\<lambda>(ns, user).
     bind (store_answer (\<lambda>e. if e = KvNotFound then (404, Says ''not found'')
             else appKVFailure (''could not read '' @ ns) e) (kv_get ns key user)) (\<lambda>d. ok (200, d)))"

definition PutAppKV ::
  "(id \<Rightarrow> string) \<Rightarrow> (string \<Rightarrow> bool) \<Rightarrow> (string \<Rightarrow> string) \<Rightarrow> time \<Rightarrow> caller \<Rightarrow> bool \<Rightarrow> string \<Rightarrow> string \<Rightarrow> string \<Rightarrow>
   doc_row store_endpoint" where
  "PutAppKV show_uuid valid_json jsonb now c via_global raw key body =
     bind (kv_request show_uuid c via_global raw) (\<lambda>(ns, user).
     bind (require (length body \<le> maxAppKVBytes) (413, Says ''document exceeds 256 KB'')) (\<lambda>_.
     bind (require (valid_json body) (400, Says ''body must be JSON'')) (\<lambda>_.
     bind (store_answer (appKVFailure (''could not save '' @ ns))
             (kv_put jsonb now ns key body user (chainActor show_uuid c))) (\<lambda>d. ok (200, d)))))"

definition DeleteAppKV :: "(id \<Rightarrow> string) \<Rightarrow> caller \<Rightarrow> bool \<Rightarrow> string \<Rightarrow> string \<Rightarrow> unit store_endpoint" where
  "DeleteAppKV show_uuid c via_global raw key =
     bind (kv_request show_uuid c via_global raw) (\<lambda>(ns, user).
     bind (store_answer (appKVFailure (''could not delete from '' @ ns)) (kv_delete ns key user)) (\<lambda>_. ok (204, ())))"

section \<open>The contract of the store\<close>

text \<open>
  What a client relies on: a document that was put is got back, one that was deleted is not found,
  and an operation on one key leaves the documents of every other key alone. A \<open>slot\<close> is the
  resolved key of a call.
\<close>

locale document_store =
  fixes slot :: "'n \<Rightarrow> 'k \<Rightarrow> 'u \<Rightarrow> 'i option"
    and look :: "'s \<Rightarrow> 'i \<Rightarrow> 'd option"
    and put :: "'n \<Rightarrow> 'k \<Rightarrow> 'u \<Rightarrow> 'd \<Rightarrow> 's \<Rightarrow> 's"
    and del :: "'n \<Rightarrow> 'k \<Rightarrow> 'u \<Rightarrow> 's \<Rightarrow> 's"
  assumes put_look: "slot n k u = Some i \<Longrightarrow> look (put n k u d s) j = (if j = i then Some d else look s j)"
    and del_look: "slot n k u = Some i \<Longrightarrow> look (del n k u s) j = (if j = i then None else look s j)"
    and no_slot: "slot n k u = None \<Longrightarrow> put n k u d s = s" "slot n k u = None \<Longrightarrow> del n k u s = s"
begin

lemma put_get: "slot n k u = Some i \<Longrightarrow> look (put n k u d s) i = Some d"
  by (simp add: put_look)

lemma del_get: "slot n k u = Some i \<Longrightarrow> look (del n k u s) i = None"
  by (simp add: del_look)

lemma put_other: "slot n k u \<noteq> Some j \<Longrightarrow> look (put n k u d s) j = look s j"
  by (cases "slot n k u") (auto simp: put_look no_slot)

lemma del_other: "slot n k u \<noteq> Some j \<Longrightarrow> look (del n k u s) j = look s j"
  by (cases "slot n k u") (auto simp: del_look no_slot)

lemma put_put: "look (put n k u d (put n k u d' s)) j = look (put n k u d s) j"
  by (cases "slot n k u") (auto simp: put_look no_slot)

end

text \<open>The table provides the contract: a document is what a row holds beside its key.\<close>

definition doc_slot :: "string \<Rightarrow> string \<Rightarrow> string \<Rightarrow> (scope \<times> string \<times> string \<times> string) option" where
  "doc_slot ns key user =
     (case ScopeFor ns of
        None \<Rightarrow> None
      | Some sc \<Rightarrow> (case ownerFor sc user of Inl e \<Rightarrow> None | Inr owner \<Rightarrow> Some (sc, owner, ns, key)))"

definition look_doc :: "store \<Rightarrow> scope \<times> string \<times> string \<times> string \<Rightarrow> (string \<times> time \<times> string) option" where
  "look_doc s i = map_option (\<lambda>r. (kv_value r, kv_at r, kv_by r)) (row_by doc_key i s)"

definition put_doc :: "string \<Rightarrow> string \<Rightarrow> string \<Rightarrow> string \<times> time \<times> string \<Rightarrow> store \<Rightarrow> store" where
  "put_doc ns key user = (\<lambda>(value, now, actor) s. snd (kv_put (\<lambda>_. value) now ns key value user actor s))"

definition del_doc :: "string \<Rightarrow> string \<Rightarrow> string \<Rightarrow> store \<Rightarrow> store" where
  "del_doc ns key user s = snd (kv_delete ns key user s)"

fun row_at :: "scope \<times> string \<times> string \<times> string \<Rightarrow> string \<times> time \<times> string \<Rightarrow> doc_row" where
  "row_at (sc, owner, ns, key) (value, now, actor) =
     \<lparr>kv_scope = sc, kv_owner = owner, kv_namespace = ns, kv_key = key, kv_value = value, kv_at = now, kv_by = actor\<rparr>"

lemma doc_key_row_at [simp]: "doc_key (row_at i d) = i"
  by (cases i; cases d) (simp add: doc_key_def)

lemma row_by_look: "row_by doc_key i s = map_option (row_at i) (look_doc s i)"
proof (cases "row_by doc_key i s")
  case (Some r)
  then have "doc_key r = i" by (auto dest: row_by_Some_in)
  then have "row_at i (kv_value r, kv_at r, kv_by r) = r" by (auto simp: doc_key_def)
  with Some show ?thesis by (simp add: look_doc_def)
qed (simp add: look_doc_def)

lemma slot_owner: "doc_slot ns key user = Some i \<Longrightarrow> owner_matches_scope (row_at i d)"
  by (cases d) (auto simp: doc_slot_def ownerFor_def owner_matches_scope_def trim_space_def
      split: option.splits sum.splits scope.splits if_splits)

lemma resolve_scope_slot:
  "resolve_scope ns user =
     (case doc_slot ns key user of
        Some (sc, owner, n, k) \<Rightarrow> ok (sc, owner)
      | None \<Rightarrow> fail (if ScopeFor ns = None then KvUnknownNamespace ns else KvInvalidScope))"
  by (auto simp: resolve_scope_def doc_slot_def ownerFor_def split: option.split sum.split scope.split)

lemma doc_slot_key: "doc_slot ns key user = Some (sc, owner, n, k) \<Longrightarrow> n = ns \<and> k = key"
  by (auto simp: doc_slot_def split: option.splits sum.splits)

lemma kv_put_slot:
  assumes "doc_slot ns key user = Some i"
  shows "kv_put jsonb now ns key value user actor s =
    (let d = (jsonb (if value = '''' then ''null'' else value), now, actor) in
     (Inr (row_at i d), if i \<in> doc_key ` set s
        then update_where (\<lambda>x. doc_key x = i) (\<lambda>x. row_at i d) s else s @ [row_at i d]))"
proof -
  obtain sc owner where i: "i = (sc, owner, ns, key)"
    using assms doc_slot_key by (metis prod_cases4)
  have same: "update_where (\<lambda>x. doc_key x = i) (\<lambda>x. x\<lparr>kv_value := v, kv_at := t, kv_by := b\<rparr>) s =
      update_where (\<lambda>x. doc_key x = i) (\<lambda>x. row_at i (v, t, b)) s" for v t b
    by (auto simp: update_where_def i doc_key_def)
  show ?thesis
    using slot_owner [OF assms] same assms
    by (auto simp: kv_put_def resolve_scope_slot [of ns user key] i upsert_doc_def Let_def bind_apply doc_key_def)
qed

lemma row_by_replace:
  assumes "key r = i"
  shows "row_by key j (if i \<in> key ` set s then update_where (\<lambda>x. key x = i) (\<lambda>x. r) s else s @ [r]) =
    (if j = i then Some r else row_by key j s)"
proof -
  have upd: "row_by key j (update_where (\<lambda>x. key x = i) (\<lambda>x. r) s) =
      map_option (\<lambda>x. if key x = i then r else x) (row_by key j s)"
    by (rule row_by_update_where) (simp add: assms)
  have found: "j \<in> key ` set s \<longleftrightarrow> row_by key j s \<noteq> None" by (simp add: row_by_None_iff)
  show ?thesis
    using assms found upd by (cases "row_by key j s"; cases "j = i") (auto simp: row_by_append dest: row_by_Some_in)
qed

lemma look_put:
  assumes "doc_slot ns key user = Some i"
  shows "look_doc (snd (kv_put jsonb now ns key value user actor s)) j =
    (if j = i then Some (jsonb (if value = '''' then ''null'' else value), now, actor) else look_doc s j)"
proof -
  obtain v t b where d: "(jsonb (if value = '''' then ''null'' else value), now, actor) = (v, t, b)" by simp
  have "look_doc (snd (kv_put jsonb now ns key value user actor s)) j =
      map_option (\<lambda>r. (kv_value r, kv_at r, kv_by r)) (if j = i then Some (row_at i (v, t, b)) else row_by doc_key j s)"
    unfolding look_doc_def kv_put_slot [OF assms] Let_def d snd_conv
    by (subst row_by_replace) simp_all
  then show ?thesis unfolding d by (cases i) (simp add: look_doc_def)
qed

lemma look_delete:
  assumes "doc_slot ns key user = Some i"
  shows "look_doc (snd (kv_delete ns key user s)) j = (if j = i then None else look_doc s j)"
proof -
  have "row_by doc_key j (filter (\<lambda>r. doc_key r \<noteq> i) s) = (if j = i then None else row_by doc_key j s)"
    by (induction s) auto
  moreover obtain sc owner where "i = (sc, owner, ns, key)"
    using assms doc_slot_key by (metis prod_cases4)
  ultimately show ?thesis
    using assms by (simp add: kv_delete_def resolve_scope_slot [of ns user key] look_doc_def)
qed

interpretation docs: document_store doc_slot look_doc put_doc del_doc
proof unfold_locales
  fix n k u i d s j assume slot: "doc_slot n k u = Some i"
  show "look_doc (put_doc n k u d s) j = (if j = i then Some d else look_doc s j)"
    by (cases d) (simp add: put_doc_def look_put [OF slot])
  show "look_doc (del_doc n k u s) j = (if j = i then None else look_doc s j)"
    by (simp add: del_doc_def look_delete [OF slot])
next
  fix n k u d s assume slot: "doc_slot n k u = None"
  show "put_doc n k u d s = s"
    by (cases d) (simp add: put_doc_def kv_put_def resolve_scope_slot [of n u k] slot)
  show "del_doc n k u s = s"
    by (simp add: del_doc_def kv_delete_def resolve_scope_slot [of n u k] slot)
qed

lemma kv_put_doc:
  "snd (kv_put jsonb now ns key value user actor s) =
     put_doc ns key user (jsonb (if value = '''' then ''null'' else value), now, actor) s"
proof (cases "doc_slot ns key user")
  case (Some i)
  then show ?thesis by (simp add: put_doc_def kv_put_slot Let_def)
next
  case None
  then show ?thesis by (simp add: put_doc_def kv_put_def resolve_scope_slot [of ns user key])
qed

lemma kv_get_look:
  "kv_get ns key user s =
     (case doc_slot ns key user of
        None \<Rightarrow> (Inl (if ScopeFor ns = None then KvUnknownNamespace ns else KvInvalidScope), s)
      | Some i \<Rightarrow> (case look_doc s i of None \<Rightarrow> Inl KvNotFound | Some d \<Rightarrow> Inr (row_at i d), s))"
  by (auto simp: kv_get_def resolve_scope_slot [of ns user key] row_by_look bind_apply dest: doc_slot_key
      split: option.split)

end
