(* ===== verification/Requests.thy ===== *)
theory Requests
  imports Document_Api Pos App_Store
begin

text \<open>
  The API as a transition system: one rule of \<open>request_step\<close> per handler that changes the ledger, with
  whatever body and whatever the outcome, behind the middleware of \<open>api/router.go\<close> (\<open>serve\<close>). Every
  request stays within the steps of the service: what holds in its reachable states holds whatever is
  asked of the API.
\<close>

section \<open>Behind the middleware\<close>

definition serve ::
  "(string \<Rightarrow> (claims \<times> id) option) option \<Rightarrow> (string \<Rightarrow> id option) \<Rightarrow> string \<times> string \<Rightarrow> request \<Rightarrow>
   (caller \<Rightarrow> 'a endpoint) \<Rightarrow> 'a endpoint" where
  "serve verifier parse_uuid route rq handler =
     (case admit verifier parse_uuid route rq of Inl e \<Rightarrow> fail e | Inr c \<Rightarrow> handler c)"

section \<open>The handlers\<close>

inductive request_step :: "api \<Rightarrow> caller \<Rightarrow> db \<Rightarrow> db \<Rightarrow> bool" for a :: api and c :: caller where
  req_CreateChartAccount: "request_step a c s (snd (api_CreateChartAccount a x1 s))"
| req_UpdateChartAccount: "request_step a c s (snd (api_UpdateChartAccount a x1 x2 s))"
| req_DeleteChartAccount: "request_step a c s (snd (api_DeleteChartAccount a x1 s))"
| req_CreateJournalEntry: "request_step a c s (snd (api_CreateJournalEntry a c x1 s))"
| req_PostJournalEntry: "request_step a c s (snd (api_PostJournalEntry a c x1 s))"
| req_SupersedeEntries: "request_step a c s (snd (api_SupersedeEntries a c x1 s))"
| req_DeleteJournalEntry: "request_step a c s (snd (api_DeleteJournalEntry a x1 s))"
| req_ReverseJournalEntry: "request_step a c s (snd (api_ReverseJournalEntry a c x1 x2 s))"
| req_setPeriodStatus: "request_step a c s (snd (setPeriodStatus a c x1 x2 s))"
| req_CreateARItem: "request_step a c s (snd (api_CreateARItem a c x1 s))"
| req_CreateAPItem: "request_step a c s (snd (api_CreateAPItem a c x1 s))"
| req_applyPayment: "request_step a c s (snd (applyPayment a c x1 x2 x3 s))"
| req_SubmitApproval: "request_step a c s (snd (api_SubmitApproval a c x1 s))"
| req_decideApproval: "request_step a c s (snd (decideApproval a c x1 x2 x3 s))"
| req_createAdjustment: "request_step a c s (snd (createAdjustment a c x1 x2 x3 s))"
| req_CloseFiscalYear: "request_step a c s (snd (api_CloseFiscalYear a c x1 s))"
| req_UpsertExchangeRate: "request_step a c s (snd (api_UpsertExchangeRate a c x1 s))"
| req_RevalueFX: "request_step a c s (snd (api_RevalueFX a c x1 s))"
| req_SelfAssessReverseCharge: "request_step a c s (snd (api_SelfAssessReverseCharge a c x1 s))"
| req_RunECLProvision: "request_step a c s (snd (api_RunECLProvision a c x1 s))"
| req_WriteOffReceivable: "request_step a c s (snd (api_WriteOffReceivable a c x1 s))"
| req_RecoverReceivable: "request_step a c s (snd (api_RecoverReceivable a c x1 s))"
| req_CreateRevenueSchedule: "request_step a c s (snd (api_CreateRevenueSchedule a c x1 s))"
| req_RunRevenueRecognition: "request_step a c s (snd (api_RunRevenueRecognition a c x1 s))"
| req_SatisfyObligation: "request_step a c s (snd (api_SatisfyObligation a c x1 s))"
| req_AccrueRevenue: "request_step a c s (snd (api_AccrueRevenue a c x1 s))"
| req_CreatePrepayment: "request_step a c s (snd (api_CreatePrepayment a c x1 s))"
| req_RunAmortization: "request_step a c s (snd (api_RunAmortization a c x1 s))"
| req_CreateLease: "request_step a c s (snd (api_CreateLease a c x1 s))"
| req_RunLeasePeriod: "request_step a c s (snd (api_RunLeasePeriod a c x1 s))"
| req_RunCurrentTax: "request_step a c s (snd (api_RunCurrentTax a c x1 s))"
| req_RecognizeDeferredTax: "request_step a c s (snd (api_RecognizeDeferredTax a c x1 s))"
| req_RecognizeProvision: "request_step a c s (snd (api_RecognizeProvision a x1 c x2 s))"
| req_UnwindProvision: "request_step a c s (snd (api_UnwindProvision a c x1 s))"
| req_UtilizeProvision: "request_step a c s (snd (api_UtilizeProvision a c x1 s))"
| req_RemeasureProvision: "request_step a c s (snd (api_RemeasureProvision a c x1 s))"
| req_ReverseProvision: "request_step a c s (snd (api_ReverseProvision a c x1 s))"
| req_PostPayrollRun: "request_step a c s (snd (api_PostPayrollRun a c x1 s))"
| req_PostLeaveProvision: "request_step a c s (snd (api_PostLeaveProvision a c x1 s))"
| req_ValueLeaveLiability: "request_step a c s (snd (api_ValueLeaveLiability a c x1 s))"
| req_RegisterFixedAsset: "request_step a c s (snd (api_RegisterFixedAsset a c x1 s))"
| req_RunDepreciation: "request_step a c s (snd (api_RunDepreciation a c x1 s))"
| req_ImpairAsset: "request_step a c s (snd (api_ImpairAsset a c x1 s))"
| req_ReverseImpairment: "request_step a c s (snd (api_ReverseImpairment a c x1 s))"
| req_RevalueAsset: "request_step a c s (snd (api_RevalueAsset a c x1 s))"
| req_RegisterIntangibleAsset: "request_step a c s (snd (api_RegisterIntangibleAsset a c x1 s))"
| req_MatchStatementLine: "request_step a c s (snd (api_MatchStatementLine a c x1 x2 s))"
| req_AutoReconcileStatement: "request_step a c s (snd (api_AutoReconcileStatement a x1 s))"
| req_ConfirmStatementLine: "request_step a c s (snd (api_ConfirmStatementLine a c x1 s))"
| req_RejectStatementLine: "request_step a c s (snd (api_RejectStatementLine a x1 s))"
| req_SyncBankFeed: "request_step a c s (snd (api_SyncBankFeed a x1 c x2 s))"
| req_RunMatchCheck: "request_step a c s (snd (api_RunMatchCheck a c s))"
| req_ResolveMatchException: "request_step a c s (snd (api_ResolveMatchException a c x1 s))"
| req_WriteOffMatchVariance: "request_step a c s (snd (api_WriteOffMatchVariance a c x1 s))"
| req_ClearPaymentsClearingItem: "request_step a c s (snd (api_ClearPaymentsClearingItem a x1 x2 s))"
| req_CreateInvoice: "request_step a c s (snd (api_CreateInvoice a c x1 s))"
| req_IssueInvoice: "request_step a c s (snd (api_IssueInvoice a c x1 s))"
| req_CreateRecurringInvoice: "request_step a c s (snd (api_CreateRecurringInvoice a c x1 s))"
| req_RecordTimeEntry: "request_step a c s (snd (api_RecordTimeEntry a x1 c x2 s))"
| req_CreatePaymentIntent: "request_step a c s (snd (api_CreatePaymentIntent a c x1 s))"
| req_ConfirmPaymentIntent: "request_step a c s (snd (api_ConfirmPaymentIntent a c x1 s))"
| req_CreateInvoiceLegacy: "request_step a c s (snd (CreateInvoiceLegacy a c x1 x2 s))"
| req_CreateBillLegacy: "request_step a c s (snd (CreateBillLegacy a c x1 x2 s))"
| req_PatchInvoiceLegacy: "request_step a c s (snd (PatchInvoiceLegacy a x1 x2 s))"
| req_PatchBillLegacy: "request_step a c s (snd (PatchBillLegacy a x1 x2 s))"
| req_DeleteInvoiceLegacy: "request_step a c s (snd (DeleteInvoiceLegacy x1 s))"
| req_DeleteBillLegacy: "request_step a c s (snd (DeleteBillLegacy x1 s))"
| req_RecordWHTReceipt: "request_step a c s (snd (api_RecordWHTReceipt a x1 c x2 s))"
| req_RecordLateFee: "request_step a c s (snd (api_RecordLateFee a x1 c x2 s))"
| req_RecordFXConversion: "request_step a c s (snd (api_RecordFXConversion a x1 c x2 s))"
| req_CreateEntity: "request_step a c s (snd (api_CreateEntity a c x1 s))"
| req_SetEntityOwnership: "request_step a c s (snd (api_SetEntityOwnership a c x1 x2 s))"
| req_CreateCustomer: "request_step a c s (snd (api_CreateCustomer a x1 c x2 s))"
| req_CreateVendor: "request_step a c s (snd (api_CreateVendor a x1 c x2 s))"
| req_IngestPOSReceipts: "request_step a c s (snd (IngestPOSReceipts a c x1 s))"

section \<open>Requests stay within the service\<close>

abbreviation serves :: "api \<Rightarrow> db \<Rightarrow> (db, 'e, 'a) act \<Rightarrow> bool" where
  "serves a s0 m \<equiv> keeps (runs (env_hash (api_env a)) (env_round (api_env a)) s0) m"

named_theorems served "a handler that stays within the service"

lemma env_for_deployment [simp]:
  "env_hash (env_for a c) = env_hash (api_env a)" "env_round (env_for a c) = env_round (api_env a)"
  by (simp_all add: env_for_def)

lemma step_serves: "(\<And>s. service_step (env_for a c) s (snd (m s))) \<Longrightarrow> serves a s0 m"
  by (rule keepsI, rule runs.step [where env = "env_for a c"]) auto

lemmas service_runs = service_step.intros [THEN step_serves]

lemma keeps_answer [keeps_intros]: "keeps I m \<Longrightarrow> keeps I (answer f m)"
  by (auto simp: keeps_def answer_def split: prod.split sum.split)

text \<open>The checks of a request only read.\<close>

lemma reads_checks:
  "reads (body_of b body)" "reads (uuid_of a raw msg)" "reads (optional_uuid a raw msg)" "reads (optional_date raw msg)"
  "reads (amount_where a P msg raw)" "reads (date_in msg raw)" "reads (shape_of x)" "reads (amount_of a raw)"
  "reads (dimension_of a raw)" "reads (payment_amount a raw)" "reads (positive_amount a raw msg)" "reads (feed_day raw msg d)"
  "reads (numeric_text env raw)" "reads (ownership_text a raw)" "reads (GetJournalEntry i)"
  by (auto simp: reads_def body_of_def uuid_of_def optional_uuid_def optional_date_def amount_where_def date_in_def
      shape_of_def amount_of_def dimension_of_def payment_amount_def positive_amount_def feed_day_def numeric_text_def
      ownership_text_def GetJournalEntry_def split: option.split sum.split)

lemmas keeps_checks [keeps_intros] = reads_checks [THEN reads_keeps]

lemma keeps_composed_checks [keeps_intros]:
  "keeps I (parseLine a l)" "keeps I (parse_obligations a obs)" "keeps I (taxRate a raw)"
  "keeps I (bindProvisionOp a r)" "keeps I (parsePayrollAmounts a pr)" "keeps I (declining_rate a meth raw)"
  "keeps I (assetEffectiveDate a raw)" "keeps I (invoice_line_of a w)" "keeps I (update_parent a i ur)"
  unfolding parseLine_def parse_obligations_def taxRate_def bindProvisionOp_def parsePayrollAmounts_def
    declining_rate_def assetEffectiveDate_def invoice_line_of_def update_parent_def Let_def
  by (intro keeps_intros)+

lemma keeps_parseLines [keeps_intros]: "keeps I (parseLines a ls)"
  unfolding parseLines_def by (intro keeps_intros)

lemma keeps_ApprovalGuard [keeps_intros]: "keeps I (ApprovalGuard a x)" "keeps I (post_guard a i)"
  unfolding ApprovalGuard_def post_guard_def ApprovalRequired_def ListApprovalTiers_def by (intro keeps_intros)+

lemma served_ledger [served]:
  "serves a s0 (api_CreateChartAccount a x1a)"
  "serves a s0 (api_UpdateChartAccount a x1b x2b)"
  "serves a s0 (api_DeleteChartAccount a x1c)"
  "serves a s0 (api_CreateJournalEntry a c x1d)"
  "serves a s0 (api_SupersedeEntries a c x1e)"
  "serves a s0 (api_DeleteJournalEntry a x1f)"
  "serves a s0 (api_ReverseJournalEntry a c x1g x2g)"
  "serves a s0 (createAdjustment a c x1h x2h x3h)"
  unfolding api_CreateChartAccount_def api_UpdateChartAccount_def api_DeleteChartAccount_def
    api_CreateJournalEntry_def api_SupersedeEntries_def api_DeleteJournalEntry_def
    api_ReverseJournalEntry_def createAdjustment_def Let_def
  by (intro keeps_intros service_runs)+

lemma served_accounts [served]:
  "serves a s0 (api_CloseFiscalYear a c x1a)"
  unfolding api_CloseFiscalYear_def Let_def
  by (intro keeps_intros service_runs)+

lemma served_taxes [served]:
  "serves a s0 (api_UpsertExchangeRate a c x1a)"
  "serves a s0 (api_RevalueFX a c x1b)"
  "serves a s0 (api_RunECLProvision a c x1c)"
  "serves a s0 (api_WriteOffReceivable a c x1d)"
  "serves a s0 (api_RecoverReceivable a c x1e)"
  "serves a s0 (api_CreateRevenueSchedule a c x1f)"
  "serves a s0 (api_RunRevenueRecognition a c x1g)"
  "serves a s0 (api_SatisfyObligation a c x1h)"
  unfolding api_UpsertExchangeRate_def api_RevalueFX_def api_RunECLProvision_def api_WriteOffReceivable_def
    api_RecoverReceivable_def api_CreateRevenueSchedule_def api_RunRevenueRecognition_def
    api_SatisfyObligation_def Let_def
  by (intro keeps_intros service_runs)+

lemma served_schedules [served]:
  "serves a s0 (api_AccrueRevenue a c x1a)"
  "serves a s0 (api_CreatePrepayment a c x1b)"
  "serves a s0 (api_RunAmortization a c x1c)"
  "serves a s0 (api_CreateLease a c x1d)"
  "serves a s0 (api_RunLeasePeriod a c x1e)"
  "serves a s0 (api_RunCurrentTax a c x1f)"
  "serves a s0 (api_RecognizeDeferredTax a c x1g)"
  "serves a s0 (api_RecognizeProvision a x1h c x2h)"
  unfolding api_AccrueRevenue_def api_CreatePrepayment_def api_RunAmortization_def api_CreateLease_def
    api_RunLeasePeriod_def api_RunCurrentTax_def api_RecognizeDeferredTax_def api_RecognizeProvision_def
    Let_def
  by (intro keeps_intros service_runs)+

lemma served_provisions [served]:
  "serves a s0 (api_UnwindProvision a c x1a)"
  "serves a s0 (api_UtilizeProvision a c x1b)"
  "serves a s0 (api_RemeasureProvision a c x1c)"
  "serves a s0 (api_ReverseProvision a c x1d)"
  "serves a s0 (api_PostPayrollRun a c x1e)"
  "serves a s0 (api_PostLeaveProvision a c x1f)"
  "serves a s0 (api_ValueLeaveLiability a c x1g)"
  "serves a s0 (api_RegisterFixedAsset a c x1h)"
  unfolding api_UnwindProvision_def api_UtilizeProvision_def api_RemeasureProvision_def
    api_ReverseProvision_def api_PostPayrollRun_def api_PostLeaveProvision_def api_ValueLeaveLiability_def
    api_RegisterFixedAsset_def Let_def
  by (intro keeps_intros service_runs)+

lemma served_assets [served]:
  "serves a s0 (api_RunDepreciation a c x1a)"
  "serves a s0 (api_RegisterIntangibleAsset a c x1b)"
  unfolding api_RunDepreciation_def api_RegisterIntangibleAsset_def Let_def
  by (intro keeps_intros service_runs)+

lemma served_banking [served]:
  "serves a s0 (api_MatchStatementLine a c x1a x2a)"
  "serves a s0 (api_AutoReconcileStatement a x1b)"
  "serves a s0 (api_ConfirmStatementLine a c x1c)"
  "serves a s0 (api_RejectStatementLine a x1d)"
  "serves a s0 (api_SyncBankFeed a x1e c x2e)"
  "serves a s0 (api_RunMatchCheck a c)"
  "serves a s0 (api_ResolveMatchException a c x1g)"
  "serves a s0 (api_WriteOffMatchVariance a c x1h)"
  unfolding api_MatchStatementLine_def api_AutoReconcileStatement_def api_ConfirmStatementLine_def
    api_RejectStatementLine_def api_SyncBankFeed_def api_RunMatchCheck_def api_ResolveMatchException_def
    api_WriteOffMatchVariance_def Let_def
  by (intro keeps_intros service_runs)+

lemma served_documents [served]:
  "serves a s0 (api_ClearPaymentsClearingItem a x1a x2a)"
  "serves a s0 (api_CreateInvoice a c x1b)"
  "serves a s0 (api_IssueInvoice a c x1c)"
  "serves a s0 (api_CreateRecurringInvoice a c x1d)"
  "serves a s0 (api_RecordTimeEntry a x1e c x2e)"
  "serves a s0 (api_CreatePaymentIntent a c x1f)"
  "serves a s0 (api_ConfirmPaymentIntent a c x1g)"
  "serves a s0 (api_RecordWHTReceipt a x1h c x2h)"
  unfolding api_ClearPaymentsClearingItem_def api_CreateInvoice_def api_IssueInvoice_def
    api_CreateRecurringInvoice_def api_RecordTimeEntry_def api_CreatePaymentIntent_def
    api_ConfirmPaymentIntent_def api_RecordWHTReceipt_def Let_def
  by (intro keeps_intros service_runs)+

lemma served_parties [served]:
  "serves a s0 (api_RecordLateFee a x1a c x2a)"
  "serves a s0 (api_RecordFXConversion a x1b c x2b)"
  "serves a s0 (api_CreateEntity a c x1c)"
  "serves a s0 (api_SetEntityOwnership a c x1d x2d)"
  "serves a s0 (api_CreateCustomer a x1e c x2e)"
  "serves a s0 (api_CreateVendor a x1f c x2f)"
  unfolding api_RecordLateFee_def api_RecordFXConversion_def api_CreateEntity_def api_SetEntityOwnership_def
    api_CreateCustomer_def api_CreateVendor_def Let_def
  by (intro keeps_intros service_runs)+

text \<open>The handlers that choose among operations, or call one under another name.\<close>

lemma served_PostJournalEntry [served]: "serves a s0 (api_PostJournalEntry a c raw)"
  unfolding api_PostJournalEntry_def by (intro keeps_intros service_runs)

lemma served_period [served]: "serves a s0 (setPeriodStatus a c period close)"
  unfolding setPeriodStatus_def ClosePeriod_def ReopenPeriod_def by (intro keeps_intros service_runs)

lemma served_open_items [served]:
  "serves a s0 (api_CreateARItem a c r)" "serves a s0 (api_CreateAPItem a c q)"
  "serves a s0 (CreateInvoiceLegacy a c no v)" "serves a s0 (CreateBillLegacy a c no w)"
  unfolding api_CreateARItem_def api_CreateAPItem_def CreateInvoiceLegacy_def CreateBillLegacy_def CreateARItem_def
    CreateAPItem_def CreateAROpenItem_def CreateAPOpenItem_def Let_def
  by (intro keeps_intros service_runs)+

lemma served_legacy_changes [served]:
  "serves a s0 (PatchInvoiceLegacy a no p)" "serves a s0 (PatchBillLegacy a no q)"
  "serves a s0 (DeleteInvoiceLegacy no)" "serves a s0 (DeleteBillLegacy no)"
  unfolding PatchInvoiceLegacy_def PatchBillLegacy_def DeleteInvoiceLegacy_def DeleteBillLegacy_def patch_legacy_def
    delete_legacy_def UpdateARByDocumentRef_def UpdateAPByDocumentRef_def UpdateAROpenItem_def UpdateAPOpenItem_def
    DeleteAROpenItem_def DeleteAPOpenItem_def direction.case
  by (intro keeps_intros service_runs)+

lemma served_applyPayment [served]: "serves a s0 (applyPayment a c d raw body)"
  unfolding applyPayment_def Let_def
  by (cases d; simp only: direction.case; intro keeps_intros service_runs)

lemma served_approvals [served]:
  "serves a s0 (api_SubmitApproval a c body)" "serves a s0 (decideApproval a c approve raw note)"
  unfolding api_SubmitApproval_def decideApproval_def submit_journal_def submit_payment_def respondSubmit_def Let_def
  by (intro keeps_intros service_runs)+

lemma served_asset_changes [served]:
  "serves a s0 (api_ImpairAsset a c r)" "serves a s0 (api_ReverseImpairment a c r)" "serves a s0 (api_RevalueAsset a c r)"
  unfolding api_ImpairAsset_def api_ReverseImpairment_def api_RevalueAsset_def change_asset_def
  by (intro keeps_intros service_runs)+

lemma served_SelfAssessReverseCharge [served]: "serves a s0 (api_SelfAssessReverseCharge a c r)"
  unfolding api_SelfAssessReverseCharge_def service_SelfAssessReverseCharge_def by (intro keeps_intros service_runs)

lemma runs_ingest:
  "runs (env_hash (api_env a)) (env_round (api_env a)) s0 s \<Longrightarrow>
   runs (env_hash (api_env a)) (env_round (api_env a)) s0 (snd (ingest_receipts (env_for a c) terminal rs s))"
proof (induction rs arbitrary: s)
  case (Cons r rs)
  have "runs (env_hash (api_env a)) (env_round (api_env a)) s0
      (snd (BookFromEvent (env_for a c) ref desc cur ls s))" for ref desc cur ls
    by (rule keepsD [OF step_serves [OF service_step.book_event] Cons.prems])
  then have "runs (env_hash (api_env a)) (env_round (api_env a)) s0
      (snd (ingestOnePOSReceipt (env_for a c) terminal r s))"
    using Cons.prems by (simp add: ingestOnePOSReceipt_def Let_def split_beta split: sum.split)
  from Cons.IH [OF this] show ?case by (simp add: Let_def split_beta)
qed simp

lemma served_IngestPOSReceipts [served]: "serves a s0 (IngestPOSReceipts a c body)"
  unfolding IngestPOSReceipts_def
  by (intro keeps_intros) (simp add: keeps_def Let_def split_beta runs_ingest)

text \<open>Whatever is asked of the API, the database moves by steps of the service.\<close>

lemma serves_runs: "serves a s m \<Longrightarrow> runs (env_hash (api_env a)) (env_round (api_env a)) s (snd (m s))"
  by (rule keepsD, assumption, rule runs.here)

lemma request_runs:
  "request_step a c s t \<Longrightarrow> runs (env_hash (api_env a)) (env_round (api_env a)) s t"
  by (erule request_step.cases; hypsubst; rule serves_runs, rule served)

lemma runs_trans: "runs hash rnd s t \<Longrightarrow> runs hash rnd t u \<Longrightarrow> runs hash rnd s u"
  by (rotate_tac, induction rule: runs.induct) (auto intro: runs.step)

lemma reachable_runs: "reachable hash rnd s \<Longrightarrow> runs hash rnd s t \<Longrightarrow> reachable hash rnd t"
  unfolding reachable_def by (blast intro: runs_trans)

text \<open>A refused request changes nothing; one that is let in has a caller the gate admits.\<close>

lemma serve_cases:
  obtains e where "admit v pu route rq = Inl e" "serve v pu route rq h s = (Inl e, s)"
  | c where "admit v pu route rq = Inr c" "serve v pu route rq h s = h c s"
  by (cases "admit v pu route rq") (simp_all add: serve_def)

end
