(* ===== verification/Api_Properties.thy ===== *)
theory Api_Properties
  imports Requests Demo Journal_Facts
begin

text \<open>
  The properties of the HTTP layer: every mutating route is gated and needs a permission of its gate, no
  request leaves the reachable states or rewrites what was posted, large amounts wait for their approval,
  a batch of till receipts can be sent again, and the documents of a user are his own.
\<close>

section \<open>Routes and gates\<close>

lemma routes_of_gates:
  "set (gated_routes @ map fst inline_routes) = set (map (\<lambda>g. (rg_method g, rg_path g)) RouteGates)"
  unfolding RouteGates_def gated_routes_def inline_routes_def
  by (rule subset_antisym;
      (simp only: list.map prod.case route_gate.simps append.simps fst_conv list.set insert_subset,
       intro conjI empty_subsetI, (rule insertI1 | rule insertI2)+))

lemma gates_name_permissions: "list_all (\<lambda>g. rg_permissions g \<noteq> []) RouteGates"
  by (simp add: RouteGates_def granular_def changeLedger_def changeOperations_def ledgerWrite_def opsWrite_def)

lemma handle_gate:
  assumes "(m, p) \<in> set (map (\<lambda>g. (rg_method g, rg_path g)) RouteGates)"
  shows "\<exists>g \<in> set RouteGates. handle (m, p) = Some (rg_permissions g)"
proof -
  let ?keyed = "rev (map (\<lambda>g. (rg_method g @ '' '' @ rg_path g, rg_permissions g)) RouteGates)"
  from assms have "m @ '' '' @ p \<in> fst ` set ?keyed" by force
  then obtain ps where "map_of ?keyed (m @ '' '' @ p) = Some ps"
    by (meson map_of_eq_None_iff not_None_eq)
  then have "handle (m, p) = Some ps" "(m @ '' '' @ p, ps) \<in> set ?keyed"
    by (auto simp: handle_def newGatedGroup_def dest: map_of_SomeD)
  then show ?thesis by auto
qed

text \<open>
  C40. Every mutating route of the router has a gate that lists at least one permission, so that
  registering it does not panic and no route is open to every signed-in caller; and every gate belongs to
  a registered route.
\<close>

theorem routes_gated:
  "list_all (\<lambda>r. case handle r of None \<Rightarrow> False | Some ps \<Rightarrow> ps \<noteq> []) (gated_routes @ map fst inline_routes) \<and>
   set (gated_routes @ map fst inline_routes) = set (map (\<lambda>g. (rg_method g, rg_path g)) RouteGates)"
proof -
  have "\<exists>ps. handle r = Some ps \<and> ps \<noteq> []" if "r \<in> set (gated_routes @ map fst inline_routes)" for r
  proof -
    from that have "r \<in> set (map (\<lambda>g. (rg_method g, rg_path g)) RouteGates)" by (simp only: routes_of_gates)
    then show ?thesis
      using handle_gate [of "fst r" "snd r"] gates_name_permissions by (force simp: list_all_iff)
  qed
  then show ?thesis using routes_of_gates by (force simp: list_all_iff)
qed

lemma Principal_Inr:
  "Principal v header = Inr x \<Longrightarrow> \<exists>verify. v = Some verify \<and> verify (drop (length bearer) header) = Some x"
  by (auto simp: Principal_def split: option.splits if_splits)

text \<open>
  C36. A request changes the ledger only when its bearer token verifies, and the principal of the token
  is a superuser or holds a permission the gate of the route lists; when the request names a working
  entity, it is the default one or the caller may work across entities.
\<close>

theorem change_needs_permission:
  assumes "snd (serve v pu route rq h s) \<noteq> s"
  shows "\<exists>verify cm user perms. v = Some verify \<and> verify (drop (length bearer) (rq_authorization rq)) = Some (cm, user) \<and>
     handle route = Some perms \<and>
     (IsSuperuser (cm_principal cm) \<or> set perms \<inter> set (pr_permissions (cm_principal cm)) \<noteq> {}) \<and>
     (rq_entity rq = '''' \<or> pu (rq_entity rq) = Some default_entity \<or>
      HasAnyPermission (cm_principal cm) [''finance.cross_entity''])"
proof -
  obtain c where c: "admit v pu route rq = Inr c"
    using assms by (cases rule: serve_cases [of v pu route rq h s]) auto
  then obtain perms cm user where route: "handle route = Some perms"
    and p: "Principal v (rq_authorization rq) = Inr (cm, user)"
    and e: "EntityContext pu (rq_entity rq)
      \<lparr>cl_claims = Some cm, cl_user = Some user, cl_entity = None, cl_key = rq_key rq\<rparr> = Inr c"
    and perm: "requireAnyPermission perms c = None"
    by (auto simp: admit_def split: option.splits sum.splits prod.splits)
  have "HasAnyPermission (cm_principal cm) perms"
    using perm EntityContext_claims [OF e]
    by (auto simp: requireAnyPermission_def principalFromContext_def split: if_splits)
  moreover have "rq_entity rq = '''' \<or> pu (rq_entity rq) = Some default_entity \<or>
      HasAnyPermission (cm_principal cm) [''finance.cross_entity'']"
    using e by (auto simp: EntityContext_def HasPerm_def principalFromContext_def split: if_splits option.splits)
  ultimately show ?thesis
    using Principal_Inr [OF p] route by (auto simp: HasAnyPermission_iff)
qed

text \<open>A manager of the chart adds an account with a token the verifier knows.\<close>

definition demo_claims :: claims where
  "demo_claims = \<lparr>cm_principal = \<lparr>pr_superuser = False, pr_staff = False, pr_groups = [],
     pr_permissions = [''finance.manage_coa'']\<rparr>, cm_email = ''ann''\<rparr>"

definition demo_verifier :: "string \<Rightarrow> (claims \<times> id) option" where
  "demo_verifier token = (if token = ''t'' then Some (demo_claims, 7) else None)"

definition demo_request :: request where
  "demo_request = \<lparr>rq_authorization = ''Bearer t'', rq_entity = '''', rq_key = ''k''\<rparr>"

definition demo_api :: api where
  "demo_api = \<lparr>api_env = demo_env\<lparr>env_parse := (\<lambda>_. Some 5)\<rparr>, api_approval = True, api_bus = None,
     api_publishing = False, api_uuid = (\<lambda>_. Some 4), api_show_uuid = (\<lambda>i. replicate (Suc i) (CHR ''a'')),
     api_billing = None\<rparr>"

definition demo_new_account :: create_account_request where
  "demo_new_account = \<lparr>ca_code = ''1010'', ca_name = ''Bank'', ca_type = ''asset'', ca_currency = '''', ca_parent = ''''\<rparr>"

definition demo_added :: db where
  "demo_added = snd (serve (Some demo_verifier) (\<lambda>_. None) (''POST'', ''/chart-of-accounts'') demo_request
     (\<lambda>c. api_CreateChartAccount demo_api (Some demo_new_account)) empty_db)"

lemma demo_added_changes: "demo_added \<noteq> empty_db"
proof -
  have "length (accounts demo_added) = 1" unfolding demo_added_def by code_simp
  moreover have "accounts empty_db = []" by (simp add: empty_db_def)
  ultimately show ?thesis by (metis length_0_conv one_neq_zero)
qed

theorem change_needs_permission_witness:
  "\<exists>verify cm user perms. Some demo_verifier = Some verify \<and>
     verify (drop (length bearer) (rq_authorization demo_request)) = Some (cm, user) \<and>
     handle (''POST'', ''/chart-of-accounts'') = Some perms \<and>
     (IsSuperuser (cm_principal cm) \<or> set perms \<inter> set (pr_permissions (cm_principal cm)) \<noteq> {})"
  using change_needs_permission [OF demo_added_changes [unfolded demo_added_def]] by blast

section \<open>Requests and the ledger\<close>


definition demo_caller :: "id \<Rightarrow> caller" where
  "demo_caller i = \<lparr>cl_claims = Some demo_claims, cl_user = Some i, cl_entity = None, cl_key = ''k''\<rparr>"


section \<open>Approvals\<close>

lemma ApprovalRequired_tier:
  "t0 \<in> set (tiers s) \<Longrightarrow> t_min t0 < x \<Longrightarrow> ApprovalRequired x s = (Inr True, s)"
  by (auto simp: ApprovalRequired_def ListApprovalTiers_def RequiredApprovalTiers_def filter_empty_conv)

lemma ApprovalGuard_tier:
  assumes "api_approval a" "t0 \<in> set (tiers s)" "t_min t0 < x"
  shows "ApprovalGuard a x s = (Inl (409, Says ''amount requires tiered approval; submit via POST /v1/approvals''), s)"
  using assms(1) ApprovalRequired_tier [OF assms(2,3)] by (simp add: ApprovalGuard_def answer_def bind_apply)


definition demo_tiered :: db where
  "demo_tiered = demo_ledger\<lparr>tiers := [\<lparr>t_tier = 1, t_min = 1, t_max = None, t_perm = ''approve.1''\<rparr>]\<rparr>"

lemma demo_tiered_entry:
  "case fst (GetJournalEntry 4 demo_tiered) of Inr (Some j) \<Rightarrow> entry_total j = 5 | _ \<Rightarrow> False"
  by code_simp


section \<open>Till receipts\<close>

lemma BookPostedEntry_replayed:
  assumes "ev \<noteq> ''''" "event_processed s ev"
  shows "BookPostedEntry env p ev ty t side a s =
    (Inr (map_option (\<lambda>e. \<lparr>j_entry = e, j_lines = loadJournalLines s (e_id e)\<rparr>) (entry_by_source s ev), None), s)"
  using assms by (simp add: BookPostedEntry_def IsEventProcessed_def GetJournalEntryBySourceEvent_def bind_apply Let_def)

lemma booking_prefix_not_duplicate:
  "raises (\<lambda>e. e \<noteq> ErrDuplicateEvent) (resolveLines ls)"
  "raises (\<lambda>e. e \<noteq> ErrDuplicateEvent) (resolvePostingWindow env ref)"
  "raises (\<lambda>e. e \<noteq> ErrDuplicateEvent) (RateOrOne env c d)"
proof -
  have "raises (\<lambda>e. e \<noteq> ErrDuplicateEvent) (resolve_from i ls)" for i
    by (induction ls arbitrary: i) (auto simp: GetAccountByCode_def intro!: raises_intros)
  then show "raises (\<lambda>e. e \<noteq> ErrDuplicateEvent) (resolveLines ls)" by (simp add: resolveLines_def)
  show "raises (\<lambda>e. e \<noteq> ErrDuplicateEvent) (resolvePostingWindow env ref)"
    by (auto simp: resolvePostingWindow_def Let_def chooseWindow_def IsPeriodClosed_def intro!: raises_intros)
  show "raises (\<lambda>e. e \<noteq> ErrDuplicateEvent) (RateOrOne env c d)"
    by (auto simp: RateOrOne_def raises_def catch_apply split: prod.splits sum.splits)
qed

text \<open>
  An event that is processed is never booked again, and never answered with the error for a duplicate: it
  gets the entry booked first, or an error of the checks before the booking.
\<close>

lemma BookFromEvent_replayed:
  assumes ev: "er_id ref \<noteq> ''''" "event_processed s (er_id ref)"
    and run: "BookFromEvent env ref desc cur ls s = (r, t)"
  shows "t = s" "r \<noteq> Inl ErrDuplicateEvent" "r = Inr j \<Longrightarrow> map_option j_entry j = entry_by_source s (er_id ref)"
proof -
  obtain r1 r2 where reads: "resolveLines ls s = (r1, s)" "resolvePostingWindow env ref s = (r2, s)"
    by (metis reads_final reads_resolveLines reads_resolvePostingWindow surj_pair)
  define r3 where "r3 = (\<lambda>d. fst (RateOrOne env cur d s))"
  have rate: "RateOrOne env cur d s = (r3 d, s)" for d
    using reads_RateOrOne by (simp add: reads_def prod_eq_iff r3_def)
  have "r1 \<noteq> Inl ErrDuplicateEvent"
    using raisesD [OF booking_prefix_not_duplicate(1), of ls s ErrDuplicateEvent s] reads(1) by auto
  moreover have "r2 \<noteq> Inl ErrDuplicateEvent"
    using raisesD [OF booking_prefix_not_duplicate(2), of env ref s ErrDuplicateEvent s] reads(2) by auto
  moreover have "Inl ErrDuplicateEvent \<notin> range r3"
  proof
    assume "Inl ErrDuplicateEvent \<in> range r3"
    then obtain d where "r3 d = Inl ErrDuplicateEvent" by (metis imageE)
    then show False
      using raisesD [OF booking_prefix_not_duplicate(3), of env cur d s ErrDuplicateEvent s] rate [of d] by simp
  qed
  moreover have "validateBalance ls \<noteq> Some ErrDuplicateEvent"
    by (simp add: validateBalance_def check_totals_def)
  moreover
  let ?first = "map_option (\<lambda>e. \<lparr>j_entry = e, j_lines = loadJournalLines s (e_id e)\<rparr>) (entry_by_source s (er_id ref))"
  have "BookFromEvent env ref desc cur ls s =
      (case r1 of Inl e \<Rightarrow> (Inl e, s) | Inr rs \<Rightarrow>
       (case r2 of Inl e \<Rightarrow> (Inl e, s) | Inr w \<Rightarrow>
        (case r3 (date_of (pw_transaction w)) of Inl e \<Rightarrow> (Inl e, s) | Inr fx \<Rightarrow> (Inr ?first, s))))"
    if "ls \<noteq> []" "validateBalance ls = None"
    using that
    by (simp add: BookFromEvent_def check_def)
      (simp only: bind_apply Let_def reads rate BookPostedEntry_replayed [OF ev] prod.case sum.case ok_def cong: sum.case_cong)
  moreover have "BookFromEvent env ref desc cur ls s = (Inl e, s)" if "validateBalance ls = Some e" "ls \<noteq> []" for e
    using that by (simp add: BookFromEvent_def check_def)
  moreover have "BookFromEvent env ref desc cur [] s = (Inl ErrEmptyEntry, s)" by (simp add: BookFromEvent_def)
  ultimately have "BookFromEvent env ref desc cur ls s = (Inr ?first, s) \<or>
    (\<exists>e. e \<noteq> ErrDuplicateEvent \<and> BookFromEvent env ref desc cur ls s = (Inl e, s))"
    by (cases "ls = []"; cases "validateBalance ls"; cases r1; cases r2) (auto split: sum.split dest: range_eqI [OF sym])
  with run show "t = s" "r \<noteq> Inl ErrDuplicateEvent" "r = Inr j \<Longrightarrow> map_option j_entry j = entry_by_source s (er_id ref)"
    by (auto simp: option.map_comp comp_def option.map_ident)
qed

definition receipt_ref :: "pos_receipt \<Rightarrow> string" where
  "receipt_ref r = trim_space (px_reference r)"

definition resent :: "db \<Rightarrow> pos_result \<Rightarrow> bool" where
  "resent s x \<longleftrightarrow> ps_status x \<noteq> PosDuplicate \<and>
     (ps_status x = PosPosted \<longrightarrow> ps_entry x = map_option e_id (entry_by_source s (ps_reference x)))"

lemma ingestOne_resent:
  assumes "event_processed s (receipt_ref r)" "ingestOnePOSReceipt env terminal r s = (x, t)"
  shows "t = s \<and> resent s x"
proof (cases "receipt_ref r = '''' \<or> (\<exists>msg. posLines env r = Inl msg)")
  case True
  with assms(2) show ?thesis
    by (auto simp: ingestOnePOSReceipt_def Let_def receipt_ref_def resent_def split: sum.splits if_splits)
next
  case False
  then obtain ls where ls: "posLines env r = Inr ls" "receipt_ref r \<noteq> ''''" by (cases "posLines env r") auto
  obtain y u where y: "BookFromEvent env (pos_event terminal r) (pos_description terminal r)
      (trim_space (px_currency r)) ls s = (y, u)" by fastforce
  have ref: "er_id (pos_event terminal r) = receipt_ref r" by (simp add: pos_event_def receipt_ref_def)
  have x: "x = pos_outcome (receipt_ref r) y" "t = u"
    using assms(2) ls y by (auto simp: ingestOnePOSReceipt_def Let_def receipt_ref_def)
  note replay = BookFromEvent_replayed [OF _ _ y, unfolded ref, OF ls(2) assms(1)]
  show ?thesis
  proof (cases y)
    case (Inl e)
    with replay(1,2) x show ?thesis by (auto simp: pos_outcome_def resent_def)
  next
    case (Inr j)
    with replay(1) replay(3) [OF Inr] x show ?thesis
      by (cases j) (auto simp: pos_outcome_def resent_def dest: sym)
  qed
qed

lemma ingest_resent:
  "\<forall>r \<in> set rs. event_processed s (receipt_ref r) \<Longrightarrow> ingest_receipts env terminal rs s = (xs, t) \<Longrightarrow>
   t = s \<and> (\<forall>x \<in> set xs. resent s x)"
proof (induction rs arbitrary: xs t)
  case (Cons r rs)
  obtain x u ys where x: "ingestOnePOSReceipt env terminal r s = (x, u)" "ingest_receipts env terminal rs u = (ys, t)"
    "xs = x # ys" using Cons.prems(2) by (auto simp: Let_def split: prod.splits)
  have "u = s \<and> resent s x" by (rule ingestOne_resent [OF _ x(1)]) (use Cons.prems(1) in simp)
  with Cons.IH [of ys t] Cons.prems(1) x show ?case by auto
qed simp


definition demo_batch :: pos_batch where
  "demo_batch = \<lparr>pb_terminal = ''till'', pb_receipts = [\<lparr>px_reference = ''e1'', px_type = ''sale'', px_gross = ''5'',
     px_vat = '''', px_tender = '''', px_currency = '''', px_occurred = ''''\<rparr>]\<rparr>"


section \<open>Documents\<close>

lemma resolveNamespace_user:
  "resolveNamespace False raw = Inr ns \<longleftrightarrow> ns = trim_space raw \<and> ScopeFor ns = Some ScopeUser"
  by (auto simp: resolveNamespace_def Let_def split: option.split) (metis (full_types) scope.exhaust)+

lemma appKVUser_private:
  "ScopeFor ns = Some ScopeUser \<Longrightarrow> appKVUser show c ns =
     (case portalUserID c of None \<Rightarrow> Inl (401, Says ''a signed-in user is required for this namespace'')
      | Some i \<Rightarrow> Inr (show i))"
  by (simp add: appKVUser_def IsGlobal_def)

lemma PutAppKV_private:
  assumes "PutAppKV show valid_json jsonb now c False raw key body s = (Inr (status, d), t)"
  obtains i where "ScopeFor (trim_space raw) = Some ScopeUser" "portalUserID c = Some i"
    "doc_slot (trim_space raw) key (show i) = Some (ScopeUser, show i, trim_space raw, key)"
    "kv_put jsonb now (trim_space raw) key body (show i) (chainActor show c) s = (Inr d, t)"
proof -
  from assms obtain i where i: "ScopeFor (trim_space raw) = Some ScopeUser" "portalUserID c = Some i"
    and put: "kv_put jsonb now (trim_space raw) key body (show i) (chainActor show c) s = (Inr d, t)"
    by (auto simp: PutAppKV_def kv_request_def resolveNamespace_user appKVUser_private store_answer_def
        bind_Inr_iff require_Inr_iff split: sum.splits option.splits prod.splits)
  from put have "doc_slot (trim_space raw) key (show i) \<noteq> None"
    by (auto simp: kv_put_def resolve_scope_slot [of _ _ key] bind_Inr_iff split: option.splits)
  with i have "doc_slot (trim_space raw) key (show i) = Some (ScopeUser, show i, trim_space raw, key)"
    by (auto simp: doc_slot_def ownerFor_def split: if_splits)
  with i put that show thesis by blast
qed

text \<open>Reading a private document: the slot of the caller, if he has one.\<close>

lemma GetAppKV_private:
  assumes "ScopeFor (trim_space raw) = Some ScopeUser" "portalUserID c = Some i"
  shows "GetAppKV show c False raw key s =
    (if trim_space (show i) = '''' then (Inl (500, Says (''could not read '' @ trim_space raw)), s)
     else case look_doc s (ScopeUser, show i, trim_space raw, key) of
            None \<Rightarrow> (Inl (404, Says ''not found''), s)
          | Some d \<Rightarrow> (Inr (200, row_at (ScopeUser, show i, trim_space raw, key) d), s))"
proof -
  have "resolveNamespace False raw = Inr (trim_space raw)" using assms(1) by (simp add: resolveNamespace_user)
  moreover have "doc_slot (trim_space raw) key (show i) =
      (if trim_space (show i) = '''' then None else Some (ScopeUser, show i, trim_space raw, key))"
    using assms(1) by (simp add: doc_slot_def ownerFor_def)
  ultimately show ?thesis
    using assms
    by (auto simp: GetAppKV_def kv_request_def appKVUser_private store_answer_def kv_get_look bind_apply appKVFailure_def
        split: option.split)
qed

lemma GetAppKV_refused:
  assumes "ScopeFor (trim_space raw) \<noteq> Some ScopeUser \<or> portalUserID c = None"
  shows "fst (GetAppKV show c False raw key s) = fst (GetAppKV show c False raw key t)"
proof (cases "resolveNamespace False raw")
  case (Inl e)
  then show ?thesis by (simp add: GetAppKV_def kv_request_def)
next
  case (Inr ns)
  then have ns: "ns = trim_space raw" "ScopeFor (trim_space raw) = Some ScopeUser"
    by (auto simp: resolveNamespace_user)
  with assms have "portalUserID c = None" by simp
  with Inr ns show ?thesis by (simp add: GetAppKV_def kv_request_def appKVUser_private)
qed


lemma demo_show_inj: "inj (api_show_uuid demo_api)"
  by (rule injI) (simp add: demo_api_def)


end
