(* ===== verification/Spec2Isabelle.thy ===== *)
theory Spec2Isabelle
  imports Ledger_Properties Subledger_Properties Infrastructure_Properties Accounting_Properties
    Schedule_Properties Approval_Properties Ledger_Refinement Report_Properties Consumer_Properties
    Document_Properties Api_Properties
begin

text \<open>
  A verification library of the finance service: a double-entry general ledger over PostgreSQL with
  its sub-ledgers, an audit chain and a transactional outbox.

  \<^bold>\<open>The program.\<close> A request passes the middleware of \<open>internal/api\<close> (a verified token, the working
  entity, the permission gate of its route) and reaches a handler of \<open>internal/handlers\<close>, which checks the
  body, calls the service and maps its error to a status. Every write goes through a method of \<open>internal/ledger\<close> (the service: validation,
  period control, account codes) and one of \<open>internal/repository\<close> (SQL, in one transaction). The
  booking primitive \<open>BookPostedEntry\<close> (\<open>repository/booking.go\<close>) ties four things into one
  transaction: the number of an entry, the entry with its lines, the mark of the source event as
  processed, and the side effect of the caller (an open item, a payment, a schedule line, ...), with
  a row of the audit chain (\<open>internal/chainaudit\<close>). The sub-ledgers (open items and payments, notes,
  procurement and stock, matching, payroll, fixed assets, revenue, prepayments, leases, certificates
  and fees) all book through it or through the manual lifecycle draft - posted - reversed. Period
  statuses, exchange rates and the chart of accounts are read by all of them. Estimates (credit losses,
  provisions, income tax) and documents (invoices, bank statements, parties) surround the ledger and
  book the same way. Events of other services enter through \<open>internal/consumer\<close>, whose handlers call the
  service; what the service announces leaves through the outbox, and the consumer of its own stream
  books the bills it announced. Reports are read from the posted entries of an entity and what lies
  below it. The app-shell store (\<open>internal/appkv\<close>) keeps documents beside the ledger.

  \<^bold>\<open>The model.\<close> A method is a function from the database to its result and the new database
  (\<open>Actions.act\<close>: \<open>err + 'a\<close>, the state threaded by \<open>bind\<close>, \<open>catch\<close>, \<open>for_each\<close>, \<open>map_each\<close>);
  every \<open>error\<close> a method returns is a constructor of \<open>Schema.err\<close>. The database (\<open>Schema.db\<close>) is a
  record with one list of rows per table, in insertion order, one counter for the generated
  identifiers (uuids and serials), the entry-number sequence and the set of rows the deferred trigger
  has still to check. \<open>Schema.tx\<close> is a transaction: it runs the statements, checks the balance of
  every touched entry at commit (migrations 018, 044, 077) and on any error restores all but the
  sequences. Column checks, unique keys and foreign keys the code relies on are branches of the
  insertion that can break them. A locked row is a plain read, since a transaction is one step;
  interleaving is that of whole operations. Amounts are \<open>rat\<close>: a \<open>decimal.Decimal\<close> is exact, and
  every \<open>Round\<close>, \<open>NUMERIC(p, s)\<close> store and \<open>StringFixed\<close> of the source is an explicit rounding.
  Instants are nanoseconds (\<open>Go_Time\<close>), dates civil dates; strings are \<open>string\<close>.

  \<open>Schema.env\<close> collects what is not under \<open>src/\<close>: the clock of the call, rounding
  (\<open>rounding_laws\<close> states what the code relies on; \<open>round_half_away\<close> satisfies it), decimal parsing
  and printing, SHA-256. The broker is the argument of the relay, JSON decoding is one of the operations
  that use it. \<open>Ledger_Api.api\<close> adds what the handlers take from outside: parsing and printing of UUIDs,
  the approval flag of the configuration, the bus and the users service; the verifier of tokens is an
  argument of \<open>Access.admit\<close>.

  \<^bold>\<open>Theories and sources.\<close>
    \<^item> \<open>Prelude\<close>: strings, keyed rows, sums, the collections of facts. \<open>Go_Time\<close>: calendar and formats.
      \<open>Actions\<close>: the state-and-error monad, \<open>keeps\<close> (an invariant is kept), \<open>reads\<close>, \<open>raises\<close>.
      \<open>Schema\<close>: rows, database, errors, transactions, rounding.
    \<^item> \<open>Audit_Chain\<close>: \<open>internal/hashchain\<close>, \<open>internal/chainaudit\<close>. \<open>Outbox\<close>: \<open>repository/outbox.go\<close>,
      \<open>worker/outbox.go\<close>.
    \<^item> \<open>Journal\<close>: the journal part of \<open>repository/repository.go\<close> and \<open>repository/booking.go\<close>;
      \<open>Chart\<close>: the chart of accounts; \<open>Fx_Rates\<close>: \<open>repository/fx.go\<close>; \<open>Event_Date\<close>:
      \<open>ledger/eventdate.go\<close>; \<open>Ledger\<close>: \<open>ledger/service.go\<close>, \<open>ledger/validate.go\<close>,
      \<open>repository/periods.go\<close>.
    \<^item> \<open>Open_Items\<close>: open items and legacy invoices; \<open>Payments\<close>: settlement, payments, revaluation;
      \<open>Adjustments\<close>: credit and debit notes; \<open>Procurement\<close>: receipts, bills, stock, VAT; \<open>Matching\<close>:
      three-way match and payments clearing; \<open>Payroll\<close>; \<open>Year_End\<close>; \<open>Approvals\<close>; \<open>Fixed_Assets\<close>;
      \<open>Revenue_Schedules\<close>; \<open>Prepayments\<close>; \<open>Leases\<close>; \<open>Charges\<close>: withholding tax and late fees.
    \<^item> \<open>Document_Rows\<close>: the rows of the estimates and documents; \<open>Credit_Losses\<close>: \<open>provisions_ecl.go\<close>;
      \<open>Provisions\<close>: \<open>provisions_liab.go\<close>; \<open>Income_Tax\<close>: \<open>income_tax.go\<close>, \<open>intangible_assets.go\<close>,
      \<open>fx_conversions.go\<close>; \<open>Parties\<close>: \<open>parties.go\<close>, \<open>party_sync.go\<close>, \<open>portal_party.go\<close>, \<open>open_items.go\<close>;
      \<open>Billing\<close>: \<open>billing_invoices.go\<close>, \<open>invoicing.go\<close>, \<open>recurring.go\<close> (repository and worker),
      \<open>billable_time.go\<close>, \<open>payment_intents.go\<close>; \<open>Banking\<close>: \<open>reconciliation.go\<close>, \<open>integrations_store.go\<close>,
      \<open>banking.go\<close>, \<open>ap_orphans.go\<close>.
    \<^item> \<open>Reports\<close>: \<open>reports.go\<close>, \<open>reports_extra.go\<close>, \<open>cashflow.go\<close>, \<open>control_recon.go\<close>, \<open>budgets.go\<close>,
      \<open>projects.go\<close>; \<open>Entities\<close>: \<open>entity.go\<close>, \<open>consolidation.go\<close>.
    \<^item> \<open>Event_Codec\<close>: envelopes and the decoding of JSON fields; \<open>Consumers\<close>: the handlers of
      \<open>internal/consumer\<close>, one per event type, composed as each stream composes them.
    \<^item> \<open>Service\<close>: one rule of \<open>service_step\<close> per operation a caller can trigger, \<open>runs\<close> its closure and
      \<open>reachable\<close> the states it leads to from a database without history.
    \<^item> \<open>Access\<close>: \<open>internal/authz\<close>, \<open>internal/permissions\<close>, \<open>internal/middleware\<close>, \<open>api/gated_group.go\<close>,
      the routes of \<open>api/router.go\<close>; \<open>App_Store\<close>: \<open>appkv/appkv.go\<close>, \<open>handlers/appshell.go\<close>;
      \<open>Ledger_Api\<close>, \<open>Subledger_Api\<close>, \<open>Document_Api\<close>: the handlers of \<open>internal/handlers\<close> that change the
      ledger; \<open>Pos\<close>: \<open>handlers/pos_ingest.go\<close>; \<open>Requests\<close>: one rule of \<open>request_step\<close> per handler, behind
      the middleware (\<open>serve\<close>).
    \<^item> \<open>Journal_Invariants\<close>, \<open>Booking\<close>, \<open>Entry_Numbers\<close>, \<open>Subledgers\<close>, \<open>History\<close>, \<open>Side_Tables\<close>,
      \<open>Books\<close>, \<open>Transactions\<close>: the lemmas; \<open>Journal_Facts\<close>, \<open>Settlement\<close>, \<open>Reporting\<close>: the exact
      effect of posting, reversing, settling and reporting; \<open>Demo\<close>: concrete databases.
    \<^item> \<open>Ledger_Properties\<close>, \<open>Ledger_Refinement\<close>, \<open>Subledger_Properties\<close>, \<open>Infrastructure_Properties\<close>,
      \<open>Accounting_Properties\<close>, \<open>Schedule_Properties\<close>, \<open>Approval_Properties\<close>, \<open>Report_Properties\<close>,
      \<open>Consumer_Properties\<close>, \<open>Document_Properties\<close>, \<open>Api_Properties\<close>: the properties.

  \<^bold>\<open>How the lemmas are organised.\<close> \<open>keeps I m\<close> says that an action keeps an invariant in both of its
  outcomes; the collection \<open>keeps_intros\<close> proves it along the structure of a definition. The locale
  \<open>event_booking\<close> is the contract of an idempotent booking (a booked event is replayed and nothing
  changes), interpreted by the booking primitive and by the payment transaction. The locale
  \<open>subledger\<close> is what an invariant of a sub-ledger needs of the primitives to survive any booking;
  the open items, the payments and the approvals interpret it. The locale \<open>core_invariant\<close> gives
  the invariants of the core (journal, audit chain, numbers, open items, payments, history) the
  operations of the components that only add rows to side tables. \<open>Books.books\<close> is their
  conjunction, and every rule of \<open>service_step\<close> keeps it (\<open>Service.reachable_books\<close>). A request makes
  only service steps (\<open>Requests.request_runs\<close>), so it holds behind the API too. The locale
  \<open>document_store\<close> is the contract of a keyed store of documents, interpreted by the app-shell table.

  \<^bold>\<open>What is shown.\<close> In every reachable state: posted entries balance, lines are well formed, entries
  are identified by id, number and event, what is posted is never edited or lost, what is paid on an
  item is the sum of its payments, the audit log verifies. On every branch: what booking, posting,
  reversing, superseding, paying, billing, receiving, depreciating, deferring, leasing and closing a
  year do. Redelivery of an event changes nothing; the relay delivers each event, in order, and gives
  up after the attempts the code allows; sign-off needs one signature per tier and terminates. The
  balance sheet balances, the cash flow statement explains the change in cash and the eliminations of
  a group balance. Across components: a fuel event becomes a payable, its announcement, and, once that
  comes back, a posted entry the payable points to; a confirmed bank line pays its document once. Of the API:
  every mutating route is gated and a change needs a permission of its gate, no request leaves the
  reachable states or rewrites what is posted, an amount above the threshold is not posted without its
  approval, a batch of till receipts can be sent again, and a user's documents are his own.

  \<^bold>\<open>Bounds and fuel.\<close> No definition needs fuel: loops of the source run over lists or count down a
  natural number (\<open>drain\<close> counts relay passes and its properties state how many are enough). Entry
  numbers are injective up to 999999, where the rendering of the source truncates; the properties that
  need it say so. Serial keys and \<open>int\<close> counters are unbounded.

  \<^bold>\<open>Not modelled.\<close> Verification of tokens, rate limiting, request and business logs, e-mails, the
  websocket, attachments, configuration, the connection pool, the broker client and caches (plumbing);
  the endpoints that only read; calls to external services and PDF rendering; SQL failures other than
  constraint violations (lost connections, serialization failures); the legacy \<open>backend/\<close>; the
  listings, EFRIS rows and stores the manifest notes as left out. Row-level interleaving inside a transaction
  is not modelled: the code serialises it by row locks and unique keys. Of the consumers the Kafka
  client, its retries and dead letters, log lines and the best-effort audit note of a booking are left
  out; JSON numbers are rationals, and text that the code folds or trims is taken to be ASCII.
\<close>

end
